(* ===== verification/Prelude.thy ===== *)
theory Prelude
  imports Main "HOL-Library.Word" "HOL-Library.Sublist"
begin

text \<open>
  Shared vocabulary of the development: Rust's machine integers and the part of Rust's
  \<^verbatim>\<open>str\<close>/\<^verbatim>\<open>String\<close> library the modelled crates use.

  A Rust \<^verbatim>\<open>&str\<close> is modelled by its UTF-8 bytes, one HOL \<^typ>\<open>char\<close> per byte, so
  \<^verbatim>\<open>s.len()\<close> is \<open>length s\<close> and \<^verbatim>\<open>s.as_bytes()\<close> is \<open>s\<close> itself. Operations that
  Rust defines on Unicode scalar values (\<^verbatim>\<open>trim\<close>, \<^verbatim>\<open>split_whitespace\<close>,
  \<^verbatim>\<open>chars().count()\<close>, \<^verbatim>\<open>is_char_boundary\<close>) are defined on the bytes through the
  UTF-8 encoding of those values; \<^verbatim>\<open>b as char\<close> pushed to a \<^verbatim>\<open>String\<close> is the UTF-8
  encoding of the Latin-1 character \<open>b\<close> (\<open>latin1\<close>), two bytes from 128 on.
\<close>

named_theorems rust_str \<open>facts about the Rust string operations\<close>
named_theorems ascii_text \<open>the string operations on ASCII text\<close>
named_theorems sev_mono \<open>an operation never lowers the severity found so far\<close>

section \<open>Machine integers\<close>

type_synonym u8 = "8 word"
type_synonym u32 = "32 word"
type_synonym u64 = "64 word"
type_synonym i64 = "64 word"

definition saturating_add :: "'a::len word \<Rightarrow> 'a word \<Rightarrow> 'a word" where
  "saturating_add a b = (if unat a + unat b < 2 ^ LENGTH('a) then a + b else - 1)"

lemma unat_saturating_add:
  "unat (saturating_add a b) = min (unat a + unat b) (2 ^ LENGTH('a) - 1)"
  for a b :: "'a::len word"
proof (cases "unat a + unat b < 2 ^ LENGTH('a)")
  case True
  then show ?thesis by (simp add: saturating_add_def unat_word_ariths)
next
  case False
  then show ?thesis by (simp add: saturating_add_def unsigned_minus_1_eq_mask mask_eq_exp_minus_1)
qed

lemma saturating_add_ge [simp]: "a \<le> saturating_add a b"
  for a b :: "'a::len word"
proof -
  have "unat a < 2 ^ LENGTH('a)" by simp
  then have "unat a \<le> 2 ^ LENGTH('a) - 1" by linarith
  then show ?thesis by (simp add: word_le_nat_alt unat_saturating_add)
qed

section \<open>Bytes, code points and UTF-8\<close>

abbreviation code :: "char \<Rightarrow> nat" where
  "code c \<equiv> of_char c"

abbreviation (input) ascii :: "char \<Rightarrow> bool" where
  "ascii c \<equiv> code c < 128"

abbreviation dquote :: char where "dquote \<equiv> CHR 0x22"
abbreviation squote :: char where "squote \<equiv> CHR 0x27"
abbreviation backslash :: char where "backslash \<equiv> CHR 0x5C"
abbreviation backtick :: char where "backtick \<equiv> CHR 0x60"
abbreviation newline :: char where "newline \<equiv> CHR 0x0A"
abbreviation carriage :: char where "carriage \<equiv> CHR 0x0D"

definition utf8 :: "nat \<Rightarrow> string" where
  "utf8 n =
     (if n < 0x80 then [char_of n]
      else if n < 0x800 then [char_of (0xC0 + n div 64), char_of (0x80 + n mod 64)]
      else if n < 0x10000 then
        [char_of (0xE0 + n div 4096), char_of (0x80 + n div 64 mod 64), char_of (0x80 + n mod 64)]
      else
        [char_of (0xF0 + n div 262144), char_of (0x80 + n div 4096 mod 64),
         char_of (0x80 + n div 64 mod 64), char_of (0x80 + n mod 64)])"

definition latin1 :: "char \<Rightarrow> string" where
  "latin1 c = utf8 (code c)"

definition lat :: "string \<Rightarrow> string" where
  "lat s = concat (map latin1 s)"

definition ascii_str :: "string \<Rightarrow> bool" where
  "ascii_str s = list_all (\<lambda>c. code c < 128) s"

definition ascii_count :: "string \<Rightarrow> nat" where
  "ascii_count s = length (filter (\<lambda>c. code c < 128) s)"

lemma latin1_ascii [simp, ascii_text]: "ascii c \<Longrightarrow> latin1 c = [c]"
  by (simp add: latin1_def utf8_def)

lemma latin1_not_Nil [simp]: "latin1 c \<noteq> []"
  by (simp add: latin1_def utf8_def)

lemma ascii_count_simps [simp]:
  "ascii_count [] = 0"
  "ascii_count (c # s) = (if ascii c then Suc (ascii_count s) else ascii_count s)"
  "ascii_count (s @ t) = ascii_count s + ascii_count t"
  by (simp_all add: ascii_count_def)

lemma latin1_high: "\<not> ascii c \<Longrightarrow>
   latin1 c = [char_of (0xC0 + code c div 64), char_of (0x80 + code c mod 64)]"
  using nat_of_char_less_256 [of c] by (auto simp: latin1_def utf8_def simp del: nat_of_char_less_256)

lemma code_char_of_small: "n < 256 \<Longrightarrow> code (char_of n) = n"
  by simp

lemma ascii_count_latin1 [simp]: "ascii_count (latin1 c) = (if ascii c then 1 else 0)"
proof (cases "ascii c")
  case False
  have "code c div 64 < 64"
    using nat_of_char_less_256 [of c] by linarith
  then have 1: "code (char_of (0xC0 + code c div 64)) = 0xC0 + code c div 64"
    by (intro code_char_of_small) simp
  have 2: "code (char_of (0x80 + code c mod 64)) = 0x80 + code c mod 64"
    by (rule code_char_of_small) (use mod_less_divisor [of 64 "code c"] in linarith)
  show ?thesis using False by (simp add: latin1_high 1 2 del: of_char_of)
qed simp

lemma lat_simps [simp]:
  "lat [] = []"
  "lat (c # s) = latin1 c @ lat s"
  "lat (s @ t) = lat s @ lat t"
  by (simp_all add: lat_def)

lemma ascii_str_simps [simp]:
  "ascii_str []"
  "ascii_str (c # s) \<longleftrightarrow> ascii c \<and> ascii_str s"
  "ascii_str (s @ t) \<longleftrightarrow> ascii_str s \<and> ascii_str t"
  by (simp_all add: ascii_str_def)

lemma lat_ascii [simp, ascii_text]: "ascii_str s \<Longrightarrow> lat s = s"
  by (induction s) simp_all

lemma ascii_count_lat [simp]: "ascii_count (lat s) = ascii_count s"
  by (induction s) simp_all

section \<open>White space\<close>

text \<open>
  \<^verbatim>\<open>char::is_whitespace\<close> holds of the code points with the Unicode property
  \<^verbatim>\<open>White_Space\<close>: U+0009 to U+000D, U+0020, U+0085, U+00A0, U+1680, U+2000 to U+200A,
  U+2028, U+2029, U+202F, U+205F and U+3000. They are told apart by the length of their
  UTF-8 encoding. None of the continuation bytes (128 to 191) starts an encoding, so the
  byte-wise scans below stop only at character boundaries.
\<close>

definition ws1 :: "char \<Rightarrow> bool" where
  "ws1 b = (code b = 32 \<or> (9 \<le> code b \<and> code b \<le> 13))"

definition ws2 :: "char \<Rightarrow> char \<Rightarrow> bool" where
  "ws2 b0 b1 = (code b0 = 0xC2 \<and> (code b1 = 0x85 \<or> code b1 = 0xA0))"

definition ws3 :: "char \<Rightarrow> char \<Rightarrow> char \<Rightarrow> bool" where
  "ws3 b0 b1 b2 =
     ((code b0 = 0xE1 \<and> code b1 = 0x9A \<and> code b2 = 0x80) \<or>
      (code b0 = 0xE2 \<and> code b1 = 0x80 \<and>
        ((0x80 \<le> code b2 \<and> code b2 \<le> 0x8A) \<or> code b2 = 0xA8 \<or> code b2 = 0xA9 \<or> code b2 = 0xAF)) \<or>
      (code b0 = 0xE2 \<and> code b1 = 0x81 \<and> code b2 = 0x9F) \<or>
      (code b0 = 0xE3 \<and> code b1 = 0x80 \<and> code b2 = 0x80))"

text \<open>The number of bytes of the white space character a string begins with, 0 for none;
  \<open>ws_rlen\<close> is the same for the end of the string, given reversed.\<close>

definition ws_len :: "string \<Rightarrow> nat" where
  "ws_len s = (case s of
       [] \<Rightarrow> 0
     | b0 # r \<Rightarrow> if ws1 b0 then 1 else (case r of
           [] \<Rightarrow> 0
         | b1 # r' \<Rightarrow> if ws2 b0 b1 then 2 else (case r' of
               [] \<Rightarrow> 0
             | b2 # _ \<Rightarrow> if ws3 b0 b1 b2 then 3 else 0)))"

definition ws_rlen :: "string \<Rightarrow> nat" where
  "ws_rlen s = (case s of
       [] \<Rightarrow> 0
     | b0 # r \<Rightarrow> if ws1 b0 then 1 else (case r of
           [] \<Rightarrow> 0
         | b1 # r' \<Rightarrow> if ws2 b1 b0 then 2 else (case r' of
               [] \<Rightarrow> 0
             | b2 # _ \<Rightarrow> if ws3 b2 b1 b0 then 3 else 0)))"

lemma ws_len_Nil [simp]: "ws_len [] = 0" and ws_rlen_Nil [simp]: "ws_rlen [] = 0"
  by (simp_all add: ws_len_def ws_rlen_def)

lemma not_ws2_ascii [simp]: "ascii b \<Longrightarrow> \<not> ws2 b c" and not_ws3_ascii [simp]: "ascii b \<Longrightarrow> \<not> ws3 b c d"
  by (auto simp: ws2_def ws3_def)

lemma not_ws2_ascii_r [simp]: "ascii b \<Longrightarrow> \<not> ws2 c b" and not_ws3_ascii_r [simp]: "ascii b \<Longrightarrow> \<not> ws3 c d b"
  by (auto simp: ws2_def ws3_def)

lemma ws_len_ascii [ascii_text]: "ascii c \<Longrightarrow> ws_len (c # s) = (if ws1 c then 1 else 0)"
  by (auto simp: ws_len_def split: list.splits)

lemma ws_rlen_ascii [ascii_text]: "ascii c \<Longrightarrow> ws_rlen (c # s) = (if ws1 c then 1 else 0)"
  by (auto simp: ws_rlen_def split: list.splits)

function trim_start :: "string \<Rightarrow> string" where
  "trim_start s = (if ws_len s = 0 then s else trim_start (drop (ws_len s) s))"
  by pat_completeness auto
termination
  by (relation "measure length") (auto intro!: diff_less simp: ws_len_def split: list.splits)

function trim_rev :: "string \<Rightarrow> string" where
  "trim_rev s = (if ws_rlen s = 0 then s else trim_rev (drop (ws_rlen s) s))"
  by pat_completeness auto
termination
  by (relation "measure length") (auto intro!: diff_less simp: ws_rlen_def split: list.splits)

declare trim_start.simps [simp del] trim_rev.simps [simp del]

definition trim_end :: "string \<Rightarrow> string" where
  "trim_end s = rev (trim_rev (rev s))"

definition trim :: "string \<Rightarrow> string" where
  "trim s = trim_end (trim_start s)"

lemma trim_start_Nil [simp]: "trim_start [] = []"
  by (simp add: trim_start.simps)

lemma trim_rev_Nil [simp]: "trim_rev [] = []"
  by (simp add: trim_rev.simps)

lemma trim_Nil [simp]: "trim [] = []"
  by (simp add: trim_def trim_end_def)

lemma trim_start_ascii [ascii_text]:
  "ascii c \<Longrightarrow> trim_start (c # s) = (if ws1 c then trim_start s else c # s)"
  by (subst trim_start.simps) (simp add: ws_len_ascii)

lemma trim_rev_ascii [ascii_text]:
  "ascii c \<Longrightarrow> trim_rev (c # s) = (if ws1 c then trim_rev s else c # s)"
  by (subst trim_rev.simps) (simp add: ws_rlen_ascii)

lemma suffix_trim_start [rust_str]: "suffix (trim_start s) s"
proof (induction s rule: trim_start.induct)
  case (1 s)
  show ?case
  proof (cases "ws_len s = 0")
    case True
    then show ?thesis by (simp add: trim_start.simps [of s])
  next
    case False
    with "1" have "suffix (trim_start (drop (ws_len s) s)) (drop (ws_len s) s)" by simp
    also have "suffix (drop (ws_len s) s) s" by (rule suffix_drop)
    finally show ?thesis using False by (simp add: trim_start.simps [of s])
  qed
qed

lemma suffix_trim_rev: "suffix (trim_rev s) s"
proof (induction s rule: trim_rev.induct)
  case (1 s)
  show ?case
  proof (cases "ws_rlen s = 0")
    case True
    then show ?thesis by (simp add: trim_rev.simps [of s])
  next
    case False
    with "1" have "suffix (trim_rev (drop (ws_rlen s) s)) (drop (ws_rlen s) s)" by simp
    also have "suffix (drop (ws_rlen s) s) s" by (rule suffix_drop)
    finally show ?thesis using False by (simp add: trim_rev.simps [of s])
  qed
qed

lemma prefix_trim_end [rust_str]: "prefix (trim_end s) s"
  using suffix_trim_rev [of "rev s"] by (simp add: trim_end_def suffix_to_prefix)

lemma sublist_trim [rust_str]: "sublist (trim s) s"
  unfolding trim_def
  by (meson prefix_trim_end suffix_trim_start sublist_order.order_trans prefix_imp_sublist suffix_imp_sublist)

lemma length_trim_le [rust_str]: "length (trim s) \<le> length s"
  using sublist_trim by (rule sublist_length_le)

lemma ws_len_trim_start [simp]: "ws_len (trim_start s) = 0"
proof (induction s rule: trim_start.induct)
  case (1 s)
  then show ?case by (cases "ws_len s = 0") (simp_all add: trim_start.simps [of s])
qed

lemma ws_rlen_trim_rev [simp]: "ws_rlen (trim_rev s) = 0"
proof (induction s rule: trim_rev.induct)
  case (1 s)
  then show ?case by (cases "ws_rlen s = 0") (simp_all add: trim_rev.simps [of s])
qed

lemma ws_len_prefix: "prefix p s \<Longrightarrow> ws_len s = 0 \<Longrightarrow> ws_len p = 0"
  by (auto simp: prefix_def ws_len_def split: list.splits if_splits)

lemma trim_start_id: "ws_len s = 0 \<Longrightarrow> trim_start s = s"
  by (simp add: trim_start.simps)

lemma trim_rev_id: "ws_rlen s = 0 \<Longrightarrow> trim_rev s = s"
  by (simp add: trim_rev.simps)

lemma trim_idem [simp, rust_str]: "trim (trim s) = trim s"
proof -
  have "ws_len (trim s) = 0"
    unfolding trim_def by (rule ws_len_prefix [OF prefix_trim_end]) simp
  then have "trim_start (trim s) = trim s" by (rule trim_start_id)
  moreover have "trim_rev (rev (trim s)) = rev (trim s)"
    by (rule trim_rev_id) (simp add: trim_def trim_end_def)
  ultimately show ?thesis by (simp add: trim_def [of "trim s"] trim_end_def)
qed

text \<open>Text that begins and ends with an ASCII character that is not white space is already trimmed.\<close>

lemma trim_solid [ascii_text]:
  assumes "s \<noteq> []" and "ascii (hd s)" "\<not> ws1 (hd s)" and "ascii (last s)" "\<not> ws1 (last s)"
  shows "trim s = s"
proof -
  have "trim_start s = s"
    using assms by (cases s) (simp_all add: trim_start_ascii)
  moreover have "trim_rev (rev s) = rev s"
    using assms by (cases s rule: rev_cases) (simp_all add: trim_rev_ascii)
  ultimately show ?thesis by (simp add: trim_def trim_end_def)
qed

section \<open>Splitting and searching\<close>

text \<open>\<^verbatim>\<open>str::split_whitespace\<close>: the maximal runs without white space.\<close>

fun take_token :: "string \<Rightarrow> string \<times> string" where
  "take_token [] = ([], [])"
| "take_token (c # cs) =
     (if ws_len (c # cs) > 0 then ([], c # cs)
      else case take_token cs of (t, r) \<Rightarrow> (c # t, r))"

lemma take_token_append: "take_token s = (t, r) \<Longrightarrow> s = t @ r"
  by (induction s arbitrary: t r) (auto split: if_splits prod.splits)

lemma take_token_rest_less:
  "s \<noteq> [] \<Longrightarrow> ws_len s = 0 \<Longrightarrow> length (snd (take_token s)) < length s"
  by (cases s) (auto split: prod.splits dest!: take_token_append)

function split_whitespace :: "string \<Rightarrow> string list" where
  "split_whitespace s =
     (if trim_start s = [] then []
      else fst (take_token (trim_start s)) # split_whitespace (snd (take_token (trim_start s))))"
  by pat_completeness auto
termination
proof (relation "measure length")
  fix s :: string
  assume ne: "trim_start s \<noteq> []"
  have "length (snd (take_token (trim_start s))) < length (trim_start s)"
    by (rule take_token_rest_less [OF ne]) simp
  also have "length (trim_start s) \<le> length s"
    by (rule suffix_length_le [OF suffix_trim_start])
  finally show "(snd (take_token (trim_start s)), s) \<in> measure length" by simp
qed simp

declare split_whitespace.simps [simp del]

lemma split_whitespace_Nil [simp]: "split_whitespace [] = []"
  by (simp add: split_whitespace.simps)

text \<open>Tokens of ASCII bytes that are not white space.\<close>

definition solid_token :: "string \<Rightarrow> bool" where
  "solid_token t = list_all (\<lambda>c. code c < 128 \<and> \<not> ws1 c) t"

lemma solid_token_simps [simp]:
  "solid_token []"
  "solid_token (c # t) \<longleftrightarrow> ascii c \<and> \<not> ws1 c \<and> solid_token t"
  by (simp_all add: solid_token_def)

lemma trim_token [ascii_text]: "solid_token t \<Longrightarrow> trim t = t"
proof (cases "t = []")
  case False
  assume "solid_token t"
  then have "\<forall>c \<in> set t. ascii c \<and> \<not> ws1 c" by (simp add: solid_token_def list_all_iff)
  then show ?thesis using False by (intro trim_solid) auto
qed simp

lemma take_token_solid:
  "solid_token t \<Longrightarrow> take_token t = (t, [])"
  "solid_token t \<Longrightarrow> take_token (t @ CHR '' '' # s) = (t, CHR '' '' # s)"
  by (induction t) (simp_all add: ws_len_ascii ws1_def)

lemma trim_start_token: "solid_token t \<Longrightarrow> t \<noteq> [] \<Longrightarrow> trim_start (t @ s) = t @ s"
  by (cases t) (simp_all add: trim_start_ascii)

lemma split_whitespace_token [ascii_text]: "solid_token t \<Longrightarrow> t \<noteq> [] \<Longrightarrow> split_whitespace t = [t]"
  using trim_start_token [of t "[]"]
  by (simp add: split_whitespace.simps [of t] take_token_solid)

lemma split_whitespace_token_space [ascii_text]:
  assumes "solid_token t" and "t \<noteq> []"
  shows "split_whitespace (t @ CHR '' '' # s) = t # split_whitespace s"
proof -
  have "trim_start (CHR '' '' # s) = trim_start s" by (simp add: trim_start_ascii ws1_def)
  then have "split_whitespace (CHR '' '' # s) = split_whitespace s"
    by (simp add: split_whitespace.simps [of "CHR '' '' # s"] split_whitespace.simps [of s])
  then show ?thesis
    using assms trim_start_token [of t "CHR '' '' # s"]
    by (simp add: split_whitespace.simps [of "t @ CHR '' '' # s"] take_token_solid)
qed

definition first_token :: "string \<Rightarrow> string option" where
  "first_token s = (case split_whitespace s of [] \<Rightarrow> None | t # _ \<Rightarrow> Some t)"

text \<open>\<^verbatim>\<open>str::split(char)\<close>: always at least one piece.\<close>

fun split_on :: "char \<Rightarrow> string \<Rightarrow> string list" where
  "split_on d [] = [[]]"
| "split_on d (c # cs) =
     (if c = d then [] # split_on d cs
      else case split_on d cs of [] \<Rightarrow> [[c]] | p # ps \<Rightarrow> (c # p) # ps)"

lemma split_on_not_Nil [simp]: "split_on d s \<noteq> []"
  by (cases s) (auto split: list.splits)

lemma split_on_id: "d \<notin> set s \<Longrightarrow> split_on d s = [s]"
  by (induction s) auto

lemma split_on_append: "d \<notin> set s \<Longrightarrow> split_on d (s @ d # t) = s # split_on d t"
  by (induction s) auto

text \<open>\<^verbatim>\<open>str::join\<close> and the inverse law with \<open>split_on\<close>.\<close>

fun join_with :: "string \<Rightarrow> string list \<Rightarrow> string" where
  "join_with sep [] = []"
| "join_with sep [x] = x"
| "join_with sep (x # y # ys) = x @ sep @ join_with sep (y # ys)"

lemma join_split_on: "join_with [d] (split_on d s) = s"
proof (induction s)
  case (Cons c cs)
  obtain p ps where "split_on d cs = p # ps" by (cases "split_on d cs") auto
  with Cons show ?case by (cases ps) auto
qed simp

text \<open>\<^verbatim>\<open>strip_prefix\<close>, \<^verbatim>\<open>find\<close>, \<^verbatim>\<open>rfind\<close>, \<^verbatim>\<open>contains\<close>: byte searches, which on valid
  UTF-8 agree with searches for the encoded text.\<close>

definition strip_prefix :: "string \<Rightarrow> string \<Rightarrow> string option" where
  "strip_prefix p s = (if prefix p s then Some (drop (length p) s) else None)"

fun find_sub :: "string \<Rightarrow> string \<Rightarrow> nat option" where
  "find_sub p [] = (if p = [] then Some 0 else None)"
| "find_sub p (c # cs) = (if prefix p (c # cs) then Some 0 else map_option Suc (find_sub p cs))"

fun find_char :: "char \<Rightarrow> string \<Rightarrow> nat option" where
  "find_char d [] = None"
| "find_char d (c # cs) = (if c = d then Some 0 else map_option Suc (find_char d cs))"

definition rfind_char :: "char \<Rightarrow> string \<Rightarrow> nat option" where
  "rfind_char d s = map_option (\<lambda>k. length s - 1 - k) (find_char d (rev s))"

definition contains_str :: "string \<Rightarrow> string \<Rightarrow> bool" where
  "contains_str s p = (find_sub p s \<noteq> None)"

lemma strip_prefix_Some [rust_str]: "strip_prefix p s = Some r \<longleftrightarrow> s = p @ r"
  by (auto simp: strip_prefix_def prefix_def)

lemma strip_prefix_append [simp]: "strip_prefix p (p @ s) = Some s"
  by (simp add: strip_prefix_Some)

lemma find_sub_Some: "find_sub p s = Some n \<Longrightarrow> n + length p \<le> length s \<and> prefix p (drop n s)"
  by (induction p s arbitrary: n rule: find_sub.induct)
     (auto split: if_splits dest: prefix_length_le)

lemma find_sub_None: "find_sub p s = None \<longleftrightarrow> \<not> sublist p s"
  by (induction p s rule: find_sub.induct) (auto simp: sublist_Cons_right)

lemma contains_str_sublist [rust_str]: "contains_str s p \<longleftrightarrow> sublist p s"
  using find_sub_None [of p s] by (auto simp: contains_str_def)

lemma find_char_None [simp]: "find_char d s = None \<longleftrightarrow> d \<notin> set s"
  by (induction d s rule: find_char.induct) auto

lemma find_char_Some: "find_char d s = Some n \<longleftrightarrow> n < length s \<and> s ! n = d \<and> d \<notin> set (take n s)"
  by (induction d s arbitrary: n rule: find_char.induct)
     (auto simp: nth_Cons take_Cons split: nat.splits)

lemma find_char_append: "d \<notin> set p \<Longrightarrow> find_char d (p @ d # s) = Some (length p)"
  by (induction p) auto

text \<open>\<^verbatim>\<open>str::replace\<close> for a non-empty pattern: left to right, without overlaps.\<close>

function replace_str :: "string \<Rightarrow> string \<Rightarrow> string \<Rightarrow> string" where
  "replace_str p r [] = []"
| "replace_str p r (c # cs) =
     (if p \<noteq> [] \<and> prefix p (c # cs) then r @ replace_str p r (drop (length p) (c # cs))
      else c # replace_str p r cs)"
  by pat_completeness auto
termination
  by (relation "measure (\<lambda>(p, r, s). length s)") (auto simp: neq_Nil_conv)

declare replace_str.simps(2) [simp del]

definition replacen1 :: "string \<Rightarrow> string \<Rightarrow> string \<Rightarrow> string" where
  "replacen1 p r s = (case find_sub p s of
       None \<Rightarrow> s
     | Some n \<Rightarrow> take n s @ r @ drop (n + length p) s)"

text \<open>\<^verbatim>\<open>bytes.get(i + 1) == Some(&d)\<close>, on the bytes after position \<open>i\<close>.\<close>

definition next_is :: "char \<Rightarrow> string \<Rightarrow> bool" where
  "next_is d cs = (case cs of [] \<Rightarrow> False | c # _ \<Rightarrow> c = d)"

lemma next_is_Cons: "next_is d cs \<longleftrightarrow> cs \<noteq> [] \<and> hd cs = d"
  by (cases cs) (auto simp: next_is_def)

section \<open>Characters, boundaries, numbers\<close>

definition is_cont :: "char \<Rightarrow> bool" where
  "is_cont c = (128 \<le> code c \<and> code c < 192)"

definition chars_count :: "string \<Rightarrow> nat" where
  "chars_count s = length (filter (\<lambda>c. \<not> is_cont c) s)"

definition is_char_boundary :: "string \<Rightarrow> nat \<Rightarrow> bool" where
  "is_char_boundary s i = (i = 0 \<or> i = length s \<or> (i < length s \<and> \<not> is_cont (s ! i)))"

text \<open>\<^verbatim>\<open>String::from_utf8\<close>: no overlong forms, no surrogates, nothing above U+10FFFF.\<close>

definition byte_in :: "nat \<Rightarrow> nat \<Rightarrow> char \<Rightarrow> bool" where
  "byte_in lo hi b = (lo \<le> code b \<and> code b \<le> hi)"

fun utf8_valid :: "string \<Rightarrow> bool" where
  "utf8_valid [] = True"
| "utf8_valid (b0 # r) =
     (if code b0 < 0x80 then utf8_valid r
      else if byte_in 0xC2 0xDF b0 then
        (case r of b1 # r1 \<Rightarrow> is_cont b1 \<and> utf8_valid r1 | _ \<Rightarrow> False)
      else if byte_in 0xE0 0xEF b0 then
        (case r of b1 # b2 # r2 \<Rightarrow>
             (if code b0 = 0xE0 then byte_in 0xA0 0xBF b1
              else if code b0 = 0xED then byte_in 0x80 0x9F b1 else is_cont b1)
             \<and> is_cont b2 \<and> utf8_valid r2
         | _ \<Rightarrow> False)
      else if byte_in 0xF0 0xF4 b0 then
        (case r of b1 # b2 # b3 # r3 \<Rightarrow>
             (if code b0 = 0xF0 then byte_in 0x90 0xBF b1
              else if code b0 = 0xF4 then byte_in 0x80 0x8F b1 else is_cont b1)
             \<and> is_cont b2 \<and> is_cont b3 \<and> utf8_valid r3
         | _ \<Rightarrow> False)
      else False)"

text \<open>\<^verbatim>\<open>s.chars().filter(|c| !c.is_whitespace())\<close>.\<close>

function remove_whitespace :: "string \<Rightarrow> string" where
  "remove_whitespace [] = []"
| "remove_whitespace (c # cs) =
     (if ws_len (c # cs) > 0 then remove_whitespace (drop (ws_len (c # cs)) (c # cs))
      else c # remove_whitespace cs)"
  by pat_completeness auto
termination
  by (relation "measure length") auto

declare remove_whitespace.simps(2) [simp del]

text \<open>The loop that steps an index back to a character boundary.\<close>

fun floor_boundary :: "string \<Rightarrow> nat \<Rightarrow> nat" where
  "floor_boundary s 0 = 0"
| "floor_boundary s (Suc n) = (if is_char_boundary s (Suc n) then Suc n else floor_boundary s n)"

lemma floor_boundary_le: "floor_boundary s n \<le> n"
  by (induction n) auto

lemma floor_boundary_boundary: "is_char_boundary s (floor_boundary s n)"
  by (induction n) (auto simp: is_char_boundary_def)

lemma chars_count_ascii [ascii_text]: "ascii_str s \<Longrightarrow> chars_count s = length s"
  by (induction s) (auto simp: chars_count_def is_cont_def)

definition is_ascii_digit :: "char \<Rightarrow> bool" where
  "is_ascii_digit c = (48 \<le> code c \<and> code c \<le> 57)"

definition is_ascii_alphabetic :: "char \<Rightarrow> bool" where
  "is_ascii_alphabetic c = ((65 \<le> code c \<and> code c \<le> 90) \<or> (97 \<le> code c \<and> code c \<le> 122))"

definition is_ascii_alphanumeric :: "char \<Rightarrow> bool" where
  "is_ascii_alphanumeric c = (is_ascii_alphabetic c \<or> is_ascii_digit c)"

definition to_ascii_lower :: "char \<Rightarrow> char" where
  "to_ascii_lower c = (if 65 \<le> code c \<and> code c \<le> 90 then char_of (code c + 32) else c)"

definition to_ascii_lowercase :: "string \<Rightarrow> string" where
  "to_ascii_lowercase s = map to_ascii_lower s"

text \<open>\<^verbatim>\<open>format!("{}", n)\<close> for an unsigned integer.\<close>

fun show_nat :: "nat \<Rightarrow> string" where
  "show_nat n = (if n < 10 then [char_of (48 + n)] else show_nat (n div 10) @ [char_of (48 + n mod 10)])"

declare show_nat.simps [simp del]

definition ellipsis :: string where
  "ellipsis = [CHR 0xE2, CHR 0x80, CHR 0xA6]"

text \<open>\<^verbatim>\<open>Iterator::filter_map\<close>.\<close>

section \<open>Integers and digests as bytes\<close>

definition le_bytes :: "nat \<Rightarrow> nat \<Rightarrow> string" where
  "le_bytes k n = map (\<lambda>i. char_of (n div 256 ^ i mod 256)) [0..<k]"

definition be_bytes :: "nat \<Rightarrow> nat \<Rightarrow> string" where
  "be_bytes k n = rev (le_bytes k n)"

definition hex_char :: "nat \<Rightarrow> char" where
  "hex_char n = (if n < 10 then char_of (48 + n) else char_of (87 + n))"

text \<open>\<^verbatim>\<open>format!("{b:02x}")\<close>.\<close>

definition hex_byte :: "char \<Rightarrow> string" where
  "hex_byte b = [hex_char (code b div 16), hex_char (code b mod 16)]"

definition hex_encode :: "string \<Rightarrow> string" where
  "hex_encode bs = concat (map hex_byte bs)"

lemma length_le_bytes [simp]: "length (le_bytes k n) = k" and length_be_bytes [simp]: "length (be_bytes k n) = k"
  by (simp_all add: le_bytes_def be_bytes_def)

lemma length_hex_encode [simp]: "length (hex_encode bs) = 2 * length bs"
  by (induction bs) (simp_all add: hex_encode_def hex_byte_def)

lemma le_bytes_Suc: "le_bytes (Suc k) n = char_of (n mod 256) # le_bytes k (n div 256)"
proof -
  have "[0..<Suc k] = 0 # map Suc [0..<k]" by (simp only: upt_conv_Cons map_Suc_upt zero_less_Suc)
  then show ?thesis by (simp add: le_bytes_def div_mult2_eq del: upt_Suc)
qed

lemma le_bytes_inj: "m < 256 ^ k \<Longrightarrow> n < 256 ^ k \<Longrightarrow> le_bytes k m = le_bytes k n \<Longrightarrow> m = n"
proof (induction k arbitrary: m n)
  case (Suc k)
  have "code (char_of (m mod 256)) = code (char_of (n mod 256))" using Suc.prems(3) by (simp add: le_bytes_Suc)
  then have "m mod 256 = n mod 256" by simp
  moreover have "m div 256 = n div 256"
    using Suc.prems by (intro Suc.IH) (auto simp: le_bytes_Suc less_mult_imp_div_less mult.commute)
  ultimately show ?case by (metis div_mult_mod_eq)
qed simp

lemma be_bytes_inj: "m < 256 ^ k \<Longrightarrow> n < 256 ^ k \<Longrightarrow> be_bytes k m = be_bytes k n \<Longrightarrow> m = n"
  by (auto simp: be_bytes_def dest: le_bytes_inj)

lemma code_hex_char: "n < 16 \<Longrightarrow> code (hex_char n) = (if n < 10 then 48 + n else 87 + n)"
  unfolding hex_char_def by (simp only: if_distrib [of of_char] of_char_of) (simp add: mod_less)

lemma hex_char_inj: "m < 16 \<Longrightarrow> n < 16 \<Longrightarrow> hex_char m = hex_char n \<longleftrightarrow> m = n"
proof
  assume "m < 16" "n < 16" "hex_char m = hex_char n"
  then have "(if m < 10 then 48 + m else 87 + m) = (if n < 10 then 48 + n else 87 + n)"
    by (metis code_hex_char)
  then show "m = n" by (simp split: if_splits)
qed simp

lemma code_div_16 [simp]: "code b div 16 < 16"
  by (rule less_mult_imp_div_less) simp

lemma hex_byte_inj: "hex_byte a = hex_byte b \<longleftrightarrow> a = b"
proof
  assume "hex_byte a = hex_byte b"
  then have "code a div 16 = code b div 16" "code a mod 16 = code b mod 16"
    by (auto simp: hex_byte_def hex_char_inj)
  then have "code a = code b" by (metis div_mult_mod_eq)
  then show "a = b" by (metis char_of_char)
qed simp

lemma hex_encode_inj [simp]: "hex_encode a = hex_encode b \<longleftrightarrow> a = b"
proof (induction a arbitrary: b)
  case Nil
  then show ?case by (cases b) (simp_all add: hex_encode_def hex_byte_def)
next
  case (Cons x a)
  show ?case
  proof (cases b)
    case (Cons y c)
    have "hex_encode (x # a) = hex_encode (y # c) \<longleftrightarrow> hex_byte x = hex_byte y \<and> hex_encode a = hex_encode c"
      by (auto simp: hex_encode_def hex_byte_def)
    then show ?thesis using Cons.IH Cons by (simp add: hex_byte_inj)
  qed (simp add: hex_encode_def hex_byte_def)
qed

lemma set_map_filter_Some: "set (List.map_filter f xs) = {y. \<exists>x \<in> set xs. f x = Some y}"
  by (force simp: List.map_filter_def)

lemma sint_diff:
  "- (2 ^ 63) \<le> sint a - sint b \<Longrightarrow> sint a - sint b < 2 ^ 63 \<Longrightarrow> sint (a - b) = sint a - sint b" for a b :: i64
  by (simp add: sint_word_ariths signed_take_bit_int_eq_self)

end
