(* ===== verification/Verdicts.thy ===== *)
theory Verdicts
  imports Prelude
begin

text \<open>
  The shared spine of the agent guard, \<^verbatim>\<open>crates/apohara-agentguard/src/verdict.rs\<close>: decision
  tiers, verdicts, severity thresholds. The locale \<open>severity_choice\<close> is the contract of every
  "keep the more severe" combinator of the crate (\<^verbatim>\<open>hook::max_verdict\<close>,
  \<^verbatim>\<open>engine::max_verdict_local\<close>, \<^verbatim>\<open>gate::consider\<close>); it is interpreted on each of them in
  the theory of the component that owns it.
\<close>

section \<open>Tiers\<close>

datatype tier = Allow | Warn | Ask | Block

fun rank :: "tier \<Rightarrow> u8" where
  "rank Allow = 0"
| "rank Warn = 1"
| "rank Ask = 2"
| "rank Block = 3"

instantiation tier :: linorder
begin

definition less_eq_tier :: "tier \<Rightarrow> tier \<Rightarrow> bool" where
  "less_eq_tier a b \<longleftrightarrow> rank a \<le> rank b"

definition less_tier :: "tier \<Rightarrow> tier \<Rightarrow> bool" where
  "less_tier a b \<longleftrightarrow> rank a < rank b"

instance
proof
  fix a b c :: tier
  show "a < b \<longleftrightarrow> a \<le> b \<and> \<not> b \<le> a"
    by (auto simp: less_eq_tier_def less_tier_def)
  show "a \<le> a" by (simp add: less_eq_tier_def)
  show "a \<le> b \<Longrightarrow> b \<le> c \<Longrightarrow> a \<le> c" by (simp add: less_eq_tier_def)
  show "a \<le> b \<Longrightarrow> b \<le> a \<Longrightarrow> a = b"
    by (cases a; cases b) (simp_all add: less_eq_tier_def word_le_nat_alt)
  show "a \<le> b \<or> b \<le> a" by (auto simp: less_eq_tier_def)
qed

end

section \<open>Verdicts\<close>

record verdict =
  v_tier :: tier
  v_reason :: string
  v_feedback :: "string option"
  v_rule_id :: "string option"
  v_category :: "string option"

definition allow :: verdict where
  "allow = \<lparr>v_tier = Allow, v_reason = [], v_feedback = None, v_rule_id = None, v_category = None\<rparr>"

definition warn :: "string \<Rightarrow> verdict" where
  "warn reason = \<lparr>v_tier = Warn, v_reason = reason, v_feedback = None, v_rule_id = None, v_category = None\<rparr>"

definition block :: "string \<Rightarrow> verdict" where
  "block reason = \<lparr>v_tier = Block, v_reason = reason, v_feedback = None, v_rule_id = None, v_category = None\<rparr>"

definition ask :: "string \<Rightarrow> verdict" where
  "ask reason = \<lparr>v_tier = Ask, v_reason = reason, v_feedback = None, v_rule_id = None, v_category = None\<rparr>"

definition with_feedback :: "verdict \<Rightarrow> string \<Rightarrow> verdict" where
  "with_feedback v feedback = v\<lparr>v_feedback := Some feedback\<rparr>"

definition with_rule_id :: "verdict \<Rightarrow> string \<Rightarrow> string option \<Rightarrow> verdict" where
  "with_rule_id v rule_id category = v\<lparr>v_rule_id := Some rule_id, v_category := category\<rparr>"

lemma v_tier_constructors [simp]:
  "v_tier allow = Allow" "v_tier (warn r) = Warn" "v_tier (block r) = Block" "v_tier (ask r) = Ask"
  "v_tier (with_feedback v f) = v_tier v" "v_tier (with_rule_id v i c) = v_tier v"
  by (simp_all add: allow_def warn_def block_def ask_def with_feedback_def with_rule_id_def)

lemma v_reason_constructors [simp]:
  "v_reason allow = []" "v_reason (warn r) = r" "v_reason (block r) = r" "v_reason (ask r) = r"
  "v_reason (with_feedback v f) = v_reason v"
  by (simp_all add: allow_def warn_def block_def ask_def with_feedback_def)

section \<open>Severity thresholds\<close>

record thresholds =
  block_at :: u8
  warn_at :: u8

definition default_thresholds :: thresholds where
  "default_thresholds = \<lparr>block_at = 8, warn_at = 5\<rparr>"

definition severity_to_tier :: "u8 \<Rightarrow> thresholds \<Rightarrow> tier" where
  "severity_to_tier sev t =
     (if sev \<ge> block_at t then Block else if sev \<ge> warn_at t then Warn else Allow)"

lemma severity_to_tier_iff:
  "severity_to_tier sev t = Block \<longleftrightarrow> block_at t \<le> sev"
  "severity_to_tier sev t = Warn \<longleftrightarrow> sev < block_at t \<and> warn_at t \<le> sev"
  "severity_to_tier sev t = Allow \<longleftrightarrow> sev < block_at t \<and> sev < warn_at t"
  "severity_to_tier sev t \<noteq> Ask"
  by (auto simp: severity_to_tier_def)

lemma severity_to_tier_mono: "s \<le> s' \<Longrightarrow> severity_to_tier s t \<le> severity_to_tier s' t"
  by (auto simp: severity_to_tier_def less_eq_tier_def)

lemma severity_to_tier_antimono:
  "block_at t' \<le> block_at t \<Longrightarrow> warn_at t' \<le> warn_at t \<Longrightarrow>
   severity_to_tier s t \<le> severity_to_tier s t'"
  by (auto simp: severity_to_tier_def less_eq_tier_def)

section \<open>The contract of a "more severe wins" combinator\<close>

locale severity_choice =
  fixes sev :: "'v \<Rightarrow> 'r::linorder"
    and pick :: "'v \<Rightarrow> 'v \<Rightarrow> 'v"
  assumes pick_right: "sev a < sev b \<Longrightarrow> pick a b = b"
    and pick_left: "sev b \<le> sev a \<Longrightarrow> pick a b = a"
begin

lemma sev_pick: "sev (pick a b) = max (sev a) (sev b)"
  by (cases "sev a < sev b") (auto simp: pick_right pick_left max_def)

lemma pick_cases: "pick a b = a \<or> pick a b = b"
  by (cases "sev a < sev b") (auto simp: pick_right pick_left)

lemma pick_idem: "pick a a = a"
  by (simp add: pick_left)

lemma pick_ge_left: "sev a \<le> sev (pick a b)" and pick_ge_right: "sev b \<le> sev (pick a b)"
  by (simp_all add: sev_pick)

lemma pick_assoc: "pick (pick a b) c = pick a (pick b c)"
proof (cases "sev a < sev b")
  case ab: True
  show ?thesis
    by (cases "sev b < sev c") (use ab in \<open>auto simp: pick_right pick_left\<close>)
next
  case ab: False
  show ?thesis
  proof (cases "sev b < sev c")
    case True
    then show ?thesis using ab by (simp add: pick_right pick_left)
  next
    case False
    with ab have "sev c \<le> sev a" by auto
    then show ?thesis using ab False by (simp add: pick_left)
  qed
qed

lemma foldl_pick_ge_start: "sev a \<le> sev (foldl pick a xs)"
  by (induction xs arbitrary: a) (auto intro: order_trans [OF pick_ge_left])

lemma foldl_pick_ge_mem: "x \<in> set xs \<Longrightarrow> sev x \<le> sev (foldl pick a xs)"
proof (induction xs arbitrary: a)
  case (Cons y ys)
  then show ?case
    by (auto intro: order_trans [OF pick_ge_right foldl_pick_ge_start])
qed simp

lemma foldl_pick_mem: "foldl pick a xs = a \<or> foldl pick a xs \<in> set xs"
proof (induction xs arbitrary: a)
  case (Cons y ys)
  then show ?case using pick_cases [of a y] by (metis foldl_Cons list.set_intros)
qed simp

text \<open>The result of a whole pass has exactly the greatest severity met.\<close>

lemma sev_foldl_pick: "sev (foldl pick a xs) = Max (sev ` set (a # xs))"
proof (rule sym, rule Max_eqI)
  show "finite (sev ` set (a # xs))" by simp
  show "y \<le> sev (foldl pick a xs)" if "y \<in> sev ` set (a # xs)" for y
    using that foldl_pick_ge_start foldl_pick_ge_mem by auto
  show "sev (foldl pick a xs) \<in> sev ` set (a # xs)"
    using foldl_pick_mem [of a xs] by auto
qed

end

end
