(* ===== verification/Matching.thy ===== *)
theory Matching
  imports Prelude
begin

text \<open>
  The two pattern matchers of the agent guard and what they decide:
  \<^verbatim>\<open>policy/matcher.rs\<close> (\<open>pattern_matches\<close>: the parts between the stars occur in order, used by
  the policy engine, the hook's tool rules and the gate's custom blocks) and
  \<^verbatim>\<open>config.rs\<close> (\<open>glob_match\<close>: the anchored matcher of the allow-list).
\<close>

section \<open>pattern_matches\<close>

abbreviation star :: char where "star \<equiv> CHR ''*''"

definition star_parts :: "string \<Rightarrow> string list" where
  "star_parts pattern = filter (\<lambda>p. p \<noteq> []) (split_on star pattern)"

text \<open>The cursor loop; the value is given from the cursor on.\<close>

fun parts_in_order :: "string list \<Rightarrow> string \<Rightarrow> bool" where
  "parts_in_order [] v = True"
| "parts_in_order (p # ps) v = (case find_sub p v of
       None \<Rightarrow> False
     | Some pos \<Rightarrow> parts_in_order ps (drop (pos + length p) v))"

definition pattern_matches :: "string \<Rightarrow> string \<Rightarrow> bool" where
  "pattern_matches pattern value =
     (if pattern = [] then False
      else if star \<in> set pattern then
        (let parts = star_parts pattern in
         if parts = [] then value \<noteq> [] else parts_in_order parts value)
      else contains_str value pattern)"

text \<open>The declarative reading: the parts occur in this order, at some disjoint places.\<close>

fun occur_in_order :: "string list \<Rightarrow> string \<Rightarrow> bool" where
  "occur_in_order [] v = True"
| "occur_in_order (p # ps) v = (\<exists>a b. v = a @ p @ b \<and> occur_in_order ps b)"

lemma occur_in_order_extend: "occur_in_order ps b \<Longrightarrow> occur_in_order ps (a @ b)"
  by (cases ps) (auto, metis append.assoc)

lemma occur_in_order_suffix: "suffix b v \<Longrightarrow> occur_in_order ps b \<Longrightarrow> occur_in_order ps v"
  by (auto simp: suffix_def intro: occur_in_order_extend)

lemma find_sub_prefix: "prefix p s \<Longrightarrow> find_sub p s = Some 0"
  by (cases s) auto

lemma find_sub_leftmost: "find_sub p (a @ p @ b) = Some n \<Longrightarrow> n \<le> length a"
  by (induction a arbitrary: n) (auto simp: find_sub_prefix split: if_splits)

lemma find_sub_occurs: "\<exists>n. find_sub p (a @ p @ b) = Some n"
  using find_sub_None [of p "a @ p @ b"] by auto

text \<open>Taking the leftmost occurrence each time never loses a match.\<close>

lemma parts_in_order_iff: "parts_in_order ps v \<longleftrightarrow> occur_in_order ps v"
proof (induction ps arbitrary: v)
  case (Cons p ps)
  show ?case
  proof
    assume l: "parts_in_order (p # ps) v"
    then obtain n where n: "find_sub p v = Some n"
      by (auto split: option.splits)
    with l have "occur_in_order ps (drop (n + length p) v)" by (simp add: Cons.IH)
    moreover have "v = take n v @ p @ drop (n + length p) v"
      using find_sub_Some [OF n] by (metis add.commute append_take_drop_id append_eq_conv_conj drop_drop prefix_def)
    ultimately show "occur_in_order (p # ps) v" by auto
  next
    assume "occur_in_order (p # ps) v"
    then obtain a b where v: "v = a @ p @ b" and b: "occur_in_order ps b" by auto
    obtain n where n: "find_sub p v = Some n"
      using find_sub_occurs [of p a b] v by auto
    have "n \<le> length a" using find_sub_leftmost n v by blast
    then have "drop (n + length p) v = drop (n + length p) (a @ p) @ b"
      by (simp add: v)
    then have "suffix b (drop (n + length p) v)" by (metis suffixI)
    with b have "occur_in_order ps (drop (n + length p) v)" by (rule occur_in_order_suffix [rotated])
    then show "parts_in_order (p # ps) v" using n by (simp add: Cons.IH)
  qed
qed simp

section \<open>glob_match\<close>

text \<open>The part loop; \<open>anchored\<close> holds in the first round of a pattern that does not begin
  with a star. The result is the text after the last part.\<close>

fun glob_loop :: "bool \<Rightarrow> string list \<Rightarrow> string \<Rightarrow> string option" where
  "glob_loop anchored [] t = Some t"
| "glob_loop anchored (p # ps) t = (case find_sub p t of
       None \<Rightarrow> None
     | Some pos \<Rightarrow>
         if anchored \<and> pos \<noteq> 0 then None else glob_loop False ps (drop (pos + length p) t))"

definition glob_match :: "string \<Rightarrow> string \<Rightarrow> bool" where
  "glob_match pattern text =
     (if star \<notin> set pattern then contains_str text pattern
      else
        (let anchored_start = (hd pattern \<noteq> star);
             anchored_end = (last pattern \<noteq> star);
             parts = star_parts pattern
         in if parts = [] then True
            else case glob_loop anchored_start parts text of
                   None \<Rightarrow> False
                 | Some rest \<Rightarrow> \<not> (anchored_end \<and> rest \<noteq> [])))"

text \<open>The documented reading of the anchored glob: a star stands for any run of bytes.\<close>

fun wild :: "string \<Rightarrow> string \<Rightarrow> bool" where
  "wild [] t = (t = [])"
| "wild (c # p) t =
     (if c = star then \<exists>k \<le> length t. wild p (drop k t)
      else (case t of [] \<Rightarrow> False | d # t' \<Rightarrow> d = c \<and> wild p t'))"

lemma wild_literal: "star \<notin> set q \<Longrightarrow> wild (q @ s) (q @ t) = wild s t"
  by (induction q) auto

lemma wild_star_any: "wild [star] t"
  by (auto intro: exI [of _ "length t"])

lemma wild_star_skip: "n \<le> length t \<Longrightarrow> wild p (drop n t) \<Longrightarrow> wild (star # p) t"
  by auto

lemma find_sub_split: "find_sub q t = Some n \<Longrightarrow> drop n t = q @ drop (n + length q) t \<and> n \<le> length t"
  using find_sub_Some [of q t n]
  by (metis add.commute add_leD1 append_eq_conv_conj drop_drop prefix_def)

lemma glob_loop_wild:
  "\<forall>q \<in> set qs. star \<notin> set q \<Longrightarrow> qs \<noteq> [] \<Longrightarrow>
   glob_loop False (filter (\<lambda>p. p \<noteq> []) qs) t = Some r \<Longrightarrow> (last qs \<noteq> [] \<longrightarrow> r = []) \<Longrightarrow>
   wild (star # join_with [star] qs) t"
proof (induction qs arbitrary: t)
  case (Cons q qs)
  show ?case
  proof (cases "q = []")
    case True
    then show ?thesis
    proof (cases qs)
      case Nil
      then show ?thesis using True wild_star_any by simp
    next
      case (Cons q' qs')
      then have "wild (star # join_with [star] qs) t"
        using Cons.IH [of t] Cons.prems True by simp
      then have "wild (star # join_with [star] qs) (drop 0 t)"
        by (simp only: drop_0)
      then have "wild (star # star # join_with [star] qs) t"
        by (rule wild_star_skip [rotated]) simp
      then show ?thesis using True Cons by (simp del: wild.simps)
    qed
  next
    case False
    then obtain n where n: "find_sub q t = Some n"
      and rest: "glob_loop False (filter (\<lambda>p. p \<noteq> []) qs) (drop (n + length q) t) = Some r"
      using Cons.prems(3) by (auto split: option.splits)
    note sp = find_sub_split [OF n]
    have nostar: "star \<notin> set q" using Cons.prems(1) by simp
    show ?thesis
    proof (cases qs)
      case Nil
      then have "drop (n + length q) t = []"
        using rest Cons.prems(4) False by simp
      then have "wild q (drop n t)"
        using sp wild_literal [OF nostar, of "[]" "[]"] by simp
      then have "wild (star # q) t" by (rule wild_star_skip [OF conjunct2 [OF sp]])
      then show ?thesis using Nil by (simp del: wild.simps)
    next
      case (Cons q' qs')
      then have "wild (star # join_with [star] qs) (drop (n + length q) t)"
        using Cons.IH [of "drop (n + length q) t"] Cons.prems rest by simp
      then have "wild (q @ star # join_with [star] qs) (drop n t)"
        using sp wild_literal [OF nostar] by metis
      then have "wild (star # q @ star # join_with [star] qs) t"
        by (rule wild_star_skip [OF conjunct2 [OF sp]])
      then show ?thesis using Cons by (simp del: wild.simps)
    qed
  qed
qed simp

lemma split_on_no_sep: "q \<in> set (split_on d s) \<Longrightarrow> d \<notin> set q"
  by (induction s arbitrary: q) (auto split: if_splits list.splits)

lemma split_on_hd: "hd (split_on d s) = [] \<longleftrightarrow> (s = [] \<or> hd s = d)"
  by (cases s) (auto split: list.splits)

lemma split_on_single: "split_on d s = [p] \<Longrightarrow> d \<notin> set s"
  by (induction s arbitrary: p) (auto split: if_splits list.splits)

lemma split_on_last: "last (split_on d s) = [] \<longleftrightarrow> (s = [] \<or> last s = d)"
proof (induction s)
  case (Cons c s)
  obtain p ps where sp: "split_on d s = p # ps" by (cases "split_on d s") auto
  show ?case
  proof (cases s)
    case (Cons c' s')
    then show ?thesis
    proof (cases ps)
      case Nil
      then have "s = p" using sp join_split_on [of d s] by simp
      moreover have "d \<notin> set p" using sp by (metis (full_types) join_split_on join_with.simps(2) Nil split_on_single)
      ultimately show ?thesis using sp Nil Cons Cons.IH by auto
    qed (use sp Cons Cons.IH in auto)
  qed (use sp in auto)
qed simp

lemma split_on_two: "d \<in> set s \<Longrightarrow> \<exists>p q qs. split_on d s = p # q # qs"
  by (induction s) (auto split: list.splits simp: neq_Nil_conv)

text \<open>Fact: the greedy matcher decides its documented meaning: with a star, the non-empty parts
  between the stars occur in the value in order (any non-empty value if there is no such part);
  without a star, the pattern is a substring; the empty pattern never matches.\<close>

theorem pattern_matches_iff:
  "pattern_matches pattern value \<longleftrightarrow>
     pattern \<noteq> [] \<and>
     (if star \<in> set pattern
      then (if star_parts pattern = [] then value \<noteq> [] else occur_in_order (star_parts pattern) value)
      else sublist pattern value)"
  by (auto simp: pattern_matches_def Let_def parts_in_order_iff contains_str_sublist)

text \<open>Fact: the allow-list matcher is sound for the documented anchored glob: a pattern with a
  star that is accepted does match the whole text when each star stands for some run of bytes.\<close>

theorem glob_match_sound:
  assumes "star \<in> set pattern" and "glob_match pattern t"
  shows "wild pattern t"
proof -
  obtain p q qs where sp: "split_on star pattern = p # q # qs"
    using split_on_two [OF assms(1)] by blast
  let ?qs = "q # qs"
  have nostar: "\<forall>r \<in> set ?qs. star \<notin> set r" and p: "star \<notin> set p"
    using split_on_no_sep [of _ star pattern] sp by auto
  have pat: "pattern = p @ star # join_with [star] ?qs"
    using join_split_on [of star pattern] sp by simp
  have hd_pat: "(hd pattern \<noteq> star) = (p \<noteq> [])"
    using split_on_hd [of star pattern] sp assms(1) by auto
  have last_pat: "(last pattern \<noteq> star) = (last ?qs \<noteq> [])"
    using split_on_last [of star pattern] sp assms(1) by auto
  show ?thesis
  proof (cases "star_parts pattern = []")
    case True
    then have "\<forall>r \<in> set (p # ?qs). r = []"
      unfolding star_parts_def sp filter_empty_conv by blast
    then have "p = []" and "\<forall>r \<in> set ?qs. r = []" by simp_all
    then have "filter (\<lambda>p. p \<noteq> []) ?qs = []" by (simp add: filter_empty_conv)
    then have "wild (star # join_with [star] ?qs) t"
      using glob_loop_wild [OF nostar, of t t] \<open>\<forall>r \<in> set ?qs. r = []\<close> by simp
    then show ?thesis using pat \<open>p = []\<close> by (simp del: wild.simps)
  next
    case False
    then obtain r where r: "glob_loop (p \<noteq> []) (star_parts pattern) t = Some r"
      and e: "last ?qs \<noteq> [] \<longrightarrow> r = []"
      using assms hd_pat last_pat by (auto simp: glob_match_def Let_def split: option.splits)
    show ?thesis
    proof (cases "p = []")
      case True
      then have "glob_loop False (filter (\<lambda>p. p \<noteq> []) ?qs) t = Some r"
        using r by (simp add: star_parts_def sp)
      then have "wild (star # join_with [star] ?qs) t"
        using glob_loop_wild [OF nostar _ _ e] by simp
      then show ?thesis using pat True by (simp del: wild.simps)
    next
      case False
      then have "find_sub p t = Some 0"
        and g: "glob_loop False (filter (\<lambda>p. p \<noteq> []) ?qs) (drop (length p) t) = Some r"
        using r by (auto simp: star_parts_def sp split: option.splits if_splits)
      then have "t = p @ drop (length p) t"
        using find_sub_split by fastforce
      moreover have "wild (star # join_with [star] ?qs) (drop (length p) t)"
        using glob_loop_wild [OF nostar _ g e] by simp
      ultimately show ?thesis using pat wild_literal [OF p] by metis
    qed
  qed
qed

theorem glob_match_sound_witness:
  "glob_match ''git *'' ''git push'' \<and> wild ''git *'' ''git push''"
proof -
  have g: "glob_match ''git *'' ''git push''" by code_simp
  show ?thesis using g glob_match_sound [OF _ g] by simp
qed

text \<open>Fact: the converse fails. Each part is searched leftmost and never retried, so a pattern
  anchored at the end rejects a text that ends with its last part but also holds it earlier.\<close>

theorem glob_match_incomplete:
  "wild ''*.txt'' ''a.txt.txt'' \<and> \<not> glob_match ''*.txt'' ''a.txt.txt''"
proof
  have "wild ''.txt'' (drop 5 ''a.txt.txt'')" by simp
  then show "wild ''*.txt'' ''a.txt.txt''"
    by (intro wild_star_skip [of 5]) (simp_all del: wild.simps)
  show "\<not> glob_match ''*.txt'' ''a.txt.txt''" by code_simp
qed

end
