(* ===== verification/Config.thy ===== *)
theory Config
  imports Verdicts Matching
begin

text \<open>
  \<^verbatim>\<open>crates/apohara-agentguard/src/config.rs\<close>: the user configuration, its defaults, the lookup of
  its file, the allow-list, the granular kill-switch and the severity presets. The file system
  and the TOML parser are parameters of the operations that use them.
\<close>

section \<open>Data\<close>

record custom_block =
  cb_pattern :: string
  cb_severity :: u8
  cb_category :: string

record tool_rule =
  tr_tool :: string
  tr_arg :: string
  tr_pattern :: string
  tr_severity :: u8

record canary_config =
  can_enabled :: bool

record policy_config =
  pol_file :: "string option"

record audit_config =
  aud_enabled :: bool
  aud_path :: "string option"
  aud_include_command :: bool

record config =
  allow_list :: "string list"
  custom_blocks :: "custom_block list"
  cfg_thresholds :: thresholds
  disable :: bool
  cfg_normalize :: bool
  audit :: audit_config
  packs :: "string list"
  tool_rules :: "tool_rule list"
  disabled :: "string list"
  level :: "string option"
  canary :: canary_config
  policy :: policy_config

definition default_config :: config where
  "default_config = \<lparr>
     allow_list = [], custom_blocks = [], cfg_thresholds = default_thresholds,
     disable = False, cfg_normalize = True,
     audit = \<lparr>aud_enabled = False, aud_path = None, aud_include_command = False\<rparr>,
     packs = [], tool_rules = [], disabled = [], level = None,
     canary = \<lparr>can_enabled = False\<rparr>, policy = \<lparr>pol_file = None\<rparr>\<rparr>"

section \<open>Loading\<close>

datatype config_error = ReadError string | ParseError string

definition load :: "(string \<Rightarrow> bool) \<Rightarrow> (string \<Rightarrow> string option) \<Rightarrow> (string \<Rightarrow> config option)
    \<Rightarrow> string option \<Rightarrow> config_error + config" where
  "load path_exists read_file toml path = (case path of
       Some p \<Rightarrow>
         if path_exists p then
           (case read_file p of
              None \<Rightarrow> Inl (ReadError p)
            | Some txt \<Rightarrow> (case toml txt of None \<Rightarrow> Inl (ParseError p) | Some cfg \<Rightarrow> Inr cfg))
         else Inr default_config
     | None \<Rightarrow> Inr default_config)"

text \<open>\<^verbatim>\<open>Path::join\<close> with a relative component.\<close>

definition path_join :: "string \<Rightarrow> string \<Rightarrow> string" where
  "path_join base c = (if base = [] \<or> last base = CHR ''/'' then base @ c else base @ ''/'' @ c)"

definition default_config_paths :: "string option \<Rightarrow> string option \<Rightarrow> string list" where
  "default_config_paths xdg_config_home home =
     (let config_home = (case xdg_config_home of
            Some x \<Rightarrow> Some x
          | None \<Rightarrow> map_option (\<lambda>h. path_join h ''.config'') home)
      in [''agentguard.toml''] @
         (case config_home of
            Some h \<Rightarrow> [path_join (path_join h ''agentguard'') ''config.toml'']
          | None \<Rightarrow> []))"

fun load_first :: "(string \<Rightarrow> bool) \<Rightarrow> (string \<Rightarrow> string option) \<Rightarrow> (string \<Rightarrow> config option)
    \<Rightarrow> string list \<Rightarrow> config_error + config" where
  "load_first ex rd toml [] = Inr default_config"
| "load_first ex rd toml (p # ps) = (if ex p then load ex rd toml (Some p) else load_first ex rd toml ps)"

definition load_default_locations :: "(string \<Rightarrow> bool) \<Rightarrow> (string \<Rightarrow> string option)
    \<Rightarrow> (string \<Rightarrow> config option) \<Rightarrow> string option \<Rightarrow> string option \<Rightarrow> config_error + config" where
  "load_default_locations ex rd toml xdg home = load_first ex rd toml (default_config_paths xdg home)"

section \<open>Allow-list, kill-switch, presets\<close>

definition is_allowed :: "config \<Rightarrow> string \<Rightarrow> bool" where
  "is_allowed cfg command = list_ex (\<lambda>pattern. glob_match pattern command) (allow_list cfg)"

record env_disable =
  env_all :: bool
  env_names :: "string list"

definition default_env_disable :: env_disable where
  "default_env_disable = \<lparr>env_all = False, env_names = []\<rparr>"

definition parse_env_disable :: "string \<Rightarrow> env_disable" where
  "parse_env_disable raw =
     (let trimmed = to_ascii_lowercase (trim raw) in
      if trimmed = ''1'' \<or> trimmed = ''true'' then \<lparr>env_all = True, env_names = []\<rparr>
      else \<lparr>env_all = False,
            env_names = filter (\<lambda>s. s \<noteq> []) (map trim (split_on CHR '','' trimmed))\<rparr>)"

definition is_component_disabled :: "config \<Rightarrow> string \<Rightarrow> env_disable \<Rightarrow> bool" where
  "is_component_disabled cfg component env =
     (if disable cfg \<or> env_all env then True
      else (let want = to_ascii_lowercase (trim component) in
            list_ex (\<lambda>c. to_ascii_lowercase (trim c) = want) (disabled cfg)
            \<or> want \<in> set (env_names env)))"

definition level_preset :: "string \<Rightarrow> thresholds option" where
  "level_preset lvl =
     (let l = to_ascii_lowercase (trim lvl) in
      if l = ''strict'' then Some \<lparr>block_at = 7, warn_at = 4\<rparr>
      else if l = ''high'' then Some \<lparr>block_at = 6, warn_at = 3\<rparr>
      else if l = ''critical'' then Some \<lparr>block_at = 5, warn_at = 2\<rparr>
      else None)"

definition effective_thresholds :: "config \<Rightarrow> thresholds" where
  "effective_thresholds cfg = (case map_option level_preset (level cfg) of
       Some (Some preset) \<Rightarrow> preset
     | _ \<Rightarrow> cfg_thresholds cfg)"

section \<open>Properties\<close>

lemma load_first_skip: "\<not> ex p \<Longrightarrow> load_first ex rd toml (p # ps) = load_first ex rd toml ps"
  by simp

lemma load_absent: "\<not> ex p \<Longrightarrow> load ex rd toml (Some p) = Inr default_config"
  by (simp add: load_def)

text \<open>Fact: configuration lookup. The project-local file shadows every other location: when it
  exists, its contents alone decide (a read or parse failure is an error, never a fall-back); when
  neither candidate exists the built-in defaults are used.\<close>

theorem load_default_locations_cases:
  "load_default_locations ex rd toml xdg home =
     (if ex ''agentguard.toml'' then
        (case rd ''agentguard.toml'' of
           None \<Rightarrow> Inl (ReadError ''agentguard.toml'')
         | Some txt \<Rightarrow> (case toml txt of
               None \<Rightarrow> Inl (ParseError ''agentguard.toml'') | Some cfg \<Rightarrow> Inr cfg))
      else (case tl (default_config_paths xdg home) of
              [] \<Rightarrow> Inr default_config
            | p # _ \<Rightarrow> load ex rd toml (Some p)))"
  by (auto simp: load_default_locations_def default_config_paths_def Let_def load_def
           split: option.splits)

lemma lower_alpha_ascii: "97 \<le> code c \<Longrightarrow> code c \<le> 122 \<Longrightarrow> ascii c \<and> \<not> ws1 c \<and> to_ascii_lower c = c \<and> c \<noteq> CHR '',''"
  by (auto simp: ws1_def to_ascii_lower_def)

definition component_name :: "string \<Rightarrow> bool" where
  "component_name n = (n \<noteq> [] \<and> (\<forall>c \<in> set n. 97 \<le> code c \<and> code c \<le> 122))"

lemma component_name_simps:
  assumes "component_name n"
  shows "trim n = n" and "to_ascii_lowercase n = n" and "CHR '','' \<notin> set n"
proof -
  have c: "\<forall>c \<in> set n. ascii c \<and> \<not> ws1 c \<and> to_ascii_lower c = c \<and> c \<noteq> CHR '',''"
    using assms lower_alpha_ascii by (auto simp: component_name_def)
  have "n \<noteq> []" using assms by (simp add: component_name_def)
  then show "trim n = n" using c by (intro trim_solid) auto
  show "to_ascii_lowercase n = n" using c by (simp add: to_ascii_lowercase_def map_idI)
  show "CHR '','' \<notin> set n" using c by auto
qed

lemma split_join_components:
  "ns \<noteq> [] \<Longrightarrow> \<forall>n \<in> set ns. component_name n \<Longrightarrow> split_on CHR '','' (join_with '','' ns) = ns"
proof (induction ns rule: induct_list012)
  case (2 x)
  then show ?case by (simp add: split_on_id component_name_simps)
next
  case (3 x y zs)
  then show ?case by (simp add: split_on_append component_name_simps)
qed simp

lemma join_components_solid:
  assumes "ns \<noteq> []" and "\<forall>n \<in> set ns. component_name n"
  shows "trim (join_with '','' ns) = join_with '','' ns"
    and "to_ascii_lowercase (join_with '','' ns) = join_with '','' ns"
proof -
  have s: "\<forall>c \<in> set (join_with '','' ns). ascii c \<and> \<not> ws1 c \<and> to_ascii_lower c = c"
    using assms
  proof (induction ns rule: induct_list012)
    case (2 x)
    then show ?case using lower_alpha_ascii by (auto simp: component_name_def)
  next
    case (3 x y zs)
    have "\<forall>c \<in> set x. ascii c \<and> \<not> ws1 c \<and> to_ascii_lower c = c"
      using 3(4) lower_alpha_ascii by (auto simp: component_name_def)
    then show ?case using 3 by (auto simp: ws1_def to_ascii_lower_def)
  qed simp
  have "join_with '','' ns \<noteq> []"
    using assms by (cases ns rule: remdups_adj.cases) (auto simp: component_name_def)
  then show "trim (join_with '','' ns) = join_with '','' ns"
    using s by (intro trim_solid) auto
  show "to_ascii_lowercase (join_with '','' ns) = join_with '','' ns"
    using s by (simp add: to_ascii_lowercase_def map_idI)
qed

text \<open>Fact: the granular kill-switch. A comma-separated \<^verbatim>\<open>AGENTGUARD_DISABLE\<close> list of component
  names, other than the single word \<open>true\<close>, disables exactly the components it names (plus those
  the configuration names), whatever other names occur in it.\<close>

theorem env_disable_exact:
  assumes "ns \<noteq> []" and "\<forall>n \<in> set ns. component_name n" and "ns \<noteq> [''true'']"
    and "component_name c" and "\<not> disable cfg"
  shows "is_component_disabled cfg c (parse_env_disable (join_with '','' ns)) \<longleftrightarrow>
           c \<in> set ns \<or> (\<exists>d \<in> set (disabled cfg). to_ascii_lowercase (trim d) = c)"
proof -
  let ?j = "join_with '','' ns"
  have sp: "split_on CHR '','' ?j = ns" using split_join_components assms by blast
  have "?j \<noteq> ''true''" and "?j \<noteq> ''1''"
  proof -
    show "?j \<noteq> ''true''" using sp assms(3) by (auto simp: split_on_id)
    show "?j \<noteq> ''1''"
    proof
      assume "?j = ''1''"
      then have "ns = [''1'']" using sp by simp
      then show False using assms(2) by (simp add: component_name_def)
    qed
  qed
  moreover have "map trim ns = ns" and "filter (\<lambda>s. s \<noteq> []) ns = ns"
    using assms(2) by (auto simp: component_name_simps component_name_def intro: map_idI filter_True)
  ultimately have "parse_env_disable ?j = \<lparr>env_all = False, env_names = ns\<rparr>"
    using join_components_solid [OF assms(1,2)] sp by (simp add: parse_env_disable_def Let_def)
  then show ?thesis
    using assms(4,5) by (auto simp: is_component_disabled_def component_name_simps list_ex_iff)
qed

theorem env_disable_exact_witness:
  "is_component_disabled default_config ''gate'' (parse_env_disable ''firewall,gate'') \<and>
   \<not> is_component_disabled default_config ''canary'' (parse_env_disable ''firewall,gate'')"
  using env_disable_exact [of "[''firewall'', ''gate'']" "''gate''" default_config]
    env_disable_exact [of "[''firewall'', ''gate'']" "''canary''" default_config]
  by (simp add: component_name_def default_config_def)

text \<open>Fact: severity presets. Under the built-in thresholds, every recognised \<open>level\<close> only ever
  raises the tier of a severity, and the three presets are ordered strict, high, critical.\<close>

theorem level_presets_tighten:
  assumes "cfg_thresholds cfg = default_thresholds"
  shows "severity_to_tier s default_thresholds \<le> severity_to_tier s (effective_thresholds cfg) \<and>
         severity_to_tier s (the (level_preset ''strict'')) \<le> severity_to_tier s (the (level_preset ''high'')) \<and>
         severity_to_tier s (the (level_preset ''high'')) \<le> severity_to_tier s (the (level_preset ''critical''))"
proof (intro conjI)
  have lp: "level_preset ''strict'' = Some \<lparr>block_at = 7, warn_at = 4\<rparr>"
      "level_preset ''high'' = Some \<lparr>block_at = 6, warn_at = 3\<rparr>"
      "level_preset ''critical'' = Some \<lparr>block_at = 5, warn_at = 2\<rparr>"
    by code_simp+
  show "severity_to_tier s default_thresholds \<le> severity_to_tier s (effective_thresholds cfg)"
    using assms
    by (auto simp: effective_thresholds_def level_preset_def Let_def default_thresholds_def
             intro!: severity_to_tier_antimono split: option.splits)
  show "severity_to_tier s (the (level_preset ''strict'')) \<le> severity_to_tier s (the (level_preset ''high''))"
    and "severity_to_tier s (the (level_preset ''high'')) \<le> severity_to_tier s (the (level_preset ''critical''))"
    by (simp_all add: lp severity_to_tier_antimono)
qed

theorem level_presets_tighten_witness:
  "severity_to_tier 6 (effective_thresholds (default_config\<lparr>level := Some ''Critical''\<rparr>)) = Block \<and>
   severity_to_tier 6 default_thresholds \<le>
     severity_to_tier 6 (effective_thresholds (default_config\<lparr>level := Some ''Critical''\<rparr>))"
proof
  show "severity_to_tier 6 (effective_thresholds (default_config\<lparr>level := Some ''Critical''\<rparr>)) = Block"
    by code_simp
  show "severity_to_tier 6 default_thresholds \<le>
     severity_to_tier 6 (effective_thresholds (default_config\<lparr>level := Some ''Critical''\<rparr>))"
    using level_presets_tighten [of "default_config\<lparr>level := Some ''Critical''\<rparr>" 6]
    by (simp add: default_config_def)
qed

end
