(* ===== verification/Compound.thy ===== *)
theory Compound
  imports Prelude
begin

text \<open>
  \<^verbatim>\<open>crates/apohara-agentguard/src/gate/compound.rs\<close>: the quote- and escape-aware splitter that turns
  a shell command line into its legs, and the extractor of command substitutions inside double
  quotes. The index \<^verbatim>\<open>i\<close> into the byte slice is the list of bytes still to read; an
  extractor that returns the index after a body returns the bytes after it.
\<close>

section \<open>Bodies of substitutions\<close>

text \<open>\<^verbatim>\<open>extract_paren_body\<close>, with the nesting depth as an argument (the source starts it at 1).\<close>

fun paren_loop :: "nat \<Rightarrow> string \<Rightarrow> string \<times> string" where
  "paren_loop depth [] = ([], [])"
| "paren_loop depth (c # cs) =
     (if depth = 0 then ([], c # cs)
      else if c = backslash \<and> cs \<noteq> [] then
        (case paren_loop depth (tl cs) of (inner, rest) \<Rightarrow> (latin1 c @ latin1 (hd cs) @ inner, rest))
      else if c = CHR ''('' then
        (case paren_loop (depth + 1) cs of (inner, rest) \<Rightarrow> (latin1 c @ inner, rest))
      else if c = CHR '')'' then
        (if depth = 1 then ([], cs)
         else (case paren_loop (depth - 1) cs of (inner, rest) \<Rightarrow> (latin1 c @ inner, rest)))
      else (case paren_loop depth cs of (inner, rest) \<Rightarrow> (latin1 c @ inner, rest)))"

definition extract_paren_body :: "string \<Rightarrow> string \<times> string" where
  "extract_paren_body s = paren_loop 1 s"

fun extract_backtick_body :: "string \<Rightarrow> string \<times> string" where
  "extract_backtick_body [] = ([], [])"
| "extract_backtick_body (c # cs) =
     (if c = backtick then ([], cs)
      else if c = backslash \<and> cs \<noteq> [] then
        (case extract_backtick_body (tl cs) of (inner, rest) \<Rightarrow> (latin1 c @ latin1 (hd cs) @ inner, rest))
      else (case extract_backtick_body cs of (inner, rest) \<Rightarrow> (latin1 c @ inner, rest)))"

declare paren_loop.simps(2) [simp del] extract_backtick_body.simps(2) [simp del]

lemma ascii_count_hd_tl:
  "cs \<noteq> [] \<Longrightarrow> (if ascii (hd cs) then 1 else 0) + ascii_count (tl cs) = ascii_count cs"
  by (cases cs) simp_all

lemma ascii_count_tl: "ascii_count (tl cs) \<le> ascii_count cs"
  by (cases cs) simp_all

lemma paren_loop_bounds:
  "ascii_count (fst (paren_loop d s)) \<le> ascii_count s \<and>
   ascii_count (snd (paren_loop d s)) \<le> ascii_count s \<and> length (snd (paren_loop d s)) \<le> length s"
proof (induction d s rule: paren_loop.induct)
  case (2 d c cs)
  then show ?case
    using ascii_count_hd_tl [of cs]
    by (auto simp: paren_loop.simps(2) [of d c cs] case_prod_beta split: if_splits)
qed simp

lemma backtick_bounds:
  "ascii_count (fst (extract_backtick_body s)) \<le> ascii_count s \<and>
   ascii_count (snd (extract_backtick_body s)) \<le> ascii_count s \<and>
   length (snd (extract_backtick_body s)) \<le> length s"
proof (induction s rule: extract_backtick_body.induct)
  case (2 c cs)
  then show ?case
    using ascii_count_hd_tl [of cs]
    by (auto simp: extract_backtick_body.simps(2) [of c cs] case_prod_beta split: if_splits)
qed simp

lemma extract_paren_body_bounds:
  "ascii_count (fst (extract_paren_body s)) \<le> ascii_count s"
  "ascii_count (snd (extract_paren_body s)) \<le> ascii_count s"
  "length (snd (extract_paren_body s)) \<le> length s"
  using paren_loop_bounds [of 1 s] by (simp_all add: extract_paren_body_def)

lemma extract_backtick_body_bounds:
  "ascii_count (fst (extract_backtick_body s)) \<le> ascii_count s"
  "ascii_count (snd (extract_backtick_body s)) \<le> ascii_count s"
  "length (snd (extract_backtick_body s)) \<le> length s"
  using backtick_bounds [of s] by simp_all

section \<open>The splitter\<close>

definition push_leg :: "string \<Rightarrow> string list" where
  "push_leg current = (let trimmed = trim current in if trimmed = [] then [] else [trimmed])"

text \<open>
  The walker. \<open>extra\<close> holds the extra separators (encoded characters), \<open>dq\<close> and \<open>sq\<close> the quote
  state, \<open>cur\<close> the leg read so far. Substitution bodies are split by a fresh walk without extra
  separators. Every round consumes bytes; a body can be longer than the text it was read from
  (bytes above 127 are re-encoded), but it has fewer ASCII bytes.
\<close>

definition split_rel where
  "split_rel = measures [\<lambda>(extra :: string list, dq :: bool, sq :: bool, cur :: string, s). ascii_count s,
                         \<lambda>(extra, dq, sq, cur, s). length s]"

lemma split_rel_next:
  "ascii_count t \<le> ascii_count s \<Longrightarrow> length t < length s \<Longrightarrow>
     ((e', d', q', u', t), (e, d, q, u, s)) \<in> split_rel"
  by (auto simp: split_rel_def)

lemma split_rel_body:
  "ascii_count t < ascii_count s \<Longrightarrow> ((e', d', q', u', t), (e, d, q, u, s)) \<in> split_rel"
  by (auto simp: split_rel_def)

lemma next_is_paren_fst:
  "next_is CHR ''('' cs \<Longrightarrow> ascii_count (fst (extract_paren_body (tl cs))) < ascii_count (c # cs)"
  using extract_paren_body_bounds(1) [of "tl cs"] ascii_count_hd_tl [of cs] by (auto simp: next_is_Cons)

lemma next_is_paren_snd:
  "next_is CHR ''('' cs \<Longrightarrow> ascii_count (snd (extract_paren_body (tl cs))) \<le> ascii_count (c # cs)"
  "next_is CHR ''('' cs \<Longrightarrow> length (snd (extract_paren_body (tl cs))) < length (c # cs)"
  using extract_paren_body_bounds(2,3) [of "tl cs"] ascii_count_tl [of cs] by (auto simp: next_is_Cons)

function split_go :: "string list \<Rightarrow> bool \<Rightarrow> bool \<Rightarrow> string \<Rightarrow> string \<Rightarrow> string list" where
  "split_go extra dq sq cur [] = push_leg cur"
| "split_go extra dq sq cur (c # cs) =
     (if \<not> sq \<and> c = backslash \<and> cs \<noteq> [] then
        split_go extra dq sq (cur @ latin1 c @ latin1 (hd cs)) (tl cs)
      else if c = dquote \<and> \<not> sq then split_go extra (\<not> dq) sq (cur @ latin1 c) cs
      else if c = squote \<and> \<not> dq then split_go extra dq (\<not> sq) (cur @ latin1 c) cs
      else if \<not> dq \<and> \<not> sq \<and> c = CHR ''$'' \<and> next_is CHR ''('' cs then
        push_leg cur @ split_go [] False False [] (fst (extract_paren_body (tl cs)))
          @ split_go extra dq sq [] (snd (extract_paren_body (tl cs)))
      else if \<not> dq \<and> \<not> sq \<and> c = backtick then
        push_leg cur @ split_go [] False False [] (fst (extract_backtick_body cs))
          @ split_go extra dq sq [] (snd (extract_backtick_body cs))
      else if \<not> dq \<and> \<not> sq \<and> (c = CHR ''<'' \<or> c = CHR ''>'') \<and> next_is CHR ''('' cs then
        push_leg cur @ split_go [] False False [] (fst (extract_paren_body (tl cs)))
          @ split_go extra dq sq [] (snd (extract_paren_body (tl cs)))
      else if \<not> dq \<and> \<not> sq \<and> ((c = CHR ''&'' \<and> next_is CHR ''&'' cs) \<or> (c = CHR ''|'' \<and> next_is CHR ''|'' cs)) then
        push_leg cur @ split_go extra dq sq [] (tl cs)
      else if \<not> dq \<and> \<not> sq \<and> (c = CHR '';'' \<or> c = CHR ''|'' \<or> c = CHR ''&'' \<or> c = newline) then
        push_leg cur @ split_go extra dq sq [] cs
      else if \<not> dq \<and> \<not> sq \<and> latin1 c \<in> set extra then
        push_leg cur @ split_go extra dq sq [] cs
      else if \<not> dq \<and> \<not> sq \<and> (c = CHR ''('' \<or> c = CHR '')'') then
        push_leg cur @ split_go extra dq sq [] cs
      else split_go extra dq sq (cur @ latin1 c) cs)"
  by pat_completeness auto
termination
proof (relation split_rel, goal_cases)
  case 1
  show ?case by (simp add: split_rel_def)
next
  case (2 extra dq sq cur c cs)
  then show ?case using ascii_count_tl [of cs] by (intro split_rel_next) auto
next
  case (5 extra dq sq cur c cs)
  then show ?case by (intro split_rel_body next_is_paren_fst) simp
next
  case (6 extra dq sq cur c cs)
  then show ?case by (intro split_rel_next next_is_paren_snd) simp_all
next
  case (7 extra dq sq cur c cs)
  then show ?case using extract_backtick_body_bounds(1) [of cs] by (intro split_rel_body) simp
next
  case (8 extra dq sq cur c cs)
  then show ?case
    using extract_backtick_body_bounds(2,3) [of cs] by (intro split_rel_next) simp_all
next
  case (9 extra dq sq cur c cs)
  then show ?case by (intro split_rel_body next_is_paren_fst) simp
next
  case (10 extra dq sq cur c cs)
  then show ?case by (intro split_rel_next next_is_paren_snd) simp_all
next
  case (11 extra dq sq cur c cs)
  have "next_is CHR ''&'' cs \<or> next_is CHR ''|'' cs" using 11(7) by blast
  then have "cs \<noteq> []" unfolding next_is_Cons by blast
  then show ?case using ascii_count_tl [of cs] by (intro split_rel_next) auto
qed (rule split_rel_next; simp)+

declare split_go.simps(2) [simp del]

definition split_compound_with_separators :: "string \<Rightarrow> string list \<Rightarrow> string list" where
  "split_compound_with_separators command extra_seps = split_go extra_seps False False [] command"

definition split_compound :: "string \<Rightarrow> string list" where
  "split_compound command = split_compound_with_separators command []"

section \<open>Substitutions inside double quotes\<close>

definition MAX_SUBST_BODIES :: nat where
  "MAX_SUBST_BODIES = 64"

text \<open>\<open>room\<close> is the number of bodies that may still be pushed before the cap.\<close>

function subst_go :: "nat \<Rightarrow> bool \<Rightarrow> bool \<Rightarrow> string \<Rightarrow> string list" where
  "subst_go room dq sq [] = []"
| "subst_go room dq sq (c # cs) =
     (if room = 0 then []
      else if \<not> sq \<and> c = backslash \<and> cs \<noteq> [] then subst_go room dq sq (tl cs)
      else if c = dquote \<and> \<not> sq then subst_go room (\<not> dq) sq cs
      else if c = squote \<and> \<not> dq then subst_go room dq (\<not> sq) cs
      else if dq \<and> \<not> sq \<and> c = CHR ''$'' \<and> next_is CHR ''('' cs then
        fst (extract_paren_body (tl cs)) # subst_go (room - 1) dq sq (snd (extract_paren_body (tl cs)))
      else if dq \<and> \<not> sq \<and> c = backtick then
        fst (extract_backtick_body cs) # subst_go (room - 1) dq sq (snd (extract_backtick_body cs))
      else subst_go room dq sq cs)"
  by pat_completeness auto
termination
proof (relation "measure (\<lambda>(room, dq, sq, s). length s)", goal_cases)
  case (5 room dq sq c cs)
  then show ?case using extract_paren_body_bounds(3) [of "tl cs"] by (cases cs) auto
next
  case (6 room dq sq c cs)
  then show ?case using extract_backtick_body_bounds(3) [of cs] by auto
qed auto

declare subst_go.simps(2) [simp del]

definition extract_double_quoted_substitutions :: "string \<Rightarrow> string list" where
  "extract_double_quoted_substitutions leg = subst_go MAX_SUBST_BODIES False False leg"

section \<open>Every leg is trimmed and non-empty\<close>

definition good_leg :: "string \<Rightarrow> bool" where
  "good_leg leg = (leg \<noteq> [] \<and> trim leg = leg)"

lemma push_leg_good: "list_all good_leg (push_leg cur)"
  by (simp add: push_leg_def Let_def good_leg_def)

lemma list_all_if: "(b \<Longrightarrow> list_all g x) \<Longrightarrow> (\<not> b \<Longrightarrow> list_all g y) \<Longrightarrow> list_all g (if b then x else y)"
  by simp

lemma list_all_appI: "list_all g x \<Longrightarrow> list_all g y \<Longrightarrow> list_all g (x @ y)"
  by simp

lemma split_go_good: "list_all good_leg (split_go ex dq sq cur s)"
proof (induction ex dq sq cur s rule: split_go.induct)
  case (1 ex dq sq cur)
  then show ?case by (simp add: push_leg_good)
next
  case (2 ex dq sq cur c cs)
  show ?case
    unfolding split_go.simps(2)
    by (intro list_all_if list_all_appI push_leg_good; rule "2.IH"; assumption)
qed

text \<open>Fact: the splitter never returns an empty or untrimmed leg, for any command and any extra
  separators.\<close>

theorem split_legs_trimmed:
  "leg \<in> set (split_compound_with_separators command extra) \<Longrightarrow> leg \<noteq> [] \<and> trim leg = leg"
  using split_go_good [of extra False False "[]" command]
  by (auto simp: split_compound_with_separators_def good_leg_def list_all_iff)

section \<open>Text without shell metacharacters\<close>

definition seps :: "char set" where
  "seps = {CHR '';'', CHR ''|'', CHR ''&'', newline, CHR ''('', CHR '')''}"

definition plain_char :: "char \<Rightarrow> bool" where
  "plain_char c = (c \<notin> seps \<union> {backslash, dquote, squote, backtick})"

text \<open>Plain text may hold \<open>$\<close>, \<open><\<close> and \<open>>\<close>, but not as its last byte (an opening parenthesis might
  follow).\<close>

definition plain :: "string \<Rightarrow> bool" where
  "plain s = (list_all plain_char s \<and> (s = [] \<or> last s \<notin> {CHR ''$'', CHR ''<'', CHR ''>''}))"

lemma plain_Nil [simp]: "plain []"
  by (simp add: plain_def)

lemma plain_Cons: "plain (c # s) \<longleftrightarrow>
    plain_char c \<and> plain s \<and> (s = [] \<longrightarrow> c \<notin> {CHR ''$'', CHR ''<'', CHR ''>''})"
  by (auto simp: plain_def)

lemma split_go_plain_char:
  "plain_char c \<Longrightarrow> (c \<in> {CHR ''$'', CHR ''<'', CHR ''>''} \<longrightarrow> \<not> next_is CHR ''('' cs) \<Longrightarrow>
   split_go [] False False cur (c # cs) = split_go [] False False (cur @ latin1 c) cs"
  by (subst split_go.simps(2)) (auto simp: plain_char_def seps_def)

lemma split_go_plain:
  "plain s \<Longrightarrow> split_go [] False False cur (s @ r) = split_go [] False False (cur @ lat s) r"
proof (induction s arbitrary: cur)
  case (Cons c s)
  have "\<not> next_is CHR ''('' (s @ r)" if "c \<in> {CHR ''$'', CHR ''<'', CHR ''>''}"
  proof (cases s)
    case Nil
    then show ?thesis using Cons.prems that by (auto simp: plain_Cons)
  next
    case (Cons c' s')
    then show ?thesis using Cons.prems \<open>plain (c # s)\<close>
      by (auto simp: plain_Cons next_is_def plain_char_def seps_def)
  qed
  then show ?case using Cons by (simp add: plain_Cons split_go_plain_char)
qed simp

lemma split_go_sep_simple:
  "c \<in> seps \<Longrightarrow> \<not> (c = CHR ''&'' \<and> next_is CHR ''&'' r) \<Longrightarrow> \<not> (c = CHR ''|'' \<and> next_is CHR ''|'' r) \<Longrightarrow>
   split_go [] False False cur (c # r) = push_leg cur @ split_go [] False False [] r"
  by (subst split_go.simps(2)) (auto simp: seps_def)

lemma push_leg_Nil [simp]: "push_leg [] = []"
  by (simp add: push_leg_def)

lemma split_go_double:
  "c = CHR ''&'' \<or> c = CHR ''|'' \<Longrightarrow>
   split_go [] False False cur (c # c # r) = push_leg cur @ split_go [] False False [] r"
  by (subst split_go.simps(2)) (auto simp: next_is_def)

lemma split_go_drop_sep: "c \<in> seps \<Longrightarrow> split_go [] False False [] (c # r) = split_go [] False False [] r"
proof (induction r arbitrary: c)
  case Nil
  then show ?case by (simp add: split_go_sep_simple next_is_def)
next
  case (Cons d r)
  show ?case
  proof (cases "(c = CHR ''&'' \<or> c = CHR ''|'') \<and> d = c")
    case True
    then show ?thesis using Cons.IH [of d] Cons.prems by (auto simp: split_go_double)
  next
    case False
    then show ?thesis using Cons.prems
      by (subst split_go_sep_simple) (auto simp: next_is_def)
  qed
qed

text \<open>At a separator the walker closes the current leg and starts afresh, whatever follows.\<close>

lemma split_go_sep:
  assumes "c \<in> seps"
  shows "split_go [] False False cur (c # r) = push_leg cur @ split_go [] False False [] r"
proof (cases "(c = CHR ''&'' \<and> next_is CHR ''&'' r) \<or> (c = CHR ''|'' \<and> next_is CHR ''|'' r)")
  case True
  then obtain r' where r: "r = c # r'" and c: "c = CHR ''&'' \<or> c = CHR ''|''"
    by (auto simp: next_is_def split: list.splits)
  then show ?thesis using assms by (auto simp: split_go_double split_go_drop_sep)
next
  case False
  then show ?thesis using assms by (intro split_go_sep_simple) auto
qed

lemma split_go_open:
  "o1 \<in> {CHR ''$'', CHR ''<'', CHR ''>''} \<Longrightarrow>
   split_go [] False False cur (o1 # CHR ''('' # r) =
     push_leg cur @ split_go [] False False [] (fst (extract_paren_body r))
       @ split_go [] False False [] (snd (extract_paren_body r))"
  by (subst split_go.simps(2)) (auto simp: next_is_def)

lemma split_go_backtick:
  "split_go [] False False cur (backtick # r) =
     push_leg cur @ split_go [] False False [] (fst (extract_backtick_body r))
       @ split_go [] False False [] (snd (extract_backtick_body r))"
  by (subst split_go.simps(2)) simp

section \<open>A leg hidden behind separators and substitutions\<close>

text \<open>
  The text before a leg, as a list of segments: plain text, then a connective. A connective is a
  separator byte or the opening of a substitution: \<open>Opens\<close> for \<^verbatim>\<open>$(\<close>, \<^verbatim>\<open><(\<close> and \<^verbatim>\<open>>(\<close>,
  \<open>Ticks\<close> for a backtick (after which no further backtick may occur, since backticks do not nest).
  Two-byte separators such as \<^verbatim>\<open>&&\<close> are two \<open>Sep\<close> segments.
\<close>

datatype connective = Sep char | Opens char | Ticks

type_synonym segment = "string \<times> connective"

fun connective_text :: "connective \<Rightarrow> string" where
  "connective_text (Sep c) = [c]"
| "connective_text (Opens c) = [c, CHR ''('']"
| "connective_text Ticks = [backtick]"

fun connective_ok :: "connective \<Rightarrow> bool" where
  "connective_ok (Sep c) = (c \<in> seps - {CHR '')''})"
| "connective_ok (Opens c) = (c \<in> {CHR ''$'', CHR ''<'', CHR ''>''})"
| "connective_ok Ticks = True"

fun render :: "segment list \<Rightarrow> string" where
  "render [] = []"
| "render ((p, k) # segs) = p @ connective_text k @ render segs"

fun segments_ok :: "segment list \<Rightarrow> bool" where
  "segments_ok [] = True"
| "segments_ok ((p, k) # segs) =
     (plain p \<and> ascii_str p \<and> connective_ok k \<and> segments_ok segs \<and>
      (k = Ticks \<longrightarrow> Ticks \<notin> snd ` set segs))"

definition boundary :: "string \<Rightarrow> bool" where
  "boundary post = (post = [] \<or> hd post \<in> insert backtick seps)"

text \<open>Reading a parenthesised or backtick body keeps such text as it is.\<close>

lemma seps_ascii: "c \<in> seps \<Longrightarrow> ascii c"
  by (auto simp: seps_def)

lemma paren_loop_char:
  "c \<notin> {backslash, CHR ''('', CHR '')''} \<Longrightarrow> ascii c \<Longrightarrow>
   fst (paren_loop (Suc k) (c # s)) = c # fst (paren_loop (Suc k) s)"
  by (subst paren_loop.simps(2)) (simp add: case_prod_beta)

lemma paren_loop_open: "fst (paren_loop (Suc k) (CHR ''('' # s)) = CHR ''('' # fst (paren_loop (Suc (Suc k)) s)"
  by (subst paren_loop.simps(2)) (simp add: case_prod_beta)

lemma paren_loop_plain:
  "plain p \<Longrightarrow> ascii_str p \<Longrightarrow> fst (paren_loop (Suc k) (p @ s)) = p @ fst (paren_loop (Suc k) s)"
  by (induction p) (auto simp: plain_Cons plain_char_def seps_def paren_loop_char)

lemma paren_loop_connective:
  "connective_ok k \<Longrightarrow>
   \<exists>n'. fst (paren_loop (Suc n) (connective_text k @ s)) = connective_text k @ fst (paren_loop (Suc n') s)"
  by (cases k) (auto simp: paren_loop_char paren_loop_open seps_def)

lemma paren_loop_render:
  "segments_ok segs \<Longrightarrow> plain d \<Longrightarrow> ascii_str d \<Longrightarrow>
   \<exists>n'. fst (paren_loop (Suc n) (render segs @ d @ post)) = render segs @ d @ fst (paren_loop (Suc n') post)"
proof (induction segs arbitrary: n rule: render.induct)
  case 1
  then show ?case by (auto simp: paren_loop_plain)
next
  case (2 p k segs)
  obtain n' where
    "fst (paren_loop (Suc n) (connective_text k @ render segs @ d @ post)) =
     connective_text k @ fst (paren_loop (Suc n') (render segs @ d @ post))"
    using 2 paren_loop_connective by (metis segments_ok.simps(2))
  then show ?case using 2 by (auto simp: paren_loop_plain)
qed

lemma backtick_char:
  "c \<notin> {backslash, backtick} \<Longrightarrow> ascii c \<Longrightarrow>
   fst (extract_backtick_body (c # s)) = c # fst (extract_backtick_body s)"
  by (subst extract_backtick_body.simps(2)) (simp add: case_prod_beta)

lemma backtick_plain:
  "plain p \<Longrightarrow> ascii_str p \<Longrightarrow> fst (extract_backtick_body (p @ s)) = p @ fst (extract_backtick_body s)"
  by (induction p) (auto simp: plain_Cons plain_char_def backtick_char)

lemma backtick_connective:
  "connective_ok k \<Longrightarrow> k \<noteq> Ticks \<Longrightarrow>
   fst (extract_backtick_body (connective_text k @ s)) = connective_text k @ fst (extract_backtick_body s)"
  by (cases k) (auto simp: backtick_char seps_def)

lemma backtick_render:
  "segments_ok segs \<Longrightarrow> Ticks \<notin> snd ` set segs \<Longrightarrow> plain d \<Longrightarrow> ascii_str d \<Longrightarrow>
   fst (extract_backtick_body (render segs @ d @ post)) = render segs @ d @ fst (extract_backtick_body post)"
  by (induction segs rule: render.induct) (auto simp: backtick_plain backtick_connective)

lemma boundary_paren: "boundary post \<Longrightarrow> boundary (fst (paren_loop (Suc n) post))"
  by (cases post) (auto simp: boundary_def paren_loop.simps(2) case_prod_beta seps_def)

lemma boundary_backtick: "boundary post \<Longrightarrow> boundary (fst (extract_backtick_body post))"
  by (cases post) (auto simp: boundary_def extract_backtick_body.simps(2) case_prod_beta seps_def)

lemma split_go_boundary:
  assumes "boundary post"
  shows "\<exists>legs. split_go [] False False cur post = push_leg cur @ legs"
  using assms
  by (cases post) (auto simp: boundary_def split_go_sep split_go_backtick)

lemma leg_surfaces:
  "segments_ok segs \<Longrightarrow> plain d \<Longrightarrow> ascii_str d \<Longrightarrow> trim d \<noteq> [] \<Longrightarrow> boundary post \<Longrightarrow>
   segs = [] \<longrightarrow> cur = [] \<Longrightarrow>
   trim d \<in> set (split_go [] False False cur (render segs @ d @ post))"
proof (induction segs arbitrary: cur post rule: render.induct)
  case 1
  then obtain legs where "split_go [] False False d post = push_leg d @ legs"
    using split_go_boundary by blast
  then show ?case using 1 by (simp add: split_go_plain push_leg_def)
next
  case (2 p k segs)
  have IH: "boundary post' \<Longrightarrow> trim d \<in> set (split_go [] False False [] (render segs @ d @ post'))" for post'
    using 2 by simp
  have ok: "plain p" "ascii_str p" "connective_ok k" "segments_ok segs"
    using "2.prems" by simp_all
  show ?case
  proof (cases k)
    case (Sep c)
    then show ?thesis using ok IH [OF "2.prems"(5)] by (simp add: split_go_plain split_go_sep)
  next
    case (Opens c)
    obtain n where n: "fst (paren_loop (Suc 0) (render segs @ d @ post)) =
        render segs @ d @ fst (paren_loop (Suc n) post)"
      using paren_loop_render ok(4) "2.prems"(2,3) by blast
    show ?thesis
      using Opens ok IH [OF boundary_paren [OF "2.prems"(5), of n]] n
      by (simp add: split_go_plain split_go_open extract_paren_body_def)
  next
    case Ticks
    then have "fst (extract_backtick_body (render segs @ d @ post)) =
        render segs @ d @ fst (extract_backtick_body post)"
      using "2.prems" by (intro backtick_render) simp_all
    then show ?thesis
      using Ticks ok IH [OF boundary_backtick [OF "2.prems"(5)]]
      by (simp add: split_go_plain split_go_backtick)
  qed
qed

text \<open>Fact: the load-bearing invariant of the splitter. A leg of plain text placed behind any
  sequence of separators and nested command or process substitutions, with arbitrary text after it
  that begins at a leg boundary, always surfaces as a leg of its own.\<close>

theorem injected_leg_surfaces:
  assumes "segments_ok segs" and "plain d" and "ascii_str d" and "trim d \<noteq> []" and "boundary post"
  shows "trim d \<in> set (split_compound (render segs @ d @ post))"
  using leg_surfaces [OF assms, of "[]"]
  by (simp add: split_compound_def split_compound_with_separators_def)

theorem injected_leg_surfaces_witness:
  "''rm -rf ~'' \<in> set (split_compound ''git status && echo $(ls `cat x; rm -rf ~ ` | wc'')"
proof -
  let ?segs = "[(''git status '', Sep CHR ''&''), ([], Sep CHR ''&''), ('' echo '', Opens CHR ''$''),
                (''ls '', Ticks), (''cat x'', Sep CHR '';'')]"
  have ok: "segments_ok ?segs" "plain '' rm -rf ~ ''" "ascii_str '' rm -rf ~ ''"
    "trim '' rm -rf ~ '' = ''rm -rf ~''" "boundary ''` | wc''"
    by code_simp+
  have "trim '' rm -rf ~ '' \<in> set (split_compound (render ?segs @ '' rm -rf ~ '' @ ''` | wc''))"
    by (rule injected_leg_surfaces) (use ok in simp_all)
  moreover have "render ?segs @ '' rm -rf ~ '' @ ''` | wc'' = ''git status && echo $(ls `cat x; rm -rf ~ ` | wc''"
    by simp
  ultimately show ?thesis using ok(4) by simp
qed

section \<open>Quoted text\<close>

lemma split_go_single_quoted:
  "squote \<notin> set q \<Longrightarrow>
   split_go [] False True cur (q @ squote # r) = split_go [] False False (cur @ lat q @ [squote]) r"
proof (induction q arbitrary: cur)
  case Nil
  show ?case by (subst append_Nil, subst split_go.simps(2)) simp
next
  case (Cons c q)
  then show ?case
    by (subst append_Cons, subst split_go.simps(2)) auto
qed

lemma split_go_squote:
  "split_go [] False False cur (squote # r) = split_go [] False True (cur @ [squote]) r"
  by (subst split_go.simps(2)) simp

text \<open>Fact: single quotes make text inert. Whatever a single-quoted span holds (separators,
  substitutions, backslashes, double quotes), a leg that consists of plain text, the span and plain
  text is returned as one leg, and the walk goes on after it as if the span were plain.\<close>

theorem single_quotes_do_not_split:
  assumes "plain p" and "plain r" and "squote \<notin> set q" and "boundary post"
  shows "\<exists>legs. split_compound (p @ [squote] @ q @ [squote] @ r @ post) =
           push_leg (lat (p @ [squote] @ q @ [squote] @ r)) @ legs \<and>
         (post = [] \<longrightarrow> legs = [])"
proof -
  let ?leg = "lat (p @ [squote] @ q @ [squote] @ r)"
  have "split_compound (p @ [squote] @ q @ [squote] @ r @ post) = split_go [] False False ?leg post"
    using assms
    by (simp add: split_compound_def split_compound_with_separators_def split_go_plain
        split_go_squote split_go_single_quoted)
  moreover obtain legs where "split_go [] False False ?leg post = push_leg ?leg @ legs"
    using split_go_boundary assms(4) by blast
  moreover have "post = [] \<longrightarrow> legs = []"
    using calculation(2) by (cases post) auto
  ultimately show ?thesis by auto
qed

theorem single_quotes_do_not_split_witness:
  "\<exists>legs. split_compound (''echo '' @ [squote] @ ''a; $(rm -rf ~)'' @ [squote] @ '' '' @ '';ls'') =
     push_leg (lat (''echo '' @ [squote] @ ''a; $(rm -rf ~)'' @ [squote] @ '' '')) @ legs \<and>
     ('';ls'' = ([] :: string) \<longrightarrow> legs = [])"
  by (rule single_quotes_do_not_split) code_simp+

section \<open>Live substitutions inside double quotes\<close>

lemma subst_go_length: "length (subst_go room dq sq s) \<le> room"
proof (induction room dq sq s rule: subst_go.induct)
  case (2 room dq sq c cs)
  then show ?case
    by (subst subst_go.simps(2)) auto
qed simp

lemma subst_go_skip:
  "list_all plain_char t \<Longrightarrow> CHR ''$'' \<notin> set t \<Longrightarrow> 0 < room \<Longrightarrow>
   subst_go room dq False (t @ r) = subst_go room dq False r"
proof (induction t)
  case (Cons c t)
  then show ?case
    by (subst append_Cons, subst subst_go.simps(2)) (auto simp: plain_char_def)
qed simp

lemma paren_body_plain:
  "list_all plain_char b \<Longrightarrow> ascii_str b \<Longrightarrow> extract_paren_body (b @ CHR '')'' # r) = (b, r)"
  unfolding extract_paren_body_def
proof (induction b)
  case Nil
  show ?case by (simp add: paren_loop.simps(2))
next
  case (Cons c b)
  then show ?case
    by (subst append_Cons, subst paren_loop.simps(2)) (auto simp: plain_char_def seps_def)
qed

lemma extract_first_substitution:
  assumes "list_all plain_char p" "CHR ''$'' \<notin> set p" and "list_all plain_char t" "CHR ''$'' \<notin> set t"
    and "list_all plain_char b" "ascii_str b"
  shows "extract_double_quoted_substitutions (p @ [dquote] @ t @ ''$('' @ b @ '')'' @ post) =
         b # subst_go 63 True False post"
proof -
  have "subst_go 64 False False (p @ dquote # t @ CHR ''$'' # CHR ''('' # b @ CHR '')'' # post) =
        subst_go 64 False False (dquote # t @ CHR ''$'' # CHR ''('' # b @ CHR '')'' # post)"
    using assms by (simp add: subst_go_skip)
  also have "\<dots> = subst_go 64 True False (t @ CHR ''$'' # CHR ''('' # b @ CHR '')'' # post)"
    by (subst subst_go.simps(2)) simp
  also have "\<dots> = subst_go 64 True False (CHR ''$'' # CHR ''('' # b @ CHR '')'' # post)"
    using assms by (simp add: subst_go_skip)
  also have "\<dots> = b # subst_go 63 True False post"
    using assms by (subst subst_go.simps(2)) (simp add: next_is_def paren_body_plain)
  finally show ?thesis
    by (simp add: extract_double_quoted_substitutions_def MAX_SUBST_BODIES_def)
qed

text \<open>Fact: a command substitution inside a double-quoted argument is surfaced as live code, and
  no leg surfaces more than 64 of them.\<close>

theorem double_quoted_substitution_surfaces:
  assumes "list_all plain_char p" "CHR ''$'' \<notin> set p" and "list_all plain_char t" "CHR ''$'' \<notin> set t"
    and "list_all plain_char b" "ascii_str b"
  shows "hd (extract_double_quoted_substitutions (p @ [dquote] @ t @ ''$('' @ b @ '')'' @ post)) = b \<and>
         length (extract_double_quoted_substitutions leg) \<le> MAX_SUBST_BODIES"
proof
  show "hd (extract_double_quoted_substitutions (p @ [dquote] @ t @ ''$('' @ b @ '')'' @ post)) = b"
    by (simp only: extract_first_substitution [OF assms] list.sel)
  show "length (extract_double_quoted_substitutions leg) \<le> MAX_SUBST_BODIES"
    by (simp add: extract_double_quoted_substitutions_def subst_go_length)
qed

theorem double_quoted_substitution_surfaces_witness:
  "hd (extract_double_quoted_substitutions (''echo '' @ [dquote] @ ''hi '' @ ''$('' @ ''rm -rf ~'' @ '')'' @ [dquote]))
     = ''rm -rf ~'' \<and> length (extract_double_quoted_substitutions ''echo'') \<le> MAX_SUBST_BODIES"
  by (rule double_quoted_substitution_surfaces) code_simp+

end
