(* ===== verification/Normalize.thy ===== *)
theory Normalize
  imports Prelude
begin

text \<open>
  \<^verbatim>\<open>crates/apohara-agentguard/src/gate/normalize.rs\<close>: the bounded textual pre-pass that rewrites
  shell obfuscation (line continuations, ANSI-C quoting, leg-head echo substitutions) before the
  command is split, and collects the separators an \<^verbatim>\<open>IFS\<close> reassignment introduces. The contract
  all three rewriting passes keep with the shared budget is the locale \<open>budgeted_pass\<close>.
\<close>

definition MAX_NORMALIZE_BYTES :: nat where "MAX_NORMALIZE_BYTES = 64 * 1024"
definition MAX_REWRITES :: nat where "MAX_REWRITES = 64"
definition MAX_EXPANSION_RATIO :: nat where "MAX_EXPANSION_RATIO = 4"

record budget =
  rewrites_done :: nat
  max_bytes :: nat

text \<open>\<^verbatim>\<open>Budget::allow\<close>: the answer and the budget after the call.\<close>

definition allow_rewrite :: "budget \<Rightarrow> nat \<Rightarrow> bool \<times> budget" where
  "allow_rewrite b new_len =
     (if rewrites_done b \<ge> MAX_REWRITES \<or> new_len > max_bytes b then (False, b)
      else (True, b\<lparr>rewrites_done := rewrites_done b + 1\<rparr>))"

section \<open>Pass 1: line continuations\<close>

function join_go :: "budget \<Rightarrow> string \<Rightarrow> string \<Rightarrow> string \<times> budget" where
  "join_go b out [] = (out, b)"
| "join_go b out (c # cs) =
     (if c = backslash \<and> next_is newline cs \<and> fst (allow_rewrite b (length out)) then
        join_go (snd (allow_rewrite b (length out))) out (tl cs)
      else if c = backslash \<and> next_is carriage cs \<and> next_is newline (tl cs)
              \<and> fst (allow_rewrite b (length out)) then
        join_go (snd (allow_rewrite b (length out))) out (tl (tl cs))
      else join_go b (out @ latin1 c) cs)"
  by pat_completeness auto
termination
  by (relation "measure (\<lambda>(b, out, s). length s)") auto

definition join_line_continuations :: "budget \<Rightarrow> string \<Rightarrow> string \<times> budget" where
  "join_line_continuations b s = (if backslash \<notin> set s then (s, b) else join_go b [] s)"

section \<open>Pass 2: ANSI-C quoting\<close>

definition is_hex :: "char \<Rightarrow> bool" where
  "is_hex c = (is_ascii_digit c \<or> (97 \<le> code c \<and> code c \<le> 102) \<or> (65 \<le> code c \<and> code c \<le> 70))"

definition hex_val :: "char \<Rightarrow> nat" where
  "hex_val c =
     (if is_ascii_digit c then code c - 48
      else if 97 \<le> code c \<and> code c \<le> 102 then code c - 97 + 10
      else if 65 \<le> code c \<and> code c \<le> 70 then code c - 65 + 10
      else 0)"

definition is_octal :: "char \<Rightarrow> bool" where
  "is_octal c = (48 \<le> code c \<and> code c \<le> 55)"

text \<open>\<^verbatim>\<open>char::from_u32\<close>: no surrogates, nothing above U+10FFFF.\<close>

definition from_u32 :: "nat \<Rightarrow> string option" where
  "from_u32 n = (if n \<le> 0x10FFFF \<and> \<not> (0xD800 \<le> n \<and> n \<le> 0xDFFF) then Some (utf8 n) else None)"

text \<open>The digit loops: at most \<open>count\<close> digits, value accumulated in \<open>val\<close>.\<close>

fun digits_go :: "nat \<Rightarrow> (char \<Rightarrow> bool) \<Rightarrow> (char \<Rightarrow> nat) \<Rightarrow> nat \<Rightarrow> nat \<Rightarrow> string \<Rightarrow> nat \<times> string" where
  "digits_go base ok digit 0 val s = (val, s)"
| "digits_go base ok digit (Suc k) val [] = (val, [])"
| "digits_go base ok digit (Suc k) val (c # cs) =
     (if ok c then digits_go base ok digit k (val * base + digit c) cs else (val, c # cs))"

text \<open>\<open>decode_escape\<close> gets the bytes after the backslash (there is at least one).\<close>

definition decode_escape :: "string \<Rightarrow> string option \<times> string" where
  "decode_escape s =
     (let c = hd s; r = tl s in
      if c = CHR ''n'' then (Some [newline], r)
      else if c = CHR ''t'' then (Some [CHR 0x09], r)
      else if c = CHR ''r'' then (Some [carriage], r)
      else if c = backslash then (Some [backslash], r)
      else if c = squote then (Some [squote], r)
      else if c = dquote then (Some [dquote], r)
      else if c = CHR ''x'' then
        (if r = [] \<or> \<not> is_hex (hd r) then (None, s)
         else (case digits_go 16 is_hex hex_val 2 0 r of (val, rest) \<Rightarrow> (from_u32 val, rest)))
      else if c = CHR ''u'' then
        (if r = [] \<or> \<not> is_hex (hd r) then (None, s)
         else (case digits_go 16 is_hex hex_val 4 0 r of (val, rest) \<Rightarrow> (from_u32 val, rest)))
      else if is_octal c then
        (case digits_go 8 is_octal (\<lambda>d. code d - 48) 3 0 s of (val, rest) \<Rightarrow> (from_u32 val, rest))
      else (None, s))"

lemma digits_go_length: "length (snd (digits_go base ok digit k val s)) \<le> length s"
  by (induction base ok digit k val s rule: digits_go.induct) auto

lemma digits_go_length_less:
  "s \<noteq> [] \<Longrightarrow> ok (hd s) \<Longrightarrow> k \<noteq> 0 \<Longrightarrow> length (snd (digits_go base ok digit k val s)) < length s"
  using digits_go_length
  by (cases s; cases k) (auto intro: le_less_trans [OF digits_go_length] simp: less_Suc_eq_le)

lemma decode_escape_length:
  assumes "s \<noteq> []" and "fst (decode_escape s) = Some d"
  shows "length (snd (decode_escape s)) < length s"
proof -
  have r: "length (tl s) < length s" using assms(1) by (cases s) auto
  have "length (snd (digits_go base ok digit k 0 (tl s))) < length s" for base ok digit k
    using digits_go_length r by (rule le_less_trans)
  moreover have "is_octal (hd s) \<Longrightarrow> length (snd (digits_go 8 is_octal (\<lambda>d. code d - 48) 3 0 s)) < length s"
    using assms(1) by (rule digits_go_length_less) simp_all
  ultimately show ?thesis
    using assms(2) r
    by (auto simp: decode_escape_def Let_def case_prod_beta simp del: length_tl split: if_splits)
qed

text \<open>\<open>read_ansi_c_span\<close> gets the bytes after the opening \<^verbatim>\<open>$'\<close>; \<open>None\<close> when it is not closed.\<close>

function read_ansi_c_span :: "string \<Rightarrow> (string \<times> string) option" where
  "read_ansi_c_span [] = None"
| "read_ansi_c_span (c # cs) =
     (if c = squote then Some ([], cs)
      else if c = backslash \<and> cs \<noteq> [] then
        (case fst (decode_escape cs) of
           Some ch \<Rightarrow> map_option (\<lambda>(d, r). (ch @ d, r)) (read_ansi_c_span (snd (decode_escape cs)))
         | None \<Rightarrow> map_option (\<lambda>(d, r). ([backslash] @ latin1 (hd cs) @ d, r)) (read_ansi_c_span (tl cs)))
      else map_option (\<lambda>(d, r). (latin1 c @ d, r)) (read_ansi_c_span cs))"
  by pat_completeness auto
termination
  by (relation "measure length") (auto dest: decode_escape_length)

declare read_ansi_c_span.simps(2) [simp del]

lemma read_ansi_c_span_length: "read_ansi_c_span s = Some (d, r) \<Longrightarrow> length r < length s"
proof (induction s arbitrary: d r rule: read_ansi_c_span.induct)
  case (2 c cs)
  show ?case
  proof (cases "c = squote")
    case True
    then show ?thesis using "2.prems" by (simp add: read_ansi_c_span.simps(2))
  next
    case nsq: False
    show ?thesis
    proof (cases "c = backslash \<and> cs \<noteq> []")
      case True
      then show ?thesis
      proof (cases "fst (decode_escape cs)")
        case None
        then obtain d' where "read_ansi_c_span (tl cs) = Some (d', r)"
          using "2.prems" True nsq by (auto simp: read_ansi_c_span.simps(2))
        then have "length r < length (tl cs)" using "2.IH"(1) nsq True None by blast
        then show ?thesis by simp
      next
        case (Some ch)
        then obtain d' where "read_ansi_c_span (snd (decode_escape cs)) = Some (d', r)"
          using "2.prems" True nsq by (auto simp: read_ansi_c_span.simps(2))
        then have "length r < length (snd (decode_escape cs))" using "2.IH"(2) nsq True Some by blast
        then show ?thesis using decode_escape_length [of cs ch] True Some by simp
      qed
    next
      case False
      then obtain d' where "read_ansi_c_span cs = Some (d', r)"
        using "2.prems" nsq by (auto simp: read_ansi_c_span.simps(2) split: if_splits)
      then have "length r < length cs" using "2.IH"(3) nsq False by blast
      then show ?thesis by simp
    qed
  qed
qed simp

text \<open>A rewritten span: the text to push, the bytes after it, the budget.\<close>

definition ansi_splice :: "budget \<Rightarrow> nat \<Rightarrow> string \<Rightarrow> (string \<times> string \<times> budget) option" where
  "ansi_splice b out_len s = (case read_ansi_c_span (tl (tl s)) of
       None \<Rightarrow> None
     | Some (decoded, rest) \<Rightarrow>
         let src_len = length s - length rest;
             within_ratio = length decoded \<le> src_len * MAX_EXPANSION_RATIO;
             a = allow_rewrite b (out_len + length decoded)
         in if within_ratio \<and> fst a then Some (decoded, rest, snd a)
            else Some (take src_len s, rest, b))"

lemma ansi_splice_length: "ansi_splice b n s = Some (t, r, b') \<Longrightarrow> length r < length s"
  by (auto simp: ansi_splice_def Let_def dest!: read_ansi_c_span_length split: option.splits if_splits)

function ansi_go :: "budget \<Rightarrow> bool \<Rightarrow> bool \<Rightarrow> string \<Rightarrow> string \<Rightarrow> string \<times> budget" where
  "ansi_go b sq dq out [] = (out, b)"
| "ansi_go b sq dq out (c # cs) =
     (case (if c = CHR ''$'' \<and> next_is squote cs \<and> \<not> sq \<and> \<not> dq
            then ansi_splice b (length out) (c # cs) else None) of
        Some (t, rest, b') \<Rightarrow> ansi_go b' sq dq (out @ t) rest
      | None \<Rightarrow>
          if c = squote \<and> \<not> dq then ansi_go b (\<not> sq) dq (out @ latin1 c) cs
          else if c = dquote \<and> \<not> sq then ansi_go b sq (\<not> dq) (out @ latin1 c) cs
          else ansi_go b sq dq (out @ latin1 c) cs)"
  by pat_completeness auto
termination
  by (relation "measure (\<lambda>(b, sq, dq, out, s). length s)")
     (auto split: if_splits dest: ansi_splice_length)

declare ansi_go.simps(2) [simp del]

definition decode_ansi_c :: "budget \<Rightarrow> string \<Rightarrow> string \<times> budget" where
  "decode_ansi_c b s =
     (if \<not> contains_str s [CHR ''$'', squote] then (s, b) else ansi_go b False False [] s)"

section \<open>Pass 3: leg-head echo and printf substitutions\<close>

text \<open>The text emitted so far, read from its end.\<close>

fun leg_head_rev :: "string \<Rightarrow> bool" where
  "leg_head_rev [] = True"
| "leg_head_rev (c # cs) =
     (if c = CHR '' '' \<or> c = CHR 0x09 then leg_head_rev cs
      else c = CHR '';'' \<or> c = CHR ''|'' \<or> c = CHR ''&'' \<or> c = newline \<or> c = CHR ''('')"

definition at_leg_head :: "string \<Rightarrow> bool" where
  "at_leg_head out = leg_head_rev (rev out)"

fun read_paren_body :: "nat \<Rightarrow> string \<Rightarrow> (string \<times> string) option" where
  "read_paren_body depth [] = None"
| "read_paren_body depth (c # cs) =
     (if c = CHR ''('' then map_option (\<lambda>(i, r). (latin1 c @ i, r)) (read_paren_body (depth + 1) cs)
      else if c = CHR '')'' then
        (if depth = 1 then Some ([], cs)
         else map_option (\<lambda>(i, r). (latin1 c @ i, r)) (read_paren_body (depth - 1) cs))
      else map_option (\<lambda>(i, r). (latin1 c @ i, r)) (read_paren_body depth cs))"

fun read_backtick_body :: "string \<Rightarrow> (string \<times> string) option" where
  "read_backtick_body [] = None"
| "read_backtick_body (c # cs) =
     (if c = backtick then Some ([], cs)
      else map_option (\<lambda>(i, r). (latin1 c @ i, r)) (read_backtick_body cs))"

lemma read_paren_body_length: "read_paren_body d s = Some (i, r) \<Longrightarrow> length r < length s"
  by (induction d s arbitrary: i r rule: read_paren_body.induct) (fastforce split: if_splits)+

lemma read_backtick_body_length: "read_backtick_body s = Some (i, r) \<Longrightarrow> length r < length s"
  by (induction s arbitrary: i r rule: read_backtick_body.induct) (fastforce split: if_splits)+

definition strip_quotes :: "string \<Rightarrow> string" where
  "strip_quotes s =
     (if length s \<ge> 2 \<and> ((hd s = dquote \<and> last s = dquote) \<or> (hd s = squote \<and> last s = squote))
      then butlast (tl s) else s)"

definition echo_printf_literal :: "string \<Rightarrow> string option" where
  "echo_printf_literal raw =
     (let body = trim raw in
      if list_ex (\<lambda>c. c \<in> set [CHR ''$'', CHR ''|'', CHR '';'', CHR ''&'', backtick]) body then None
      else (case split_whitespace body of
              [] \<Rightarrow> None
            | verb # tokens \<Rightarrow>
                if verb \<noteq> ''echo'' \<and> verb \<noteq> ''printf'' then None
                else (let rest = (if verb = ''echo'' then dropWhile (\<lambda>t. t = ''-n'' \<or> t = ''-e'') tokens
                                  else tokens)
                      in if list_ex (\<lambda>t. prefix ''-'' t) rest then None
                         else Some (strip_quotes (trim (join_with '' '' rest))))))"

text \<open>One attempt at \<^verbatim>\<open>$(\<close> or a backtick: the literal, the bytes after the substitution, the budget.\<close>

definition echo_splice :: "budget \<Rightarrow> nat \<Rightarrow> string \<Rightarrow> (string \<times> string \<times> budget) option" where
  "echo_splice b out_len s =
     (case (if hd s = CHR ''$'' \<and> next_is CHR ''('' (tl s) then read_paren_body 1 (tl (tl s))
            else if hd s = backtick then read_backtick_body (tl s)
            else None) of
        None \<Rightarrow> None
      | Some (body, rest) \<Rightarrow> (case echo_printf_literal body of
            None \<Rightarrow> None
          | Some literal \<Rightarrow>
              let src_len = length s - length rest;
                  within_ratio = length literal \<le> src_len * MAX_EXPANSION_RATIO;
                  a = allow_rewrite b (out_len + length literal)
              in if within_ratio \<and> fst a then Some (literal, rest, snd a) else None))"

lemma echo_splice_length: "s \<noteq> [] \<Longrightarrow> echo_splice b n s = Some (t, r, b') \<Longrightarrow> length r < length s"
  by (fastforce simp: echo_splice_def Let_def split: option.splits if_splits
      dest: read_paren_body_length read_backtick_body_length)

function echo_go :: "budget \<Rightarrow> bool \<Rightarrow> bool \<Rightarrow> string \<Rightarrow> string \<Rightarrow> string \<times> budget" where
  "echo_go b sq dq out [] = (out, b)"
| "echo_go b sq dq out (c # cs) =
     (case (if \<not> sq \<and> \<not> dq \<and> at_leg_head out then echo_splice b (length out) (c # cs) else None) of
        Some (t, rest, b') \<Rightarrow> echo_go b' sq dq (out @ t) rest
      | None \<Rightarrow>
          if c = squote \<and> \<not> dq then echo_go b (\<not> sq) dq (out @ latin1 c) cs
          else if c = dquote \<and> \<not> sq then echo_go b sq (\<not> dq) (out @ latin1 c) cs
          else echo_go b sq dq (out @ latin1 c) cs)"
  by pat_completeness auto
termination
  by (relation "measure (\<lambda>(b, sq, dq, out, s). length s)")
     (auto split: if_splits dest: echo_splice_length [rotated])

declare echo_go.simps(2) [simp del]

definition splice_echo_substitution :: "budget \<Rightarrow> string \<Rightarrow> string \<times> budget" where
  "splice_echo_substitution b s =
     (if \<not> contains_str s ''$('' \<and> backtick \<notin> set s then (s, b) else echo_go b False False [] s)"

section \<open>Pass 4: IFS reassignment\<close>

definition push_trimmed :: "string \<Rightarrow> string list" where
  "push_trimmed current = (let t = trim current in if t = [] then [] else [t])"

fun top_go :: "bool \<Rightarrow> bool \<Rightarrow> string \<Rightarrow> string \<Rightarrow> string list" where
  "top_go sq dq cur [] = push_trimmed cur"
| "top_go sq dq cur (c # cs) =
     (let sq' = (if c = squote \<and> \<not> dq then \<not> sq else sq);
          dq' = (if c = squote \<and> \<not> dq then dq else if c = dquote \<and> \<not> sq then \<not> dq else dq)
      in if \<not> sq' \<and> \<not> dq' \<and> (c = CHR '';'' \<or> c = newline \<or> c = CHR ''&'')
         then push_trimmed cur @ top_go sq' dq' [] cs
         else top_go sq' dq' (cur @ latin1 c) cs)"

definition top_level_legs :: "string \<Rightarrow> string list" where
  "top_level_legs s = top_go False False [] s"

fun ifs_go :: "string list \<Rightarrow> string list \<Rightarrow> string list" where
  "ifs_go extra [] = extra"
| "ifs_go extra (leg # legs) =
     (case strip_prefix ''IFS='' (trim leg) of
        None \<Rightarrow> ifs_go extra legs
      | Some rest \<Rightarrow>
          let value = (case first_token rest of None \<Rightarrow> [] | Some t \<Rightarrow> t);
              unquoted = strip_quotes value
          in if chars_count unquoted = 1 \<and> unquoted \<notin> set extra
             then ifs_go (extra @ [unquoted]) legs else ifs_go extra legs)"

definition collect_ifs_separators :: "string \<Rightarrow> string list" where
  "collect_ifs_separators s = ifs_go [] (top_level_legs s)"

section \<open>The pre-pass\<close>

record normalized =
  norm_command :: string
  extra_separators :: "string list"

definition initial_budget :: budget where
  "initial_budget = \<lparr>rewrites_done = 0, max_bytes = MAX_NORMALIZE_BYTES\<rparr>"

text \<open>The three rewriting passes over one shared budget.\<close>

definition rewrite_passes :: "budget \<Rightarrow> string \<Rightarrow> string \<times> budget" where
  "rewrite_passes b s =
     (case join_line_continuations b s of (s1, b1) \<Rightarrow>
      case decode_ansi_c b1 s1 of (s2, b2) \<Rightarrow> splice_echo_substitution b2 s2)"

definition normalize_command :: "string \<Rightarrow> normalized" where
  "normalize_command cmd =
     (if length cmd > MAX_NORMALIZE_BYTES then \<lparr>norm_command = cmd, extra_separators = []\<rparr>
      else (let s = fst (rewrite_passes initial_budget cmd)
            in \<lparr>norm_command = s, extra_separators = collect_ifs_separators s\<rparr>))"

section \<open>The budget contract\<close>

locale budgeted_pass =
  fixes pass :: "budget \<Rightarrow> string \<Rightarrow> string \<times> budget"
  assumes spends: "rewrites_done b \<le> rewrites_done (snd (pass b s))"
    and capped: "rewrites_done b \<le> MAX_REWRITES \<Longrightarrow> rewrites_done (snd (pass b s)) \<le> MAX_REWRITES"
    and keeps_bytes: "max_bytes (snd (pass b s)) = max_bytes b"
begin

text \<open>A pass over an exhausted budget leaves the budget as it is.\<close>

lemma exhausted: "rewrites_done b = MAX_REWRITES \<Longrightarrow> rewrites_done (snd (pass b s)) = MAX_REWRITES"
  using spends [of b s] capped [of b s] by simp

end

locale budgeted_passes = first: budgeted_pass p + second: budgeted_pass q
  for p q :: "budget \<Rightarrow> string \<Rightarrow> string \<times> budget"

sublocale budgeted_passes \<subseteq> composed: budgeted_pass "\<lambda>b s. case p b s of (s', b') \<Rightarrow> q b' s'"
proof
  fix b :: budget and s :: string
  let ?b = "snd (p b s)" and ?s = "fst (p b s)"
  show "rewrites_done b \<le> rewrites_done (snd (case p b s of (s', b') \<Rightarrow> q b' s'))"
    using order_trans [OF first.spends [of b s] second.spends [of ?b ?s]] by (simp add: case_prod_beta)
  show "rewrites_done b \<le> MAX_REWRITES \<Longrightarrow>
      rewrites_done (snd (case p b s of (s', b') \<Rightarrow> q b' s')) \<le> MAX_REWRITES"
    using first.capped [of b s] second.capped [of ?b ?s] by (simp add: case_prod_beta)
  show "max_bytes (snd (case p b s of (s', b') \<Rightarrow> q b' s')) = max_bytes b"
    using first.keeps_bytes second.keeps_bytes by (simp add: case_prod_beta)
qed

lemma allow_rewrite_spends:
  "rewrites_done b \<le> rewrites_done (snd (allow_rewrite b n))"
  "rewrites_done b \<le> MAX_REWRITES \<Longrightarrow> rewrites_done (snd (allow_rewrite b n)) \<le> MAX_REWRITES"
  "max_bytes (snd (allow_rewrite b n)) = max_bytes b"
  by (auto simp: allow_rewrite_def)

text \<open>What a splice returns was paid for.\<close>

definition paid :: "budget \<Rightarrow> budget \<Rightarrow> bool" where
  "paid b b' = (rewrites_done b \<le> rewrites_done b' \<and>
     (rewrites_done b \<le> MAX_REWRITES \<longrightarrow> rewrites_done b' \<le> MAX_REWRITES) \<and> max_bytes b' = max_bytes b)"

lemma paid_refl [simp]: "paid b b" and paid_trans: "paid b b' \<Longrightarrow> paid b' b'' \<Longrightarrow> paid b b''"
  by (auto simp: paid_def)

lemma paid_allow [simp]: "paid b (snd (allow_rewrite b n))"
  by (simp add: paid_def allow_rewrite_spends)

lemma paid_join: "paid b (snd (join_go b out s))"
  by (induction b out s rule: join_go.induct) (auto intro: paid_trans [OF paid_allow])

lemma paid_ansi_splice: "ansi_splice b n s = Some (t, r, b') \<Longrightarrow> paid b b'"
  by (auto simp: ansi_splice_def Let_def split: option.splits if_splits)

lemma paid_echo_splice: "echo_splice b n s = Some (t, r, b') \<Longrightarrow> paid b b'"
  by (auto simp: echo_splice_def Let_def split: option.splits if_splits)

lemma paid_ansi: "paid b (snd (ansi_go b sq dq out s))"
proof (induction b sq dq out s rule: ansi_go.induct)
  case (2 b sq dq out c cs)
  then show ?case
    by (subst ansi_go.simps(2))
       (auto split: option.splits if_splits intro: paid_trans [OF paid_ansi_splice])
qed simp

lemma paid_echo: "paid b (snd (echo_go b sq dq out s))"
proof (induction b sq dq out s rule: echo_go.induct)
  case (2 b sq dq out c cs)
  then show ?case
    by (subst echo_go.simps(2))
       (auto split: option.splits if_splits intro: paid_trans [OF paid_echo_splice])
qed simp

interpretation join_pass: budgeted_pass join_line_continuations
  using paid_join by unfold_locales (auto simp: join_line_continuations_def paid_def)

interpretation ansi_pass: budgeted_pass decode_ansi_c
  using paid_ansi by unfold_locales (auto simp: decode_ansi_c_def paid_def)

interpretation echo_pass: budgeted_pass splice_echo_substitution
  using paid_echo by unfold_locales (auto simp: splice_echo_substitution_def paid_def)

interpretation ansi_echo: budgeted_passes decode_ansi_c splice_echo_substitution
  by unfold_locales

interpretation all_passes: budgeted_passes join_line_continuations
  "\<lambda>b s. case decode_ansi_c b s of (s', b') \<Rightarrow> splice_echo_substitution b' s'"
  by unfold_locales

section \<open>Properties\<close>

text \<open>Fact: the pre-pass never performs more than 64 rewrites over its three passes together, and
  never changes the byte cap, whatever the command.\<close>

theorem normalize_rewrite_cap:
  "rewrites_done (snd (rewrite_passes initial_budget cmd)) \<le> MAX_REWRITES \<and>
   max_bytes (snd (rewrite_passes initial_budget cmd)) = MAX_NORMALIZE_BYTES"
  using all_passes.composed.capped [of initial_budget cmd] all_passes.composed.keeps_bytes [of initial_budget cmd]
  by (simp add: rewrite_passes_def initial_budget_def MAX_REWRITES_def case_prod_beta)

definition normalize_inert :: "string \<Rightarrow> bool" where
  "normalize_inert cmd \<longleftrightarrow> length cmd > MAX_NORMALIZE_BYTES \<or>
     (backslash \<notin> set cmd \<and> backtick \<notin> set cmd \<and>
      \<not> sublist [CHR ''$'', squote] cmd \<and> \<not> sublist ''$('' cmd)"

lemma norm_command_inert: "normalize_inert cmd \<Longrightarrow> norm_command (normalize_command cmd) = cmd"
  by (auto simp: normalize_inert_def normalize_command_def Let_def rewrite_passes_def
      join_line_continuations_def decode_ansi_c_def splice_echo_substitution_def contains_str_sublist)

text \<open>Fact: the pre-pass is the identity on every command without a backslash, an ANSI-C quote, a
  command substitution or a backtick (non-ASCII text included), and on every command above the size cap.\<close>

theorem normalize_identity:
  assumes "length cmd > MAX_NORMALIZE_BYTES \<or>
     (backslash \<notin> set cmd \<and> backtick \<notin> set cmd \<and>
      \<not> sublist [CHR ''$'', squote] cmd \<and> \<not> sublist ''$('' cmd)"
  shows "norm_command (normalize_command cmd) = cmd"
  using assms by (simp add: norm_command_inert normalize_inert_def)

theorem normalize_identity_witness:
  "norm_command (normalize_command ''git log | head; rm -rf ~'') = ''git log | head; rm -rf ~''"
  by (rule normalize_identity, rule disjI2, unfold contains_str_sublist [symmetric]) code_simp

text \<open>Text without a dollar sign passes the ANSI-C pass unchanged, up to the re-encoding of its bytes.\<close>

lemma ansi_go_quiet: "CHR ''$'' \<notin> set s \<Longrightarrow> ansi_go b sq dq out s = (out @ lat s, b)"
proof (induction s arbitrary: sq dq out)
  case (Cons c s)
  then show ?case by (subst ansi_go.simps(2)) auto
qed simp

lemma echo_go_quiet:
  "CHR ''$'' \<notin> set s \<Longrightarrow> backtick \<notin> set s \<Longrightarrow> echo_go b sq dq out s = (out @ lat s, b)"
proof (induction s arbitrary: sq dq out)
  case (Cons c s)
  then have "echo_splice b n (c # s) = None" for n by (auto simp: echo_splice_def)
  then show ?case using Cons by (subst echo_go.simps(2)) simp
qed simp

text \<open>The hexadecimal ANSI-C spelling of a text.\<close>

definition hex_digit :: "nat \<Rightarrow> char" where
  "hex_digit n = char_of (if n < 10 then 48 + n else 87 + n)"

definition hex_escape :: "char \<Rightarrow> string" where
  "hex_escape c = [backslash, CHR ''x'', hex_digit (code c div 16), hex_digit (code c mod 16)]"

lemma hex_digit_simps:
  "n < 16 \<Longrightarrow> is_hex (hex_digit n)" "n < 16 \<Longrightarrow> hex_val (hex_digit n) = n"
  by (auto simp: hex_digit_def is_hex_def hex_val_def is_ascii_digit_def)

lemma decode_escape_hex:
  "decode_escape (CHR ''x'' # hex_digit (code c div 16) # hex_digit (code c mod 16) # r) = (Some (latin1 c), r)"
proof -
  have "code c div 16 < 16" using nat_of_char_less_256 [of c] by linarith
  then have d: "code c div 16 < 16" "code c mod 16 < 16" by simp_all
  have "from_u32 (code c div 16 * 16 + code c mod 16) = Some (latin1 c)"
    using nat_of_char_less_256 [of c]
    by (auto simp: from_u32_def latin1_def simp del: nat_of_char_less_256)
  then show ?thesis
    using d by (simp add: decode_escape_def hex_digit_simps numeral_2_eq_2)
qed

lemma read_span_hex:
  "read_ansi_c_span (concat (map hex_escape w) @ squote # r) = Some (lat w, r)"
proof (induction w)
  case Nil
  show ?case by (simp add: read_ansi_c_span.simps(2))
next
  case (Cons c w)
  then show ?case
    by (simp add: hex_escape_def, subst read_ansi_c_span.simps(2)) (simp add: decode_escape_hex)
qed

lemma length_hex_text: "length (concat (map hex_escape w)) = 4 * length w"
  by (induction w) (simp_all add: hex_escape_def)

text \<open>Fact: the ANSI-C pass undoes hexadecimal obfuscation. Any ASCII word spelled
  \<^verbatim>\<open>$'\xHH...'\<close>, followed by text without a dollar sign, is rewritten to the word itself.\<close>

theorem ansi_c_roundtrip:
  assumes "ascii_str w" and "length w \<le> MAX_NORMALIZE_BYTES"
    and "ascii_str post" and "CHR ''$'' \<notin> set post"
  shows "fst (decode_ansi_c initial_budget ([CHR ''$'', squote] @ concat (map hex_escape w) @ [squote] @ post))
           = w @ post"
proof -
  let ?s = "[CHR ''$'', squote] @ concat (map hex_escape w) @ [squote] @ post"
  have span: "read_ansi_c_span (tl (tl ?s)) = Some (w, post)"
    using read_span_hex [of w post] assms(1) by simp
  have "fst (allow_rewrite initial_budget (length w))"
    using assms(2) by (simp add: allow_rewrite_def initial_budget_def MAX_REWRITES_def)
  then obtain b' where b': "ansi_splice initial_budget 0 ?s = Some (w, post, b')"
    using span by (simp add: ansi_splice_def length_hex_text MAX_EXPANSION_RATIO_def)
  have "contains_str ?s [CHR ''$'', squote]" by (simp add: contains_str_sublist)
  then have "decode_ansi_c initial_budget ?s = ansi_go initial_budget False False [] ?s"
    by (simp add: decode_ansi_c_def)
  also have "\<dots> = ansi_go b' False False w post"
    using b' by (simp add: ansi_go.simps(2) next_is_def)
  finally show ?thesis using assms by (simp add: ansi_go_quiet)
qed

theorem ansi_c_roundtrip_witness:
  "fst (decode_ansi_c initial_budget ([CHR ''$'', squote] @ concat (map hex_escape ''rm'') @ [squote] @ '' -rf ~''))
     = ''rm'' @ '' -rf ~''"
  by (rule ansi_c_roundtrip) (simp_all add: MAX_NORMALIZE_BYTES_def)

text \<open>Words: non-empty runs of ASCII letters, digits and a few harmless marks.\<close>

definition word_char :: "char \<Rightarrow> bool" where
  "word_char c = (is_ascii_alphanumeric c \<or> c \<in> set ''_./'')"

lemma word_char_facts:
  assumes "word_char c"
  shows "ascii c" "\<not> ws1 c" "c \<notin> set ''$|;&-()''" "c \<noteq> backtick" "c \<noteq> dquote" "c \<noteq> squote" "c \<noteq> backslash"
  using assms
  by (auto simp: word_char_def is_ascii_alphanumeric_def is_ascii_alphabetic_def is_ascii_digit_def ws1_def)

lemma read_paren_body_word:
  "list_all (\<lambda>c. ascii c \<and> c \<notin> set ''()'') b \<Longrightarrow> read_paren_body 1 (b @ CHR '')'' # r) = Some (b, r)"
  by (induction b) auto

lemma echo_literal_word:
  assumes "w \<noteq> []" and "list_all word_char w"
  shows "echo_printf_literal (''echo '' @ w) = Some w"
proof -
  have wc: "c \<in> set w \<Longrightarrow> word_char c" for c using assms(2) by (simp add: list_all_iff)
  have tok: "solid_token w" using wc word_char_facts by (auto simp: solid_token_def list_all_iff)
  have "trim (''echo '' @ w) = ''echo '' @ w"
    using wc [of "last w"] assms(1) word_char_facts [of "last w"] by (intro trim_solid) (auto simp: ws1_def)
  moreover have "split_whitespace (''echo '' @ w) = [''echo'', w]"
    using split_whitespace_token_space [of "''echo''" w] split_whitespace_token [OF tok assms(1)]
    by (simp add: solid_token_def ws1_def)
  moreover have "\<not> list_ex (\<lambda>c. c \<in> set [CHR ''$'', CHR ''|'', CHR '';'', CHR ''&'', backtick]) (''echo '' @ w)"
    using wc word_char_facts by (fastforce simp: list_ex_iff)
  moreover have "\<not> prefix ''-'' w" "w \<noteq> ''-n''" "w \<noteq> ''-e''"
    using wc word_char_facts(3) by (fastforce simp: prefix_def)+
  moreover have "strip_quotes (trim w) = w"
    using trim_token [OF tok] wc word_char_facts(5,6) [of "hd w"] assms(1) by (auto simp: strip_quotes_def)
  ultimately show ?thesis by (simp add: echo_printf_literal_def)
qed

text \<open>Fact: aliasing the verb through a leg-head \<^verbatim>\<open>$(echo ...)\<close> is undone. For every word \<open>w\<close> and
  every rest of the line without further shell expansion, the normalized command is the plain
  command line the shell would run.\<close>

theorem echo_substitution_spliced:
  assumes "w \<noteq> []" and "list_all word_char w" and "ascii_str rest"
    and "CHR ''$'' \<notin> set rest" "backtick \<notin> set rest" "backslash \<notin> set rest"
    and "length (''$(echo '' @ w @ '')'' @ rest) \<le> MAX_NORMALIZE_BYTES"
  shows "norm_command (normalize_command (''$(echo '' @ w @ '')'' @ rest)) = w @ rest"
proof -
  let ?s = "''$(echo '' @ w @ '')'' @ rest"
  have wc: "c \<in> set w \<Longrightarrow> word_char c" for c using assms(2) by (simp add: list_all_iff)
  have aw: "ascii_str w" using wc word_char_facts(1) by (simp add: ascii_str_def list_all_iff)
  have nb: "backslash \<notin> set ?s" using wc word_char_facts(7) assms by fastforce
  have nd: "CHR ''$'' \<notin> set w" using wc word_char_facts(3) by fastforce
  have na: "\<not> contains_str ?s [CHR ''$'', squote]"
  proof
    assume "contains_str ?s [CHR ''$'', squote]"
    then obtain a t where "?s = a @ [CHR ''$'', squote] @ t"
      by (auto simp: contains_str_sublist sublist_def)
    then show False using nd assms(4) by (cases a) (auto simp: append_eq_Cons_conv Cons_eq_append_conv append_eq_append_conv2)
  qed
  have "list_all (\<lambda>c. ascii c \<and> c \<notin> set ''()'') (''echo '' @ w)"
    using wc word_char_facts by (fastforce simp: list_all_iff)
  then have body: "read_paren_body 1 ((''echo '' @ w) @ CHR '')'' # rest) = Some (''echo '' @ w, rest)"
    by (rule read_paren_body_word)
  have "fst (allow_rewrite initial_budget (length w))"
    using assms(7) by (simp add: allow_rewrite_def initial_budget_def MAX_REWRITES_def)
  then obtain b' where b': "echo_splice initial_budget 0 ?s = Some (w, rest, b')"
    using body echo_literal_word [OF assms(1,2)]
    by (simp add: echo_splice_def next_is_def MAX_EXPANSION_RATIO_def)
  have "contains_str ?s ''$(''" by (simp add: contains_str_sublist)
  then have "splice_echo_substitution initial_budget ?s = echo_go initial_budget False False [] ?s"
    by (simp add: splice_echo_substitution_def)
  also have "\<dots> = echo_go b' False False w rest"
    using b' by (simp add: echo_go.simps(2) at_leg_head_def)
  also have "\<dots> = (w @ rest, b')"
    using assms by (simp add: echo_go_quiet)
  finally show ?thesis
    using nb na assms(7)
    by (simp add: normalize_command_def rewrite_passes_def join_line_continuations_def decode_ansi_c_def Let_def)
qed

theorem echo_substitution_spliced_witness:
  "norm_command (normalize_command (''$(echo '' @ ''rm'' @ '')'' @ '' -rf ~'')) = ''rm'' @ '' -rf ~''"
  by (rule echo_substitution_spliced)
     (simp_all add: MAX_NORMALIZE_BYTES_def word_char_def is_ascii_alphanumeric_def is_ascii_alphabetic_def)

end
