(* ===== verification/Taxonomy.thy ===== *)
theory Taxonomy
  imports Verdicts Compound Normalize
begin

text \<open>
  \<^verbatim>\<open>crates/apohara-agentguard/src/gate/taxonomy.rs\<close> and \<^verbatim>\<open>gate/packs/*.rs\<close>: the destructive-command rules,
  the verb-aware match text, and the analyses of the command before it is split. The \<^verbatim>\<open>regex\<close> crate is
  the parameter \<open>re\<close>: \<open>re p s\<close> is \<^verbatim>\<open>Regex::new(p).is_match(s)\<close>. Patterns are written with \<open>%\<close> in place of
  the backslash, which \<open>rx\<close> puts back (no pattern of the table contains a percent sign).
\<close>

section \<open>Rules\<close>

type_synonym regex = "string \<Rightarrow> string \<Rightarrow> bool"

record destructive_rule =
  dr_id :: string
  dr_severity :: u8
  dr_category :: string
  dr_matcher :: "string \<Rightarrow> bool"

definition rule_matches :: "destructive_rule \<Rightarrow> string \<Rightarrow> bool" where
  "rule_matches r leg = dr_matcher r leg"

definition rx :: "string \<Rightarrow> string" where
  "rx p = map (\<lambda>c. if c = CHR ''%'' then backslash else c) p"

definition m_rm_rf :: "regex \<Rightarrow> string \<Rightarrow> bool" where
  "m_rm_rf re s = re (rx ''(?i)%brm%b[^|;&%n]*%s-[a-z]*r[a-z]*f|(?i)%brm%b[^|;&%n]*%s-[a-z]*f[a-z]*r'') s"

definition m_find_delete :: "regex \<Rightarrow> string \<Rightarrow> bool" where
  "m_find_delete re s = re (rx ''(?i)%bfind%b.*-delete%b'') s"

definition m_find_exec_rm :: "regex \<Rightarrow> string \<Rightarrow> bool" where
  "m_find_exec_rm re s = re (rx ''(?i)%bfind%b.*-exec%s+rm%b'') s"

definition m_dd :: "regex \<Rightarrow> string \<Rightarrow> bool" where
  "m_dd re s = re (rx ''(?i)%bdd%b[^|;&%n]*%sif='') s"

definition m_mkfs :: "regex \<Rightarrow> string \<Rightarrow> bool" where
  "m_mkfs re s = re (rx ''(?i)%bmkfs(%.%w+)?%b'') s"

definition m_chmod_777 :: "regex \<Rightarrow> string \<Rightarrow> bool" where
  "m_chmod_777 re s = re (rx ''(?i)%bchmod%b[^|;&%n]*%s0?777%b'') s"

definition m_chmod_recursive :: "regex \<Rightarrow> string \<Rightarrow> bool" where
  "m_chmod_recursive re s = re (rx ''(?i)%bchmod%b[^|;&%n]*%s-[a-z]*R'') s"

definition m_chown_recursive_root :: "regex \<Rightarrow> string \<Rightarrow> bool" where
  "m_chown_recursive_root re s = re (rx ''(?i)%bchown%b[^|;&%n]*%s-[a-z]*R[^|;&%n]*%s/(%s|$)'') s"

definition fork_bomb_signature :: string where
  "fork_bomb_signature = '':(){:|:&};:''"

definition m_fork_bomb :: "string \<Rightarrow> bool" where
  "m_fork_bomb s = contains_str (remove_whitespace s) fork_bomb_signature"

definition m_chmod_recursive_777_root :: "regex \<Rightarrow> string \<Rightarrow> bool" where
  "m_chmod_recursive_777_root re s =
     (re (rx ''(?i)%bchmod%b[^|;&%n]*%s-[a-z]*R[a-z]*%b[^|;&%n]*%s0?777%b[^|;&%n]*%s/(%s|$)'') s \<or>
      re (rx ''(?i)%bchmod%b[^|;&%n]*%s0?777%b[^|;&%n]*%s-[a-z]*R[a-z]*%b[^|;&%n]*%s/(%s|$)'') s)"

definition m_write_block_device :: "regex \<Rightarrow> string \<Rightarrow> bool" where
  "m_write_block_device re s =
     re (rx ''(?i)(>|of=)%s*/dev/(sd[a-z]|nvme%d+n%d+|vd[a-z]|hd[a-z]|mmcblk%d+)'') s"

definition m_mv_to_devnull :: "regex \<Rightarrow> string \<Rightarrow> bool" where
  "m_mv_to_devnull re s = re (rx ''(?i)%bmv%b[^|;&%n]*%s/dev/null%b'') s"

definition m_fetch_run_inline :: "regex \<Rightarrow> string \<Rightarrow> bool" where
  "m_fetch_run_inline re s =
     re (rx ''(?i)%b(bash|sh|zsh|eval|python%d?|perl|ruby)%b.*%$%(%s*(curl|wget)%b'') s"

definition rules :: "regex \<Rightarrow> destructive_rule list" where
  "rules re = [
     \<lparr>dr_id = ''rm-rf'', dr_severity = 9, dr_category = ''destructive'', dr_matcher = m_rm_rf re\<rparr>,
     \<lparr>dr_id = ''find-delete'', dr_severity = 8, dr_category = ''destructive'', dr_matcher = m_find_delete re\<rparr>,
     \<lparr>dr_id = ''find-exec-rm'', dr_severity = 8, dr_category = ''destructive'', dr_matcher = m_find_exec_rm re\<rparr>,
     \<lparr>dr_id = ''dd-overwrite'', dr_severity = 8, dr_category = ''destructive'', dr_matcher = m_dd re\<rparr>,
     \<lparr>dr_id = ''mkfs'', dr_severity = 9, dr_category = ''destructive'', dr_matcher = m_mkfs re\<rparr>,
     \<lparr>dr_id = ''chmod-777'', dr_severity = 6, dr_category = ''permissions'', dr_matcher = m_chmod_777 re\<rparr>,
     \<lparr>dr_id = ''chmod-recursive'', dr_severity = 6, dr_category = ''permissions'', dr_matcher = m_chmod_recursive re\<rparr>,
     \<lparr>dr_id = ''chmod-recursive-777-root'', dr_severity = 9, dr_category = ''permissions'',
      dr_matcher = m_chmod_recursive_777_root re\<rparr>,
     \<lparr>dr_id = ''chown-recursive-root'', dr_severity = 9, dr_category = ''permissions'',
      dr_matcher = m_chown_recursive_root re\<rparr>,
     \<lparr>dr_id = ''fork-bomb'', dr_severity = 9, dr_category = ''dos'', dr_matcher = m_fork_bomb\<rparr>,
     \<lparr>dr_id = ''write-block-device'', dr_severity = 9, dr_category = ''destructive'',
      dr_matcher = m_write_block_device re\<rparr>,
     \<lparr>dr_id = ''mv-to-devnull'', dr_severity = 7, dr_category = ''destructive'', dr_matcher = m_mv_to_devnull re\<rparr>,
     \<lparr>dr_id = ''fetch-run-inline'', dr_severity = 8, dr_category = ''remote-exec'',
      dr_matcher = m_fetch_run_inline re\<rparr>]"

section \<open>Domain packs\<close>

definition m_aws_s3_rb_force :: "regex \<Rightarrow> string \<Rightarrow> bool" where
  "m_aws_s3_rb_force re s = re (rx ''(?i)%baws%b%s+s3%b%s+rb%b[^|;&%n]*%s--force%b'') s"

definition m_aws_delete :: "regex \<Rightarrow> string \<Rightarrow> bool" where
  "m_aws_delete re s = re (rx ''(?i)%baws%b[^|;&%n]*%s(delete-%w+|terminate-instances)%b'') s"

definition m_gcloud_delete :: "regex \<Rightarrow> string \<Rightarrow> bool" where
  "m_gcloud_delete re s = re (rx ''(?i)%bgcloud%b[^|;&%n]*%sdelete%b'') s"

definition m_az_delete :: "regex \<Rightarrow> string \<Rightarrow> bool" where
  "m_az_delete re s = re (rx ''(?i)%baz%b[^|;&%n]*%sdelete%b'') s"

definition cloud_rules :: "regex \<Rightarrow> destructive_rule list" where
  "cloud_rules re = [
     \<lparr>dr_id = ''aws-s3-rb-force'', dr_severity = 9, dr_category = ''cloud'', dr_matcher = m_aws_s3_rb_force re\<rparr>,
     \<lparr>dr_id = ''aws-delete'', dr_severity = 8, dr_category = ''cloud'', dr_matcher = m_aws_delete re\<rparr>,
     \<lparr>dr_id = ''gcloud-delete'', dr_severity = 8, dr_category = ''cloud'', dr_matcher = m_gcloud_delete re\<rparr>,
     \<lparr>dr_id = ''az-delete'', dr_severity = 8, dr_category = ''cloud'', dr_matcher = m_az_delete re\<rparr>]"

definition m_docker_system_prune :: "regex \<Rightarrow> string \<Rightarrow> bool" where
  "m_docker_system_prune re s =
     re (rx ''(?i)%bdocker%b%s+(system|image|volume|network|container)%s+prune%b[^|;&%n]*%s-[a-z]*[af]'') s"

definition m_docker_rm_force :: "regex \<Rightarrow> string \<Rightarrow> bool" where
  "m_docker_rm_force re s = re (rx ''(?i)%bdocker%b%s+(container%s+)?(rm|rmi)%b[^|;&%n]*%s-[a-z]*f'') s"

definition m_kubectl_delete_all :: "regex \<Rightarrow> string \<Rightarrow> bool" where
  "m_kubectl_delete_all re s = re (rx ''(?i)%bkubectl%b%s+delete%b[^|;&%n]*%s--all%b'') s"

definition container_rules :: "regex \<Rightarrow> destructive_rule list" where
  "container_rules re = [
     \<lparr>dr_id = ''docker-system-prune'', dr_severity = 8, dr_category = ''container'', dr_matcher = m_docker_system_prune re\<rparr>,
     \<lparr>dr_id = ''docker-rm-force'', dr_severity = 8, dr_category = ''container'', dr_matcher = m_docker_rm_force re\<rparr>,
     \<lparr>dr_id = ''kubectl-delete-all'', dr_severity = 9, dr_category = ''container'', dr_matcher = m_kubectl_delete_all re\<rparr>]"

definition m_drop_table :: "regex \<Rightarrow> string \<Rightarrow> bool" where
  "m_drop_table re s = re (rx ''(?i)%bdrop%s+table%b'') s"

definition m_drop_database :: "regex \<Rightarrow> string \<Rightarrow> bool" where
  "m_drop_database re s = re (rx ''(?i)%bdrop%s+(database|schema)%b'') s"

definition m_truncate :: "regex \<Rightarrow> string \<Rightarrow> bool" where
  "m_truncate re s = re (rx ''(?i)%btruncate%s+(table%b|%w)'') s"

definition db_rules :: "regex \<Rightarrow> destructive_rule list" where
  "db_rules re = [
     \<lparr>dr_id = ''drop-table'', dr_severity = 8, dr_category = ''db'', dr_matcher = m_drop_table re\<rparr>,
     \<lparr>dr_id = ''drop-database'', dr_severity = 9, dr_category = ''db'', dr_matcher = m_drop_database re\<rparr>,
     \<lparr>dr_id = ''truncate'', dr_severity = 8, dr_category = ''db'', dr_matcher = m_truncate re\<rparr>]"

definition rules_for :: "regex \<Rightarrow> string \<Rightarrow> destructive_rule list option" where
  "rules_for re name =
     (if name = ''cloud'' then Some (cloud_rules re)
      else if name = ''db'' then Some (db_rules re)
      else if name = ''container'' then Some (container_rules re)
      else None)"

definition enabled_rules :: "regex \<Rightarrow> string list \<Rightarrow> destructive_rule list" where
  "enabled_rules re names = concat (List.map_filter (rules_for re) names)"

section \<open>Verb-aware match text\<close>

definition is_non_executing_verb :: "string \<Rightarrow> bool" where
  "is_non_executing_verb leg =
     (case split_whitespace (trim_start leg) of
        [] \<Rightarrow> False
      | verb # tokens \<Rightarrow>
          if verb = ''echo'' \<or> verb = ''printf'' then True
          else if verb = ''git'' then
            (case tokens of [] \<Rightarrow> False | t # _ \<Rightarrow> t = ''commit'' \<or> t = ''tag'' \<or> t = ''notes'')
          else False)"

function strip_quoted_spans :: "string \<Rightarrow> string" where
  "strip_quoted_spans [] = []"
| "strip_quoted_spans (c # cs) =
     (if c = dquote \<or> c = squote then
        c # (case dropWhile (\<lambda>d. d \<noteq> c) cs of
               [] \<Rightarrow> []
             | q # rest \<Rightarrow> c # strip_quoted_spans rest)
      else latin1 c @ strip_quoted_spans cs)"
  by pat_completeness auto
termination
proof (relation "measure length", goal_cases)
  case (2 c cs q rest)
  then have "length (q # rest) \<le> length cs" by (metis length_dropWhile_le)
  then show ?case by simp
qed auto

definition effective_match_text :: "string \<Rightarrow> string" where
  "effective_match_text leg =
     (if prefix ''#'' (trim_start leg) then []
      else if is_non_executing_verb leg then strip_quoted_spans leg
      else leg)"

definition live_substitution_bodies :: "string \<Rightarrow> string list" where
  "live_substitution_bodies leg =
     (if prefix ''#'' (trim_start leg) then []
      else if \<not> is_non_executing_verb leg then []
      else extract_double_quoted_substitutions leg)"

section \<open>Analyses before the split\<close>

definition is_shell_interpreter :: "string \<Rightarrow> bool" where
  "is_shell_interpreter head =
     (head \<in> set [''sh'', ''bash'', ''zsh'', ''dash'', ''ksh'', ''fish'', ''eval''] \<or>
      prefix ''python'' head \<or> head = ''perl'' \<or> head = ''ruby'' \<or> head = ''node'')"

definition stage_head :: "string \<Rightarrow> string" where
  "stage_head stage = (case split_whitespace stage of [] \<Rightarrow> [] | t # _ \<Rightarrow> t)"

fun fetch_loop :: "bool \<Rightarrow> string list \<Rightarrow> bool" where
  "fetch_loop saw_fetch [] = False"
| "fetch_loop saw_fetch (stage # stages) =
     (let head = stage_head stage in
      if head = ''curl'' \<or> head = ''wget'' then fetch_loop True stages
      else if saw_fetch \<and> is_shell_interpreter head then True
      else fetch_loop saw_fetch stages)"

definition fetch_pipe_to_shell :: "string \<Rightarrow> (string \<times> u8 \<times> string) option" where
  "fetch_pipe_to_shell command =
     (let stages = map trim (split_on CHR ''|'' command) in
      if length stages < 2 then None
      else if fetch_loop False stages then Some (''curl-wget-pipe-shell'', 9, ''remote-exec'')
      else None)"

definition fork_bomb_presplit :: "string \<Rightarrow> (string \<times> u8 \<times> string) option" where
  "fork_bomb_presplit command =
     (if m_fork_bomb command then Some (''fork-bomb'', 9, ''dos'') else None)"

section \<open>Properties of the rule table\<close>

lemma set_enabled_rules:
  "set (enabled_rules re names) = (\<Union>n \<in> set names. case rules_for re n of Some rs \<Rightarrow> set rs | None \<Rightarrow> {})"
  by (induction names) (auto simp: enabled_rules_def List.map_filter_simps split: option.splits)

lemmas rule_tables = rules_def cloud_rules_def db_rules_def container_rules_def

lemma enabled_rules_cases:
  "r \<in> set (enabled_rules re names) \<Longrightarrow> r \<in> set (cloud_rules re @ db_rules re @ container_rules re)"
  by (auto simp: set_enabled_rules rules_for_def split: option.splits if_splits)

lemma rule_severities:
  "r \<in> set (rules re @ cloud_rules re @ db_rules re @ container_rules re) \<Longrightarrow> 6 \<le> dr_severity r \<and> dr_severity r \<le> 9"
  by (auto simp: rule_tables)

lemma pack_severities:
  "r \<in> set (cloud_rules re @ db_rules re @ container_rules re) \<Longrightarrow> 8 \<le> dr_severity r"
  by (auto simp: rule_tables)

text \<open>Fact: the rule table is sound for the default thresholds. Whatever packs are enabled, no rule maps
  to Allow and every rule of a pack maps to Block; packs only add rules (an unknown name adds none, an
  empty list leaves the built-in table alone); and no two rules of the whole table share an id, so an id
  in a report names one rule.\<close>

theorem rule_table_sound:
  "(\<forall>r \<in> set (rules re @ enabled_rules re names). severity_to_tier (dr_severity r) default_thresholds \<noteq> Allow) \<and>
   (\<forall>r \<in> set (enabled_rules re names). severity_to_tier (dr_severity r) default_thresholds = Block) \<and>
   enabled_rules re [] = [] \<and>
   (\<forall>n. n \<notin> {''cloud'', ''db'', ''container''} \<longrightarrow> enabled_rules re (n # names) = enabled_rules re names) \<and>
   distinct (map dr_id (rules re @ cloud_rules re @ db_rules re @ container_rules re))"
proof (intro conjI ballI allI impI)
  show "severity_to_tier (dr_severity r) default_thresholds \<noteq> Allow"
    if "r \<in> set (rules re @ enabled_rules re names)" for r
  proof -
    have "6 \<le> dr_severity r" using that enabled_rules_cases rule_severities [of r re] by auto
    then have "5 \<le> dr_severity r" by (simp add: word_le_nat_alt)
    then show ?thesis by (auto simp: severity_to_tier_iff default_thresholds_def)
  qed
  show "severity_to_tier (dr_severity r) default_thresholds = Block"
    if "r \<in> set (enabled_rules re names)" for r
    using pack_severities [OF enabled_rules_cases [OF that]] by (simp add: severity_to_tier_iff default_thresholds_def)
  show "enabled_rules re (n # names) = enabled_rules re names" if "n \<notin> {''cloud'', ''db'', ''container''}" for n
    using that by (simp add: enabled_rules_def List.map_filter_simps rules_for_def)
qed (simp_all add: enabled_rules_def List.map_filter_simps rule_tables)

theorem rule_table_sound_witness:
  "let re = (\<lambda>p s. False); names = [''db'', ''nope''] in
   (\<forall>r \<in> set (rules re @ enabled_rules re names). severity_to_tier (dr_severity r) default_thresholds \<noteq> Allow) \<and>
   (\<forall>r \<in> set (enabled_rules re names). severity_to_tier (dr_severity r) default_thresholds = Block) \<and>
   enabled_rules re (''nope'' # names) = enabled_rules re names \<and> enabled_rules re names = db_rules re"
proof -
  have e: "enabled_rules re [''db'', ''nope''] = db_rules re" for re
    by (simp add: enabled_rules_def List.map_filter_simps rules_for_def)
  show ?thesis using rule_table_sound [of "\<lambda>p s. False" "[''db'', ''nope'']"] unfolding Let_def e by simp
qed

section \<open>Properties of the match text\<close>

lemma verb_prefixes:
  "is_non_executing_verb (''echo '' @ s)" "is_non_executing_verb (''printf '' @ s)"
  "is_non_executing_verb (''git commit '' @ s)" "is_non_executing_verb (''git tag '' @ s)"
  "is_non_executing_verb (''git notes '' @ s)"
proof -
  have one: "split_whitespace (trim_start (t @ '' '' @ s)) = t # split_whitespace s"
    if "solid_token t" "t \<noteq> []" for t s
    using split_whitespace_token_space [of t s] trim_start_token [of t "'' '' @ s"] that by simp
  have two: "split_whitespace (trim_start (t @ '' '' @ u @ '' '' @ s)) = t # u # split_whitespace s"
    if "solid_token t" "t \<noteq> []" "solid_token u" "u \<noteq> []" for t u s
    using split_whitespace_token_space [of t "u @ '' '' @ s"] split_whitespace_token_space [of u s]
      trim_start_token [of t "'' '' @ u @ '' '' @ s"] that by simp
  have tok: "solid_token ''echo''" "solid_token ''printf''" "solid_token ''git''" "solid_token ''commit''"
    "solid_token ''tag''" "solid_token ''notes''"
    by (simp_all add: solid_token_def ws1_def)
  show "is_non_executing_verb (''echo '' @ s)"
    using one [OF tok(1)] by (simp add: is_non_executing_verb_def)
  show "is_non_executing_verb (''printf '' @ s)"
    using one [OF tok(2)] by (simp add: is_non_executing_verb_def)
  show "is_non_executing_verb (''git commit '' @ s)"
    using two [OF tok(3) _ tok(4)] by (simp add: is_non_executing_verb_def)
  show "is_non_executing_verb (''git tag '' @ s)"
    using two [OF tok(3) _ tok(5)] by (simp add: is_non_executing_verb_def)
  show "is_non_executing_verb (''git notes '' @ s)"
    using two [OF tok(3) _ tok(6)] by (simp add: is_non_executing_verb_def)
qed

lemma verb_not_comment: "is_non_executing_verb leg \<Longrightarrow> \<not> prefix ''#'' (trim_start leg)"
proof
  assume v: "is_non_executing_verb leg" and "prefix ''#'' (trim_start leg)"
  then obtain r where t: "trim_start leg = CHR ''#'' # r" by (auto simp: prefix_def)
  have w: "ws_len (CHR ''#'' # r) = 0" by (simp add: ws_len_ascii ws1_def)
  have "\<exists>x xs. split_whitespace (CHR ''#'' # r) = (CHR ''#'' # x) # xs"
    using w by (simp add: split_whitespace.simps [of "CHR ''#'' # r"] trim_start_id split: prod.splits)
  then show False using v t by (auto simp: is_non_executing_verb_def)
qed

lemma strip_quoted_spans_prefix:
  "dquote \<notin> set pre \<Longrightarrow> squote \<notin> set pre \<Longrightarrow> strip_quoted_spans (pre @ s) = lat pre @ strip_quoted_spans s"
  by (induction pre) auto

lemma strip_quoted_spans_span:
  "q = dquote \<or> q = squote \<Longrightarrow> q \<notin> set body \<Longrightarrow>
     strip_quoted_spans (q # body @ q # post) = q # q # strip_quoted_spans post"
proof -
  assume q: "q = dquote \<or> q = squote" "q \<notin> set body"
  then have "dropWhile (\<lambda>d. d \<noteq> q) (body @ q # post) = q # post"
    by (subst dropWhile_append2) auto
  then show ?thesis using q(1) by simp
qed

definition verb_heads :: "string list" where
  "verb_heads = [''echo '', ''printf '', ''git commit '', ''git tag '', ''git notes '']"

lemma verb_heads_non_executing: "v \<in> set verb_heads \<Longrightarrow> is_non_executing_verb (v @ s)"
  using verb_prefixes by (auto simp: verb_heads_def)

text \<open>Fact: a quoted argument of a non-executing verb is data. The text that the destructive
  matchers see of \<open>echo\<close>, \<open>printf\<close>, \<open>git commit\<close>, \<open>git tag\<close> or \<open>git notes\<close> keeps the two quotes and nothing
  between them, so two commands that differ only inside a quoted span are matched alike.\<close>

theorem quoted_argument_is_data:
  assumes "v \<in> set verb_heads" and "dquote \<notin> set pre" and "squote \<notin> set pre"
    and "q = dquote \<or> q = squote" and "q \<notin> set body"
  shows "effective_match_text (v @ pre @ q # body @ q # post) = v @ lat pre @ [q, q] @ strip_quoted_spans post"
proof -
  have "dquote \<notin> set v" "squote \<notin> set v" "ascii_str v"
    using assms(1) by (auto simp: verb_heads_def)
  then show ?thesis
    using verb_heads_non_executing [OF assms(1)] verb_not_comment [OF verb_heads_non_executing [OF assms(1)]]
      strip_quoted_spans_span [OF assms(4,5), of post] assms(2,3)
    by (simp add: effective_match_text_def strip_quoted_spans_prefix del: strip_quoted_spans.simps)
qed

theorem quoted_argument_is_data_witness:
  "effective_match_text (''git commit '' @ ''-m '' @ dquote # ''remove the rm -rf helper'' @ dquote # []) =
     ''git commit '' @ lat ''-m '' @ [dquote, dquote] @ strip_quoted_spans []"
  by (rule quoted_argument_is_data) (simp_all add: verb_heads_def)

text \<open>That suppression never hides a live substitution: its body is handed on as a command of its own.\<close>

lemma live_substitution_surfaces:
  assumes "v \<in> set verb_heads" and "list_all plain_char p" "CHR ''$'' \<notin> set p"
    and "list_all plain_char t" "CHR ''$'' \<notin> set t" and "list_all plain_char b" "ascii_str b"
  shows "b \<in> set (live_substitution_bodies (v @ p @ [dquote] @ t @ ''$('' @ b @ '')'' @ post))"
proof -
  have v: "list_all plain_char v" "CHR ''$'' \<notin> set v"
    using assms(1) by (auto simp: verb_heads_def plain_char_def seps_def)
  have "extract_double_quoted_substitutions ((v @ p) @ [dquote] @ t @ ''$('' @ b @ '')'' @ post) =
      b # subst_go 63 True False post"
    by (rule extract_first_substitution) (use assms v in auto)
  then show ?thesis
    using verb_heads_non_executing [OF assms(1)] verb_not_comment [OF verb_heads_non_executing [OF assms(1)]]
    by (simp add: live_substitution_bodies_def)
qed

section \<open>Properties of the analyses before the split\<close>

lemma fetch_not_shell [simp]: "\<not> is_shell_interpreter ''curl''" "\<not> is_shell_interpreter ''wget''"
  by (simp_all add: is_shell_interpreter_def)

definition is_fetch :: "string \<Rightarrow> bool" where
  "is_fetch stage \<longleftrightarrow> stage_head stage \<in> {''curl'', ''wget''}"

definition is_shell :: "string \<Rightarrow> bool" where
  "is_shell stage \<longleftrightarrow> is_shell_interpreter (stage_head stage)"

lemma fetch_loop_True: "fetch_loop True stages \<longleftrightarrow> list_ex is_shell stages"
  by (induction stages) (auto simp: Let_def is_shell_def)

lemma fetch_loop_False:
  "fetch_loop False stages \<longleftrightarrow> (\<exists>xs f ys. stages = xs @ f # ys \<and> is_fetch f \<and> list_ex is_shell ys)"
proof (induction stages)
  case (Cons s stages)
  have "(\<exists>xs f ys. s # stages = xs @ f # ys \<and> is_fetch f \<and> list_ex is_shell ys) \<longleftrightarrow>
      is_fetch s \<and> list_ex is_shell stages \<or>
      (\<exists>xs f ys. stages = xs @ f # ys \<and> is_fetch f \<and> list_ex is_shell ys)"
    by (auto simp: Cons_eq_append_conv)
  moreover have "list_ex is_shell stages" if "stages = xs @ f # ys" "list_ex is_shell ys" for xs f ys
    using that by simp
  ultimately show ?case
    using Cons by (auto simp: fetch_loop_True is_fetch_def Let_def)
qed simp

text \<open>Fact: the download-to-shell detector recognises exactly the pipelines in which some stage whose
  head is \<open>curl\<close> or \<open>wget\<close> stands anywhere before a stage whose head is a shell or script interpreter,
  and reports them with severity 9.\<close>

theorem fetch_pipe_to_shell_iff:
  "fetch_pipe_to_shell command =
     (if \<exists>xs f ys. map trim (split_on CHR ''|'' command) = xs @ f # ys \<and> is_fetch f \<and> list_ex is_shell ys
      then Some (''curl-wget-pipe-shell'', 9, ''remote-exec'') else None)"
proof -
  let ?st = "map trim (split_on CHR ''|'' command)"
  have "\<not> length ?st < 2" if "\<exists>xs f ys. ?st = xs @ f # ys \<and> is_fetch f \<and> list_ex is_shell ys"
  proof -
    obtain xs f ys where "?st = xs @ f # ys" "list_ex is_shell ys" using \<open>\<exists>xs f ys. _\<close> by blast
    then show ?thesis by (cases ys) (simp_all del: length_map)
  qed
  then show ?thesis
    unfolding fetch_pipe_to_shell_def Let_def fetch_loop_False by presburger
qed

end
