(* ===== verification/Resolve.thy ===== *)
theory Resolve
  imports Normalize
begin

text \<open>
  \<^verbatim>\<open>crates/apohara-agentguard/src/gate/resolve.rs\<close>: variable assignments of earlier legs are
  substituted into later ones, so that \<^verbatim>\<open>x=rm; $x -rf ~\<close> is matched as \<^verbatim>\<open>rm -rf ~\<close>.
\<close>

definition ident_char :: "char \<Rightarrow> bool" where
  "ident_char c = (is_ascii_alphanumeric c \<or> c = CHR ''_'')"

definition is_valid_var_name :: "string \<Rightarrow> bool" where
  "is_valid_var_name name = (case name of
       [] \<Rightarrow> False
     | c # cs \<Rightarrow> (is_ascii_alphabetic c \<or> c = CHR ''_'') \<and> list_all ident_char cs)"

definition parse_assignment :: "string \<Rightarrow> (string \<times> string) option" where
  "parse_assignment leg = (case find_char CHR ''='' leg of
       None \<Rightarrow> None
     | Some eq \<Rightarrow>
         let name = take eq leg in
         if name = [] \<or> \<not> is_valid_var_name name then None
         else Some (name, strip_quotes (drop (eq + 1) leg)))"

text \<open>A reference at the head of the text: its value and the text after it.\<close>

definition var_reference :: "(string \<rightharpoonup> string) \<Rightarrow> string \<Rightarrow> (string \<times> string) option" where
  "var_reference vars s = (case s of
       c # d # r \<Rightarrow>
         if c \<noteq> CHR ''$'' then None
         else if d = CHR ''{'' then
           (case find_char CHR ''}'' r of
              None \<Rightarrow> None
            | Some k \<Rightarrow>
                let name = take k r in
                if is_valid_var_name name
                then map_option (\<lambda>v. (v, drop (k + 1) r)) (vars name) else None)
         else
           (let name = takeWhile ident_char (d # r) in
            if name \<noteq> [] then map_option (\<lambda>v. (v, drop (length name) (d # r))) (vars name) else None)
     | _ \<Rightarrow> None)"

lemma var_reference_length: "var_reference vars s = Some (v, r) \<Longrightarrow> length r < length s"
  by (auto simp: var_reference_def Let_def split: list.splits if_splits option.splits)

function expand_vars :: "(string \<rightharpoonup> string) \<Rightarrow> string \<Rightarrow> string" where
  "expand_vars vars [] = []"
| "expand_vars vars (c # cs) = (case var_reference vars (c # cs) of
       Some (v, rest) \<Rightarrow> v @ expand_vars vars rest
     | None \<Rightarrow> latin1 c @ expand_vars vars cs)"
  by pat_completeness auto
termination
  by (relation "measure (\<lambda>(vars, s). length s)") (auto dest: var_reference_length)

declare expand_vars.simps(2) [simp del]

definition bind_leg :: "(string \<rightharpoonup> string) \<Rightarrow> string \<Rightarrow> (string \<rightharpoonup> string)" where
  "bind_leg vars leg = (case parse_assignment leg of
       Some (name, value) \<Rightarrow> vars(name \<mapsto> value)
     | None \<Rightarrow> vars)"

fun resolve_go :: "(string \<rightharpoonup> string) \<Rightarrow> string list \<Rightarrow> string list" where
  "resolve_go vars [] = []"
| "resolve_go vars (leg # legs) = expand_vars vars leg # resolve_go (bind_leg vars leg) legs"

definition resolve_assignments :: "string list \<Rightarrow> string list" where
  "resolve_assignments legs = resolve_go Map.empty legs"

section \<open>Properties\<close>

lemma length_resolve_go [simp]: "length (resolve_go vars legs) = length legs"
  by (induction legs arbitrary: vars) auto

lemma resolve_go_append:
  "resolve_go vars (xs @ ys) = resolve_go vars xs @ resolve_go (foldl bind_leg vars xs) ys"
  by (induction xs arbitrary: vars) auto

lemma var_reference_no_dollar: "c \<noteq> CHR ''$'' \<Longrightarrow> var_reference vars (c # cs) = None"
  by (cases cs) (auto simp: var_reference_def)

lemma expand_vars_inert: "CHR ''$'' \<notin> set s \<Longrightarrow> expand_vars vars s = lat s"
proof (induction s)
  case (Cons c s)
  then have "var_reference vars (c # s) = None" by (intro var_reference_no_dollar) auto
  then show ?case using Cons by (simp add: expand_vars.simps(2))
qed simp

lemma var_name_facts:
  assumes "is_valid_var_name x"
  shows "x \<noteq> []" "list_all ident_char x" "CHR ''='' \<notin> set x" "CHR ''{'' \<notin> set x"
  using assms
  by (auto simp: is_valid_var_name_def ident_char_def is_ascii_alphanumeric_def is_ascii_alphabetic_def
      is_ascii_digit_def list_all_iff split: list.splits)

lemma parse_assignment_assign:
  "is_valid_var_name x \<Longrightarrow> parse_assignment (x @ ''='' @ v) = Some (x, strip_quotes v)"
  using var_name_facts [of x] by (simp add: parse_assignment_def find_char_append)

lemma var_reference_hit:
  assumes "is_valid_var_name x" and "rest = [] \<or> \<not> ident_char (hd rest)" and "vars x = Some v"
  shows "var_reference vars (CHR ''$'' # x @ rest) = Some (v, rest)"
proof -
  have x: "x \<noteq> []" "list_all ident_char x" "hd x \<noteq> CHR ''{''"
    using var_name_facts [OF assms(1)] by (auto dest: list.set_sel(1))
  obtain d r where xr: "x @ rest = d # r" using x(1) by (cases x) auto
  have "takeWhile ident_char (x @ rest) = x"
    using x(2) assms(2) by (cases rest) (auto simp: takeWhile_append1 list_all_iff takeWhile_tail)
  moreover have "d \<noteq> CHR ''{''" using x(1,3) xr by (cases x) auto
  moreover have "drop (length x) (d # r) = rest" using xr by (metis append_eq_conv_conj)
  ultimately show ?thesis using assms(3) x(1) xr by (simp add: var_reference_def)
qed

lemma bind_leg_other: "(\<forall>leg \<in> set mid. \<forall>v. parse_assignment leg \<noteq> Some (x, v)) \<Longrightarrow>
    foldl bind_leg vars mid x = vars x"
proof (induction mid arbitrary: vars)
  case (Cons leg mid)
  then have "bind_leg vars leg x = vars x"
    by (auto simp: bind_leg_def split: option.splits)
  then show ?case using Cons by simp
qed simp

text \<open>Fact: aliasing through a variable is undone. After a leg \<open>x=v\<close> that no later leg reassigns,
  a leg that begins with the reference \<open>$x\<close> is matched with the reference replaced by the unquoted
  value, whatever legs stand before and between; no leg is added or lost.\<close>

theorem alias_resolved:
  assumes "is_valid_var_name x" and "\<forall>leg \<in> set mid. \<forall>w. parse_assignment leg \<noteq> Some (x, w)"
    and "rest = [] \<or> \<not> ident_char (hd rest)" and "CHR ''$'' \<notin> set rest" and "ascii_str rest"
  shows "last (resolve_assignments (pre @ [x @ ''='' @ v] @ mid @ [''$'' @ x @ rest])) = strip_quotes v @ rest \<and>
         length (resolve_assignments legs) = length legs"
proof
  let ?env = "foldl bind_leg (bind_leg (foldl bind_leg Map.empty pre) (x @ ''='' @ v)) mid"
  have "?env x = Some (strip_quotes v)"
    using bind_leg_other [OF assms(2)] parse_assignment_assign [OF assms(1), of v] by (simp add: bind_leg_def)
  then have "expand_vars ?env (''$'' @ x @ rest) = strip_quotes v @ rest"
    using var_reference_hit [OF assms(1,3)] expand_vars_inert [OF assms(4)] assms(5)
    by (simp add: expand_vars.simps(2))
  then show "last (resolve_assignments (pre @ [x @ ''='' @ v] @ mid @ [''$'' @ x @ rest])) = strip_quotes v @ rest"
    by (simp add: resolve_assignments_def resolve_go_append)
  show "length (resolve_assignments legs) = length legs" by (simp add: resolve_assignments_def)
qed

theorem alias_resolved_witness:
  "last (resolve_assignments ([''ls''] @ [''x'' @ ''='' @ ''rm''] @ [''y=ls''] @ [''$'' @ ''x'' @ '' -rf ~'']))
     = strip_quotes ''rm'' @ '' -rf ~'' \<and> length (resolve_assignments [''ls'']) = length [''ls'']"
proof (rule alias_resolved)
  show "is_valid_var_name ''x''" by code_simp
  have "parse_assignment ''y=ls'' = Some (''y'', ''ls'')" by code_simp
  then show "\<forall>leg \<in> set [''y=ls'']. \<forall>w. parse_assignment leg \<noteq> Some (''x'', w)" by simp
  have "\<not> ident_char (CHR '' '')" by code_simp
  then show "'' -rf ~'' = [] \<or> \<not> ident_char (hd '' -rf ~'')" by simp
qed simp_all

end
