(* ===== verification/Decode.thy ===== *)
theory Decode
  imports Normalize
begin

text \<open>
  \<^verbatim>\<open>crates/apohara-agentguard/src/gate/decode.rs\<close>: recognises \<^verbatim>\<open>echo <payload> | base64 -d\<close> and
  returns the decoded payload for rescanning. The \<^verbatim>\<open>base64\<close> crate's decoder is the parameter \<open>b64\<close>.
\<close>

definition MAX_DECODE_DEPTH :: nat where "MAX_DECODE_DEPTH = 2"
definition MAX_DECODE_BYTES :: nat where "MAX_DECODE_BYTES = 64 * 1024"

definition has_base64_decode_stage :: "string \<Rightarrow> bool" where
  "has_base64_decode_stage leg =
     list_ex (\<lambda>stage. case split_whitespace (trim stage) of
         [] \<Rightarrow> False
       | t # ts \<Rightarrow> t = ''base64'' \<and> list_ex (\<lambda>x. x = ''-d'' \<or> x = ''--decode'') ts)
       (split_on CHR ''|'' leg)"

definition extract_payload :: "string \<Rightarrow> string option" where
  "extract_payload leg =
     (case split_whitespace (trim (hd (split_on CHR ''|'' leg))) of
        [] \<Rightarrow> None
      | head # tokens \<Rightarrow>
          if head = ''echo'' then
            (let rest = (case tokens of
                   t # ts \<Rightarrow> if t = ''-n'' \<or> t = ''-e'' then ts else tokens
                 | [] \<Rightarrow> tokens)
             in Some (strip_quotes (trim (join_with '' '' rest))))
          else Some (strip_quotes head))"

definition decode_and_expand :: "(string \<Rightarrow> string option) \<Rightarrow> string \<Rightarrow> nat \<Rightarrow> string option" where
  "decode_and_expand b64 leg depth =
     (if depth \<ge> MAX_DECODE_DEPTH then None
      else if \<not> has_base64_decode_stage leg then None
      else (case extract_payload leg of
              None \<Rightarrow> None
            | Some payload \<Rightarrow> (case b64 payload of
                  None \<Rightarrow> None
                | Some decoded \<Rightarrow>
                    if length decoded > MAX_DECODE_BYTES then None
                    else if utf8_valid decoded then Some decoded else None)))"

lemma decode_and_expand_SomeD:
  "decode_and_expand b64 leg depth = Some d \<Longrightarrow>
     depth < MAX_DECODE_DEPTH \<and> has_base64_decode_stage leg \<and> length d \<le> MAX_DECODE_BYTES \<and> utf8_valid d"
  by (auto simp: decode_and_expand_def split: if_splits option.splits)

text \<open>Fact: decoding is bounded and exact. A payload is returned only below the recursion cap,
  only for a command with a base64 decode stage, at most 64 KiB long and valid UTF-8; and it is
  what the decoder makes of the extracted payload.\<close>

theorem decode_bounded:
  "decode_and_expand b64 leg depth = Some d \<Longrightarrow>
     depth < 2 \<and> length d \<le> 65536 \<and> utf8_valid d \<and> has_base64_decode_stage leg \<and>
     (\<exists>p. extract_payload leg = Some p \<and> b64 p = Some d)"
  by (auto simp: decode_and_expand_def MAX_DECODE_DEPTH_def MAX_DECODE_BYTES_def
      split: if_splits option.splits)

text \<open>A decoder of one known payload, as a concrete instance of the parameter.\<close>

definition sample_b64 :: "string \<Rightarrow> string option" where
  "sample_b64 p = (if p = ''cm0gLXJmIH4='' then Some ''rm -rf ~'' else None)"

lemma sample_decode:
  "decode_and_expand sample_b64 ''echo cm0gLXJmIH4= | base64 -d | sh'' 0 = Some ''rm -rf ~''"
proof -
  have s: "has_base64_decode_stage ''echo cm0gLXJmIH4= | base64 -d | sh''"
    "extract_payload ''echo cm0gLXJmIH4= | base64 -d | sh'' = Some ''cm0gLXJmIH4=''"
    "utf8_valid ''rm -rf ~''"
    by code_simp+
  show ?thesis
    by (simp add: decode_and_expand_def s sample_b64_def MAX_DECODE_DEPTH_def MAX_DECODE_BYTES_def
        del: utf8_valid.simps)
qed

theorem decode_bounded_witness:
  "(0::nat) < 2 \<and> length ''rm -rf ~'' \<le> 65536 \<and> utf8_valid ''rm -rf ~'' \<and>
   has_base64_decode_stage ''echo cm0gLXJmIH4= | base64 -d | sh'' \<and>
   (\<exists>p. extract_payload ''echo cm0gLXJmIH4= | base64 -d | sh'' = Some p \<and> sample_b64 p = Some ''rm -rf ~'')"
  by (rule decode_bounded [OF sample_decode])

end
