(* ===== verification/Gate.thy ===== *)
theory Gate
  imports Config Taxonomy Resolve Decode
begin

text \<open>
  \<^verbatim>\<open>crates/apohara-agentguard/src/gate/mod.rs\<close>: the command gate, which runs the stages of the other gate
  theories in their pinned order and maps the worst hit to a verdict. \<open>re\<close> and \<open>b64\<close> stand for the
  \<^verbatim>\<open>regex\<close> and \<^verbatim>\<open>base64\<close> crates.
\<close>

section \<open>Hits\<close>

definition MAX_SUBST_DEPTH :: nat where "MAX_SUBST_DEPTH = 4"

record hit =
  hit_severity :: u8
  hit_leg :: string
  hit_label :: string

definition consider_hit :: "hit option \<Rightarrow> hit \<Rightarrow> hit option" where
  "consider_hit best candidate =
     (case best of
        Some existing \<Rightarrow> if hit_severity existing \<ge> hit_severity candidate then best else Some candidate
      | None \<Rightarrow> Some candidate)"

definition custom_block_matches :: "custom_block \<Rightarrow> string \<Rightarrow> bool" where
  "custom_block_matches cb leg = pattern_matches (cb_pattern cb) leg"

definition has_unresolved_decode :: "string \<Rightarrow> bool" where
  "has_unresolved_decode leg =
     list_ex (\<lambda>stage. case split_whitespace stage of
         [] \<Rightarrow> False
       | t # ts \<Rightarrow> t = ''base64'' \<and> list_ex (\<lambda>x. x = ''-d'' \<or> x = ''--decode'') ts)
       (split_on CHR ''|'' leg)"

definition rule_hit :: "destructive_rule \<Rightarrow> string \<Rightarrow> hit" where
  "rule_hit rule leg = \<lparr>hit_severity = dr_severity rule, hit_leg = leg,
     hit_label = dr_category rule @ '' ['' @ dr_id rule @ '']''\<rparr>"

definition custom_hit :: "custom_block \<Rightarrow> string \<Rightarrow> hit" where
  "custom_hit cb leg = \<lparr>hit_severity = cb_severity cb, hit_leg = leg,
     hit_label = ''custom-block ['' @ cb_category cb @ '']''\<rparr>"

definition cap_hit :: "config \<Rightarrow> string \<Rightarrow> hit" where
  "cap_hit cfg leg = \<lparr>hit_severity = warn_at (cfg_thresholds cfg), hit_leg = leg,
     hit_label = ''base64-decode-cap''\<rparr>"

definition fetch_stage :: "string \<Rightarrow> hit option \<Rightarrow> hit option" where
  "fetch_stage command best = (case fetch_pipe_to_shell command of
       Some (i, sev, _) \<Rightarrow> consider_hit best
         \<lparr>hit_severity = sev, hit_leg = command, hit_label = ''fetch-piped-to-shell ['' @ i @ '']''\<rparr>
     | None \<Rightarrow> best)"

definition fork_stage :: "string \<Rightarrow> hit option \<Rightarrow> hit option" where
  "fork_stage command best = (case fork_bomb_presplit command of
       Some (i, sev, _) \<Rightarrow> consider_hit best
         \<lparr>hit_severity = sev, hit_leg = command, hit_label = ''dos ['' @ i @ '']''\<rparr>
     | None \<Rightarrow> best)"

section \<open>Scanning\<close>

function scan_leg :: "regex \<Rightarrow> (string \<Rightarrow> string option) \<Rightarrow> config \<Rightarrow> nat \<Rightarrow> string \<Rightarrow> hit option \<Rightarrow> hit option"
  and scan_substitution_body ::
    "regex \<Rightarrow> (string \<Rightarrow> string option) \<Rightarrow> config \<Rightarrow> nat \<Rightarrow> string \<Rightarrow> hit option \<Rightarrow> hit option" where
  "scan_leg re b64 cfg depth leg best =
     (let match_text = effective_match_text leg;
          best = foldl (\<lambda>best rule. if rule_matches rule match_text then consider_hit best (rule_hit rule leg) else best)
            best (rules re @ enabled_rules re (packs cfg));
          best = (if depth < MAX_SUBST_DEPTH then
              foldl (\<lambda>best body. scan_substitution_body re b64 cfg (depth + 1) body best)
                best (live_substitution_bodies leg)
            else best);
          best = foldl (\<lambda>best cb. if custom_block_matches cb leg then consider_hit best (custom_hit cb leg) else best)
            best (custom_blocks cfg)
      in case decode_and_expand b64 leg depth of
           Some decoded \<Rightarrow>
             foldl (\<lambda>best inner. scan_leg re b64 cfg (depth + 1) inner best) best (split_compound decoded)
         | None \<Rightarrow>
             if depth + 1 \<ge> MAX_DECODE_DEPTH \<and> has_unresolved_decode leg
             then consider_hit best (cap_hit cfg leg) else best)"
| "scan_substitution_body re b64 cfg depth body best =
     (let best = fetch_stage body best;
          best = fork_stage body best;
          best = (if depth < MAX_DECODE_DEPTH then
              (case decode_and_expand b64 body depth of
                 Some decoded \<Rightarrow>
                   foldl (\<lambda>best inner. scan_leg re b64 cfg (depth + 1) inner best) best (split_compound decoded)
               | None \<Rightarrow> best)
            else best)
      in foldl (\<lambda>best leg.
           if is_non_executing_verb leg then
             (if depth < MAX_SUBST_DEPTH then
                foldl (\<lambda>best inner. scan_substitution_body re b64 cfg (depth + 1) inner best)
                  best (live_substitution_bodies leg)
              else best)
           else scan_leg re b64 cfg depth leg best) best (split_compound body))"
  by pat_completeness auto
termination
  by (relation "measure (case_sum (\<lambda>(re, b64, cfg, depth, leg, best). 2 * (6 - depth))
        (\<lambda>(re, b64, cfg, depth, body, best). 2 * (6 - depth) + 1))")
    (auto simp: MAX_SUBST_DEPTH_def MAX_DECODE_DEPTH_def dest!: decode_and_expand_SomeD)

declare scan_leg.simps [simp del] scan_substitution_body.simps [simp del]

section \<open>The IFS re-split\<close>

fun ifs_rebuild :: "string list \<Rightarrow> bool \<Rightarrow> string list \<Rightarrow> string list" where
  "ifs_rebuild extra_seps seen_ifs [] = []"
| "ifs_rebuild extra_seps seen_ifs (leg # legs) =
     (if seen_ifs then foldl (\<lambda>rewritten sep. replace_str sep '' '' rewritten) leg extra_seps else leg)
     # ifs_rebuild extra_seps (seen_ifs \<or> prefix ''IFS='' (trim_start leg)) legs"

definition ifs_resplit_block :: "regex \<Rightarrow> (string \<Rightarrow> string option) \<Rightarrow> string \<Rightarrow> string list \<Rightarrow> config \<Rightarrow> hit option" where
  "ifs_resplit_block re b64 command extra_seps cfg =
     (let resolved = resolve_assignments (ifs_rebuild extra_seps False (split_compound command));
          ifs_best = foldl (\<lambda>best leg. scan_leg re b64 cfg 0 leg best) None resolved
      in case ifs_best of
           Some h \<Rightarrow> if severity_to_tier (hit_severity h) (cfg_thresholds cfg) = Block then Some h else None
         | None \<Rightarrow> None)"

section \<open>The verdict\<close>

definition truncate_str :: "string \<Rightarrow> nat \<Rightarrow> string" where
  "truncate_str s mx = (if length s \<le> mx then s else take (floor_boundary s mx) s @ ellipsis)"

text \<open>\<open>None\<close> is the \<^verbatim>\<open>unreachable!\<close> panic.\<close>

definition build_verdict :: "tier \<Rightarrow> hit \<Rightarrow> verdict option" where
  "build_verdict t h =
     (let reason = ''blocked dangerous leg `'' @ truncate_str (hit_leg h) 200 @ ''` ('' @ hit_label h @ '')'';
          reason = (if t = Warn then replacen1 ''blocked'' ''flagged'' reason else reason);
          feedback = (case t of
              Block \<Rightarrow> ''This command was blocked because the leg `'' @ truncate_str (hit_leg h) 200 @
                ''` matches '' @ hit_label h @
                ''. If this is intentional, add it to the apohara-agentguard allow-list.''
            | Warn \<Rightarrow> ''Caution: the leg `'' @ truncate_str (hit_leg h) 200 @ ''` matches '' @ hit_label h @
                ''. Proceed only if you understand the impact.''
            | Allow \<Rightarrow> [] | Ask \<Rightarrow> []);
          v = (case t of
              Block \<Rightarrow> Some (block reason) | Warn \<Rightarrow> Some (warn reason) | Allow \<Rightarrow> Some allow | Ask \<Rightarrow> None)
      in if feedback = [] then v else map_option (\<lambda>v. with_feedback v feedback) v)"

definition evaluate :: "regex \<Rightarrow> (string \<Rightarrow> string option) \<Rightarrow> string \<Rightarrow> config \<Rightarrow> verdict option" where
  "evaluate re b64 raw cfg =
     (if disable cfg then Some allow
      else if is_allowed cfg raw then Some allow
      else
       (let (command, extra_seps) =
              (if cfg_normalize cfg then
                 (let n = normalize_command raw in (norm_command n, extra_separators n))
               else (raw, []));
            best = fetch_stage command None;
            best = fork_stage command best;
            best = (case decode_and_expand b64 command 0 of
                Some decoded \<Rightarrow> foldl (\<lambda>best inner. scan_leg re b64 cfg 1 inner best) best (split_compound decoded)
              | None \<Rightarrow> best);
            best = foldl (\<lambda>best leg. scan_leg re b64 cfg 0 leg best) best
              (resolve_assignments (split_compound command));
            best = (if extra_seps \<noteq> [] then
                (case ifs_resplit_block re b64 command extra_seps cfg of
                   Some h \<Rightarrow> consider_hit best h
                 | None \<Rightarrow> best)
              else best)
        in case best of
             None \<Rightarrow> Some allow
           | Some h \<Rightarrow> build_verdict (severity_to_tier (hit_severity h) (cfg_thresholds cfg)) h))"

section \<open>Specification: the hits of a command\<close>

text \<open>
  The specification forgets the order of the scan and the running maximum: it only says which hits a leg, a
  substitution body and a command have. The gate then promises the tier of the greatest severity among them.
\<close>

definition fetch_hits :: "string \<Rightarrow> hit list" where
  "fetch_hits command = (case fetch_stage command None of None \<Rightarrow> [] | Some h \<Rightarrow> [h])"

definition fork_hits :: "string \<Rightarrow> hit list" where
  "fork_hits command = (case fork_stage command None of None \<Rightarrow> [] | Some h \<Rightarrow> [h])"

function leg_hits :: "regex \<Rightarrow> (string \<Rightarrow> string option) \<Rightarrow> config \<Rightarrow> nat \<Rightarrow> string \<Rightarrow> hit list"
  and body_hits :: "regex \<Rightarrow> (string \<Rightarrow> string option) \<Rightarrow> config \<Rightarrow> nat \<Rightarrow> string \<Rightarrow> hit list" where
  "leg_hits re b64 cfg depth leg =
     map (\<lambda>r. rule_hit r leg)
       (filter (\<lambda>r. rule_matches r (effective_match_text leg)) (rules re @ enabled_rules re (packs cfg))) @
     (if depth < MAX_SUBST_DEPTH
      then concat (map (\<lambda>body. body_hits re b64 cfg (depth + 1) body) (live_substitution_bodies leg)) else []) @
     map (\<lambda>cb. custom_hit cb leg) (filter (\<lambda>cb. custom_block_matches cb leg) (custom_blocks cfg)) @
     (case decode_and_expand b64 leg depth of
        Some decoded \<Rightarrow> concat (map (\<lambda>inner. leg_hits re b64 cfg (depth + 1) inner) (split_compound decoded))
      | None \<Rightarrow> if depth + 1 \<ge> MAX_DECODE_DEPTH \<and> has_unresolved_decode leg then [cap_hit cfg leg] else [])"
| "body_hits re b64 cfg depth body =
     fetch_hits body @ fork_hits body @
     (if depth < MAX_DECODE_DEPTH then
        (case decode_and_expand b64 body depth of
           Some decoded \<Rightarrow> concat (map (\<lambda>inner. leg_hits re b64 cfg (depth + 1) inner) (split_compound decoded))
         | None \<Rightarrow> [])
      else []) @
     concat (map (\<lambda>leg.
       if is_non_executing_verb leg then
         (if depth < MAX_SUBST_DEPTH
          then concat (map (\<lambda>inner. body_hits re b64 cfg (depth + 1) inner) (live_substitution_bodies leg)) else [])
       else leg_hits re b64 cfg depth leg) (split_compound body))"
  by pat_completeness auto
termination
  by (relation "measure (case_sum (\<lambda>(re, b64, cfg, depth, leg). 2 * (6 - depth))
        (\<lambda>(re, b64, cfg, depth, body). 2 * (6 - depth) + 1))")
    (auto simp: MAX_SUBST_DEPTH_def MAX_DECODE_DEPTH_def dest!: decode_and_expand_SomeD)

declare leg_hits.simps [simp del] body_hits.simps [simp del]

definition normalized_command :: "string \<Rightarrow> config \<Rightarrow> string" where
  "normalized_command raw cfg = (if cfg_normalize cfg then norm_command (normalize_command raw) else raw)"

definition ifs_separators :: "string \<Rightarrow> config \<Rightarrow> string list" where
  "ifs_separators raw cfg = (if cfg_normalize cfg then extra_separators (normalize_command raw) else [])"

definition resolved_legs :: "string \<Rightarrow> config \<Rightarrow> string list" where
  "resolved_legs raw cfg = resolve_assignments (split_compound (normalized_command raw cfg))"

definition command_hits :: "regex \<Rightarrow> (string \<Rightarrow> string option) \<Rightarrow> string \<Rightarrow> config \<Rightarrow> hit list" where
  "command_hits re b64 raw cfg =
     (let command = normalized_command raw cfg in
      fetch_hits command @ fork_hits command @
      (case decode_and_expand b64 command 0 of
         Some decoded \<Rightarrow> concat (map (\<lambda>inner. leg_hits re b64 cfg 1 inner) (split_compound decoded))
       | None \<Rightarrow> []) @
      concat (map (\<lambda>leg. leg_hits re b64 cfg 0 leg) (resolved_legs raw cfg)) @
      (if ifs_separators raw cfg \<noteq> [] then
         (case ifs_resplit_block re b64 command (ifs_separators raw cfg) cfg of Some h \<Rightarrow> [h] | None \<Rightarrow> [])
       else []))"

section \<open>The running maximum implements the specification\<close>

definition hit_sev :: "hit option \<Rightarrow> nat" where
  "hit_sev best = (case best of None \<Rightarrow> 0 | Some h \<Rightarrow> Suc (unat (hit_severity h)))"

definition pick_hit :: "hit option \<Rightarrow> hit option \<Rightarrow> hit option" where
  "pick_hit best cand = (case cand of None \<Rightarrow> best | Some h \<Rightarrow> consider_hit best h)"

interpretation hits: severity_choice hit_sev pick_hit
  by unfold_locales
    (auto simp: hit_sev_def pick_hit_def consider_hit_def word_le_nat_alt split: option.splits)

lemma foldl_consider: "foldl consider_hit best hs = foldl pick_hit best (map Some hs)"
  by (induction hs arbitrary: best) (simp_all add: pick_hit_def)

lemma foldl_if:
  "foldl (\<lambda>b x. if P x then consider_hit b (f x) else b) best xs = foldl consider_hit best (map f (filter P xs))"
  by (induction xs arbitrary: best) auto

lemma foldl_concat:
  "(\<And>x b. x \<in> set xs \<Longrightarrow> g x b = foldl consider_hit b (h x)) \<Longrightarrow>
   foldl (\<lambda>b x. g x b) best xs = foldl consider_hit best (concat (map h xs))"
  by (induction xs arbitrary: best) auto

lemma fetch_stage_hits: "fetch_stage command best = foldl consider_hit best (fetch_hits command)"
  by (auto simp: fetch_stage_def fetch_hits_def consider_hit_def [of None] split: option.splits)

lemma fork_stage_hits: "fork_stage command best = foldl consider_hit best (fork_hits command)"
  by (auto simp: fork_stage_def fork_hits_def consider_hit_def [of None] split: option.splits)

lemma scan_refines:
  "scan_leg re b64 cfg depth leg best = foldl consider_hit best (leg_hits re b64 cfg depth leg)"
  "scan_substitution_body re b64 cfg depth body best = foldl consider_hit best (body_hits re b64 cfg depth body)"
proof (induction re b64 cfg depth leg and re b64 cfg depth body arbitrary: best and best rule: leg_hits_body_hits.induct)
  case (1 re b64 cfg depth leg)
  have subst: "foldl (\<lambda>best body. scan_substitution_body re b64 cfg (depth + 1) body best) b (live_substitution_bodies leg)
      = foldl consider_hit b (concat (map (\<lambda>body. body_hits re b64 cfg (depth + 1) body) (live_substitution_bodies leg)))"
    if "depth < MAX_SUBST_DEPTH" for b
    by (rule foldl_concat) (rule "1.IH"(1) [OF that])
  have dec: "foldl (\<lambda>best inner. scan_leg re b64 cfg (depth + 1) inner best) b (split_compound decoded)
      = foldl consider_hit b (concat (map (\<lambda>inner. leg_hits re b64 cfg (depth + 1) inner) (split_compound decoded)))"
    if "decode_and_expand b64 leg depth = Some decoded" for b decoded
    by (rule foldl_concat) (rule "1.IH"(2) [OF that])
  show ?case
    unfolding scan_leg.simps [of re b64 cfg depth leg] leg_hits.simps [of re b64 cfg depth leg] Let_def foldl_if
    using subst dec by (auto split: option.split)
next
  case (2 re b64 cfg depth body)
  have dec: "foldl (\<lambda>best inner. scan_leg re b64 cfg (depth + 1) inner best) b (split_compound decoded)
      = foldl consider_hit b (concat (map (\<lambda>inner. leg_hits re b64 cfg (depth + 1) inner) (split_compound decoded)))"
    if "depth < MAX_DECODE_DEPTH" "decode_and_expand b64 body depth = Some decoded" for b decoded
    by (rule foldl_concat) (rule "2.IH"(1) [OF that])
  let ?step = "\<lambda>leg best. if is_non_executing_verb leg then
             (if depth < MAX_SUBST_DEPTH then
                foldl (\<lambda>best inner. scan_substitution_body re b64 cfg (depth + 1) inner best)
                  best (live_substitution_bodies leg)
              else best)
           else scan_leg re b64 cfg depth leg best"
  let ?hits = "\<lambda>leg. if is_non_executing_verb leg then
         (if depth < MAX_SUBST_DEPTH
          then concat (map (\<lambda>inner. body_hits re b64 cfg (depth + 1) inner) (live_substitution_bodies leg)) else [])
       else leg_hits re b64 cfg depth leg"
  have step: "?step leg b = foldl consider_hit b (?hits leg)" if "leg \<in> set (split_compound body)" for leg b
  proof -
    have "foldl (\<lambda>best inner. scan_substitution_body re b64 cfg (depth + 1) inner best) b (live_substitution_bodies leg)
      = foldl consider_hit b (concat (map (\<lambda>inner. body_hits re b64 cfg (depth + 1) inner) (live_substitution_bodies leg)))"
      if "is_non_executing_verb leg" "depth < MAX_SUBST_DEPTH"
      by (rule foldl_concat) (rule "2.IH"(2) [OF \<open>leg \<in> set _\<close> that])
    then show ?thesis using "2.IH"(3) [OF that] by simp
  qed
  have legs: "foldl (\<lambda>best leg. ?step leg best) b (split_compound body)
      = foldl consider_hit b (concat (map ?hits (split_compound body)))" for b
    by (rule foldl_concat) (rule step)
  show ?case
    unfolding scan_substitution_body.simps [of re b64 cfg depth body] body_hits.simps [of re b64 cfg depth body] Let_def
      fetch_stage_hits fork_stage_hits legs
    using dec by (auto split: option.split)
qed

lemmas legs_refine = foldl_concat [where g = "\<lambda>leg best. scan_leg re b64 cfg depth leg best"
    and h = "\<lambda>leg. leg_hits re b64 cfg depth leg" for re b64 cfg depth, OF scan_refines(1)]

definition gate_skips :: "config \<Rightarrow> string \<Rightarrow> bool" where
  "gate_skips cfg raw \<longleftrightarrow> disable cfg \<or> is_allowed cfg raw"

lemma evaluate_hits:
  "\<not> gate_skips cfg raw \<Longrightarrow> evaluate re b64 raw cfg =
     (case foldl consider_hit None (command_hits re b64 raw cfg) of
        None \<Rightarrow> Some allow
      | Some h \<Rightarrow> build_verdict (severity_to_tier (hit_severity h) (cfg_thresholds cfg)) h)"
  unfolding evaluate_def command_hits_def Let_def gate_skips_def normalized_command_def ifs_separators_def
    resolved_legs_def fetch_stage_hits fork_stage_hits
  by (simp add: legs_refine split: option.split)

lemma worst_hit:
  "foldl consider_hit None hs = (if hs = [] then None else Some h) \<Longrightarrow> hs \<noteq> [] \<Longrightarrow>
     h \<in> set hs \<and> hit_severity h = Max (hit_severity ` set hs)"
proof
  assume h: "foldl consider_hit None hs = (if hs = [] then None else Some h)" "hs \<noteq> []"
  show mem: "h \<in> set hs"
    using hits.foldl_pick_mem [of None "map Some hs"] h by (auto simp: foldl_consider [symmetric])
  have "hit_severity x \<le> hit_severity h" if "x \<in> set hs" for x
    using hits.foldl_pick_ge_mem [of "Some x" "map Some hs" None] h that
    by (simp add: foldl_consider [symmetric] hit_sev_def word_le_nat_alt)
  then show "hit_severity h = Max (hit_severity ` set hs)"
    using mem by (intro Max_eqI [symmetric]) auto
qed

lemma worst_hit_exists: "hs \<noteq> [] \<Longrightarrow> \<exists>h. foldl consider_hit None hs = Some h"
  using hits.foldl_pick_ge_mem [of "Some (hd hs)" "map Some hs" None]
  by (cases "foldl consider_hit None hs") (auto simp: foldl_consider [symmetric] hit_sev_def)

lemma build_verdict_tier: "t \<noteq> Ask \<Longrightarrow> \<exists>v. build_verdict t h = Some v \<and> v_tier v = t"
  by (cases t) (auto simp: build_verdict_def Let_def)

lemma gate_tier:
  "map_option v_tier (evaluate re b64 raw cfg) = Some
     (if gate_skips cfg raw \<or> command_hits re b64 raw cfg = [] then Allow
      else severity_to_tier (Max (hit_severity ` set (command_hits re b64 raw cfg))) (cfg_thresholds cfg))"
proof (cases "gate_skips cfg raw")
  case True
  then show ?thesis by (auto simp: evaluate_def gate_skips_def)
next
  case False
  show ?thesis
  proof (cases "command_hits re b64 raw cfg = []")
    case True
    then show ?thesis using False by (simp add: evaluate_hits)
  next
    case ne: False
    then obtain h where h: "foldl consider_hit None (command_hits re b64 raw cfg) = Some h"
      using worst_hit_exists by blast
    then have "hit_severity h = Max (hit_severity ` set (command_hits re b64 raw cfg))"
      using worst_hit [of "command_hits re b64 raw cfg" h] ne by simp
    moreover obtain v where "build_verdict (severity_to_tier (hit_severity h) (cfg_thresholds cfg)) h = Some v"
      "v_tier v = severity_to_tier (hit_severity h) (cfg_thresholds cfg)"
      using build_verdict_tier severity_to_tier_iff(4) by blast
    ultimately show ?thesis using False ne h by (simp add: evaluate_hits)
  qed
qed

text \<open>Property C1: the gate always returns a verdict (its \<^verbatim>\<open>unreachable!\<close> arm is unreachable), and its tier
  is the tier of the greatest severity among all hits of the command (Allow when it has none, or when the
  kill-switch or the allow-list short-circuits): the scan with a running maximum implements the order-free
  specification.\<close>

theorem gate_refines_hits:
  "map_option v_tier (evaluate re b64 raw cfg) = Some
     (if gate_skips cfg raw \<or> command_hits re b64 raw cfg = [] then Allow
      else severity_to_tier (Max (hit_severity ` set (command_hits re b64 raw cfg))) (cfg_thresholds cfg))"
  by (rule gate_tier)

section \<open>What is blocked\<close>

definition gate_blocks :: "regex \<Rightarrow> (string \<Rightarrow> string option) \<Rightarrow> string \<Rightarrow> config \<Rightarrow> bool" where
  "gate_blocks re b64 raw cfg \<longleftrightarrow> (\<exists>v. evaluate re b64 raw cfg = Some v \<and> v_tier v = Block)"

lemma hit_blocks:
  assumes "\<not> gate_skips cfg raw" and "h \<in> set (command_hits re b64 raw cfg)"
    and "block_at (cfg_thresholds cfg) \<le> hit_severity h"
  shows "gate_blocks re b64 raw cfg"
proof -
  have "hit_severity h \<le> Max (hit_severity ` set (command_hits re b64 raw cfg))"
    using assms(2) by simp
  then have "severity_to_tier (Max (hit_severity ` set (command_hits re b64 raw cfg))) (cfg_thresholds cfg) = Block"
    using assms(3) by (simp add: severity_to_tier_iff)
  then have "map_option v_tier (evaluate re b64 raw cfg) = Some Block"
    using gate_tier [of re b64 raw cfg] assms(1,2) by auto
  then show ?thesis by (auto simp: gate_blocks_def)
qed

definition fatal_leg :: "regex \<Rightarrow> config \<Rightarrow> string \<Rightarrow> bool" where
  "fatal_leg re cfg leg \<longleftrightarrow>
     (\<exists>r \<in> set (rules re @ enabled_rules re (packs cfg)).
        rule_matches r (effective_match_text leg) \<and> block_at (cfg_thresholds cfg) \<le> dr_severity r) \<or>
     (\<exists>cb \<in> set (custom_blocks cfg).
        custom_block_matches cb leg \<and> block_at (cfg_thresholds cfg) \<le> cb_severity cb)"

lemma in_concat_map: "x \<in> set xs \<Longrightarrow> h \<in> set (f x) \<Longrightarrow> h \<in> set (concat (map f xs))"
  by auto

lemma severity_of_hits [simp]:
  "hit_severity (rule_hit r leg) = dr_severity r" "hit_severity (custom_hit cb leg) = cb_severity cb"
  by (simp_all add: rule_hit_def custom_hit_def)

lemma leg_hits_rule:
  assumes "r \<in> set (rules re @ enabled_rules re (packs cfg))" and "rule_matches r (effective_match_text leg)"
  shows "rule_hit r leg \<in> set (leg_hits re b64 cfg depth leg)"
  unfolding leg_hits.simps [of re b64 cfg depth leg] set_append set_map set_filter
  using assms unfolding set_append by blast

lemma leg_hits_custom:
  assumes "cb \<in> set (custom_blocks cfg)" and "custom_block_matches cb leg"
  shows "custom_hit cb leg \<in> set (leg_hits re b64 cfg depth leg)"
  unfolding leg_hits.simps [of re b64 cfg depth leg] set_append set_map set_filter using assms by blast

lemma leg_hits_body:
  assumes "depth < MAX_SUBST_DEPTH" and "body \<in> set (live_substitution_bodies leg)"
    and "h \<in> set (body_hits re b64 cfg (depth + 1) body)"
  shows "h \<in> set (leg_hits re b64 cfg depth leg)"
  using in_concat_map [where f = "\<lambda>body. body_hits re b64 cfg (depth + 1) body", OF assms(2,3)] assms(1)
  unfolding leg_hits.simps [of re b64 cfg depth leg] set_append by simp

lemma body_hits_leg:
  assumes "leg \<in> set (split_compound body)" and "\<not> is_non_executing_verb leg"
    and "h \<in> set (leg_hits re b64 cfg depth leg)"
  shows "h \<in> set (body_hits re b64 cfg depth body)"
proof -
  have "h \<in> set (concat (map (\<lambda>leg.
       if is_non_executing_verb leg then
         (if depth < MAX_SUBST_DEPTH
          then concat (map (\<lambda>inner. body_hits re b64 cfg (depth + 1) inner) (live_substitution_bodies leg)) else [])
       else leg_hits re b64 cfg depth leg) (split_compound body)))"
    by (rule in_concat_map [OF assms(1)]) (simp add: assms(2,3))
  then show ?thesis unfolding body_hits.simps [of re b64 cfg depth body] set_append by blast
qed

lemma fatal_leg_hit:
  assumes "fatal_leg re cfg leg"
  shows "\<exists>h \<in> set (leg_hits re b64 cfg depth leg). block_at (cfg_thresholds cfg) \<le> hit_severity h"
  using assms unfolding fatal_leg_def
  by (metis leg_hits_rule leg_hits_custom severity_of_hits)

lemma leg_blocks:
  assumes "\<not> gate_skips cfg raw" and "leg \<in> set (resolved_legs raw cfg)"
    and "h \<in> set (leg_hits re b64 cfg 0 leg)" and "block_at (cfg_thresholds cfg) \<le> hit_severity h"
  shows "gate_blocks re b64 raw cfg"
proof (rule hit_blocks [OF assms(1) _ assms(4)])
  have "h \<in> set (concat (map (\<lambda>leg. leg_hits re b64 cfg 0 leg) (resolved_legs raw cfg)))"
    using assms(2,3) by (rule in_concat_map)
  then show "h \<in> set (command_hits re b64 raw cfg)"
    unfolding command_hits_def Let_def set_append by blast
qed





text \<open>A matcher that knows one phrase, as a concrete instance of the regex parameter.\<close>

definition sample_re :: regex where
  "sample_re p s = (p = rx ''(?i)%brm%b[^|;&%n]*%s-[a-z]*r[a-z]*f|(?i)%brm%b[^|;&%n]*%s-[a-z]*f[a-z]*r'' \<and> contains_str s ''rm -rf'')"

lemma sample_fatal: "effective_match_text leg = leg \<Longrightarrow> sublist ''rm -rf'' leg \<Longrightarrow> fatal_leg sample_re default_config leg"
  unfolding fatal_leg_def
  by (intro disjI1 bexI [of _ "hd (rules sample_re)"])
    (auto simp: rules_def rule_matches_def m_rm_rf_def sample_re_def contains_str_sublist default_config_def
      default_thresholds_def)


text \<open>Fact: no bypass by quoting. When the double-quoted argument of a non-executing verb holds a live
  substitution whose body runs a fatal command, the gate blocks, although the quoted text itself is not
  matched.\<close>

theorem live_substitution_blocked:
  assumes "\<not> gate_skips cfg raw" and "leg \<in> set (resolved_legs raw cfg)"
    and "body \<in> set (live_substitution_bodies leg)" and "inner \<in> set (split_compound body)"
    and "\<not> is_non_executing_verb inner" and "fatal_leg re cfg inner"
  shows "gate_blocks re b64 raw cfg"
proof -
  obtain h where h: "h \<in> set (leg_hits re b64 cfg 1 inner)" "block_at (cfg_thresholds cfg) \<le> hit_severity h"
    using fatal_leg_hit [OF assms(6)] by blast
  have "h \<in> set (leg_hits re b64 cfg 0 leg)"
    using body_hits_leg [OF assms(4,5) h(1)] by (intro leg_hits_body [OF _ assms(3)]) (simp_all add: MAX_SUBST_DEPTH_def)
  then show ?thesis by (rule leg_blocks [OF assms(1,2) _ h(2)])
qed

definition sample_subst :: string where
  "sample_subst = ''echo '' @ [dquote] @ ''hi $(cd /; rm -rf ~)'' @ [dquote]"

theorem live_substitution_blocked_witness:
  "gate_blocks sample_re (\<lambda>_. None) sample_subst (default_config\<lparr>cfg_normalize := False\<rparr>)"
proof (rule live_substitution_blocked)
  let ?cfg = "default_config\<lparr>cfg_normalize := False\<rparr>"
  show "\<not> gate_skips ?cfg sample_subst" by code_simp
  show "sample_subst \<in> set (resolved_legs sample_subst ?cfg)" by code_simp
  show "''cd /; rm -rf ~'' \<in> set (live_substitution_bodies sample_subst)" by code_simp
  show "''rm -rf ~'' \<in> set (split_compound ''cd /; rm -rf ~'')" by code_simp
  show "\<not> is_non_executing_verb ''rm -rf ~''" by code_simp
  have "effective_match_text ''rm -rf ~'' = ''rm -rf ~''" "contains_str ''rm -rf ~'' ''rm -rf''" by code_simp+
  then show "fatal_leg sample_re ?cfg ''rm -rf ~''"
    using sample_fatal [of "''rm -rf ~''"] by (simp add: fatal_leg_def contains_str_sublist)
qed

text \<open>Fact: no bypass by encoding. A command that pipes a payload into a base64 decoder is blocked when a
  leg of the decoded payload is fatal, and so is one whose payload decodes to such a command once more.\<close>

theorem encoded_payload_blocked:
  assumes "\<not> gate_skips cfg raw" and "decode_and_expand b64 (normalized_command raw cfg) 0 = Some decoded"
    and "inner \<in> set (split_compound decoded)"
    and "fatal_leg re cfg inner \<or>
         (\<exists>again nested. decode_and_expand b64 inner 1 = Some again \<and> nested \<in> set (split_compound again) \<and>
            fatal_leg re cfg nested)"
  shows "gate_blocks re b64 raw cfg"
proof -
  have "\<exists>h \<in> set (leg_hits re b64 cfg 1 inner). block_at (cfg_thresholds cfg) \<le> hit_severity h"
    using assms(4)
  proof
    assume "\<exists>again nested. decode_and_expand b64 inner 1 = Some again \<and> nested \<in> set (split_compound again) \<and>
            fatal_leg re cfg nested"
    then obtain again nested h where n: "decode_and_expand b64 inner 1 = Some again" "nested \<in> set (split_compound again)"
      "h \<in> set (leg_hits re b64 cfg (1 + 1) nested)" "block_at (cfg_thresholds cfg) \<le> hit_severity h"
      using fatal_leg_hit by blast
    from n(2,3) have "h \<in> set (concat (map (\<lambda>nested. leg_hits re b64 cfg (1 + 1) nested) (split_compound again)))"
      by (rule in_concat_map)
    then have "h \<in> set (leg_hits re b64 cfg 1 inner)"
      unfolding leg_hits.simps [of re b64 cfg 1 inner] set_append n(1) option.case by blast
    then show ?thesis using n(4) by blast
  qed (rule fatal_leg_hit)
  then obtain h where h: "h \<in> set (leg_hits re b64 cfg 1 inner)" "block_at (cfg_thresholds cfg) \<le> hit_severity h"
    by blast
  from assms(3) h(1) have "h \<in> set (concat (map (\<lambda>inner. leg_hits re b64 cfg 1 inner) (split_compound decoded)))"
    by (rule in_concat_map)
  then have "h \<in> set (command_hits re b64 raw cfg)"
    unfolding command_hits_def Let_def set_append assms(2) option.case by blast
  then show ?thesis by (rule hit_blocks [OF assms(1) _ h(2)])
qed

theorem encoded_payload_blocked_witness:
  "gate_blocks sample_re sample_b64 ''echo cm0gLXJmIH4= | base64 -d | sh'' (default_config\<lparr>cfg_normalize := False\<rparr>)"
proof (rule encoded_payload_blocked)
  let ?cfg = "default_config\<lparr>cfg_normalize := False\<rparr>"
  show "\<not> gate_skips ?cfg ''echo cm0gLXJmIH4= | base64 -d | sh''" by code_simp
  show "decode_and_expand sample_b64 (normalized_command ''echo cm0gLXJmIH4= | base64 -d | sh'' ?cfg) 0 = Some ''rm -rf ~''"
    using sample_decode by (simp add: normalized_command_def)
  show "''rm -rf ~'' \<in> set (split_compound ''rm -rf ~'')" by code_simp
  have "effective_match_text ''rm -rf ~'' = ''rm -rf ~''" "contains_str ''rm -rf ~'' ''rm -rf''" by code_simp+
  then show "fatal_leg sample_re ?cfg ''rm -rf ~'' \<or>
         (\<exists>again nested. decode_and_expand sample_b64 ''rm -rf ~'' 1 = Some again \<and>
            nested \<in> set (split_compound again) \<and> fatal_leg sample_re ?cfg nested)"
    using sample_fatal [of "''rm -rf ~''"] by (simp add: fatal_leg_def contains_str_sublist)
qed

section \<open>Settings the gate does not see\<close>

lemma hits_level:
  "leg_hits re b64 (cfg\<lparr>level := l\<rparr>) depth leg = leg_hits re b64 cfg depth leg"
  "body_hits re b64 (cfg\<lparr>level := l\<rparr>) depth body = body_hits re b64 cfg depth body"
proof (induction re b64 cfg depth leg and re b64 cfg depth body rule: leg_hits_body_hits.induct)
  case (1 re b64 cfg depth leg)
  show ?case
    unfolding leg_hits.simps [of re b64 _ depth leg] using 1
    by (auto simp: cap_hit_def cong: map_cong split: option.split)
next
  case (2 re b64 cfg depth body)
  show ?case
  proof -
    have inner: "map (\<lambda>i. body_hits re b64 (cfg\<lparr>level := l\<rparr>) (depth + 1) i) (live_substitution_bodies leg) =
        map (\<lambda>i. body_hits re b64 cfg (depth + 1) i) (live_substitution_bodies leg)"
      if "leg \<in> set (split_compound body)" "is_non_executing_verb leg" "depth < MAX_SUBST_DEPTH" for leg
      using 2(2) [OF that] by (rule map_cong [OF refl])
    have decoded: "map (\<lambda>i. leg_hits re b64 (cfg\<lparr>level := l\<rparr>) (depth + 1) i) (split_compound d) =
        map (\<lambda>i. leg_hits re b64 cfg (depth + 1) i) (split_compound d)"
      if "depth < MAX_DECODE_DEPTH" "decode_and_expand b64 body depth = Some d" for d
      using 2(1) [OF that] by (rule map_cong [OF refl])
    show ?thesis
      unfolding body_hits.simps [of re b64 _ depth body]
    proof (intro arg_cong2 [where f = append] refl arg_cong [where f = concat] map_cong)
      show "(if depth < MAX_DECODE_DEPTH then case decode_and_expand b64 body depth of None \<Rightarrow> []
             | Some d \<Rightarrow> concat (map (\<lambda>i. leg_hits re b64 (cfg\<lparr>level := l\<rparr>) (depth + 1) i) (split_compound d)) else []) =
          (if depth < MAX_DECODE_DEPTH then case decode_and_expand b64 body depth of None \<Rightarrow> []
             | Some d \<Rightarrow> concat (map (\<lambda>i. leg_hits re b64 cfg (depth + 1) i) (split_compound d)) else [])"
        using decoded by (simp split: option.split del: map_eq_conv)
    qed (use inner 2(3) in \<open>simp del: map_eq_conv\<close>)
  qed
qed

text \<open>Fact: the gate does not use the severity preset. Setting \<open>level\<close> (\<open>strict\<close>, \<open>critical\<close>, any text) changes
  the effective thresholds of the configuration but no verdict of the gate, which reads the base thresholds.\<close>

theorem gate_ignores_level:
  "evaluate re b64 raw (cfg\<lparr>level := l\<rparr>) = evaluate re b64 raw cfg \<and>
   effective_thresholds (cfg\<lparr>level := Some ''strict''\<rparr>) \<noteq> effective_thresholds (cfg\<lparr>level := Some ''critical''\<rparr>)"
proof
  have skips: "gate_skips (cfg\<lparr>level := l\<rparr>) raw = gate_skips cfg raw"
    by (simp add: gate_skips_def is_allowed_def)
  have "ifs_resplit_block re b64 c seps (cfg\<lparr>level := l\<rparr>) = ifs_resplit_block re b64 c seps cfg" for c seps
    by (simp add: ifs_resplit_block_def scan_refines hits_level split: option.split)
  then have hits: "command_hits re b64 raw (cfg\<lparr>level := l\<rparr>) = command_hits re b64 raw cfg"
    unfolding command_hits_def Let_def hits_level normalized_command_def ifs_separators_def resolved_legs_def
    by (simp split: option.split)
  show "evaluate re b64 raw (cfg\<lparr>level := l\<rparr>) = evaluate re b64 raw cfg"
  proof (cases "gate_skips cfg raw")
    case True
    then show ?thesis using skips by (auto simp: evaluate_def gate_skips_def)
  next
    case False
    then show ?thesis using skips hits by (simp add: evaluate_hits split: option.split)
  qed
  show "effective_thresholds (cfg\<lparr>level := Some ''strict''\<rparr>) \<noteq> effective_thresholds (cfg\<lparr>level := Some ''critical''\<rparr>)"
    proof -
    have "level_preset ''strict'' = Some \<lparr>block_at = 7, warn_at = 4\<rparr>"
      "level_preset ''critical'' = Some \<lparr>block_at = 5, warn_at = 2\<rparr>" by code_simp+
    then show ?thesis by (simp add: effective_thresholds_def)
  qed
qed

definition cafe_config :: "string \<Rightarrow> config" where
  "cafe_config pat = default_config\<lparr>cfg_normalize := False,
     custom_blocks := [\<lparr>cb_pattern = pat, cb_severity = 9, cb_category = ''x''\<rparr>]\<rparr>"

text \<open>Fact: a custom block with a non-ASCII letter is lost. The stages before the match push each byte of the
  command as a character of its own, so a configured block \<open>caf\<close> followed by the letter U+00E9 does not match a command
  that contains exactly that text, while its ASCII spelling is blocked.\<close>

theorem non_ascii_custom_block_missed:
  "map_option v_tier (evaluate (\<lambda>p s. False) (\<lambda>p. None) (''rm caf'' @ [CHR 0xC3, CHR 0xA9])
     (cafe_config (''caf'' @ [CHR 0xC3, CHR 0xA9]))) = Some Allow \<and>
   map_option v_tier (evaluate (\<lambda>p s. False) (\<lambda>p. None) ''rm cafe'' (cafe_config ''cafe'')) = Some Block"
  by code_simp

end
