(* ===== verification/Contract.thy ===== *)
theory Contract
  imports Verdicts
begin

text \<open>
  \<^verbatim>\<open>crates/apohara-agentguard/src/hook/contract.rs\<close>: the hook's input accessors and the output it emits
  for a verdict, with the argument lookup of \<^verbatim>\<open>hook/mod.rs\<close> that the hook and the policy engine share.
  JSON parsing and printing are serde's: values are the datatype \<open>json\<close>, printers are parameters.
\<close>

section \<open>JSON values\<close>

datatype json =
    JNull
  | JBool bool
  | JNumber string
  | JString string
  | JArray "json list"
  | JObject "(string \<times> json) list"

definition json_get :: "json \<Rightarrow> string \<Rightarrow> json option" where
  "json_get v key = (case v of JObject kvs \<Rightarrow> map_of kvs key | _ \<Rightarrow> None)"

definition as_str :: "json \<Rightarrow> string option" where
  "as_str v = (case v of JString s \<Rightarrow> Some s | _ \<Rightarrow> None)"

section \<open>Input\<close>

record hook_input =
  hook_event_name :: string
  session_id :: "string option"
  tool_name :: "string option"
  tool_input :: json
  prompt :: "string option"
  tool_response :: json

definition bash_command :: "hook_input \<Rightarrow> string option" where
  "bash_command i = Option.bind (json_get (tool_input i) ''command'') as_str"

definition file_path :: "hook_input \<Rightarrow> string option" where
  "file_path i =
     Option.bind (case json_get (tool_input i) ''file_path'' of
         Some v \<Rightarrow> Some v
       | None \<Rightarrow> json_get (tool_input i) ''path'') as_str"

definition web_url :: "hook_input \<Rightarrow> string option" where
  "web_url i = Option.bind (json_get (tool_input i) ''url'') as_str"

definition web_query :: "hook_input \<Rightarrow> string option" where
  "web_query i = Option.bind (json_get (tool_input i) ''query'') as_str"

definition tool_stdout :: "(json \<Rightarrow> string) \<Rightarrow> hook_input \<Rightarrow> string option" where
  "tool_stdout to_string i = (case tool_response i of
       JNull \<Rightarrow> None
     | JString s \<Rightarrow> Some s
     | v \<Rightarrow> (case Option.bind (json_get v ''stdout'') as_str of
           Some s \<Rightarrow> Some s
         | None \<Rightarrow> (case Option.bind (json_get v ''stderr'') as_str of
               Some s \<Rightarrow> Some s
             | None \<Rightarrow> Some (to_string v))))"

fun lookup_path :: "json \<Rightarrow> string list \<Rightarrow> json option" where
  "lookup_path node [] = Some node"
| "lookup_path node (key # keys) = (case json_get node key of None \<Rightarrow> None | Some v \<Rightarrow> lookup_path v keys)"

definition lookup_arg :: "json \<Rightarrow> string \<Rightarrow> string option" where
  "lookup_arg input arg = Option.bind (lookup_path input (split_on CHR ''.'' arg)) as_str"

section \<open>Output\<close>

definition MAX_CONTEXT_BYTES :: nat where "MAX_CONTEXT_BYTES = 4096"

record hook_output =
  out_event :: string
  permission_decision :: "string option"
  permission_decision_reason :: "string option"
  additional_context :: "string option"

definition cap_reason :: "string \<Rightarrow> string" where
  "cap_reason reason =
     (if length reason \<le> MAX_CONTEXT_BYTES then reason
      else take (floor_boundary reason (MAX_CONTEXT_BYTES - length ellipsis)) reason @ ellipsis)"

definition out_warn :: "string \<Rightarrow> string \<Rightarrow> hook_output" where
  "out_warn event reason = \<lparr>out_event = event, permission_decision = None,
     permission_decision_reason = None, additional_context = Some (cap_reason reason)\<rparr>"

definition session_context :: "string \<Rightarrow> hook_output" where
  "session_context context_text = \<lparr>out_event = ''SessionStart'', permission_decision = None,
     permission_decision_reason = None, additional_context = Some (cap_reason context_text)\<rparr>"

definition out_deny :: "string \<Rightarrow> string \<Rightarrow> hook_output" where
  "out_deny event reason = \<lparr>out_event = event, permission_decision = Some ''deny'',
     permission_decision_reason = Some (cap_reason reason), additional_context = None\<rparr>"

definition out_ask :: "string \<Rightarrow> string \<Rightarrow> hook_output" where
  "out_ask event reason = \<lparr>out_event = event, permission_decision = Some ''ask'',
     permission_decision_reason = Some (cap_reason reason), additional_context = None\<rparr>"

definition is_blocking_event :: "string \<Rightarrow> bool" where
  "is_blocking_event event = (event = ''PreToolUse'')"

definition emit :: "(hook_output \<Rightarrow> 'j) \<Rightarrow> string \<Rightarrow> verdict \<Rightarrow> 'j option \<times> int" where
  "emit to_json event v = (case v_tier v of
       Allow \<Rightarrow> (None, 0)
     | Warn \<Rightarrow> (Some (to_json (out_warn event (v_reason v))), 0)
     | Block \<Rightarrow>
         if is_blocking_event event then (Some (to_json (out_deny event (v_reason v))), 2)
         else (Some (to_json (out_warn event (v_reason v))), 0)
     | Ask \<Rightarrow>
         if is_blocking_event event then (Some (to_json (out_ask event (v_reason v))), 0)
         else (Some (to_json (out_warn event (v_reason v))), 0))"

section \<open>Properties\<close>

lemma utf8_valid_ellipsis [simp]: "utf8_valid ellipsis"
  by code_simp

lemma byte_in_cont: "byte_in lo hi b \<Longrightarrow> 128 \<le> lo \<Longrightarrow> hi < 192 \<Longrightarrow> is_cont b"
  by (simp add: byte_in_def is_cont_def)

text \<open>A valid text begins with one character: a lead byte and continuation bytes.\<close>

lemma utf8_valid_step:
  assumes "utf8_valid s" and "s \<noteq> []"
  shows "\<exists>c rest. s = c @ rest \<and> c \<noteq> [] \<and> list_all is_cont (tl c) \<and> utf8_valid rest \<and>
    (\<forall>t. utf8_valid (c @ t) = utf8_valid t)"
proof -
  obtain b0 r where s: "s = b0 # r" using assms(2) by (cases s) auto
  consider "code b0 < 0x80" | "\<not> code b0 < 0x80" "byte_in 0xC2 0xDF b0"
    | "\<not> code b0 < 0x80" "\<not> byte_in 0xC2 0xDF b0" "byte_in 0xE0 0xEF b0"
    | "\<not> code b0 < 0x80" "\<not> byte_in 0xC2 0xDF b0" "\<not> byte_in 0xE0 0xEF b0" "byte_in 0xF0 0xF4 b0"
    using assms(1) s by (auto split: if_splits)
  then show ?thesis
  proof cases
    case 1
    then show ?thesis using assms(1) s by (intro exI [of _ "[b0]"] exI [of _ r]) simp
  next
    case 2
    then obtain b1 r1 where "r = b1 # r1" using assms(1) s by (auto split: list.splits)
    then show ?thesis using assms(1) s 2 by (intro exI [of _ "[b0, b1]"] exI [of _ r1]) simp
  next
    case 3
    then obtain b1 b2 r2 where "r = b1 # b2 # r2" using assms(1) s by (auto split: list.splits)
    then show ?thesis using assms(1) s 3
      by (intro exI [of _ "[b0, b1, b2]"] exI [of _ r2]) (auto split: if_splits intro: byte_in_cont)
  next
    case 4
    then obtain b1 b2 b3 r3 where "r = b1 # b2 # b3 # r3" using assms(1) s by (auto split: list.splits)
    then show ?thesis using assms(1) s 4
      by (intro exI [of _ "[b0, b1, b2, b3]"] exI [of _ r3]) (auto split: if_splits intro: byte_in_cont)
  qed
qed

lemma utf8_valid_append: "utf8_valid s \<Longrightarrow> utf8_valid t \<Longrightarrow> utf8_valid (s @ t)"
proof (induction "length s" arbitrary: s rule: less_induct)
  case less
  show ?case
  proof (cases "s = []")
    case False
    then obtain c rest where "s = c @ rest" "c \<noteq> []" "utf8_valid rest" "\<forall>t. utf8_valid (c @ t) = utf8_valid t"
      using utf8_valid_step less.prems(1) by blast
    then show ?thesis using less by simp
  qed (use less.prems in simp)
qed

lemma utf8_valid_take:
  "utf8_valid s \<Longrightarrow> is_char_boundary s n \<Longrightarrow> utf8_valid (take n s)"
proof (induction "length s" arbitrary: s n rule: less_induct)
  case less
  show ?case
  proof (cases "s = [] \<or> n = 0 \<or> n \<ge> length s")
    case True
    then show ?thesis using less.prems(1) by auto
  next
    case False
    then obtain c rest where s: "s = c @ rest" "c \<noteq> []" "list_all is_cont (tl c)" "utf8_valid rest"
      "\<forall>t. utf8_valid (c @ t) = utf8_valid t"
      using utf8_valid_step less.prems(1) by blast
    have n: "n < length s" "0 < n" "\<not> is_cont (s ! n)"
      using False less.prems(2) by (auto simp: is_char_boundary_def)
    have "length c \<le> n"
    proof (rule ccontr)
      assume "\<not> length c \<le> n"
      then have "s ! n = tl c ! (n - 1)" "n - 1 < length (tl c)"
        using s(1,2) n(2) by (auto simp: nth_append nth_tl)
      then show False using s(3) n(3) by (simp add: list_all_length)
    qed
    then have "is_char_boundary rest (n - length c)" "take n s = c @ take (n - length c) rest"
      using s(1) n by (auto simp: is_char_boundary_def nth_append)
    then show ?thesis
      using less.hyps [of rest "n - length c"] s by simp
  qed
qed

text \<open>Fact: every free-text field of the output is bounded and well-formed. The capped text is at most
  4096 bytes, is the text itself when that fits, and is valid UTF-8 whenever the text is: the cut never
  falls inside a character.\<close>

theorem cap_reason_wellformed:
  assumes "utf8_valid r"
  shows "length (cap_reason r) \<le> 4096 \<and> utf8_valid (cap_reason r) \<and> (length r \<le> 4096 \<longrightarrow> cap_reason r = r)"
proof -
  have "floor_boundary r (MAX_CONTEXT_BYTES - length ellipsis) \<le> 4093"
    using floor_boundary_le [of r "MAX_CONTEXT_BYTES - length ellipsis"]
    by (simp add: MAX_CONTEXT_BYTES_def ellipsis_def)
  then show ?thesis
    using utf8_valid_append [OF utf8_valid_take [OF assms floor_boundary_boundary] utf8_valid_ellipsis] assms
    by (auto simp: cap_reason_def MAX_CONTEXT_BYTES_def) (simp_all add: ellipsis_def)
qed

theorem cap_reason_wellformed_witness:
  "length (cap_reason (replicate 4092 CHR ''a'' @ [CHR 0xC3, CHR 0xA9] @ replicate 9 CHR ''b'')) \<le> 4096 \<and>
   utf8_valid (cap_reason (replicate 4092 CHR ''a'' @ [CHR 0xC3, CHR 0xA9] @ replicate 9 CHR ''b''))"
proof -
  have ascii: "utf8_valid (replicate n CHR ''a'')" "utf8_valid (replicate n CHR ''b'')" for n
    by (induction n) simp_all
  have "utf8_valid [CHR 0xC3, CHR 0xA9]" by code_simp
  then have "utf8_valid (replicate 4092 CHR ''a'' @ [CHR 0xC3, CHR 0xA9] @ replicate 9 CHR ''b'')"
    using ascii by (intro utf8_valid_append)
  then show ?thesis using cap_reason_wellformed by blast
qed

text \<open>Fact: the verdict on the wire. The process exits with code 2 exactly for a Block on \<^verbatim>\<open>PreToolUse\<close>; nothing
  is printed exactly for Allow; a permission decision (deny for Block, ask for Ask) is only ever emitted on
  \<^verbatim>\<open>PreToolUse\<close>; on every other event a Block or an Ask becomes added context, so it is never lost.\<close>

theorem emit_contract:
  "let (out, exit) = emit (\<lambda>x. x) event v in
     (exit = 2 \<longleftrightarrow> v_tier v = Block \<and> event = ''PreToolUse'') \<and> (exit = 0 \<or> exit = 2) \<and>
     (out = None \<longleftrightarrow> v_tier v = Allow) \<and>
     (Option.bind out permission_decision =
        (if event \<noteq> ''PreToolUse'' then None
         else if v_tier v = Block then Some ''deny'' else if v_tier v = Ask then Some ''ask'' else None)) \<and>
     (Option.bind out additional_context =
        (if v_tier v = Warn \<or> (event \<noteq> ''PreToolUse'' \<and> v_tier v \<in> {Block, Ask})
         then Some (cap_reason (v_reason v)) else None))"
  by (cases "v_tier v") (simp_all add: emit_def is_blocking_event_def out_warn_def out_deny_def out_ask_def)

end
