(* ===== verification/Policy.thy ===== *)
theory Policy
  imports Config Contract
begin

text \<open>
  \<^verbatim>\<open>crates/apohara-agentguard/src/policy/schema.rs\<close> and \<^verbatim>\<open>policy/engine.rs\<close>: the policy file, its loading, and
  the evaluator with its in-memory budget counters. The file system and the TOML parser are parameters. A
  \<^verbatim>\<open>BTreeMap\<close> is a map; the counters' mutex is a flag that says whether it is poisoned.
\<close>

section \<open>Schema\<close>

definition CURRENT_SCHEMA_VERSION :: u32 where "CURRENT_SCHEMA_VERSION = 1"

datatype default_action = ActAllow | ActDeny

record policy_rule =
  pr_arg :: string
  pr_pattern :: string
  pr_severity :: u8
  pr_reason :: string

record tool_spec =
  ts_name :: string
  ts_allow :: "string list"
  ts_deny :: "string list"
  ts_rules :: "policy_rule list"

record tool_budget =
  tb_max_tokens :: "u64 option"
  tb_max_invocations :: "u64 option"

record session_budget =
  sb_max_tokens :: "u64 option"
  sb_max_tool_invocations :: "u64 option"

record budgets =
  bud_session :: session_budget
  bud_per_tool :: "string \<rightharpoonup> tool_budget"

record policy_file =
  schema_version :: u32
  pf_default_action :: default_action
  pf_tools :: "tool_spec list"
  pf_budgets :: budgets

section \<open>The loaded policy\<close>

record session_counters =
  sc_tokens :: u64
  sc_tool_invocations :: u64
  per_tool_tokens :: "string \<rightharpoonup> u64"
  per_tool_invocations :: "string \<rightharpoonup> u64"

definition default_counters :: session_counters where
  "default_counters = \<lparr>sc_tokens = 0, sc_tool_invocations = 0,
     per_tool_tokens = Map.empty, per_tool_invocations = Map.empty\<rparr>"

record policy_set =
  ps_file :: policy_file
  ps_counters :: "string option \<rightharpoonup> session_counters"
  ps_poisoned :: bool

definition default_policy_set :: policy_set where
  "default_policy_set = \<lparr>
     ps_file = \<lparr>schema_version = CURRENT_SCHEMA_VERSION, pf_default_action = ActAllow, pf_tools = [],
       pf_budgets = \<lparr>bud_session = \<lparr>sb_max_tokens = None, sb_max_tool_invocations = None\<rparr>,
                     bud_per_tool = Map.empty\<rparr>\<rparr>,
     ps_counters = Map.empty, ps_poisoned = False\<rparr>"

datatype policy_error = PolLoad string | PolParse string | PolSchemaVersion u32 u32

text \<open>\<open>read_file\<close> is \<^verbatim>\<open>fs::read_to_string\<close>, \<open>toml\<close> is \<^verbatim>\<open>toml::from_str\<close>; \<open>Inl\<close> is their error text.\<close>

definition policy_load :: "(string \<Rightarrow> string + string) \<Rightarrow> (string \<Rightarrow> string + policy_file)
    \<Rightarrow> string option \<Rightarrow> policy_error + policy_set" where
  "policy_load read_file toml path = (case path of
       None \<Rightarrow> Inr default_policy_set
     | Some p \<Rightarrow> (case read_file p of
           Inl e \<Rightarrow> Inl (PolLoad e)
         | Inr body \<Rightarrow> (case toml body of
               Inl e \<Rightarrow> Inl (PolParse e)
             | Inr file \<Rightarrow>
                 if schema_version file \<noteq> CURRENT_SCHEMA_VERSION
                 then Inl (PolSchemaVersion (schema_version file) CURRENT_SCHEMA_VERSION)
                 else Inr \<lparr>ps_file = file, ps_counters = Map.empty, ps_poisoned = False\<rparr>)))"

definition policy_error_text :: "policy_error \<Rightarrow> string" where
  "policy_error_text e = (case e of
       PolLoad d \<Rightarrow> ''policy load error: '' @ d
     | PolParse d \<Rightarrow> ''policy parse error: '' @ d
     | PolSchemaVersion a b \<Rightarrow> ''policy schema_version '' @ show_nat (unat a) @
         '' is not supported (this build supports '' @ show_nat (unat b) @ '')'')"

section \<open>Evaluation\<close>

definition resolve_arg :: "hook_input \<Rightarrow> string \<Rightarrow> string" where
  "resolve_arg i arg =
     (if hook_event_name i = ''UserPromptSubmit'' then
        (if arg = ''prompt'' then (case prompt i of Some p \<Rightarrow> p | None \<Rightarrow> []) else [])
      else (case lookup_arg (tool_input i) arg of Some v \<Rightarrow> v | None \<Rightarrow> []))"

definition tokens_for :: "string \<Rightarrow> u64" where
  "tokens_for s = (let chars = (of_nat (chars_count s) :: u64) in
     max 1 (chars div 4 + (if chars mod 4 > 0 then 1 else 0)))"

definition charge_for :: "hook_input \<Rightarrow> (string \<times> u64) option" where
  "charge_for i =
     (if hook_event_name i = ''PreToolUse'' then
        (case tool_name i of
           Some t \<Rightarrow>
             if t = ''Bash''
             then Some (''Bash'', tokens_for (case bash_command i of Some c \<Rightarrow> c | None \<Rightarrow> []))
             else None
         | None \<Rightarrow> None)
      else if hook_event_name i = ''UserPromptSubmit'' then
        Some (''UserPromptSubmit'', tokens_for (case prompt i of Some p \<Rightarrow> p | None \<Rightarrow> []))
      else None)"

definition max_verdict_local :: "verdict \<Rightarrow> verdict \<Rightarrow> verdict" where
  "max_verdict_local a b = (if rank (v_tier b) > rank (v_tier a) then b else a)"

text \<open>The verdict of one rule, \<open>None\<close> where the loop continues.\<close>

definition rule_candidate :: "hook_input \<Rightarrow> thresholds \<Rightarrow> policy_rule \<Rightarrow> verdict option" where
  "rule_candidate i th r =
     (if \<not> pattern_matches (pr_pattern r) (resolve_arg i (pr_arg r)) then None
      else (case severity_to_tier (pr_severity r) th of
              Allow \<Rightarrow> None
            | Block \<Rightarrow> Some (block (pr_reason r))
            | Warn \<Rightarrow> Some (warn (pr_reason r))
            | Ask \<Rightarrow> Some allow))"

definition rules_step :: "hook_input \<Rightarrow> thresholds \<Rightarrow> verdict option \<Rightarrow> policy_rule \<Rightarrow> verdict option" where
  "rules_step i th best r = (case rule_candidate i th r of
       None \<Rightarrow> best
     | Some candidate \<Rightarrow> Some (case best of
           Some prev \<Rightarrow> max_verdict_local prev candidate
         | None \<Rightarrow> candidate))"

definition evaluate_rules :: "policy_file \<Rightarrow> string \<Rightarrow> hook_input \<Rightarrow> thresholds \<Rightarrow> verdict option" where
  "evaluate_rules file tool i th =
     foldl (\<lambda>best spec. if ts_name spec \<noteq> tool then best else foldl (rules_step i th) best (ts_rules spec))
       None (pf_tools file)"

definition opt0 :: "u64 option \<Rightarrow> u64" where
  "opt0 x = (case x of Some n \<Rightarrow> n | None \<Rightarrow> 0)"

text \<open>The session counters saturate; the per-tool counters use \<open>+=\<close> on \<^verbatim>\<open>u64\<close>, which wraps.\<close>

definition charge :: "session_counters \<Rightarrow> string \<Rightarrow> u64 \<Rightarrow> session_counters" where
  "charge entry tool n = entry\<lparr>
     sc_tokens := saturating_add (sc_tokens entry) n,
     sc_tool_invocations := saturating_add (sc_tool_invocations entry) 1,
     per_tool_tokens := (per_tool_tokens entry)(tool \<mapsto> opt0 (per_tool_tokens entry tool) + n),
     per_tool_invocations := (per_tool_invocations entry)(tool \<mapsto> opt0 (per_tool_invocations entry tool) + 1)\<rparr>"

definition over :: "u64 \<Rightarrow> u64 option \<Rightarrow> bool" where
  "over used cap = (case cap of Some c \<Rightarrow> used > c | None \<Rightarrow> False)"

definition cap_text :: "u64 option \<Rightarrow> string" where
  "cap_text cap = show_nat (unat (opt0 cap))"

definition budget_verdict :: "budgets \<Rightarrow> session_counters \<Rightarrow> string \<Rightarrow> u64 \<Rightarrow> verdict option" where
  "budget_verdict b entry tool n =
     (if over (sc_tokens entry) (sb_max_tokens (bud_session b)) then
        Some (ask (''session token budget exceeded: '' @ cap_text (sb_max_tokens (bud_session b)) @
          '' tokens (charged '' @ show_nat (unat n) @ '' for '' @ tool @ '')''))
      else if over (sc_tool_invocations entry) (sb_max_tool_invocations (bud_session b)) then
        Some (ask (''session invocation budget exceeded: '' @
          cap_text (sb_max_tool_invocations (bud_session b)) @ '' invocations''))
      else (case bud_per_tool b tool of
          None \<Rightarrow> None
        | Some tb \<Rightarrow>
            if over (opt0 (per_tool_tokens entry tool)) (tb_max_tokens tb) then
              Some (ask (''per-tool `'' @ tool @ ''` token budget exceeded: '' @ cap_text (tb_max_tokens tb) @ '' tokens''))
            else if over (opt0 (per_tool_invocations entry tool)) (tb_max_invocations tb) then
              Some (ask (''per-tool `'' @ tool @ ''` invocation budget exceeded: '' @
                cap_text (tb_max_invocations tb) @ '' invocations''))
            else None))"

definition poison_text :: string where
  "poison_text = ''policy budget lock poisoned '' @ [CHR 0xE2, CHR 0x80, CHR 0x94] @ '' fail-closed''"

definition budget_check :: "policy_set \<Rightarrow> hook_input \<Rightarrow> verdict option \<times> policy_set" where
  "budget_check ps i = (case charge_for i of
       None \<Rightarrow> (None, ps)
     | Some (charge_tool, charge_tokens) \<Rightarrow>
         if ps_poisoned ps then (Some (block poison_text), ps)
         else
           (let entry = (case ps_counters ps (session_id i) of Some e \<Rightarrow> e | None \<Rightarrow> default_counters);
                entry = charge entry charge_tool charge_tokens
            in (budget_verdict (pf_budgets (ps_file ps)) entry charge_tool charge_tokens,
                ps\<lparr>ps_counters := (ps_counters ps)(session_id i \<mapsto> entry)\<rparr>)))"

definition has_explicit_allow :: "policy_file \<Rightarrow> string \<Rightarrow> bool" where
  "has_explicit_allow file tool = list_ex (\<lambda>t. ts_name t = tool \<and> ts_allow t \<noteq> []) (pf_tools file)"

definition policy_evaluate :: "policy_set \<Rightarrow> hook_input \<Rightarrow> config \<Rightarrow> verdict \<times> policy_set" where
  "policy_evaluate ps i cfg =
     (let tool = (case tool_name i of Some t \<Rightarrow> t | None \<Rightarrow> []);
          th = effective_thresholds cfg
      in case evaluate_rules (ps_file ps) tool i th of
           Some v \<Rightarrow> (v, ps)
         | None \<Rightarrow>
             if pf_default_action (ps_file ps) = ActDeny \<and> \<not> has_explicit_allow (ps_file ps) tool
             then (block (''policy default-deny: tool `'' @ tool @ ''` is not on the allow list''), ps)
             else (case budget_check ps i of
                 (Some a, ps') \<Rightarrow> (a, ps')
               | (None, ps') \<Rightarrow> (allow, ps')))"

section \<open>Rules: the most severe match wins\<close>

interpretation pol: severity_choice v_tier max_verdict_local
  by unfold_locales (auto simp: max_verdict_local_def less_tier_def less_eq_tier_def)

definition rules_of :: "policy_file \<Rightarrow> string \<Rightarrow> policy_rule list" where
  "rules_of file tool = concat (map ts_rules (filter (\<lambda>s. ts_name s = tool) (pf_tools file)))"

lemma evaluate_rules_flat: "evaluate_rules file tool i th = foldl (rules_step i th) None (rules_of file tool)"
proof -
  have "foldl (\<lambda>best spec. if ts_name spec \<noteq> tool then best else foldl (rules_step i th) best (ts_rules spec)) b specs =
      foldl (rules_step i th) b (concat (map ts_rules (filter (\<lambda>s. ts_name s = tool) specs)))" for b specs
    by (induction specs arbitrary: b) auto
  then show ?thesis by (simp add: evaluate_rules_def rules_of_def)
qed

lemma rules_step_simps [simp]:
  "rules_step i th None r = rule_candidate i th r"
  "rules_step i th (Some v) r =
     Some (case rule_candidate i th r of None \<Rightarrow> v | Some c \<Rightarrow> max_verdict_local v c)"
  by (auto simp: rules_step_def split: option.splits)

lemma rules_step_fold:
  "foldl (rules_step i th) (Some v) rs = Some (foldl max_verdict_local v (List.map_filter (rule_candidate i th) rs))"
  by (induction rs arbitrary: v) (auto simp: List.map_filter_simps split: option.splits)

lemma rules_step_fold_None:
  "foldl (rules_step i th) None rs = (case List.map_filter (rule_candidate i th) rs of
       [] \<Rightarrow> None | c # cs \<Rightarrow> Some (foldl max_verdict_local c cs))"
  by (induction rs) (auto simp: rules_step_fold List.map_filter_simps split: option.splits)

definition firing :: "policy_file \<Rightarrow> string \<Rightarrow> hook_input \<Rightarrow> thresholds \<Rightarrow> policy_rule set" where
  "firing file tool i th = {r \<in> set (rules_of file tool).
     pattern_matches (pr_pattern r) (resolve_arg i (pr_arg r)) \<and> severity_to_tier (pr_severity r) th \<noteq> Allow}"

definition rule_verdict :: "thresholds \<Rightarrow> policy_rule \<Rightarrow> verdict" where
  "rule_verdict th r = (if severity_to_tier (pr_severity r) th = Block then block (pr_reason r) else warn (pr_reason r))"

lemma rule_verdict_fields:
  "v_reason (rule_verdict th r) = pr_reason r"
  "severity_to_tier (pr_severity r) th \<noteq> Allow \<Longrightarrow> v_tier (rule_verdict th r) = severity_to_tier (pr_severity r) th"
  using severity_to_tier_iff(4) [of "pr_severity r" th]
  by (cases "severity_to_tier (pr_severity r) th"; simp add: rule_verdict_def)+

lemma rule_candidate_iff:
  "rule_candidate i th r = Some v \<longleftrightarrow>
     pattern_matches (pr_pattern r) (resolve_arg i (pr_arg r)) \<and> severity_to_tier (pr_severity r) th \<noteq> Allow \<and>
     v = rule_verdict th r"
  using severity_to_tier_iff(4) [of "pr_severity r" th]
  by (cases "severity_to_tier (pr_severity r) th") (auto simp: rule_candidate_def rule_verdict_def)

lemma candidates_firing:
  "set (List.map_filter (rule_candidate i th) (rules_of file tool)) = rule_verdict th ` firing file tool i th"
  by (auto simp: set_map_filter_Some rule_candidate_iff firing_def)

lemma evaluate_rules_None: "evaluate_rules file tool i th = None \<longleftrightarrow> firing file tool i th = {}"
  using candidates_firing [of i th "file" tool]
  by (auto simp: evaluate_rules_flat rules_step_fold_None split: list.splits)

lemma evaluate_rules_Some:
  assumes "evaluate_rules file tool i th = Some v"
  shows "\<exists>r \<in> firing file tool i th. v_reason v = pr_reason r \<and> v_tier v = severity_to_tier (pr_severity r) th \<and>
           (\<forall>r' \<in> firing file tool i th. severity_to_tier (pr_severity r') th \<le> v_tier v)"
proof -
  obtain c cs where cs: "List.map_filter (rule_candidate i th) (rules_of file tool) = c # cs"
    and v: "v = foldl max_verdict_local c cs"
    using assms by (auto simp: evaluate_rules_flat rules_step_fold_None split: list.splits)
  have set: "set (c # cs) = rule_verdict th ` firing file tool i th"
    using candidates_firing [of i th "file" tool] cs by simp
  have tier: "v_tier (rule_verdict th r) = severity_to_tier (pr_severity r) th" if "r \<in> firing file tool i th" for r
    using that rule_verdict_fields(2) by (simp add: firing_def)
  have "v \<in> set (c # cs)" using pol.foldl_pick_mem [of c cs] v by auto
  then obtain r where r: "r \<in> firing file tool i th" "v = rule_verdict th r"
    unfolding set by blast
  have "severity_to_tier (pr_severity r') th \<le> v_tier v" if r': "r' \<in> firing file tool i th" for r'
  proof -
    have "rule_verdict th r' \<in> set (c # cs)" unfolding set using r' by blast
    then have "v_tier (rule_verdict th r') \<le> v_tier v"
      using v pol.foldl_pick_ge_start [of c cs] pol.foldl_pick_ge_mem [of "rule_verdict th r'" cs c] by auto
    then show ?thesis using tier [OF r'] by simp
  qed
  then show ?thesis using r tier [OF r(1)] rule_verdict_fields(1) by (intro bexI [OF _ r(1)]) auto
qed

text \<open>Fact: rules short-circuit and the most severe wins. When some rule for the tool fires (its pattern
  matches its argument and its severity is not in the Allow band), the verdict is that of a firing rule of the
  greatest tier, and the budgets are not charged; when none fires, the rules contribute nothing.\<close>

theorem policy_worst_rule_wins:
  assumes "tool_name i = Some tool" and "th = effective_thresholds cfg"
  shows "(firing (ps_file ps) tool i th \<noteq> {} \<longrightarrow>
           (\<exists>r \<in> firing (ps_file ps) tool i th.
              v_reason (fst (policy_evaluate ps i cfg)) = pr_reason r \<and>
              v_tier (fst (policy_evaluate ps i cfg)) = severity_to_tier (pr_severity r) th \<and>
              (\<forall>r' \<in> firing (ps_file ps) tool i th.
                 severity_to_tier (pr_severity r') th \<le> severity_to_tier (pr_severity r) th)) \<and>
           snd (policy_evaluate ps i cfg) = ps) \<and>
         (firing (ps_file ps) tool i th = {} \<longleftrightarrow> evaluate_rules (ps_file ps) tool i th = None)"
proof (intro conjI impI)
  assume "firing (ps_file ps) tool i th \<noteq> {}"
  then obtain v where v: "evaluate_rules (ps_file ps) tool i th = Some v"
    using evaluate_rules_None by fastforce
  then have pe: "policy_evaluate ps i cfg = (v, ps)"
    using assms by (simp add: policy_evaluate_def)
  show "\<exists>r \<in> firing (ps_file ps) tool i th.
              v_reason (fst (policy_evaluate ps i cfg)) = pr_reason r \<and>
              v_tier (fst (policy_evaluate ps i cfg)) = severity_to_tier (pr_severity r) th \<and>
              (\<forall>r' \<in> firing (ps_file ps) tool i th.
                 severity_to_tier (pr_severity r') th \<le> severity_to_tier (pr_severity r) th)"
    using evaluate_rules_Some [OF v] pe by force
  show "snd (policy_evaluate ps i cfg) = ps" using pe by simp
qed (simp add: evaluate_rules_None)

section \<open>Sample policies\<close>

definition bash_input :: "string \<Rightarrow> hook_input" where
  "bash_input c = \<lparr>hook_event_name = ''PreToolUse'', session_id = Some ''s1'', tool_name = Some ''Bash'',
     tool_input = JObject [(''command'', JString c)], prompt = None, tool_response = JNull\<rparr>"

definition sudo_policy :: "default_action \<Rightarrow> policy_set" where
  "sudo_policy act = default_policy_set\<lparr>ps_file := \<lparr>schema_version = 1, pf_default_action = act,
     pf_tools = [\<lparr>ts_name = ''Bash'', ts_allow = [], ts_deny = [],
       ts_rules = [\<lparr>pr_arg = ''command'', pr_pattern = ''sudo *'', pr_severity = 6, pr_reason = ''sudo command''\<rparr>,
                   \<lparr>pr_arg = ''command'', pr_pattern = ''*rm -rf*'', pr_severity = 8, pr_reason = ''destructive rm''\<rparr>]\<rparr>],
     pf_budgets = pf_budgets (ps_file default_policy_set)\<rparr>\<rparr>"

lemma sudo_firing:
  "firing (ps_file (sudo_policy act)) ''Bash'' (bash_input ''sudo rm -rf /'') default_thresholds =
     set (ts_rules (hd (pf_tools (ps_file (sudo_policy act)))))"
proof -
  have m: "pattern_matches ''sudo *'' ''sudo rm -rf /''" "pattern_matches ''*rm -rf*'' ''sudo rm -rf /''"
    "resolve_arg (bash_input ''sudo rm -rf /'') ''command'' = ''sudo rm -rf /''"
    by code_simp+
  show ?thesis
    by (auto simp: firing_def rules_of_def sudo_policy_def m severity_to_tier_def default_thresholds_def)
qed

theorem policy_worst_rule_wins_witness:
  "v_tier (fst (policy_evaluate (sudo_policy ActAllow) (bash_input ''sudo rm -rf /'') default_config)) = Block \<and>
   snd (policy_evaluate (sudo_policy ActAllow) (bash_input ''sudo rm -rf /'') default_config) = sudo_policy ActAllow"
proof -
  have th: "effective_thresholds default_config = default_thresholds"
    by (simp add: effective_thresholds_def default_config_def)
  have "tool_name (bash_input ''sudo rm -rf /'') = Some ''Bash''" by (simp add: bash_input_def)
  from policy_worst_rule_wins [OF this th [symmetric], of "sudo_policy ActAllow"] show ?thesis
    unfolding sudo_firing
    by (auto simp: sudo_policy_def severity_to_tier_def default_thresholds_def less_eq_tier_def word_le_nat_alt)
qed

section \<open>Default-deny\<close>

text \<open>Fact: default-deny, exactly as evaluated. For a tool that no entry allows, under \<open>default_action = deny\<close>, the
  verdict is the rules' verdict when a rule fires and otherwise a Block that names the tool; in both cases no
  budget is charged.\<close>

theorem default_deny_exact:
  assumes "pf_default_action (ps_file ps) = ActDeny" and "\<not> has_explicit_allow (ps_file ps) tool"
    and "tool_name i = Some tool"
  shows "policy_evaluate ps i cfg =
     (case evaluate_rules (ps_file ps) tool i (effective_thresholds cfg) of
        Some v \<Rightarrow> v
      | None \<Rightarrow> block (''policy default-deny: tool `'' @ tool @ ''` is not on the allow list''), ps)"
  using assms by (simp add: policy_evaluate_def split: option.split)

theorem default_deny_exact_witness:
  "policy_evaluate (sudo_policy ActDeny) (bash_input ''ls'') default_config =
     (block ''policy default-deny: tool `Bash` is not on the allow list'', sudo_policy ActDeny)"
proof -
  have "pattern_matches ''sudo *'' ''ls'' = False" "pattern_matches ''*rm -rf*'' ''ls'' = False"
    "resolve_arg (bash_input ''ls'') ''command'' = ''ls''"
    by code_simp+
  then have "evaluate_rules (ps_file (sudo_policy ActDeny)) ''Bash'' (bash_input ''ls'') (effective_thresholds default_config) = None"
    by (auto simp: evaluate_rules_None firing_def rules_of_def sudo_policy_def)
  then show ?thesis
    using default_deny_exact [of "sudo_policy ActDeny" "''Bash''" "bash_input ''ls''" default_config]
    by (simp add: sudo_policy_def has_explicit_allow_def bash_input_def)
qed

text \<open>Fact: a Warn rule softens default-deny. The schema says a default-deny Block is never softened to a rule's
  Warn, but the rules run first: a tool that is not allowed gets only a Warn when a Warn-band rule matches, where
  the same call without that rule is blocked.\<close>

theorem default_deny_softened:
  "v_tier (fst (policy_evaluate (sudo_policy ActDeny) (bash_input ''sudo ls'') default_config)) = Warn \<and>
   v_tier (fst (policy_evaluate (sudo_policy ActDeny) (bash_input ''ls'') default_config)) = Block"
  by code_simp

section \<open>Budgets\<close>

fun run_policy :: "policy_set \<Rightarrow> config \<Rightarrow> hook_input list \<Rightarrow> policy_set" where
  "run_policy ps cfg [] = ps"
| "run_policy ps cfg (i # is) = run_policy (snd (policy_evaluate ps i cfg)) cfg is"

text \<open>What the inputs of a session have been charged.\<close>

definition charges :: "string option \<Rightarrow> hook_input list \<Rightarrow> nat list" where
  "charges sid is = List.map_filter (\<lambda>i. if session_id i = sid then map_option (unat \<circ> snd) (charge_for i) else None) is"

definition u64_max :: nat where "u64_max = 2 ^ 64 - 1"

definition session_only :: "policy_file \<Rightarrow> bool" where
  "session_only file \<longleftrightarrow> pf_tools file = [] \<and> pf_default_action file = ActAllow \<and> bud_per_tool (pf_budgets file) = Map.empty"

definition counters_of :: "policy_set \<Rightarrow> string option \<Rightarrow> session_counters" where
  "counters_of ps sid = (case ps_counters ps sid of Some e \<Rightarrow> e | None \<Rightarrow> default_counters)"

text \<open>The counters hold the saturated number and sum of the charges of each session.\<close>

definition counts :: "policy_set \<Rightarrow> hook_input list \<Rightarrow> bool" where
  "counts ps is \<longleftrightarrow> (\<forall>sid. unat (sc_tool_invocations (counters_of ps sid)) = min u64_max (length (charges sid is)) \<and>
      unat (sc_tokens (counters_of ps sid)) = min u64_max (sum_list (charges sid is)))"

lemma charges_snoc:
  "charges sid (is @ [i]) = charges sid is @
     (if session_id i = sid then (case charge_for i of Some (t, n) \<Rightarrow> [unat n] | None \<Rightarrow> []) else [])"
  by (auto simp: charges_def List.map_filter_def split: option.splits)

lemma session_only_evaluate:
  "session_only (ps_file ps) \<Longrightarrow> policy_evaluate ps i cfg =
     (case budget_check ps i of (Some a, ps') \<Rightarrow> (a, ps') | (None, ps') \<Rightarrow> (allow, ps'))"
  by (simp add: policy_evaluate_def session_only_def evaluate_rules_def)

lemma saturating_add_min:
  "unat (a :: u64) = min u64_max n \<Longrightarrow> unat (saturating_add a b) = min u64_max (n + unat b)"
  by (simp add: unat_saturating_add u64_max_def)

definition charged_entry :: "policy_set \<Rightarrow> hook_input \<Rightarrow> string \<Rightarrow> u64 \<Rightarrow> session_counters" where
  "charged_entry ps i t n = charge (counters_of ps (session_id i)) t n"

lemma budget_check_charged:
  "charge_for i = Some (t, n) \<Longrightarrow> \<not> ps_poisoned ps \<Longrightarrow> budget_check ps i =
     (budget_verdict (pf_budgets (ps_file ps)) (charged_entry ps i t n) t n,
      ps\<lparr>ps_counters := (ps_counters ps)(session_id i \<mapsto> charged_entry ps i t n)\<rparr>)"
  by (simp add: budget_check_def charged_entry_def counters_of_def Let_def)

lemma budget_check_free: "charge_for i = None \<Longrightarrow> budget_check ps i = (None, ps)"
  by (simp add: budget_check_def)

text \<open>An input is charged to the budgets when no rule fires and it is not denied by default.\<close>

definition reaches_budget :: "policy_file \<Rightarrow> config \<Rightarrow> hook_input \<Rightarrow> bool" where
  "reaches_budget file cfg i \<longleftrightarrow> (let tool = (case tool_name i of Some t \<Rightarrow> t | None \<Rightarrow> [])
     in evaluate_rules file tool i (effective_thresholds cfg) = None \<and> \<not> (pf_default_action file = ActDeny \<and> \<not> has_explicit_allow file tool))"

lemma reaching_evaluate:
  "reaches_budget (ps_file ps) cfg i \<Longrightarrow> policy_evaluate ps i cfg =
     (case budget_check ps i of (Some a, ps') \<Rightarrow> (a, ps') | (None, ps') \<Rightarrow> (allow, ps'))"
  by (auto simp: policy_evaluate_def reaches_budget_def Let_def)

lemma unreaching_evaluate: "\<not> reaches_budget (ps_file ps) cfg i \<Longrightarrow> snd (policy_evaluate ps i cfg) = ps"
  by (auto simp: policy_evaluate_def reaches_budget_def Let_def split: option.split)

lemma session_only_reaches: "session_only file \<Longrightarrow> reaches_budget file cfg i"
  by (simp add: reaches_budget_def session_only_def evaluate_rules_def Let_def)

lemma counts_step:
  assumes "reaches_budget (ps_file ps) cfg i" and "\<not> ps_poisoned ps" and "counts ps is"
  shows "counts (snd (policy_evaluate ps i cfg)) (is @ [i]) \<and>
         ps_file (snd (policy_evaluate ps i cfg)) = ps_file ps \<and> \<not> ps_poisoned (snd (policy_evaluate ps i cfg))"
proof -
  have snd: "snd (policy_evaluate ps i cfg) = snd (budget_check ps i)"
    unfolding reaching_evaluate [OF assms(1)] by (simp split: prod.split option.split)
  show ?thesis
  proof (cases "charge_for i")
    case None
    then show ?thesis using assms by (simp add: snd budget_check_free counts_def charges_snoc)
  next
    case (Some p)
    obtain t n where p: "p = (t, n)" by (cases p)
    let ?ps = "ps\<lparr>ps_counters := (ps_counters ps)(session_id i \<mapsto> charged_entry ps i t n)\<rparr>"
    have c: "counters_of ?ps sid = (if sid = session_id i then charged_entry ps i t n else counters_of ps sid)" for sid
      by (simp add: counters_of_def)
    have old: "unat (sc_tool_invocations (counters_of ps sid)) = min u64_max (length (charges sid is))"
      "unat (sc_tokens (counters_of ps sid)) = min u64_max (sum_list (charges sid is))" for sid
      using assms(3) by (auto simp: counts_def)
    have "counts ?ps (is @ [i])"
      unfolding counts_def c charges_snoc
      using Some p saturating_add_min [OF old(1), of _ 1] saturating_add_min [OF old(2), of _ n] old
      by (simp add: charged_entry_def charge_def)
    then show ?thesis using Some p assms by (simp add: snd budget_check_charged)
  qed
qed

lemma counts_run:
  "\<not> ps_poisoned ps \<Longrightarrow> counts ps js \<Longrightarrow>
   counts (run_policy ps cfg is) (js @ filter (reaches_budget (ps_file ps) cfg) is) \<and> ps_file (run_policy ps cfg is) = ps_file ps \<and>
   \<not> ps_poisoned (run_policy ps cfg is)"
proof (induction "is" arbitrary: ps js)
  case (Cons i "is")
  show ?case
  proof (cases "reaches_budget (ps_file ps) cfg i")
    case True
    then show ?thesis using Cons.prems counts_step [OF True, of js] Cons.IH [of "snd (policy_evaluate ps i cfg)" "js @ [i]"] by simp
  next
    case False
    then show ?thesis using Cons by (simp add: unreaching_evaluate)
  qed
qed simp

definition exceeds :: "nat \<Rightarrow> u64 option \<Rightarrow> bool" where
  "exceeds n cap \<longleftrightarrow> (case cap of None \<Rightarrow> False | Some c \<Rightarrow> unat c < min u64_max n)"

lemma over_exceeds: "unat used = min u64_max n \<Longrightarrow> over used cap = exceeds n cap"
  by (simp add: over_def exceeds_def word_less_nat_alt split: option.split)

definition fresh_policy :: "policy_file \<Rightarrow> policy_set" where
  "fresh_policy file = \<lparr>ps_file = file, ps_counters = Map.empty, ps_poisoned = False\<rparr>"

lemma counts_fresh: "counts (fresh_policy file) []"
  by (simp add: counts_def counters_of_def fresh_policy_def default_counters_def charges_def List.map_filter_def)

text \<open>Property C37: session budgets are exact over any history. With a policy that has no per-tool budgets, after any sequence of inputs of any
  sessions, the next input that no rule and no default denial decides is escalated to Ask exactly when it is charged and the number or
  the token sum of its session's charges, those of earlier inputs decided by a rule or denied left out, this one included and saturated
  at the largest \<^verbatim>\<open>u64\<close>, exceeds the cap; otherwise it is allowed.\<close>

theorem session_budget_exact:
  assumes "bud_per_tool (pf_budgets file) = Map.empty" and "reaches_budget file cfg i"
  shows "v_tier (fst (policy_evaluate (run_policy (fresh_policy file) cfg is) i cfg)) =
     (let counted = charges (session_id i) (filter (reaches_budget file cfg) is @ [i])
      in if charge_for i \<noteq> None \<and>
         (exceeds (sum_list counted) (sb_max_tokens (bud_session (pf_budgets file))) \<or>
          exceeds (length counted) (sb_max_tool_invocations (bud_session (pf_budgets file))))
      then Ask else Allow)"
proof -
  let ?ps = "run_policy (fresh_policy file) cfg is"
  let ?is = "filter (reaches_budget file cfg) is"
  have run: "counts ?ps ?is" "ps_file ?ps = file" "\<not> ps_poisoned ?ps"
    using counts_run [of "fresh_policy file" "[]" cfg "is"] counts_fresh by (simp_all add: fresh_policy_def)
  have re: "reaches_budget (ps_file ?ps) cfg i" using assms(2) run(2) by simp
  have step: "counts (snd (policy_evaluate ?ps i cfg)) (?is @ [i])"
    using counts_step [OF re run(3,1)] by simp
  note ev = reaching_evaluate [OF re]
  show ?thesis
  proof (cases "charge_for i")
    case None
    then show ?thesis by (simp add: ev budget_check_free Let_def)
  next
    case (Some p)
    obtain t n where p: "p = (t, n)" by (cases p)
    have b: "budget_check ?ps i = (budget_verdict (pf_budgets file) (charged_entry ?ps i t n) t n,
        ?ps\<lparr>ps_counters := (ps_counters ?ps)(session_id i \<mapsto> charged_entry ?ps i t n)\<rparr>)"
      using budget_check_charged [of i t n ?ps] Some p run by simp
    then have "counters_of (snd (policy_evaluate ?ps i cfg)) (session_id i) = charged_entry ?ps i t n"
      by (simp add: ev counters_of_def split: option.split)
    then have "unat (sc_tokens (charged_entry ?ps i t n)) = min u64_max (sum_list (charges (session_id i) (?is @ [i])))"
      "unat (sc_tool_invocations (charged_entry ?ps i t n)) = min u64_max (length (charges (session_id i) (?is @ [i])))"
      using step unfolding counts_def by metis+
    then show ?thesis
      using assms(1) Some
      by (simp add: ev b budget_verdict_def over_exceeds Let_def split: option.split)
  qed
qed

definition two_calls :: policy_file where
  "two_calls = (ps_file default_policy_set)\<lparr>pf_budgets :=
     \<lparr>bud_session = \<lparr>sb_max_tokens = None, sb_max_tool_invocations = Some 2\<rparr>, bud_per_tool = Map.empty\<rparr>\<rparr>"

theorem session_budget_exact_witness:
  "v_tier (fst (policy_evaluate (run_policy (fresh_policy two_calls) default_config [bash_input ''a'', bash_input ''b''])
     (bash_input ''c'') default_config)) = Ask"
proof -
  have so: "session_only two_calls" by (simp add: two_calls_def session_only_def default_policy_set_def)
  then have "bud_per_tool (pf_budgets two_calls) = Map.empty" by (simp add: session_only_def)
  from session_budget_exact [OF this session_only_reaches [OF so], of default_config "[bash_input ''a'', bash_input ''b'']" "bash_input ''c''"]
  show ?thesis using session_only_reaches [OF so]
    by (simp add: Let_def charges_def List.map_filter_def charge_for_def bash_input_def exceeds_def two_calls_def u64_max_def)
qed

text \<open>Fact: the token charge is the number of characters divided by four, rounded up and at least one. The
  comments give \<open>max(1, chars / 4)\<close> and two tokens for nine characters; nine characters are charged three.\<close>

theorem tokens_for_rounds_up:
  assumes "chars_count s < 2 ^ 64"
  shows "unat (tokens_for s) = max 1 ((chars_count s + 3) div 4) \<and> tokens_for ''ninechars'' = 3"
proof
  let ?c = "of_nat (chars_count s) :: u64"
  have c: "unat ?c = chars_count s" using assms by (simp add: unat_of_nat take_bit_nat_eq_self)
  have "unat (?c div 4 + (if ?c mod 4 > 0 then 1 else 0)) = (chars_count s + 3) div 4"
  proof -
    have d: "unat (?c div 4) = chars_count s div 4" "unat (?c mod 4) = chars_count s mod 4"
      by (simp_all add: unat_div unat_mod c)
    have small: "chars_count s div 4 + 1 < 2 ^ 64" using assms by simp
    have "unat (?c div 4 + 1) = chars_count s div 4 + 1"
      unfolding unat_word_ariths(1) d(1) using small by simp
    moreover have "(?c mod 4 > 0) = (chars_count s mod 4 > 0)" by (simp only: word_less_nat_alt d unat_0)
    ultimately have "unat (?c div 4 + (if ?c mod 4 > 0 then 1 else 0)) =
        chars_count s div 4 + (if chars_count s mod 4 > 0 then 1 else 0)"
      using d(1) by simp
    also have "\<dots> = (chars_count s + 3) div 4" by presburger
    finally show ?thesis .
  qed
  then show "unat (tokens_for s) = max 1 ((chars_count s + 3) div 4)"
    by (simp add: tokens_for_def Let_def max_def word_le_nat_alt)
  show "tokens_for ''ninechars'' = 3" by code_simp
qed

theorem tokens_for_rounds_up_witness: "unat (tokens_for ''rm -rf /tmp'') = 3"
proof -
  have "chars_count ''rm -rf /tmp'' = 11" by code_simp
  then show ?thesis using tokens_for_rounds_up [of "''rm -rf /tmp''"] by simp
qed

end
