(* ===== verification/Pathguard.thy ===== *)
theory Pathguard
  imports Verdicts
begin

text \<open>
  \<^verbatim>\<open>crates/apohara-agentguard/src/hook/pathguard.rs\<close>: the lexical guard on file paths. The environment is explicit: \<open>home\<close>
  is the result of \<^verbatim>\<open>home_dir\<close>, \<open>win\<close> is \<^verbatim>\<open>cfg!(windows)\<close>. \<^verbatim>\<open>str::to_lowercase\<close> is modelled exactly on ASCII text; its
  Unicode table, for text with other characters, is the parameter \<open>uni\<close>.
\<close>

definition home_dir :: "string option \<Rightarrow> string option \<Rightarrow> string option" where
  "home_dir env_home env_userprofile =
     (case env_home of
        Some s \<Rightarrow> if s \<noteq> [] then Some s else
          (case env_userprofile of Some u \<Rightarrow> if u \<noteq> [] then Some u else None | None \<Rightarrow> None)
      | None \<Rightarrow> (case env_userprofile of Some u \<Rightarrow> if u \<noteq> [] then Some u else None | None \<Rightarrow> None))"

definition to_lowercase :: "(string \<Rightarrow> string) \<Rightarrow> string \<Rightarrow> string" where
  "to_lowercase uni s = (if ascii_str s then to_ascii_lowercase s else uni s)"

definition fold_slashes :: "string \<Rightarrow> string" where
  "fold_slashes s = map (\<lambda>c. if c = backslash then CHR ''/'' else c) s"

definition trim_end_slashes :: "string \<Rightarrow> string" where
  "trim_end_slashes s = rev (dropWhile (\<lambda>c. c = CHR ''/'' \<or> c = backslash) (rev s))"

definition join_home :: "string \<Rightarrow> string \<Rightarrow> string" where
  "join_home home rest = trim_end_slashes home @ ''/'' @ fold_slashes rest"

definition strip_home_token :: "string \<Rightarrow> string \<Rightarrow> string option" where
  "strip_home_token path token = (case strip_prefix token path of
       None \<Rightarrow> None
     | Some rest \<Rightarrow> Some (case strip_prefix ''/'' rest of
           Some r \<Rightarrow> r
         | None \<Rightarrow> (case strip_prefix [backslash] rest of Some r \<Rightarrow> r | None \<Rightarrow> rest)))"

definition home_join :: "string option \<Rightarrow> string \<Rightarrow> string" where
  "home_join home rest = (case home of
       Some h \<Rightarrow> join_home h rest
     | None \<Rightarrow> ''~/'' @ fold_slashes rest)"

definition expand_home :: "string option \<Rightarrow> string \<Rightarrow> string" where
  "expand_home home path =
     (case (case strip_prefix ''~/'' path of Some r \<Rightarrow> Some r | None \<Rightarrow> strip_prefix [CHR ''~'', backslash] path) of
        Some rest \<Rightarrow> home_join home rest
      | None \<Rightarrow>
          if path = ''~'' then (case home of Some h \<Rightarrow> h | None \<Rightarrow> ''~'')
          else (case strip_home_token path ''$HOME'' of
              Some rest \<Rightarrow> home_join home rest
            | None \<Rightarrow> (case strip_home_token path ''%USERPROFILE%'' of
                Some rest \<Rightarrow> home_join home rest
              | None \<Rightarrow> path)))"

definition normalize_path :: "(string \<Rightarrow> string) \<Rightarrow> string option \<Rightarrow> string \<Rightarrow> string" where
  "normalize_path uni home path = to_lowercase uni (fold_slashes (expand_home home path))"

text \<open>\<^verbatim>\<open>Path::file_name\<close>: the last component, if it is a normal one.\<close>

definition path_file_name :: "string \<Rightarrow> string option" where
  "path_file_name p = (case rev (filter (\<lambda>c. c \<noteq> [] \<and> c \<noteq> ''.'') (split_on CHR ''/'' p)) of
       [] \<Rightarrow> None
     | c # _ \<Rightarrow> if c = ''..'' then None else Some c)"

definition file_name :: "string \<Rightarrow> string" where
  "file_name norm = (case path_file_name norm of Some f \<Rightarrow> f | None \<Rightarrow> norm)"

definition contains_dir :: "string \<Rightarrow> string \<Rightarrow> bool" where
  "contains_dir norm segment =
     (contains_str norm segment \<or> prefix (dropWhile (\<lambda>c. c = CHR ''/'') segment) norm)"

definition secret_read_target :: "bool \<Rightarrow> string \<Rightarrow> string option" where
  "secret_read_target win norm =
     (let f = file_name norm in
      if contains_dir norm ''/.ssh/'' then Some ''path under ~/.ssh''
      else if \<not> win \<and> prefix ''/etc/'' norm then Some ''system path under /etc''
      else if f = ''.env'' \<or> prefix ''.env.'' f then Some ''dotenv file''
      else if suffix ''.pem'' f \<or> suffix ''.key'' f then Some ''key material (.pem/.key)''
      else if f = ''id_rsa'' \<or> f = ''id_ed25519'' \<or> f = ''id_dsa'' \<or> f = ''id_ecdsa'' then Some ''ssh private key''
      else if contains_str f ''credentials'' then Some ''credentials file''
      else None)"

definition profiles :: "string list" where
  "profiles = [''.bashrc'', ''.bash_profile'', ''.profile'', ''.zshrc'', ''.zprofile'', ''.zshenv'']"

definition sensitive_write_target :: "bool \<Rightarrow> string \<Rightarrow> string option" where
  "sensitive_write_target win norm =
     (if contains_dir norm ''/.ssh/'' then Some ''path under ~/.ssh''
      else if \<not> win \<and> prefix ''/etc/'' norm then Some ''system path under /etc''
      else if file_name norm \<in> set profiles then Some ''shell profile file''
      else None)"

definition check_path :: "(string \<Rightarrow> string) \<Rightarrow> string option \<Rightarrow> bool \<Rightarrow> string \<Rightarrow> string \<Rightarrow> bool \<Rightarrow> verdict" where
  "check_path uni home win tool path write =
     (let norm = normalize_path uni home path in
      if write then
        (case sensitive_write_target win norm of
           Some reason \<Rightarrow> block (tool @ '' write to sensitive path `'' @ path @ ''` blocked: '' @ reason)
         | None \<Rightarrow> (case secret_read_target win norm of
               Some reason \<Rightarrow> block (tool @ '' write to secret path `'' @ path @ ''` blocked: '' @ reason)
             | None \<Rightarrow> allow))
      else (case secret_read_target win norm of
          Some reason \<Rightarrow> block (tool @ '' of secret path `'' @ path @ ''` blocked: '' @ reason)
        | None \<Rightarrow> allow))"

section \<open>Properties\<close>

text \<open>The names of files that no tool may read, after lowering.\<close>

definition secret_name :: "string \<Rightarrow> bool" where
  "secret_name f \<longleftrightarrow> f = ''.env'' \<or> prefix ''.env.'' f \<or> suffix ''.pem'' f \<or> suffix ''.key'' f \<or>
     f \<in> {''id_rsa'', ''id_ed25519'', ''id_dsa'', ''id_ecdsa''} \<or> contains_str f ''credentials''"

definition separator :: "char \<Rightarrow> bool" where
  "separator c \<longleftrightarrow> c = CHR ''/'' \<or> c = backslash"

lemma fold_slashes_append [simp]: "fold_slashes (a @ b) = fold_slashes a @ fold_slashes b"
  by (simp add: fold_slashes_def)

lemma fold_slashes_plain: "\<forall>c \<in> set f. \<not> separator c \<Longrightarrow> fold_slashes f = f"
  by (induction f) (auto simp: fold_slashes_def separator_def)

lemma fold_slashes_idem [simp]: "fold_slashes (fold_slashes s) = fold_slashes s"
  by (simp add: fold_slashes_def)

lemma split_on_app: "split_on c (a @ c # b) = split_on c a @ split_on c b"
  by (induction a rule: split_on.induct) (auto split: list.splits)

text \<open>Text that ends in the component \<open>f\<close> behind a separator, whatever separator it is.\<close>

definition ends_in :: "string \<Rightarrow> string \<Rightarrow> bool" where
  "ends_in f s \<longleftrightarrow> (\<exists>z sp. separator sp \<and> s = z @ sp # f)"

lemma ends_in_append: "ends_in f s \<Longrightarrow> ends_in f (x @ s)"
  unfolding ends_in_def by (metis append.assoc)

lemma fold_slashes_ends:
  assumes "\<forall>c \<in> set f. \<not> separator c" and "ends_in f s"
  shows "\<exists>z. fold_slashes s = z @ ''/'' @ f"
proof -
  obtain z sp where z: "separator sp" "s = z @ sp # f" using assms(2) by (auto simp: ends_in_def)
  then have "fold_slashes s = fold_slashes z @ ''/'' @ fold_slashes f"
    by (auto simp: fold_slashes_def separator_def)
  then show ?thesis using fold_slashes_plain [OF assms(1)] by auto
qed

lemma ends_in_slash: "ends_in f (z @ ''/'' @ f)"
  by (auto simp: ends_in_def separator_def)

lemma home_join_ends:
  assumes "\<forall>c \<in> set f. \<not> separator c" and "rest = f \<or> ends_in f rest"
  shows "ends_in f (home_join home rest)"
proof -
  have "\<exists>z. ''/'' @ fold_slashes rest = z @ ''/'' @ f"
    using assms(2)
  proof
    assume "rest = f"
    then show ?thesis using fold_slashes_plain [OF assms(1)] by (intro exI [of _ "[]"]) simp
  next
    assume "ends_in f rest"
    then obtain z where "fold_slashes rest = z @ ''/'' @ f" using fold_slashes_ends assms(1) by blast
    then show ?thesis by (intro exI [of _ "''/'' @ z"]) simp
  qed
  then obtain z where "''/'' @ fold_slashes rest = z @ ''/'' @ f" by blast
  then have "ends_in f (x @ ''/'' @ fold_slashes rest)" for x
    using ends_in_append [OF ends_in_slash, of f x z] by simp
  from this [of "''~''"] this show ?thesis
    by (simp add: home_join_def join_home_def split: option.split)
qed

lemma strip_keeps_end:
  assumes "ends_in f (x @ rest)" and "\<forall>c \<in> set x. \<not> separator c"
  shows "ends_in f rest"
proof -
  obtain z sp where z: "separator sp" "x @ rest = z @ sp # f" using assms(1) by (auto simp: ends_in_def)
  have "length x \<le> length z"
  proof (rule ccontr)
    assume "\<not> length x \<le> length z"
    then have "x ! length z = sp" using z(2) by (metis linorder_not_le nth_append nth_append_length)
    then show False using \<open>\<not> length x \<le> length z\<close> assms(2) z(1) by (metis linorder_not_le nth_mem)
  qed
  then have "rest = drop (length x) z @ sp # f" using z(2)
    by (metis append_eq_conv_conj drop_append diff_is_0_eq drop0)
  then show ?thesis using z(1) by (auto simp: ends_in_def)
qed

lemma strip_one_end:
  assumes "ends_in f (c # r)" and "f \<noteq> []"
  shows "r = f \<or> ends_in f r"
  using assms by (auto simp: ends_in_def Cons_eq_append_conv)

lemma strip_home_token_ends:
  assumes "strip_home_token path token = Some rest" and "ends_in f path" and "f \<noteq> []"
    and "\<forall>c \<in> set token. \<not> separator c"
  shows "rest = f \<or> ends_in f rest"
proof -
  obtain r0 where r0: "path = token @ r0" using assms(1)
    by (auto simp: strip_home_token_def strip_prefix_Some split: option.splits)
  have e: "ends_in f r0" using strip_keeps_end assms(2,4) r0 by blast
  show ?thesis
  proof (cases "rest = r0")
    case False
    then obtain c where "r0 = c # rest"
      using assms(1) r0 by (auto simp: strip_home_token_def strip_prefix_Some split: option.splits)
    then show ?thesis using strip_one_end e assms(3) by blast
  qed (use e in simp)
qed

lemma expand_home_cases:
  "expand_home home path = path \<or> path = ''~'' \<or>
   (\<exists>rest. expand_home home path = home_join home rest \<and>
      ((\<exists>c. separator c \<and> path = CHR ''~'' # c # rest) \<or>
       strip_home_token path ''$HOME'' = Some rest \<or> strip_home_token path ''%USERPROFILE%'' = Some rest))"
proof (cases "strip_prefix ''~/'' path")
  case (Some r)
  then have "path = CHR ''~'' # CHR ''/'' # r" by (simp add: strip_prefix_Some)
  then show ?thesis using Some by (auto simp: expand_home_def separator_def)
next
  case None
  show ?thesis
  proof (cases "strip_prefix [CHR ''~'', backslash] path")
    case (Some r)
    then have "path = CHR ''~'' # backslash # r" by (simp add: strip_prefix_Some)
    then show ?thesis using None Some by (auto simp: expand_home_def separator_def)
  next
    case none: None
    show ?thesis
      by (cases "strip_home_token path ''$HOME''"; cases "strip_home_token path ''%USERPROFILE%''")
        (auto simp: expand_home_def None none)
  qed
qed

lemma expand_home_ends:
  assumes "ends_in f path" and "f \<noteq> []" and "\<forall>c \<in> set f. \<not> separator c"
  shows "ends_in f (expand_home home path)"
proof -
  have tilde: "rest = f \<or> ends_in f rest" if "path = CHR ''~'' # c # rest" "separator c" for c rest
  proof -
    have "ends_in f (c # rest)"
      using strip_keeps_end [of f "''~''" "c # rest"] assms(1) that by (auto simp: separator_def)
    then show ?thesis using strip_one_end assms(2) by blast
  qed
  have tok: "\<forall>c \<in> set ''$HOME''. \<not> separator c" "\<forall>c \<in> set ''%USERPROFILE%''. \<not> separator c"
    by (simp_all add: separator_def)
  have "1 < length path" using assms(1,2) by (cases f) (auto simp: ends_in_def)
  then have "path \<noteq> ''~''" by auto
  have "rest = f \<or> ends_in f rest"
    if "(\<exists>c. separator c \<and> path = CHR ''~'' # c # rest) \<or>
        strip_home_token path ''$HOME'' = Some rest \<or> strip_home_token path ''%USERPROFILE%'' = Some rest" for rest
    using that tilde strip_home_token_ends [OF _ assms(1,2) tok(1)] strip_home_token_ends [OF _ assms(1,2) tok(2)]
    by blast
  then show ?thesis
    using expand_home_cases [of home path] \<open>path \<noteq> ''~''\<close> assms(1) home_join_ends [OF assms(3)] by metis
qed

lemma file_name_end:
  assumes "f \<notin> {[], ''.'', ''..''}" and "CHR ''/'' \<notin> set f"
  shows "file_name (z @ ''/'' @ f) = f"
  using assms split_on_app [of "CHR ''/''" z f] split_on_id [of "CHR ''/''" f]
  by (simp add: file_name_def path_file_name_def)

lemma lower_byte:
  "to_ascii_lower c = CHR ''/'' \<longleftrightarrow> c = CHR ''/''" "to_ascii_lower c = CHR ''.'' \<longleftrightarrow> c = CHR ''.''"
proof -
  have "code (to_ascii_lower c) = (if 65 \<le> code c \<and> code c \<le> 90 then code c + 32 else code c)"
    by (simp add: to_ascii_lower_def code_char_of_small)
  then show "to_ascii_lower c = CHR ''/'' \<longleftrightarrow> c = CHR ''/''" "to_ascii_lower c = CHR ''.'' \<longleftrightarrow> c = CHR ''.''"
    by (auto simp: of_char_eq_iff [symmetric, where ?'a = nat] split: if_splits)
qed

lemma lower_slash: "CHR ''/'' \<in> set (to_ascii_lowercase f) \<Longrightarrow> CHR ''/'' \<in> set f"
  by (induction f) (auto simp: to_ascii_lowercase_def lower_byte eq_commute [of "CHR ''/''"])

lemma lower_dots:
  "to_ascii_lowercase f = [] \<longleftrightarrow> f = []"
  "to_ascii_lowercase f = ''.'' \<longleftrightarrow> f = ''.''" "to_ascii_lowercase f = ''..'' \<longleftrightarrow> f = ''..''"
  by (cases f; cases "tl f"; simp add: to_ascii_lowercase_def lower_byte)+

text \<open>Fact: a secret file is guarded wherever it lies and however its path is spelled. Reading or writing a file
  whose lowered name is a secret one is blocked for every directory before it, with either separator, through \<open>~\<close>,
  \<^verbatim>\<open>$HOME\<close> or \<^verbatim>\<open>%USERPROFILE%\<close>, on every platform and whatever the home directory is.\<close>

theorem secret_file_guarded:
  assumes "separator sp" and "\<forall>c \<in> set f. \<not> separator c" and "f \<notin> {[], ''.'', ''..''}"
    and "ascii_str (expand_home home (dir @ sp # f))" and "secret_name (to_ascii_lowercase f)"
  shows "v_tier (check_path uni home win tool (dir @ sp # f) write) = Block"
proof -
  have "ends_in f (dir @ sp # f)" using assms(1) by (auto simp: ends_in_def)
  then have "ends_in f (expand_home home (dir @ sp # f))" using expand_home_ends assms(2,3) by auto
  then obtain z where z: "fold_slashes (expand_home home (dir @ sp # f)) = z @ ''/'' @ f"
    using fold_slashes_ends assms(2) by blast
  have "ascii_str (fold_slashes (expand_home home (dir @ sp # f)))"
    using assms(4) by (auto simp: ascii_str_def fold_slashes_def list_all_iff)
  then have n: "normalize_path uni home (dir @ sp # f) = to_ascii_lowercase z @ ''/'' @ to_ascii_lowercase f"
    unfolding normalize_path_def to_lowercase_def z
    by (simp add: to_ascii_lowercase_def to_ascii_lower_def)
  have "to_ascii_lowercase f \<notin> {[], ''.'', ''..''}" "CHR ''/'' \<notin> set (to_ascii_lowercase f)"
    using assms(2,3) lower_slash by (auto simp: lower_dots separator_def)
  then have "file_name (normalize_path uni home (dir @ sp # f)) = to_ascii_lowercase f"
    unfolding n by (rule file_name_end)
  then have "secret_read_target win (normalize_path uni home (dir @ sp # f)) \<noteq> None"
    using assms(5) by (auto simp: secret_read_target_def secret_name_def Let_def)
  then show ?thesis by (auto simp: check_path_def Let_def split: option.split)
qed

theorem secret_file_guarded_witness:
  "v_tier (check_path (\<lambda>s. s) (Some ''/home/u/'') False ''Read'' (''%USERPROFILE%'' @ backslash # ''Server.PEM'') False) = Block"
  by (rule secret_file_guarded) (code_simp)+

text \<open>Fact: the \<^verbatim>\<open>/etc\<close> guard is only a textual prefix. A path with a doubled slash, a dot component or a parent
  component names a file under \<^verbatim>\<open>/etc\<close> and is allowed, for reading and for writing, although the direct spelling is
  blocked.\<close>

theorem etc_guard_bypassed:
  "v_tier (check_path uni (Some ''/home/u'') False ''Read'' ''/etc/shadow'' w) = Block \<and>
   v_tier (check_path uni (Some ''/home/u'') False ''Read'' ''//etc/shadow'' w) = Allow \<and>
   v_tier (check_path uni (Some ''/home/u'') False ''Read'' ''/./etc/shadow'' w) = Allow \<and>
   v_tier (check_path uni (Some ''/home/u'') False ''Read'' ''/tmp/../etc/shadow'' w) = Allow"
  by (cases w; simp only:; code_simp)

end
