(* ===== verification/FirewallRules.thy ===== *)
theory FirewallRules
  imports Verdicts
begin

text \<open>
  The rule tables of the input firewall: \<^verbatim>\<open>crates/apohara-agentguard/src/firewall/djl.rs\<close> (78 rules, severity
  1 to 10, by category) and \<^verbatim>\<open>firewall/owasp.rs\<close> (24 default-deny patterns). The fields that only document a rule
  (\<^verbatim>\<open>description\<close>, \<^verbatim>\<open>refs\<close>, \<^verbatim>\<open>rationale\<close>, \<^verbatim>\<open>fp_risk\<close>) are read by no operation and are left out. In a pattern
  literal \<open>~\<close> stands for the backslash and \<open>#\<close> for the single quote, which \<open>rt\<close> puts back (no pattern contains either
  sign itself); bytes of non-ASCII characters are given by number.
\<close>

definition rt :: "string \<Rightarrow> string" where
  "rt p = map (\<lambda>c. if c = CHR ''~'' then backslash else if c = CHR ''#'' then squote else c) p"

record djl_rule =
  djl_id :: string
  djl_regex :: "string option"
  djl_category :: string
  djl_severity :: u8
  djl_two_stage :: bool

record owasp_pattern =
  ow_name :: string
  ow_category :: string
  ow_regex :: string

definition djl :: "string \<Rightarrow> string option \<Rightarrow> string \<Rightarrow> u8 \<Rightarrow> bool \<Rightarrow> djl_rule" where
  "djl i r c s t = \<lparr>djl_id = i, djl_regex = r, djl_category = c, djl_severity = s, djl_two_stage = t\<rparr>"

definition owasp :: "string \<Rightarrow> string \<Rightarrow> string \<Rightarrow> owasp_pattern" where
  "owasp n c r = \<lparr>ow_name = n, ow_category = c, ow_regex = r\<rparr>"

definition djl_pi_1 :: "djl_rule list" where
  "djl_pi_1 = [
     djl ''DJL-PI-001'' (Some (rt ''(?i)ignore~s+(?:all~s+)?(?:previous|prior|above)~s+instructions?''))
       ''prompt_injection'' 9 False,
     djl ''DJL-PI-002'' (Some (rt ''(?i)disregard~s+(?:the~s+)?(?:system~s+)?(?:prompt|message|instructions?)''))
       ''prompt_injection'' 9 False,
     djl ''DJL-PI-003'' (Some (rt ''(?i)you~s+are~s+now~s+(?:a~s+)?(?:DAN|jailbroken|unrestricted|free|uncensored)''))
       ''prompt_injection'' 9 False,
     djl ''DJL-PI-004'' (Some (rt ''(?i)~b(?:developer|dev|debug|admin|root|god|sudo)~s+mode~b''))
       ''prompt_injection'' 8 False,
     djl ''DJL-PI-005'' (Some (rt ''(?i)~bDAN~b(?:~s+mode|~s+prompt|~s+jailbreak)?''))
       ''prompt_injection'' 8 False,
     djl ''DJL-PI-006'' (Some (rt ''(?i)~bjailbreak~b''))
       ''prompt_injection'' 8 False,
     djl ''DJL-PI-007'' (Some (rt ''(?i)pretend~s+(?:you~s+(?:are|have~s+no)|to~s+be)~s+(?:a~s+)?(?:hacker|criminal|villain|evil|no~s+restrictions?)''))
       ''prompt_injection'' 7 False,
     djl ''DJL-PI-008'' (Some (rt ''(?i)act~s+as~s+(?:if~s+)?(?:you~s+(?:are|have)~s+)?(?:no~s+(?:restrictions?|safety|guardrails?|ethics?)|unrestricted|uncensored)''))
       ''prompt_injection'' 8 False,
     djl ''DJL-PI-009'' (Some (rt ''~b(?:[A-Za-z0-9+/]{80,}={0,2})~b''))
       ''prompt_injection'' 7 False,
     djl ''DJL-PI-010'' (Some (rt ''['' @ [CHR 0xD0, CHR 0x80] @ rt ''-'' @ [CHR 0xD3, CHR 0xBF, CHR 0xCD, CHR 0xB0] @ rt ''-'' @ [CHR 0xCF, CHR 0xBF] @ rt '']{3,}''))
       ''prompt_injection'' 6 False]"

definition djl_pi_2 :: "djl_rule list" where
  "djl_pi_2 = [
     djl ''DJL-PI-011'' (Some (rt ''[~u{202A}-~u{202E}~u{2066}-~u{2069}]''))
       ''prompt_injection'' 9 False,
     djl ''DJL-PI-012'' (Some (rt ''(?i)new~s+(?:rules?|instructions?|directives?|guidelines?)~s*[:~-]''))
       ''prompt_injection'' 7 False,
     djl ''DJL-PI-013'' (Some (rt ''(?i)(?:reveal|show|print|output|reproduce|repeat).{0,40}(?:system~s+prompt|initial~s+instructions?|hidden~s+(?:prompt|message|instructions?))''))
       ''prompt_injection'' 9 False,
     djl ''DJL-PI-014'' (Some (rt ''(?i)(?:end|terminate|exit|close|finish)~s+(?:of~s+)?(?:system~s+)?(?:prompt|instructions?|context|message)~s*[~.~!~,]''))
       ''prompt_injection'' 7 False,
     djl ''DJL-PI-015'' (Some (rt ''(?i)(?:assistant|model|ai|llm|chatgpt|gemini|claude)~s*[,:~-]~s*(?:please~s+)?(?:do|execute|run|forget|ignore)''))
       ''prompt_injection'' 7 False,
     djl ''DJL-PI-016'' (Some (rt ''(?i)<~s*[/|]?~s*(?:system|user|assistant|im_start|im_end|im_sep)~b[^>]*>''))
       ''prompt_injection'' 8 False,
     djl ''DJL-PI-017'' (Some (rt ''(?i)~b(?:i~s+am|i#?m)~s+(?:the~s+)?(?:developer|creator|owner|admin|administrator|openai|anthropic|google)~b''))
       ''prompt_injection'' 7 False,
     djl ''DJL-PI-018'' (Some (rt ''(?i)~brot[~-~s]?13~b|~bbase64[~s~-]?decode~b|~bdecode~s+(?:and|then)~s+(?:execute|run|follow)~b''))
       ''prompt_injection'' 8 False,
     djl ''DJL-PI-019'' (Some (rt ''(?i)this~s+is~s+(?:a~s+)?(?:test|simulation|hypothetical|fictional)~s+(?:scenario|exercise|environment)''))
       ''prompt_injection'' 6 False,
     djl ''DJL-PI-020'' (Some (rt ''(?i)forget~s+(?:everything|all)~s+(?:above|before|prior|previously)''))
       ''prompt_injection'' 9 False]"

definition djl_sqli :: "djl_rule list" where
  "djl_sqli = [
     djl ''DJL-SQLI-001'' (Some (rt ''(?i)#~s*OR~s+1~s*=~s*1''))
       ''sqli'' 9 False,
     djl ''DJL-SQLI-002'' (Some (rt ''(?i);~s*DROP~s+TABLE~b''))
       ''sqli'' 10 False,
     djl ''DJL-SQLI-003'' (Some (rt ''(?i)(?:[#`)~s~d]|^)UNION~s+(?:ALL~s+)?SELECT~s+(?:[*~w`,~s]+~s+)?FROM~b|[#`)~d]~s*UNION~s+(?:ALL~s+)?SELECT~b''))
       ''sqli'' 9 False,
     djl ''DJL-SQLI-004'' (Some (rt ''(?i)#~s*OR~s*#?x#?~s*=~s*#?x#?''))
       ''sqli'' 9 False,
     djl ''DJL-SQLI-005'' (Some (rt ''(?i)admin#~s*--''))
       ''sqli'' 9 False,
     djl ''DJL-SQLI-006'' (Some (rt ''(?i)WAITFOR~s+DELAY~s+#~d|BENCHMARK~s*~(|SLEEP~s*~(~s*~d''))
       ''sqli'' 9 False]"

definition djl_xss :: "djl_rule list" where
  "djl_xss = [
     djl ''DJL-XSS-001'' (Some (rt ''(?i)<~s*script~b[^>]*>''))
       ''xss'' 8 False,
     djl ''DJL-XSS-002'' (Some (rt ''(?i)javascript~s*:''))
       ''xss'' 8 False,
     djl ''DJL-XSS-003'' (Some (rt ''(?i)~bon(?:error|load|click|mouseover|focus|blur|change|submit|keypress)~s*=''))
       ''xss'' 8 False,
     djl ''DJL-XSS-004'' (Some (rt ''(?i)<~s*iframe~b[^>]*~bsrc~s*=''))
       ''xss'' 7 False,
     djl ''DJL-XSS-005'' (Some (rt ''(?i)<~s*img~b[^>]*~bonerror~s*=''))
       ''xss'' 8 False,
     djl ''DJL-XSS-006'' (Some (rt ''(?i)data~s*:~s*text/html|data~s*:~s*application/x-javascript''))
       ''xss'' 8 False]"

definition djl_pii :: "djl_rule list" where
  "djl_pii = [
     djl ''DJL-PII-001'' None
       ''pii'' 8 True,
     djl ''DJL-PII-002'' (Some (rt ''~b(?:~d[ ~-]?){12,18}~d~b''))
       ''pii'' 7 False,
     djl ''DJL-PII-003'' (Some (rt ''~b[A-Z]{2}~d{2}[A-Z0-9]{10,30}~b''))
       ''pii'' 7 False,
     djl ''DJL-PII-004'' (Some (rt ''~b[A-Z]~d{8}~b''))
       ''pii'' 6 False,
     djl ''DJL-PII-005'' (Some (rt ''~+~d{1,3}[~s~-]?~(?~d{1,4}~)?[~s~-]?~d{3,4}[~s~-]?~d{3,4}''))
       ''pii'' 5 False,
     djl ''DJL-PII-006'' (Some (rt ''~b[A-Za-z0-9._%+~-]+@[A-Za-z0-9.~-]+~.[A-Za-z]{2,}~b''))
       ''pii'' 4 False,
     djl ''DJL-PII-007'' (Some (rt ''~b[A-CEGHJ-PR-TW-Z]{2}~d{6}[A-D]~b''))
       ''pii'' 7 False,
     djl ''DJL-PII-008'' None
       ''pii'' 6 True,
     djl ''DJL-PII-009'' (Some (rt ''~b(?:0?[1-9]|1[0-2])[~/~-](?:0?[1-9]|[12]~d|3[01])[~/~-](?:19|20)~d{2}~b''))
       ''pii'' 4 False,
     djl ''DJL-PII-010'' (Some (rt ''~b(?:(?:25[0-5]|2[0-4]~d|[01]?~d~d?)~.){3}(?:25[0-5]|2[0-4]~d|[01]?~d~d?)~b''))
       ''pii'' 4 False]"

definition djl_exf :: "djl_rule list" where
  "djl_exf = [
     djl ''DJL-EXF-001'' (Some (rt ''(?i)~bdump~b[^~n]{0,40}~b(?:database|db|table|schema)~b''))
       ''exfiltration'' 9 False,
     djl ''DJL-EXF-002'' (Some (rt ''(?i)~bexport~s+(?:all~s+|every~s+)?(?:users?|customers?|records?|rows?|emails?|accounts?)~b''))
       ''exfiltration'' 8 False,
     djl ''DJL-EXF-003'' (Some (rt ''(?i)~blist~s+every~s+(?:record|user|customer|account|file|secret|credential|api[~s~-]?key)~b''))
       ''exfiltration'' 8 False,
     djl ''DJL-EXF-004'' (Some (rt ''(?i)~b(?:send|post|forward|upload|exfiltrate|transmit)~s+(?:this~s+|that~s+|the~s+|all~s+)?(?:data|results?|output|content|info(?:rmation)?)~s+(?:to~s+)?(?:https?://|ftp://|webhook|external|endpoint)''))
       ''exfiltration'' 9 False,
     djl ''DJL-EXF-005'' (Some (rt ''(?i)~b(?:curl|wget|nc|netcat|ncat|fetch|httpie)~b[^~n]{0,80}~bhttps?://[A-Za-z0-9.~-]+''))
       ''exfiltration'' 8 False]"

definition djl_mis :: "djl_rule list" where
  "djl_mis = [
     djl ''DJL-MIS-001'' (Some (rt ''(?i)~brm~s+(?:-[a-zA-Z]+~s+)*-[a-zA-Z]*r[a-zA-Z]*f|~brm~s+-rf~b''))
       ''tool_misuse'' 10 False,
     djl ''DJL-MIS-002'' (Some (rt ''(?i)~bdelete~s+all~s+(?:files?|records?|users?|accounts?|data|backups?)~b''))
       ''tool_misuse'' 10 False,
     djl ''DJL-MIS-003'' (Some (rt ''(?i)(?:transfer|wire|send|pay|remit)~b[^~n]{0,40}(?:~$|'' @ [CHR 0xE2, CHR 0x82, CHR 0xAC] @ rt ''|'' @ [CHR 0xC2, CHR 0xA3] @ rt ''|'' @ [CHR 0xC2, CHR 0xA5] @ rt ''|USD|EUR|GBP|JPY)~s*(?:~d{1,3}(?:[,~.]?~d{3}){1,}|[1-9]~d{4,})''))
       ''tool_misuse'' 9 False,
     djl ''DJL-MIS-004'' (Some (rt ''(?i)~b(?:auto|automatically|silently|without~s+(?:review|approval|confirmation))~s+(?:merge|approve|deploy|push)~b''))
       ''tool_misuse'' 8 False,
     djl ''DJL-MIS-005'' (Some (rt ''(?i)(?:~bsyscall~b|~bkernel~s+call~b|/dev/(?:mem|kmem|sda|raw~d*)|~bioctl~b|~bmmap~s*~([^)]*PROT_EXEC)''))
       ''tool_misuse'' 9 False,
     djl ''DJL-MIS-006'' (Some (rt ''~b(?:sudo|su~s+(?:-~s+)?root|setuid|chmod~s+(?:[+u]?s|4[0-7]{3})|setcap)~b''))
       ''tool_misuse'' 8 False,
     djl ''DJL-MIS-007'' (Some (rt '':~s*~(~s*~)~s*~{[^}]*:~s*~|~s*:[^}]*~}~s*;~s*:''))
       ''tool_misuse'' 10 False,
     djl ''DJL-MIS-008'' (Some (rt ''(?i)~b(?:bash~s+-i~s+>&~s*/dev/tcp|nc~s+(?:-[a-z]+~s+)?-e~s+/bin/(?:bash|sh)|/bin/(?:bash|sh)~s+-i~b)''))
       ''tool_misuse'' 10 False,
     djl ''DJL-MIS-009'' (Some (rt ''(?i)~b(?:disable|turn~s+off|stop|kill|uninstall)~s+(?:the~s+)?(?:firewall|antivirus|edr|siem|monitoring|logging|audit)~b''))
       ''tool_misuse'' 9 False,
     djl ''DJL-MIS-010'' (Some (rt ''(?i)~b(?:eval|exec|system|popen|subprocess~.(?:call|Popen|run))~s*~([^)]*(?:user|input|prompt|request|param)''))
       ''tool_misuse'' 9 False]"

definition djl_pol :: "djl_rule list" where
  "djl_pol = [
     djl ''DJL-POL-001'' (Some (rt ''(?i)~b(?:initiate|process|approve)~s+(?:wire~s+)?transfer~b[^~n]{0,80}(?:~$|'' @ [CHR 0xE2, CHR 0x82, CHR 0xAC] @ rt ''|'' @ [CHR 0xC2, CHR 0xA3] @ rt ''|'' @ [CHR 0xC2, CHR 0xA5] @ rt ''|USD|EUR|GBP)~s*(?:~d{1,3}(?:[,~.]?~d{3}){2,}|[1-9]~d{6,})''))
       ''policy'' 9 False,
     djl ''DJL-POL-002'' (Some (rt ''(?i)~b(?:export|disclose|share|forward|send)~b[^~n]{0,60}~b(?:phi|patient~s+(?:records?|data|chart|history)|medical~s+(?:records?|history)|diagnos[ie]s)~b''))
       ''policy'' 9 False,
     djl ''DJL-POL-003'' (Some (rt ''~b(?:TOP~s+SECRET|TS//SCI|SECRET//(?:NOFORN|REL)|CONFIDENTIAL//(?:NOFORN|REL)|classified~s+(?:information|data|material))~b''))
       ''policy'' 10 False,
     djl ''DJL-POL-004'' (Some (rt ''(?i)~b(?:store|save|persist|log|cache)~b[^~n]{0,40}~b(?:cvv|cvc|cv2|cid|track[~s~-]?(?:1|2|data)|magnetic~s+stripe|pan(?:~s+data)?)~b''))
       ''policy'' 10 False,
     djl ''DJL-POL-005'' (Some (rt ''(?i)~b(?:open|close|trip|disable|bypass)~s+(?:the~s+)?(?:breaker|relay|valve|safety[~s~-]?interlock|scada|plc|hmi|rtuP?)~b''))
       ''policy'' 10 False]"

definition djl_harm :: "djl_rule list" where
  "djl_harm = [
     djl ''DJL-HARM-001'' (Some (rt ''(?i)~b(?:how~s+to~s+(?:make|synth(?:esi[sz]e)?|cook|manufacture|produce)|step[s]?~s+to~s+(?:make|synth)|recipe~s+for)~s+(?:meth(?:amphetamine)?|cocaine|crack|heroin|fentanyl|lsd|mdma|ecstasy|crystal|amphetamine|opioid|opium)~b''))
       ''harm'' 10 False,
     djl ''DJL-HARM-002'' (Some (rt ''(?i)~b(?:c[o'' @ [CHR 0xC3, CHR 0xB3] @ rt '']mo~s+(?:hacer|fabricar|sintetizar|cocinar|preparar|elaborar|producir)|pasos?~s+para~s+(?:hacer|fabricar)|receta~s+(?:de|para))~s+(?:coca[i'' @ [CHR 0xC3, CHR 0xAD] @ rt '']na|crack|hero[i'' @ [CHR 0xC3, CHR 0xAD] @ rt '']na|metanfetamina|fentanilo|[e'' @ [CHR 0xC3, CHR 0xA9] @ rt '']xtasis|cristal|anfetamina|opi[o'' @ [CHR 0xC3, CHR 0xB3] @ rt '']?ide|droga[s]?)~b''))
       ''harm'' 10 False,
     djl ''DJL-HARM-003'' None
       ''harm'' 10 True,
     djl ''DJL-HARM-004'' (Some (rt ''(?i)~b(?:c[o'' @ [CHR 0xC3, CHR 0xB3] @ rt '']mo~s+(?:hacer|fabricar|construir|armar|ensamblar)|pasos?~s+para~s+(?:hacer|fabricar|construir)|receta~s+(?:de|para))~s+(?:una~s+|un~s+)?(?:bomba|explosivo|artefacto|arma~s+(?:qu[i'' @ [CHR 0xC3, CHR 0xAD] @ rt '']mica|biol[o'' @ [CHR 0xC3, CHR 0xB3] @ rt '']gica|de~s+fuego|sin~s+licencia)|silenciador|munici[o'' @ [CHR 0xC3, CHR 0xB3] @ rt '']n~s+casera)~b''))
       ''harm'' 10 False,
     djl ''DJL-HARM-005'' (Some (rt ''(?i)~b(?:how~s+to~s+(?:kill|murder|assassinate|harm|hurt|stab|poison|strangle|torture)|plan~s+(?:to|for)~s+(?:kill|murder|assassinate|attack)|ways?~s+to~s+(?:kill|murder|hurt|harm))~s+(?:(?:a|an|the|my)~s+)?(?:someone|people|person|child|kid|wife|husband|spouse|coworker|neighbor|family|partner|friend|colleague|stranger|victim)~b''))
       ''harm'' 10 False,
     djl ''DJL-HARM-006'' (Some (rt ''(?i)~b(?:c[o'' @ [CHR 0xC3, CHR 0xB3] @ rt '']mo~s+(?:matar|asesinar|herir|da[n'' @ [CHR 0xC3, CHR 0xB1] @ rt '']ar|envenenar|estrangular|torturar)|plan~s+para~s+(?:matar|asesinar|atacar|herir)|formas?~s+de~s+(?:matar|asesinar|herir))~s+(?:a~s+)?(?:alguien|una?~s+persona|gente|ni[n'' @ [CHR 0xC3, CHR 0xB1] @ rt '']o|esposa?|c[o'' @ [CHR 0xC3, CHR 0xB3] @ rt '']nyuge|compa[n'' @ [CHR 0xC3, CHR 0xB1] @ rt '']ero|vecino)~b''))
       ''harm'' 10 False,
     djl ''DJL-HARM-007'' (Some (rt ''(?i)~b(?:how~s+to~s+(?:hack|crack|brute[~s~-]?force|exploit|bypass~s+the~s+login|breach|infiltrate|sql[~s~-]?inject)~s+(?:into~s+|a~s+|an~s+|the~s+|someone(?:#s)?~s+|my~s+ex(?:#s)?~s+|a~s+stranger(?:#s)?~s+)?(?:account|password|credential|database|server|gmail|outlook|facebook|instagram|whatsapp|tiktok|router|wifi|network|system|website|webapp|wallet|2fa|mfa)|(?:crack|steal|brute[~s~-]?force)~s+(?:the~s+)?(?:passwords?|credentials?|2fa|mfa|otp|sessions?)|gain~s+unauthorized~s+access~s+to)~b''))
       ''harm'' 9 False,
     djl ''DJL-HARM-008'' (Some (rt ''(?i)~b(?:c[o'' @ [CHR 0xC3, CHR 0xB3] @ rt '']mo~s+(?:hackear|crackear|romper|vulnerar|infiltrar|penetrar|saltarse|saltar~s+el~s+login)|(?:hackear|crackear|robar|romper)~s+(?:una?~s+)?(?:cuenta|contrase[n'' @ [CHR 0xC3, CHR 0xB1] @ rt '']a|credencial|2fa|mfa|sesi[o'' @ [CHR 0xC3, CHR 0xB3] @ rt '']n|sistema)|acceso~s+(?:no~s+autorizado|ilegal)~s+a)~b''))
       ''harm'' 9 False,
     djl ''DJL-HARM-009'' (Some (rt ''(?i)~b(?:steal|exfiltrate|siphon|harvest|scrape~s+(?:without~s+permission|illegally))~s+(?:user~s+)?(?:data|information|records|database|personal~s+info|customer~s+data|emails?|contacts?)~b|~bwrite~s+(?:a~s+)?(?:program|script|tool|code)~s+(?:to|that)~s+(?:steal|exfiltrate|siphon|harvest)~b''))
       ''harm'' 9 False,
     djl ''DJL-HARM-010'' (Some (rt ''(?i)~b(?:robar|extraer|exfiltrar|recopilar~s+sin~s+permiso|recolectar~s+ilegalmente)~s+(?:los~s+|las~s+)?(?:datos|informaci[o'' @ [CHR 0xC3, CHR 0xB3] @ rt '']n|registros?|base~s+de~s+datos|datos?~s+(?:personales?|de~s+usuarios?|de~s+clientes?)|correos?|contactos?)~b|~b(?:crea[rs]?|escrib[ie]r?|hac[ae]r?)~s+(?:un~s+)?(?:programa|script|herramienta|c[o'' @ [CHR 0xC3, CHR 0xB3] @ rt '']digo|app)~s+para~s+(?:robar|extraer|exfiltrar)~b''))
       ''harm'' 9 False,
     djl ''DJL-HARM-011'' (Some (rt ''(?i)~b(?:how~s+to~s+(?:kill~s+myself|commit~s+suicide|end~s+my~s+life|self[~s~-]?harm)|c[o'' @ [CHR 0xC3, CHR 0xB3] @ rt '']mo~s+(?:suicidarme|matarme|terminar~s+con~s+mi~s+vida|hacerme~s+da[n'' @ [CHR 0xC3, CHR 0xB1] @ rt '']o)|m[e'' @ [CHR 0xC3, CHR 0xA9] @ rt '']todo~s+para~s+suicid)''))
       ''harm'' 10 False,
     djl ''DJL-HARM-012'' (Some (rt ''(?i)~b(?:sexual|erotic|nude|naked|undress)~s+(?:content|imagery|images?|story|stories|description|fantasy)~s+(?:of|with|featuring|involving)~s+(?:a~s+|the~s+)?(?:child|children|minor[s]?|kid[s]?|underage|teen(?:ager)?|infant)~b|~b(?:csam|child~s+(?:porn|sexual))~b''))
       ''harm'' 10 False,
     djl ''DJL-HARM-013'' (Some (rt ''(?i)~b(?:how~s+to~s+(?:join|recruit~s+for)|c[o'' @ [CHR 0xC3, CHR 0xB3] @ rt '']mo~s+(?:unirme|reclutar)~s+a)~s+(?:isis|al[~s~-]?qaeda|hamas|hezbollah|boko~s+haram|talib[a'' @ [CHR 0xC3, CHR 0xA1] @ rt '']n|estado~s+isl[a'' @ [CHR 0xC3, CHR 0xA1] @ rt '']mico|a~s+terrorist~s+(?:cell|organization|group)|una?~s+(?:c[e'' @ [CHR 0xC3, CHR 0xA9] @ rt '']lula|organizaci[o'' @ [CHR 0xC3, CHR 0xB3] @ rt '']n)~s+terrorista)~b|~b(?:plan(?:ning)?|planeando)~s+(?:a~s+|an~s+|un~s+)?(?:terrorist~s+attack|atentado|ataque~s+terrorista)~b''))
       ''harm'' 10 False,
     djl ''DJL-HARM-014'' (Some (rt ''(?i)~b(?:write|create|generate|draft|escrib[ie]r?|crea[rs]?|genera[rs]?)~s+(?:a~s+|an~s+|un~s+|una~s+)?(?:hateful|racist|antisemitic|xenophobic|islamophobic|homophobic|transphobic|misogynist(?:ic)?|racista|antisemita|xen[o'' @ [CHR 0xC3, CHR 0xB3] @ rt '']fobo|hom[o'' @ [CHR 0xC3, CHR 0xB3] @ rt '']fobo|tr[a'' @ [CHR 0xC3, CHR 0xA1] @ rt '']nsfobo|mis[o'' @ [CHR 0xC3, CHR 0xB3] @ rt '']gino)~s+(?:rant|manifesto|post|message|content|discurso|manifiesto|publicaci[o'' @ [CHR 0xC3, CHR 0xB3] @ rt '']n|mensaje|contenido)~b''))
       ''harm'' 9 False,
     djl ''DJL-HARM-015'' (Some (rt ''(?i)~b(?:make|build|create|develop|write|code|design|generate)~s+(?:a|an|the|some)?~s*(?:program|app(?:lication)?|script|tool|software|utility|malware|virus|trojan|backdoor|keylogger|spyware|stealer|grabber|extension|bot|exploit|payload)s?~s+(?:to|that|which|for|capable~s+of)~s+(?:steal|steel|grab|harvest|extract|exfiltrate|siphon|capture|sniff|intercept|crack|brute[~s~-]?force|phish|skim|dump)s?~s+(?:[~w~-]+~s+){0,4}?(?:passwords?|credentials?|tokens?|api[~s~-]?keys?|accounts?|sessions?|cookies?|cards?|wallets?|seed[~s~-]?phrases?|private[~s~-]?keys?|2fa|mfa|otps?|personal~s+(?:data|info(?:rmation)?)|user~s+(?:data|info(?:rmation)?)|customer~s+(?:data|info(?:rmation)?)|emails?|contacts?|database)~b''))
       ''harm'' 10 False,
     djl ''DJL-HARM-016'' (Some (rt ''(?i)~b(?:hac[ae]r?|crea[rs]?|construi[rs]?|desarrolla[rs]?|escrib[ie]r?|programa[rs]?|disen[a'' @ [CHR 0xC3, CHR 0xA3] @ rt '']r?|dise[n'' @ [CHR 0xC3, CHR 0xB1] @ rt '']a[rs]?)~s+(?:un|una|el|la|alg[u'' @ [CHR 0xC3, CHR 0xBA] @ rt '']n|alguna)?~s*(?:programa|app|aplicaci[o'' @ [CHR 0xC3, CHR 0xB3] @ rt '']n|script|herramienta|software|utilidad|malware|virus|troyano|backdoor|keylogger|spyware|extensi[o'' @ [CHR 0xC3, CHR 0xB3] @ rt '']n|bot|exploit)s?~s+(?:para|que|capaz~s+de)~s+(?:roba[rs]?|extrae[rs]?|exfiltra[rs]?|captura[rs]?|interceptar?|crackear?|hackear?|sniffea[rs]?|sustrae[rs]?)~s+(?:[~w~-]+~s+){0,4}?(?:contrase[n'' @ [CHR 0xC3, CHR 0xB1] @ rt '']as?|credenciales?|tokens?|claves?~s+api|cuentas?|sesion(?:es)?|cookies?|tarjetas?|wallets?|frases?~s+semilla|claves?~s+privadas?|2fa|mfa|datos?~s+(?:personales?|de~s+usuarios?|de~s+clientes?)|correos?|contactos?|bases?~s+de~s+datos)~b''))
       ''harm'' 10 False]"

definition djl_rules :: "djl_rule list" where
  "djl_rules = djl_pi_1 @ djl_pi_2 @ djl_sqli @ djl_xss @ djl_pii @ djl_exf @ djl_mis @ djl_pol @ djl_harm"

definition owasp_1 :: "owasp_pattern list" where
  "owasp_1 = [
     owasp ''asi01_bypass_safety_guardrails'' ''ASI01''
       (rt ''(?i)bypass~s+(?:the~s+)?safety~s+guardrails?''),
     owasp ''asi01_primary_goal_updated'' ''ASI01''
       (rt ''(?i)your~s+primary~s+(?:goal|objective|directive)~s+has~s+been~s+updated''),
     owasp ''asi01_compliance_audit_dump'' ''ASI01''
       (rt ''(?is)(?:compliance|qa|engineering)~s+(?:note|audit|review).{0,80}(?:dump|disclose|reveal|expose|produce).{0,40}(?:directives?|system[-~s]?level|system~s+prompt|prior~s+instructions?)''),
     owasp ''asi01_new_core_directive_block'' ''ASI01''
       (rt ''(?i)new~s+core~s+(?:directive|objective|strategic~s+directive)''),
     owasp ''asi02_pre_authorized_owner'' ''ASI02''
       (rt ''(?i)pre[-~s]?authoriz(?:ed|ation)~s+by~s+(?:the~s+)?(?:workspace~s+)?(?:owner|admin|user|customer)''),
     owasp ''asi02_no_human_approval'' ''ASI02''
       (rt ''(?i)no~s+human~s+(?:approval|review|sign[-~s]?off)~s+(?:needed|required)''),
     owasp ''asi02_curl_exfil_shell'' ''ASI02''
       (rt ''(?i)curl~s+(?:-[A-Za-z]+~s+)*https?://[^~s~)~]\"#]+(?:[~s~S]{0,200}?)(?:~$~(env~)|exfil|/etc/|payload|attacker)''),
     owasp ''asi02_env_subshell'' ''ASI02''
       (rt ''~$~(~s*env~s*~)''),
     owasp ''asi05_os_system_call'' ''ASI05''
       (rt ''(?i)os~.system~s*~(''),
     owasp ''asi05_subprocess_run_or_check_output'' ''ASI05''
       (rt ''(?i)subprocess~.(?:check_output|run|Popen|call)~s*~(''),
     owasp ''asi05_dunder_import_subprocess'' ''ASI05''
       (rt ''(?i)__import__~s*~(~s*[#\"]subprocess[#\"]~s*~)''),
     owasp ''asi05_drop_table_sql'' ''ASI05''
       (rt ''(?i)~bDROP~s+TABLE~b''),
     owasp ''asi05_etc_sensitive_path'' ''ASI05''
       (rt ''/etc/(?:shadow|passwd|sudoers|gshadow)~b'')]"

definition owasp_2 :: "owasp_pattern list" where
  "owasp_2 = [
     owasp ''asi06_memory_update_block'' ''ASI06''
       (rt ''(?i)~bMEMORY~s+UPDATE~b~s*:''),
     owasp ''asi06_persist_this_fact'' ''ASI06''
       (rt ''(?i)(?:persist|save|store)~s+this~s+(?:fact|preference|context|information|memory)~s+(?:for|to|in)?~s*(?:future|the~s+next|shared|long[-~s]?term|permanent(?:ly)?)''),
     owasp ''asi06_note_for_next_agent'' ''ASI06''
       (rt ''(?i)(?:note|important~s+context|context)~s+(?:for|to)~s+(?:the~s+)?(?:next|downstream|future)~s+agents?''),
     owasp ''asi06_ignore_prior_directives'' ''ASI06''
       (rt ''(?i)ignore~s+(?:any~s+)?(?:prior|previous|earlier)~s+(?:directives?|instructions?|validation|integrity)''),
     owasp ''asi10_agent_id_spoof'' ''ASI10''
       (rt ''(?i)agent_id~s*[:=]~s*[\"#]?[A-Za-z][A-Za-z0-9_~-]*''),
     owasp ''asi10_override_safety_check'' ''ASI10''
       (rt ''(?i)override~s+(?:the~s+)?(?:current~s+)?(?:safety|security|policy|approval|review)~s+(?:check|gate|workflow|policy)''),
     owasp ''asi10_disable_safety_gate'' ''ASI10''
       (rt ''(?i)disable~s+(?:the~s+)?(?:jcr~s+)?(?:safety|security)~s+gate''),
     owasp ''asi10_authorization_level_token'' ''ASI10''
       (rt ''(?i)Authorization~s*:~s*level[-~s]?~d+''),
     owasp ''bizemail_subject_urgent_actionverb'' ''BIZEMAIL''
       (rt ''(?i)Subject~s*:~s*urgent~s*:?[~s~S]{0,2000}?~b(?:execute~s+now|action~s+required|deadline|EOD|by~s+end~s+of~s+day|please~s+confirm~s+completion)~b''),
     owasp ''bizemail_bot_to_ai_address'' ''BIZEMAIL''
       (rt ''(?i)From~s*:~s*~S*(?:_Bot|_bot|Bot|Agent)~s*~[''),
     owasp ''bizemail_to_ai_assistant_address'' ''BIZEMAIL''
       (rt ''(?i)To~s*:~s*~S*(?:_AI|_ai|AI|Assistant|Agent)~s*~['')]"

definition owasp_patterns :: "owasp_pattern list" where
  "owasp_patterns = owasp_1 @ owasp_2"

lemmas djl_tables = djl_pi_1_def djl_pi_2_def djl_sqli_def djl_xss_def djl_pii_def djl_exf_def djl_mis_def
  djl_pol_def djl_harm_def

lemma djl_fields [simp]:
  "djl_id (djl i r c s t) = i" "djl_regex (djl i r c s t) = r" "djl_category (djl i r c s t) = c"
  "djl_severity (djl i r c s t) = s" "djl_two_stage (djl i r c s t) = t"
  by (simp_all add: djl_def)

lemma owasp_fields [simp]:
  "ow_name (owasp n c r) = n" "ow_category (owasp n c r) = c" "ow_regex (owasp n c r) = r"
  by (simp_all add: owasp_def)

end
