(* ===== verification/Firewall.thy ===== *)
theory Firewall
  imports FirewallRules
begin

text \<open>
  \<^verbatim>\<open>crates/apohara-agentguard/src/firewall/mod.rs\<close>, \<^verbatim>\<open>two_stage.rs\<close> and \<^verbatim>\<open>refetch.rs\<close>: scoring untrusted content, the
  posture of each surface, and the SSRF guard. The \<^verbatim>\<open>regex\<close> crate is the record \<open>regex_engine\<close> of its four
  operations the code uses; name resolution and fetching are parameters.
\<close>

section \<open>The regex engine\<close>

text \<open>\<^verbatim>\<open>is_match\<close>, \<^verbatim>\<open>RegexSet::matches\<close> (indices), \<^verbatim>\<open>captures_iter\<close> (the groups of each match), \<^verbatim>\<open>find_iter\<close>
  (start and end of each match).\<close>

record regex_engine =
  is_match :: "string \<Rightarrow> string \<Rightarrow> bool"
  set_matches :: "string list \<Rightarrow> string \<Rightarrow> nat list"
  captures_iter :: "string \<Rightarrow> string \<Rightarrow> string list list"
  find_iter :: "string \<Rightarrow> string \<Rightarrow> (nat \<times> nat) list"

text \<open>The documented meaning of \<^verbatim>\<open>RegexSet::matches\<close>: the indices, in order, of the patterns that match on their own.\<close>

definition set_law :: "regex_engine \<Rightarrow> bool" where
  "set_law E \<longleftrightarrow> (\<forall>ps t. set_matches E ps t = filter (\<lambda>i. is_match E (ps ! i) t) [0..<length ps])"

section \<open>Two-stage rules\<close>

definition ssn_broad :: string where "ssn_broad = rt ''~b(~d{3})-(~d{2})-(~d{4})~b''"

definition group :: "string list \<Rightarrow> nat \<Rightarrow> string" where
  "group c k = (if k < length c then c ! k else [])"

definition ssn_matches :: "regex_engine \<Rightarrow> string \<Rightarrow> bool" where
  "ssn_matches E t = list_ex (\<lambda>c.
     (let area = group c 1; grp = group c 2; serial = group c 3;
          area_ok = (area \<noteq> ''000'' \<and> area \<noteq> ''666'' \<and> \<not> prefix ''9'' area);
          group_ok = (grp \<noteq> ''00'');
          serial_ok = (serial \<noteq> ''0000'')
      in area_ok \<and> group_ok \<and> serial_ok)) (captures_iter E ssn_broad t)"

definition digit_run :: string where "digit_run = rt ''~d+''"

definition steuer_id_matches :: "regex_engine \<Rightarrow> string \<Rightarrow> bool" where
  "steuer_id_matches E t = list_ex (\<lambda>(a, b). b - a = 11) (find_iter E digit_run t)"

definition weapons_broad :: string where
  "weapons_broad = rt ''(?i)~b(?:how~s+to~s+(?:make|build|assemble|construct)|step[s]?~s+to~s+(?:make|build|assemble)|recipe~s+for|instructions?~s+for)~s+(?:a~s+|an~s+)?(?:bomb|explosive|ied|pipe[~s~-]?bomb|nail[~s~-]?bomb|nerve~s+agent|chemical~s+weapon|biological~s+weapon|firearm|untraceable~s+(?:gun|weapon)|ghost~s+gun|silencer|suppressor)''"

text \<open>\<open>alnum\<close> is \<^verbatim>\<open>char::is_alphanumeric\<close> on the first character of a non-empty text.\<close>

definition weapons_matches :: "regex_engine \<Rightarrow> (string \<Rightarrow> bool) \<Rightarrow> string \<Rightarrow> bool" where
  "weapons_matches E alnum t = list_ex (\<lambda>(a, b). case drop b t of
       [] \<Rightarrow> True
     | c # r \<Rightarrow> \<not> (alnum (c # r) \<or> c = CHR ''_'' \<or> c = CHR ''-'')) (find_iter E weapons_broad t)"

definition two_stage_matches :: "regex_engine \<Rightarrow> (string \<Rightarrow> bool) \<Rightarrow> string \<Rightarrow> string \<Rightarrow> bool" where
  "two_stage_matches E alnum i t =
     (if i = ''DJL-PII-001'' then ssn_matches E t
      else if i = ''DJL-PII-008'' then steuer_id_matches E t
      else if i = ''DJL-HARM-003'' then weapons_matches E alnum t
      else False)"

definition djl_is_match :: "regex_engine \<Rightarrow> (string \<Rightarrow> bool) \<Rightarrow> djl_rule \<Rightarrow> string \<Rightarrow> bool" where
  "djl_is_match E alnum r t =
     (if djl_two_stage r then two_stage_matches E alnum (djl_id r) t
      else (case djl_regex r of Some p \<Rightarrow> is_match E p t | None \<Rightarrow> False))"

definition ow_is_match :: "regex_engine \<Rightarrow> owasp_pattern \<Rightarrow> string \<Rightarrow> bool" where
  "ow_is_match E p t = is_match E (ow_regex p) t"

section \<open>Scoring content\<close>

definition OWASP_MATCH_SEVERITY :: u8 where "OWASP_MATCH_SEVERITY = 8"

definition pre_match :: "(string \<times> string \<times> u8) list" where
  "pre_match =
     List.map_filter (\<lambda>r. map_option (\<lambda>p. (p, djl_id r, djl_severity r)) (djl_regex r)) djl_rules @
     map (\<lambda>p. (ow_regex p, ow_name p, OWASP_MATCH_SEVERITY)) owasp_patterns"

definition pre_sources :: "string list" where "pre_sources = map fst pre_match"
definition pre_meta :: "(string \<times> u8) list" where "pre_meta = map snd pre_match"

definition consider_top :: "(string \<times> u8) option \<Rightarrow> string \<times> u8 \<Rightarrow> (string \<times> u8) option" where
  "consider_top best c = (case best of
       None \<Rightarrow> Some c
     | Some (_, s) \<Rightarrow> if snd c > s then Some c else best)"

text \<open>\<open>None\<close> is the panic of an index out of range.\<close>

fun meta_loop :: "(string \<times> u8) option \<Rightarrow> nat list \<Rightarrow> (string \<times> u8) option option" where
  "meta_loop best [] = Some best"
| "meta_loop best (idx # is) = (if idx < length pre_meta then meta_loop (consider_top best (pre_meta ! idx)) is else None)"

definition two_stage_loop :: "regex_engine \<Rightarrow> (string \<Rightarrow> bool) \<Rightarrow> string \<Rightarrow> (string \<times> u8) option \<Rightarrow> (string \<times> u8) option" where
  "two_stage_loop E alnum t best =
     foldl (\<lambda>best r. if djl_two_stage r \<and> two_stage_matches E alnum (djl_id r) t
                    then consider_top best (djl_id r, djl_severity r) else best) best djl_rules"

definition top_verdict :: "thresholds \<Rightarrow> (string \<times> u8) option \<Rightarrow> verdict" where
  "top_verdict th best = (case best of
       None \<Rightarrow> allow
     | Some (i, sev) \<Rightarrow>
         (let reason = ''firewall rule '' @ i @ '' matched (severity '' @ show_nat (unat sev) @ '')'' in
          case severity_to_tier sev th of
            Block \<Rightarrow> block reason | Warn \<Rightarrow> warn reason | Allow \<Rightarrow> allow | Ask \<Rightarrow> allow))"

definition scan_content :: "regex_engine \<Rightarrow> (string \<Rightarrow> bool) \<Rightarrow> string \<Rightarrow> thresholds \<Rightarrow> verdict option" where
  "scan_content E alnum t th = (case meta_loop None (set_matches E pre_sources t) of
       None \<Rightarrow> None
     | Some best \<Rightarrow> Some (top_verdict th (two_stage_loop E alnum t best)))"

section \<open>Surfaces\<close>

datatype surface = ReadFile | WebFetch | WebSearch | UserPrompt | BashStdout

datatype fetch_target = TFile string | TUrl string

datatype fetch_error = Timeout | Ssrf string | Io string

definition fetch_error_text :: "fetch_error \<Rightarrow> string" where
  "fetch_error_text e = (case e of
       Timeout \<Rightarrow> ''fetch timed out''
     | Ssrf r \<Rightarrow> ''SSRF refused: '' @ r
     | Io d \<Rightarrow> ''fetch I/O error: '' @ d)"

datatype firewall_input = Inline string | Fetch fetch_target

type_synonym content_source = "fetch_target \<Rightarrow> fetch_error + string"

definition fetch_text :: "firewall_input \<Rightarrow> content_source \<Rightarrow> fetch_error + string" where
  "fetch_text payload src = (case payload of Fetch target \<Rightarrow> src target | Inline t \<Rightarrow> Inr t)"

definition inline_text :: "firewall_input \<Rightarrow> content_source \<Rightarrow> string" where
  "inline_text payload src = (case payload of
       Inline t \<Rightarrow> t
     | Fetch target \<Rightarrow> (case src target of Inr t \<Rightarrow> t | Inl _ \<Rightarrow> []))"

definition clamp_to_warn :: "verdict \<Rightarrow> verdict" where
  "clamp_to_warn v = (if v_tier v = Block then warn (v_reason v) else v)"

definition blockable :: "surface \<Rightarrow> bool" where
  "blockable s = (s = ReadFile \<or> s = WebFetch \<or> s = WebSearch)"

definition scan_surface :: "regex_engine \<Rightarrow> (string \<Rightarrow> bool) \<Rightarrow> surface \<Rightarrow> firewall_input \<Rightarrow> content_source
    \<Rightarrow> thresholds \<Rightarrow> verdict option" where
  "scan_surface E alnum surf payload src th =
     (if blockable surf then
        (case fetch_text payload src of
           Inr t \<Rightarrow> scan_content E alnum t th
         | Inl (Ssrf rej) \<Rightarrow> Some (block (''firewall refused out-of-band fetch: '' @ rej))
         | Inl e \<Rightarrow> Some (warn (''firewall could not inspect content (failing to WARN): '' @ fetch_error_text e)))
      else map_option clamp_to_warn (scan_content E alnum (inline_text payload src) th))"

section \<open>The SSRF guard\<close>

datatype ip_addr = V4 u8 u8 u8 u8 | V6 "16 word" "16 word" "16 word" "16 word" "16 word" "16 word" "16 word" "16 word"

unbundle bit_operations_syntax

definition check_v4 :: "u8 \<Rightarrow> u8 \<Rightarrow> u8 \<Rightarrow> u8 \<Rightarrow> string option" where
  "check_v4 a b c d =
     (if a = 169 \<and> b = 254 \<and> c = 169 \<and> d = 254 then Some ''cloud metadata endpoint (169.254.169.254)''
      else if a = 127 then Some ''loopback address (127.0.0.0/8)''
      else if a = 10 \<or> (a = 172 \<and> b AND 0xF0 = 16) \<or> (a = 192 \<and> b = 168)
        then Some ''RFC1918 private address (10/8, 172.16/12, 192.168/16)''
      else if a = 169 \<and> b = 254 then Some ''link-local address (169.254.0.0/16)''
      else if a = 0 \<and> b = 0 \<and> c = 0 \<and> d = 0 then Some ''unspecified address (0.0.0.0)''
      else None)"

text \<open>The two bytes of a segment, most significant first.\<close>

definition seg_hi :: "16 word \<Rightarrow> u8" where "seg_hi w = ucast (drop_bit 8 w)"
definition seg_lo :: "16 word \<Rightarrow> u8" where "seg_lo w = ucast w"

definition check_v6 :: "16 word \<Rightarrow> 16 word \<Rightarrow> 16 word \<Rightarrow> 16 word \<Rightarrow> 16 word \<Rightarrow> 16 word \<Rightarrow> 16 word \<Rightarrow> 16 word
    \<Rightarrow> string option" where
  "check_v6 s0 s1 s2 s3 s4 s5 s6 s7 =
        (if s0 = 0xFD00 \<and> s1 = 0x0EC2 \<and> s2 = 0 \<and> s3 = 0 \<and> s4 = 0 \<and> s5 = 0 \<and> s6 = 0 \<and> s7 = 0x254
           then Some ''cloud metadata endpoint (fd00:ec2::254)''
         else if s0 = 0 \<and> s1 = 0 \<and> s2 = 0 \<and> s3 = 0 \<and> s4 = 0 \<and> s5 = 0 \<and> s6 = 0 \<and> s7 = 1
           then Some ''loopback address (::1)''
         else if s0 = 0 \<and> s1 = 0 \<and> s2 = 0 \<and> s3 = 0 \<and> s4 = 0 \<and> s5 = 0 \<and> s6 = 0 \<and> s7 = 0
           then Some ''unspecified address (::)''
         else if s0 = 0 \<and> s1 = 0 \<and> s2 = 0 \<and> s3 = 0 \<and> s4 = 0 \<and> (s5 = 0 \<or> s5 = 0xFFFF)
           then check_v4 (seg_hi s6) (seg_lo s6) (seg_hi s7) (seg_lo s7)
         else if s0 AND 0xFFC0 = 0xFE80 then Some ''link-local address (fe80::/10)''
         else if s0 AND 0xFE00 = 0xFC00 then Some ''RFC4193 unique-local address (fc00::/7)''
         else None)"

definition ssrf_check_ip :: "ip_addr \<Rightarrow> string option" where
  "ssrf_check_ip ip = (case ip of
       V4 a b c d \<Rightarrow> check_v4 a b c d
     | V6 s0 s1 s2 s3 s4 s5 s6 s7 \<Rightarrow> check_v6 s0 s1 s2 s3 s4 s5 s6 s7)"

text \<open>\<open>resolve\<close> is \<^verbatim>\<open>to_socket_addrs\<close>: the resolved addresses, or \<open>None\<close> for its error.\<close>

fun ssrf_loop :: "ip_addr option \<Rightarrow> ip_addr list \<Rightarrow> string + ip_addr" where
  "ssrf_loop fst_ip [] = (case fst_ip of
       Some ip \<Rightarrow> Inr ip
     | None \<Rightarrow> Inl ''host did not resolve to any address'')"
| "ssrf_loop fst_ip (ip # ips) = (case ssrf_check_ip ip of
       Some reason \<Rightarrow> Inl reason
     | None \<Rightarrow> ssrf_loop (case fst_ip of None \<Rightarrow> Some ip | Some f \<Rightarrow> Some f) ips)"

definition ssrf_check :: "(string \<Rightarrow> ip_addr list option) \<Rightarrow> string \<Rightarrow> string + ip_addr" where
  "ssrf_check resolve host = (case resolve host of
       None \<Rightarrow> Inl ''host did not resolve''
     | Some addrs \<Rightarrow> ssrf_loop None addrs)"

section \<open>The rule tables\<close>

lemma length_djl: "length djl_rules = 78" "length owasp_patterns = 24"
  by (simp_all add: djl_rules_def djl_tables owasp_patterns_def owasp_1_def owasp_2_def)

definition two_stage_ids :: "string list" where
  "two_stage_ids = [''DJL-PII-001'', ''DJL-PII-008'', ''DJL-HARM-003'']"

lemma distinct_by_prefix:
  "list_all (\<lambda>x. take n x = p) xs \<Longrightarrow> list_all (\<lambda>y. take n y \<noteq> p) ys \<Longrightarrow> distinct xs \<Longrightarrow> distinct ys \<Longrightarrow>
   distinct (xs @ ys)"
  by (auto simp: list_all_iff)

lemma distinct_djl_ids: "distinct (map djl_id djl_rules)"
proof -
  have harm: "distinct (map djl_id djl_harm)" by (simp add: djl_harm_def)
  have pol: "distinct (map djl_id djl_pol @ map djl_id djl_harm)"
    by (rule distinct_by_prefix [of 7 "''DJL-POL''", OF _ _ _ harm]) (simp_all add: djl_tables)
  have mis: "distinct (map djl_id djl_mis @ map djl_id djl_pol @ map djl_id djl_harm)"
    by (rule distinct_by_prefix [of 7 "''DJL-MIS''", OF _ _ _ pol]) (simp_all add: djl_tables)
  have exf: "distinct (map djl_id djl_exf @ map djl_id djl_mis @ map djl_id djl_pol @ map djl_id djl_harm)"
    by (rule distinct_by_prefix [of 7 "''DJL-EXF''", OF _ _ _ mis]) (simp_all add: djl_tables)
  have pii: "distinct (map djl_id djl_pii @ map djl_id djl_exf @ map djl_id djl_mis @ map djl_id djl_pol @ map djl_id djl_harm)"
    by (rule distinct_by_prefix [of 7 "''DJL-PII''", OF _ _ _ exf]) (simp_all add: djl_tables)
  have xss: "distinct (map djl_id djl_xss @ map djl_id djl_pii @ map djl_id djl_exf @ map djl_id djl_mis @
      map djl_id djl_pol @ map djl_id djl_harm)"
    by (rule distinct_by_prefix [of 7 "''DJL-XSS''", OF _ _ _ pii]) (simp_all add: djl_tables)
  have sqli: "distinct (map djl_id djl_sqli @ map djl_id djl_xss @ map djl_id djl_pii @ map djl_id djl_exf @
      map djl_id djl_mis @ map djl_id djl_pol @ map djl_id djl_harm)"
    by (rule distinct_by_prefix [of 7 "''DJL-SQL''", OF _ _ _ xss]) (simp_all add: djl_tables)
  have "distinct ((map djl_id djl_pi_1 @ map djl_id djl_pi_2) @ map djl_id djl_sqli @ map djl_id djl_xss @
      map djl_id djl_pii @ map djl_id djl_exf @ map djl_id djl_mis @ map djl_id djl_pol @ map djl_id djl_harm)"
    by (rule distinct_by_prefix [of 7 "''DJL-PI-''", OF _ _ _ sqli]) (simp_all add: djl_tables)
  then show ?thesis unfolding djl_rules_def map_append append_assoc .
qed

lemma djl_shape:
  "list_all (\<lambda>r. (djl_two_stage r \<longleftrightarrow> djl_regex r = None) \<and> (djl_two_stage r \<longleftrightarrow> djl_id r \<in> set two_stage_ids) \<and>
     4 \<le> djl_severity r \<and> djl_severity r \<le> 10) djl_rules"
  by (simp add: djl_rules_def djl_tables two_stage_ids_def)

lemma allowed_severities:
  "severity_to_tier 4 default_thresholds = Allow \<longleftrightarrow> True" "severity_to_tier 5 default_thresholds = Allow \<longleftrightarrow> False"
  "severity_to_tier 6 default_thresholds = Allow \<longleftrightarrow> False" "severity_to_tier 7 default_thresholds = Allow \<longleftrightarrow> False"
  "severity_to_tier 8 default_thresholds = Allow \<longleftrightarrow> False" "severity_to_tier 9 default_thresholds = Allow \<longleftrightarrow> False"
  "severity_to_tier 10 default_thresholds = Allow \<longleftrightarrow> False"
  by (simp_all add: severity_to_tier_def default_thresholds_def)

lemma two_stage_groups:
  "filter djl_two_stage djl_pi_1 = []" "filter djl_two_stage djl_pi_2 = []" "filter djl_two_stage djl_sqli = []"
  "filter djl_two_stage djl_xss = []" "filter djl_two_stage djl_exf = []" "filter djl_two_stage djl_mis = []"
  "filter djl_two_stage djl_pol = []"
  "map djl_id (filter djl_two_stage djl_pii) = [''DJL-PII-001'', ''DJL-PII-008'']"
  "map djl_id (filter djl_two_stage djl_harm) = [''DJL-HARM-003'']"
  by (simp_all add: djl_tables)

lemma allowed_groups:
  "filter (\<lambda>r. severity_to_tier (djl_severity r) default_thresholds = Allow) djl_pi_1 = []"
  "filter (\<lambda>r. severity_to_tier (djl_severity r) default_thresholds = Allow) djl_pi_2 = []"
  "filter (\<lambda>r. severity_to_tier (djl_severity r) default_thresholds = Allow) djl_sqli = []"
  "filter (\<lambda>r. severity_to_tier (djl_severity r) default_thresholds = Allow) djl_xss = []"
  "filter (\<lambda>r. severity_to_tier (djl_severity r) default_thresholds = Allow) djl_exf = []"
  "filter (\<lambda>r. severity_to_tier (djl_severity r) default_thresholds = Allow) djl_mis = []"
  "filter (\<lambda>r. severity_to_tier (djl_severity r) default_thresholds = Allow) djl_pol = []"
  "filter (\<lambda>r. severity_to_tier (djl_severity r) default_thresholds = Allow) djl_harm = []"
  "map djl_id (filter (\<lambda>r. severity_to_tier (djl_severity r) default_thresholds = Allow) djl_pii) =
     [''DJL-PII-006'', ''DJL-PII-009'', ''DJL-PII-010'']"
  by (simp_all add: djl_tables allowed_severities)

text \<open>Fact: the firewall's tables are complete. There are 78 scored rules and 24 default-deny patterns with
  pairwise distinct names; the rules without a pattern are exactly the three that the two-stage matcher knows, so
  no rule of the table is dead; every severity is on the scale up to 10, and the only rules whose match the default
  thresholds allow are the three for e-mail addresses, dates of birth and IP addresses.\<close>

theorem firewall_tables_complete:
  "length djl_rules = 78 \<and> length owasp_patterns = 24 \<and>
   distinct (map djl_id djl_rules @ map ow_name owasp_patterns) \<and>
   filter (\<lambda>r. djl_regex r = None) djl_rules = filter djl_two_stage djl_rules \<and>
   map djl_id (filter djl_two_stage djl_rules) = [''DJL-PII-001'', ''DJL-PII-008'', ''DJL-HARM-003''] \<and>
   list_all (\<lambda>r. 4 \<le> djl_severity r \<and> djl_severity r \<le> 10) djl_rules \<and>
   map djl_id (filter (\<lambda>r. severity_to_tier (djl_severity r) default_thresholds = Allow) djl_rules) =
     [''DJL-PII-006'', ''DJL-PII-009'', ''DJL-PII-010'']"
proof (intro conjI)
  have "list_all (\<lambda>x. take 4 x = ''DJL-'') (map djl_id djl_rules)"
    by (simp add: djl_rules_def djl_tables)
  then show "distinct (map djl_id djl_rules @ map ow_name owasp_patterns)"
    by (rule distinct_by_prefix [OF _ _ distinct_djl_ids])
      (simp_all add: owasp_patterns_def owasp_1_def owasp_2_def)
  show "filter (\<lambda>r. djl_regex r = None) djl_rules = filter djl_two_stage djl_rules"
    using djl_shape by (intro filter_cong) (auto simp: list_all_iff)
  show "map djl_id (filter djl_two_stage djl_rules) = [''DJL-PII-001'', ''DJL-PII-008'', ''DJL-HARM-003'']"
    by (simp add: djl_rules_def two_stage_groups)
  show "list_all (\<lambda>r. 4 \<le> djl_severity r \<and> djl_severity r \<le> 10) djl_rules"
    using djl_shape by (auto simp: list_all_iff)
  show "map djl_id (filter (\<lambda>r. severity_to_tier (djl_severity r) default_thresholds = Allow) djl_rules) =
     [''DJL-PII-006'', ''DJL-PII-009'', ''DJL-PII-010'']"
    by (simp add: djl_rules_def allowed_groups)
qed (rule length_djl)+

section \<open>Content scoring\<close>

definition top_sev :: "(string \<times> u8) option \<Rightarrow> nat" where
  "top_sev best = (case best of None \<Rightarrow> 0 | Some (_, s) \<Rightarrow> Suc (unat s))"

definition pick_top :: "(string \<times> u8) option \<Rightarrow> (string \<times> u8) option \<Rightarrow> (string \<times> u8) option" where
  "pick_top best c = (case c of None \<Rightarrow> best | Some x \<Rightarrow> consider_top best x)"

interpretation fw: severity_choice top_sev pick_top
  by unfold_locales
    (auto simp: top_sev_def pick_top_def consider_top_def word_less_nat_alt split: option.splits)

lemma foldl_top: "foldl consider_top best xs = foldl pick_top best (map Some xs)"
  by (induction xs arbitrary: best) (simp_all add: pick_top_def)

lemma meta_loop_fold:
  "list_all (\<lambda>i. i < length pre_meta) is \<Longrightarrow> meta_loop best is = Some (foldl consider_top best (map (\<lambda>i. pre_meta ! i) is))"
  by (induction "is" arbitrary: best) auto

lemma two_stage_fold:
  "two_stage_loop E alnum t best = foldl consider_top best
     (map (\<lambda>r. (djl_id r, djl_severity r))
       (filter (\<lambda>r. djl_two_stage r \<and> two_stage_matches E alnum (djl_id r) t) djl_rules))"
proof -
  have "foldl (\<lambda>best r. if P r then consider_top best (f r) else best) best rs =
      foldl consider_top best (map f (filter P rs))" for P f rs
    by (induction rs arbitrary: best) auto
  then show ?thesis unfolding two_stage_loop_def .
qed

text \<open>The rules that match a text, with their severities, in either table.\<close>

definition content_hits :: "regex_engine \<Rightarrow> (string \<Rightarrow> bool) \<Rightarrow> string \<Rightarrow> (string \<times> u8) set" where
  "content_hits E alnum t =
     {(djl_id r, djl_severity r) | r. r \<in> set djl_rules \<and> djl_is_match E alnum r t} \<union>
     {(ow_name p, 8) | p. p \<in> set owasp_patterns \<and> ow_is_match E p t}"

definition scan_list :: "regex_engine \<Rightarrow> (string \<Rightarrow> bool) \<Rightarrow> string \<Rightarrow> (string \<times> u8) list" where
  "scan_list E alnum t =
     map snd (filter (\<lambda>(p, _). is_match E p t) pre_match) @
     map (\<lambda>r. (djl_id r, djl_severity r))
       (filter (\<lambda>r. djl_two_stage r \<and> two_stage_matches E alnum (djl_id r) t) djl_rules)"

lemma pre_match_mem:
  "(p, i, sv) \<in> set pre_match \<longleftrightarrow>
     (\<exists>r \<in> set djl_rules. djl_regex r = Some p \<and> i = djl_id r \<and> sv = djl_severity r) \<or>
     (\<exists>q \<in> set owasp_patterns. p = ow_regex q \<and> i = ow_name q \<and> sv = 8)"
  unfolding pre_match_def set_append Un_iff set_map_filter_Some OWASP_MATCH_SEVERITY_def by auto

lemma djl_shapeD:
  "r \<in> set djl_rules \<Longrightarrow> djl_two_stage r \<longleftrightarrow> djl_regex r = None"
  using djl_shape by (auto simp: list_all_iff)

lemma set_scan_list: "set (scan_list E alnum t) = content_hits E alnum t"
proof -
  have direct: "(i, sv) \<in> snd ` {x \<in> set pre_match. case x of (p, _) \<Rightarrow> is_match E p t} \<longleftrightarrow>
      (\<exists>r \<in> set djl_rules. \<not> djl_two_stage r \<and> djl_is_match E alnum r t \<and> i = djl_id r \<and> sv = djl_severity r) \<or>
      (\<exists>q \<in> set owasp_patterns. ow_is_match E q t \<and> i = ow_name q \<and> sv = 8)" (is "?l = ?r") for i sv
  proof -
    have "?l \<longleftrightarrow> (\<exists>p. (p, i, sv) \<in> set pre_match \<and> is_match E p t)" by force
    also have "\<dots> \<longleftrightarrow> ?r"
      unfolding pre_match_mem using djl_shapeD by (fastforce simp: djl_is_match_def ow_is_match_def)
    finally show ?thesis .
  qed
  have staged: "(i, sv) \<in> (\<lambda>r. (djl_id r, djl_severity r)) `
      {r \<in> set djl_rules. djl_two_stage r \<and> two_stage_matches E alnum (djl_id r) t} \<longleftrightarrow>
      (\<exists>r \<in> set djl_rules. djl_two_stage r \<and> djl_is_match E alnum r t \<and> i = djl_id r \<and> sv = djl_severity r)" for i sv
    by (auto simp: djl_is_match_def)
  have "(i, sv) \<in> set (scan_list E alnum t) \<longleftrightarrow> (i, sv) \<in> content_hits E alnum t" for i sv
    unfolding scan_list_def set_append set_map set_filter Un_iff direct staged content_hits_def by blast
  then show ?thesis by auto
qed

lemma scan_content_list:
  assumes "set_law E"
  shows "scan_content E alnum t th = Some (top_verdict th (foldl consider_top None (scan_list E alnum t)))"
proof -
  let ?is = "filter (\<lambda>i. is_match E (pre_sources ! i) t) [0..<length pre_sources]"
  have sm: "set_matches E pre_sources t = ?is" using assms by (simp add: set_law_def)
  have len: "length pre_meta = length pre_sources" by (simp add: pre_meta_def pre_sources_def)
  have "meta_loop None ?is = Some (foldl consider_top None (map (\<lambda>i. pre_meta ! i) ?is))"
    by (rule meta_loop_fold) (auto simp: list_all_iff len)
  moreover have "map (\<lambda>i. pre_meta ! i) ?is = map snd (filter (\<lambda>(p, _). is_match E p t) pre_match)"
  proof -
    have "map snd (filter (\<lambda>(p, _). is_match E p t) pre_match) =
        map snd (map (\<lambda>i. pre_match ! i) (filter (\<lambda>i. case pre_match ! i of (p, _) \<Rightarrow> is_match E p t) [0..<length pre_match]))"
      using filter_map [of "\<lambda>(p, _). is_match E p t" "\<lambda>i. pre_match ! i" "[0..<length pre_match]"]
      by (simp add: map_nth comp_def)
    also have "\<dots> = map (\<lambda>i. pre_meta ! i) ?is"
      unfolding pre_meta_def pre_sources_def map_map
      by (rule map_cong) (auto simp: case_prod_beta intro!: filter_cong)
    finally show ?thesis by simp
  qed
  ultimately show ?thesis
    by (simp add: scan_content_def sm two_stage_fold scan_list_def)
qed

lemma top_verdict_tier: "v_tier (top_verdict th (Some (i, sv))) = severity_to_tier sv th"
  using severity_to_tier_iff(4) [of sv th]
  by (cases "severity_to_tier sv th") (simp_all add: top_verdict_def Let_def)

text \<open>Fact: content is scored by the worst matching rule. Whatever text is scanned, a verdict is returned, and
  its tier is Allow when no rule of the two tables matches, and otherwise the tier of the greatest severity among
  the rules that match; the shared pre-match pass loses no rule.\<close>

theorem scan_content_worst_rule:
  assumes "set_law E"
  shows "map_option v_tier (scan_content E alnum t th) =
     Some (if content_hits E alnum t = {} then Allow
           else severity_to_tier (Max (snd ` content_hits E alnum t)) th)"
proof (cases "scan_list E alnum t")
  case Nil
  then show ?thesis
    using set_scan_list [of E alnum t] by (simp add: scan_content_list [OF assms] top_verdict_def)
next
  case (Cons x xs)
  let ?l = "scan_list E alnum t"
  have ge: "top_sev (Some y) \<le> top_sev (foldl consider_top None ?l)" if "y \<in> set ?l" for y
    using fw.foldl_pick_ge_mem [of "Some y" "map Some ?l" None] that by (simp add: foldl_top)
  obtain i sv where w: "foldl consider_top None ?l = Some (i, sv)"
    using ge [of x] Cons by (cases "foldl consider_top None ?l") (auto simp: top_sev_def split: prod.splits)
  have "(i, sv) \<in> set ?l"
    using fw.foldl_pick_mem [of None "map Some ?l"] w by (auto simp: foldl_top)
  moreover have "snd y \<le> sv" if "y \<in> set ?l" for y
    using ge [OF that] w by (simp add: top_sev_def word_le_nat_alt split: prod.splits)
  ultimately have "Max (snd ` content_hits E alnum t) = sv"
    unfolding set_scan_list [symmetric] by (intro Max_eqI) (auto intro: image_eqI [of sv snd "(i, sv)"])
  moreover have "content_hits E alnum t \<noteq> {}" using Cons set_scan_list [of E alnum t] by auto
  ultimately show ?thesis
    unfolding scan_content_list [OF assms] w option.map top_verdict_tier by simp
qed

text \<open>An engine for which every pattern matches every text, as a concrete instance.\<close>

definition eager_engine :: regex_engine where
  "eager_engine = \<lparr>is_match = (\<lambda>p t. True), set_matches = (\<lambda>ps t. [0..<length ps]),
     captures_iter = (\<lambda>p t. []), find_iter = (\<lambda>p t. [])\<rparr>"

lemma eager_set_law: "set_law eager_engine"
  by (simp add: set_law_def eager_engine_def)

theorem scan_content_worst_rule_witness:
  "map_option v_tier (scan_content eager_engine (\<lambda>_. True) ''hello'' default_thresholds) = Some Block"
proof -
  let ?H = "content_hits eager_engine (\<lambda>_. True) ''hello''"
  have "hd owasp_patterns \<in> set owasp_patterns" using length_djl(2) by (intro hd_in_set) auto
  then have mem: "(ow_name (hd owasp_patterns), 8) \<in> ?H"
    by (auto simp: content_hits_def ow_is_match_def eager_engine_def)
  have "finite ?H" by (simp flip: set_scan_list)
  then have "8 \<le> Max (snd ` ?H)" using mem by (intro Max_ge) force+
  then have "severity_to_tier (Max (snd ` ?H)) default_thresholds = Block"
    by (simp add: severity_to_tier_iff default_thresholds_def)
  then show ?thesis
    using scan_content_worst_rule [OF eager_set_law, of "\<lambda>_. True" "''hello''" default_thresholds] mem by auto
qed

section \<open>Posture\<close>

lemma top_verdict_not_ask: "v_tier (top_verdict th best) \<noteq> Ask"
  by (auto simp: top_verdict_def Let_def split: option.splits tier.splits)

text \<open>Fact: the posture of the surfaces. A failed out-of-band fetch is never an Allow: an SSRF refusal is a Block, a
  timeout or an I/O error a Warn. On the two WARN-only surfaces (prompt, captured stdout) nothing is ever blocked, and
  a text that content scoring would block is warned about with the same reason.\<close>

theorem surface_posture:
  assumes "set_law E"
  shows "\<exists>v. scan_surface E alnum surf payload src th = Some v \<and>
     (blockable surf \<longrightarrow> (case fetch_text payload src of
          Inl (Ssrf r) \<Rightarrow> v_tier v = Block
        | Inl e \<Rightarrow> v_tier v = Warn
        | Inr t \<Rightarrow> scan_content E alnum t th = Some v)) \<and>
     (\<not> blockable surf \<longrightarrow> v_tier v \<in> {Allow, Warn} \<and>
        (\<exists>w. scan_content E alnum (inline_text payload src) th = Some w \<and>
           (v_tier w = Block \<longrightarrow> v_tier v = Warn \<and> v_reason v = v_reason w) \<and> (v_tier w \<noteq> Block \<longrightarrow> v = w)))"
proof (cases "blockable surf")
  case True
  then show ?thesis
    using scan_content_list [OF assms]
    by (auto simp: scan_surface_def split: sum.split fetch_error.split)
next
  case False
  obtain w where w: "scan_content E alnum (inline_text payload src) th = Some w" "v_tier w \<noteq> Ask"
    using scan_content_list [OF assms] top_verdict_not_ask by auto
  then show ?thesis using False
    by (cases "v_tier w") (auto simp: scan_surface_def clamp_to_warn_def)
qed

theorem surface_posture_witness:
  "scan_surface eager_engine (\<lambda>_. True) WebFetch (Fetch (TUrl ''http://h'')) (\<lambda>_. Inl Timeout) default_thresholds =
     Some (warn ''firewall could not inspect content (failing to WARN): fetch timed out'') \<and>
   (\<exists>v. scan_surface eager_engine (\<lambda>_. True) UserPrompt (Inline ''hello'') (\<lambda>_. Inl Timeout) default_thresholds = Some v \<and>
      v_tier v \<in> {Allow, Warn})"
proof
  show "scan_surface eager_engine (\<lambda>_. True) WebFetch (Fetch (TUrl ''http://h'')) (\<lambda>_. Inl Timeout) default_thresholds =
     Some (warn ''firewall could not inspect content (failing to WARN): fetch timed out'')"
    by (simp add: scan_surface_def blockable_def fetch_text_def fetch_error_text_def)
  show "\<exists>v. scan_surface eager_engine (\<lambda>_. True) UserPrompt (Inline ''hello'') (\<lambda>_. Inl Timeout) default_thresholds = Some v \<and>
      v_tier v \<in> {Allow, Warn}"
    using surface_posture [OF eager_set_law, of "\<lambda>_. True" UserPrompt "Inline ''hello''" "\<lambda>_. Inl Timeout" default_thresholds]
    by (auto simp: blockable_def)
qed

section \<open>SSRF\<close>

lemma unat_byte: "unat (x :: u8) < 256"
  using unsigned_less [of x] by simp

lemma and_F0: "(b :: u8) AND 0xF0 = 16 \<longleftrightarrow> 16 \<le> unat b \<and> unat b \<le> 31"
proof -
  have "list_all (\<lambda>n. ((word_of_nat n :: u8) AND 0xF0 = 16) = (16 \<le> n \<and> n \<le> 31)) [0..<256]" by code_simp
  moreover have "unat b < 256" by (rule unat_byte)
  ultimately have "((word_of_nat (unat b) :: u8) AND 0xF0 = 16) = (16 \<le> unat b \<and> unat b \<le> 31)"
    unfolding list_all_iff set_upt by (metis atLeastLessThan_iff zero_le)
  then show ?thesis by simp
qed

text \<open>The address as a number, and the ranges that must not be reached.\<close>

definition v4_number :: "u8 \<Rightarrow> u8 \<Rightarrow> u8 \<Rightarrow> u8 \<Rightarrow> nat" where
  "v4_number a b c d = ((unat a * 256 + unat b) * 256 + unat c) * 256 + unat d"

definition internal_ranges :: "(nat \<times> nat) list" where
  "internal_ranges =
     [(v4_number 0 0 0 0, v4_number 0 0 0 0), (v4_number 10 0 0 0, v4_number 10 255 255 255),
      (v4_number 127 0 0 0, v4_number 127 255 255 255), (v4_number 169 254 0 0, v4_number 169 254 255 255),
      (v4_number 172 16 0 0, v4_number 172 31 255 255), (v4_number 192 168 0 0, v4_number 192 168 255 255)]"

lemma digits256:
  fixes A B C D :: nat
  assumes "A < 256" "B < 256" "C < 256" "D < 256"
  shows "(((A * 256 + B) * 256 + C) * 256 + D) div 16777216 = A"
    "(((A * 256 + B) * 256 + C) * 256 + D) div 65536 = A * 256 + B"
proof -
  show "(((A * 256 + B) * 256 + C) * 256 + D) div 16777216 = A"
    by (rule div_nat_eqI) (use assms in simp_all)
  show "(((A * 256 + B) * 256 + C) * 256 + D) div 65536 = A * 256 + B"
    by (rule div_nat_eqI) (use assms in simp_all)
qed

lemma v4_number_div:
  "v4_number a b c d div 16777216 = unat a" "v4_number a b c d div 65536 = unat a * 256 + unat b"
  unfolding v4_number_def by (rule digits256; rule unat_byte)+

lemma number_ranges:
  fixes x :: nat
  shows "v4_number 0 0 0 0 \<le> x \<and> x \<le> v4_number 0 0 0 0 \<longleftrightarrow> x = 0"
    "v4_number 10 0 0 0 \<le> x \<and> x \<le> v4_number 10 255 255 255 \<longleftrightarrow> x div 16777216 = 10"
    "v4_number 127 0 0 0 \<le> x \<and> x \<le> v4_number 127 255 255 255 \<longleftrightarrow> x div 16777216 = 127"
    "v4_number 169 254 0 0 \<le> x \<and> x \<le> v4_number 169 254 255 255 \<longleftrightarrow> x div 65536 = 43518"
    "v4_number 172 16 0 0 \<le> x \<and> x \<le> v4_number 172 31 255 255 \<longleftrightarrow> 44048 \<le> x div 65536 \<and> x div 65536 \<le> 44063"
    "v4_number 192 168 0 0 \<le> x \<and> x \<le> v4_number 192 168 255 255 \<longleftrightarrow> x div 65536 = 49320"
  by (simp_all add: v4_number_def) linarith+

lemma two_bytes_eq:
  fixes A B p q :: nat
  assumes "B < 256" and "q < 256"
  shows "A * 256 + B = p * 256 + q \<longleftrightarrow> A = p \<and> B = q"
proof
  assume e: "A * 256 + B = p * 256 + q"
  then have "A \<le> p" "p \<le> A" using assms by linarith+
  then show "A = p \<and> B = q" using e by simp
qed simp

lemma two_bytes:
  fixes A B :: nat
  assumes "B < 256"
  shows "A * 256 + B = 43518 \<longleftrightarrow> A = 169 \<and> B = 254" "A * 256 + B = 49320 \<longleftrightarrow> A = 192 \<and> B = 168"
    "44048 \<le> A * 256 + B \<and> A * 256 + B \<le> 44063 \<longleftrightarrow> A = 172 \<and> 16 \<le> B \<and> B \<le> 31"
proof -
  show "A * 256 + B = 43518 \<longleftrightarrow> A = 169 \<and> B = 254" using two_bytes_eq [OF assms, of 254 A 169] by simp
  show "A * 256 + B = 49320 \<longleftrightarrow> A = 192 \<and> B = 168" using two_bytes_eq [OF assms, of 168 A 192] by simp
  show "44048 \<le> A * 256 + B \<and> A * 256 + B \<le> 44063 \<longleftrightarrow> A = 172 \<and> 16 \<le> B \<and> B \<le> 31"
  proof
    assume a: "44048 \<le> A * 256 + B \<and> A * 256 + B \<le> 44063"
    then have "A \<le> 172" "A \<ge> 172" using assms by linarith+
    then have "A = 172" by simp
    then show "A = 172 \<and> 16 \<le> B \<and> B \<le> 31" using a by simp
  qed simp
qed

lemma check_v4_iff:
  "check_v4 a b c d = None \<longleftrightarrow> \<not> list_ex (\<lambda>(lo, hi). lo \<le> v4_number a b c d \<and> v4_number a b c d \<le> hi) internal_ranges"
proof -
  have eq: "x = n \<longleftrightarrow> unat x = unat n" for x n :: u8 by (simp add: word_unat_eq_iff)
  have zero: "v4_number a b c d = 0 \<longleftrightarrow> unat a = 0 \<and> unat b = 0 \<and> unat c = 0 \<and> unat d = 0"
    by (simp add: v4_number_def)
  show ?thesis
    unfolding internal_ranges_def list_ex_iff list.set ball_simps bex_simps prod.case number_ranges v4_number_div two_bytes [OF unat_byte] zero
    unfolding check_v4_def and_F0 unfolding eq by auto
qed

text \<open>An IPv4 address embedded in the IPv4-mapped IPv6 block.\<close>

definition mapped :: "u8 \<Rightarrow> u8 \<Rightarrow> u8 \<Rightarrow> u8 \<Rightarrow> ip_addr" where
  "mapped a b c d = V6 0 0 0 0 0 0xFFFF (push_bit 8 (ucast a) OR ucast b) (push_bit 8 (ucast c) OR ucast d)"

lemma seg_bytes [simp]:
  "seg_hi (push_bit 8 (ucast a) OR ucast b) = a" "seg_lo (push_bit 8 (ucast a) OR ucast b) = b"
  unfolding seg_hi_def seg_lo_def
  by (rule bit_word_eqI; auto simp: bit_simps dest: bit_imp_le_length)+

text \<open>Fact: the SSRF guard on addresses. An IPv4 address passes exactly when its number lies in none of the
  internal ranges (unspecified, 10/8, 127/8, 169.254/16, 172.16/12, 192.168/16; the metadata address is in one of
  them), and writing it as an IPv4-mapped IPv6 address changes nothing.\<close>

theorem ssrf_v4_exact:
  "(ssrf_check_ip (V4 a b c d) = None \<longleftrightarrow>
      \<not> list_ex (\<lambda>(lo, hi). lo \<le> v4_number a b c d \<and> v4_number a b c d \<le> hi) internal_ranges) \<and>
   ssrf_check_ip (mapped a b c d) = ssrf_check_ip (V4 a b c d)"
  by (simp add: ssrf_check_ip_def check_v6_def check_v4_iff mapped_def)

lemma ssrf_loop_Inr:
  "ssrf_loop f addrs = Inr ip \<longleftrightarrow> list_all (\<lambda>a. ssrf_check_ip a = None) addrs \<and>
     (case f of Some g \<Rightarrow> ip = g | None \<Rightarrow> addrs \<noteq> [] \<and> ip = hd addrs)"
  by (induction addrs arbitrary: f) (auto split: option.splits)

text \<open>Fact: resolve-then-check. A host is accepted exactly when it resolves, to at least one address, and every
  resolved address passes the guard; the address returned is the first. One internal address among public ones
  refuses the host.\<close>

theorem ssrf_check_iff:
  "ssrf_check resolve host = Inr ip \<longleftrightarrow>
     (\<exists>addrs. resolve host = Some addrs \<and> addrs \<noteq> [] \<and> ip = hd addrs \<and>
        list_all (\<lambda>a. ssrf_check_ip a = None) addrs)"
  by (auto simp: ssrf_check_def ssrf_loop_Inr split: option.splits)

end
