(* ===== verification/Canary.thy ===== *)
theory Canary
  imports Config
begin

text \<open>
  \<^verbatim>\<open>crates/apohara-agentguard/src/hook/canary.rs\<close>: the per-session sentinel. The files of the temporary directory are a map
  from paths to contents; SHA-256, the process id, the counter, the clock and the outcome of the write are parameters.
\<close>

definition TOKEN_HEX_LEN :: nat where "TOKEN_HEX_LEN = 32"

definition canary_dir :: "string option \<Rightarrow> string" where
  "canary_dir tmpdir = path_join (case tmpdir of Some t \<Rightarrow> t | None \<Rightarrow> ''/tmp'') ''agentguard''"

definition token_path :: "string option \<Rightarrow> string \<Rightarrow> string option" where
  "token_path tmpdir sid = (if sid = [] then None else Some (path_join (canary_dir tmpdir) (''canary-'' @ sid)))"

definition is_ascii_hexdigit :: "char \<Rightarrow> bool" where
  "is_ascii_hexdigit c = (is_ascii_digit c \<or> (65 \<le> code c \<and> code c \<le> 70) \<or> (97 \<le> code c \<and> code c \<le> 102))"

definition read_token :: "string option \<Rightarrow> (string \<rightharpoonup> string) \<Rightarrow> string \<Rightarrow> string option" where
  "read_token tmpdir files sid = (case token_path tmpdir sid of
       None \<Rightarrow> None
     | Some path \<Rightarrow> (case files path of
           None \<Rightarrow> None
         | Some raw \<Rightarrow>
             (let token = trim raw in
              if length token \<ge> TOKEN_HEX_LEN \<and> list_all is_ascii_hexdigit token then Some token else None)))"

definition generate_token :: "(string \<Rightarrow> string) \<Rightarrow> nat \<Rightarrow> nat \<Rightarrow> nat \<Rightarrow> string \<Rightarrow> string" where
  "generate_token sha256 pid counter nanos sid =
     (let digest = sha256 (le_bytes 4 pid @ sid @ le_bytes 8 counter @ le_bytes 16 nanos)
      in hex_encode (take (TOKEN_HEX_LEN div 2) digest))"

definition persist_token :: "string option \<Rightarrow> bool \<Rightarrow> string \<Rightarrow> string \<Rightarrow> (string \<rightharpoonup> string) \<Rightarrow> (string \<rightharpoonup> string)" where
  "persist_token tmpdir ok sid token files = (case token_path tmpdir sid of
       None \<Rightarrow> files
     | Some path \<Rightarrow> if ok then files(path \<mapsto> token) else files)"

definition emit_token :: "(string \<Rightarrow> string) \<Rightarrow> nat \<Rightarrow> nat \<Rightarrow> nat \<Rightarrow> string option \<Rightarrow> bool \<Rightarrow> string
    \<Rightarrow> (string \<rightharpoonup> string) \<Rightarrow> string \<times> (string \<rightharpoonup> string)" where
  "emit_token sha256 pid counter nanos tmpdir ok sid files =
     (let token = generate_token sha256 pid counter nanos sid
      in (token, persist_token tmpdir ok sid token files))"

section \<open>Properties\<close>

lemma hex_char_hexdigit: "n < 16 \<Longrightarrow> is_ascii_hexdigit (hex_char n)"
  by (auto simp: hex_char_def is_ascii_hexdigit_def is_ascii_digit_def code_char_of_small)

lemma hexdigit_solid: "is_ascii_hexdigit c \<Longrightarrow> ascii c \<and> \<not> ws1 c"
  by (auto simp: is_ascii_hexdigit_def is_ascii_digit_def ws1_def)

lemma hex_byte_hexdigits: "list_all is_ascii_hexdigit (hex_byte b)"
proof -
  have "code b div 16 < 16" by (rule less_mult_imp_div_less) simp
  then show ?thesis by (simp add: hex_byte_def hex_char_hexdigit)
qed

lemma hex_bytes_hexdigits: "list_all is_ascii_hexdigit (hex_encode bs)"
  using hex_byte_hexdigits by (auto simp: hex_encode_def list_all_iff)

lemma token_path_inj: "token_path tmpdir a = Some p \<Longrightarrow> token_path tmpdir b = Some p \<Longrightarrow> a = b"
  by (auto simp: token_path_def path_join_def split: if_splits)

text \<open>Fact: the sentinel of a session survives to the scanner. After a successful write, the scanner reads back exactly
  the emitted token, 32 lower-case hexadecimal digits long, and the tokens of all other sessions are untouched.\<close>

theorem canary_roundtrip:
  assumes "sid \<noteq> []" and "\<forall>x. length (sha256 x) = 32"
    and "emit_token sha256 pid counter nanos tmpdir True sid files = (token, files')"
  shows "read_token tmpdir files' sid = Some token \<and> length token = 32 \<and>
         (\<forall>other. other \<noteq> sid \<longrightarrow> read_token tmpdir files' other = read_token tmpdir files other)"
proof (intro conjI allI impI)
  obtain p where p: "token_path tmpdir sid = Some p" using assms(1) by (simp add: token_path_def)
  have t: "token = generate_token sha256 pid counter nanos sid" and f: "files' = files(p \<mapsto> token)"
    using assms(3) p by (auto simp: emit_token_def persist_token_def Let_def)
  show len: "length token = 32"
    using assms(2) by (simp add: t generate_token_def Let_def length_hex_encode TOKEN_HEX_LEN_def)
  have hex: "list_all is_ascii_hexdigit token"
    by (simp add: t generate_token_def Let_def hex_bytes_hexdigits)
  then have "solid_token token" using hexdigit_solid by (auto simp: solid_token_def list_all_iff)
  then have "trim token = token" by (rule trim_token)
  then show "read_token tmpdir files' sid = Some token"
    using p f len hex by (simp add: read_token_def TOKEN_HEX_LEN_def)
  show "read_token tmpdir files' other = read_token tmpdir files other" if "other \<noteq> sid" for other
  proof (cases "token_path tmpdir other")
    case (Some q)
    then have "q \<noteq> p" using p that token_path_inj by blast
    then show ?thesis using Some f by (simp add: read_token_def)
  qed (simp add: read_token_def)
qed

theorem canary_roundtrip_witness:
  "\<exists>token files'. emit_token (\<lambda>_. replicate 32 CHR ''Z'') 7 0 5 None True ''s1'' Map.empty = (token, files') \<and>
     read_token None files' ''s1'' = Some token \<and> length token = 32"
proof -
  obtain token files' where e:
    "emit_token (\<lambda>_. replicate 32 CHR ''Z'') 7 0 5 None True ''s1'' Map.empty = (token, files')"
    by (cases "emit_token (\<lambda>_. replicate 32 CHR ''Z'') 7 0 5 None True ''s1'' Map.empty") auto
  then show ?thesis using canary_roundtrip [OF _ _ e] by auto
qed

end
