(* ===== verification/AuditLog.thy ===== *)
theory AuditLog
  imports Config Contract
begin

text \<open>
  \<^verbatim>\<open>crates/apohara-agentguard/src/audit.rs\<close>, \<^verbatim>\<open>secrets.rs\<close> and the audit part of \<^verbatim>\<open>hook/mod.rs\<close>: which decisions are recorded,
  what of the command survives, and how secrets are masked. A log is the list of the records written; the clock and
  the outcome of the write are parameters.
\<close>

section \<open>Secret names\<close>

definition to_ascii_upper :: "char \<Rightarrow> char" where
  "to_ascii_upper c = (if 97 \<le> code c \<and> code c \<le> 122 then char_of (code c - 32) else c)"

definition secret_suffixes :: "string list" where
  "secret_suffixes = [''_API_KEY'', ''_KEY'', ''_TOKEN'', ''_SECRET'', ''_PASSWORD'', ''_PASSWD'',
     ''KEY'', ''TOKEN'', ''SECRET'', ''PASSWORD'', ''PASSWD'']"

definition secret_prefixes :: "string list" where
  "secret_prefixes = [''ANTHROPIC_'', ''OPENAI_'', ''AWS_'', ''GCP_'', ''AZURE_'', ''GITHUB_'', ''GITLAB_'', ''STRIPE_'']"

definition is_secret_name :: "string \<Rightarrow> bool" where
  "is_secret_name name =
     (let up = map to_ascii_upper name in
      list_ex (\<lambda>p. prefix p up) secret_prefixes \<or> list_ex (\<lambda>s. suffix s up) secret_suffixes \<or>
      up \<in> set [''GITHUB_TOKEN'', ''GH_TOKEN'', ''NPM_TOKEN'', ''DATABASE_URL'', ''REDIS_URL''])"

section \<open>Redaction\<close>

definition is_quote :: "char \<Rightarrow> bool" where
  "is_quote c = (c = dquote \<or> c = squote)"

text \<open>The leading quote, the body and the trailing quote of a token.\<close>

definition peel_quotes :: "string \<Rightarrow> string \<times> string \<times> string" where
  "peel_quotes token =
     (let lead = (token \<noteq> [] \<and> is_quote (hd token));
          trail = (length token > (if lead then 1 else 0) \<and> token \<noteq> [] \<and> is_quote (last token));
          st = (if lead then 1 else 0);
          en = (if trail then length token - 1 else length token)
      in (take st token, take (en - st) (drop st token), drop en token))"

definition mask_authorization :: "string \<Rightarrow> bool \<Rightarrow> (string \<times> bool) option" where
  "mask_authorization body awaiting =
     (if prefix ''authorization:'' (to_ascii_lowercase body) then
        (let head = take 14 body; tail = trim_start (drop 14 body) in
         if tail = [] then Some (head @ '' '', True)
         else if prefix ''Bearer '' tail \<or> prefix ''bearer '' tail then Some (head @ '' Bearer ***'', awaiting)
         else Some (head @ '' ***'', awaiting))
      else None)"

definition mask_password_flag :: "string \<Rightarrow> string option" where
  "mask_password_flag body =
     (if prefix ''--password='' body \<and> length body > 11 then Some ''--password=***''
      else (case strip_prefix ''-p'' body of
          Some val \<Rightarrow> if val \<noteq> [] \<and> \<not> prefix ''-'' val then Some ''-p***'' else None
        | None \<Rightarrow> None))"

text \<open>\<^verbatim>\<open>name.rsplit(char::is_whitespace).next()\<close> is the whole name: a token contains no white space.\<close>

definition mask_secret_assignment :: "string \<Rightarrow> string option" where
  "mask_secret_assignment body =
     (case find_char CHR ''='' body of
        None \<Rightarrow> None
      | Some e \<Rightarrow>
          (let name = take e body; value = drop (e + 1) body in
           if name = [] \<or> value = [] then None
           else if is_secret_name name then Some (name @ ''=***'') else None))"

definition mask_token :: "string \<Rightarrow> bool \<Rightarrow> string \<times> bool" where
  "mask_token token awaiting =
     (case peel_quotes token of (open_q, body, close_q) \<Rightarrow>
        (case mask_authorization body awaiting of
           Some (masked, aw) \<Rightarrow> (open_q @ masked @ close_q, aw)
         | None \<Rightarrow>
             if awaiting then
               (if to_ascii_lowercase body = ''bearer'' then (open_q @ body @ close_q, awaiting)
                else (open_q @ ''***'' @ close_q, False))
             else (case mask_password_flag body of
                 Some masked \<Rightarrow> (open_q @ masked @ close_q, awaiting)
               | None \<Rightarrow> (case mask_secret_assignment body of
                     Some masked \<Rightarrow> (open_q @ masked @ close_q, awaiting)
                   | None \<Rightarrow> (token, awaiting)))))"

lemma token_rest_less:
  assumes "(t, r') = take_token (trim_start rest)" and "trim_start rest \<noteq> []"
  shows "length r' < length rest"
proof -
  have "length r' < length (trim_start rest)"
    using take_token_rest_less [of "trim_start rest"] assms by (metis snd_conv ws_len_trim_start)
  also have "\<dots> \<le> length rest" by (rule suffix_length_le [OF suffix_trim_start])
  finally show ?thesis .
qed

function redact_go :: "bool \<Rightarrow> string \<Rightarrow> string" where
  "redact_go awaiting rest =
     (if rest = [] then []
      else
        (let ws = take (length rest - length (trim_start rest)) rest; r = trim_start rest in
         if r = [] then ws
         else (case take_token r of (token, r') \<Rightarrow>
                (case mask_token token awaiting of (m, aw) \<Rightarrow> ws @ m @ redact_go aw r'))))"
  by pat_completeness auto
termination
  by (relation "measure (\<lambda>(aw, rest). length rest)") (auto intro: token_rest_less)

declare redact_go.simps [simp del]

definition redact_secrets :: "string \<Rightarrow> string" where
  "redact_secrets t = redact_go False t"

section \<open>Records\<close>

definition MAX_COMMAND_BYTES :: nat where "MAX_COMMAND_BYTES = 512"

definition truncate_bytes :: "string \<Rightarrow> nat \<Rightarrow> string" where
  "truncate_bytes s mx = (if length s \<le> mx then s else take (floor_boundary s mx) s)"

record audit_record =
  ar_timestamp :: u64
  ar_event :: string
  ar_decision :: string
  ar_rule_id :: "string option"
  ar_category :: "string option"
  ar_surface :: "string option"
  ar_command :: "string option"

type_synonym audit_log = "(string \<times> audit_record) list"

definition logged_command :: "audit_config \<Rightarrow> string option \<Rightarrow> string option" where
  "logged_command cfg command = (case (aud_include_command cfg, command) of
       (True, Some cmd) \<Rightarrow> Some (truncate_bytes (redact_secrets cmd) MAX_COMMAND_BYTES)
     | _ \<Rightarrow> None)"

text \<open>One record appended at the configured path; \<open>ok\<close> is the outcome of the write, whose failure is only reported.\<close>

definition record_audit :: "bool \<Rightarrow> audit_config \<Rightarrow> audit_record \<Rightarrow> audit_log \<Rightarrow> audit_log" where
  "record_audit ok cfg rec log =
     (if \<not> aud_enabled cfg then log
      else (case aud_path cfg of
          None \<Rightarrow> log
        | Some path \<Rightarrow>
            if ok then log @ [(path, rec\<lparr>ar_command := logged_command cfg (ar_command rec)\<rparr>)] else log))"

definition audit_decision_str :: "tier \<Rightarrow> string option" where
  "audit_decision_str t = (case t of
       Block \<Rightarrow> Some ''block'' | Warn \<Rightarrow> Some ''warn'' | Ask \<Rightarrow> Some ''ask'' | Allow \<Rightarrow> None)"

definition parse_rule_label :: "string \<Rightarrow> string option \<times> string option" where
  "parse_rule_label reason =
     (let firewall_shape =
            (case strip_prefix ''firewall rule '' reason of
               Some rest \<Rightarrow> (first_token rest, Some ''firewall'')
             | None \<Rightarrow> (None, None))
      in case rfind_char CHR ''['' reason of
           None \<Rightarrow> firewall_shape
         | Some op \<Rightarrow> (case find_char CHR '']'' (drop op reason) of
               None \<Rightarrow> firewall_shape
             | Some close \<Rightarrow>
                 (Some (take (close - 1) (drop (op + 1) reason)),
                  (case rfind_char CHR ''('' (take op reason) of
                     None \<Rightarrow> None
                   | Some p \<Rightarrow>
                       (let c = trim (drop (p + 1) (take op reason)) in if c \<noteq> [] then Some c else None)))))"

text \<open>The event, the surface and the command text that are audited for an input.\<close>

definition audit_subject :: "hook_input \<Rightarrow> (string \<times> string option \<times> string option) option" where
  "audit_subject i =
     (let event = hook_event_name i; tool = (case tool_name i of Some t \<Rightarrow> t | None \<Rightarrow> []) in
      if event = ''PreToolUse'' \<and> tool = ''Bash'' then Some (''gate'', None, bash_command i)
      else if event = ''PreToolUse'' \<and> tool = ''Read'' then Some (''firewall'', Some ''read_file'', file_path i)
      else if event = ''PreToolUse'' \<and> (tool = ''Write'' \<or> tool = ''Edit'') then
        Some (''firewall'', Some ''path_guard'', file_path i)
      else if event = ''PreToolUse'' \<and> tool = ''WebFetch'' then Some (''firewall'', Some ''web_fetch'', web_url i)
      else if event = ''PreToolUse'' \<and> tool = ''WebSearch'' then Some (''firewall'', Some ''web_search'', web_query i)
      else if event = ''PostToolUse'' \<and> tool = ''Bash'' then Some (''firewall'', Some ''bash_stdout'', None)
      else if event = ''UserPromptSubmit'' then Some (''firewall'', Some ''user_prompt'', None)
      else None)"

definition audit_decision :: "u64 \<Rightarrow> bool \<Rightarrow> hook_input \<Rightarrow> verdict \<Rightarrow> config \<Rightarrow> audit_log \<Rightarrow> audit_log" where
  "audit_decision now ok i v cfg log =
     (if \<not> aud_enabled (audit cfg) then log
      else (case audit_decision_str (v_tier v) of
          None \<Rightarrow> log
        | Some decision \<Rightarrow> (case audit_subject i of
              None \<Rightarrow> log
            | Some (event, surf, command) \<Rightarrow>
                (case parse_rule_label (v_reason v) of (rule_id, cat) \<Rightarrow>
                   record_audit ok (audit cfg)
                     \<lparr>ar_timestamp = now, ar_event = event, ar_decision = decision, ar_rule_id = rule_id,
                      ar_category = cat, ar_surface = surf, ar_command = command\<rparr> log))))"

section \<open>Redaction works token by token\<close>

fun mask_all :: "bool \<Rightarrow> string list \<Rightarrow> string list" where
  "mask_all aw [] = []"
| "mask_all aw (t # ts) = fst (mask_token t aw) # mask_all (snd (mask_token t aw)) ts"

lemma length_mask_all [simp]: "length (mask_all aw ts) = length ts"
  by (induction ts arbitrary: aw) auto

lemma mask_all_append:
  "mask_all aw (xs @ ys) = mask_all aw xs @ mask_all (foldl (\<lambda>aw t. snd (mask_token t aw)) aw xs) ys"
  by (induction xs arbitrary: aw) auto

definition solid_tokens :: "string list \<Rightarrow> bool" where
  "solid_tokens ts = list_all (\<lambda>t. solid_token t \<and> t \<noteq> []) ts"

lemma redact_go_token:
  assumes "solid_token t" and "t \<noteq> []"
  shows "redact_go aw t = fst (mask_token t aw)"
    and "redact_go aw (t @ CHR '' '' # s) = fst (mask_token t aw) @ redact_go (snd (mask_token t aw)) (CHR '' '' # s)"
  using trim_start_token [OF assms, of "[]"] trim_start_token [OF assms, of "CHR '' '' # s"] assms
  by (simp_all add: redact_go.simps [of aw t] redact_go.simps [of aw "t @ CHR '' '' # s"] take_token_solid
      redact_go.simps [of _ "[]"] case_prod_beta)

lemma redact_go_space:
  assumes "solid_token t" and "t \<noteq> []"
  shows "redact_go aw (CHR '' '' # t @ s) = CHR '' '' # redact_go aw (t @ s)"
proof -
  have "trim_start (t @ s) = t @ s" by (rule trim_start_token [OF assms])
  moreover have "trim_start (CHR '' '' # t @ s) = trim_start (t @ s)" by (simp add: trim_start_ascii ws1_def)
  ultimately show ?thesis
    using assms(2) by (simp add: redact_go.simps [of aw "CHR '' '' # t @ s"] redact_go.simps [of aw "t @ s"] case_prod_beta
        Let_def)
qed

lemma redact_tokens:
  "solid_tokens ts \<Longrightarrow> redact_go aw (join_with '' '' ts) = join_with '' '' (mask_all aw ts)"
proof (induction ts arbitrary: aw rule: induct_list012)
  case 1
  then show ?case by (simp add: redact_go.simps [of _ "[]"])
next
  case (2 t)
  then show ?case by (simp add: solid_tokens_def redact_go_token)
next
  case (3 t u ts)
  then have t: "solid_token t" "t \<noteq> []" and u: "solid_token u" "u \<noteq> []" and r: "solid_tokens (u # ts)"
    by (simp_all add: solid_tokens_def)
  obtain w where w: "join_with '' '' (u # ts) = u @ w" by (cases ts) auto
  have "redact_go aw (join_with '' '' (t # u # ts)) =
      fst (mask_token t aw) @ redact_go (snd (mask_token t aw)) (CHR '' '' # u @ w)"
    using redact_go_token(2) [OF t, of aw "u @ w"] w by simp
  also have "\<dots> = fst (mask_token t aw) @ CHR '' '' # redact_go (snd (mask_token t aw)) (join_with '' '' (u # ts))"
    using redact_go_space [OF u] w by simp
  also have "\<dots> = join_with '' '' (mask_all aw (t # u # ts))"
    using "3.IH"(2) [OF r] by simp
  finally show ?case .
qed

section \<open>Secret assignments are masked\<close>

definition name_char :: "char \<Rightarrow> bool" where
  "name_char c = (is_ascii_alphanumeric c \<or> c = CHR ''_'')"

lemma name_char_facts:
  "name_char c \<Longrightarrow> c \<noteq> CHR ''='' \<and> c \<noteq> CHR '':'' \<and> c \<noteq> CHR ''-'' \<and> \<not> is_quote c \<and> ascii c \<and> \<not> ws1 c \<and>
     to_ascii_lower c \<noteq> CHR '':''"
proof -
  assume n: "name_char c"
  have "code (to_ascii_lower c) = (if 65 \<le> code c \<and> code c \<le> 90 then code c + 32 else code c)"
    by (simp add: to_ascii_lower_def code_char_of_small)
  then have "to_ascii_lower c \<noteq> CHR '':''"
    using n by (auto simp: name_char_def is_ascii_alphanumeric_def is_ascii_alphabetic_def is_ascii_digit_def split: if_splits)
  then show ?thesis
    using n by (auto simp: name_char_def is_ascii_alphanumeric_def is_ascii_alphabetic_def is_ascii_digit_def
        is_quote_def ws1_def)
qed

lemma no_authorization:
  assumes "list_all name_char name"
  shows "\<not> prefix ''authorization:'' (to_ascii_lowercase (name @ ''='' @ value))"
proof
  let ?t = "to_ascii_lowercase (name @ ''='' @ value)"
  assume p: "prefix ''authorization:'' ?t"
  then have nth: "?t ! k = ''authorization:'' ! k" if "k < 14" for k
  proof -
    obtain zs where "?t = ''authorization:'' @ zs" using p by (blast elim: prefixE)
    then show ?thesis using that by (simp only: nth_append) simp
  qed
  have low: "?t ! k = to_ascii_lower (name ! k)" if "k < length name" for k
    using that by (simp add: to_ascii_lowercase_def nth_append)
  show False
  proof (cases "13 < length name")
    case True
    then have "to_ascii_lower (name ! 13) = CHR '':''" using nth [of 13] low by simp
    then show False using True assms name_char_facts by (auto simp: list_all_length)
  next
    case False
    then have k: "length name < 14" by simp
    have "?t ! length name = CHR ''=''" by (simp add: to_ascii_lowercase_def to_ascii_lower_def nth_append)
    moreover have "''authorization:'' ! length name \<in> set ''authorization:''" by (rule nth_mem) (use k in simp)
    ultimately have "CHR ''='' \<in> set ''authorization:''" unfolding nth [OF k, symmetric] by metis
    then show False by simp
  qed
qed

lemma mask_token_assignment:
  assumes "list_all name_char name" and "name \<noteq> []" and "is_secret_name name" and "value \<noteq> []" and "\<not> is_quote (last value)"
  shows "mask_token (name @ ''='' @ value) aw = (if aw then ''***'' else name @ ''=***'', False)"
proof -
  let ?t = "name @ ''='' @ value"
  obtain c cs where c: "name = c # cs" "name_char c" using assms(1,2) by (cases name) auto
  have "\<not> is_quote (hd ?t)" "\<not> is_quote (last ?t)" "?t \<noteq> []"
    using c name_char_facts assms(4,5) by auto
  then have peel: "peel_quotes ?t = ([], ?t, [])" by (simp add: peel_quotes_def)
  have auth: "mask_authorization ?t aw = None"
    using no_authorization [OF assms(1)] by (simp add: mask_authorization_def)
  have "CHR ''='' \<in> set (to_ascii_lowercase ?t)" by (simp add: to_ascii_lowercase_def to_ascii_lower_def)
  then have bearer: "to_ascii_lowercase ?t \<noteq> ''bearer''" by auto
  have "c \<noteq> CHR ''-''" using c name_char_facts by blast
  then have pw: "mask_password_flag ?t = None"
    using c by (simp add: mask_password_flag_def strip_prefix_def)
  have "CHR ''='' \<notin> set name" using assms(1) name_char_facts by (auto simp: list_all_iff)
  then have asg: "mask_secret_assignment ?t = Some (name @ ''=***'')"
    using assms by (simp add: mask_secret_assignment_def find_char_append)
  show ?thesis
    unfolding mask_token_def peel prod.case auth option.case
    using bearer pw asg by (simp del: append_Cons append_assoc)
qed

text \<open>Fact: a secret given as an assignment never reaches the log. In a command of space-separated words, the value of
  \<open>NAME=value\<close> with a secret-shaped name is replaced (together with the name when it follows an authorization header),
  whatever the words before and after; every other word keeps its place.\<close>

theorem secret_assignment_masked:
  assumes "list_all name_char name" and "name \<noteq> []" and "is_secret_name name"
    and "solid_token value" and "value \<noteq> []" and "\<not> is_quote (last value)"
    and "solid_tokens before" and "solid_tokens after"
  shows "\<exists>p q m. redact_secrets (join_with '' '' (before @ [name @ ''='' @ value] @ after)) = join_with '' '' (p @ [m] @ q) \<and>
     m \<in> {''***'', name @ ''=***''} \<and> length p = length before \<and> length q = length after"
proof -
  let ?ts = "before @ [name @ ''='' @ value] @ after"
  have "solid_token (name @ ''='' @ value)"
    using assms(1,4) name_char_facts by (auto simp: solid_token_def list_all_iff ws1_def)
  then have "solid_tokens ?ts" using assms(7,8) by (simp add: solid_tokens_def)
  then have r: "redact_secrets (join_with '' '' ?ts) = join_with '' '' (mask_all False ?ts)"
    by (simp add: redact_secrets_def redact_tokens del: append_Cons)
  let ?aw = "foldl (\<lambda>aw t. snd (mask_token t aw)) False before"
  have "mask_all False ?ts = mask_all False before @
      [fst (mask_token (name @ ''='' @ value) ?aw)] @ mask_all (snd (mask_token (name @ ''='' @ value) ?aw)) after"
    by (simp add: mask_all_append)
  moreover have "fst (mask_token (name @ ''='' @ value) ?aw) \<in> {''***'', name @ ''=***''}"
    using mask_token_assignment [OF assms(1-3,5,6), of ?aw] by simp
  ultimately show ?thesis using r by (metis length_mask_all)
qed

theorem secret_assignment_masked_witness:
  "\<exists>p q m. redact_secrets ''env API_KEY=sk-123 ./run'' = join_with '' '' (p @ [m] @ q) \<and>
     m \<in> {''***'', ''API_KEY=***''} \<and> length p = 1 \<and> length q = 1"
proof -
  have ok: "list_all name_char ''API_KEY''" "is_secret_name ''API_KEY''" "solid_token ''sk-123''" "\<not> is_quote (last ''sk-123'')"
    "solid_tokens [''env'']" "solid_tokens [''./run'']"
    by code_simp+
  have "\<exists>p q m. redact_secrets (join_with '' '' ([''env''] @ [''API_KEY'' @ ''='' @ ''sk-123''] @ [''./run''])) = join_with '' '' (p @ [m] @ q) \<and>
     m \<in> {''***'', ''API_KEY'' @ ''=***''} \<and> length p = length [''env''] \<and> length q = length [''./run'']"
    by (rule secret_assignment_masked) (use ok in simp_all)
  then show ?thesis by simp
qed

text \<open>Fact: two kinds of secret survive redaction. The documented form \<open>--password value\<close> with a space is not masked at
  all, and of a quoted secret value that contains a space only the first word is.\<close>

theorem redaction_leaks:
  "redact_secrets ''mysql --password hunter2'' = ''mysql --password hunter2'' \<and>
   redact_secrets (''API_KEY='' @ dquote # ''alpha bravo'' @ [dquote]) = ''API_KEY=*** bravo'' @ [dquote]"
  by code_simp

section \<open>What is recorded\<close>

text \<open>Fact: auditing is minimal and isolated. A decision adds at most one record to the log; it adds none for an Allow,
  when auditing is off, or without a path; and the record carries command text only after opt-in, at most 512 bytes
  of it, redacted.\<close>

theorem audit_minimal:
  "audit_decision now ok i v cfg log = log \<or>
   (\<exists>path rec. audit_decision now ok i v cfg log = log @ [(path, rec)] \<and> v_tier v \<noteq> Allow \<and>
      aud_enabled (audit cfg) \<and> aud_path (audit cfg) = Some path \<and>
      (case ar_command rec of
         None \<Rightarrow> True
       | Some c \<Rightarrow> aud_include_command (audit cfg) \<and> length c \<le> 512 \<and> (\<exists>cmd. prefix c (redact_secrets cmd))))"
proof -
  have cmd: "case logged_command (audit cfg) c of
         None \<Rightarrow> True
       | Some c \<Rightarrow> aud_include_command (audit cfg) \<and> length c \<le> 512 \<and> (\<exists>cmd. prefix c (redact_secrets cmd))" for c
  proof -
    have "length (truncate_bytes s MAX_COMMAND_BYTES) \<le> 512 \<and> prefix (truncate_bytes s MAX_COMMAND_BYTES) s" for s
      using floor_boundary_le [of s MAX_COMMAND_BYTES]
      by (auto simp: truncate_bytes_def MAX_COMMAND_BYTES_def take_is_prefix)
    then show ?thesis by (auto simp: logged_command_def split: option.split bool.split)
  qed
  have rec: "record_audit ok (audit cfg) r log = log \<or>
      (\<exists>path. record_audit ok (audit cfg) r log = log @ [(path, r\<lparr>ar_command := logged_command (audit cfg) (ar_command r)\<rparr>)] \<and>
         aud_enabled (audit cfg) \<and> aud_path (audit cfg) = Some path)" for r
    by (auto simp: record_audit_def split: option.split)
  have "audit_decision now ok i v cfg log = log \<or>
      v_tier v \<noteq> Allow \<and> (\<exists>r. audit_decision now ok i v cfg log = record_audit ok (audit cfg) r log)"
    by (auto simp: audit_decision_def audit_decision_str_def split: option.split prod.split tier.split)
  then show ?thesis
  proof
    assume "v_tier v \<noteq> Allow \<and> (\<exists>r. audit_decision now ok i v cfg log = record_audit ok (audit cfg) r log)"
    then obtain r where r: "v_tier v \<noteq> Allow" "audit_decision now ok i v cfg log = record_audit ok (audit cfg) r log" by blast
    show ?thesis
      using rec [of r]
    proof
      assume "\<exists>path. record_audit ok (audit cfg) r log = log @ [(path, r\<lparr>ar_command := logged_command (audit cfg) (ar_command r)\<rparr>)] \<and>
         aud_enabled (audit cfg) \<and> aud_path (audit cfg) = Some path"
      then show ?thesis using r cmd [of "ar_command r"] by fastforce
    qed (use r in simp)
  qed simp
qed

end
