(* ===== verification/Pathsafe.thy ===== *)
theory Pathsafe
  imports Prelude
begin

text \<open>
  \<^verbatim>\<open>crates/apohara-agentguard/src/sandbox/pathsafe.rs\<close>, \<^verbatim>\<open>permission.rs\<close>, \<^verbatim>\<open>error.rs\<close> and \<^verbatim>\<open>validate_workdir\<close> of \<^verbatim>\<open>linux/runner.rs\<close>: resolution of a
  path through symbolic links with a budget of hops, and the check that a working directory stays inside the workspace.

  An absolute path is the list of its components. The file system is a parameter: the current directory, whether an existing path is a
  symbolic link (\<^verbatim>\<open>symlink_metadata\<close>), and the text of a link (\<^verbatim>\<open>read_link\<close>); each call can fail with the text of its error.
\<close>

section \<open>Permission tiers and errors\<close>

datatype permission_tier = ReadOnly | WorkspaceWrite | DangerFullAccess

definition tier_as_str :: "permission_tier \<Rightarrow> string" where
  "tier_as_str t = (case t of ReadOnly \<Rightarrow> ''read_only'' | WorkspaceWrite \<Rightarrow> ''workspace_write'' | DangerFullAccess \<Rightarrow> ''danger_full_access'')"

definition tier_from_str :: "string \<Rightarrow> string + permission_tier" where
  "tier_from_str s =
     (if s = ''read_only'' \<or> s = ''readonly'' then Inr ReadOnly
      else if s = ''workspace_write'' then Inr WorkspaceWrite
      else if s = ''danger_full_access'' \<or> s = ''danger'' then Inr DangerFullAccess
      else Inl s)"

datatype sandbox_error = Unavailable | Namespace string | Seccomp string | Landlock string | Workdir string | Runner string

section \<open>Resolution of paths\<close>

type_synonym abs_path = "string list"

record file_system =
  fs_cwd :: "string + abs_path"
  fs_lstat :: "abs_path \<Rightarrow> string + bool"
  fs_read_link :: "abs_path \<Rightarrow> string + string"

datatype seg = SRoot | SParent | SNormal string

definition is_absolute :: "string \<Rightarrow> bool" where
  "is_absolute p \<longleftrightarrow> prefix ''/'' p"

definition comp_seg :: "string \<Rightarrow> seg option" where
  "comp_seg c = (if c = [] \<or> c = ''.'' then None else if c = ''..'' then Some SParent else Some (SNormal c))"

definition to_segs :: "string \<Rightarrow> seg list" where
  "to_segs p = (if is_absolute p then [SRoot] else []) @ List.map_filter comp_seg (split_on CHR ''/'' p)"

definition MAX_SYMLINK_HOPS :: nat where "MAX_SYMLINK_HOPS = 40"

definition eloop :: "string \<Rightarrow> string" where
  "eloop path = ''ELOOP: more than '' @ show_nat MAX_SYMLINK_HOPS @ '' symlinks while resolving '' @ path"

function canon_loop :: "file_system \<Rightarrow> string \<Rightarrow> nat \<Rightarrow> abs_path \<Rightarrow> seg list \<Rightarrow> string + abs_path" where
  "canon_loop fs path hops resolved [] = Inr resolved"
| "canon_loop fs path hops resolved (SRoot # pending) = canon_loop fs path hops [] pending"
| "canon_loop fs path hops resolved (SParent # pending) = canon_loop fs path hops (butlast resolved) pending"
| "canon_loop fs path hops resolved (SNormal name # pending) =
     (let candidate = resolved @ [name]
      in case fs_lstat fs candidate of
           Inl e \<Rightarrow> Inl e
         | Inr is_symlink \<Rightarrow>
             if is_symlink then
               (if hops + 1 > MAX_SYMLINK_HOPS then Inl (eloop path)
                else (case fs_read_link fs candidate of
                    Inl e \<Rightarrow> Inl e
                  | Inr target \<Rightarrow> canon_loop fs path (hops + 1) (if is_absolute target then [] else resolved) (to_segs target @ pending)))
             else canon_loop fs path hops candidate pending)"
  by pat_completeness auto
termination
  by (relation "measures [\<lambda>(fs, path, hops, resolved, pending). MAX_SYMLINK_HOPS - hops, \<lambda>(fs, path, hops, resolved, pending). length pending]") auto

definition canonicalize_recursive :: "file_system \<Rightarrow> string \<Rightarrow> string + abs_path" where
  "canonicalize_recursive fs path =
     (case (if is_absolute path then Inr [] else fs_cwd fs) of
        Inl e \<Rightarrow> Inl e
      | Inr resolved \<Rightarrow> canon_loop fs path 0 resolved (to_segs path))"

definition is_strict_descendant :: "abs_path \<Rightarrow> abs_path \<Rightarrow> bool" where
  "is_strict_descendant child root = (if child = root then False else prefix root child)"

definition path_text :: "abs_path \<Rightarrow> string" where
  "path_text p = (if p = [] then ''/'' else concat (map (\<lambda>c. CHR ''/'' # c) p))"

definition validate_workdir :: "file_system \<Rightarrow> string \<Rightarrow> string \<Rightarrow> sandbox_error + abs_path" where
  "validate_workdir fs workdir workspace_root =
     (case canonicalize_recursive fs workspace_root of
        Inl e \<Rightarrow> Inl (Workdir (''cannot canonicalize workspace_root '' @ workspace_root @ '': '' @ e))
      | Inr root \<Rightarrow> (case canonicalize_recursive fs workdir of
            Inl e \<Rightarrow> Inl (Workdir (''cannot canonicalize workdir '' @ workdir @ '': '' @ e))
          | Inr work \<Rightarrow>
              if work \<noteq> root \<and> \<not> is_strict_descendant work root then
                Inl (Workdir (''workdir escapes workspace_root: workdir='' @ path_text work @ '' root='' @ path_text root))
              else Inr work))"

section \<open>The specification of resolution\<close>

text \<open>How the kernel walks a path, without a budget: \<open>resolves fs d segs k p\<close> holds when following \<open>segs\<close> from the directory \<open>d\<close> ends in \<open>p\<close>
  after \<open>k\<close> symbolic links.\<close>

inductive resolves :: "file_system \<Rightarrow> abs_path \<Rightarrow> seg list \<Rightarrow> nat \<Rightarrow> abs_path \<Rightarrow> bool" for fs where
  here: "resolves fs d [] 0 d"
| root: "resolves fs [] segs k p \<Longrightarrow> resolves fs d (SRoot # segs) k p"
| parent: "resolves fs (butlast d) segs k p \<Longrightarrow> resolves fs d (SParent # segs) k p"
| plain: "fs_lstat fs (d @ [n]) = Inr False \<Longrightarrow> resolves fs (d @ [n]) segs k p \<Longrightarrow> resolves fs d (SNormal n # segs) k p"
| link: "fs_lstat fs (d @ [n]) = Inr True \<Longrightarrow> fs_read_link fs (d @ [n]) = Inr t \<Longrightarrow>
    resolves fs (if is_absolute t then [] else d) (to_segs t @ segs) k p \<Longrightarrow> resolves fs d (SNormal n # segs) (Suc k) p"

inductive_simps resolves_simps [simp]:
  "resolves fs d [] k p" "resolves fs d (SRoot # segs) k p" "resolves fs d (SParent # segs) k p"

inductive_simps resolves_Normal: "resolves fs d (SNormal n # segs) k p"

lemma resolves_functional: "resolves fs d segs k p \<Longrightarrow> resolves fs d segs k' p' \<Longrightarrow> k' = k \<and> p' = p"
proof (induction arbitrary: k' p' rule: resolves.induct)
  case (link d n t segs k p)
  from link.prems link.hyps(1,2) obtain k'' where "k' = Suc k''"
    "resolves fs (if is_absolute t then [] else d) (to_segs t @ segs) k'' p'" by (auto simp: resolves_Normal)
  with link.IH show ?case by blast
qed (auto simp: resolves_Normal)

lemma canon_loop_iff:
  assumes "hops \<le> MAX_SYMLINK_HOPS"
  shows "canon_loop fs path hops d segs = Inr p \<longleftrightarrow> (\<exists>k. hops + k \<le> MAX_SYMLINK_HOPS \<and> resolves fs d segs k p)"
  using assms
proof (induction fs path hops d segs rule: canon_loop.induct)
  case (4 fs path hops d n segs)
  show ?case
  proof (cases "fs_lstat fs (d @ [n])")
    case (Inr b)
    show ?thesis
    proof (cases b)
      case True
      show ?thesis
      proof (cases "hops = MAX_SYMLINK_HOPS \<or> (\<exists>e. fs_read_link fs (d @ [n]) = Inl e)")
        case False
        then obtain t where t: "fs_read_link fs (d @ [n]) = Inr t" "Suc hops \<le> MAX_SYMLINK_HOPS"
          using 4(3) by (cases "fs_read_link fs (d @ [n])") auto
        have "canon_loop fs path hops d (SNormal n # segs) = Inr p \<longleftrightarrow>
            (\<exists>k. Suc hops + k \<le> MAX_SYMLINK_HOPS \<and> resolves fs (if is_absolute t then [] else d) (to_segs t @ segs) k p)"
          using 4(1)[OF refl Inr True _ t(1)] Inr True t by (simp add: Let_def)
        also have "\<dots> \<longleftrightarrow> (\<exists>k. hops + k \<le> MAX_SYMLINK_HOPS \<and> resolves fs d (SNormal n # segs) k p)"
          using Inr True t by (auto simp: resolves_Normal intro: exI [of _ "Suc _"])
        finally show ?thesis .
      qed (use Inr True 4(3) in \<open>auto simp: resolves_Normal Let_def\<close>)
    qed (use Inr 4 in \<open>auto simp: resolves_Normal Let_def\<close>)
  qed (auto simp: resolves_Normal)
qed auto

section \<open>Canonical paths\<close>

text \<open>A component as the kernel has it, and a path none of whose prefixes is a symbolic link.\<close>

definition proper_name :: "string \<Rightarrow> bool" where
  "proper_name c \<longleftrightarrow> c \<noteq> [] \<and> c \<noteq> ''.'' \<and> c \<noteq> ''..'' \<and> CHR ''/'' \<notin> set c"

definition link_free :: "file_system \<Rightarrow> abs_path \<Rightarrow> bool" where
  "link_free fs p \<longleftrightarrow> list_all proper_name p \<and> list_all (\<lambda>q. q = [] \<or> fs_lstat fs q = Inr False) (prefixes p)"

lemma link_free_Nil [simp]: "link_free fs []"
  by (simp add: link_free_def)

lemma link_free_snoc [simp]: "link_free fs (p @ [n]) \<longleftrightarrow> link_free fs p \<and> proper_name n \<and> fs_lstat fs (p @ [n]) = Inr False"
  by (auto simp: link_free_def prefixes_snoc)

lemma link_free_butlast: "link_free fs p \<Longrightarrow> link_free fs (butlast p)"
  by (cases p rule: rev_cases) auto

lemma split_on_parts: "c \<in> set (split_on d s) \<Longrightarrow> d \<notin> set c"
proof (induction d s arbitrary: c rule: split_on.induct)
  case (2 d ch s)
  then show ?case by (cases "split_on d s") (auto split: if_splits)
qed simp

lemma to_segs_proper: "SNormal n \<in> set (to_segs p) \<Longrightarrow> proper_name n"
  using split_on_parts by (fastforce simp: to_segs_def set_map_filter_Some comp_seg_def proper_name_def split: if_splits)

lemma resolves_link_free:
  "resolves fs d segs k p \<Longrightarrow> link_free fs d \<Longrightarrow> (\<And>n. SNormal n \<in> set segs \<Longrightarrow> proper_name n) \<Longrightarrow> link_free fs p"
proof (induction rule: resolves.induct)
  case (link d n t segs k p)
  from link.prems(1) show ?case by (intro link.IH) (auto intro: to_segs_proper link.prems(2))
qed (auto simp: link_free_butlast)

lemma split_on_slash: "CHR ''/'' \<notin> set c \<Longrightarrow> split_on CHR ''/'' (c @ CHR ''/'' # s) = c # split_on CHR ''/'' s"
  by (rule split_on_append)

lemma comp_seg_proper [simp]: "proper_name c \<Longrightarrow> comp_seg c = Some (SNormal c)"
  by (auto simp: comp_seg_def proper_name_def)

lemma map_filter_path:
  "list_all proper_name p \<Longrightarrow> List.map_filter comp_seg (split_on CHR ''/'' (concat (map (\<lambda>c. CHR ''/'' # c) p))) = map SNormal p"
proof (induction p)
  case (Cons c p)
  show ?case
  proof (cases p)
    case Nil
    with Cons.prems show ?thesis by (simp add: proper_name_def split_on_id comp_seg_def map_filter_simps)
  next
    case (Cons c' p')
    from Cons.prems have "split_on CHR ''/'' (c @ concat (map (\<lambda>c. CHR ''/'' # c) p)) =
        c # tl (split_on CHR ''/'' (concat (map (\<lambda>c. CHR ''/'' # c) p)))"
      using Cons by (simp add: proper_name_def split_on_append)
    then show ?thesis using Cons.IH Cons.prems Cons by (auto simp: map_filter_simps comp_seg_def proper_name_def)
  qed
qed (simp add: map_filter_simps comp_seg_def)

lemma to_segs_path_text:
  assumes "list_all proper_name p"
  shows "to_segs (path_text p) = SRoot # map SNormal p"
proof (cases p)
  case Nil
  then show ?thesis by (simp add: path_text_def to_segs_def is_absolute_def comp_seg_def map_filter_simps)
next
  case (Cons c p')
  then have "path_text p = concat (map (\<lambda>c. CHR ''/'' # c) p)" by (simp add: path_text_def)
  moreover from this Cons have "is_absolute (path_text p)" by (simp add: is_absolute_def)
  ultimately show ?thesis using map_filter_path [OF assms] by (simp add: to_segs_def)
qed

lemma resolves_link_free_path: "link_free fs (d @ p) \<Longrightarrow> resolves fs d (map SNormal p) 0 (d @ p)"
proof (induction p arbitrary: d)
  case (Cons n p)
  from Cons.prems have "fs_lstat fs (d @ [n]) = Inr False"
    by (auto simp: link_free_def list_all_iff prefix_def)
  moreover from Cons have "resolves fs (d @ [n]) (map SNormal p) 0 (d @ n # p)" by (metis append_Cons append_Nil append_assoc)
  ultimately show ?case by (simp add: resolves_Normal)
qed simp

section \<open>Properties\<close>

lemma canonicalize_iff:
  "canonicalize_recursive fs path = Inr p \<longleftrightarrow>
     (\<exists>d k. (if is_absolute path then d = [] else fs_cwd fs = Inr d) \<and> k \<le> MAX_SYMLINK_HOPS \<and> resolves fs d (to_segs path) k p)"
  using canon_loop_iff [of 0 fs path] by (auto simp: canonicalize_recursive_def split: sum.split)

text \<open>Property C19: resolution of a path. \<^verbatim>\<open>canonicalize_recursive\<close> returns a path exactly when the kernel's walk from the root or the current
  directory ends there after at most forty symbolic links. Where the current directory has no link in it, the result has none either, and
  resolving the result again returns it. The walk asks only whether a name is a link, so a regular file before a parent component passes in
  both.\<close>

theorem canonicalize_exact:
  "(canonicalize_recursive fs path = Inr p \<longleftrightarrow>
      (\<exists>d k. (if is_absolute path then d = [] else fs_cwd fs = Inr d) \<and> k \<le> 40 \<and> resolves fs d (to_segs path) k p)) \<and>
   ((\<forall>d. fs_cwd fs = Inr d \<longrightarrow> link_free fs d) \<and> canonicalize_recursive fs path = Inr p \<longrightarrow>
      link_free fs p \<and> canonicalize_recursive fs (path_text p) = Inr p)"
proof (intro conjI impI)
  show *: "canonicalize_recursive fs path = Inr p \<longleftrightarrow>
      (\<exists>d k. (if is_absolute path then d = [] else fs_cwd fs = Inr d) \<and> k \<le> 40 \<and> resolves fs d (to_segs path) k p)"
    unfolding canonicalize_iff MAX_SYMLINK_HOPS_def ..
  assume "(\<forall>d. fs_cwd fs = Inr d \<longrightarrow> link_free fs d) \<and> canonicalize_recursive fs path = Inr p"
  with * obtain d k where "link_free fs d" "resolves fs d (to_segs path) k p"
    by (metis link_free_Nil)
  then show free: "link_free fs p" using resolves_link_free to_segs_proper by blast
  then have proper: "list_all proper_name p" by (simp add: link_free_def)
  have "is_absolute (path_text p)" by (cases p) (simp_all add: path_text_def is_absolute_def)
  moreover have "resolves fs [] (to_segs (path_text p)) 0 p"
    using resolves_link_free_path [of fs "[]" p] free to_segs_path_text [OF proper] by simp
  ultimately show "canonicalize_recursive fs (path_text p) = Inr p" unfolding canonicalize_iff by force
qed

text \<open>A tree with the link \<^verbatim>\<open>/link\<close> to \<^verbatim>\<open>real/sub/..\<close> and the link \<^verbatim>\<open>/loop\<close> to itself.\<close>

definition sample_fs :: file_system where
  "sample_fs = \<lparr>fs_cwd = Inr [''real''],
     fs_lstat = (\<lambda>p. if p \<in> {[''real''], [''real'', ''sub'']} then Inr False else if p \<in> {[''link''], [''loop'']} then Inr True else Inl ''ENOENT''),
     fs_read_link = (\<lambda>p. if p = [''link''] then Inr ''real/sub/..'' else Inr ''/loop'')\<rparr>"

theorem canonicalize_exact_witness:
  "canonicalize_recursive sample_fs ''/link/sub'' = Inr [''real'', ''sub''] \<and> link_free sample_fs [''real'', ''sub''] \<and>
   canonicalize_recursive sample_fs (path_text [''real'', ''sub'']) = Inr [''real'', ''sub'']"
proof -
  have "canonicalize_recursive sample_fs ''/link/sub'' = Inr [''real'', ''sub'']" by code_simp
  moreover have "link_free sample_fs [''real'']" by code_simp
  then have "\<forall>d. fs_cwd sample_fs = Inr d \<longrightarrow> link_free sample_fs d" by (simp add: sample_fs_def)
  ultimately show ?thesis using canonicalize_exact [of sample_fs "''/link/sub''" "[''real'', ''sub'']"] by blast
qed

text \<open>Fact: a loop of links is refused, and every name of a tier reads back to it.\<close>

theorem loop_refused:
  "canonicalize_recursive sample_fs ''/loop'' = Inl (eloop ''/loop'') \<and> tier_from_str (tier_as_str t) = Inr t"
proof
  show "canonicalize_recursive sample_fs ''/loop'' = Inl (eloop ''/loop'')" by code_simp
  show "tier_from_str (tier_as_str t) = Inr t" by (cases t) (simp_all add: tier_from_str_def tier_as_str_def)
qed

text \<open>Fact: a working directory is accepted exactly when both paths resolve and the resolved working directory lies at or below the
  resolved workspace, whatever links the two paths go through.\<close>

theorem workdir_contained:
  "validate_workdir fs workdir workspace = Inr p \<longleftrightarrow>
     (\<exists>root. canonicalize_recursive fs workspace = Inr root \<and> canonicalize_recursive fs workdir = Inr p \<and> (\<exists>below. p = root @ below))"
  by (auto simp: validate_workdir_def is_strict_descendant_def prefix_def split: sum.splits if_splits)

end
