(* ===== verification/SeccompProfile.thy ===== *)
theory SeccompProfile
  imports Pathsafe Contract
begin

text \<open>
  \<^verbatim>\<open>crates/apohara-agentguard/src/sandbox/linux/syscalls.rs\<close> and \<^verbatim>\<open>profile.rs\<close>: the system calls a tier allows and the filter specification built
  from them. A rule is the typed content of one JSON object of the specification; \<open>build_json_spec\<close> writes the JSON text tree. The
  numbers of the C library are the parameter \<open>libc\<close>; the compiler and the installation of filters are the parameter \<open>seccompiler\<close>.
\<close>

section \<open>System call tables\<close>

definition READONLY_PURE_ALLOW :: "string list" where
  "READONLY_PURE_ALLOW = [
    ''read'', ''pread64'', ''readv'', ''preadv2'', ''write'', ''pwrite64'', ''writev'', ''pwritev2'', ''close'', ''dup'', ''dup2'', ''dup3'',
    ''lseek'', ''fcntl'', ''mmap'', ''munmap'', ''mremap'', ''brk'', ''mprotect'', ''madvise'', ''getpid'', ''getppid'', ''gettid'', ''getuid'',
    ''geteuid'', ''getgid'', ''getegid'', ''getcwd'', ''getpgrp'', ''getpgid'', ''setpgid'', ''getsid'', ''setsid'', ''prlimit64'', ''getrlimit'',
    ''sched_getaffinity'', ''tgkill'', ''execve'', ''execveat'', ''wait4'', ''waitid'', ''rt_sigprocmask'', ''rt_sigaction'', ''rt_sigreturn'',
    ''rt_sigtimedwait'', ''sigaltstack'', ''clock_gettime'', ''gettimeofday'', ''nanosleep'', ''clock_nanosleep'', ''restart_syscall'', ''getrandom'',
    ''prctl'', ''arch_prctl'', ''rseq'', ''set_tid_address'', ''set_robust_list'', ''futex'', ''futex_waitv'', ''sched_yield'', ''poll'', ''ppoll'',
    ''epoll_create1'', ''epoll_ctl'', ''epoll_wait'', ''epoll_pwait'', ''epoll_pwait2'', ''eventfd2'', ''exit'', ''exit_group'', ''stat'', ''lstat'',
    ''fstat'', ''newfstatat'', ''statx'', ''access'', ''faccessat'', ''faccessat2'', ''readlink'', ''readlinkat'', ''fstatfs'', ''statfs'', ''uname'']"

definition READONLY_CONDITIONAL :: "(string \<times> string) list" where
  "READONLY_CONDITIONAL =
    [(''openat'', ''access mode must be O_RDONLY (low 2 bits zero)''),
     (''open'', ''access mode must be O_RDONLY (low 2 bits zero)'')]"

definition WORKSPACE_WRITE_ADDITIONS_PURE_ALLOW :: "string list" where
  "WORKSPACE_WRITE_ADDITIONS_PURE_ALLOW = [
    ''clone3'', ''creat'', ''open'', ''openat'', ''mkdir'', ''mkdirat'', ''unlink'', ''unlinkat'', ''rmdir'', ''rename'', ''renameat'', ''renameat2'',
    ''link'', ''linkat'', ''symlink'', ''symlinkat'', ''ftruncate'', ''truncate'', ''fchmod'', ''fchmodat'', ''chmod'', ''utimensat'', ''umask'',
    ''pipe2'', ''pipe'', ''chdir'', ''fchdir'', ''getdents64'', ''getdents'', ''copy_file_range'', ''sendfile'', ''fchown'', ''fchownat'', ''lchown'',
    ''chown'', ''fallocate'', ''fsync'', ''fdatasync'', ''sync_file_range'', ''flock'', ''membarrier'', ''socketpair'', ''recvfrom'', ''recvmsg'',
    ''sendmsg'', ''sendto'']"

definition WORKSPACE_WRITE_ADDITIONS_CONDITIONAL :: "(string \<times> string) list" where
  "WORKSPACE_WRITE_ADDITIONS_CONDITIONAL =
    [(''openat'', ''all access modes allowed''),
     (''open'', ''all access modes allowed''),
     (''fcntl'', ''cmd restricted to F_GETFL|F_SETFL|F_GETFD|F_SETFD|F_DUPFD|F_DUPFD_CLOEXEC''),
     (''ioctl'', ''request restricted to TIOCGWINSZ|FIOCLEX|FIONCLEX|FIONBIO|FIONREAD''),
     (''clone'', ''flags MUST NOT include any CLONE_NEW* namespace bit (userns-escape vector)'')]"

definition pure_allow_for :: "permission_tier \<Rightarrow> string list" where
  "pure_allow_for tier = (case tier of
       ReadOnly \<Rightarrow> READONLY_PURE_ALLOW
     | WorkspaceWrite \<Rightarrow> READONLY_PURE_ALLOW @ WORKSPACE_WRITE_ADDITIONS_PURE_ALLOW
     | DangerFullAccess \<Rightarrow> [])"

definition conditional_for :: "permission_tier \<Rightarrow> (string \<times> string) list" where
  "conditional_for tier = (case tier of
       ReadOnly \<Rightarrow> READONLY_CONDITIONAL
     | WorkspaceWrite \<Rightarrow> WORKSPACE_WRITE_ADDITIONS_CONDITIONAL
     | DangerFullAccess \<Rightarrow> [])"

section \<open>The filter specification\<close>

record libc =
  EPERM :: nat
  ENOSYS :: nat
  EOPNOTSUPP :: nat
  O_ACCMODE :: nat
  F_GETFL :: nat
  F_SETFL :: nat
  F_GETFD :: nat
  F_SETFD :: nat
  F_DUPFD :: nat
  F_DUPFD_CLOEXEC :: nat
  TIOCGWINSZ :: nat
  FIOCLEX :: nat
  FIONCLEX :: nat
  FIONBIO :: nat
  FIONREAD :: nat

datatype seccomp_op = OpEq | OpMaskedEq nat

record seccomp_arg =
  arg_index :: nat
  arg_op :: seccomp_op
  arg_val :: nat

record seccomp_rule =
  rule_syscall :: string
  rule_args :: "seccomp_arg list"

abbreviation plain_rule :: "string \<Rightarrow> seccomp_rule" where
  "plain_rule s \<equiv> \<lparr>rule_syscall = s, rule_args = []\<rparr>"

abbreviation one_arg :: "string \<Rightarrow> nat \<Rightarrow> seccomp_op \<Rightarrow> nat \<Rightarrow> seccomp_rule" where
  "one_arg s i op v \<equiv> \<lparr>rule_syscall = s, rule_args = [\<lparr>arg_index = i, arg_op = op, arg_val = v\<rparr>]\<rparr>"

definition op_json :: "seccomp_op \<Rightarrow> json" where
  "op_json op = (case op of OpEq \<Rightarrow> JString ''eq'' | OpMaskedEq m \<Rightarrow> JObject [(''masked_eq'', JNumber (show_nat m))])"

definition arg_json :: "seccomp_arg \<Rightarrow> json" where
  "arg_json a = JObject [(''index'', JNumber (show_nat (arg_index a))), (''type'', JString ''dword''), (''op'', op_json (arg_op a)),
     (''val'', JNumber (show_nat (arg_val a)))]"

definition rule_json :: "seccomp_rule \<Rightarrow> json" where
  "rule_json r = JObject ((''syscall'', JString (rule_syscall r)) #
     (if rule_args r = [] then [] else [(''args'', JArray (map arg_json (rule_args r)))]))"

definition conditional_rules :: "libc \<Rightarrow> permission_tier \<Rightarrow> seccomp_rule list" where
  "conditional_rules c tier = (case tier of
       ReadOnly \<Rightarrow> [one_arg ''openat'' 2 (OpMaskedEq (O_ACCMODE c)) 0, one_arg ''open'' 1 (OpMaskedEq (O_ACCMODE c)) 0]
     | WorkspaceWrite \<Rightarrow>
         [plain_rule ''openat'', plain_rule ''open''] @
         map (one_arg ''fcntl'' 1 OpEq) [F_GETFL c, F_SETFL c, F_GETFD c, F_SETFD c, F_DUPFD c, F_DUPFD_CLOEXEC c] @
         map (one_arg ''ioctl'' 1 OpEq) [TIOCGWINSZ c, FIOCLEX c, FIONCLEX c, FIONBIO c, FIONREAD c] @
         [one_arg ''clone'' 0 (OpMaskedEq 0x7E020000) 0]
     | DangerFullAccess \<Rightarrow> [])"

definition has_conditional :: "permission_tier \<Rightarrow> string \<Rightarrow> bool" where
  "has_conditional tier syscall = list_ex (\<lambda>(name, _). name = syscall) (conditional_for tier)"

definition filter_rules :: "libc \<Rightarrow> permission_tier \<Rightarrow> seccomp_rule list" where
  "filter_rules c tier = map plain_rule (filter (\<lambda>s. \<not> has_conditional tier s) (pure_allow_for tier)) @ conditional_rules c tier"

definition spec_json :: "nat \<Rightarrow> seccomp_rule list \<Rightarrow> json" where
  "spec_json eperm rules = JObject [(''main_thread'', JObject
     [(''mismatch_action'', JObject [(''errno'', JNumber (show_nat eperm))]), (''match_action'', JString ''allow''),
      (''filter'', JArray (map rule_json rules))])]"

definition build_json_spec :: "libc \<Rightarrow> permission_tier \<Rightarrow> json" where
  "build_json_spec c tier = spec_json (EPERM c) (filter_rules c tier)"

record 'p seccompiler =
  sc_arch :: "string + string"
  sc_compile :: "string \<Rightarrow> json \<Rightarrow> string + (string \<rightharpoonup> 'p)"
  sc_apply :: "'p \<Rightarrow> string option"

definition build_filter :: "libc \<Rightarrow> 'p seccompiler \<Rightarrow> permission_tier \<Rightarrow> sandbox_error + 'p option" where
  "build_filter c sc tier =
     (if tier = DangerFullAccess then Inr None
      else (case sc_arch sc of
          Inl e \<Rightarrow> Inl (Seccomp (''unsupported target arch: '' @ e))
        | Inr arch \<Rightarrow> (case sc_compile sc arch (build_json_spec c tier) of
              Inl e \<Rightarrow> Inl (Seccomp (''compile_from_json: '' @ e))
            | Inr programs \<Rightarrow> (case programs ''main_thread'' of
                  None \<Rightarrow> Inl (Seccomp (''compiled map missing '' @ squote # ''main_thread'' @ [squote]))
                | Some program \<Rightarrow> Inr (Some program)))))"

definition install :: "libc \<Rightarrow> 'p seccompiler \<Rightarrow> permission_tier \<Rightarrow> sandbox_error + 'p option" where
  "install c sc tier = (case build_filter c sc tier of
       Inl e \<Rightarrow> Inl e
     | Inr None \<Rightarrow> Inr None
     | Inr (Some program) \<Rightarrow> (case sc_apply sc program of
           Some e \<Rightarrow> Inl (Seccomp (''apply_filter: '' @ e))
         | None \<Rightarrow> Inr (Some program)))"

section \<open>What a filter allows\<close>

text \<open>The documented meaning of a specification: a call is let through when a rule for it has all its conditions true on the low 32 bits of
  the arguments. A masked comparison masks both sides.\<close>

type_synonym syscall_args = "nat \<Rightarrow> u64"

definition arg_holds :: "syscall_args \<Rightarrow> seccomp_arg \<Rightarrow> bool" where
  "arg_holds args a \<longleftrightarrow> (let x = take_bit 32 (unat (args (arg_index a)))
     in case arg_op a of OpEq \<Rightarrow> x = take_bit 32 (arg_val a) | OpMaskedEq m \<Rightarrow> and x m = and (take_bit 32 (arg_val a)) m)"

definition rules_allow :: "seccomp_rule list \<Rightarrow> string \<Rightarrow> syscall_args \<Rightarrow> bool" where
  "rules_allow rules name args \<longleftrightarrow> list_ex (\<lambda>r. rule_syscall r = name \<and> list_all (arg_holds args) (rule_args r)) rules"

text \<open>What the code relies on: the compiler turns a specification into one program, and the running filter answers as the rules say.\<close>

definition seccompiler_law :: "'p seccompiler \<Rightarrow> ('p \<Rightarrow> string \<Rightarrow> syscall_args \<Rightarrow> bool) \<Rightarrow> bool" where
  "seccompiler_law sc runs \<longleftrightarrow> (\<forall>arch eperm rules programs p.
     sc_compile sc arch (spec_json eperm rules) = Inr programs \<and> programs ''main_thread'' = Some p \<longrightarrow> runs p = rules_allow rules)"

definition low32 :: "u64 \<Rightarrow> nat" where
  "low32 w = take_bit 32 (unat w)"

lemma arg_holds_simps [simp]:
  "arg_holds args \<lparr>arg_index = i, arg_op = OpEq, arg_val = v\<rparr> \<longleftrightarrow> low32 (args i) = take_bit 32 v"
  "arg_holds args \<lparr>arg_index = i, arg_op = OpMaskedEq m, arg_val = 0\<rparr> \<longleftrightarrow> and (low32 (args i)) m = 0"
  by (simp_all add: arg_holds_def low32_def Let_def)

lemma rules_allow_simps [simp]:
  "\<not> rules_allow [] name args"
  "rules_allow (r # rs) name args \<longleftrightarrow> rule_syscall r = name \<and> list_all (arg_holds args) (rule_args r) \<or> rules_allow rs name args"
  "rules_allow (rs @ rs') name args \<longleftrightarrow> rules_allow rs name args \<or> rules_allow rs' name args"
  by (auto simp: rules_allow_def)

lemma rules_allow_plain [simp]: "rules_allow (map plain_rule names) name args \<longleftrightarrow> name \<in> set names"
  by (auto simp: rules_allow_def list_ex_iff)

lemma rules_allow_eq [simp]:
  "rules_allow (map (one_arg s i OpEq) vs) name args \<longleftrightarrow> name = s \<and> low32 (args i) \<in> take_bit 32 ` set vs"
  by (auto simp: rules_allow_def list_ex_iff)

lemma has_conditional_simps [simp]:
  "has_conditional ReadOnly s \<longleftrightarrow> s \<in> {''openat'', ''open''}"
  "has_conditional WorkspaceWrite s \<longleftrightarrow> s \<in> {''openat'', ''open'', ''fcntl'', ''ioctl'', ''clone''}"
  by (auto simp: has_conditional_def conditional_for_def READONLY_CONDITIONAL_def WORKSPACE_WRITE_ADDITIONS_CONDITIONAL_def)

lemma pure_tables:
  "''openat'' \<notin> set READONLY_PURE_ALLOW" "''open'' \<notin> set READONLY_PURE_ALLOW"
  "''openat'' \<in> set WORKSPACE_WRITE_ADDITIONS_PURE_ALLOW" "''open'' \<in> set WORKSPACE_WRITE_ADDITIONS_PURE_ALLOW"
  "''ioctl'' \<notin> set (READONLY_PURE_ALLOW @ WORKSPACE_WRITE_ADDITIONS_PURE_ALLOW)"
  "''clone'' \<notin> set (READONLY_PURE_ALLOW @ WORKSPACE_WRITE_ADDITIONS_PURE_ALLOW)"
  "''fcntl'' \<in> set READONLY_PURE_ALLOW"
  unfolding READONLY_PURE_ALLOW_def WORKSPACE_WRITE_ADDITIONS_PURE_ALLOW_def by code_simp+

text \<open>The calls a tier lets through, as a set of names and conditions on arguments.\<close>

definition tier_allows :: "libc \<Rightarrow> permission_tier \<Rightarrow> string \<Rightarrow> syscall_args \<Rightarrow> bool" where
  "tier_allows c tier name args = (case tier of
       ReadOnly \<Rightarrow> name \<in> set READONLY_PURE_ALLOW \<or>
         name = ''openat'' \<and> and (low32 (args 2)) (O_ACCMODE c) = 0 \<or> name = ''open'' \<and> and (low32 (args 1)) (O_ACCMODE c) = 0
     | WorkspaceWrite \<Rightarrow> name \<noteq> ''fcntl'' \<and> name \<in> set READONLY_PURE_ALLOW \<union> set WORKSPACE_WRITE_ADDITIONS_PURE_ALLOW \<or>
         name = ''fcntl'' \<and> low32 (args 1) \<in> take_bit 32 ` {F_GETFL c, F_SETFL c, F_GETFD c, F_SETFD c, F_DUPFD c, F_DUPFD_CLOEXEC c} \<or>
         name = ''ioctl'' \<and> low32 (args 1) \<in> take_bit 32 ` {TIOCGWINSZ c, FIOCLEX c, FIONCLEX c, FIONBIO c, FIONREAD c} \<or>
         name = ''clone'' \<and> and (low32 (args 0)) 0x7E020000 = 0
     | DangerFullAccess \<Rightarrow> True)"

lemma filter_rules_allow:
  assumes "tier \<noteq> DangerFullAccess"
  shows "rules_allow (filter_rules c tier) name args \<longleftrightarrow> tier_allows c tier name args"
proof (cases tier)
  case ReadOnly
  then show ?thesis
    using pure_tables(1,2) by (auto simp: filter_rules_def pure_allow_for_def conditional_rules_def tier_allows_def)
next
  case WorkspaceWrite
  note defs = filter_rules_def pure_allow_for_def conditional_rules_def tier_allows_def
  show ?thesis
  proof (cases "name \<in> {''openat'', ''open'', ''fcntl'', ''ioctl'', ''clone''}")
    case True
    then consider "name = ''openat''" | "name = ''open''" | "name = ''fcntl''" | "name = ''ioctl''" | "name = ''clone''" by blast
    then show ?thesis using WorkspaceWrite pure_tables(3-6) by cases (simp_all add: defs del: list.map)
  qed (use WorkspaceWrite in \<open>auto simp: defs simp del: list.map\<close>)
qed (use assms in simp)

section \<open>Properties\<close>

lemma install_Inr:
  assumes "install c sc tier = Inr f" and "tier \<noteq> DangerFullAccess"
  obtains arch programs p where "sc_compile sc arch (build_json_spec c tier) = Inr programs" "programs ''main_thread'' = Some p" "f = Some p"
proof -
  from assms obtain p where p: "build_filter c sc tier = Inr (Some p)" "f = Some p"
    by (auto simp: install_def build_filter_def split: sum.splits option.splits if_splits)
  with assms(2) obtain arch programs where "sc_compile sc arch (build_json_spec c tier) = Inr programs" "programs ''main_thread'' = Some p"
    by (auto simp: build_filter_def split: sum.splits option.splits)
  with p that show ?thesis by blast
qed

lemma install_runs:
  assumes "seccompiler_law sc runs" and "install c sc tier = Inr f" and "tier \<noteq> DangerFullAccess"
  shows "\<exists>p. f = Some p \<and> runs p = tier_allows c tier"
proof -
  obtain arch programs p where p:
    "sc_compile sc arch (build_json_spec c tier) = Inr programs" "programs ''main_thread'' = Some p" "f = Some p"
    using install_Inr [OF assms(2,3)] .
  then have "runs p = rules_allow (filter_rules c tier)"
    using assms(1) unfolding seccompiler_law_def build_json_spec_def by blast
  with p(3) filter_rules_allow [OF assms(3)] show ?thesis by (auto simp: fun_eq_iff)
qed

text \<open>Calls that reach the network, other namespaces, the mount table or the kernel, and the calls that change a Landlock ruleset.\<close>

definition escape_calls :: "string list" where
  "escape_calls = [''socket'', ''connect'', ''bind'', ''listen'', ''accept'', ''accept4'', ''socketcall'', ''unshare'', ''setns'', ''mount'',
     ''umount2'', ''pivot_root'', ''chroot'', ''ptrace'', ''process_vm_readv'', ''process_vm_writev'', ''perf_event_open'', ''bpf'', ''io_uring_setup'', ''io_uring_enter'', ''openat2'', ''capget'',
     ''kexec_load'', ''init_module'', ''finit_module'', ''delete_module'', ''reboot'', ''swapon'', ''swapoff'', ''setuid'', ''setgid'', ''seccomp'',
     ''landlock_create_ruleset'', ''landlock_add_rule'', ''landlock_restrict_self'']"

lemma escape_calls_absent:
  "list_all (\<lambda>name. name \<notin> set READONLY_PURE_ALLOW \<and> name \<notin> set WORKSPACE_WRITE_ADDITIONS_PURE_ALLOW \<and>
     name \<notin> {''openat'', ''open'', ''fcntl'', ''ioctl'', ''clone''}) escape_calls"
  unfolding READONLY_PURE_ALLOW_def WORKSPACE_WRITE_ADDITIONS_PURE_ALLOW_def escape_calls_def by code_simp

lemma spawn_tables:
  "''clone3'' \<notin> set READONLY_PURE_ALLOW" "''sendto'' \<notin> set READONLY_PURE_ALLOW"
  "''clone3'' \<in> set WORKSPACE_WRITE_ADDITIONS_PURE_ALLOW" "''sendto'' \<in> set WORKSPACE_WRITE_ADDITIONS_PURE_ALLOW"
  unfolding READONLY_PURE_ALLOW_def WORKSPACE_WRITE_ADDITIONS_PURE_ALLOW_def by code_simp+

text \<open>Property C8: what a confined command can call. Once the filter of a confined tier is installed, a system call is let through exactly
  when the tier's table names it and its arguments satisfy the tier's conditions (reading access only, at the read-only tier; no
  namespace bit for \<^verbatim>\<open>clone\<close> at the other). None of the calls the tests of the source forbid is let through at either tier (sockets and
  connections, \<^verbatim>\<open>unshare\<close>, \<^verbatim>\<open>setns\<close>, mounts, tracing, kernel modules, the Landlock calls), and none of a few more. But at the writing
  tier \<^verbatim>\<open>clone3\<close> is let through with any flags, the namespace flags that are masked for \<^verbatim>\<open>clone\<close> included, and so is \<^verbatim>\<open>sendto\<close>, which
  the documentation lists as denied at every tier.\<close>

theorem seccomp_exact:
  assumes "seccompiler_law sc runs" and "install c sc tier = Inr f" and "tier \<noteq> DangerFullAccess"
  shows "\<exists>p. f = Some p \<and> (\<forall>name args. runs p name args \<longleftrightarrow> tier_allows c tier name args) \<and>
    (\<forall>name args. name \<in> set escape_calls \<longrightarrow> \<not> runs p name args) \<and>
    (\<forall>args. (runs p ''clone3'' args \<longleftrightarrow> tier = WorkspaceWrite) \<and> (runs p ''sendto'' args \<longleftrightarrow> tier = WorkspaceWrite) \<and>
       (and (low32 (args 0)) 0x7E020000 \<noteq> 0 \<longrightarrow> \<not> runs p ''clone'' args))"
proof -
  from install_runs [OF assms] obtain p where p: "f = Some p" "runs p = tier_allows c tier" by blast
  have "\<not> tier_allows c tier name args" if "name \<in> set escape_calls" for name args
    using escape_calls_absent that assms(3) unfolding tier_allows_def list_all_iff by (auto split: permission_tier.split)
  moreover have "tier_allows c tier ''clone3'' args \<longleftrightarrow> tier = WorkspaceWrite" "tier_allows c tier ''sendto'' args \<longleftrightarrow> tier = WorkspaceWrite"
    "and (low32 (args 0)) 0x7E020000 \<noteq> 0 \<Longrightarrow> \<not> tier_allows c tier ''clone'' args" for args
    using assms(3) spawn_tables pure_tables(6) by (auto simp: tier_allows_def split: permission_tier.split)
  ultimately show ?thesis using p by auto
qed

text \<open>A compiler that keeps the specification, with the rules read back from it.\<close>

definition linux_libc :: libc where
  "linux_libc = \<lparr>EPERM = 1, ENOSYS = 38, EOPNOTSUPP = 95, O_ACCMODE = 3, F_GETFL = 3, F_SETFL = 4, F_GETFD = 1, F_SETFD = 2, F_DUPFD = 0, F_DUPFD_CLOEXEC = 1030,
     TIOCGWINSZ = 0x5413, FIOCLEX = 0x5451, FIONCLEX = 0x5450, FIONBIO = 0x5421, FIONREAD = 0x541B\<rparr>"

lemma show_nat_inj: "show_nat m = show_nat n \<Longrightarrow> m = n"
proof (induction m arbitrary: n rule: less_induct)
  case (less m)
  have ne: "show_nat k \<noteq> []" for k by (subst show_nat.simps) simp
  have digit: "char_of (48 + i) = (char_of (48 + j) :: char) \<longleftrightarrow> i = j" if "i < 10" "j < 10" for i j :: nat
    using that by (simp add: char_of_eq_iff take_bit_nat_eq_self)
  show ?case
  proof (cases "m < 10 \<or> n < 10")
    case True
    with less.prems show ?thesis
      by (subst (asm) (1 2) show_nat.simps) (auto simp: digit ne ne [symmetric] split: if_splits)
  next
    case False
    with less.prems have "show_nat (m div 10) = show_nat (n div 10)" "m mod 10 = n mod 10"
      by (subst (asm) (1 2) show_nat.simps; simp add: digit)+
    with less.IH [of "m div 10" "n div 10"] False have "m div 10 = n div 10" by simp
    with \<open>m mod 10 = n mod 10\<close> show ?thesis by (metis div_mult_mod_eq)
  qed
qed

lemma rule_json_inj: "rule_json r = rule_json r' \<Longrightarrow> r = r'"
proof -
  have op: "op = op'" if "op_json op = op_json op'" for op op'
    using that by (cases op; cases op') (auto simp: op_json_def dest: show_nat_inj)
  have arg: "a = a'" if "arg_json a = arg_json a'" for a a' :: seccomp_arg
    using that by (cases a; cases a') (auto simp: arg_json_def dest: show_nat_inj op)
  then have "inj arg_json" by (rule injI)
  then show "rule_json r = rule_json r' \<Longrightarrow> r = r'"
    by (cases r; cases r') (auto simp: rule_json_def inj_map_eq_map split: if_splits)
qed

definition sample_compiler :: "seccomp_rule list seccompiler" where
  "sample_compiler = \<lparr>sc_arch = Inr ''x86_64'',
     sc_compile = (\<lambda>_ spec. if spec = build_json_spec linux_libc ReadOnly then Inr [''main_thread'' \<mapsto> filter_rules linux_libc ReadOnly] else Inl ''other''),
     sc_apply = (\<lambda>_. None)\<rparr>"

lemma sample_compiler_law: "seccompiler_law sample_compiler rules_allow"
proof -
  have "inj rule_json" using rule_json_inj by (rule injI)
  then show ?thesis
    by (auto simp: seccompiler_law_def sample_compiler_def build_json_spec_def spec_json_def inj_map_eq_map split: if_splits)
qed

theorem seccomp_exact_witness:
  "\<exists>p. install linux_libc sample_compiler ReadOnly = Inr (Some p) \<and> rules_allow p ''open'' (\<lambda>i. 0) \<and>
     \<not> rules_allow p ''open'' (\<lambda>i. 2) \<and> \<not> rules_allow p ''socket'' (\<lambda>i. 0)"
proof -
  have i: "install linux_libc sample_compiler ReadOnly = Inr (Some (filter_rules linux_libc ReadOnly))"
    by (simp add: install_def build_filter_def sample_compiler_def)
  have "''socket'' \<in> set escape_calls" by code_simp
  moreover have "tier_allows linux_libc ReadOnly ''open'' (\<lambda>i. 0)" "\<not> tier_allows linux_libc ReadOnly ''open'' (\<lambda>i. 2)"
    using pure_tables(2) by (simp_all add: tier_allows_def low32_def linux_libc_def)
  ultimately show ?thesis using seccomp_exact [OF sample_compiler_law i] i by auto
qed

text \<open>Fact: the tables differ from their documentation in two places. \<^verbatim>\<open>sendto\<close>, listed among the calls never allowed, is allowed at the
  workspace tier; and the workspace tier is not an extension of the read-only tier, which allows every \<^verbatim>\<open>fcntl\<close> command.\<close>

theorem tier_tables_diverge:
  "tier_allows c WorkspaceWrite ''sendto'' args"
  "tier_allows linux_libc ReadOnly ''fcntl'' (\<lambda>i. 6) \<and> \<not> tier_allows linux_libc WorkspaceWrite ''fcntl'' (\<lambda>i. 6)"
proof -
  have "''sendto'' \<in> set WORKSPACE_WRITE_ADDITIONS_PURE_ALLOW" unfolding WORKSPACE_WRITE_ADDITIONS_PURE_ALLOW_def by code_simp
  then show "tier_allows c WorkspaceWrite ''sendto'' args" by (simp add: tier_allows_def)
  show "tier_allows linux_libc ReadOnly ''fcntl'' (\<lambda>i. 6) \<and> \<not> tier_allows linux_libc WorkspaceWrite ''fcntl'' (\<lambda>i. 6)"
    using pure_tables(7) by (simp add: tier_allows_def low32_def linux_libc_def)
qed

end
