(* ===== verification/LandlockRules.thy ===== *)
theory LandlockRules
  imports SeccompProfile Config
begin

text \<open>
  \<^verbatim>\<open>crates/apohara-agentguard/src/sandbox/linux/landlock.rs\<close>: the file rights a tier grants. The crate \<^verbatim>\<open>landlock\<close> and the kernel are the
  parameter \<open>landlock\<close>: its two sets of rights, opening a path (which yields the directory or file it resolves to), the calls that
  build a ruleset, each of which can fail with an error number and a text, and the status of the restriction.
\<close>

section \<open>Model\<close>

datatype landlock_status = NotImplemented | NotEnabled | Available

datatype ruleset_status = FullyEnforced | PartiallyEnforced | NotEnforced

record restriction_status =
  rs_ruleset :: ruleset_status
  rs_no_new_privs :: bool
  rs_landlock :: landlock_status

type_synonym 'r rules = "(abs_path \<times> 'r set) list"

record 'r landlock =
  ll_from_all :: "'r set"
  ll_from_read :: "'r set"
  ll_path_fd :: "string \<Rightarrow> string + abs_path"
  ll_path_fd_created :: "string \<Rightarrow> string + abs_path"
  ll_handle_access :: "'r set \<Rightarrow> (nat \<times> string) option"
  ll_create :: "'r set \<Rightarrow> (nat \<times> string) option"
  ll_add_rule :: "abs_path \<times> 'r set \<Rightarrow> (nat \<times> string) option"
  ll_restrict_self :: "bool \<Rightarrow> 'r set \<Rightarrow> 'r rules \<Rightarrow> (nat \<times> string) + restriction_status"

definition SYSTEM_RX_PATHS :: "string list" where
  "SYSTEM_RX_PATHS = [''/usr'', ''/bin'', ''/sbin'', ''/lib'', ''/lib64'', ''/etc/ld.so.cache'', ''/etc/ld.so.preload'', ''/etc/alternatives'',
     ''/etc/ssl'', ''/etc/openssl'', ''/etc/pki'', ''/etc/ca-certificates'', ''/etc/ca-certificates.conf'', ''/etc/crypto-policies'',
     ''/etc/gitconfig'', ''/etc/malloc.conf'', ''/etc/rustup'', ''/etc/localtime'', ''/dev/null'', ''/dev/zero'', ''/dev/full'', ''/dev/urandom'',
     ''/dev/random'', ''/dev/tty'', ''/proc/self'', ''/proc/sys/vm/overcommit_memory'', ''/sys/kernel/mm/transparent_hugepage'']"

type_synonym environ = "string \<rightharpoonup> string"

definition from_env_or :: "environ \<Rightarrow> string \<Rightarrow> string \<Rightarrow> string option" where
  "from_env_or env var rel = (case env var of Some v \<Rightarrow> Some v | None \<Rightarrow> map_option (\<lambda>h. path_join h rel) (env ''HOME''))"

definition toolchain_read_paths :: "environ \<Rightarrow> string list" where
  "toolchain_read_paths env = List.map_filter id
     [from_env_or env ''RUSTUP_HOME'' ''.rustup'', from_env_or env ''CARGO_HOME'' ''.cargo'', env ''GOROOT'',
      from_env_or env ''GOMODCACHE'' ''go/pkg/mod'', from_env_or env ''GOPATH'' ''go'']"

definition toolchain_write_paths :: "environ \<Rightarrow> string list" where
  "toolchain_write_paths env = List.map_filter id [from_env_or env ''GOCACHE'' ''.cache/go-build'']"

definition kernel_too_old :: string where
  "kernel_too_old = ''Landlock refused (ENOSYS): kernel too old (need Linux >= 5.13 for Landlock)''"

definition landlock_disabled :: string where
  "landlock_disabled = ''Landlock refused (EOPNOTSUPP): Landlock disabled at boot; add lsm=landlock to the kernel cmdline''"

definition em_dash :: string where "em_dash = [CHR 0xE2, CHR 0x80, CHR 0x94]"

definition map_ruleset_err :: "libc \<Rightarrow> nat \<times> string \<Rightarrow> sandbox_error" where
  "map_ruleset_err c err = (case err of (errno, display) \<Rightarrow> Landlock
     (if errno = ENOSYS c then kernel_too_old
      else if errno = EOPNOTSUPP c then landlock_disabled
      else if errno = EPERM c then ''Landlock refused (EPERM): internal: seccomp installed before Landlock (ordering bug) '' @ em_dash @
        '' the pinned NNP->Landlock->seccomp order was violated''
      else ''Landlock setup failed (errno='' @ show_nat errno @ ''): '' @ display))"

fun add_paths :: "libc \<Rightarrow> 'r landlock \<Rightarrow> (string \<Rightarrow> string + abs_path) \<Rightarrow> 'r set \<Rightarrow> string list \<Rightarrow> 'r rules \<Rightarrow> sandbox_error + 'r rules" where
  "add_paths c ll fd rights [] rules = Inr rules"
| "add_paths c ll fd rights (p # ps) rules = (case fd p of
       Inl _ \<Rightarrow> add_paths c ll fd rights ps rules
     | Inr q \<Rightarrow> (case ll_add_rule ll (q, rights) of
           Some e \<Rightarrow> Inl (map_ruleset_err c e)
         | None \<Rightarrow> add_paths c ll fd rights ps (rules @ [(q, rights)])))"

definition landlock_verdict :: "restriction_status \<Rightarrow> sandbox_error option" where
  "landlock_verdict status = (case rs_landlock status of
       NotImplemented \<Rightarrow> Some (Landlock kernel_too_old)
     | NotEnabled \<Rightarrow> Some (Landlock landlock_disabled)
     | Available \<Rightarrow>
         if rs_ruleset status = NotEnforced then
           Some (Landlock (''Landlock ruleset could not be enforced (NotEnforced) '' @ em_dash @ '' refusing to run unconfined''))
         else if \<not> rs_no_new_privs status then
           Some (Landlock (''Landlock enforced but NO_NEW_PRIVS not set '' @ em_dash @ '' internal ordering bug (NNP must be set before Landlock)''))
         else None)"

definition apply_landlock :: "libc \<Rightarrow> 'r landlock \<Rightarrow> environ \<Rightarrow> bool \<Rightarrow> permission_tier \<Rightarrow> abs_path \<Rightarrow> sandbox_error + ('r set \<times> 'r rules) option" where
  "apply_landlock c ll env nnp tier workspace_root =
     (if tier = DangerFullAccess then Inr None
      else let handled = ll_from_all ll;
               granted = (case tier of ReadOnly \<Rightarrow> ll_from_read ll | _ \<Rightarrow> ll_from_all ll)
        in case ll_path_fd ll (path_text workspace_root) of
             Inl e \<Rightarrow> Inl (Landlock (''cannot open workspace_root '' @ path_text workspace_root @ '' for Landlock: '' @ e))
           | Inr root_fd \<Rightarrow> (case ll_handle_access ll handled of
               Some e \<Rightarrow> Inl (map_ruleset_err c e)
             | None \<Rightarrow> (case ll_create ll handled of
               Some e \<Rightarrow> Inl (map_ruleset_err c e)
             | None \<Rightarrow> (case ll_add_rule ll (root_fd, granted) of
               Some e \<Rightarrow> Inl (map_ruleset_err c e)
             | None \<Rightarrow> (case add_paths c ll (ll_path_fd ll) (ll_from_read ll) SYSTEM_RX_PATHS [(root_fd, granted)] of
               Inl e \<Rightarrow> Inl e
             | Inr rules1 \<Rightarrow> (case add_paths c ll (ll_path_fd ll) (ll_from_read ll) (toolchain_read_paths env) rules1 of
               Inl e \<Rightarrow> Inl e
             | Inr rules2 \<Rightarrow> (case (if tier = WorkspaceWrite
                                     then add_paths c ll (ll_path_fd_created ll) (ll_from_all ll) (toolchain_write_paths env) rules2 else Inr rules2) of
               Inl e \<Rightarrow> Inl e
             | Inr rules3 \<Rightarrow> (case ll_restrict_self ll nnp handled rules3 of
               Inl e \<Rightarrow> Inl (map_ruleset_err c e)
             | Inr status \<Rightarrow> (case landlock_verdict status of
               Some e \<Rightarrow> Inl e
             | None \<Rightarrow> Inr (Some (handled, rules3)))))))))))"

section \<open>What a ruleset permits\<close>

text \<open>The documented meaning of a ruleset: a handled right on a path needs a rule at the path or at one of its parents.\<close>

definition permits :: "'r set \<times> 'r rules \<Rightarrow> 'r \<Rightarrow> abs_path \<Rightarrow> bool" where
  "permits rs r p \<longleftrightarrow> r \<notin> fst rs \<or> list_ex (\<lambda>(q, rights). prefix q p \<and> r \<in> rights) (snd rs)"

text \<open>A path of a list that could be opened, at or above \<open>p\<close>.\<close>

definition opened_above :: "(string \<Rightarrow> string + abs_path) \<Rightarrow> string list \<Rightarrow> abs_path \<Rightarrow> bool" where
  "opened_above fd ps p \<longleftrightarrow> list_ex (\<lambda>s. case fd s of Inl _ \<Rightarrow> False | Inr q \<Rightarrow> prefix q p) ps"

lemma opened_above_simps [simp]:
  "\<not> opened_above fd [] p"
  "opened_above fd (s # ps) p \<longleftrightarrow> (\<exists>q. fd s = Inr q \<and> prefix q p) \<or> opened_above fd ps p"
  by (auto simp: opened_above_def split: sum.splits)

lemma add_paths_permits:
  "add_paths c ll fd rights ps rules = Inr rules' \<Longrightarrow>
     permits (h, rules') r p \<longleftrightarrow> permits (h, rules) r p \<or> r \<in> rights \<and> opened_above fd ps p"
proof (induction ps arbitrary: rules)
  case (Cons s ps)
  show ?case
  proof (cases "fd s")
    case (Inr q)
    with Cons.prems have "add_paths c ll fd rights ps (rules @ [(q, rights)]) = Inr rules'" by (simp split: option.splits)
    from Cons.IH [OF this] Inr show ?thesis by (auto simp: permits_def)
  qed (use Cons in simp)
qed simp

section \<open>Properties\<close>

lemma apply_landlock_Inr:
  assumes "apply_landlock c ll env nnp tier ws = Inr (Some rs)"
  obtains root_fd rules1 rules2 where "tier \<noteq> DangerFullAccess" "ll_path_fd ll (path_text ws) = Inr root_fd"
    "add_paths c ll (ll_path_fd ll) (ll_from_read ll) SYSTEM_RX_PATHS [(root_fd, if tier = ReadOnly then ll_from_read ll else ll_from_all ll)] = Inr rules1"
    "add_paths c ll (ll_path_fd ll) (ll_from_read ll) (toolchain_read_paths env) rules1 = Inr rules2"
    "fst rs = ll_from_all ll"
    "if tier = WorkspaceWrite then add_paths c ll (ll_path_fd_created ll) (ll_from_all ll) (toolchain_write_paths env) rules2 = Inr (snd rs)
     else snd rs = rules2"
    "\<exists>status. ll_restrict_self ll nnp (fst rs) (snd rs) = Inr status \<and> landlock_verdict status = None"
  using assms by (cases tier) (auto simp: apply_landlock_def Let_def split: sum.splits option.splits)

text \<open>Property C21: the files of a confined command. When the rules of a confined tier are in force, a right on a path is permitted exactly
  below the workspace (reading rights only, at the read-only tier), for reading below the system and toolchain paths that could be
  opened, and at the workspace tier below the build cache; and the kernel reported the ruleset enforced with no new privileges.\<close>

theorem landlock_exact:
  assumes "apply_landlock c ll env nnp tier ws = Inr (Some rs)" and "ll_from_read ll \<subseteq> ll_from_all ll"
  shows "\<exists>root. ll_path_fd ll (path_text ws) = Inr root \<and>
    (\<forall>r \<in> ll_from_all ll. \<forall>p. permits rs r p \<longleftrightarrow>
       prefix root p \<and> (r \<in> ll_from_read ll \<or> tier = WorkspaceWrite) \<or>
       r \<in> ll_from_read ll \<and> (opened_above (ll_path_fd ll) SYSTEM_RX_PATHS p \<or> opened_above (ll_path_fd ll) (toolchain_read_paths env) p) \<or>
       tier = WorkspaceWrite \<and> opened_above (ll_path_fd_created ll) (toolchain_write_paths env) p) \<and>
    (\<exists>status. ll_restrict_self ll nnp (fst rs) (snd rs) = Inr status \<and> rs_landlock status = Available \<and>
       rs_ruleset status \<noteq> NotEnforced \<and> rs_no_new_privs status)"
proof -
  from assms(1) obtain root rules1 rules2 where r: "tier \<noteq> DangerFullAccess" "ll_path_fd ll (path_text ws) = Inr root"
    "add_paths c ll (ll_path_fd ll) (ll_from_read ll) SYSTEM_RX_PATHS [(root, if tier = ReadOnly then ll_from_read ll else ll_from_all ll)] = Inr rules1"
    "add_paths c ll (ll_path_fd ll) (ll_from_read ll) (toolchain_read_paths env) rules1 = Inr rules2" "fst rs = ll_from_all ll"
    "if tier = WorkspaceWrite then add_paths c ll (ll_path_fd_created ll) (ll_from_all ll) (toolchain_write_paths env) rules2 = Inr (snd rs)
     else snd rs = rules2"
    "\<exists>status. ll_restrict_self ll nnp (fst rs) (snd rs) = Inr status \<and> landlock_verdict status = None"
    by (rule apply_landlock_Inr)
  define h where "h = ll_from_all ll"
  have rs: "rs = (h, snd rs)" using r(5) by (simp add: h_def prod_eq_iff)
  have p3: "permits rs x p \<longleftrightarrow> permits (h, rules2) x p \<or> tier = WorkspaceWrite \<and> x \<in> h \<and> opened_above (ll_path_fd_created ll) (toolchain_write_paths env) p" for x p
    using r(6) by (subst rs) (auto simp: h_def [symmetric] add_paths_permits split: if_splits)
  have p2: "permits (h, rules2) x p \<longleftrightarrow> x \<notin> h \<or> prefix root p \<and> (x \<in> ll_from_read ll \<or> tier = WorkspaceWrite \<and> x \<in> h) \<or> x \<in> ll_from_read ll \<and>
      (opened_above (ll_path_fd ll) SYSTEM_RX_PATHS p \<or> opened_above (ll_path_fd ll) (toolchain_read_paths env) p)" for x p
    using r(1) assms(2) unfolding add_paths_permits [OF r(4)] add_paths_permits [OF r(3)]
    by (cases tier) (auto simp: permits_def h_def)
  have "\<forall>x \<in> h. \<forall>p. permits rs x p \<longleftrightarrow> prefix root p \<and> (x \<in> ll_from_read ll \<or> tier = WorkspaceWrite) \<or>
      x \<in> ll_from_read ll \<and> (opened_above (ll_path_fd ll) SYSTEM_RX_PATHS p \<or> opened_above (ll_path_fd ll) (toolchain_read_paths env) p) \<or>
      tier = WorkspaceWrite \<and> opened_above (ll_path_fd_created ll) (toolchain_write_paths env) p"
    unfolding p3 p2 by blast
  moreover obtain status where "ll_restrict_self ll nnp (fst rs) (snd rs) = Inr status" "landlock_verdict status = None" using r(7) by blast
  ultimately show ?thesis
    using r(2) by (auto simp: h_def landlock_verdict_def split: landlock_status.splits if_splits)
qed

text \<open>A kernel that enforces every ruleset, with the workspace \<^verbatim>\<open>/w\<close> and the system directory \<^verbatim>\<open>/usr\<close>.\<close>

definition sample_landlock :: "string landlock" where
  "sample_landlock = \<lparr>ll_from_all = {''read'', ''write''}, ll_from_read = {''read''},
     ll_path_fd = (\<lambda>s. if s = ''/w'' then Inr [''w''] else if s = ''/usr'' then Inr [''usr''] else Inl ''ENOENT''), ll_path_fd_created = (\<lambda>_. Inl ''ENOENT''),
     ll_handle_access = (\<lambda>_. None), ll_create = (\<lambda>_. None), ll_add_rule = (\<lambda>_. None),
     ll_restrict_self = (\<lambda>nnp _ _. Inr \<lparr>rs_ruleset = FullyEnforced, rs_no_new_privs = nnp, rs_landlock = Available\<rparr>)\<rparr>"

lemma sample_landlock_apply:
  "apply_landlock linux_libc sample_landlock Map.empty True ReadOnly [''w''] = Inr (Some ({''read'', ''write''}, [([''w''], {''read''}), ([''usr''], {''read''})]))"
  by (simp add: apply_landlock_def sample_landlock_def path_text_def SYSTEM_RX_PATHS_def toolchain_read_paths_def from_env_or_def
      map_filter_simps landlock_verdict_def)

theorem landlock_exact_witness:
  "permits ({''read'', ''write''}, [([''w''], {''read''}), ([''usr''], {''read''})]) ''read'' [''usr'', ''bin''] \<and>
   \<not> permits ({''read'', ''write''}, [([''w''], {''read''}), ([''usr''], {''read''})]) ''write'' [''w'', ''f'']"
proof -
  have "ll_from_read sample_landlock \<subseteq> ll_from_all sample_landlock" by (simp add: sample_landlock_def)
  from landlock_exact [OF sample_landlock_apply this] show ?thesis
    by (auto simp: sample_landlock_def SYSTEM_RX_PATHS_def)
qed

end
