(* ===== verification/SandboxRun.thy ===== *)
theory SandboxRun
  imports LandlockRules AuditLog
begin

text \<open>
  \<^verbatim>\<open>crates/apohara-agentguard/src/sandbox/linux/runner.rs\<close> and \<^verbatim>\<open>namespace.rs\<close>: how a command is started under confinement. The process that will
  become the command is a record of what has been done to it; each kernel call is a field of the parameter \<open>kernel\<close> with its possible
  failure. A child process either executes the command or exits with a code and the text it wrote to the error pipe.
\<close>

section \<open>Environment and descriptors\<close>

definition ENV_ALLOW :: "string list" where
  "ENV_ALLOW = [''PATH'', ''HOME'', ''USER'', ''LOGNAME'', ''SHELL'', ''TERM'', ''LANG'', ''LC_ALL'', ''PWD'', ''TZ'', ''RUSTUP_HOME'', ''CARGO_HOME'',
     ''GOROOT'', ''GOPATH'', ''GOMODCACHE'', ''GOCACHE'']"

abbreviation nul :: char where "nul \<equiv> CHR 0x00"

definition keep_var :: "string \<times> string \<Rightarrow> bool" where
  "keep_var kv = (case kv of (key, val) \<Rightarrow>
     utf8_valid key \<and> utf8_valid val \<and> CHR ''='' \<notin> set key \<and> nul \<notin> set key \<and> key \<noteq> ''TMPDIR'' \<and>
     \<not> (key \<notin> set ENV_ALLOW \<and> is_secret_name key) \<and> nul \<notin> set val)"

definition build_sanitized_env :: "(string \<times> string) list \<Rightarrow> string \<Rightarrow> string list" where
  "build_sanitized_env vars tmpdir =
     map (\<lambda>(key, val). key @ ''='' @ val) (filter keep_var vars) @
     (if utf8_valid tmpdir \<and> nul \<notin> set tmpdir then [''TMPDIR='' @ tmpdir] else [])"

text \<open>\<^verbatim>\<open>close_range\<close> works, is missing (\<^verbatim>\<open>ENOSYS\<close>), or is refused with another error.\<close>

datatype close_range = CloseRange | CloseRangeMissing | CloseRangeRefused

definition as_i32 :: "nat \<Rightarrow> int" where
  "as_i32 fd = (if fd < 2 ^ 31 then int fd else int fd - 2 ^ 32)"

function manual_loop :: "nat \<Rightarrow> nat \<Rightarrow> int \<Rightarrow> int list \<Rightarrow> int list" where
  "manual_loop fd upper keep fds =
     (if fd > upper then fds
      else let fds' = (if as_i32 fd \<noteq> keep then removeAll (as_i32 fd) fds else fds)
        in if fd = upper then fds' else manual_loop (fd + 1) upper keep fds')"
  by pat_completeness auto
termination
  by (relation "measure (\<lambda>(fd, upper, keep, fds). Suc upper - fd)") auto

declare manual_loop.simps [simp del]

definition manual_close_range :: "nat option \<Rightarrow> nat \<Rightarrow> nat \<Rightarrow> int \<Rightarrow> int list \<Rightarrow> int list" where
  "manual_close_range rlimit lo hi keep fds =
     (let limit = (case rlimit of Some cur \<Rightarrow> if cur > 0 then min cur (2 ^ 32 - 1) else 4096 | None \<Rightarrow> 4096)
      in manual_loop lo (min hi limit) keep fds)"

definition close_range_or_fallback :: "close_range \<Rightarrow> nat option \<Rightarrow> nat \<Rightarrow> nat \<Rightarrow> int \<Rightarrow> int list \<Rightarrow> int list" where
  "close_range_or_fallback cr rlimit lo hi keep fds = (case cr of
       CloseRange \<Rightarrow> filter (\<lambda>fd. \<not> (int lo \<le> fd \<and> fd \<le> int hi)) fds
     | CloseRangeMissing \<Rightarrow> manual_close_range rlimit lo hi keep fds
     | CloseRangeRefused \<Rightarrow> fds)"

definition close_inherited_fds :: "close_range \<Rightarrow> nat option \<Rightarrow> int \<Rightarrow> int list \<Rightarrow> int list" where
  "close_inherited_fds cr rlimit keep fds =
     (if keep > 2 then
        close_range_or_fallback cr rlimit (nat (keep + 1)) (2 ^ 32 - 1) keep (close_range_or_fallback cr rlimit 3 (nat (keep - 1)) keep fds)
      else close_range_or_fallback cr rlimit 3 (2 ^ 32 - 1) keep fds)"

section \<open>The confined child\<close>

record ('r, 'p) process =
  pr_stdin_null :: bool
  pr_stdout :: bool
  pr_stderr :: bool
  pr_cwd :: "abs_path option"
  pr_fds :: "int list"
  pr_nnp :: bool
  pr_landlock :: "('r set \<times> 'r rules) option"
  pr_seccomp :: "'p option"

datatype wait_status = Exited int | Signaled int | OtherStatus string

datatype read_result = ReadData string | ReadEintr | ReadErr string

record ('r, 'p) kernel =
  k_libc :: libc
  k_landlock :: "'r landlock"
  k_seccompiler :: "'p seccompiler"
  k_fs :: file_system
  k_vars :: "(string \<times> string) list"
  k_environ :: environ
  k_inherited :: "int list"
  k_err_fd :: int
  k_devnull :: bool
  k_dup2_stdout :: bool
  k_dup2_stderr :: bool
  k_chdir :: "abs_path \<Rightarrow> string option"
  k_close_range :: close_range
  k_rlimit :: "nat option"
  k_set_nnp :: "string option"
  k_execvpe :: "string list \<Rightarrow> string list \<Rightarrow> int option"
  k_uid :: nat
  k_gid :: nat
  k_unshare :: "string option"
  k_write_proc :: "string \<Rightarrow> string \<Rightarrow> string option"
  k_pipe :: "string option"
  k_fork :: "string option"
  k_inner_fork :: "string option"
  k_setup_signal :: "int option"
  k_grand_wait :: "wait_status \<Rightarrow> string + wait_status"
  k_command :: "('r, 'p) process \<Rightarrow> string list \<Rightarrow> string list \<Rightarrow> wait_status"
  k_stdout_reads :: "read_result list"
  k_stderr_reads :: "read_result list"
  k_err_reads :: "string \<Rightarrow> read_result list"
  k_wait :: "wait_status \<Rightarrow> string + wait_status"
  k_lossy :: "string \<Rightarrow> string"
  k_debug :: "string \<Rightarrow> string"
  k_signal :: "int \<Rightarrow> string"

record sandbox_request =
  sr_command :: "string list"
  sr_workspace_root :: string
  sr_tier :: permission_tier

datatype ('r, 'p) child = Execs "('r, 'p) process" "string list" "string list" | Exits int string

definition sandbox_error_text :: "sandbox_error \<Rightarrow> string" where
  "sandbox_error_text e = (case e of
       Unavailable \<Rightarrow> ''sandbox unavailable on this platform: refusing to run unconfined''
     | Namespace m \<Rightarrow> ''namespace setup failed: '' @ m
     | Seccomp m \<Rightarrow> ''seccomp error: '' @ m
     | Landlock m \<Rightarrow> ''landlock error: '' @ m
     | Workdir m \<Rightarrow> ''workdir validation failed: '' @ m
     | Runner m \<Rightarrow> ''runner error: '' @ m)"

definition report_setup_error :: "string \<Rightarrow> string" where
  "report_setup_error msg = take 255 msg"

definition i32_le_bytes :: "int \<Rightarrow> string" where
  "i32_le_bytes n = le_bytes 4 (nat (n mod 2 ^ 32))"

definition run_grandchild :: "('r, 'p) kernel \<Rightarrow> permission_tier \<Rightarrow> abs_path \<Rightarrow> string list \<Rightarrow> string list \<Rightarrow> ('r, 'p) child" where
  "run_grandchild k tier workdir argv env =
     (let p0 = \<lparr>pr_stdin_null = k_devnull k, pr_stdout = False, pr_stderr = False, pr_cwd = None, pr_fds = k_inherited k,
                pr_nnp = False, pr_landlock = None, pr_seccomp = None\<rparr>
      in if \<not> k_dup2_stdout k then Exits 80 (report_setup_error ''dup2 stdout'')
      else let p1 = p0\<lparr>pr_stdout := True\<rparr>
      in if \<not> k_dup2_stderr k then Exits 81 (report_setup_error ''dup2 stderr'')
      else let p2 = p1\<lparr>pr_stderr := True\<rparr>
      in case k_chdir k workdir of
        Some e \<Rightarrow> Exits 82 (report_setup_error (''chdir('' @ path_text workdir @ ''): '' @ e))
      | None \<Rightarrow> let p3 = p2\<lparr>pr_cwd := Some workdir, pr_fds := close_inherited_fds (k_close_range k) (k_rlimit k) (k_err_fd k) (pr_fds p2)\<rparr>
      in case k_set_nnp k of
        Some e \<Rightarrow> Exits 84 (report_setup_error (''prctl(PR_SET_NO_NEW_PRIVS): '' @ e))
      | None \<Rightarrow> let p4 = p3\<lparr>pr_nnp := True\<rparr>
      in case apply_landlock (k_libc k) (k_landlock k) (k_environ k) (pr_nnp p4) tier workdir of
        Inl e \<Rightarrow> Exits 85 (report_setup_error (''landlock: '' @ sandbox_error_text e))
      | Inr ruleset \<Rightarrow> let p5 = p4\<lparr>pr_landlock := ruleset\<rparr>
      in case install (k_libc k) (k_seccompiler k) tier of
        Inl e \<Rightarrow> Exits 86 (report_setup_error (''seccomp: '' @ sandbox_error_text e))
      | Inr program \<Rightarrow> let p6 = p5\<lparr>pr_seccomp := program\<rparr>
      in case k_execvpe k argv env of
        Some errno \<Rightarrow> Exits 126 (i32_le_bytes errno)
      | None \<Rightarrow> Execs p6 argv env)"

definition write_proc_self :: "('r, 'p) kernel \<Rightarrow> string \<Rightarrow> string \<Rightarrow> sandbox_error option" where
  "write_proc_self k name contents = map_option Namespace (k_write_proc k (''/proc/self/'' @ name) contents)"

definition enter_isolated_namespaces :: "('r, 'p) kernel \<Rightarrow> sandbox_error option" where
  "enter_isolated_namespaces k = (case k_unshare k of
       Some e \<Rightarrow> Some (Namespace (''unshare(CLONE_NEWUSER|CLONE_NEWNS|CLONE_NEWPID) failed: '' @ e @
         ''. Hint: requires unprivileged user namespaces (sysctl kernel.unprivileged_userns_clone=1, user.max_user_namespaces > 0).''))
     | None \<Rightarrow> (case write_proc_self k ''setgroups'' ''deny'' of Some e \<Rightarrow> Some e
     | None \<Rightarrow> (case write_proc_self k ''uid_map'' (''0 '' @ show_nat (k_uid k) @ '' 1'') of Some e \<Rightarrow> Some e
     | None \<Rightarrow> write_proc_self k ''gid_map'' (''0 '' @ show_nat (k_gid k) @ '' 1''))))"

text \<open>The middle child: what the grandchild became, the status of the middle child as its parent sees it, and the text on the error pipe. The
  grandchild may be killed by a signal during its set-up, before it has reported anything.\<close>

definition exit_status :: "int \<Rightarrow> wait_status" where
  "exit_status c = Exited (c mod 256)"

definition run_middle :: "('r, 'p) kernel \<Rightarrow> permission_tier \<Rightarrow> abs_path \<Rightarrow> string list \<Rightarrow> string list
    \<Rightarrow> ('r, 'p) process option \<times> wait_status \<times> string" where
  "run_middle k tier workdir argv env = (case enter_isolated_namespaces k of
       Some e \<Rightarrow> (None, exit_status 70, report_setup_error (''namespace: '' @ sandbox_error_text e))
     | None \<Rightarrow> (case k_inner_fork k of
         Some e \<Rightarrow> (None, exit_status 71, report_setup_error (''inner fork: '' @ e))
       | None \<Rightarrow>
           (case (case k_setup_signal k of
                    Some sig \<Rightarrow> (None, Signaled sig, [])
                  | None \<Rightarrow> (case run_grandchild k tier workdir argv env of
                      Exits ec msg \<Rightarrow> (None, exit_status ec, msg)
                    | Execs p argv env \<Rightarrow> (Some p, k_command k p argv env, []))) of
              (became, status, report) \<Rightarrow>
                (became, (case k_grand_wait k status of
                    Inr (Exited ec) \<Rightarrow> exit_status ec
                  | Inr (Signaled sig) \<Rightarrow> exit_status (128 + sig)
                  | _ \<Rightarrow> exit_status 72), report))))"

section \<open>The parent\<close>

definition MAX_OUTPUT_BYTES :: nat where "MAX_OUTPUT_BYTES = 16 * 1024 * 1024"

definition truncated_note :: string where
  "truncated_note = newline # ''... [output truncated]'' @ [newline]"

fun read_bounded_loop :: "nat \<Rightarrow> string \<Rightarrow> bool \<Rightarrow> read_result list \<Rightarrow> sandbox_error + (string \<times> bool)" where
  "read_bounded_loop max_bytes out overflow [] = Inr (out, overflow)"
| "read_bounded_loop max_bytes out overflow (ReadData buf # reads) =
     (if buf = [] then Inr (out, overflow)
      else if length out < max_bytes then
        (let n = min (length buf) (max_bytes - length out)
         in read_bounded_loop max_bytes (out @ take n buf) (overflow \<or> n < length buf) reads)
      else read_bounded_loop max_bytes out True reads)"
| "read_bounded_loop max_bytes out overflow (ReadEintr # reads) = read_bounded_loop max_bytes out overflow reads"
| "read_bounded_loop max_bytes out overflow (ReadErr e # reads) = Inl (Runner e)"

definition read_bounded :: "(string \<Rightarrow> string) \<Rightarrow> nat \<Rightarrow> read_result list \<Rightarrow> sandbox_error + string" where
  "read_bounded lossy max_bytes reads = (case read_bounded_loop max_bytes [] False reads of
       Inl e \<Rightarrow> Inl e
     | Inr (out, overflow) \<Rightarrow> Inr (lossy out @ (if overflow then truncated_note else [])))"

datatype setup_error = ExecErrno int | Message string

fun drain_reads :: "string \<Rightarrow> read_result list \<Rightarrow> sandbox_error + string" where
  "drain_reads buf [] = Inr buf"
| "drain_reads buf (ReadData chunk # reads) = (if chunk = [] then Inr buf else drain_reads (buf @ chunk) reads)"
| "drain_reads buf (ReadEintr # reads) = drain_reads buf reads"
| "drain_reads buf (ReadErr e # reads) = Inl (Runner e)"

definition i32_of_le :: "string \<Rightarrow> int" where
  "i32_of_le b = (let n = (\<Sum>i<4. of_char (b ! i) * 256 ^ i :: int) in if n < 2 ^ 31 then n else n - 2 ^ 32)"

definition read_setup_error :: "(string \<Rightarrow> string) \<Rightarrow> read_result list \<Rightarrow> sandbox_error + setup_error option" where
  "read_setup_error lossy reads = (case drain_reads [] reads of
       Inl e \<Rightarrow> Inl e
     | Inr buf \<Rightarrow> Inr (if buf = [] then None else if length buf = 4 then Some (ExecErrno (i32_of_le buf)) else Some (Message (lossy buf))))"

definition show_int :: "int \<Rightarrow> string" where
  "show_int i = (if i < 0 then CHR ''-'' # show_nat (nat (- i)) else show_nat (nat i))"

definition summarize :: "('r, 'p) kernel \<Rightarrow> wait_status \<Rightarrow> setup_error option \<Rightarrow> sandbox_request \<Rightarrow> int \<times> string list" where
  "summarize k status setup_err req =
     (let cmd = (case sr_command req of [] \<Rightarrow> ''?'' | c # _ \<Rightarrow> c);
          violations = (case setup_err of
              Some (ExecErrno errno) \<Rightarrow> [''execve_failed(errno='' @ show_int errno @ '', command='' @ k_debug k cmd @ '')'']
            | Some (Message m) \<Rightarrow> [''setup_failed('' @ m @ '')'']
            | None \<Rightarrow> [])
      in case status of
           Exited c \<Rightarrow> (c, violations)
         | Signaled sig \<Rightarrow> (128 + sig, violations @ [''killed_by_signal('' @ k_signal k sig @ '')''])
         | OtherStatus s \<Rightarrow> (-1, violations @ [''unexpected_wait_status('' @ s @ '')'']))"

record sandbox_result =
  rs_exit_code :: int
  rs_stdout :: string
  rs_stderr :: string
  rs_violations :: "string list"

text \<open>\<open>run_linux\<close> also returns the process that executed the command, if one did.\<close>

definition run_linux :: "('r, 'p) kernel \<Rightarrow> sandbox_request \<Rightarrow> (sandbox_error + sandbox_result) \<times> ('r, 'p) process option" where
  "run_linux k req =
     (if sr_command req = [] then (Inl (Workdir ''command must have at least one argv''), None)
      else case validate_workdir (k_fs k) (sr_workspace_root req) (sr_workspace_root req) of
        Inl e \<Rightarrow> (Inl e, None)
      | Inr workdir_canon \<Rightarrow>
          if list_ex (\<lambda>a. nul \<in> set a) (sr_command req) then (Inl (Workdir ''argv contains an interior NUL byte''), None)
          else let env = build_sanitized_env (k_vars k) (path_text (workdir_canon @ [''.agentguard-tmp'']))
          in case k_pipe k of Some e \<Rightarrow> (Inl (Runner e), None)
          | None \<Rightarrow> (case k_fork k of Some e \<Rightarrow> (Inl (Runner e), None)
          | None \<Rightarrow> (case run_middle k (sr_tier req) workdir_canon (sr_command req) env of (became, status, report) \<Rightarrow>
              ((case read_bounded (k_lossy k) MAX_OUTPUT_BYTES (k_stdout_reads k) of Inl e \<Rightarrow> Inl e
               | Inr out \<Rightarrow> (case read_bounded (k_lossy k) MAX_OUTPUT_BYTES (k_stderr_reads k) of Inl e \<Rightarrow> Inl e
               | Inr err \<Rightarrow> (case read_setup_error (k_lossy k) (k_err_reads k report) of Inl e \<Rightarrow> Inl e
               | Inr setup_err \<Rightarrow> (case k_wait k status of Inl e \<Rightarrow> Inl (Runner e)
               | Inr waited \<Rightarrow> (case summarize k waited setup_err req of (exit_code, violations) \<Rightarrow>
                   Inr \<lparr>rs_exit_code = exit_code, rs_stdout = out, rs_stderr = err, rs_violations = violations\<rparr>))))), became))))"

section \<open>Properties of the parts\<close>

lemma as_i32_eq: "a < 2 ^ 32 \<Longrightarrow> b < 2 ^ 32 \<Longrightarrow> as_i32 a = as_i32 b \<longleftrightarrow> a = b"
  by (auto simp: as_i32_def split: if_splits)

lemma manual_loop_filter:
  assumes "upper < 2 ^ 32"
  shows "manual_loop fd upper keep fds = filter (\<lambda>f. f = keep \<or> f \<notin> as_i32 ` {fd..upper}) fds"
proof (induction fd upper keep fds rule: manual_loop.induct)
  case (1 fd upper keep fds)
  show ?case
  proof (cases "fd < upper")
    case True
    then have "as_i32 ` {fd..upper} = insert (as_i32 fd) (as_i32 ` {fd + 1..upper})"
      by (simp add: atLeastAtMost_insertL [symmetric] del: atLeastAtMost_insertL)
    moreover have "manual_loop (fd + 1) upper keep fds' = filter (\<lambda>f. f = keep \<or> f \<notin> as_i32 ` {fd + 1..upper}) fds'"
      if "fds' = (if as_i32 fd \<noteq> keep then removeAll (as_i32 fd) fds else fds)" for fds'
      using 1 [OF _ that] True by simp
    ultimately show ?thesis
      using True by (subst manual_loop.simps) (auto simp: Let_def removeAll_filter_not_eq intro!: filter_cong)
  next
    case False
    then consider "fd > upper" | "fd = upper" by linarith
    then show ?thesis by cases (subst manual_loop.simps, auto simp: removeAll_filter_not_eq Let_def intro!: filter_cong)+
  qed
qed

definition fd_limit :: "nat option \<Rightarrow> nat" where
  "fd_limit rlimit = (case rlimit of Some cur \<Rightarrow> if cur > 0 then min cur (2 ^ 32 - 1) else 4096 | None \<Rightarrow> 4096)"

lemma fd_limit_less: "fd_limit rlimit < 2 ^ 32"
  by (auto simp: fd_limit_def min_def split: option.split)

lemma manual_close_range_keeps:
  assumes "0 \<le> fd" and "fd < 2 ^ 31"
  shows "fd \<in> set (manual_close_range rlimit lo hi keep fds) \<longleftrightarrow>
    fd \<in> set fds \<and> (fd = keep \<or> fd < int lo \<or> int hi < fd \<or> int (fd_limit rlimit) < fd)"
proof -
  define upper where "upper = min hi (fd_limit rlimit)"
  have upper: "upper < 2 ^ 32" using fd_limit_less [of rlimit] by (simp add: upper_def)
  have "fd \<in> as_i32 ` {lo..upper} \<longleftrightarrow> int lo \<le> fd \<and> fd \<le> int upper"
  proof
    assume "int lo \<le> fd \<and> fd \<le> int upper"
    with assms have "fd = as_i32 (nat fd)" "nat fd \<in> {lo..upper}" by (auto simp: as_i32_def)
    then show "fd \<in> as_i32 ` {lo..upper}" by blast
  qed (use assms upper in \<open>auto simp: as_i32_def split: if_splits\<close>)
  then have "fd \<in> as_i32 ` {lo..upper} \<longleftrightarrow> int lo \<le> fd \<and> fd \<le> int hi \<and> fd \<le> int (fd_limit rlimit)" by (auto simp: upper_def)
  moreover have "manual_close_range rlimit lo hi keep fds = manual_loop lo upper keep fds"
    by (simp add: manual_close_range_def upper_def fd_limit_def)
  ultimately show ?thesis unfolding manual_loop_filter [OF upper] by auto
qed

text \<open>Fact: inherited descriptors. Of the descriptors the child inherits, exactly standard input, output and error and the error pipe
  survive where \<^verbatim>\<open>close_range\<close> works; those above the soft limit of open files too where the call is missing; and all of them where
  it is refused.\<close>

theorem descriptors_closed:
  assumes "2 < keep" and "keep < 2 ^ 31" and "0 \<le> fd" and "fd < 2 ^ 31"
  shows "fd \<in> set (close_inherited_fds cr rlimit keep fds) \<longleftrightarrow> fd \<in> set fds \<and>
    (fd \<le> 2 \<or> fd = keep \<or> cr = CloseRangeMissing \<and> int (fd_limit rlimit) < fd \<or> cr = CloseRangeRefused)"
proof (cases cr)
  case CloseRangeMissing
  have "int (nat (keep - 1)) = keep - 1" "int (nat (keep + 1)) = keep + 1" using assms(1) by simp_all
  then show ?thesis
    using CloseRangeMissing assms
    by (simp add: close_inherited_fds_def close_range_or_fallback_def manual_close_range_keeps) (simp add: less_le; linarith)
qed (use assms in \<open>auto simp: close_inherited_fds_def close_range_or_fallback_def\<close>)

theorem descriptors_closed_witness:
  "(7 :: int) \<notin> set (close_inherited_fds CloseRange None 5 [0, 1, 2, 5, 7]) \<and> (5 :: int) \<in> set (close_inherited_fds CloseRange None 5 [0, 1, 2, 5, 7]) \<and>
   (7 :: int) \<in> set (close_inherited_fds CloseRangeRefused None 5 [0, 1, 2, 5, 7])"
  using descriptors_closed [of 5 7 CloseRange None "[0, 1, 2, 5, 7]"] descriptors_closed [of 5 5 CloseRange None "[0, 1, 2, 5, 7]"]
    descriptors_closed [of 5 7 CloseRangeRefused None "[0, 1, 2, 5, 7]"]
  by simp

text \<open>What the parent finds on the error pipe is what the child wrote, both waits return the status of the child, and no signal kills the
  grandchild during its set-up.\<close>

definition faithful_pipe :: "('r, 'p) kernel \<Rightarrow> bool" where
  "faithful_pipe k \<longleftrightarrow> (\<forall>report. drain_reads [] (k_err_reads k report) = Inr report) \<and> (\<forall>status. k_wait k status = Inr status) \<and>
     (\<forall>status. k_grand_wait k status = Inr status) \<and> k_setup_signal k = None"

lemma run_grandchild_Execs:
  assumes "run_grandchild k tier dir argv env = Execs p argv' env'"
  shows "argv' = argv \<and> env' = env \<and> pr_cwd p = Some dir \<and> pr_nnp p \<and> pr_stdout p \<and> pr_stderr p \<and>
    pr_fds p = close_inherited_fds (k_close_range k) (k_rlimit k) (k_err_fd k) (k_inherited k) \<and>
    apply_landlock (k_libc k) (k_landlock k) (k_environ k) True tier dir = Inr (pr_landlock p) \<and>
    install (k_libc k) (k_seccompiler k) tier = Inr (pr_seccomp p)"
  using assms by (auto simp: run_grandchild_def Let_def split: if_splits option.splits sum.splits)

lemma run_grandchild_Exits:
  assumes "run_grandchild k tier dir argv env = Exits ec msg"
  shows "ec \<in> {80, 81, 82, 84, 85, 86, 126} \<and> msg \<noteq> []"
  using assms by (auto simp: run_grandchild_def report_setup_error_def i32_le_bytes_def le_bytes_def Let_def split: if_splits option.splits sum.splits)

lemma run_middle_None:
  assumes "faithful_pipe k" and "run_middle k tier dir argv env = (None, status, report)"
  shows "\<exists>ec. status = Exited ec \<and> ec \<in> {70, 71, 80, 81, 82, 84, 85, 86, 126} \<and> report \<noteq> []"
proof (cases "run_grandchild k tier dir argv env")
  case (Exits ec msg)
  from run_grandchild_Exits [OF this] show ?thesis
    using assms Exits by (auto simp: run_middle_def faithful_pipe_def exit_status_def report_setup_error_def split: option.splits)
qed (use assms in \<open>auto simp: run_middle_def faithful_pipe_def exit_status_def report_setup_error_def split: option.splits\<close>)

lemma run_middle_Some:
  assumes "run_middle k tier dir argv env = (Some p, status, report)"
  shows "enter_isolated_namespaces k = None \<and> run_grandchild k tier dir argv env = Execs p argv env \<and> report = []"
  using assms run_grandchild_Execs [of k tier dir argv env]
  by (auto simp: run_middle_def split: option.splits child.splits prod.splits)

lemma confined_tier_installs:
  "tier \<noteq> DangerFullAccess \<Longrightarrow> apply_landlock c ll env nnp tier ws = Inr rs \<Longrightarrow> rs \<noteq> None"
  "tier \<noteq> DangerFullAccess \<Longrightarrow> install c sc tier = Inr f \<Longrightarrow> f \<noteq> None"
proof -
  show "tier \<noteq> DangerFullAccess \<Longrightarrow> apply_landlock c ll env nnp tier ws = Inr rs \<Longrightarrow> rs \<noteq> None"
    by (auto simp: apply_landlock_def Let_def split: sum.splits option.splits)
  show "tier \<noteq> DangerFullAccess \<Longrightarrow> install c sc tier = Inr f \<Longrightarrow> f \<noteq> None"
    by (elim install_Inr) simp_all
qed

lemma run_linux_Inr:
  assumes "run_linux k req = (Inr res, became)"
  obtains dir status report waited setup_err where
    "run_middle k (sr_tier req) dir (sr_command req) (build_sanitized_env (k_vars k) (path_text (dir @ [''.agentguard-tmp'']))) = (became, status, report)"
    "read_setup_error (k_lossy k) (k_err_reads k report) = Inr setup_err"
    "k_wait k status = Inr waited" "summarize k waited setup_err req = (rs_exit_code res, rs_violations res)"
  using assms by (auto simp: run_linux_def Let_def split: sum.splits option.splits prod.splits if_splits)

text \<open>A process that executes the command has gone through the whole set-up, whatever the parent returns.\<close>

lemma run_linux_executes:
  assumes "run_linux k req = (res, Some p)"
  shows "\<exists>dir. canonicalize_recursive (k_fs k) (sr_workspace_root req) = Inr dir \<and> pr_cwd p = Some dir \<and>
        enter_isolated_namespaces k = None \<and> pr_nnp p \<and>
        pr_fds p = close_inherited_fds (k_close_range k) (k_rlimit k) (k_err_fd k) (k_inherited k) \<and>
        apply_landlock (k_libc k) (k_landlock k) (k_environ k) True (sr_tier req) dir = Inr (pr_landlock p) \<and>
        install (k_libc k) (k_seccompiler k) (sr_tier req) = Inr (pr_seccomp p) \<and>
        (sr_tier req \<noteq> DangerFullAccess \<longrightarrow> pr_landlock p \<noteq> None \<and> pr_seccomp p \<noteq> None)"
proof -
  from assms obtain dir status report where r: "validate_workdir (k_fs k) (sr_workspace_root req) (sr_workspace_root req) = Inr dir"
    "run_middle k (sr_tier req) dir (sr_command req) (build_sanitized_env (k_vars k) (path_text (dir @ [''.agentguard-tmp'']))) = (Some p, status, report)"
    by (auto simp: run_linux_def Let_def split: sum.splits option.splits prod.splits if_splits)
  from r(1) have "canonicalize_recursive (k_fs k) (sr_workspace_root req) = Inr dir"
    by (auto simp: validate_workdir_def split: sum.splits if_splits)
  with run_middle_Some [OF r(2)] run_grandchild_Execs confined_tier_installs show ?thesis by fastforce
qed

text \<open>A result without an executed command carries a set-up code and a violation.\<close>

lemma run_linux_set_up_fails:
  assumes "faithful_pipe k" and "run_linux k req = (Inr res, None)"
  shows "rs_violations res \<noteq> [] \<and> rs_exit_code res \<in> {70, 71, 80, 81, 82, 84, 85, 86, 126}"
proof -
  obtain dir status report waited setup_err where r:
    "run_middle k (sr_tier req) dir (sr_command req) (build_sanitized_env (k_vars k) (path_text (dir @ [''.agentguard-tmp'']))) = (None, status, report)"
    "read_setup_error (k_lossy k) (k_err_reads k report) = Inr setup_err"
    "k_wait k status = Inr waited" "summarize k waited setup_err req = (rs_exit_code res, rs_violations res)"
    using run_linux_Inr [OF assms(2)] .
  with run_middle_None [OF assms(1)] obtain ec where ec: "status = Exited ec" "ec \<in> {70, 71, 80, 81, 82, 84, 85, 86, 126}" "report \<noteq> []" by blast
  from assms(1) have "drain_reads [] (k_err_reads k report) = Inr report" by (simp add: faithful_pipe_def)
  with r(2) ec(3) have "setup_err \<noteq> None" by (auto simp: read_setup_error_def split: if_splits)
  with r(3,4) assms(1) ec(1,2) show ?thesis by (auto simp: summarize_def faithful_pipe_def Let_def split: setup_error.splits)
qed

section \<open>Properties\<close>

text \<open>Property C7: the sandbox fails closed. When a run returns a result, either the command was executed by a process in the resolved
  workspace, in fresh namespaces, without new privileges, under the Landlock rules and the filter of its tier (both are present at
  every tier but the unconfined one); or no command was executed, the exit code is one of the set-up codes and the result
  names a violation. The pipe and the two waits are taken to be faithful and no signal to kill the child during its set-up.\<close>

theorem sandbox_fail_closed:
  assumes "faithful_pipe k" and "run_linux k req = (Inr res, became)"
  shows "case became of
      None \<Rightarrow> rs_violations res \<noteq> [] \<and> rs_exit_code res \<in> {70, 71, 80, 81, 82, 84, 85, 86, 126}
    | Some p \<Rightarrow> \<exists>dir. canonicalize_recursive (k_fs k) (sr_workspace_root req) = Inr dir \<and> pr_cwd p = Some dir \<and>
        enter_isolated_namespaces k = None \<and> pr_nnp p \<and>
        pr_fds p = close_inherited_fds (k_close_range k) (k_rlimit k) (k_err_fd k) (k_inherited k) \<and>
        apply_landlock (k_libc k) (k_landlock k) (k_environ k) True (sr_tier req) dir = Inr (pr_landlock p) \<and>
        install (k_libc k) (k_seccompiler k) (sr_tier req) = Inr (pr_seccomp p) \<and>
        (sr_tier req \<noteq> DangerFullAccess \<longrightarrow> pr_landlock p \<noteq> None \<and> pr_seccomp p \<noteq> None)"
  using run_linux_set_up_fails [of k req res] run_linux_executes [of k req "Inr res"] assms by (cases became) simp_all

text \<open>Fact: A signal during the set-up is reported by the exit code alone: no command was executed and the result names no violation.\<close>

theorem killed_in_setup_unreported:
  assumes "k_setup_signal k = Some sig" and "enter_isolated_namespaces k = None" and "k_inner_fork k = None"
    and "\<forall>report. drain_reads [] (k_err_reads k report) = Inr report" and "\<forall>status. k_wait k status = Inr status"
    and "\<forall>status. k_grand_wait k status = Inr status" and "run_linux k req = (Inr res, became)"
  shows "became = None \<and> rs_violations res = [] \<and> rs_exit_code res = (128 + sig) mod 256"
proof -
  obtain dir status report waited setup_err where r:
    "run_middle k (sr_tier req) dir (sr_command req) (build_sanitized_env (k_vars k) (path_text (dir @ [''.agentguard-tmp'']))) = (became, status, report)"
    "read_setup_error (k_lossy k) (k_err_reads k report) = Inr setup_err"
    "k_wait k status = Inr waited" "summarize k waited setup_err req = (rs_exit_code res, rs_violations res)"
    using run_linux_Inr [OF assms(7)] .
  have m: "became = None" "status = exit_status (128 + sig)" "report = []"
    using r(1) assms(1-3,6) by (simp_all add: run_middle_def)
  then show ?thesis
    using r(2-4) assms(4,5) by (auto simp: read_setup_error_def summarize_def exit_status_def Let_def)
qed

text \<open>A kernel on which every call succeeds.\<close>

definition sample_kernel :: "(string, seccomp_rule list) kernel" where
  "sample_kernel = \<lparr>k_libc = linux_libc, k_landlock = sample_landlock, k_seccompiler = sample_compiler,
     k_fs = \<lparr>fs_cwd = Inr [], fs_lstat = (\<lambda>_. Inr False), fs_read_link = (\<lambda>_. Inl '''')\<rparr>,
     k_vars = [], k_environ = Map.empty, k_inherited = [0, 1, 2, 5, 7], k_err_fd = 5, k_devnull = True, k_dup2_stdout = True, k_dup2_stderr = True,
     k_chdir = (\<lambda>_. None), k_close_range = CloseRange, k_rlimit = None, k_set_nnp = None, k_execvpe = (\<lambda>_ _. None), k_uid = 1, k_gid = 1,
     k_unshare = None, k_write_proc = (\<lambda>_ _. None), k_pipe = None, k_fork = None, k_inner_fork = None, k_setup_signal = None, k_grand_wait = Inr,
     k_command = (\<lambda>_ _ _. Exited 0),
     k_stdout_reads = [], k_stderr_reads = [], k_err_reads = (\<lambda>s. [ReadData s]), k_wait = Inr, k_lossy = (\<lambda>s. s), k_debug = (\<lambda>s. s), k_signal = show_int\<rparr>"

definition sample_request :: sandbox_request where
  "sample_request = \<lparr>sr_command = [''true''], sr_workspace_root = ''/w'', sr_tier = ReadOnly\<rparr>"

lemma sample_kernel_pipe: "faithful_pipe sample_kernel" "faithful_pipe (sample_kernel\<lparr>k_set_nnp := e\<rparr>)"
  by (auto simp: faithful_pipe_def sample_kernel_def)

lemma sample_canonical: "canonicalize_recursive (k_fs sample_kernel) ''/w'' = Inr [''w'']"
  by (simp add: canonicalize_recursive_def sample_kernel_def is_absolute_def to_segs_def comp_seg_def map_filter_simps)

lemma sample_install: "install linux_libc sample_compiler ReadOnly = Inr (Some (filter_rules linux_libc ReadOnly))"
  by (simp add: install_def build_filter_def sample_compiler_def)

lemma sample_run:
  "\<exists>res p. run_linux sample_kernel sample_request = (Inr res, Some p)"
  "\<exists>res. run_linux (sample_kernel\<lparr>k_set_nnp := Some ''EINVAL''\<rparr>) sample_request = (Inr res, None)"
proof -
  have v: "validate_workdir (k_fs sample_kernel) ''/w'' ''/w'' = Inr [''w'']"
    by (simp add: validate_workdir_def sample_canonical)
  note defs = run_linux_def run_middle_def run_grandchild_def enter_isolated_namespaces_def write_proc_self_def sample_request_def
    read_bounded_def read_setup_error_def summarize_def exit_status_def report_setup_error_def Let_def
  show "\<exists>res p. run_linux sample_kernel sample_request = (Inr res, Some p)"
    using v sample_landlock_apply sample_install by (simp add: defs sample_kernel_def)
  show "\<exists>res. run_linux (sample_kernel\<lparr>k_set_nnp := Some ''EINVAL''\<rparr>) sample_request = (Inr res, None)"
    using v by (simp add: defs sample_kernel_def)
qed

theorem sandbox_fail_closed_witness:
  "(\<exists>res p. run_linux sample_kernel sample_request = (Inr res, Some p) \<and> pr_landlock p \<noteq> None \<and> pr_seccomp p \<noteq> None) \<and>
   (\<exists>res. run_linux (sample_kernel\<lparr>k_set_nnp := Some ''EINVAL''\<rparr>) sample_request = (Inr res, None) \<and> rs_exit_code res \<noteq> 0)"
proof -
  obtain res p where r: "run_linux sample_kernel sample_request = (Inr res, Some p)" using sample_run(1) by blast
  obtain res' where r': "run_linux (sample_kernel\<lparr>k_set_nnp := Some ''EINVAL''\<rparr>) sample_request = (Inr res', None)" using sample_run(2) by blast
  have "sr_tier sample_request \<noteq> DangerFullAccess" by (simp add: sample_request_def)
  with sandbox_fail_closed [OF sample_kernel_pipe(1) r] have "pr_landlock p \<noteq> None \<and> pr_seccomp p \<noteq> None" by auto
  moreover have "rs_exit_code res' \<noteq> 0" using sandbox_fail_closed [OF sample_kernel_pipe(2) r'] by auto
  ultimately show ?thesis using r r' by blast
qed

text \<open>The bytes of a stream up to its end, or the error that cuts it off.\<close>

fun stream_bytes :: "read_result list \<Rightarrow> sandbox_error + string" where
  "stream_bytes [] = Inr []"
| "stream_bytes (ReadData buf # reads) = (if buf = [] then Inr [] else map_sum id ((@) buf) (stream_bytes reads))"
| "stream_bytes (ReadEintr # reads) = stream_bytes reads"
| "stream_bytes (ReadErr e # reads) = Inl (Runner e)"

lemma read_bounded_loop_exact:
  "length out \<le> m \<Longrightarrow> (overflow \<longrightarrow> length out = m) \<Longrightarrow> read_bounded_loop m out overflow reads =
     map_sum id (\<lambda>d. (take m (out @ d), overflow \<or> m < length (out @ d))) (stream_bytes reads)"
proof (induction reads arbitrary: out overflow)
  case (Cons r reads)
  show ?case
  proof (cases r)
    case (ReadData buf)
    show ?thesis
    proof (cases "buf = []")
      case False
      define n where "n = min (length buf) (m - length out)"
      have "read_bounded_loop m out overflow (r # reads) = read_bounded_loop m (out @ take n buf) (overflow \<or> n < length buf) reads"
        using ReadData False Cons.prems(1) by (auto simp: n_def Let_def)
      also have "\<dots> = map_sum id (\<lambda>d. (take m ((out @ take n buf) @ d), (overflow \<or> n < length buf) \<or> m < length ((out @ take n buf) @ d))) (stream_bytes reads)"
        using Cons.prems by (intro Cons.IH) (auto simp: n_def)
      also have "\<dots> = map_sum id (\<lambda>d. (take m (out @ buf @ d), overflow \<or> m < length (out @ buf @ d))) (stream_bytes reads)"
        using Cons.prems by (cases "length buf \<le> m - length out") (auto simp: n_def intro!: sum.map_cong)
      finally show ?thesis using ReadData False by (simp add: sum.map_comp comp_def id_def)
    qed (use ReadData Cons.prems in simp)
  qed (use Cons in simp_all)
qed auto

text \<open>Property C26: captured output is bounded and exact. The text returned is the first sixteen megabytes of the stream, and the note of
  truncation is there exactly when the stream was longer; a failing read is reported.\<close>

theorem captured_output_exact:
  "read_bounded lossy m reads = map_sum id (\<lambda>d. lossy (take m d) @ (if m < length d then truncated_note else [])) (stream_bytes reads)"
  by (cases "stream_bytes reads") (simp_all add: read_bounded_def read_bounded_loop_exact)

text \<open>Fact: the environment of the command. A variable reaches the command exactly when it is valid text, is not \<^verbatim>\<open>TMPDIR\<close>, and is on the
  allow list or has no secret-shaped name; \<^verbatim>\<open>TMPDIR\<close> is the directory in the workspace.\<close>

theorem sanitized_env_exact:
  assumes "utf8_valid tmpdir" and "nul \<notin> set tmpdir"
  shows "entry \<in> set (build_sanitized_env vars tmpdir) \<longleftrightarrow> entry = ''TMPDIR='' @ tmpdir \<or>
    (\<exists>key val. (key, val) \<in> set vars \<and> entry = key @ ''='' @ val \<and> utf8_valid key \<and> utf8_valid val \<and> CHR ''='' \<notin> set key \<and>
       nul \<notin> set key \<and> nul \<notin> set val \<and> key \<noteq> ''TMPDIR'' \<and> (key \<in> set ENV_ALLOW \<or> \<not> is_secret_name key))"
  using assms by (auto simp: build_sanitized_env_def keep_var_def)

lemma le_bytes_nth: "i < k \<Longrightarrow> of_char (le_bytes k n ! i) = (n div 256 ^ i mod 256 :: nat)"
  by (simp add: le_bytes_def of_char_of)

lemma digits_sum: "(\<Sum>i<k. n div b ^ i mod b * b ^ i) = (n mod b ^ k :: nat)"
proof (induction k)
  case (Suc k)
  have "n mod b ^ Suc k = n mod (b ^ k * b)" by (simp add: mult.commute)
  also have "\<dots> = b ^ k * (n div b ^ k mod b) + n mod b ^ k" by (rule mod_mult2_eq)
  finally show ?case using Suc by (simp add: mult.commute)
qed simp

text \<open>Fact: a failed \<^verbatim>\<open>execve\<close> is read back with its error number.\<close>

theorem exec_errno_roundtrip:
  assumes "- (2 ^ 31) \<le> n" and "n < 2 ^ 31"
  shows "read_setup_error lossy [ReadData (i32_le_bytes n)] = Inr (Some (ExecErrno n))"
proof -
  define u where "u = nat (n mod 2 ^ 32)"
  have u: "u < 2 ^ 32" by (simp add: u_def nat_less_iff)
  have "(\<Sum>i<4. int (u div 256 ^ i mod 256) * 256 ^ i) = int u"
    using arg_cong [OF digits_sum [of u 256 4], of int] u by simp
  moreover have "(of_char (le_bytes 4 u ! i) :: int) = int (u div 256 ^ i mod 256)" if "i < 4" for i
    using le_bytes_nth [OF that, of u] by (metis of_char_eq_iff of_nat_of_char)
  ultimately have "(\<Sum>i<4. of_char (le_bytes 4 u ! i) * 256 ^ i :: int) = int u" by simp
  moreover have "n mod 2 ^ 32 = (if n < 0 then n + 2 ^ 32 else n)"
    using assms mod_add_self2 [of n "2 ^ 32"] mod_pos_pos_trivial [of "n + 2 ^ 32" "2 ^ 32"] mod_pos_pos_trivial [of n "2 ^ 32"] by auto
  then have "int u = (if n < 0 then n + 2 ^ 32 else n)" using assms(1) by (simp add: u_def)
  ultimately have "(let m = (\<Sum>i<4. of_char (le_bytes 4 u ! i) * 256 ^ i :: int) in if m < 2 ^ 31 then m else m - 2 ^ 32) = n"
    using assms by (simp add: Let_def)
  then have "i32_of_le (i32_le_bytes n) = n" unfolding i32_of_le_def i32_le_bytes_def u_def .
  moreover have "length (i32_le_bytes n) = 4" by (simp add: i32_le_bytes_def)
  ultimately show ?thesis by (auto simp: read_setup_error_def)
qed

end
