(* ===== verification/LineServer.thy ===== *)
theory LineServer
  imports Prelude
begin

text \<open>
  The contract the two line-oriented JSON-RPC servers of the repository share (\<^verbatim>\<open>apohara-agentguard/src/mcp/mod.rs\<close> and
  \<^verbatim>\<open>tl-mcp-server/src/main.rs\<close>): a loop over the lines of standard input that skips blank lines, writes the answer to every other line and
  stops at the end of input, at an I/O error or when answering panics. \<open>answer\<close> gives nothing for a panic and \<open>Some None\<close> for a
  line that gets no response.
\<close>

locale line_server =
  fixes answer :: "string \<Rightarrow> string option option"
    and run :: "(string list \<Rightarrow> string option) \<Rightarrow> (string + string) list \<Rightarrow> string list \<Rightarrow> 'r"
    and ended :: "string list \<Rightarrow> 'r"
    and failed :: "string list \<Rightarrow> string \<Rightarrow> 'r"
    and died :: "string list \<Rightarrow> 'r"
  assumes run_end: "run wr [] out = ended out"
    and run_read_error: "run wr (Inl e # ls) out = failed out e"
    and run_line: "run wr (Inr l # ls) out =
      (if trim l = [] then run wr ls out
       else (case answer l of
           None \<Rightarrow> died out
         | Some None \<Rightarrow> run wr ls out
         | Some (Some r) \<Rightarrow> (case wr out of Some e \<Rightarrow> failed out e | None \<Rightarrow> run wr ls (out @ [r]))))"
begin

lemma answers_until_death:
  "run (\<lambda>_. None) (map Inr ls) out =
     (let live = takeWhile (\<lambda>l. trim l = [] \<or> answer l \<noteq> None) ls;
          replies = List.map_filter (\<lambda>l. if trim l = [] then None else Option.bind (answer l) (\<lambda>r. r)) live
      in if live = ls then ended (out @ replies) else died (out @ replies))"
proof (induction ls arbitrary: out)
  case Nil
  show ?case by (simp add: run_end map_filter_simps)
next
  case (Cons l ls)
  then show ?case
    by (cases "trim l = []"; cases "answer l"; cases "the (answer l)")
       (auto simp: run_line map_filter_simps Let_def)
qed

lemma answers_all:
  assumes "\<And>l. l \<in> set ls \<Longrightarrow> trim l \<noteq> [] \<Longrightarrow> answer l = Some (reply l)"
  shows "run (\<lambda>_. None) (map Inr ls) out = ended (out @ List.map_filter (\<lambda>l. if trim l = [] then None else reply l) ls)"
proof -
  have "takeWhile (\<lambda>l. trim l = [] \<or> answer l \<noteq> None) ls = ls" using assms by (intro takeWhile_eq_all_conv [THEN iffD2]) auto
  moreover have "List.map_filter (\<lambda>l. if trim l = [] then None else Option.bind (answer l) (\<lambda>r. r)) ls =
      List.map_filter (\<lambda>l. if trim l = [] then None else reply l) ls"
    using assms by (induction ls) (auto simp: map_filter_simps split: option.splits)
  ultimately show ?thesis unfolding answers_until_death Let_def by (simp only: if_True simp_thms)
qed

text \<open>Input after a line whose answer panics is never looked at, and the first failing write or read is the last thing that happens.\<close>

lemma dead_after_panic:
  assumes "trim l \<noteq> []" "answer l = None"
  shows "run wr (Inr l # rest) out = died out"
  using assms by (simp add: run_line)

end

end
