(* ===== verification/FrontEnds.thy ===== *)
theory FrontEnds
  imports Hook SandboxRun LineServer
begin

text \<open>
  \<^verbatim>\<open>crates/apohara-agentguard/src/mcp/mod.rs\<close> and \<^verbatim>\<open>main.rs\<close>: the JSON-RPC server over standard input and output, and the subcommands of the command
  line. Parsing and printing of JSON and the version of the package are parameters; what a subcommand prints is part of its result.
  As in \<open>Hook\<close>, \<open>None\<close> is a panic of a stage.
\<close>

section \<open>MCP server\<close>

definition PROTOCOL_VERSION :: string where "PROTOCOL_VERSION = ''2024-11-05''"

definition PARSE_ERROR :: int where "PARSE_ERROR = -32700"
definition METHOD_NOT_FOUND :: int where "METHOD_NOT_FOUND = -32601"
definition INVALID_PARAMS :: int where "INVALID_PARAMS = -32602"

definition result_response :: "(json \<Rightarrow> string) \<Rightarrow> json \<Rightarrow> json \<Rightarrow> string" where
  "result_response to_string i result = to_string (JObject [(''jsonrpc'', JString ''2.0''), (''id'', i), (''result'', result)])"

definition error_response :: "(json \<Rightarrow> string) \<Rightarrow> json \<Rightarrow> int \<Rightarrow> string \<Rightarrow> string" where
  "error_response to_string i err_code message = to_string (JObject [(''jsonrpc'', JString ''2.0''), (''id'', i),
     (''error'', JObject [(''code'', JNumber (show_int err_code)), (''message'', JString message)])])"

definition initialize_result :: "string \<Rightarrow> json" where
  "initialize_result version = JObject [(''protocolVersion'', JString PROTOCOL_VERSION), (''capabilities'', JObject [(''tools'', JObject [])]),
     (''serverInfo'', JObject [(''name'', JString ''apohara-agentguard''), (''version'', JString version)])]"

definition tool_schema :: "string \<Rightarrow> string \<Rightarrow> string \<Rightarrow> string \<Rightarrow> json" where
  "tool_schema name description arg arg_description = JObject [(''name'', JString name), (''description'', JString description),
     (''inputSchema'', JObject [(''type'', JString ''object''),
        (''properties'', JObject [(arg, JObject [(''type'', JString ''string''), (''description'', JString arg_description)])]),
        (''required'', JArray [JString arg])])]"

definition tools_list_result :: json where
  "tools_list_result = JObject [(''tools'', JArray
     [tool_schema ''check_command''
        ''Evaluate a bash command through the apohara-agentguard anti-bypass gate. Read-only: returns a verdict (tier + reason), runs no command.''
        ''command'' ''The bash command to evaluate.'',
      tool_schema ''scan_prompt''
        ''Scan untrusted text (a prompt, tool output, or fetched document) through the input firewall. Read-only: returns a verdict (tier + reason).''
        ''text'' ''The text to scan for injection/exfiltration signatures.''])]"

definition string_arg :: "json \<Rightarrow> string \<Rightarrow> (int \<times> string) + string" where
  "string_arg arguments key = (case json_get arguments key of
       Some v \<Rightarrow> (case as_str v of Some s \<Rightarrow> Inr s | None \<Rightarrow> Inl (INVALID_PARAMS, ''missing string argument: '' @ key))
     | None \<Rightarrow> Inl (INVALID_PARAMS, ''missing string argument: '' @ key))"

definition tier_json :: "tier \<Rightarrow> json" where
  "tier_json t = JString (case t of Allow \<Rightarrow> ''allow'' | Warn \<Rightarrow> ''warn'' | Ask \<Rightarrow> ''ask'' | Block \<Rightarrow> ''block'')"

definition opt_json :: "string option \<Rightarrow> json" where
  "opt_json x = (case x of None \<Rightarrow> JNull | Some s \<Rightarrow> JString s)"

definition verdict_json :: "verdict \<Rightarrow> json" where
  "verdict_json v = JObject [(''tier'', tier_json (v_tier v)), (''reason'', JString (v_reason v)), (''feedback'', opt_json (v_feedback v)),
     (''rule_id'', opt_json (v_rule_id v)), (''category'', opt_json (v_category v))]"

definition tool_result :: "(json \<Rightarrow> string) \<Rightarrow> verdict \<Rightarrow> json" where
  "tool_result to_string v = JObject [(''content'', JArray [JObject [(''type'', JString ''text''), (''text'', JString (to_string (verdict_json v)))]]),
     (''structuredContent'', verdict_json v), (''isError'', JBool False)]"

definition tools_call :: "'j world \<Rightarrow> json \<Rightarrow> config \<Rightarrow> ((int \<times> string) + json) option" where
  "tools_call w params cfg = (case Option.bind (json_get params ''name'') as_str of
       None \<Rightarrow> Some (Inl (INVALID_PARAMS, ''missing tool name''))
     | Some name \<Rightarrow>
         let arguments = (case json_get params ''arguments'' of Some a \<Rightarrow> a | None \<Rightarrow> JNull)
         in if name = ''check_command'' then (case string_arg arguments ''command'' of
                Inl e \<Rightarrow> Some (Inl e)
              | Inr command \<Rightarrow> map_option (\<lambda>v. Inr (tool_result (w_to_string w) v)) (evaluate (w_re w) (w_b64 w) command cfg))
            else if name = ''scan_prompt'' then (case string_arg arguments ''text'' of
                Inl e \<Rightarrow> Some (Inl e)
              | Inr text \<Rightarrow> map_option (\<lambda>v. Inr (tool_result (w_to_string w) v)) (scan_content (w_engine w) (w_alnum w) text default_thresholds))
            else Some (Inl (INVALID_PARAMS, ''unknown tool: '' @ name)))"

definition mcp_dispatch :: "'j world \<Rightarrow> string \<Rightarrow> string \<Rightarrow> json \<Rightarrow> json \<Rightarrow> config \<Rightarrow> string option" where
  "mcp_dispatch w version meth params i cfg =
     (if meth = ''initialize'' then Some (result_response (w_to_string w) i (initialize_result version))
      else if meth = ''tools/list'' then Some (result_response (w_to_string w) i tools_list_result)
      else if meth = ''tools/call'' then (case tools_call w params cfg of
          None \<Rightarrow> None
        | Some (Inr result) \<Rightarrow> Some (result_response (w_to_string w) i result)
        | Some (Inl (err_code, message)) \<Rightarrow> Some (error_response (w_to_string w) i err_code message))
      else Some (error_response (w_to_string w) i METHOD_NOT_FOUND (''method not found: '' @ meth)))"

definition handle_line :: "'j world \<Rightarrow> (string \<Rightarrow> json option) \<Rightarrow> string \<Rightarrow> string \<Rightarrow> config \<Rightarrow> string option option" where
  "handle_line w parse version line cfg = (case parse line of
       None \<Rightarrow> Some (Some (error_response (w_to_string w) JNull PARSE_ERROR ''parse error: invalid JSON''))
     | Some req \<Rightarrow>
         let meth = (case Option.bind (json_get req ''method'') as_str of Some m \<Rightarrow> m | None \<Rightarrow> []);
             params = (case json_get req ''params'' of Some p \<Rightarrow> p | None \<Rightarrow> JNull)
         in case json_get req ''id'' of
              None \<Rightarrow> Some None
            | Some i \<Rightarrow> map_option Some (mcp_dispatch w version meth params i cfg))"

text \<open>The loop over the lines of standard input (each a line or an I/O error). \<open>wr\<close> is the failure of a write after the given output.\<close>

fun serve :: "'j world \<Rightarrow> (string \<Rightarrow> json option) \<Rightarrow> string \<Rightarrow> (string list \<Rightarrow> string option) \<Rightarrow> config \<Rightarrow> (string + string) list \<Rightarrow> string list
    \<Rightarrow> (string list \<times> string option) option" where
  "serve w parse version wr cfg [] out = Some (out, None)"
| "serve w parse version wr cfg (Inl e # ls) out = Some (out, Some e)"
| "serve w parse version wr cfg (Inr line # ls) out =
     (if trim line = [] then serve w parse version wr cfg ls out
      else (case handle_line w parse version line cfg of
          None \<Rightarrow> None
        | Some None \<Rightarrow> serve w parse version wr cfg ls out
        | Some (Some response) \<Rightarrow> (case wr out of
              Some e \<Rightarrow> Some (out, Some e)
            | None \<Rightarrow> serve w parse version wr cfg ls (out @ [response]))))"

interpretation agentguard_server: line_server "\<lambda>l. handle_line w parse version l cfg" "\<lambda>wr. serve w parse version wr cfg"
  "\<lambda>out. Some (out, None)" "\<lambda>out e. Some (out, Some e)" "\<lambda>_. None"
  by unfold_locales simp_all

section \<open>Command line\<close>

record cli_result =
  cli_stdout :: string
  cli_stderr :: string
  cli_code :: nat

abbreviation line :: "string \<Rightarrow> string" where
  "line s \<equiv> s @ [newline]"

definition config_or_default :: "config_error + config \<Rightarrow> config" where
  "config_or_default loaded = (case loaded of Inl _ \<Rightarrow> default_config | Inr c \<Rightarrow> c)"

definition apply_policy_override :: "config \<Rightarrow> string option \<Rightarrow> config" where
  "apply_policy_override cfg cli_path = (case cli_path of
       Some p \<Rightarrow> cfg\<lparr>policy := (policy cfg)\<lparr>pol_file := Some p\<rparr>\<rparr>
     | None \<Rightarrow> cfg)"

definition run_hook :: "string world \<Rightarrow> hook_state \<Rightarrow> string option \<Rightarrow> config_error + config \<Rightarrow> string option \<Rightarrow> (cli_result \<times> hook_state) option" where
  "run_hook w st stdin loaded cli_policy = (case stdin of
       None \<Rightarrow> Some (\<lparr>cli_stdout = [], cli_stderr = [], cli_code = 0\<rparr>, st)
     | Some stdin_json \<Rightarrow>
         let cfg = apply_policy_override (config_or_default loaded) cli_policy
         in map_option (\<lambda>((stdout_json, ec), st'). (case stdout_json of
              Some json \<Rightarrow> (\<lparr>cli_stdout = line json, cli_stderr = (if ec = 2 then line json else []), cli_code = nat (ec mod 256)\<rparr>, st')
            | None \<Rightarrow> (\<lparr>cli_stdout = [], cli_stderr = [], cli_code = nat (ec mod 256)\<rparr>, st'))) (run_with_source w st stdin_json cfg))"

definition unexpected_ask :: "string \<Rightarrow> string" where
  "unexpected_ask path = ''warn: unexpected Ask tier ('' @ path @ '' path) '' @ em_dash @ '' treating as allow''"

definition run_scan :: "'j world \<Rightarrow> string option \<Rightarrow> config_error + config \<Rightarrow> string option \<Rightarrow> cli_result option" where
  "run_scan w stdin loaded cli_policy = (case stdin of
       None \<Rightarrow> Some \<lparr>cli_stdout = [], cli_stderr = line ''apohara-agentguard scan: could not read stdin'', cli_code = 2\<rparr>
     | Some content \<Rightarrow> map_option (\<lambda>v. case v_tier v of
           Allow \<Rightarrow> \<lparr>cli_stdout = line ''allow'', cli_stderr = [], cli_code = 0\<rparr>
         | Warn \<Rightarrow> \<lparr>cli_stdout = line (''warn: '' @ v_reason v), cli_stderr = [], cli_code = 0\<rparr>
         | Block \<Rightarrow> \<lparr>cli_stdout = [], cli_stderr = line (''block: '' @ v_reason v), cli_code = 2\<rparr>
         | Ask \<Rightarrow> \<lparr>cli_stdout = [], cli_stderr = line (unexpected_ask ''scan''), cli_code = 0\<rparr>)
         (scan_content (w_engine w) (w_alnum w) content default_thresholds))"

definition run_check :: "'j world \<Rightarrow> string \<Rightarrow> config_error + config \<Rightarrow> string option \<Rightarrow> cli_result option" where
  "run_check w command loaded cli_policy =
     (let cfg = apply_policy_override (config_or_default loaded) cli_policy
      in map_option (\<lambda>v. case v_tier v of
           Allow \<Rightarrow> \<lparr>cli_stdout = line ''allow'', cli_stderr = [], cli_code = 0\<rparr>
         | Warn \<Rightarrow> \<lparr>cli_stdout = line (''warn: '' @ v_reason v), cli_stderr = [], cli_code = 0\<rparr>
         | Block \<Rightarrow> \<lparr>cli_stdout = [], cli_stderr = line (''block: '' @ v_reason v), cli_code = 2\<rparr>
         | Ask \<Rightarrow> \<lparr>cli_stdout = [], cli_stderr = line (unexpected_ask ''check''), cli_code = 0\<rparr>)
         (evaluate (w_re w) (w_b64 w) command cfg))"

definition ask_input :: "string \<Rightarrow> hook_input" where
  "ask_input command = \<lparr>hook_event_name = ''PreToolUse'', session_id = None, tool_name = Some ''Bash'',
     tool_input = JObject [(''command'', JString command)], prompt = None, tool_response = JNull\<rparr>"

definition run_ask :: "'j world \<Rightarrow> string \<Rightarrow> config_error + config \<Rightarrow> string option \<Rightarrow> cli_result option" where
  "run_ask w command loaded cli_policy =
     (let cfg = apply_policy_override (config_or_default loaded) cli_policy
      in map_option (\<lambda>gate_v.
           let policy_v = (case policy_load (w_read_policy w) (w_toml w) (pol_file (policy cfg)) of
                 Inr ps \<Rightarrow> fst (policy_evaluate ps (ask_input command) cfg)
               | Inl e \<Rightarrow> block (''policy load error (fail-closed): '' @ policy_error_text e));
               v = (if rank (v_tier policy_v) > rank (v_tier gate_v) then policy_v else gate_v)
           in case v_tier v of
             Allow \<Rightarrow> \<lparr>cli_stdout = line ''allow'', cli_stderr = [], cli_code = 0\<rparr>
           | Warn \<Rightarrow> \<lparr>cli_stdout = line (''warn: '' @ v_reason v), cli_stderr = [], cli_code = 0\<rparr>
           | Block \<Rightarrow> \<lparr>cli_stdout = [], cli_stderr = line (''block: '' @ v_reason v), cli_code = 2\<rparr>
           | Ask \<Rightarrow> \<lparr>cli_stdout = line (''ask: '' @ v_reason v), cli_stderr = [], cli_code = 0\<rparr>)
         (evaluate (w_re w) (w_b64 w) command cfg))"

definition run_mcp :: "'j world \<Rightarrow> (string \<Rightarrow> json option) \<Rightarrow> string \<Rightarrow> (string list \<Rightarrow> string option) \<Rightarrow> (string + string) list \<Rightarrow> config_error + config
    \<Rightarrow> string option \<Rightarrow> cli_result option" where
  "run_mcp w parse version wr lines_in loaded cli_policy =
     (let cfg = apply_policy_override (config_or_default loaded) cli_policy
      in map_option (\<lambda>(out, e). \<lparr>cli_stdout = concat (map line out),
             cli_stderr = (case e of None \<Rightarrow> [] | Some m \<Rightarrow> line (''apohara-agentguard mcp: '' @ m)), cli_code = (if e = None then 0 else 74)\<rparr>)
           (serve w parse version wr cfg lines_in []))"

record sandbox_args =
  sa_tier :: string
  sa_workspace_root :: "string option"
  sa_i_know :: bool
  sa_command :: "string list"

definition danger_record :: "u64 \<Rightarrow> string list \<Rightarrow> audit_record" where
  "danger_record now command = \<lparr>ar_timestamp = now, ar_event = ''danger_full_access'', ar_decision = ''warn'', ar_rule_id = None,
     ar_category = Some ''danger'', ar_surface = None, ar_command = Some (join_with '' '' command)\<rparr>"

definition danger_banner :: string where
  "danger_banner = concat (map line
     ['''', ''============================================================'', ''  !!!  DANGER_FULL_ACCESS  '' @ em_dash @ ''  THE SANDBOX IS DISABLED  !!!'',
      ''============================================================'', ''  This tier installs NO seccomp filter AND NO Landlock'',
      ''  ruleset. The command runs with your FULL host access:'', ''  it can read, write, and delete ANY file you can, and'',
      ''  make unrestricted network connections.'', '''', ''  There is NO confinement of any kind. Only proceed if you'',
      ''  fully trust this command.'', '''', ''  This invocation is being logged to the audit log'', ''  (if one is configured).'',
      ''============================================================'', ''''])"

definition tier_error_text :: "(string \<Rightarrow> string) \<Rightarrow> string \<Rightarrow> string" where
  "tier_error_text debug s = ''invalid permission tier '' @ debug s @ '' (expected read_only, workspace_write, or danger_full_access)''"

text \<open>The last part of the result is the process that executed the command, if one did.\<close>

definition run_sandbox :: "('r, 'p) kernel \<Rightarrow> 'j world \<Rightarrow> config_error + config \<Rightarrow> hook_state \<Rightarrow> sandbox_args
    \<Rightarrow> cli_result \<times> hook_state \<times> ('r, 'p) process option" where
  "run_sandbox k w loaded st args = (case tier_from_str (sa_tier args) of
       Inl s \<Rightarrow> (\<lparr>cli_stdout = [], cli_stderr = line (''apohara-agentguard sandbox: '' @ tier_error_text (k_debug k) s), cli_code = 2\<rparr>, st, None)
     | Inr t \<Rightarrow>
         if t = DangerFullAccess \<and> \<not> sa_i_know args then
           (\<lparr>cli_stdout = [], cli_stderr = line (''apohara-agentguard sandbox: refusing danger_full_access without --i-know-what-im-doing '' @
               ''(this tier installs NO seccomp filter and NO Landlock ruleset)''), cli_code = 2\<rparr>, st, None)
         else
           let pre = (if t = DangerFullAccess then danger_banner else []);
               st' = (if t = DangerFullAccess then
                        st\<lparr>hs_log := record_audit (w_write_ok w) (audit (config_or_default loaded)) (danger_record (w_millis w) (sa_command args)) (hs_log st)\<rparr>
                      else st)
           in case (case sa_workspace_root args of Some p \<Rightarrow> Inr p | None \<Rightarrow> map_sum id path_text (fs_cwd (k_fs k))) of
                Inl e \<Rightarrow> (\<lparr>cli_stdout = [], cli_stderr = pre @ line (''apohara-agentguard sandbox: cannot determine current directory: '' @ e), cli_code = 2\<rparr>, st', None)
              | Inr root \<Rightarrow> (case run_linux k \<lparr>sr_command = sa_command args, sr_workspace_root = root, sr_tier = t\<rparr> of
                  (Inr r, p) \<Rightarrow> (\<lparr>cli_stdout = rs_stdout r,
                     cli_stderr = pre @ rs_stderr r @ concat (map (\<lambda>v. line (''apohara-agentguard sandbox: violation: '' @ v)) (rs_violations r)),
                     cli_code = nat (max 0 (min 255 (rs_exit_code r)))\<rparr>, st', p)
                | (Inl e, p) \<Rightarrow> (\<lparr>cli_stdout = [], cli_stderr = pre @ line (''apohara-agentguard sandbox: REFUSED (fail-closed): '' @ sandbox_error_text e),
                     cli_code = 70\<rparr>, st', p)))"

section \<open>Properties\<close>

definition mcp_answer :: "'j world \<Rightarrow> (string \<Rightarrow> json option) \<Rightarrow> string \<Rightarrow> config \<Rightarrow> string \<Rightarrow> string option" where
  "mcp_answer w parse version cfg l = (case handle_line w parse version l cfg of Some r \<Rightarrow> r | None \<Rightarrow> None)"

lemma tools_call_total: "set_law (w_engine w) \<Longrightarrow> tools_call w params cfg \<noteq> None"
  using evaluate_total [of "w_re w" "w_b64 w" _ cfg]
  by (auto simp: tools_call_def Let_def scan_content_list split: option.splits sum.splits)

lemma handle_line_total: "set_law (w_engine w) \<Longrightarrow> handle_line w parse version l cfg = Some (mcp_answer w parse version cfg l)"
  by (auto simp: mcp_answer_def handle_line_def mcp_dispatch_def Let_def tools_call_total split: option.split sum.split)

lemma serve_answers:
  "set_law (w_engine w) \<Longrightarrow> serve w parse version (\<lambda>_. None) cfg (map Inr ls) out =
     Some (out @ List.map_filter (\<lambda>l. if trim l = [] then None else mcp_answer w parse version cfg l) ls, None)"
  by (rule agentguard_server.answers_all) (rule handle_line_total)

definition call_request :: "json \<Rightarrow> string \<Rightarrow> string \<Rightarrow> string \<Rightarrow> json" where
  "call_request i tool arg text = JObject [(''id'', i), (''method'', JString ''tools/call''),
     (''params'', JObject [(''name'', JString tool), (''arguments'', JObject [(arg, JString text)])])]"

text \<open>Fact: the server answers every request once and in order. Without I/O errors the output is, for the lines that are not blank,
  one response per line, except for requests without an id, which get none; and a call of \<^verbatim>\<open>check_command\<close> is answered with the verdict of the
  gate, one of \<^verbatim>\<open>scan_prompt\<close> with that of the firewall.\<close>

theorem mcp_answers:
  assumes "set_law (w_engine w)"
  shows "serve w parse version (\<lambda>_. None) cfg (map Inr ls) [] =
      Some (List.map_filter (\<lambda>l. if trim l = [] then None else mcp_answer w parse version cfg l) ls, None) \<and>
    (mcp_answer w parse version cfg l = None \<longleftrightarrow> (\<exists>req. parse l = Some req \<and> json_get req ''id'' = None)) \<and>
    (parse l = Some (call_request i ''check_command'' ''command'' c) \<longrightarrow>
       (\<exists>v. evaluate (w_re w) (w_b64 w) c cfg = Some v \<and>
          mcp_answer w parse version cfg l = Some (result_response (w_to_string w) i (tool_result (w_to_string w) v)))) \<and>
    (parse l = Some (call_request i ''scan_prompt'' ''text'' c) \<longrightarrow>
       (\<exists>v. scan_content (w_engine w) (w_alnum w) c default_thresholds = Some v \<and>
          mcp_answer w parse version cfg l = Some (result_response (w_to_string w) i (tool_result (w_to_string w) v))))"
proof (intro conjI impI)
  show "serve w parse version (\<lambda>_. None) cfg (map Inr ls) [] =
      Some (List.map_filter (\<lambda>l. if trim l = [] then None else mcp_answer w parse version cfg l) ls, None)"
    using serve_answers [OF assms] by simp
  show "mcp_answer w parse version cfg l = None \<longleftrightarrow> (\<exists>req. parse l = Some req \<and> json_get req ''id'' = None)"
    using handle_line_total [OF assms, of parse version l cfg]
    by (auto simp: handle_line_def Let_def mcp_answer_def split: option.splits)
  note defs = mcp_answer_def handle_line_def call_request_def mcp_dispatch_def tools_call_def string_arg_def json_get_def as_str_def Let_def
  show "\<exists>v. evaluate (w_re w) (w_b64 w) c cfg = Some v \<and>
      mcp_answer w parse version cfg l = Some (result_response (w_to_string w) i (tool_result (w_to_string w) v))"
    if "parse l = Some (call_request i ''check_command'' ''command'' c)"
    using evaluate_total [of "w_re w" "w_b64 w" c cfg] that by (auto simp: defs)
  show "\<exists>v. scan_content (w_engine w) (w_alnum w) c default_thresholds = Some v \<and>
      mcp_answer w parse version cfg l = Some (result_response (w_to_string w) i (tool_result (w_to_string w) v))"
    if "parse l = Some (call_request i ''scan_prompt'' ''text'' c)"
    using assms that by (auto simp: defs scan_content_list)
qed

text \<open>A parser that knows two lines: a check of \<^verbatim>\<open>ls\<close> with id 7, and a notification.\<close>

definition sample_parse :: "string \<Rightarrow> json option" where
  "sample_parse l = (if l = ''call'' then Some (call_request (JNumber ''7'') ''check_command'' ''command'' ''ls'') else Some (JObject []))"

theorem mcp_answers_witness:
  "\<exists>r. serve sample_world sample_parse ''0'' (\<lambda>_. None) default_config (map Inr [''call'', ''note'', ''call'']) [] = Some ([r, r], None)"
proof -
  have law: "set_law (w_engine sample_world)" by (simp add: sample_world_def eager_set_law)
  obtain r where "mcp_answer sample_world sample_parse ''0'' default_config ''call'' = Some r"
    using mcp_answers [OF law, of sample_parse "''0''" default_config "[]" "''call''" "JNumber ''7''" "''ls''"] by (auto simp: sample_parse_def)
  moreover have "mcp_answer sample_world sample_parse ''0'' default_config ''note'' = None"
    using mcp_answers [OF law, of sample_parse "''0''" default_config "[]" "''note''"] by (auto simp: sample_parse_def json_get_def)
  moreover have "trim ''call'' \<noteq> []" "trim ''note'' \<noteq> []" by (simp_all add: trim_token ws1_def)
  ultimately show ?thesis
    using mcp_answers [OF law, of sample_parse "''0''" default_config "[''call'', ''note'', ''call'']", THEN conjunct1] by (simp add: map_filter_simps)
qed

lemma no_policy_allows: "fst (policy_evaluate default_policy_set (ask_input c) cfg) = allow"
  by (simp add: policy_evaluate_def default_policy_set_def ask_input_def evaluate_rules_def has_explicit_allow_def budget_check_def
      charge_for_def budget_verdict_def over_def bash_command_def Let_def split: option.split prod.split)

lemma gate_never_asks: "evaluate re b64 c cfg = Some v \<Longrightarrow> v_tier v \<noteq> Ask"
  using gate_tier [of re b64 c cfg] by (auto simp: severity_to_tier_def split: if_splits)

text \<open>Fact: the subcommand \<^verbatim>\<open>ask\<close> against \<^verbatim>\<open>check\<close>. Both always answer; without a policy file the two print the same and exit alike, and with
  one \<^verbatim>\<open>ask\<close> exits with 2 exactly when the gate or the policy blocks, where a policy that does not load counts as blocking.\<close>

theorem ask_extends_check:
  "(pol_file (policy (apply_policy_override (config_or_default loaded) cli)) = None \<longrightarrow> run_ask w c loaded cli = run_check w c loaded cli) \<and>
   (\<exists>r r'. run_check w c loaded cli = Some r \<and> run_ask w c loaded cli = Some r' \<and>
      (cli_code r' = 2 \<longleftrightarrow> cli_code r = 2 \<or>
         (case policy_load (w_read_policy w) (w_toml w) (pol_file (policy (apply_policy_override (config_or_default loaded) cli))) of
            Inl e \<Rightarrow> True
          | Inr ps \<Rightarrow> v_tier (fst (policy_evaluate ps (ask_input c) (apply_policy_override (config_or_default loaded) cli))) = Block)))"
proof -
  define cfg where "cfg = apply_policy_override (config_or_default loaded) cli"
  obtain g where g: "evaluate (w_re w) (w_b64 w) c cfg = Some g" using evaluate_total by blast
  have na: "v_tier g \<noteq> Ask" using gate_never_asks [OF g] .
  have "run_ask w c loaded cli = run_check w c loaded cli" if "pol_file (policy cfg) = None"
    using that g na by (auto simp: run_ask_def run_check_def cfg_def [symmetric] policy_load_def no_policy_allows Let_def allow_def split: tier.split)
  moreover have "\<exists>r r'. run_check w c loaded cli = Some r \<and> run_ask w c loaded cli = Some r' \<and>
      (cli_code r' = 2 \<longleftrightarrow> cli_code r = 2 \<or> (case policy_load (w_read_policy w) (w_toml w) (pol_file (policy cfg)) of
         Inl e \<Rightarrow> True | Inr ps \<Rightarrow> v_tier (fst (policy_evaluate ps (ask_input c) cfg)) = Block))"
    using g na
    by (cases "policy_load (w_read_policy w) (w_toml w) (pol_file (policy cfg))"; cases "v_tier g")
      (auto simp: run_ask_def run_check_def cfg_def [symmetric] Let_def block_def split: tier.split)
  ultimately show ?thesis unfolding cfg_def by blast
qed

theorem ask_extends_check_witness:
  "run_ask sample_world ''ls'' (Inr default_config) None = run_check sample_world ''ls'' (Inr default_config) None \<and>
   (\<exists>r'. run_ask sample_world ''ls'' (Inl (ReadError ''f'')) None = Some r')"
  using ask_extends_check [of "Inr default_config" None sample_world "''ls''"] ask_extends_check [of "Inl (ReadError ''f'')" None sample_world "''ls''"]
  by (auto simp: apply_policy_override_def config_or_default_def default_config_def)

text \<open>Fact: nothing runs unconfined by accident. If the subcommand \<^verbatim>\<open>sandbox\<close> executed a command, then either the tier is confined and the
  process has a Landlock ruleset and a filter, or the unconfined tier was named together with the acknowledging flag; and an exit code
  of 0 means that the command was executed.\<close>

theorem sandbox_cli_safe:
  assumes "faithful_pipe k" and "run_sandbox k w loaded st args = (r, st', became)"
  shows "(\<forall>p. became = Some p \<longrightarrow> (\<exists>t. tier_from_str (sa_tier args) = Inr t \<and>
        (t = DangerFullAccess \<and> sa_i_know args \<or> t \<noteq> DangerFullAccess \<and> pr_nnp p \<and> pr_landlock p \<noteq> None \<and> pr_seccomp p \<noteq> None))) \<and>
      (cli_code r = 0 \<longrightarrow> became \<noteq> None)"
proof (cases "tier_from_str (sa_tier args)")
  case (Inr t)
  show ?thesis
  proof (cases "t = DangerFullAccess \<and> \<not> sa_i_know args")
    case False
    show ?thesis
    proof (cases "case sa_workspace_root args of Some p \<Rightarrow> Inr p | None \<Rightarrow> map_sum id path_text (fs_cwd (k_fs k))")
      case (Inr root)
      define req where "req = \<lparr>sr_command = sa_command args, sr_workspace_root = root, sr_tier = t\<rparr>"
      obtain res p where run: "run_linux k req = (res, p)" by fastforce
      with assms(2) \<open>tier_from_str (sa_tier args) = Inr t\<close> False Inr
      have out: "became = p" "cli_code r = (case res of Inr r \<Rightarrow> nat (max 0 (min 255 (rs_exit_code r))) | Inl e \<Rightarrow> 70)"
        by (auto simp: run_sandbox_def Let_def req_def [symmetric] split: sum.splits)
      show ?thesis
      proof (cases res)
        case (Inr res')
        with run_linux_set_up_fails [OF assms(1), of req res'] run_linux_executes [of k req res] run out False \<open>tier_from_str (sa_tier args) = Inr t\<close>
        show ?thesis by (cases p) (auto simp: req_def)
      next
        case (Inl e)
        with run_linux_executes [of k req res] run out False \<open>tier_from_str (sa_tier args) = Inr t\<close>
        show ?thesis by (auto simp: req_def)
      qed
    qed (use assms(2) \<open>tier_from_str (sa_tier args) = Inr t\<close> False in \<open>auto simp: run_sandbox_def Let_def\<close>)
  qed (use assms(2) Inr in \<open>auto simp: run_sandbox_def\<close>)
qed (use assms(2) in \<open>auto simp: run_sandbox_def\<close>)

theorem sandbox_cli_safe_witness:
  "\<exists>r st' p. run_sandbox sample_kernel sample_world (Inr default_config) sample_state
     \<lparr>sa_tier = ''read_only'', sa_workspace_root = Some ''/w'', sa_i_know = False, sa_command = [''true'']\<rparr> = (r, st', Some p) \<and> pr_seccomp p \<noteq> None"
proof -
  let ?args = "\<lparr>sa_tier = ''read_only'', sa_workspace_root = Some ''/w'', sa_i_know = False, sa_command = [''true'']\<rparr>"
  obtain res p where "run_linux sample_kernel sample_request = (Inr res, Some p)" using sample_run(1) by blast
  then obtain r st' where run: "run_sandbox sample_kernel sample_world (Inr default_config) sample_state ?args = (r, st', Some p)"
    by (auto simp: run_sandbox_def tier_from_str_def sample_request_def)
  moreover have "pr_seccomp p \<noteq> None"
    using sandbox_cli_safe [OF sample_kernel_pipe(1) run] by (auto simp: tier_from_str_def)
  ultimately show ?thesis by blast
qed

text \<open>Fact: a run whose wait status is neither an exit nor a signal has the code -1, which the command line turns into 0, the code of success.\<close>

theorem unknown_status_exits_zero:
  assumes "run_linux k \<lparr>sr_command = sa_command args, sr_workspace_root = root, sr_tier = t\<rparr> = (Inr res, p)" and "rs_exit_code res = -1"
    and "tier_from_str (sa_tier args) = Inr t" and "t \<noteq> DangerFullAccess" and "sa_workspace_root args = Some root"
  shows "cli_code (fst (run_sandbox k w loaded st args)) = 0 \<and> fst (summarize k (OtherStatus s) e req) = -1"
  using assms by (simp add: run_sandbox_def summarize_def Let_def)

text \<open>Fact: the policy file given on the command line does not reach the firewall: \<^verbatim>\<open>scan\<close> answers the same with any policy.\<close>

theorem scan_ignores_policy: "run_scan w stdin loaded cli = run_scan w stdin loaded' cli'"
  by (simp add: run_scan_def)

end
