(* ===== verification/Chain.thy ===== *)
theory Chain
  imports Prelude
begin

text \<open>
  \<^verbatim>\<open>crates/tl-chain/src/lib.rs\<close>: the append-only BLAKE3 chain. An in-memory chain is the list of its entries; BLAKE3 is
  the parameter \<open>blake3\<close>, a function from bytes to bytes. The locale \<open>hash_chain\<close> states what the two chain crates of the
  repository share; it is interpreted here for \<^verbatim>\<open>tl-chain\<close> and in \<open>EvidenceChain\<close> for \<^verbatim>\<open>themis-evidence\<close>.
\<close>

section \<open>The chain\<close>

definition GENESIS_PREV_HASH :: string where
  "GENESIS_PREV_HASH = replicate 64 CHR ''0''"

record chain_entry =
  ce_sequence :: u64
  ce_payload :: string
  ce_blake3_hash :: string
  ce_prev_hash :: string
  ce_created_at_ms :: i64

datatype chain_error = HashMismatch u64 | InvalidGenesis u64 | BrokenChain u64

definition compute_hash :: "(string \<Rightarrow> string) \<Rightarrow> u64 \<Rightarrow> string \<Rightarrow> string \<Rightarrow> string" where
  "compute_hash blake3 sequence prev_hash payload = hex_encode (blake3 (be_bytes 8 (unat sequence) @ prev_hash @ payload))"

definition latest :: "chain_entry list \<Rightarrow> chain_entry option" where
  "latest entries = (if entries = [] then None else Some (last entries))"

definition append_with_timestamp :: "(string \<Rightarrow> string) \<Rightarrow> chain_entry list \<Rightarrow> string \<Rightarrow> i64 \<Rightarrow> chain_entry list" where
  "append_with_timestamp blake3 entries payload now_ms =
     (let sequence = word_of_nat (length entries);
          prev_hash = (case latest entries of Some e \<Rightarrow> ce_blake3_hash e | None \<Rightarrow> GENESIS_PREV_HASH)
      in entries @ [\<lparr>ce_sequence = sequence, ce_payload = payload,
                     ce_blake3_hash = compute_hash blake3 sequence prev_hash payload,
                     ce_prev_hash = prev_hash, ce_created_at_ms = now_ms\<rparr>])"

definition append_entry :: "(string \<Rightarrow> string) \<Rightarrow> chain_entry list \<Rightarrow> string \<Rightarrow> chain_entry list" where
  "append_entry blake3 entries payload = append_with_timestamp blake3 entries payload 0"

text \<open>The body of the verification loop, \<open>Some\<close> error to return with, and the loop.\<close>

definition verify_entry :: "(string \<Rightarrow> string) \<Rightarrow> nat \<Rightarrow> chain_entry \<Rightarrow> chain_error option" where
  "verify_entry blake3 i entry =
     (if ce_sequence entry \<noteq> word_of_nat i then Some (InvalidGenesis (ce_sequence entry))
      else if ce_sequence entry = 0 \<and> ce_prev_hash entry \<noteq> GENESIS_PREV_HASH then Some (InvalidGenesis (ce_sequence entry))
      else if ce_sequence entry \<noteq> 0 \<and> ce_prev_hash entry = GENESIS_PREV_HASH then Some (BrokenChain (ce_sequence entry))
      else if compute_hash blake3 (ce_sequence entry) (ce_prev_hash entry) (ce_payload entry) \<noteq> ce_blake3_hash entry
      then Some (HashMismatch (ce_sequence entry))
      else None)"

fun verify_from :: "(string \<Rightarrow> string) \<Rightarrow> nat \<Rightarrow> chain_entry list \<Rightarrow> chain_error + unit" where
  "verify_from blake3 i [] = Inr ()"
| "verify_from blake3 i (entry # rest) =
     (case verify_entry blake3 i entry of Some e \<Rightarrow> Inl e | None \<Rightarrow> verify_from blake3 (Suc i) rest)"

definition verify :: "(string \<Rightarrow> string) \<Rightarrow> chain_entry list \<Rightarrow> chain_error + unit" where
  "verify blake3 entries = verify_from blake3 0 entries"

definition root :: "chain_entry list \<Rightarrow> string" where
  "root entries = (case latest entries of Some e \<Rightarrow> ce_blake3_hash e | None \<Rightarrow> GENESIS_PREV_HASH)"

section \<open>What a hash chain promises\<close>

text \<open>The head of the chain holding the payloads \<open>ps\<close>, newest first, under an entry hash \<open>H\<close>; and the arguments the hash
  was computed on.\<close>

fun chain_head :: "(u64 \<Rightarrow> string \<Rightarrow> string \<Rightarrow> string) \<Rightarrow> string \<Rightarrow> string list \<Rightarrow> string" where
  "chain_head H g [] = g"
| "chain_head H g (p # ps) = H (word_of_nat (length ps)) (chain_head H g ps) p"

fun hashed :: "(u64 \<Rightarrow> string \<Rightarrow> string \<Rightarrow> string) \<Rightarrow> string \<Rightarrow> string list \<Rightarrow> (u64 \<times> string \<times> string) set" where
  "hashed H g [] = {}"
| "hashed H g (p # ps) = insert (word_of_nat (length ps), chain_head H g ps, p) (hashed H g ps)"

text \<open>No two of the hashed arguments collide, and none hashes to the all-zero placeholder.\<close>

definition collision_free :: "(u64 \<Rightarrow> string \<Rightarrow> string \<Rightarrow> string) \<Rightarrow> string \<Rightarrow> (u64 \<times> string \<times> string) set \<Rightarrow> bool" where
  "collision_free H g X \<longleftrightarrow> inj_on (\<lambda>(n, h, p). H n h p) X \<and> (\<forall>(n, h, p) \<in> X. H n h p \<noteq> g)"

lemma collision_free_mono: "collision_free H g Y \<Longrightarrow> X \<subseteq> Y \<Longrightarrow> collision_free H g X"
  unfolding collision_free_def by (blast intro: inj_on_subset)

lemma collision_freeD:
  assumes "collision_free H g X" and "(n, h, p) \<in> X" and "(m, k, q) \<in> X" and "H n h p = H m k q"
  shows "n = m \<and> h = k \<and> p = q"
  using inj_onD [of "\<lambda>(n, h, p). H n h p" X "(n, h, p)" "(m, k, q)"] assms by (auto simp: collision_free_def)

lemma collision_free_genesis: "collision_free H g X \<Longrightarrow> (n, h, p) \<in> X \<Longrightarrow> H n h p \<noteq> g"
  by (fastforce simp: collision_free_def)

lemma chain_head_inj:
  assumes "collision_free H g (hashed H g ps \<union> hashed H g qs)" and "chain_head H g ps = chain_head H g qs"
  shows "ps = qs"
  using assms
proof (induction ps arbitrary: qs)
  case Nil
  show ?case
  proof (cases qs)
    case (Cons q rs)
    then show ?thesis
      using Nil.prems collision_free_genesis [OF Nil.prems(1), of "word_of_nat (length rs)" "chain_head H g rs" q] by simp
  qed simp
next
  case (Cons p ps)
  show ?case
  proof (cases qs)
    case Nil
    then show ?thesis
      using Cons.prems collision_free_genesis [OF Cons.prems(1), of "word_of_nat (length ps)" "chain_head H g ps" p] by simp
  next
    case qs: (Cons q rs)
    then have "chain_head H g ps = chain_head H g rs \<and> p = q"
      using Cons.prems(2) collision_freeD [OF Cons.prems(1), of "word_of_nat (length ps)" "chain_head H g ps" p
          "word_of_nat (length rs)" "chain_head H g rs" q] by simp
    moreover have "collision_free H g (hashed H g ps \<union> hashed H g rs)"
      using Cons.prems(1) by (rule collision_free_mono) (auto simp: qs)
    ultimately have "ps = rs" and "p = q" using Cons.IH [of rs] by simp_all
    then show ?thesis by (simp add: qs)
  qed
qed

definition build_chain :: "('e list \<Rightarrow> string \<Rightarrow> 't \<Rightarrow> 'e list) \<Rightarrow> (string \<times> 't) list \<Rightarrow> 'e list" where
  "build_chain app pts = foldl (\<lambda>es pt. app es (fst pt) (snd pt)) [] pts"

lemma build_chain_simps [simp]:
  "build_chain app [] = []"
  "build_chain app (pts @ [(p, t)]) = app (build_chain app pts) p t"
  by (simp_all add: build_chain_def)

text \<open>The interface: appending puts one linked entry at the end; verification accepts the empty chain and is decided entry by
  entry, from the left, by a check that accepts every linked entry and, past the genesis, never looks at the hash of the
  entry before.\<close>

locale hash_chain =
  fixes H :: "u64 \<Rightarrow> string \<Rightarrow> string \<Rightarrow> string"
    and genesis :: string
    and app :: "'e list \<Rightarrow> string \<Rightarrow> 't \<Rightarrow> 'e list"
    and entry :: "u64 \<Rightarrow> string \<Rightarrow> string \<Rightarrow> string \<Rightarrow> 't \<Rightarrow> 'e"
    and seq_of :: "'e \<Rightarrow> u64"
    and payload_of :: "'e \<Rightarrow> string"
    and hash_of :: "'e \<Rightarrow> string"
    and prev_of :: "'e \<Rightarrow> string"
    and accepts :: "'e list \<Rightarrow> bool"
    and check :: "nat \<Rightarrow> string \<Rightarrow> 'e \<Rightarrow> bool"
  assumes hash_of_entry: "hash_of (entry n p x h t) = x"
    and payload_of_entry: "payload_of (entry n p x h t) = p"
    and prev_of_entry: "prev_of (entry n p x h t) = h"
    and append_is: "app es p t =
          es @ [let n = word_of_nat (length es); h = (if es = [] then genesis else hash_of (last es)) in entry n p (H n h p) h t]"
    and accepts_Nil: "accepts []"
    and accepts_snoc: "accepts (es @ [e]) \<longleftrightarrow> accepts es \<and> check (length es) (if es = [] then genesis else hash_of (last es)) e"
    and check_linked: "i < 2 ^ 64 \<Longrightarrow> (i = 0 \<longleftrightarrow> h = genesis) \<Longrightarrow> i = 0 \<longrightarrow> k = genesis \<Longrightarrow>
          check i k (entry (word_of_nat i) p (H (word_of_nat i) h p) h t)"
    and check_local: "seq_of e \<noteq> 0 \<Longrightarrow> check i h e \<longleftrightarrow> check i h' e"
begin

lemma head_append:
  "hash_of (last (app es p t)) = H (word_of_nat (length es)) (if es = [] then genesis else hash_of (last es)) p"
  by (simp add: append_is hash_of_entry Let_def)

lemma length_append: "length (app es p t) = Suc (length es)" and append_not_Nil: "app es p t \<noteq> []"
  by (simp_all add: append_is)

lemma length_build: "length (build_chain app pts) = length pts"
proof (induction pts rule: rev_induct)
  case (snoc pt pts)
  then show ?case by (cases pt) (simp add: length_append)
qed simp

lemma build_Nil_iff: "build_chain app pts = [] \<longleftrightarrow> pts = []"
  using length_build [of pts] by (metis length_0_conv)

lemma head_build: "pts \<noteq> [] \<Longrightarrow> hash_of (last (build_chain app pts)) = chain_head H genesis (rev (map fst pts))"
proof (induction pts rule: rev_induct)
  case (snoc pt pts)
  then show ?case by (cases pt) (auto simp: head_append length_build build_Nil_iff)
qed simp

lemma accepts_append:
  assumes "accepts es" and "length es < 2 ^ 64" and "es \<noteq> [] \<longrightarrow> hash_of (last es) \<noteq> genesis"
  shows "accepts (app es p t)"
  using assms check_linked by (simp add: append_is accepts_snoc Let_def)

lemma accepts_build:
  assumes "length pts \<le> 2 ^ 64" and "\<forall>n h p. H n h p \<noteq> genesis"
  shows "accepts (build_chain app pts)"
  using assms
proof (induction pts rule: rev_induct)
  case (snoc pt pts)
  have "chain_head H genesis (rev (map fst pts)) \<noteq> genesis" if "pts \<noteq> []"
    using assms(2) that by (cases "rev (map fst pts)") auto
  then have "accepts (app (build_chain app pts) (fst pt) (snd pt))"
    using snoc by (intro accepts_append) (auto simp: head_build build_Nil_iff length_build)
  then show ?case by (cases pt) simp
qed (simp add: accepts_Nil)

lemma payloads_build: "map payload_of (build_chain app pts) = map fst pts"
proof (induction pts rule: rev_induct)
  case (snoc pt pts)
  then show ?case by (cases pt) (simp add: append_is [of "build_chain app pts"] payload_of_entry Let_def)
qed simp

lemma build_linked:
  "i < length pts \<Longrightarrow> prev_of (build_chain app pts ! i) = (if i = 0 then genesis else hash_of (build_chain app pts ! (i - 1)))"
proof (induction pts rule: rev_induct)
  case (snoc pt pts)
  then show ?case
    by (cases pt) (auto simp: append_is [of "build_chain app pts"] prev_of_entry Let_def nth_append length_build last_conv_nth build_Nil_iff less_Suc_eq)
qed simp

lemma root_commits:
  assumes "collision_free H genesis (hashed H genesis (rev (map fst pts)) \<union> hashed H genesis (rev (map fst qts)))"
    and "pts \<noteq> []" and "qts \<noteq> []"
    and "hash_of (last (build_chain app pts)) = hash_of (last (build_chain app qts))"
  shows "map fst pts = map fst qts"
  using chain_head_inj [OF assms(1)] assms by (simp add: head_build)

lemma accepts_prefix: "accepts (es @ fs) \<Longrightarrow> accepts es"
proof (induction fs rule: rev_induct)
  case (snoc f fs)
  then show ?case using accepts_snoc [of "es @ fs" f] by simp
qed simp

lemma accepts_iff:
  "accepts es \<longleftrightarrow> (\<forall>i < length es. check i (if i = 0 then genesis else hash_of (es ! (i - 1))) (es ! i))"
proof (induction es rule: rev_induct)
  case (snoc e es)
  then show ?case by (auto simp: accepts_snoc less_Suc_eq nth_append last_conv_nth)
qed (simp add: accepts_Nil)

text \<open>Past the genesis an entry can be replaced by any other one with a freshly computed hash.\<close>

lemma accepts_relinked:
  assumes "accepts es" and "0 < i" and "i < length es" and "length es \<le> 2 ^ 64" and "h \<noteq> genesis"
    and "\<forall>j < length es. 0 < j \<longrightarrow> seq_of (es ! j) \<noteq> 0"
  shows "accepts (es[i := entry (word_of_nat i) p (H (word_of_nat i) h p) h t])"
  unfolding accepts_iff
proof (intro allI impI)
  let ?e = "entry (word_of_nat i) p (H (word_of_nat i) h p) h t"
  fix j assume j: "j < length (es[i := ?e])"
  have old: "check j (if j = 0 then genesis else hash_of (es ! (j - 1))) (es ! j)"
    using assms(1) j by (simp add: accepts_iff)
  show "check j (if j = 0 then genesis else hash_of (es[i := ?e] ! (j - 1))) (es[i := ?e] ! j)"
  proof (cases "j = i")
    case True
    then show ?thesis using assms check_linked j by simp
  next
    case False
    then show ?thesis using old assms(2,6) check_local [of "es ! j"] j by (cases "j = 0") auto
  qed
qed

end

section \<open>The chain of tl-chain\<close>

definition tl_entry :: "u64 \<Rightarrow> string \<Rightarrow> string \<Rightarrow> string \<Rightarrow> i64 \<Rightarrow> chain_entry" where
  "tl_entry n p x h t = \<lparr>ce_sequence = n, ce_payload = p, ce_blake3_hash = x, ce_prev_hash = h, ce_created_at_ms = t\<rparr>"

definition tl_check :: "(string \<Rightarrow> string) \<Rightarrow> nat \<Rightarrow> chain_entry \<Rightarrow> bool" where
  "tl_check blake3 i e \<longleftrightarrow> ce_sequence e = word_of_nat i \<and> (ce_sequence e = 0 \<longleftrightarrow> ce_prev_hash e = GENESIS_PREV_HASH) \<and>
     ce_blake3_hash e = compute_hash blake3 (ce_sequence e) (ce_prev_hash e) (ce_payload e)"

lemma verify_entry_None: "verify_entry blake3 i e = None \<longleftrightarrow> tl_check blake3 i e"
  by (auto simp: verify_entry_def tl_check_def)

lemma verify_from_snoc:
  "verify_from blake3 i (es @ [e]) = Inr () \<longleftrightarrow> verify_from blake3 i es = Inr () \<and> tl_check blake3 (i + length es) e"
  by (induction es arbitrary: i) (auto simp flip: verify_entry_None split: option.split)

lemma verify_from_update:
  "verify_from blake3 k es = Inr () \<Longrightarrow> i < length es \<Longrightarrow> verify_entry blake3 (k + i) e = Some x \<Longrightarrow>
   verify_from blake3 k (es[i := e]) = Inl x"
proof (induction es arbitrary: i k)
  case (Cons a es)
  then show ?case by (cases i) (auto split: option.splits)
qed simp

lemma word_of_nat_0: "i < 2 ^ 64 \<Longrightarrow> (word_of_nat i :: u64) = 0 \<longleftrightarrow> i = 0"
  by (auto simp: word_of_nat_eq_0_iff dest: nat_dvd_not_less)

interpretation tl: hash_chain "compute_hash blake3" GENESIS_PREV_HASH "append_with_timestamp blake3" tl_entry
  ce_sequence ce_payload ce_blake3_hash ce_prev_hash "\<lambda>es. verify blake3 es = Inr ()" "\<lambda>i h e. tl_check blake3 i e"
  for blake3
  by unfold_locales
    (auto simp: tl_entry_def append_with_timestamp_def latest_def Let_def verify_def verify_from_snoc tl_check_def word_of_nat_0)

lemma root_is: "root es = (if es = [] then GENESIS_PREV_HASH else ce_blake3_hash (last es))"
  by (simp add: root_def latest_def)

lemma genesis_hex: "GENESIS_PREV_HASH = hex_encode (replicate 32 CHR 0x00)"
  by code_simp

lemma compute_hash_not_genesis: "blake3 (be_bytes 8 (unat n) @ h @ p) \<noteq> replicate 32 CHR 0x00 \<Longrightarrow> compute_hash blake3 n h p \<noteq> GENESIS_PREV_HASH"
  by (simp add: compute_hash_def genesis_hex)

section \<open>Properties\<close>

text \<open>Fact: what verification establishes. A chain verifies exactly when every entry carries its position as its sequence
  number, exactly the genesis has the all-zero previous hash, and every stored hash is the hash of the stored sequence number,
  previous hash and payload.\<close>

theorem verify_exact:
  "verify blake3 es = Inr () \<longleftrightarrow>
     (\<forall>i < length es. ce_sequence (es ! i) = word_of_nat i \<and>
        (ce_sequence (es ! i) = 0 \<longleftrightarrow> ce_prev_hash (es ! i) = GENESIS_PREV_HASH) \<and>
        ce_blake3_hash (es ! i) =
          hex_encode (blake3 (be_bytes 8 (unat (ce_sequence (es ! i))) @ ce_prev_hash (es ! i) @ ce_payload (es ! i))))"
  by (simp add: tl.accepts_iff tl_check_def compute_hash_def)

theorem verify_exact_witness:
  "verify (\<lambda>_. replicate 32 CHR ''Z'') (append_entry (\<lambda>_. replicate 32 CHR ''Z'') [] ''a'') = Inr ()"
  using verify_exact [of "\<lambda>_. replicate 32 CHR ''Z''" "append_entry (\<lambda>_. replicate 32 CHR ''Z'') [] ''a''"]
  by (simp add: append_entry_def append_with_timestamp_def latest_def compute_hash_def)

text \<open>Fact: a chain built by appending records exactly the appended payloads in order, links every entry to the one
  before, and verifies, as long as BLAKE3 never yields 32 zero bytes.\<close>

theorem built_chain_verifies:
  assumes "length pts \<le> 2 ^ 64" and "\<forall>x. blake3 x \<noteq> replicate 32 CHR 0x00"
    and "es = build_chain (append_with_timestamp blake3) pts"
  shows "verify blake3 es = Inr () \<and> map ce_payload es = map fst pts \<and>
         (\<forall>i < length es. ce_prev_hash (es ! i) = root (take i es))"
proof (intro conjI allI impI)
  show "verify blake3 es = Inr ()"
    unfolding assms(3) by (rule tl.accepts_build) (use assms compute_hash_not_genesis in auto)
  show "map ce_payload es = map fst pts" by (simp add: assms(3) tl.payloads_build)
  show "ce_prev_hash (es ! i) = root (take i es)" if "i < length es" for i
    using that by (cases i) (auto simp: assms(3) tl.length_build tl.build_linked root_is take_Suc_conv_app_nth)
qed

theorem built_chain_verifies_witness:
  "verify (\<lambda>_. replicate 32 CHR ''Z'') (build_chain (append_with_timestamp (\<lambda>_. replicate 32 CHR ''Z'')) [(''a'', 1), (''b'', 2)]) = Inr ()"
  using built_chain_verifies [of "[(''a'', 1), (''b'', 2)]" "\<lambda>_. replicate 32 CHR ''Z''", OF _ _ refl] by simp

text \<open>The bytes that are hashed determine the sequence number, the previous hash and the payload.\<close>

definition preimage :: "u64 \<times> string \<times> string \<Rightarrow> string" where
  "preimage = (\<lambda>(n, h, p). be_bytes 8 (unat n) @ h @ p)"

lemma preimage_inj:
  assumes "length h = length k" and "preimage (n, h, p) = preimage (m, k, q)"
  shows "n = m \<and> h = k \<and> p = q"
proof -
  have "be_bytes 8 (unat n) = be_bytes 8 (unat m)" and hp: "h @ p = k @ q"
    using assms(2) by (auto simp: preimage_def)
  moreover have "unat (x :: u64) < 256 ^ 8" for x using unsigned_less [of x] by simp
  ultimately have "unat n = unat m" using be_bytes_inj by blast
  then have "n = m" by (rule unsigned_word_eqI)
  then show ?thesis using hp assms(1) by simp
qed

lemma hashed_length:
  assumes "\<forall>x. length (blake3 x) = 32" and "(n, h, p) \<in> hashed (compute_hash blake3) GENESIS_PREV_HASH ps"
  shows "length h = 64"
proof -
  have "length (chain_head (compute_hash blake3) GENESIS_PREV_HASH qs) = 64" for qs
    by (cases qs) (simp_all add: GENESIS_PREV_HASH_def compute_hash_def assms(1))
  then show ?thesis using assms(2) by (induction ps) auto
qed

lemma blake3_collision_free:
  assumes "\<forall>x. length (blake3 x) = 32" and "\<forall>x. blake3 x \<noteq> replicate 32 CHR 0x00"
    and "inj_on blake3 (preimage ` X)" and "\<forall>(n, h, p) \<in> X. length h = 64"
  shows "collision_free (compute_hash blake3) GENESIS_PREV_HASH X"
  unfolding collision_free_def
proof (intro conjI inj_onI)
  fix a b assume ab: "a \<in> X" "b \<in> X"
    and eq: "(\<lambda>(n, h, p). compute_hash blake3 n h p) a = (\<lambda>(n, h, p). compute_hash blake3 n h p) b"
  have "blake3 (preimage a) = blake3 (preimage b)"
    using eq by (auto simp: compute_hash_def preimage_def split: prod.splits)
  then have "preimage a = preimage b" using assms(3) ab by (auto dest: inj_onD)
  moreover have "length (fst (snd a)) = 64" and "length (fst (snd b)) = 64"
    using ab assms(4) by (auto simp: case_prod_beta)
  ultimately show "a = b"
    using preimage_inj [of "fst (snd a)" "fst (snd b)" "fst a" "snd (snd a)" "fst b" "snd (snd b)"] by (simp add: prod_eq_iff)
qed (use assms(2) compute_hash_not_genesis in auto)

text \<open>Property C3: the root commits to the whole history. Two chains built by appending that have the same root record the same
  payloads in the same order, as long as BLAKE3 does not collide on the inputs of the two chains and no digest is all zero, which is the root
  of the empty chain.\<close>

theorem chain_root_commits:
  assumes "\<forall>x. length (blake3 x) = 32" and "\<forall>x. blake3 x \<noteq> replicate 32 CHR 0x00"
    and "inj_on blake3 (preimage ` (hashed (compute_hash blake3) GENESIS_PREV_HASH (rev (map fst pts)) \<union>
                                    hashed (compute_hash blake3) GENESIS_PREV_HASH (rev (map fst qts))))"
    and "root (build_chain (append_with_timestamp blake3) pts) = root (build_chain (append_with_timestamp blake3) qts)"
  shows "map fst pts = map fst qts"
proof -
  let ?h = "\<lambda>pts. hashed (compute_hash blake3) GENESIS_PREV_HASH (rev (map fst pts))"
  have root: "root (build_chain (append_with_timestamp blake3) pts) = chain_head (compute_hash blake3) GENESIS_PREV_HASH (rev (map fst pts))" for pts
    by (cases "pts = []") (simp_all add: root_is tl.head_build tl.build_Nil_iff)
  have "collision_free (compute_hash blake3) GENESIS_PREV_HASH (?h pts \<union> ?h qts)"
    using assms(1-3) hashed_length [OF assms(1)] by (intro blake3_collision_free) auto
  then have "rev (map fst pts) = rev (map fst qts)"
    by (rule chain_head_inj) (use assms(4) root in simp)
  then show ?thesis by simp
qed

theorem chain_root_commits_witness:
  "root (build_chain (append_with_timestamp (\<lambda>_. replicate 32 CHR ''Z'')) [(''a'', 1)]) =
   root (build_chain (append_with_timestamp (\<lambda>_. replicate 32 CHR ''Z'')) [(''a'', 2)]) \<and>
   map fst [(''a'', 1 :: i64)] = map fst [(''a'', 2 :: i64)]"
proof
  show eq: "root (build_chain (append_with_timestamp (\<lambda>_. replicate 32 CHR ''Z'')) [(''a'', 1)]) =
    root (build_chain (append_with_timestamp (\<lambda>_. replicate 32 CHR ''Z'')) [(''a'', 2)])"
    by (simp add: build_chain_def append_with_timestamp_def latest_def root_def)
  show "map fst [(''a'', 1 :: i64)] = map fst [(''a'', 2 :: i64)]"
    by (rule chain_root_commits [OF _ _ _ eq]) simp_all
qed

text \<open>Fact: a changed payload is found. When one payload of a verified chain is altered and the new bytes hash
  differently, verification fails with a hash mismatch at exactly that sequence number.\<close>

theorem tampered_payload_detected:
  assumes "verify blake3 es = Inr ()" and "i < length es"
    and "blake3 (preimage (word_of_nat i, ce_prev_hash (es ! i), q)) \<noteq> blake3 (preimage (word_of_nat i, ce_prev_hash (es ! i), ce_payload (es ! i)))"
  shows "verify blake3 (es[i := (es ! i)\<lparr>ce_payload := q\<rparr>]) = Inl (HashMismatch (word_of_nat i))"
proof -
  have "tl_check blake3 i (es ! i)" using assms(1,2) by (simp add: tl.accepts_iff)
  then have "verify_entry blake3 (0 + i) ((es ! i)\<lparr>ce_payload := q\<rparr>) = Some (HashMismatch (word_of_nat i))"
    using assms(3) by (auto simp: verify_entry_def tl_check_def compute_hash_def preimage_def)
  then show ?thesis using assms(1,2) verify_from_update unfolding verify_def by blast
qed

definition toy_hash :: "string \<Rightarrow> string" where
  "toy_hash x = replicate 32 (if last x = CHR ''c'' then CHR ''C'' else CHR ''Z'')"

lemma toy_chain_ok: "verify toy_hash (build_chain (append_with_timestamp toy_hash) [(''a'', 1), (''b'', 2)]) = Inr ()"
proof (rule tl.accepts_build)
  show "\<forall>n h p. compute_hash toy_hash n h p \<noteq> GENESIS_PREV_HASH"
    by (intro allI compute_hash_not_genesis) (simp add: toy_hash_def replicate_eq_replicate)
qed simp

theorem tampered_payload_detected_witness:
  "verify toy_hash ((build_chain (append_with_timestamp toy_hash) [(''a'', 1), (''b'', 2)])
     [1 := (build_chain (append_with_timestamp toy_hash) [(''a'', 1), (''b'', 2)] ! 1)\<lparr>ce_payload := ''c''\<rparr>])
   = Inl (HashMismatch 1)"
proof -
  let ?es = "build_chain (append_with_timestamp toy_hash) [(''a'', 1), (''b'', 2)]"
  have len: "1 < length ?es" by (simp add: tl.length_build)
  then have "ce_payload (?es ! 1) = map ce_payload ?es ! 1" by (rule nth_map [symmetric])
  then have "ce_payload (?es ! 1) = ''b''" by (simp add: tl.payloads_build)
  then show ?thesis
    using tampered_payload_detected [OF toy_chain_ok len, of "''c''"] by (simp add: preimage_def toy_hash_def)
qed

text \<open>Fact: verification does not check the linkage. In a verified chain any entry past the genesis can be replaced by one
  with any payload and any previous hash other than the placeholder, its own hash recomputed, and the chain still verifies.\<close>

theorem relinked_entry_accepted:
  assumes "verify blake3 es = Inr ()" and "0 < i" and "i < length es" and "length es \<le> 2 ^ 64" and "h \<noteq> GENESIS_PREV_HASH"
  shows "verify blake3 (es[i := \<lparr>ce_sequence = word_of_nat i, ce_payload = q,
           ce_blake3_hash = compute_hash blake3 (word_of_nat i) h q, ce_prev_hash = h, ce_created_at_ms = t\<rparr>]) = Inr ()"
proof -
  have "ce_sequence (es ! j) \<noteq> 0" if "j < length es" "0 < j" for j
    using assms(1,4) that by (auto simp: tl.accepts_iff tl_check_def word_of_nat_0)
  then show ?thesis using tl.accepts_relinked [OF assms] by (simp add: tl_entry_def)
qed

lemma no_such_hash: "''no such hash'' \<noteq> GENESIS_PREV_HASH"
  by (simp add: GENESIS_PREV_HASH_def list_eq_iff_nth_eq)

theorem relinked_entry_accepted_witness:
  "verify toy_hash ((build_chain (append_with_timestamp toy_hash) [(''a'', 1), (''b'', 2)])
     [1 := \<lparr>ce_sequence = word_of_nat 1, ce_payload = ''forged'',
            ce_blake3_hash = compute_hash toy_hash (word_of_nat 1) ''no such hash'' ''forged'',
            ce_prev_hash = ''no such hash'', ce_created_at_ms = 9\<rparr>]) = Inr ()"
  by (rule relinked_entry_accepted [OF toy_chain_ok])
    (simp_all add: tl.length_build no_such_hash)

end
