(* ===== verification/EvidenceChain.thy ===== *)
theory EvidenceChain
  imports Chain
begin

text \<open>
  \<^verbatim>\<open>crates/themis-evidence/src/chain.rs\<close>, the evidence chain with its retention policy, and
  \<^verbatim>\<open>crates/tl-evidence/src/hmac_chain.rs\<close>, the tenant-bound HMAC root over its entries. BLAKE3, HMAC-SHA256 and the JSON
  serializer are parameters. Times are \<^verbatim>\<open>i64\<close> milliseconds, as 64-bit words read with a sign; the arithmetic wraps as
  the release build does.
\<close>

section \<open>Retention policy\<close>

record retention_policy =
  default_months :: u32
  per_tenant_overrides :: "string \<rightharpoonup> u32"
  per_jurisdiction_overrides :: "string \<rightharpoonup> u32"

definition default_retention :: retention_policy where
  "default_retention = \<lparr>default_months = 6, per_tenant_overrides = Map.empty, per_jurisdiction_overrides = Map.empty\<rparr>"

definition effective_months :: "retention_policy \<Rightarrow> string \<Rightarrow> string \<Rightarrow> u32" where
  "effective_months pol tenant_id jurisdiction =
     (case per_tenant_overrides pol tenant_id of
        Some m \<Rightarrow> m
      | None \<Rightarrow> (case per_jurisdiction_overrides pol jurisdiction of Some m \<Rightarrow> m | None \<Rightarrow> default_months pol))"

section \<open>The chain\<close>

record evidence_entry =
  ev_sequence :: u64
  ev_payload :: string
  ev_blake3_hash :: string
  ev_prev_hash :: string
  ev_created_at_ms :: i64

datatype evidence_error =
    EvHashMismatch u64
  | EvInvalidGenesis u64
  | EvBrokenChain u64
  | EvRetentionExceeded u32

definition compute_entry_hash :: "(string \<Rightarrow> string) \<Rightarrow> u64 \<Rightarrow> string \<Rightarrow> string \<Rightarrow> string" where
  "compute_entry_hash blake3 sequence prev_hash_hex payload =
     hex_encode (blake3 (be_bytes 8 (unat sequence) @ prev_hash_hex @ payload))"

definition ev_append_with_timestamp :: "(string \<Rightarrow> string) \<Rightarrow> evidence_entry list \<Rightarrow> string \<Rightarrow> i64 \<Rightarrow> evidence_entry list" where
  "ev_append_with_timestamp blake3 entries payload created_at_ms =
     (let sequence = word_of_nat (length entries);
          prev_hash = (if entries = [] then replicate 64 CHR ''0'' else ev_blake3_hash (last entries))
      in entries @ [\<lparr>ev_sequence = sequence, ev_payload = payload,
                     ev_blake3_hash = compute_entry_hash blake3 sequence prev_hash payload,
                     ev_prev_hash = prev_hash, ev_created_at_ms = created_at_ms\<rparr>])"

definition enforce_retention :: "evidence_entry list \<Rightarrow> retention_policy \<Rightarrow> i64 \<Rightarrow> string \<Rightarrow> string \<Rightarrow> evidence_error + unit" where
  "enforce_retention entries pol now_ms tenant_id jurisdiction =
     (if entries = [] then Inr ()
      else (let window_months = effective_months pol tenant_id jurisdiction;
                window_ms = (ucast window_months :: i64) * 30 * 86400 * 1000;
                age_ms = now_ms - ev_created_at_ms (last entries)
            in if sint age_ms > sint window_ms then Inl (EvRetentionExceeded window_months) else Inr ()))"

definition ev_verify_entry :: "(string \<Rightarrow> string) \<Rightarrow> string \<Rightarrow> evidence_entry \<Rightarrow> evidence_error option" where
  "ev_verify_entry blake3 prev_hash entry =
     (if ev_sequence entry = 0 \<and> ev_prev_hash entry \<noteq> prev_hash then Some (EvInvalidGenesis (ev_sequence entry))
      else if ev_sequence entry > 0 \<and> ev_prev_hash entry = replicate 64 CHR ''0'' then Some (EvBrokenChain (ev_sequence entry))
      else if compute_entry_hash blake3 (ev_sequence entry) (ev_prev_hash entry) (ev_payload entry) \<noteq> ev_blake3_hash entry
      then Some (EvHashMismatch (ev_sequence entry))
      else None)"

fun ev_verify_from :: "(string \<Rightarrow> string) \<Rightarrow> string \<Rightarrow> evidence_entry list \<Rightarrow> evidence_error + unit" where
  "ev_verify_from blake3 prev_hash [] = Inr ()"
| "ev_verify_from blake3 prev_hash (entry # rest) =
     (case ev_verify_entry blake3 prev_hash entry of
        Some e \<Rightarrow> Inl e
      | None \<Rightarrow> ev_verify_from blake3 (ev_blake3_hash entry) rest)"

definition ev_verify :: "(string \<Rightarrow> string) \<Rightarrow> evidence_entry list \<Rightarrow> evidence_error + unit" where
  "ev_verify blake3 entries = ev_verify_from blake3 (replicate 64 CHR ''0'') entries"

section \<open>The HMAC root\<close>

text \<open>\<open>to_vec\<close> serializes the map of the entries and the tenant, \<open>hmac\<close> takes the key and the message.\<close>

datatype hmac_chain_error = RootMismatch string string

definition chain_root :: "(evidence_entry list \<Rightarrow> string \<Rightarrow> string) \<Rightarrow> (string \<Rightarrow> string \<Rightarrow> string)
    \<Rightarrow> evidence_entry list \<Rightarrow> string \<Rightarrow> string \<Rightarrow> string" where
  "chain_root to_vec hmac entries tenant_id hmac_key = hex_encode (hmac (hmac_key @ tenant_id) (to_vec entries tenant_id))"

definition verify_chain :: "(evidence_entry list \<Rightarrow> string \<Rightarrow> string) \<Rightarrow> (string \<Rightarrow> string \<Rightarrow> string)
    \<Rightarrow> evidence_entry list \<Rightarrow> string \<Rightarrow> string \<Rightarrow> string \<Rightarrow> hmac_chain_error + unit" where
  "verify_chain to_vec hmac entries tenant_id hmac_key expected_root =
     (let actual = chain_root to_vec hmac entries tenant_id hmac_key
      in if actual \<noteq> expected_root then Inl (RootMismatch expected_root actual) else Inr ())"

section \<open>The contract of the chain\<close>

definition ev_entry :: "u64 \<Rightarrow> string \<Rightarrow> string \<Rightarrow> string \<Rightarrow> i64 \<Rightarrow> evidence_entry" where
  "ev_entry n p x h t = \<lparr>ev_sequence = n, ev_payload = p, ev_blake3_hash = x, ev_prev_hash = h, ev_created_at_ms = t\<rparr>"

lemma genesis_zeros: "replicate 64 CHR ''0'' = GENESIS_PREV_HASH"
  by (simp add: GENESIS_PREV_HASH_def)

lemma ev_verify_from_snoc:
  "ev_verify_from blake3 h (es @ [e]) = Inr () \<longleftrightarrow>
     ev_verify_from blake3 h es = Inr () \<and> ev_verify_entry blake3 (if es = [] then h else ev_blake3_hash (last es)) e = None"
  by (induction es arbitrary: h) (auto split: option.split)

interpretation ev: hash_chain "compute_entry_hash blake3" GENESIS_PREV_HASH "ev_append_with_timestamp blake3" ev_entry
  ev_sequence ev_payload ev_blake3_hash ev_prev_hash "\<lambda>es. ev_verify blake3 es = Inr ()"
  "\<lambda>i h e. ev_verify_entry blake3 h e = None"
  for blake3
  by unfold_locales
    (auto simp: ev_entry_def ev_append_with_timestamp_def Let_def ev_verify_def ev_verify_from_snoc ev_verify_entry_def
      word_of_nat_0 genesis_zeros word_neq_0_conv split: if_splits)

lemma compute_entry_hash_not_genesis:
  "\<forall>x. blake3 x \<noteq> replicate 32 CHR 0x00 \<Longrightarrow> compute_entry_hash blake3 n h p \<noteq> GENESIS_PREV_HASH"
  by (simp add: compute_entry_hash_def genesis_hex)

lemma ev_build_entry:
  assumes "i < length pts"
  shows "ev_sequence (build_chain (ev_append_with_timestamp blake3) pts ! i) = word_of_nat i \<and>
         ev_blake3_hash (build_chain (ev_append_with_timestamp blake3) pts ! i) =
           compute_entry_hash blake3 (word_of_nat i) (ev_prev_hash (build_chain (ev_append_with_timestamp blake3) pts ! i))
             (ev_payload (build_chain (ev_append_with_timestamp blake3) pts ! i))"
  using assms
proof (induction pts rule: rev_induct)
  case (snoc pt pts)
  then show ?case
    by (cases pt) (auto simp: ev_append_with_timestamp_def [of _ "build_chain (ev_append_with_timestamp blake3) pts"]
        Let_def nth_append ev.length_build less_Suc_eq)
qed simp

section \<open>Properties\<close>

text \<open>Fact: the evidence chain keeps its history. A chain built by appending verifies, records the appended payloads in
  order and links every entry to the one before, as long as BLAKE3 never yields 32 zero bytes.\<close>

theorem evidence_chain_verifies:
  assumes "length pts \<le> 2 ^ 64" and "\<forall>x. blake3 x \<noteq> replicate 32 CHR 0x00"
    and "es = build_chain (ev_append_with_timestamp blake3) pts"
  shows "ev_verify blake3 es = Inr () \<and> map ev_payload es = map fst pts \<and>
         (\<forall>i < length es. ev_prev_hash (es ! i) = (if i = 0 then replicate 64 CHR ''0'' else ev_blake3_hash (es ! (i - 1))))"
proof (intro conjI allI impI)
  show "ev_verify blake3 es = Inr ()"
    unfolding assms(3) by (rule ev.accepts_build) (use assms compute_entry_hash_not_genesis in auto)
qed (simp_all add: assms(3) ev.payloads_build ev.length_build ev.build_linked genesis_zeros)

theorem evidence_chain_verifies_witness:
  "ev_verify (\<lambda>_. replicate 32 CHR ''Z'') (build_chain (ev_append_with_timestamp (\<lambda>_. replicate 32 CHR ''Z'')) [(''a'', 1), (''b'', 2)]) = Inr ()"
  using evidence_chain_verifies [of "[(''a'', 1), (''b'', 2)]" "\<lambda>_. replicate 32 CHR ''Z''", OF _ _ refl] by simp

text \<open>Fact: deletion, reordering and repetition go unnoticed. Any list of entries taken from a built chain other than its
  genesis, in any order and with any omissions or repetitions, passes the verification.\<close>

theorem evidence_deletion_undetected:
  assumes "length pts \<le> 2 ^ 64" and "\<forall>x. blake3 x \<noteq> replicate 32 CHR 0x00"
    and "set fs \<subseteq> set (tl (build_chain (ev_append_with_timestamp blake3) pts))"
  shows "ev_verify blake3 fs = Inr ()"
proof -
  let ?es = "build_chain (ev_append_with_timestamp blake3) pts"
  have ok: "ev_verify_entry blake3 h e = None" if mem: "e \<in> set (tl ?es)" for e h
  proof -
    obtain j where "j < length (tl ?es)" "tl ?es ! j = e" using mem unfolding in_set_conv_nth by blast
    then have j: "Suc j < length ?es" "e = ?es ! Suc j" by (simp_all add: nth_tl)
    then have "ev_prev_hash e \<noteq> GENESIS_PREV_HASH"
      using ev.build_linked [of "Suc j" pts blake3] ev_build_entry [of j pts blake3]
      by (simp add: ev.length_build compute_entry_hash_not_genesis assms(2))
    moreover have "ev_sequence e = word_of_nat (Suc j)" and "ev_sequence e \<noteq> 0"
      using ev_build_entry [of "Suc j" pts blake3] j assms(1) word_of_nat_0 [of "Suc j"] by (simp_all add: ev.length_build)
    ultimately show ?thesis
      using ev_build_entry [of "Suc j" pts blake3] j
      by (simp add: ev_verify_entry_def genesis_zeros ev.length_build)
  qed
  have "ev_verify_from blake3 h fs = Inr ()" for h
    using assms(3) by (induction fs arbitrary: h) (simp_all add: ok)
  then show ?thesis by (simp add: ev_verify_def)
qed

theorem evidence_deletion_undetected_witness:
  "\<exists>a b c. build_chain (ev_append_with_timestamp (\<lambda>_. replicate 32 CHR ''Z'')) [(''a'', 1), (''b'', 2), (''c'', 3)] = [a, b, c] \<and>
     ev_verify (\<lambda>_. replicate 32 CHR ''Z'') [c, b, b] = Inr ()"
proof -
  let ?es = "build_chain (ev_append_with_timestamp (\<lambda>_. replicate 32 CHR ''Z'')) [(''a'', 1), (''b'', 2), (''c'', 3)]"
  obtain a b c where abc: "?es = [a, b, c]"
    using ev.length_build [of "\<lambda>_. replicate 32 CHR ''Z''" "[(''a'', 1), (''b'', 2), (''c'', 3)]"]
    by (auto simp: length_Suc_conv numeral_3_eq_3)
  then show ?thesis
    using evidence_deletion_undetected [of "[(''a'', 1), (''b'', 2), (''c'', 3)]" "\<lambda>_. replicate 32 CHR ''Z''" "[c, b, b]"] by simp
qed

lemma sint_window:
  assumes "unat (m :: u32) \<le> 3558399705"
  shows "sint ((ucast m :: i64) * 30 * 86400 * 1000) = int (unat m) * 2592000000"
proof -
  have "int (unat m) \<le> 3558399705" using assms by linarith
  moreover have "(2 :: int) ^ 63 = 9223372036854775808" by simp
  ultimately have "int (unat m) * 2592000000 < 2 ^ 63" by linarith
  then have bounded: "signed_take_bit 63 (int (unat m) * 2592000000) = int (unat m) * 2592000000"
    by (intro signed_take_bit_int_eq_self) (simp_all del: of_nat_unat)
  have "(ucast m :: i64) * 30 * 86400 * 1000 = word_of_int (int (unat m) * 2592000000)"
    by (simp add: mult.assoc flip: word_of_int_uint)
  then have "sint ((ucast m :: i64) * 30 * 86400 * 1000) = sint (word_of_int (int (unat m) * 2592000000) :: i64)"
    by (rule arg_cong)
  also have "\<dots> = int (unat m) * 2592000000"
    by (subst sint_sbintrunc') (use bounded in simp)
  finally show ?thesis .
qed

text \<open>Fact: retention is exact where the arithmetic does not wrap. With a window of at most 3558399705 months and clock
  readings less than \<open>2 ^ 63\<close> milliseconds apart, an append is refused exactly when the chain is not empty and its last
  entry is older than the effective window of thirty-day months; the tenant's override is preferred to the jurisdiction's.\<close>

theorem retention_exact:
  assumes "unat (effective_months pol tenant jurisdiction) \<le> 3558399705"
    and "\<forall>e \<in> set es. \<bar>sint now - sint (ev_created_at_ms e)\<bar> < 2 ^ 63"
  shows "enforce_retention es pol now tenant jurisdiction =
    (if es \<noteq> [] \<and> sint now - sint (ev_created_at_ms (last es)) >
          int (unat (effective_months pol tenant jurisdiction)) * (30 * 24 * 60 * 60 * 1000)
     then Inl (EvRetentionExceeded (effective_months pol tenant jurisdiction)) else Inr ())"
proof (cases "es = []")
  case False
  then have "\<bar>sint now - sint (ev_created_at_ms (last es))\<bar> < 2 ^ 63" using assms(2) by simp
  then have "sint (now - ev_created_at_ms (last es)) = sint now - sint (ev_created_at_ms (last es))"
    by (intro sint_diff) linarith+
  then show ?thesis
    unfolding enforce_retention_def Let_def sint_window [OF assms(1)] using False by simp
qed (simp add: enforce_retention_def)

theorem retention_exact_witness:
  "enforce_retention [ev_entry 0 ''p'' ''h'' ''h'' 0] default_retention 15552000001 ''stark'' ''EU'' = Inl (EvRetentionExceeded 6) \<and>
   enforce_retention [ev_entry 0 ''p'' ''h'' ''h'' 0] default_retention 15552000000 ''stark'' ''EU'' = Inr ()"
  using retention_exact [of default_retention "''stark''" "''EU''" "[ev_entry 0 ''p'' ''h'' ''h'' 0]" 15552000001]
    retention_exact [of default_retention "''stark''" "''EU''" "[ev_entry 0 ''p'' ''h'' ''h'' 0]" 15552000000]
  by (simp add: default_retention_def effective_months_def ev_entry_def)

text \<open>Fact: a verified HMAC root binds the entries and the tenant. When the serializer tells the two inputs apart and HMAC
  does not collide on the two messages, a root computed for other entries or another tenant is refused, under any key, and the
  error reports both roots.\<close>

theorem hmac_root_binds:
  assumes "to_vec entries tenant = to_vec entries' tenant' \<longrightarrow> entries = entries' \<and> tenant = tenant'"
    and "hmac (key @ tenant) (to_vec entries tenant) = hmac (key' @ tenant') (to_vec entries' tenant') \<longrightarrow>
           to_vec entries tenant = to_vec entries' tenant'"
    and "expected = chain_root to_vec hmac entries' tenant' key'" and "entries \<noteq> entries' \<or> tenant \<noteq> tenant'"
  shows "verify_chain to_vec hmac entries tenant key expected =
           Inl (RootMismatch expected (chain_root to_vec hmac entries tenant key))"
  using assms by (auto simp: verify_chain_def chain_root_def Let_def)

theorem hmac_root_binds_witness:
  "verify_chain (\<lambda>es t. t) (\<lambda>k m. m) [] ''b'' ''key'' (chain_root (\<lambda>es t. t) (\<lambda>k m. m) [] ''a'' ''key'') =
     Inl (RootMismatch (chain_root (\<lambda>es t. t) (\<lambda>k m. m) [] ''a'' ''key'') (chain_root (\<lambda>es t. t) (\<lambda>k m. m) [] ''b'' ''key''))"
  by (rule hmac_root_binds [OF _ _ refl]) simp_all

end
