(* ===== verification/Evidence.thy ===== *)
theory Evidence
  imports EvidenceChain Contract
begin

text \<open>
  \<^verbatim>\<open>crates/themis-evidence/src/packet.rs\<close> and the signer of \<^verbatim>\<open>signer.rs\<close>: sealing a payload (hash, sign, chain,
  timestamp) and verifying a sealed packet.

  Ed25519, BLAKE3, HKDF, the hex, base64 and JSON codecs and the crate version are the parameter \<open>crypto\<close>; the time-stamping
  authority is the parameter \<open>tsa\<close>. The clock readings and the fresh packet id of a call are its \<open>seal_env\<close>.
\<close>

section \<open>Parameters\<close>

record crypto =
  cr_blake3 :: "string \<Rightarrow> string"
  cr_public :: "string \<Rightarrow> string"
  cr_sign :: "string \<Rightarrow> string \<Rightarrow> string"
  cr_parse_key :: "string \<Rightarrow> string + unit"
  cr_verify :: "string \<Rightarrow> string \<Rightarrow> string \<Rightarrow> string + unit"
  cr_hkdf :: "string \<Rightarrow> string"
  cr_stark_seed :: string
  cr_wayne_seed :: string
  cr_hex_decode :: "string \<Rightarrow> string + string"
  cr_base64url :: "string \<Rightarrow> string"
  cr_json :: "string \<Rightarrow> string + string"
  cr_debug :: "string \<Rightarrow> string"
  cr_version :: string

record ts_response =
  tr_time :: string
  tr_accuracy_ms :: u64

record tsa =
  tsa_stamp :: "string \<Rightarrow> string + ts_response"
  tsa_verify :: "ts_response \<Rightarrow> string \<Rightarrow> bool"
  tsa_url :: string

record seal_env =
  se_now_retention :: i64
  se_now_append :: i64
  se_packet_id :: string

section \<open>Signer\<close>

record signer_service =
  sg_seed :: string
  sg_tenant_id :: string

definition from_seed :: "string \<Rightarrow> string \<Rightarrow> signer_service" where
  "from_seed tenant_id seed = \<lparr>sg_seed = seed, sg_tenant_id = tenant_id\<rparr>"

definition signer_for_tenant :: "crypto \<Rightarrow> string \<Rightarrow> signer_service" where
  "signer_for_tenant cr tenant_id = from_seed tenant_id
     (if tenant_id = ''stark'' then cr_stark_seed cr else if tenant_id = ''wayne'' then cr_wayne_seed cr else cr_hkdf cr tenant_id)"

definition sign_hex :: "crypto \<Rightarrow> signer_service \<Rightarrow> string \<Rightarrow> string" where
  "sign_hex cr sg message = hex_encode (cr_sign cr (sg_seed sg) message)"

definition public_key_hex :: "crypto \<Rightarrow> signer_service \<Rightarrow> string" where
  "public_key_hex cr sg = hex_encode (cr_public cr (sg_seed sg))"

section \<open>Sealed packets\<close>

record dsse_signature =
  ds_keyid :: string
  ds_sig :: string

record dsse_envelope =
  de_payload_type :: string
  de_payload :: string
  de_signatures :: "dsse_signature list"

record timestamp =
  ti_time :: string
  ti_accuracy_ms :: u64
  ti_tsa_url :: string

record sealed_packet =
  sp_packet_id :: string
  sp_tenant_id :: string
  sp_invoice_id :: string
  sp_payload_canonical_json :: string
  sp_blake3_hash_hex :: string
  sp_signature_hex :: string
  sp_public_key_hex :: string
  sp_timestamp :: timestamp
  sp_chain_length :: u64
  sp_dsse_envelope :: "dsse_envelope option"
  sp_rekor_entry :: "string option"
  sp_iso_42001 :: "json option"
  sp_eu_registration_id :: "string option"

datatype ev_error = EvSigner string | EvChain evidence_error | EvTs string | EvVerifyFailed string

record evidence_service =
  es_signer :: signer_service
  es_chain :: "evidence_entry list"
  es_retention :: retention_policy
  es_jurisdiction :: string

definition evidence_for_tenant :: "crypto \<Rightarrow> string \<Rightarrow> evidence_service" where
  "evidence_for_tenant cr tenant_id = \<lparr>es_signer = signer_for_tenant cr tenant_id, es_chain = [],
     es_retention = default_retention, es_jurisdiction = ''EU''\<rparr>"

definition restore_chain :: "evidence_service \<Rightarrow> evidence_entry list \<Rightarrow> evidence_service" where
  "restore_chain es chain = es\<lparr>es_chain := chain\<rparr>"

definition iso_42001_claims :: "crypto \<Rightarrow> json" where
  "iso_42001_claims cr = JObject
     [(''risk_assessment_conducted'', JBool True),
      (''impact_assessment_ref'', JString (''themis-compliance v'' @ cr_version cr)),
      (''monitoring_mechanism'', JString ''BAAAR-gate + 310+-test suite''),
      (''improvement_cycle'', JString ''post-hackathon sprint (vNext roadmap)''),
      (''lifecycle_stage'', JString ''production'')]"

definition dsse_of :: "crypto \<Rightarrow> string \<Rightarrow> string \<Rightarrow> string \<Rightarrow> dsse_envelope" where
  "dsse_of cr payload_canonical_json signature_hex pk_hex =
     (let sig_bytes = (case cr_hex_decode cr signature_hex of Inr b \<Rightarrow> b | Inl _ \<Rightarrow> [])
      in \<lparr>de_payload_type = ''application/vnd.apohara.themis.entry+json'',
          de_payload = cr_base64url cr payload_canonical_json,
          de_signatures = [\<lparr>ds_keyid = take 16 pk_hex, ds_sig = cr_base64url cr sig_bytes\<rparr>]\<rparr>)"

definition seal :: "crypto \<Rightarrow> tsa \<Rightarrow> seal_env \<Rightarrow> evidence_service \<Rightarrow> string \<Rightarrow> string \<Rightarrow> string option
    \<Rightarrow> (ev_error + sealed_packet) \<times> evidence_service" where
  "seal cr ts env es invoice_id payload rekor_entry =
     (case cr_json cr payload of
        Inl e \<Rightarrow> (Inl (EvVerifyFailed (''serialize payload: '' @ e)), es)
      | Inr payload_canonical_json \<Rightarrow>
          (let hash = cr_blake3 cr payload_canonical_json;
               blake3_hash_hex = hex_encode hash;
               signature_hex = sign_hex cr (es_signer es) hash
           in case enforce_retention (es_chain es) (es_retention es) (se_now_retention env)
                     (sg_tenant_id (es_signer es)) (es_jurisdiction es) of
                Inl e \<Rightarrow> (Inl (EvChain e), es)
              | Inr _ \<Rightarrow>
                  (let es = es\<lparr>es_chain := ev_append_with_timestamp (cr_blake3 cr) (es_chain es) payload (se_now_append env)\<rparr>
                   in case tsa_stamp ts blake3_hash_hex of
                        Inl e \<Rightarrow> (Inl (EvTs e), es)
                      | Inr resp \<Rightarrow>
                          if \<not> tsa_verify ts resp blake3_hash_hex
                          then (Inl (EvVerifyFailed ''TSA rejected its own response''), es)
                          else (let pk_hex = public_key_hex cr (es_signer es)
                                in (Inr \<lparr>sp_packet_id = se_packet_id env,
                                     sp_tenant_id = sg_tenant_id (es_signer es),
                                     sp_invoice_id = invoice_id,
                                     sp_payload_canonical_json = payload_canonical_json,
                                     sp_blake3_hash_hex = blake3_hash_hex,
                                     sp_signature_hex = signature_hex,
                                     sp_public_key_hex = pk_hex,
                                     sp_timestamp = \<lparr>ti_time = tr_time resp, ti_accuracy_ms = tr_accuracy_ms resp, ti_tsa_url = tsa_url ts\<rparr>,
                                     sp_chain_length = word_of_nat (length (es_chain es)),
                                     sp_dsse_envelope = Some (dsse_of cr payload_canonical_json signature_hex pk_hex),
                                     sp_rekor_entry = rekor_entry,
                                     sp_iso_42001 = Some (iso_42001_claims cr),
                                     sp_eu_registration_id = None\<rparr>, es)))))"

definition hex_bytes :: "crypto \<Rightarrow> string \<Rightarrow> string \<Rightarrow> ev_error + string" where
  "hex_bytes cr what s = (case cr_hex_decode cr s of Inl e \<Rightarrow> Inl (EvVerifyFailed (''decode '' @ what @ '': '' @ e)) | Inr b \<Rightarrow> Inr b)"

definition verify_signature :: "crypto \<Rightarrow> sealed_packet \<Rightarrow> ev_error + unit" where
  "verify_signature cr p = (case hex_bytes cr ''pubkey'' (sp_public_key_hex p) of
       Inl e \<Rightarrow> Inl e
     | Inr pk \<Rightarrow>
         if length pk \<noteq> 32 then Inl (EvVerifyFailed ''pubkey not 32 bytes'')
         else (case cr_parse_key cr pk of
             Inl e \<Rightarrow> Inl (EvVerifyFailed (''parse pubkey: '' @ e))
           | Inr _ \<Rightarrow> (case hex_bytes cr ''sig'' (sp_signature_hex p) of
                 Inl e \<Rightarrow> Inl e
               | Inr sig \<Rightarrow>
                   if length sig \<noteq> 64 then Inl (EvVerifyFailed ''sig not 64 bytes'')
                   else (case hex_bytes cr ''blake3 hash'' (sp_blake3_hash_hex p) of
                       Inl e \<Rightarrow> Inl e
                     | Inr raw_hash \<Rightarrow> (case cr_verify cr pk raw_hash sig of
                           Inl e \<Rightarrow> Inl (EvVerifyFailed (''signature: '' @ e))
                         | Inr _ \<Rightarrow> Inr ())))))"

definition verify_packet :: "crypto \<Rightarrow> evidence_service \<Rightarrow> sealed_packet \<Rightarrow> ev_error + unit" where
  "verify_packet cr es p =
     (if sp_tenant_id p \<noteq> sg_tenant_id (es_signer es)
      then Inl (EvVerifyFailed (''cross-tenant verify denied: this service is for tenant '' @
             cr_debug cr (sg_tenant_id (es_signer es)) @ '', packet is for '' @ cr_debug cr (sp_tenant_id p)))
      else if hex_encode (cr_blake3 cr (sp_payload_canonical_json p)) \<noteq> sp_blake3_hash_hex p
      then Inl (EvVerifyFailed ''BLAKE3 hash mismatch'')
      else (case verify_signature cr p of
          Inl e \<Rightarrow> Inl e
        | Inr _ \<Rightarrow> (case ev_verify (cr_blake3 cr) (es_chain es) of Inl e \<Rightarrow> Inl (EvChain e) | Inr _ \<Rightarrow> Inr ())))"

section \<open>What the parameters promise\<close>

text \<open>Decoding undoes hex encoding, a signature verifies under the key of its seed, keys have 32 and signatures 64 bytes, and
  BLAKE3 never yields 32 zero bytes.\<close>

definition crypto_laws :: "crypto \<Rightarrow> bool" where
  "crypto_laws cr \<longleftrightarrow> (\<forall>b. cr_hex_decode cr (hex_encode b) = Inr b) \<and>
     (\<forall>seed. length (cr_public cr seed) = 32 \<and> cr_parse_key cr (cr_public cr seed) = Inr ()) \<and>
     (\<forall>seed m. length (cr_sign cr seed m) = 64 \<and> cr_verify cr (cr_public cr seed) m (cr_sign cr seed m) = Inr ()) \<and>
     (\<forall>x. cr_blake3 cr x \<noteq> replicate 32 CHR 0x00)"

lemma signed_verifies:
  assumes "crypto_laws cr" and "sp_public_key_hex p = hex_encode (cr_public cr seed)"
    and "sp_signature_hex p = hex_encode (cr_sign cr seed (cr_blake3 cr (sp_payload_canonical_json p)))"
    and "sp_blake3_hash_hex p = hex_encode (cr_blake3 cr (sp_payload_canonical_json p))"
  shows "verify_signature cr p = Inr ()"
  using assms by (simp add: verify_signature_def hex_bytes_def crypto_laws_def)

section \<open>Histories of seals\<close>

record seal_call =
  sc_tsa :: tsa
  sc_env :: seal_env
  sc_invoice :: string
  sc_payload :: string
  sc_rekor :: "string option"

definition seal_exec :: "crypto \<Rightarrow> evidence_service \<Rightarrow> seal_call \<Rightarrow> (ev_error + sealed_packet) \<times> evidence_service" where
  "seal_exec cr es c = seal cr (sc_tsa c) (sc_env c) es (sc_invoice c) (sc_payload c) (sc_rekor c)"

definition run_seals :: "crypto \<Rightarrow> evidence_service \<Rightarrow> seal_call list \<Rightarrow> evidence_service" where
  "run_seals cr es cs = foldl (\<lambda>es c. snd (seal_exec cr es c)) es cs"

definition chain_of :: "crypto \<Rightarrow> evidence_service \<Rightarrow> (string \<times> i64) list \<Rightarrow> bool" where
  "chain_of cr es pts \<longleftrightarrow> es_chain es = build_chain (ev_append_with_timestamp (cr_blake3 cr)) pts"

lemma seal_service:
  "es_signer (snd (seal_exec cr es c)) = es_signer es"
  "chain_of cr es pts \<Longrightarrow> chain_of cr (snd (seal_exec cr es c)) pts \<or> (\<exists>t. chain_of cr (snd (seal_exec cr es c)) (pts @ [(sc_payload c, t)]))"
  by (auto simp: seal_exec_def seal_def chain_of_def Let_def split: sum.split)

lemma run_seals_signer: "es_signer (run_seals cr es cs) = es_signer es"
  by (induction cs rule: rev_induct) (simp_all add: run_seals_def seal_service)

lemma run_seals_chain: "chain_of cr es pts \<Longrightarrow> \<exists>qts. chain_of cr (run_seals cr es cs) (pts @ qts) \<and> length qts \<le> length cs"
proof (induction cs rule: rev_induct)
  case Nil
  then show ?case by (auto simp: run_seals_def intro: exI [of _ "[]"])
next
  case (snoc c cs)
  then obtain qts where q: "chain_of cr (run_seals cr es cs) (pts @ qts)" "length qts \<le> length cs" by blast
  consider "chain_of cr (run_seals cr es (cs @ [c])) (pts @ qts)"
    | t where "chain_of cr (run_seals cr es (cs @ [c])) (pts @ qts @ [(sc_payload c, t)])"
    using seal_service(2) [OF q(1), of c] by (auto simp: run_seals_def)
  then show ?case
  proof cases
    case 1
    then show ?thesis using q(2) by auto
  next
    case 2
    then show ?thesis using q(2) by (intro exI [of _ "qts @ [(sc_payload c, t)]"]) simp
  qed
qed

lemma chain_of_verifies:
  "crypto_laws cr \<Longrightarrow> chain_of cr es pts \<Longrightarrow> length pts \<le> 2 ^ 64 \<Longrightarrow> ev_verify (cr_blake3 cr) (es_chain es) = Inr ()"
  unfolding chain_of_def by (simp add: ev.accepts_build compute_entry_hash_not_genesis crypto_laws_def)

lemma seal_Inr:
  assumes "seal_exec cr es c = (Inr p, es')"
  shows "sp_tenant_id p = sg_tenant_id (es_signer es) \<and> sp_invoice_id p = sc_invoice c \<and>
    cr_json cr (sc_payload c) = Inr (sp_payload_canonical_json p) \<and>
    sp_blake3_hash_hex p = hex_encode (cr_blake3 cr (sp_payload_canonical_json p)) \<and>
    sp_signature_hex p = hex_encode (cr_sign cr (sg_seed (es_signer es)) (cr_blake3 cr (sp_payload_canonical_json p))) \<and>
    sp_public_key_hex p = hex_encode (cr_public cr (sg_seed (es_signer es))) \<and>
    sp_chain_length p = word_of_nat (length (es_chain es'))"
  using assms
  by (auto simp: seal_exec_def seal_def Let_def sign_hex_def public_key_hex_def split: sum.splits if_splits)

section \<open>Properties\<close>

text \<open>Property C35: what is sealed verifies, and keeps verifying. From a new service, after any earlier calls, a packet that sealing
  returns is accepted by the service's verification at once and after any number of later calls, whatever becomes of those;
  its chain length is the length the chain has after the call.\<close>

theorem sealed_packet_verifies:
  assumes "crypto_laws cr" and "length cs + length ds < 2 ^ 64"
    and "seal_exec cr (run_seals cr (evidence_for_tenant cr tenant) cs) c = (Inr p, es)"
  shows "verify_packet cr (run_seals cr es ds) p = Inr () \<and> sp_chain_length p = word_of_nat (length (es_chain es))"
proof -
  let ?es0 = "evidence_for_tenant cr tenant" and ?es1 = "run_seals cr (evidence_for_tenant cr tenant) cs"
  have "chain_of cr ?es0 []" by (simp add: chain_of_def evidence_for_tenant_def)
  then obtain pts where p1: "chain_of cr ?es1 pts" "length pts \<le> length cs" using run_seals_chain [of cr ?es0 "[]" cs] by auto
  obtain qts where q: "chain_of cr es qts" "length qts \<le> Suc (length cs)"
    using seal_service(2) [OF p1(1), of c] p1(2) assms(3) by auto
  obtain rts where r: "chain_of cr (run_seals cr es ds) (qts @ rts)" "length rts \<le> length ds"
    using run_seals_chain [OF q(1)] by blast
  have chain: "ev_verify (cr_blake3 cr) (es_chain (run_seals cr es ds)) = Inr ()"
    using chain_of_verifies [OF assms(1) r(1)] q(2) r(2) assms(2) by simp
  have signer: "es_signer (run_seals cr es ds) = es_signer ?es1"
    using seal_service(1) [of cr ?es1 c] assms(3) by (simp add: run_seals_signer)
  show ?thesis
    using seal_Inr [OF assms(3)] chain signer signed_verifies [OF assms(1)] by (simp add: verify_packet_def)
qed

fun hex_value :: "char \<Rightarrow> nat" where
  "hex_value c = (if code c < 58 then code c - 48 else code c - 87)"

fun unhex :: "string \<Rightarrow> string" where
  "unhex (a # b # s) = char_of (16 * hex_value a + hex_value b) # unhex s"
| "unhex _ = []"

lemma hex_value_char: "n < 16 \<Longrightarrow> hex_value (hex_char n) = n"
  by (simp add: code_hex_char)

lemma unhex_hex [simp]: "unhex (hex_encode b) = b"
proof (induction b)
  case (Cons x b)
  have "16 * (code x div 16) + code x mod 16 = code x" by simp
  then show ?case
    using Cons by (simp add: hex_encode_def hex_byte_def hex_value_char del: hex_value.simps)
qed (simp add: hex_encode_def)

text \<open>A simple instance of the parameters.\<close>

definition toy_crypto :: crypto where
  "toy_crypto = \<lparr>cr_blake3 = (\<lambda>_. replicate 32 CHR ''Z''), cr_public = (\<lambda>_. replicate 32 CHR ''K''),
     cr_sign = (\<lambda>_ _. replicate 64 CHR ''S''), cr_parse_key = (\<lambda>_. Inr ()), cr_verify = (\<lambda>_ _ _. Inr ()),
     cr_hkdf = (\<lambda>t. t), cr_stark_seed = ''s'', cr_wayne_seed = ''w'', cr_hex_decode = (\<lambda>s. Inr (unhex s)),
     cr_base64url = (\<lambda>s. s), cr_json = Inr, cr_debug = (\<lambda>s. s), cr_version = ''1''\<rparr>"

definition toy_tsa :: tsa where
  "toy_tsa = \<lparr>tsa_stamp = (\<lambda>_. Inr \<lparr>tr_time = ''now'', tr_accuracy_ms = 1\<rparr>), tsa_verify = (\<lambda>_ _. True), tsa_url = ''tsa''\<rparr>"

definition toy_call :: "tsa \<Rightarrow> seal_call" where
  "toy_call ts = \<lparr>sc_tsa = ts, sc_env = \<lparr>se_now_retention = 1, se_now_append = 1, se_packet_id = ''id''\<rparr>,
     sc_invoice = ''inv'', sc_payload = ''p'', sc_rekor = None\<rparr>"

lemma toy_crypto_laws: "crypto_laws toy_crypto"
  by (simp add: crypto_laws_def toy_crypto_def replicate_eq_replicate)

theorem sealed_packet_verifies_witness:
  "\<exists>p es. seal_exec toy_crypto (run_seals toy_crypto (evidence_for_tenant toy_crypto ''stark'') []) (toy_call toy_tsa) = (Inr p, es) \<and>
     verify_packet toy_crypto (run_seals toy_crypto es [toy_call toy_tsa]) p = Inr ()"
proof -
  obtain p es where r: "seal_exec toy_crypto (run_seals toy_crypto (evidence_for_tenant toy_crypto ''stark'') []) (toy_call toy_tsa) = (Inr p, es)"
    by (simp add: seal_exec_def seal_def run_seals_def evidence_for_tenant_def toy_call_def toy_crypto_def toy_tsa_def
        enforce_retention_def Let_def)
  then show ?thesis using sealed_packet_verifies [OF toy_crypto_laws _ r, of "[toy_call toy_tsa]"] by simp
qed

text \<open>Fact: verification does not establish who signed. Any payload signed with any seed at all, under a packet that carries
  the key of that seed and the tenant's name, passes the service's verification, although the tenant never sealed it.\<close>

theorem foreign_signature_accepted:
  assumes "crypto_laws cr" and "ev_verify (cr_blake3 cr) (es_chain es) = Inr ()"
    and "sp_tenant_id p = sg_tenant_id (es_signer es)" and "hash = cr_blake3 cr (sp_payload_canonical_json p)"
    and "sp_blake3_hash_hex p = hex_encode hash" and "sp_signature_hex p = hex_encode (cr_sign cr foreign_seed hash)"
    and "sp_public_key_hex p = hex_encode (cr_public cr foreign_seed)"
  shows "verify_packet cr es p = Inr ()"
  using assms signed_verifies [OF assms(1), of p foreign_seed] by (simp add: verify_packet_def)

theorem foreign_signature_accepted_witness:
  "\<exists>p. sp_payload_canonical_json p = ''forged'' \<and> verify_packet toy_crypto (evidence_for_tenant toy_crypto ''stark'') p = Inr ()"
proof -
  let ?cr = toy_crypto
  obtain q es where r: "seal_exec ?cr (run_seals ?cr (evidence_for_tenant ?cr ''stark'') []) (toy_call toy_tsa) = (Inr q, es)"
    by (simp add: seal_exec_def seal_def run_seals_def evidence_for_tenant_def toy_call_def toy_crypto_def toy_tsa_def
        enforce_retention_def Let_def)
  let ?p = "q\<lparr>sp_tenant_id := ''stark'', sp_payload_canonical_json := ''forged'',
     sp_blake3_hash_hex := hex_encode (cr_blake3 ?cr ''forged''),
     sp_signature_hex := hex_encode (cr_sign ?cr ''mallory'' (cr_blake3 ?cr ''forged'')),
     sp_public_key_hex := hex_encode (cr_public ?cr ''mallory'')\<rparr>"
  have "verify_packet ?cr (evidence_for_tenant ?cr ''stark'') ?p = Inr ()"
    by (rule foreign_signature_accepted [OF toy_crypto_laws, of _ _ "cr_blake3 ?cr ''forged''" "''mallory''"])
      (simp_all add: evidence_for_tenant_def ev_verify_def signer_for_tenant_def from_seed_def)
  then show ?thesis by (intro exI [of _ ?p]) simp
qed

text \<open>Fact: a failed time stamp leaves a trace. When the authority cannot be reached or its response does not verify, sealing
  fails, but the payload has already been appended to the chain, so a retry chains it twice.\<close>

theorem failed_stamp_keeps_entry:
  assumes "cr_json cr payload = Inr j"
    and "enforce_retention (es_chain es) (es_retention es) (se_now_retention env) (sg_tenant_id (es_signer es)) (es_jurisdiction es) = Inr ()"
    and "\<forall>resp. tsa_stamp ts (hex_encode (cr_blake3 cr j)) = Inr resp \<longrightarrow> \<not> tsa_verify ts resp (hex_encode (cr_blake3 cr j))"
    and "seal cr ts env es invoice payload rekor = (r, es')"
  shows "isl r \<and> es_chain es' = ev_append_with_timestamp (cr_blake3 cr) (es_chain es) payload (se_now_append env)"
  using assms by (auto simp: seal_def Let_def split: sum.splits)

theorem failed_stamp_keeps_entry_witness:
  "\<exists>r es'. seal_exec toy_crypto (evidence_for_tenant toy_crypto ''stark'') (toy_call (toy_tsa\<lparr>tsa_stamp := \<lambda>_. Inl ''down''\<rparr>)) = (r, es') \<and>
     isl r \<and> length (es_chain es') = 1"
proof -
  let ?c = "toy_call (toy_tsa\<lparr>tsa_stamp := \<lambda>_. Inl ''down''\<rparr>)" and ?es = "evidence_for_tenant toy_crypto ''stark''"
  obtain r es' where r: "seal toy_crypto (sc_tsa ?c) (sc_env ?c) ?es ''inv'' ''p'' None = (r, es')"
    by (cases "seal toy_crypto (sc_tsa ?c) (sc_env ?c) ?es ''inv'' ''p'' None")
  have "isl r \<and> es_chain es' = ev_append_with_timestamp (cr_blake3 toy_crypto) (es_chain ?es) ''p'' (se_now_append (sc_env ?c))"
    by (rule failed_stamp_keeps_entry [OF _ _ _ r, of "''p''"])
      (simp_all add: toy_crypto_def evidence_for_tenant_def enforce_retention_def toy_call_def)
  then show ?thesis
    using r by (auto simp: seal_exec_def toy_call_def evidence_for_tenant_def ev_append_with_timestamp_def Let_def)
qed

text \<open>Fact: an idle chain is locked for good. Once the retention check refuses a seal, every later call is refused with the same
  error and changes nothing, because only an append could renew the last entry: the documented minimum retention period acts as a
  maximum pause.\<close>

theorem retention_lockout:
  assumes "enforce_retention (es_chain es) (es_retention es) now (sg_tenant_id (es_signer es)) (es_jurisdiction es) = Inl e"
    and "unat (effective_months (es_retention es) (sg_tenant_id (es_signer es)) (es_jurisdiction es)) \<le> 3558399705"
    and "\<forall>c \<in> set cs. sint now \<le> sint (se_now_retention (sc_env c)) \<and> isl (cr_json cr (sc_payload c)) = False \<and>
           (\<forall>x \<in> set (es_chain es). \<bar>sint (se_now_retention (sc_env c)) - sint (ev_created_at_ms x)\<bar> < 2 ^ 63)"
    and "\<forall>x \<in> set (es_chain es). \<bar>sint now - sint (ev_created_at_ms x)\<bar> < 2 ^ 63"
  shows "run_seals cr es cs = es \<and> (\<forall>c \<in> set cs. seal_exec cr es c = (Inl (EvChain e), es))"
proof -
  let ?w = "effective_months (es_retention es) (sg_tenant_id (es_signer es)) (es_jurisdiction es)"
  have refused: "es_chain es \<noteq> []" "sint now - sint (ev_created_at_ms (last (es_chain es))) > int (unat ?w) * 2592000000" "e = EvRetentionExceeded ?w"
    using assms(1) retention_exact [OF assms(2,4)] by (simp_all split: if_splits)
  have refuse: "seal_exec cr es c = (Inl (EvChain e), es)" if "c \<in> set cs" for c
  proof -
    have "enforce_retention (es_chain es) (es_retention es) (se_now_retention (sc_env c)) (sg_tenant_id (es_signer es)) (es_jurisdiction es) = Inl e"
      using retention_exact [OF assms(2), of "es_chain es" "se_now_retention (sc_env c)"] refused assms(3) that
      by (auto simp del: of_nat_unat)
    then show ?thesis
      using assms(3) that by (auto simp: seal_exec_def seal_def Let_def split: sum.split)
  qed
  moreover have "run_seals cr es cs = es" using refuse unfolding run_seals_def by (induction cs) simp_all
  ultimately show ?thesis by blast
qed

theorem retention_lockout_witness:
  "run_seals toy_crypto ((evidence_for_tenant toy_crypto ''stark'')\<lparr>es_chain := [ev_entry 0 ''p'' ''h'' ''h'' 0]\<rparr>)
     [(toy_call toy_tsa)\<lparr>sc_env := \<lparr>se_now_retention = 99999999999, se_now_append = 1, se_packet_id = ''i''\<rparr>\<rparr>] =
   (evidence_for_tenant toy_crypto ''stark'')\<lparr>es_chain := [ev_entry 0 ''p'' ''h'' ''h'' 0]\<rparr>"
proof -
  let ?es = "(evidence_for_tenant toy_crypto ''stark'')\<lparr>es_chain := [ev_entry 0 ''p'' ''h'' ''h'' 0]\<rparr>"
  have months: "effective_months (es_retention (evidence_for_tenant cr ''stark'')) t j = 6" for t j cr
    by (simp add: evidence_for_tenant_def default_retention_def effective_months_def)
  have "enforce_retention (es_chain ?es) (es_retention ?es) 15552000001 (sg_tenant_id (es_signer ?es)) (es_jurisdiction ?es) = Inl (EvRetentionExceeded 6)"
    by (subst retention_exact) (simp_all add: months ev_entry_def)
  then show ?thesis
    by (rule retention_lockout [THEN conjunct1])
      (simp_all add: months ev_entry_def toy_call_def toy_crypto_def)
qed

end
