(* ===== verification/ChainStore.thy ===== *)
theory ChainStore
  imports Evidence Config
begin

text \<open>
  \<^verbatim>\<open>crates/themis-evidence/src/persistence.rs\<close>: the evidence chain of a tenant in a file. The disk is a map from paths to contents. A write can
  succeed, fail or be cut off by the death of the process, and in the last two cases leaves arbitrary content; a rename is atomic.
  The JSON codec of a chain is a parameter. An operation returns \<open>None\<close> when the process died in it.
\<close>

section \<open>Model\<close>

type_synonym disk = "string \<rightharpoonup> string"

datatype chain_store_error = StoreIo string | StoreParse string | StoreVerify evidence_error

record chain_store =
  cs_path :: string
  cs_chain :: "evidence_entry list"

record chain_codec =
  cc_blake3 :: "string \<Rightarrow> string"
  cc_to_json :: "evidence_entry list \<Rightarrow> string"
  cc_from_json :: "string \<Rightarrow> string + evidence_entry list"

datatype write_outcome = WriteOk | WriteFails string string | WriteDies string

datatype rename_outcome = RenameOk | RenameFails string | RenameDies bool

definition fs_write :: "write_outcome \<Rightarrow> string \<Rightarrow> string \<Rightarrow> disk \<Rightarrow> (string option) option \<times> disk" where
  "fs_write wo path content d = (case wo of
       WriteOk \<Rightarrow> (Some None, d(path \<mapsto> content))
     | WriteFails e left_over \<Rightarrow> (Some (Some e), d(path \<mapsto> left_over))
     | WriteDies left_over \<Rightarrow> (None, d(path \<mapsto> left_over)))"

definition fs_move :: "string \<Rightarrow> string \<Rightarrow> disk \<Rightarrow> disk" where
  "fs_move from to d = d(from := None, to := d from)"

definition fs_rename :: "rename_outcome \<Rightarrow> string \<Rightarrow> string \<Rightarrow> disk \<Rightarrow> (string option) option \<times> disk" where
  "fs_rename ro from to d = (case ro of
       RenameOk \<Rightarrow> (Some None, fs_move from to d)
     | RenameFails e \<Rightarrow> (Some (Some e), d)
     | RenameDies moved \<Rightarrow> (None, if moved then fs_move from to d else d))"

text \<open>\<^verbatim>\<open>Path::join\<close>, which an absolute second part replaces.\<close>

definition join_path :: "string \<Rightarrow> string \<Rightarrow> string" where
  "join_path base c = (if prefix ''/'' c then c else path_join base c)"

definition chain_path :: "string \<Rightarrow> string \<Rightarrow> string" where
  "chain_path chain_dir tenant_id = join_path chain_dir (tenant_id @ ''.chain.json'')"

definition tmp_path :: "string \<Rightarrow> string" where
  "tmp_path path = (case rfind_char CHR ''.'' path of Some n \<Rightarrow> take n path | None \<Rightarrow> path) @ ''.chain.json.tmp''"

record open_io =
  oi_mkdir :: "string option"
  oi_read :: "string option"
  oi_write :: write_outcome

definition store_open :: "chain_codec \<Rightarrow> open_io \<Rightarrow> string \<Rightarrow> string \<Rightarrow> disk \<Rightarrow> (chain_store_error + chain_store) option \<times> disk" where
  "store_open cc io chain_dir tenant_id d = (case oi_mkdir io of
       Some e \<Rightarrow> (Some (Inl (StoreIo e)), d)
     | None \<Rightarrow>
         let path = chain_path chain_dir tenant_id
         in case d path of
              Some bytes \<Rightarrow> (case oi_read io of
                  Some e \<Rightarrow> (Some (Inl (StoreIo e)), d)
                | None \<Rightarrow> (case cc_from_json cc bytes of
                    Inl e \<Rightarrow> (Some (Inl (StoreParse e)), d)
                  | Inr chain \<Rightarrow> (case ev_verify (cc_blake3 cc) chain of
                      Inl e \<Rightarrow> (Some (Inl (StoreVerify e)), d)
                    | Inr _ \<Rightarrow> (Some (Inr \<lparr>cs_path = path, cs_chain = chain\<rparr>), d))))
            | None \<Rightarrow> (case fs_write (oi_write io) path (cc_to_json cc []) d of
                  (None, d') \<Rightarrow> (None, d')
                | (Some (Some e), d') \<Rightarrow> (Some (Inl (StoreIo e)), d')
                | (Some None, d') \<Rightarrow> (Some (Inr \<lparr>cs_path = path, cs_chain = []\<rparr>), d')))"

record append_io =
  ai_now :: i64
  ai_write :: write_outcome
  ai_rename :: rename_outcome

definition store_append :: "chain_codec \<Rightarrow> append_io \<Rightarrow> string \<Rightarrow> chain_store \<Rightarrow> disk
    \<Rightarrow> (chain_store_error + evidence_entry) option \<times> chain_store \<times> disk" where
  "store_append cc io payload st d =
     (let chain = ev_append_with_timestamp (cc_blake3 cc) (cs_chain st) payload (ai_now io);
          st' = st\<lparr>cs_chain := chain\<rparr>;
          entry = last chain;
          tmp = tmp_path (cs_path st)
      in case fs_write (ai_write io) tmp (cc_to_json cc chain) d of
           (None, d') \<Rightarrow> (None, st', d')
         | (Some (Some e), d') \<Rightarrow> (Some (Inl (StoreIo e)), st', d')
         | (Some None, d') \<Rightarrow> (case fs_rename (ai_rename io) tmp (cs_path st) d' of
               (None, d'') \<Rightarrow> (None, st', d'')
             | (Some (Some e), d'') \<Rightarrow> (Some (Inl (StoreIo e)), st', d'')
             | (Some None, d'') \<Rightarrow> (Some (Inr entry), st', d'')))"

section \<open>Lives of a store\<close>

text \<open>The disk, the running process if there is one, and the entries that \<^verbatim>\<open>append\<close> has returned, over any sequence of openings, appends with any
  outcome and deaths of the process, from the first opening on.\<close>

inductive store_life :: "chain_codec \<Rightarrow> string \<Rightarrow> string \<Rightarrow> disk \<Rightarrow> chain_store option \<Rightarrow> evidence_entry list \<Rightarrow> bool" for cc dir tenant where
  first: "d (chain_path dir tenant) = None \<Longrightarrow> store_open cc io dir tenant d = (Some (Inr st), d') \<Longrightarrow> store_life cc dir tenant d' (Some st) []"
| dies: "store_life cc dir tenant d p acked \<Longrightarrow> store_life cc dir tenant d None acked"
| opens: "store_life cc dir tenant d None acked \<Longrightarrow> store_open cc io dir tenant d = (Some (Inr st), d') \<Longrightarrow> store_life cc dir tenant d' (Some st) acked"
| fails: "store_life cc dir tenant d None acked \<Longrightarrow> store_open cc io dir tenant d = (Some (Inl e), d') \<Longrightarrow> store_life cc dir tenant d' None acked"
| acks: "store_life cc dir tenant d (Some st) acked \<Longrightarrow> store_append cc io payload st d = (Some (Inr entry), st', d') \<Longrightarrow>
    store_life cc dir tenant d' (Some st') (acked @ [entry])"
| errs: "store_life cc dir tenant d (Some st) acked \<Longrightarrow> store_append cc io payload st d = (Some (Inl e), st', d') \<Longrightarrow>
    store_life cc dir tenant d' (Some st') acked"
| crashes: "store_life cc dir tenant d (Some st) acked \<Longrightarrow> store_append cc io payload st d = (None, st', d') \<Longrightarrow>
    store_life cc dir tenant d' None acked"

section \<open>Lemmas\<close>

lemma tmp_path_chain_path: "tmp_path (chain_path dir tenant) \<noteq> chain_path dir tenant"
proof -
  have "suffix ''.json'' (chain_path dir tenant)"
    by (simp add: chain_path_def join_path_def path_join_def suffix_def)
  then obtain q where q: "chain_path dir tenant = q @ ''.json''" by (auto simp: suffix_def)
  have "rfind_char CHR ''.'' (q @ ''.json'') = Some (length q)" by (simp add: rfind_char_def)
  with q show ?thesis by (simp add: tmp_path_def)
qed

abbreviation built :: "chain_codec \<Rightarrow> (string \<times> i64) list \<Rightarrow> evidence_entry list" where
  "built cc pts \<equiv> build_chain (ev_append_with_timestamp (cc_blake3 cc)) pts"

lemma built_append: "prefix (built cc pts) (built cc (pts @ qs))"
proof (induction qs rule: rev_induct)
  case (snoc q qs)
  obtain x t where q: "q = (x, t)" by fastforce
  have "prefix (built cc (pts @ qs)) (built cc ((pts @ qs) @ [(x, t)]))"
    unfolding build_chain_simps(2) by (simp add: ev_append_with_timestamp_def Let_def)
  with snoc q show ?case using prefix_order.trans by auto
qed simp

text \<open>What the code relies on: the codec reads back what it wrote.\<close>

definition codec_law :: "chain_codec \<Rightarrow> bool" where
  "codec_law cc \<longleftrightarrow> (\<forall>chain. cc_from_json cc (cc_to_json cc chain) = Inr chain)"

definition store_inv :: "chain_codec \<Rightarrow> string \<Rightarrow> disk \<Rightarrow> chain_store option \<Rightarrow> evidence_entry list \<Rightarrow> bool" where
  "store_inv cc path d p acked \<longleftrightarrow> (\<exists>pts. d path = Some (cc_to_json cc (built cc pts)) \<and> subseq acked (built cc pts) \<and>
     (\<forall>st. p = Some st \<longrightarrow> cs_path st = path \<and> (\<exists>qs. cs_chain st = built cc (pts @ qs))))"

lemma store_append_inv:
  assumes "store_inv cc path d (Some st) acked" and "tmp_path path \<noteq> path" and "store_append cc io payload st d = (r, st', d')"
  shows "store_inv cc path d' (Some st') (case r of Some (Inr entry) \<Rightarrow> acked @ [entry] | _ \<Rightarrow> acked)"
proof -
  from assms(1) obtain pts qs where i: "d path = Some (cc_to_json cc (built cc pts))" "subseq acked (built cc pts)" "cs_path st = path"
    "cs_chain st = built cc (pts @ qs)" by (auto simp: store_inv_def)
  define all where "all = pts @ qs @ [(payload, ai_now io)]"
  have "ev_append_with_timestamp (cc_blake3 cc) (cs_chain st) payload (ai_now io) = built cc ((pts @ qs) @ [(payload, ai_now io)])"
    unfolding i(4) build_chain_simps(2) ..
  then have app: "ev_append_with_timestamp (cc_blake3 cc) (cs_chain st) payload (ai_now io) = built cc all" by (simp add: all_def)
  have st': "st' = st\<lparr>cs_chain := built cc all\<rparr>"
    using assms(3) by (auto simp: store_append_def app Let_def split: prod.splits option.splits)
  have old: "subseq acked (built cc all)"
    using i(2) built_append [of cc pts "qs @ [(payload, ai_now io)]"] unfolding all_def by (auto elim!: prefixE intro: subseq_order.trans)
  have acks: "subseq (acked @ [last (built cc all)]) (built cc all)"
  proof -
    have "built cc all = built cc (pts @ qs) @ [last (built cc all)]"
      unfolding app [symmetric] i(4) by (simp add: ev_append_with_timestamp_def Let_def)
    moreover have "subseq acked (built cc (pts @ qs))"
      using i(2) built_append [of cc pts qs] by (auto elim!: prefixE intro: subseq_order.trans)
    ultimately show ?thesis by (metis list_emb_append_mono subseq_order.refl)
  qed
  consider "d' path = d path" "\<forall>e. r \<noteq> Some (Inr e)" | "d' path = Some (cc_to_json cc (built cc all))" "\<forall>e. r = Some (Inr e) \<longrightarrow> e = last (built cc all)"
    using assms(3,2) i(3)
    by (auto simp: store_append_def app Let_def fs_write_def fs_rename_def fs_move_def
        split: prod.splits option.splits write_outcome.splits rename_outcome.splits if_splits)
  then show ?thesis
  proof cases
    case 1
    with i st' show ?thesis unfolding store_inv_def all_def
      by (intro exI [of _ pts]) (auto split: option.split sum.split)
  next
    case 2
    then have "store_inv cc path d' (Some st') (case r of Some (Inr entry) \<Rightarrow> acked @ [entry] | _ \<Rightarrow> acked)"
      using i(3) st' old acks unfolding store_inv_def
      by (intro exI [of _ all]) (auto split: option.split sum.split intro: exI [of _ "[]"])
    then show ?thesis .
  qed
qed

lemma store_life_inv:
  assumes "store_life cc dir tenant d p acked" and "codec_law cc"
  shows "store_inv cc (chain_path dir tenant) d p acked"
  using assms
proof (induction rule: store_life.induct)
  case (first d io st d')
  then show ?case
    by (auto simp: store_inv_def store_open_def fs_write_def Let_def split: option.splits prod.splits write_outcome.splits intro!: exI [of _ "[]"])
next
  case (dies d p acked)
  then show ?case by (auto simp: store_inv_def)
next
  case (opens d acked io st d')
  then obtain pts where "d (chain_path dir tenant) = Some (cc_to_json cc (built cc pts))" "subseq acked (built cc pts)" by (auto simp: store_inv_def)
  moreover from this opens have "d' = d" "cs_path st = chain_path dir tenant" "cs_chain st = built cc (pts @ [])"
    by (auto simp: store_open_def codec_law_def Let_def split: option.splits sum.splits)
  ultimately show ?case unfolding store_inv_def by blast
next
  case (fails d acked io e d')
  then show ?case by (auto simp: store_inv_def store_open_def Let_def split: option.splits sum.splits)
next
  case (acks d st acked io payload entry st' d')
  from store_append_inv [OF acks.IH [OF acks.prems] tmp_path_chain_path acks.hyps(2)] show ?case by simp
next
  case (errs d st acked io payload e st' d')
  from store_append_inv [OF errs.IH [OF errs.prems] tmp_path_chain_path errs.hyps(2)] show ?case by simp
next
  case (crashes d st acked io payload st' d')
  from store_append_inv [OF crashes.IH [OF crashes.prems] tmp_path_chain_path crashes.hyps(2)] show ?case by (auto simp: store_inv_def)
qed

section \<open>Properties\<close>

text \<open>Property C20: what \<^verbatim>\<open>append\<close> has returned is not lost. After any sequence of openings, appends with failing or interrupted writes and
  deaths of the process, the file holds a chain built by appends that contains every returned entry in order; as long as it has at
  most \<open>2 ^ 64\<close> entries, opening the store reads exactly this chain, verified.\<close>

theorem acknowledged_entries_survive:
  assumes "store_life cc dir tenant d p acked" and "codec_law cc" and "\<forall>x. cc_blake3 cc x \<noteq> replicate 32 CHR 0x00"
  shows "\<exists>pts. subseq acked (build_chain (ev_append_with_timestamp (cc_blake3 cc)) pts) \<and>
    (length pts \<le> 2 ^ 64 \<longrightarrow> store_open cc \<lparr>oi_mkdir = None, oi_read = None, oi_write = wo\<rparr> dir tenant d =
       (Some (Inr \<lparr>cs_path = chain_path dir tenant, cs_chain = build_chain (ev_append_with_timestamp (cc_blake3 cc)) pts\<rparr>), d))"
proof -
  from store_life_inv [OF assms(1,2)] obtain pts where
    i: "d (chain_path dir tenant) = Some (cc_to_json cc (built cc pts))" "subseq acked (built cc pts)" by (auto simp: store_inv_def)
  have "ev_verify (cc_blake3 cc) (built cc pts) = Inr ()" if "length pts \<le> 2 ^ 64"
    by (rule ev.accepts_build) (use that assms(3) compute_entry_hash_not_genesis in auto)
  with i assms(2) show ?thesis by (intro exI [of _ pts]) (auto simp: store_open_def codec_law_def Let_def)
qed

text \<open>A codec: every field in hexadecimal, followed by a space; numbers in unary.\<close>

definition entry_fields :: "evidence_entry \<Rightarrow> string list" where
  "entry_fields e = [replicate (unat (ev_sequence e)) CHR ''1'', ev_payload e, ev_blake3_hash e, ev_prev_hash e, replicate (unat (ev_created_at_ms e)) CHR ''1'']"

fun entries_of :: "string list \<Rightarrow> evidence_entry list" where
  "entries_of (a # b # c # d # e # fs) = \<lparr>ev_sequence = word_of_nat (length a), ev_payload = b, ev_blake3_hash = c, ev_prev_hash = d,
     ev_created_at_ms = word_of_nat (length e)\<rparr> # entries_of fs"
| "entries_of _ = []"

definition sample_codec :: chain_codec where
  "sample_codec = \<lparr>cc_blake3 = (\<lambda>_. replicate 32 CHR ''Z''),
     cc_to_json = (\<lambda>chain. concat (map (\<lambda>f. hex_encode f @ '' '') (concat (map entry_fields chain)))),
     cc_from_json = (\<lambda>s. Inr (entries_of (map unhex (butlast (split_on CHR '' '' s)))))\<rparr>"

lemma space_not_hex: "CHR '' '' \<notin> set (hex_encode s)"
proof
  assume "CHR '' '' \<in> set (hex_encode s)"
  then obtain n where "n < 16" "hex_char n = CHR '' ''" by (auto simp: hex_encode_def hex_byte_def) (metis code_div_16 mod_less_divisor zero_less_numeral)+
  then show False using code_hex_char [of n] by (auto split: if_splits)
qed

lemma split_hex_fields: "split_on CHR '' '' (concat (map (\<lambda>f. hex_encode f @ '' '') fs)) = map hex_encode fs @ [[]]"
  by (induction fs) (simp_all add: split_on_append [OF space_not_hex])

lemma entries_of_fields: "entries_of (concat (map entry_fields chain)) = chain"
  by (induction chain) (simp_all add: entry_fields_def)

lemma sample_codec_law: "codec_law sample_codec"
  by (simp add: codec_law_def sample_codec_def split_hex_fields entries_of_fields comp_def)

theorem acknowledged_entries_survive_witness:
  "\<exists>d st e pts. store_life sample_codec ''/c'' ''t'' d (Some st) [e] \<and> ev_payload e = ''p'' \<and> e \<in> set (built sample_codec pts) \<and>
     (length pts \<le> 2 ^ 64 \<longrightarrow> store_open sample_codec \<lparr>oi_mkdir = None, oi_read = None, oi_write = WriteOk\<rparr> ''/c'' ''t'' d =
        (Some (Inr \<lparr>cs_path = chain_path ''/c'' ''t'', cs_chain = built sample_codec pts\<rparr>), d))"
proof -
  define path where "path = chain_path ''/c'' ''t''"
  define st where "st = \<lparr>cs_path = path, cs_chain = []\<rparr>"
  define d where "d = [path \<mapsto> cc_to_json sample_codec []]"
  have "store_life sample_codec ''/c'' ''t'' d (Some st) []"
    by (rule first [of Map.empty _ _ _ "\<lparr>oi_mkdir = None, oi_read = None, oi_write = WriteOk\<rparr>"])
      (simp_all add: store_open_def fs_write_def path_def st_def d_def Let_def)
  moreover obtain e st' d' where a: "store_append sample_codec \<lparr>ai_now = 1, ai_write = WriteOk, ai_rename = RenameOk\<rparr> ''p'' st d = (Some (Inr e), st', d')"
      "ev_payload e = ''p''"
    by (auto simp: store_append_def fs_write_def fs_rename_def ev_append_with_timestamp_def st_def Let_def)
  ultimately have life: "store_life sample_codec ''/c'' ''t'' d' (Some st') [e]" using acks [of _ _ _ d st "[]"] by fastforce
  have "\<forall>x. cc_blake3 sample_codec x \<noteq> replicate 32 CHR 0x00" by (simp add: sample_codec_def replicate_eq_replicate)
  from acknowledged_entries_survive [OF life sample_codec_law this, of WriteOk] obtain pts where "subseq [e] (built sample_codec pts)"
    "length pts \<le> 2 ^ 64 \<longrightarrow> store_open sample_codec \<lparr>oi_mkdir = None, oi_read = None, oi_write = WriteOk\<rparr> ''/c'' ''t'' d' =
       (Some (Inr \<lparr>cs_path = chain_path ''/c'' ''t'', cs_chain = built sample_codec pts\<rparr>), d')" by blast
  moreover from this(1) have "e \<in> set (built sample_codec pts)" by (simp add: subseq_singleton_left)
  ultimately show ?thesis using life a(2) by blast
qed

text \<open>Fact: the first file of a tenant is not written through a temporary file. If the process dies in that write, the store cannot be opened
  again when the rest does not parse.\<close>

theorem interrupted_creation_locks:
  assumes "d (chain_path dir tenant) = None" and "cc_from_json cc rest = Inl e"
  shows "\<exists>d'. store_open cc \<lparr>oi_mkdir = None, oi_read = r, oi_write = WriteDies rest\<rparr> dir tenant d = (None, d') \<and>
    store_open cc \<lparr>oi_mkdir = None, oi_read = None, oi_write = wo\<rparr> dir tenant d' = (Some (Inl (StoreParse e)), d')"
  using assms by (simp add: store_open_def fs_write_def Let_def)

text \<open>Fact: an append whose write fails reports an error, but the entry stays in memory and the next append writes it.\<close>

theorem failed_append_persists_later:
  assumes "store_append cc \<lparr>ai_now = t, ai_write = WriteFails e rest, ai_rename = ro\<rparr> p st d = (r, st', d')"
    and "store_append cc \<lparr>ai_now = t', ai_write = WriteOk, ai_rename = RenameOk\<rparr> p' st' d' = (r', st'', d'')"
  shows "r = Some (Inl (StoreIo e)) \<and> d'' (cs_path st) = Some (cc_to_json cc
    (ev_append_with_timestamp (cc_blake3 cc) (ev_append_with_timestamp (cc_blake3 cc) (cs_chain st) p t) p' t'))"
  using assms by (auto simp: store_append_def fs_write_def fs_rename_def fs_move_def Let_def)

end
