(* ===== verification/KeyRotation.thy ===== *)
theory KeyRotation
  imports Prelude
begin

text \<open>
  \<^verbatim>\<open>crates/tl-evidence/src/key_rotation.rs\<close>: the key store with its rotation policy, grace period and append-only
  rotation log. A \<^verbatim>\<open>DateTime\<close> and a \<^verbatim>\<open>Duration\<close> are numbers of nanoseconds. What an operation reads from outside,
  its two clock readings and the fresh event id, is its \<open>tick\<close>. Chrono's halving of a duration is the parameter \<open>half\<close>.
\<close>

section \<open>Data\<close>

datatype key_rotation_error = InvalidInterval | InvalidGracePeriod | KeyNotFound string | KeyRetired string

datatype rotation_reason = Scheduled | Compromised | AlgorithmMigration | Operational | Initial

definition reason_as_str :: "rotation_reason \<Rightarrow> string" where
  "reason_as_str r = (case r of Scheduled \<Rightarrow> ''scheduled'' | Compromised \<Rightarrow> ''compromised''
     | AlgorithmMigration \<Rightarrow> ''algorithm_migration'' | Operational \<Rightarrow> ''operational'' | Initial \<Rightarrow> ''initial'')"

record key_rotation_event =
  event_id :: string
  old_key_id :: "string option"
  new_key_id :: string
  rotated_at :: int
  ev_reason :: rotation_reason
  ev_operator :: "string option"
  ev_notes :: "string option"

record tick =
  t_now :: int
  t_event :: int
  t_uuid :: string

definition rotation_event_new :: "tick \<Rightarrow> string option \<Rightarrow> string \<Rightarrow> rotation_reason \<Rightarrow> key_rotation_event" where
  "rotation_event_new tk old new reason = \<lparr>event_id = t_uuid tk, old_key_id = old, new_key_id = new,
     rotated_at = t_event tk, ev_reason = reason, ev_operator = None, ev_notes = None\<rparr>"

section \<open>Policy\<close>

record key_rotation_policy =
  rotation_interval :: int
  grace_period :: int
  warn_after :: "int option"

definition days :: "int \<Rightarrow> int" where
  "days n = n * 86400 * 1000000000"

definition default_nist :: key_rotation_policy where
  "default_nist = \<lparr>rotation_interval = days 90, grace_period = days 30, warn_after = Some (days 45)\<rparr>"

definition validate :: "key_rotation_policy \<Rightarrow> key_rotation_error + unit" where
  "validate pol = (if rotation_interval pol \<le> 0 then Inl InvalidInterval
     else if grace_period pol < 0 then Inl InvalidGracePeriod else Inr ())"

definition should_warn :: "(int \<Rightarrow> int) \<Rightarrow> key_rotation_policy \<Rightarrow> int \<Rightarrow> int \<Rightarrow> bool" where
  "should_warn half pol last_rotated_at now =
     (let warn = (case warn_after pol of Some w \<Rightarrow> w | None \<Rightarrow> half (rotation_interval pol));
          elapsed = now - last_rotated_at
      in elapsed \<ge> warn \<and> elapsed < rotation_interval pol)"

definition should_rotate :: "key_rotation_policy \<Rightarrow> int \<Rightarrow> int \<Rightarrow> bool" where
  "should_rotate pol last_rotated_at now = (let elapsed = now - last_rotated_at in elapsed \<ge> rotation_interval pol)"

section \<open>The store\<close>

record key_store =
  ks_policy :: key_rotation_policy
  active_key_id :: "string option"
  grace_keys :: "(string \<times> int) list"
  rotation_log :: "key_rotation_event list"

definition key_store_new :: "key_rotation_policy \<Rightarrow> key_store" where
  "key_store_new pol = \<lparr>ks_policy = pol, active_key_id = None, grace_keys = [], rotation_log = []\<rparr>"

definition rotate_key :: "tick \<Rightarrow> key_store \<Rightarrow> string \<Rightarrow> rotation_reason \<Rightarrow> string option \<Rightarrow> (key_rotation_error + unit) \<times> key_store" where
  "rotate_key tk ks new reason operator = (case validate (ks_policy ks) of
       Inl e \<Rightarrow> (Inl e, ks)
     | Inr _ \<Rightarrow>
         (let grace = (case active_key_id ks of Some old \<Rightarrow> grace_keys ks @ [(old, t_now tk)] | None \<Rightarrow> grace_keys ks);
              old = (if rotation_log ks = [] then None else Some (new_key_id (last (rotation_log ks))));
              event = (rotation_event_new tk old new reason)\<lparr>ev_operator := operator\<rparr>
          in (Inr (), ks\<lparr>grace_keys := grace, active_key_id := Some new, rotation_log := rotation_log ks @ [event]\<rparr>)))"

definition activate_initial :: "tick \<Rightarrow> key_store \<Rightarrow> string \<Rightarrow> (key_rotation_error + unit) \<times> key_store" where
  "activate_initial tk ks key = (case validate (ks_policy ks) of
       Inl e \<Rightarrow> (Inl e, ks)
     | Inr _ \<Rightarrow>
         if active_key_id ks \<noteq> None then rotate_key tk ks key Operational None
         else (Inr (), ks\<lparr>active_key_id := Some key,
                 rotation_log := rotation_log ks @ [rotation_event_new tk None key Initial]\<rparr>))"

definition evict_retired_keys :: "int \<Rightarrow> key_store \<Rightarrow> key_store" where
  "evict_retired_keys now ks =
     ks\<lparr>grace_keys := filter (\<lambda>(_, retired_at). now - retired_at < grace_period (ks_policy ks)) (grace_keys ks)\<rparr>"

definition verify_key_acceptable :: "int \<Rightarrow> key_store \<Rightarrow> string \<Rightarrow> (key_rotation_error + unit) \<times> key_store" where
  "verify_key_acceptable now ks key =
     (let ks = evict_retired_keys now ks
      in (if active_key_id ks = Some key then Inr ()
          else if list_ex (\<lambda>(i, _). i = key) (grace_keys ks) then Inr ()
          else if list_ex (\<lambda>e. new_key_id e = key) (rotation_log ks) then Inl (KeyRetired key)
          else Inl (KeyNotFound key), ks))"

section \<open>Histories\<close>

text \<open>The calls a client can make, each with its tick, and the store they leave.\<close>

datatype key_op = Activate string | Rotate string rotation_reason "string option" | CheckKey string

fun key_exec :: "tick \<Rightarrow> key_op \<Rightarrow> key_store \<Rightarrow> key_store" where
  "key_exec tk (Activate key) ks = snd (activate_initial tk ks key)"
| "key_exec tk (Rotate key reason operator) ks = snd (rotate_key tk ks key reason operator)"
| "key_exec tk (CheckKey key) ks = snd (verify_key_acceptable (t_now tk) ks key)"

inductive key_reach :: "key_rotation_policy \<Rightarrow> key_store \<Rightarrow> bool" for pol where
  key_init: "key_reach pol (key_store_new pol)"
| key_step: "key_reach pol ks \<Longrightarrow> key_reach pol (key_exec tk op ks)"

definition log_linked :: "key_rotation_event list \<Rightarrow> bool" where
  "log_linked log \<longleftrightarrow> (\<forall>i < length log. old_key_id (log ! i) = (if i = 0 then None else Some (new_key_id (log ! (i - 1)))))"

definition key_store_inv :: "key_store \<Rightarrow> bool" where
  "key_store_inv ks \<longleftrightarrow> log_linked (rotation_log ks) \<and>
     active_key_id ks = (if rotation_log ks = [] then None else Some (new_key_id (last (rotation_log ks)))) \<and>
     fst ` set (grace_keys ks) \<subseteq> new_key_id ` set (rotation_log ks)"

lemma log_linked_snoc:
  "log_linked (log @ [e]) \<longleftrightarrow> log_linked log \<and> old_key_id e = (if log = [] then None else Some (new_key_id (last log)))"
  by (auto simp: log_linked_def nth_append last_conv_nth less_Suc_eq)

lemma log_linked_small [simp]: "log_linked []" "log_linked [e] \<longleftrightarrow> old_key_id e = None"
  by (auto simp: log_linked_def)

lemmas key_ops = activate_initial_def rotate_key_def verify_key_acceptable_def evict_retired_keys_def rotation_event_new_def Let_def

lemma rotate_key_inv: "key_store_inv ks \<Longrightarrow> key_store_inv (snd (rotate_key tk ks new reason operator))"
  by (auto simp: key_store_inv_def key_ops log_linked_snoc split: sum.split option.split)

lemma activate_initial_inv: "key_store_inv ks \<Longrightarrow> key_store_inv (snd (activate_initial tk ks key))"
  using rotate_key_inv [of ks tk key Operational None]
  by (auto simp: activate_initial_def split: sum.split)
    (auto simp: key_store_inv_def rotation_event_new_def log_linked_snoc split: if_splits)

lemma check_key_inv: "key_store_inv ks \<Longrightarrow> key_store_inv (snd (verify_key_acceptable now ks key))"
  by (auto simp: key_store_inv_def key_ops)

lemma key_exec_inv: "key_store_inv ks \<Longrightarrow> key_store_inv (key_exec tk op ks)"
  by (cases op) (simp_all add: rotate_key_inv activate_initial_inv check_key_inv)

lemma key_store_new_inv: "key_store_inv (key_store_new pol)"
  by (simp add: key_store_inv_def key_store_new_def)

lemma key_exec_log: "prefix (rotation_log ks) (rotation_log (key_exec tk op ks))"
  by (cases op) (auto simp: key_ops split: sum.split)

text \<open>Fact: the rotation log is an append-only chain. In every reachable store the first event has no predecessor and
  every later one names the key of the event before it, the active key is the one of the last event, every key in grace was once
  activated, and whatever is called next leaves the log as it is or extends it.\<close>

theorem key_log_chain:
  assumes "key_reach pol ks"
  shows "log_linked (rotation_log ks) \<and>
         active_key_id ks = (if rotation_log ks = [] then None else Some (new_key_id (last (rotation_log ks)))) \<and>
         fst ` set (grace_keys ks) \<subseteq> new_key_id ` set (rotation_log ks) \<and>
         (\<forall>tk op. prefix (rotation_log ks) (rotation_log (key_exec tk op ks)))"
proof -
  have "key_store_inv ks"
    using assms by induction (simp_all add: key_exec_inv key_store_new_inv)
  then show ?thesis by (simp add: key_store_inv_def key_exec_log)
qed

theorem key_log_chain_witness:
  "active_key_id (key_exec \<lparr>t_now = 5, t_event = 6, t_uuid = ''u''\<rparr> (Activate ''k1'') (key_store_new default_nist)) = Some ''k1''"
proof -
  let ?ks = "key_exec \<lparr>t_now = 5, t_event = 6, t_uuid = ''u''\<rparr> (Activate ''k1'') (key_store_new default_nist)"
  have "rotation_log ?ks = [rotation_event_new \<lparr>t_now = 5, t_event = 6, t_uuid = ''u''\<rparr> None ''k1'' Initial]"
    by (simp add: activate_initial_def validate_def key_store_new_def default_nist_def days_def)
  moreover have "key_reach default_nist ?ks" by (intro key_step key_init)
  ultimately show ?thesis using key_log_chain [of default_nist ?ks] by (simp add: rotation_event_new_def)
qed

section \<open>Acceptance over a history\<close>

text \<open>What a history of calls did, without any eviction: the activations in order with their times, and the retirements they
  caused, each key at the time of the next activation.\<close>

fun activation :: "tick \<times> key_op \<Rightarrow> (string \<times> int) option" where
  "activation (tk, Activate key) = Some (key, t_now tk)"
| "activation (tk, Rotate key _ _) = Some (key, t_now tk)"
| "activation (tk, CheckKey _) = None"

definition activations :: "(tick \<times> key_op) list \<Rightarrow> (string \<times> int) list" where
  "activations hist = List.map_filter activation hist"

fun retirements :: "(string \<times> int) list \<Rightarrow> (string \<times> int) list" where
  "retirements (a # b # acts) = (fst a, snd b) # retirements (b # acts)"
| "retirements _ = []"

definition run_keys :: "key_rotation_policy \<Rightarrow> (tick \<times> key_op) list \<Rightarrow> key_store" where
  "run_keys pol hist = foldl (\<lambda>ks (tk, op). key_exec tk op ks) (key_store_new pol) hist"

definition clock :: "(tick \<times> key_op) list \<Rightarrow> int list" where
  "clock hist = map (t_now \<circ> fst) hist"

lemma activations_snoc:
  "activations (hist @ [e]) = activations hist @ (case activation e of Some a \<Rightarrow> [a] | None \<Rightarrow> [])"
  by (simp add: activations_def map_filter_def split: option.split)

lemma retirements_snoc:
  "retirements (acts @ [(k, t)]) = retirements acts @ (if acts = [] then [] else [(fst (last acts), t)])"
  by (induction acts rule: retirements.induct) simp_all

text \<open>The store agrees with the history: eviction only drops keys whose grace is over, now and later.\<close>

definition key_sim :: "key_rotation_policy \<Rightarrow> (tick \<times> key_op) list \<Rightarrow> key_store \<Rightarrow> bool" where
  "key_sim pol hist ks \<longleftrightarrow> ks_policy ks = pol \<and>
     map new_key_id (rotation_log ks) = map fst (activations hist) \<and>
     active_key_id ks = (if activations hist = [] then None else Some (fst (last (activations hist)))) \<and>
     (\<forall>now key t. (\<forall>c \<in> set (clock hist). c \<le> now) \<longrightarrow> now - t < grace_period pol \<longrightarrow>
        ((key, t) \<in> set (grace_keys ks) \<longleftrightarrow> (key, t) \<in> set (retirements (activations hist))))"

lemma key_sim_activation:
  assumes "key_sim pol hist ks" and "validate pol = Inr ()" and "activation (tk, op) = Some (key, t_now tk)"
  shows "key_sim pol (hist @ [(tk, op)]) (key_exec tk op ks)"
proof -
  have "active_key_id ks = None \<longleftrightarrow> activations hist = []" using assms(1) by (simp add: key_sim_def)
  then show ?thesis
    using assms by (cases op)
      (auto simp: key_sim_def key_ops activations_snoc retirements_snoc clock_def split: if_splits)
qed

lemma key_sim_check:
  assumes "key_sim pol hist ks"
  shows "key_sim pol (hist @ [(tk, CheckKey key)]) (key_exec tk (CheckKey key) ks)"
  using assms by (auto simp: key_sim_def key_ops activations_snoc clock_def)

lemma key_sim_exec:
  assumes "key_sim pol hist ks" and "validate pol = Inr ()"
  shows "key_sim pol (hist @ [(tk, op)]) (key_exec tk op ks)"
  using key_sim_activation [OF assms, of tk op] key_sim_check [OF assms(1), of tk] by (cases op) simp_all

lemma key_sim_run:
  assumes "validate pol = Inr ()"
  shows "key_sim pol hist (run_keys pol hist)"
proof (induction hist rule: rev_induct)
  case (snoc e hist)
  then show ?case
    using key_sim_exec [OF snoc assms, of "fst e" "snd e"] by (simp add: run_keys_def case_prod_beta)
qed (simp add: key_sim_def run_keys_def key_store_new_def activations_def map_filter_def)

text \<open>Property C38: acceptance is decided by the history alone, and eviction cannot be observed. Under a valid policy and a clock
  that does not run backwards, a key is accepted exactly when it is the last one activated, or some activation of it was
  superseded less than the grace period ago; otherwise it is reported as retired when it was ever activated, and as not found
  when it never was.\<close>

theorem key_acceptance_exact:
  assumes "validate pol = Inr ()" and "\<forall>c \<in> set (clock hist). c \<le> now"
  shows "fst (verify_key_acceptable now (run_keys pol hist) key) =
    (if (\<exists>acts t. activations hist = acts @ [(key, t)]) \<or>
        (\<exists>t. (key, t) \<in> set (retirements (activations hist)) \<and> now - t < grace_period pol) then Inr ()
     else if key \<in> fst ` set (activations hist) then Inl (KeyRetired key) else Inl (KeyNotFound key))"
proof -
  let ?ks = "run_keys pol hist"
  have sim: "key_sim pol hist ?ks" using assms(1) by (rule key_sim_run)
  have act: "active_key_id ?ks = Some key \<longleftrightarrow> (\<exists>acts t. activations hist = acts @ [(key, t)])"
    using sim by (cases "activations hist" rule: rev_cases) (auto simp: key_sim_def)
  have grace: "(key, t) \<in> set (grace_keys ?ks) \<longleftrightarrow> (key, t) \<in> set (retirements (activations hist))"
    if "now - t < grace_period pol" for t
    using sim assms(2) that unfolding key_sim_def by blast
  have "list_ex (\<lambda>e. new_key_id e = key) (rotation_log ?ks) \<longleftrightarrow> key \<in> set (map new_key_id (rotation_log ?ks))"
    by (auto simp: list_ex_iff)
  moreover have "map new_key_id (rotation_log ?ks) = map fst (activations hist)"
    using sim unfolding key_sim_def by blast
  ultimately have log: "list_ex (\<lambda>e. new_key_id e = key) (rotation_log ?ks) \<longleftrightarrow> key \<in> fst ` set (activations hist)"
    by (simp only: set_map)
  have pol: "ks_policy ?ks = pol" using sim by (simp add: key_sim_def)
  have live: "list_ex (\<lambda>(i, _). i = key) (filter (\<lambda>(_, retired_at). now - retired_at < grace_period pol) (grace_keys ?ks)) \<longleftrightarrow>
      (\<exists>t. (key, t) \<in> set (retirements (activations hist)) \<and> now - t < grace_period pol)"
    using grace by (auto simp: list_ex_iff)
  show ?thesis by (simp add: verify_key_acceptable_def evict_retired_keys_def Let_def act log pol live)
qed

theorem key_acceptance_exact_witness:
  "fst (verify_key_acceptable 40 (run_keys \<lparr>rotation_interval = 1, grace_period = 30, warn_after = None\<rparr>
     [(\<lparr>t_now = 0, t_event = 0, t_uuid = ''u''\<rparr>, Activate ''k1''), (\<lparr>t_now = 10, t_event = 10, t_uuid = ''v''\<rparr>, Rotate ''k2'' Compromised None)])
     ''k1'') = Inl (KeyRetired ''k1'')"
  by (subst key_acceptance_exact) (simp_all add: validate_def clock_def activations_def map_filter_def)

end
