(* ===== verification/Breaker.thy ===== *)
theory Breaker
  imports Prelude "HOL-Library.Multiset"
begin

text \<open>
  \<^verbatim>\<open>crates/themis-orchestrator/src/circuit_breaker.rs\<close> and \<^verbatim>\<open>retry.rs\<close>: the three-state circuit breaker and the
  retry loop. An \<^verbatim>\<open>Instant\<close> is an integer, the failure counter a wrapping 32-bit word. A call takes the state lock twice
  and bumps the counter outside of it, so beside the sequential \<open>call\<close> there is a step relation on a breaker with calls in
  flight, one step for each section that runs without interruption.
\<close>

section \<open>The breaker\<close>

datatype circuit_state = Closed | Open int | HalfOpen

datatype 'e circuit_breaker_error = Rejected circuit_state | Inner 'e

record circuit_breaker =
  cb_threshold :: u32
  cb_timeout :: int
  cb_state :: circuit_state
  cb_failures :: u32

text \<open>\<open>None\<close> is the failed assertion.\<close>

definition with_params :: "u32 \<Rightarrow> int \<Rightarrow> circuit_breaker option" where
  "with_params threshold timeout = (if threshold > 0
     then Some \<lparr>cb_threshold = threshold, cb_timeout = timeout, cb_state = Closed, cb_failures = 0\<rparr> else None)"

text \<open>The gate at the time \<open>t\<close>, the two sections of a failed call (counting, then the update under the lock) and the one of
  a successful call.\<close>

definition gate_call :: "int \<Rightarrow> circuit_breaker \<Rightarrow> bool \<times> circuit_breaker" where
  "gate_call t cb = (case cb_state cb of
       Closed \<Rightarrow> (True, cb)
     | HalfOpen \<Rightarrow> (True, cb)
     | Open opened_at \<Rightarrow>
         if max 0 (t - opened_at) \<ge> cb_timeout cb then (True, cb\<lparr>cb_state := HalfOpen\<rparr>) else (False, cb))"

definition finish_ok :: "circuit_breaker \<Rightarrow> circuit_breaker" where
  "finish_ok cb = (if cb_state cb = HalfOpen then cb\<lparr>cb_state := Closed, cb_failures := 0\<rparr> else cb)"

definition count_failure :: "circuit_breaker \<Rightarrow> u32 \<times> circuit_breaker" where
  "count_failure cb = (cb_failures cb + 1, cb\<lparr>cb_failures := cb_failures cb + 1\<rparr>)"

definition finish_err :: "int \<Rightarrow> u32 \<Rightarrow> circuit_breaker \<Rightarrow> circuit_breaker" where
  "finish_err t n cb = (if cb_state cb = HalfOpen then cb\<lparr>cb_state := Open t\<rparr>
     else if n \<ge> cb_threshold cb then cb\<lparr>cb_state := Open t\<rparr> else cb)"

text \<open>A call whose inner function would yield \<open>r\<close>, gated at the time \<open>t\<close> and finished at \<open>t'\<close>.\<close>

definition call :: "int \<Rightarrow> int \<Rightarrow> 'e + 'a \<Rightarrow> circuit_breaker \<Rightarrow> ('e circuit_breaker_error + 'a) \<times> circuit_breaker" where
  "call t t' r cb =
     (let (allow, cb) = gate_call t cb
      in if \<not> allow then (Inl (Rejected (cb_state cb)), cb)
         else (case r of
             Inr v \<Rightarrow> (Inr v, finish_ok cb)
           | Inl e \<Rightarrow> (let (n, cb) = count_failure cb in (Inl (Inner e), finish_err t' n cb))))"

section \<open>Calls in flight\<close>

datatype call_pc = Admitted | Counted u32

type_synonym breaker_sys = "circuit_breaker \<times> call_pc multiset"

inductive breaker_step :: "breaker_sys \<Rightarrow> breaker_sys \<Rightarrow> bool" where
  admit: "gate_call t cb = (True, cb') \<Longrightarrow> breaker_step (cb, calls) (cb', add_mset Admitted calls)"
| reject: "gate_call t cb = (False, cb') \<Longrightarrow> breaker_step (cb, calls) (cb', calls)"
| succeed: "breaker_step (cb, add_mset Admitted calls) (finish_ok cb, calls)"
| count: "count_failure cb = (n, cb') \<Longrightarrow> breaker_step (cb, add_mset Admitted calls) (cb', add_mset (Counted n) calls)"
| fail: "breaker_step (cb, add_mset (Counted n) calls) (finish_err t n cb, calls)"

inductive breaker_reach :: "breaker_sys \<Rightarrow> breaker_sys \<Rightarrow> bool" for s where
  reach_start: "breaker_reach s s"
| reach_step: "breaker_reach s s' \<Longrightarrow> breaker_step s' s'' \<Longrightarrow> breaker_reach s s''"

definition pending_opening :: "breaker_sys \<Rightarrow> bool" where
  "pending_opening s \<longleftrightarrow> cb_threshold (fst s) > 0 \<and>
     (cb_state (fst s) = Closed \<and> cb_failures (fst s) \<ge> cb_threshold (fst s) \<longrightarrow>
        (\<exists>n. Counted n \<in># snd s \<and> n \<ge> cb_threshold (fst s)))"

lemmas breaker_ops = gate_call_def finish_ok_def count_failure_def finish_err_def

lemma pending_opening_step: "breaker_step s s' \<Longrightarrow> pending_opening s \<Longrightarrow> pending_opening s'"
  by (induction rule: breaker_step.induct)
    (auto simp: pending_opening_def breaker_ops split: circuit_state.splits if_splits)

lemma pending_opening_reach: "breaker_reach s s' \<Longrightarrow> pending_opening s \<Longrightarrow> pending_opening s'"
  by (induction rule: breaker_reach.induct) (auto intro: pending_opening_step)

lemma reach_trans: "breaker_reach b c \<Longrightarrow> breaker_reach a b \<Longrightarrow> breaker_reach a c"
  by (induction rule: breaker_reach.induct) (auto intro: reach_step)

text \<open>A sequential call is a run of steps.\<close>

lemma call_steps: "breaker_reach (cb, {#}) (snd (call t t' r cb), {#})"
proof (cases "gate_call t cb")
  case (Pair allow cb')
  show ?thesis
  proof (cases allow)
    case False
    then show ?thesis using Pair reject [of t cb cb' "{#}"] by (auto simp: call_def intro: reach_start reach_step)
  next
    case True
    then have a: "breaker_reach (cb, {#}) (cb', add_mset Admitted {#})"
      using Pair by (auto intro: reach_start reach_step admit)
    show ?thesis
    proof (cases r)
      case (Inr v)
      then show ?thesis using Pair True reach_step [OF a succeed] by (simp add: call_def)
    next
      case (Inl e)
      obtain n cb'' where c: "count_failure cb' = (n, cb'')" by (cases "count_failure cb'") auto
      show ?thesis
        using Inl c Pair True reach_step [OF reach_step [OF a count [OF c]] fail [of cb'' n "{#}" t']] by (simp add: call_def)
    qed
  qed
qed

section \<open>Retrying\<close>

text \<open>\<open>results k\<close> is what the \<open>k\<close>-th call of the operation returns, \<open>delay k\<close> the computed delay. The outcome is the
  returned value (\<open>None\<close> for the panic), the number of calls made and the delays slept.\<close>

function retry_from :: "nat \<Rightarrow> (nat \<Rightarrow> 'd) \<Rightarrow> (nat \<Rightarrow> 'e + 'a) \<Rightarrow> nat \<Rightarrow> 'e option \<Rightarrow> 'd list \<Rightarrow> ('e + 'a) option \<times> nat \<times> 'd list" where
  "retry_from max_attempts delay results attempt last_err slept =
     (if attempt \<ge> max_attempts then (map_option Inl last_err, attempt, slept)
      else (case results attempt of
          Inr v \<Rightarrow> (Some (Inr v), Suc attempt, slept)
        | Inl e \<Rightarrow>
            if attempt + 1 \<ge> max_attempts then (Some (Inl e), Suc attempt, slept)
            else retry_from max_attempts delay results (attempt + 1) (Some e) (slept @ [delay attempt])))"
  by pat_completeness auto
termination by (relation "measure (\<lambda>(m, _, _, a, _, _). m - a)") auto

declare retry_from.simps [simp del]

definition retry_with_backoff :: "u32 \<Rightarrow> (nat \<Rightarrow> 'd) \<Rightarrow> (nat \<Rightarrow> 'e + 'a) \<Rightarrow> ('e + 'a) option \<times> nat \<times> 'd list" where
  "retry_with_backoff max_attempts delay results = retry_from (unat max_attempts) delay results 0 None []"

section \<open>Properties\<close>

text \<open>Property C39: no opening is lost, however calls interleave. In every state that concurrent callers can reach from a new
  breaker, when no counted failure is still waiting for the lock, a closed breaker has counted fewer failures than its threshold.\<close>

theorem breaker_no_lost_opening:
  assumes "with_params threshold timeout = Some cb0" and "breaker_reach (cb0, {#}) (cb, calls)"
    and "\<forall>n. Counted n \<notin># calls" and "cb_state cb = Closed"
  shows "cb_failures cb < cb_threshold cb"
proof -
  have "pending_opening (cb0, {#})"
    using assms(1) by (auto simp: with_params_def pending_opening_def split: if_splits)
  then have "pending_opening (cb, calls)" using pending_opening_reach assms(2) by blast
  then show ?thesis using assms(3,4) by (auto simp: pending_opening_def not_less)
qed

theorem breaker_no_lost_opening_witness:
  "with_params 2 30 = Some \<lparr>cb_threshold = 2, cb_timeout = 30, cb_state = Closed, cb_failures = 0\<rparr> \<and>
   cb_failures (snd (call 0 1 (Inl ''boom'' :: string + unit) \<lparr>cb_threshold = 2, cb_timeout = 30, cb_state = Closed, cb_failures = 0\<rparr>)) < 2"
proof -
  let ?cb = "\<lparr>cb_threshold = 2, cb_timeout = 30, cb_state = Closed, cb_failures = 0\<rparr>"
  have p: "with_params 2 30 = Some ?cb" by (simp add: with_params_def)
  have st: "call 0 1 (Inl ''boom'' :: string + unit) ?cb = (Inl (Inner ''boom''), ?cb\<lparr>cb_failures := 1\<rparr>)"
    by (simp add: call_def breaker_ops word_le_nat_alt)
  show ?thesis
    using breaker_no_lost_opening [OF p call_steps [of ?cb 0 1 "Inl ''boom'' :: string + unit"]] p st by simp
qed

definition run_calls :: "(int \<times> int \<times> ('e + 'a)) list \<Rightarrow> circuit_breaker \<Rightarrow> circuit_breaker" where
  "run_calls rs cb = foldl (\<lambda>cb (t, t', r). snd (call t t' r cb)) cb rs"

definition failed :: "(int \<times> int \<times> ('e + 'a)) list \<Rightarrow> nat" where
  "failed rs = length (filter (\<lambda>(_, _, r). isl r) rs)"

lemma failed_snoc [simp]: "failed (rs @ [(t, t', r)]) = failed rs + (if isl r then 1 else 0)"
  by (simp add: failed_def)

lemma call_closed:
  assumes "cb_state cb = Closed"
  shows "snd (call t t' r cb) =
    (case r of Inr _ \<Rightarrow> cb
     | Inl _ \<Rightarrow> cb\<lparr>cb_failures := cb_failures cb + 1,
                  cb_state := if cb_failures cb + 1 \<ge> cb_threshold cb then Open t' else Closed\<rparr>)"
  using assms by (cases cb) (auto simp: call_def breaker_ops split: sum.split)

lemma word_of_nat_ge: "n < unat th \<Longrightarrow> word_of_nat n + 1 \<ge> th \<longleftrightarrow> Suc n = unat th" for th :: u32
proof -
  assume n: "n < unat th"
  then have "Suc n < 2 ^ 32" using unsigned_less [where 'a = nat, of th] by simp
  then have "unat (word_of_nat (Suc n) :: u32) = Suc n"
    by (simp add: unsigned_of_nat take_bit_nat_eq_self del: of_nat_Suc)
  then have "unat (word_of_nat n + 1 :: u32) = Suc n" by (simp add: add.commute)
  then show ?thesis using n by (auto simp: word_le_nat_alt)
qed

lemma closed_phase:
  assumes "cb_state cb = Closed" and "cb_failures cb = 0" and "failed rs < unat (cb_threshold cb)"
  shows "run_calls rs cb = cb\<lparr>cb_failures := word_of_nat (failed rs)\<rparr>"
  using assms(3)
proof (induction rs rule: rev_induct)
  case Nil
  then show ?case using assms(2) by (simp add: run_calls_def failed_def)
next
  case (snoc c rs)
  obtain t t' r where c: "c = (t, t', r)" by (cases c)
  have lt: "failed rs < unat (cb_threshold cb)" using snoc.prems c by (simp split: if_splits)
  have "run_calls (rs @ [c]) cb = snd (call t t' r (cb\<lparr>cb_failures := word_of_nat (failed rs)\<rparr>))"
    using snoc.IH [OF lt] c by (simp add: run_calls_def)
  then show ?case
    using snoc.prems c word_of_nat_ge [OF lt] assms(1) by (cases r) (simp_all add: call_closed add.commute)
qed

text \<open>Fact: the life of a breaker. A new breaker counts failures and passes every call through; it opens with the failure
  that makes their total the threshold, no matter how many successes came in between; while it is open and the timeout has not
  elapsed every call is rejected and nothing changes; and the first call after the timeout decides: its success closes the
  breaker with a clean count, its failure opens it again.\<close>

theorem breaker_life:
  fixes rs :: "(int \<times> int \<times> ('e + 'a)) list"
  assumes "with_params threshold timeout = Some cb0" and "failed (rs @ [(t, t', Inl e)]) = unat threshold"
    and "cb = run_calls (rs @ [(t, t', Inl e)]) cb0"
  shows "cb_state cb = Open t' \<and>
    (\<forall>u u' r. max 0 (u - t') < timeout \<longrightarrow> call u u' r cb = (Inl (Rejected (Open t')), cb)) \<and>
    (\<forall>u u' v. max 0 (u - t') \<ge> timeout \<longrightarrow> call u u' (Inr v) cb = (Inr v, cb0)) \<and>
    (\<forall>u u' f. max 0 (u - t') \<ge> timeout \<longrightarrow> cb_state (snd (call u u' (Inl f) cb)) = Open u')"
proof -
  have cb0: "cb0 = \<lparr>cb_threshold = threshold, cb_timeout = timeout, cb_state = Closed, cb_failures = 0\<rparr>"
    using assms(1) by (simp add: with_params_def split: if_splits)
  have lt: "failed rs < unat threshold" and last: "Suc (failed rs) = unat threshold" using assms(2) by simp_all
  have "run_calls rs cb0 = cb0\<lparr>cb_failures := word_of_nat (failed rs)\<rparr>"
    using lt cb0 by (intro closed_phase) simp_all
  then have "cb = snd (call t t' (Inl e :: 'e + 'a) (cb0\<lparr>cb_failures := word_of_nat (failed rs)\<rparr>))"
    by (simp add: assms(3) run_calls_def)
  moreover have "word_of_nat (failed rs) + 1 \<ge> threshold"
    using word_of_nat_ge [OF lt] last by simp
  ultimately have "cb = cb0\<lparr>cb_failures := word_of_nat (failed rs) + 1, cb_state := Open t'\<rparr>"
    by (simp add: call_closed cb0)
  then show ?thesis by (simp add: call_def breaker_ops cb0 not_le del: max_less_iff_conj max.bounded_iff le_max_iff_disj)
qed

theorem breaker_life_witness:
  "cb_state (run_calls ([(0, 0, Inl ''a''), (1, 1, Inr ()), (2, 2, Inr ())] @ [(3, 3, Inl ''b'')])
     \<lparr>cb_threshold = 2, cb_timeout = 30, cb_state = Closed, cb_failures = 0\<rparr>) = Open 3"
  using breaker_life [THEN conjunct1, of 2 30 "\<lparr>cb_threshold = 2, cb_timeout = 30, cb_state = Closed, cb_failures = 0\<rparr>"
      "[(0, 0, Inl ''a''), (1, 1, Inr ()), (2, 2, Inr ())]" 3 3 "''b''", OF _ _ refl]
  by (simp add: with_params_def failed_def)

text \<open>Fact: the half-open state does not limit the trial to one call. After one failure of a breaker with threshold one and
  the timeout, any number of concurrent calls is admitted before the first of them finishes.\<close>

theorem half_open_admits_many:
  "breaker_reach (\<lparr>cb_threshold = 1, cb_timeout = timeout, cb_state = Closed, cb_failures = 0\<rparr>, {#})
     (\<lparr>cb_threshold = 1, cb_timeout = timeout, cb_state = HalfOpen, cb_failures = 1\<rparr>, replicate_mset (Suc n) Admitted)"
proof (induction n)
  case 0
  let ?cb = "\<lparr>cb_threshold = 1, cb_timeout = timeout, cb_state = Closed, cb_failures = 0\<rparr>"
  have opened: "breaker_reach (?cb, {#}) (?cb\<lparr>cb_state := Open 0, cb_failures := 1\<rparr>, {#})"
    using call_steps [of ?cb 0 0 "Inl () :: unit + unit"] by (simp add: call_def breaker_ops)
  have "gate_call (max 0 timeout) (?cb\<lparr>cb_state := Open 0, cb_failures := 1\<rparr>) =
      (True, ?cb\<lparr>cb_state := HalfOpen, cb_failures := 1\<rparr>)"
    by (simp add: gate_call_def)
  from reach_step [OF opened admit [OF this]] show ?case by simp
next
  case (Suc n)
  have "gate_call 0 \<lparr>cb_threshold = 1, cb_timeout = timeout, cb_state = HalfOpen, cb_failures = 1\<rparr> =
      (True, \<lparr>cb_threshold = 1, cb_timeout = timeout, cb_state = HalfOpen, cb_failures = 1\<rparr>)"
    by (simp add: gate_call_def)
  from reach_step [OF Suc admit [OF this]] show ?case by simp
qed

lemma retry_from_exact:
  assumes "k < m" and "\<forall>j < k. isl (results j)" and "\<not> isl (results k) \<or> Suc k = m" and "a \<le> k"
  shows "retry_from m delay results a le slept = (Some (results k), Suc k, slept @ map delay [a..<k])"
  using assms(4)
proof (induction "k - a" arbitrary: a le slept)
  case 0
  then show ?case
    using assms by (auto simp: retry_from.simps [of m delay results a] split: sum.split)
next
  case (Suc d)
  then have "isl (results a)" and "a < k" using assms(2) by auto
  then show ?case
    using Suc.hyps(1) [of "Suc a"] Suc.hyps(2) assms(1)
    by (auto simp: retry_from.simps [of m delay results a] upt_conv_Cons isl_def)
qed

text \<open>Fact: retrying is exact. The result is the first success within the attempts, or else the error of the last attempt;
  the operation is called no further, and between two calls exactly the delays of the earlier attempts are slept, in order.\<close>

theorem retry_exact:
  assumes "k < unat max_attempts" and "\<forall>j < k. isl (results j)" and "\<not> isl (results k) \<or> Suc k = unat max_attempts"
  shows "retry_with_backoff max_attempts delay results = (Some (results k), Suc k, map delay [0..<k])"
  unfolding retry_with_backoff_def using retry_from_exact [OF assms, of 0 delay None "[]"] by simp

theorem retry_exact_witness:
  "retry_with_backoff 5 (\<lambda>k. 100 * 2 ^ k :: nat) (\<lambda>k. if k < 2 then Inl ''busy'' else Inr k) = (Some (Inr 2), 3, [100, 200])"
  using retry_exact [of 2 5 "\<lambda>k. if k < 2 then Inl ''busy'' else Inr k" "\<lambda>k. 100 * 2 ^ k :: nat"]
  by (simp add: upt_rec)

end
