(* ===== verification/Tenants.thy ===== *)
theory Tenants
  imports Evidence
begin

text \<open>
  \<^verbatim>\<open>crates/themis-orchestrator/src/tenants.rs\<close>, \<^verbatim>\<open>keyring.rs\<close> and \<^verbatim>\<open>room.rs\<close>: the tenant registry with its rooms, the derived
  keys of the tenants, and the in-memory room that records the messages of a run.

  A UUID is its text. HMAC-SHA512 and the version 5 UUID are parameters, and so are the fresh room id and the clock reading of
  a call. The locale \<open>band_room\<close> is the contract of the room interface the orchestrator posts to.
\<close>

section \<open>Tenants and rooms\<close>

type_synonym room_id = string

record tenant =
  tn_id :: string
  tn_name :: string
  tn_key_id :: string
  ed25519_public_key_hex :: string

definition tenant_rotate_key :: "tenant \<Rightarrow> string \<Rightarrow> string \<Rightarrow> tenant" where
  "tenant_rotate_key t new_key_id new_ed25519_public_key_hex =
     t\<lparr>tn_key_id := new_key_id, ed25519_public_key_hex := new_ed25519_public_key_hex\<rparr>"

datatype tenant_error = UnknownTenant string | CrossTenantAccess string string | EmptyTenantId | KeyringLockPoisoned

section \<open>Keyring\<close>

record tenant_keyring =
  master_seed :: string
  derived :: "string \<rightharpoonup> string"

definition keyring_new :: "string \<Rightarrow> tenant_keyring" where
  "keyring_new seed = \<lparr>master_seed = seed, derived = Map.empty\<rparr>"

definition BIP32_LIKE_DOMAIN :: string where
  "BIP32_LIKE_DOMAIN = ''themis-3.0-tenant-keyring-v1''"

definition derive_for_tenant :: "(string \<Rightarrow> string \<Rightarrow> string) \<Rightarrow> tenant_keyring \<Rightarrow> string \<Rightarrow> string" where
  "derive_for_tenant hmac_sha512 kr tenant_id = take 32 (hmac_sha512 (master_seed kr) (BIP32_LIKE_DOMAIN @ tenant_id))"

definition get_or_derive :: "(string \<Rightarrow> string \<Rightarrow> string) \<Rightarrow> tenant_keyring \<Rightarrow> string \<Rightarrow> (tenant_error + string) \<times> tenant_keyring" where
  "get_or_derive hmac_sha512 kr tenant_id =
     (if tenant_id = [] then (Inl EmptyTenantId, kr)
      else (case derived kr tenant_id of
          Some key \<Rightarrow> (Inr key, kr)
        | None \<Rightarrow> (let key = derive_for_tenant hmac_sha512 kr tenant_id
                  in (Inr key, kr\<lparr>derived := (derived kr)(tenant_id \<mapsto> key)\<rparr>))))"

definition evict :: "tenant_keyring \<Rightarrow> string \<Rightarrow> tenant_keyring" where
  "evict kr tenant_id = kr\<lparr>derived := (derived kr)(tenant_id := None)\<rparr>"

section \<open>Registry\<close>

record tenant_registry =
  tenants :: "string \<rightharpoonup> tenant"
  tr_rooms :: "string \<times> string \<rightharpoonup> room_id"
  keyring :: tenant_keyring

definition load_master_seed_from_env :: "(string \<Rightarrow> string + string) \<Rightarrow> string option \<Rightarrow> string" where
  "load_master_seed_from_env hex_decode env =
     (let dev = take 32 ''themis-dev-master-seed-do-not-use-in-prod-v0''
      in case env of
           None \<Rightarrow> dev
         | Some hex_seed \<Rightarrow> (case hex_decode (trim hex_seed) of
               Inr bytes \<Rightarrow> if length bytes = 32 then bytes else dev
             | Inl _ \<Rightarrow> dev))"

definition default_tenant :: "crypto \<Rightarrow> string \<Rightarrow> string \<Rightarrow> string \<Rightarrow> tenant" where
  "default_tenant cr tenant_id name key_id =
     \<lparr>tn_id = tenant_id, tn_name = name, tn_key_id = key_id, ed25519_public_key_hex = public_key_hex cr (signer_for_tenant cr tenant_id)\<rparr>"

definition with_default_tenants_and_seed :: "crypto \<Rightarrow> string \<Rightarrow> tenant_registry" where
  "with_default_tenants_and_seed cr seed =
     \<lparr>tenants = [''stark'' \<mapsto> default_tenant cr ''stark'' ''Stark Industries'' ''stark-prod-2026-01'',
                 ''wayne'' \<mapsto> default_tenant cr ''wayne'' ''Wayne Enterprises'' ''wayne-prod-2026-01''],
      tr_rooms = Map.empty, keyring = keyring_new seed\<rparr>"

definition open_room :: "room_id \<Rightarrow> tenant_registry \<Rightarrow> string \<Rightarrow> string \<Rightarrow> (tenant_error + room_id) \<times> tenant_registry" where
  "open_room fresh reg tenant_id invoice_id =
     (if tenants reg tenant_id = None then (Inl (UnknownTenant tenant_id), reg)
      else (case tr_rooms reg (tenant_id, invoice_id) of
          Some room \<Rightarrow> (Inr room, reg)
        | None \<Rightarrow> (Inr fresh, reg\<lparr>tr_rooms := (tr_rooms reg)((tenant_id, invoice_id) \<mapsto> fresh)\<rparr>)))"

definition get_room :: "tenant_registry \<Rightarrow> string \<Rightarrow> string \<Rightarrow> string \<Rightarrow> tenant_error + room_id option" where
  "get_room reg requesting_tenant target_tenant invoice_id =
     (if requesting_tenant \<noteq> target_tenant then Inl (CrossTenantAccess requesting_tenant target_tenant)
      else if tenants reg target_tenant = None then Inl (UnknownTenant target_tenant)
      else Inr (tr_rooms reg (target_tenant, invoice_id)))"

section \<open>Band rooms\<close>

record band_message =
  bm_from :: string
  bm_body :: string
  bm_mentions :: "string list"
  bm_ts_ms :: i64

datatype band_error = UnknownRoom room_id | CrossTenantPost string string | Transport string

definition tenant_error_text :: "tenant_error \<Rightarrow> string" where
  "tenant_error_text e = (case e of
       UnknownTenant t \<Rightarrow> ''unknown tenant: '' @ t
     | CrossTenantAccess t target \<Rightarrow>
         ''cross-tenant access denied: tenant='' @ t @ '' tried to access '' @ target @ [CHR 0x27] @ ''s resource''
     | EmptyTenantId \<Rightarrow> ''tenant id must not be empty''
     | KeyringLockPoisoned \<Rightarrow> ''tenant keyring lock poisoned'')"

definition band_error_of_tenant :: "tenant_error \<Rightarrow> band_error" where
  "band_error_of_tenant e = (case e of
       CrossTenantAccess t target \<Rightarrow> CrossTenantPost t target
     | _ \<Rightarrow> Transport (''tenant: '' @ tenant_error_text e))"

record mock_room =
  owner_tenant :: string
  room_history :: "band_message list"

type_synonym mock_rooms = "room_id \<rightharpoonup> mock_room"

definition mock_open :: "(string \<Rightarrow> string) \<Rightarrow> mock_rooms \<Rightarrow> string \<Rightarrow> string \<Rightarrow> (band_error + room_id) \<times> mock_rooms" where
  "mock_open uuid_v5 rooms tenant_id invoice_id =
     (let room = uuid_v5 (tenant_id @ '':'' @ invoice_id)
      in (Inr room, case rooms room of
            Some _ \<Rightarrow> rooms
          | None \<Rightarrow> rooms(room \<mapsto> \<lparr>owner_tenant = tenant_id, room_history = []\<rparr>)))"

definition mock_post :: "mock_rooms \<Rightarrow> i64 \<Rightarrow> room_id \<Rightarrow> string \<Rightarrow> string \<Rightarrow> string \<Rightarrow> string list \<Rightarrow> (band_error + unit) \<times> mock_rooms" where
  "mock_post rooms ts room from_tenant from_agent body mentions = (case rooms room of
       None \<Rightarrow> (Inl (UnknownRoom room), rooms)
     | Some entry \<Rightarrow>
         if owner_tenant entry \<noteq> from_tenant then (Inl (CrossTenantPost from_tenant (owner_tenant entry)), rooms)
         else (Inr (), rooms(room \<mapsto> entry\<lparr>room_history := room_history entry @
                 [\<lparr>bm_from = from_agent, bm_body = body, bm_mentions = mentions, bm_ts_ms = ts\<rparr>]\<rparr>)))"

definition mock_history :: "mock_rooms \<Rightarrow> room_id \<Rightarrow> band_error + band_message list" where
  "mock_history rooms room = (case rooms room of None \<Rightarrow> Inl (UnknownRoom room) | Some entry \<Rightarrow> Inr (room_history entry))"

definition room_tail :: "('r \<Rightarrow> room_id \<Rightarrow> band_error + band_message list) \<Rightarrow> 'r \<Rightarrow> room_id \<Rightarrow> nat \<Rightarrow> band_error + band_message list" where
  "room_tail history rooms room n = (case history rooms room of Inl e \<Rightarrow> Inl e | Inr all \<Rightarrow> Inr (rev (take n (rev all))))"

section \<open>The contract of a room\<close>

type_synonym post_op = "i64 \<times> room_id \<times> string \<times> string \<times> string \<times> string list"

definition message_of :: "post_op \<Rightarrow> band_message" where
  "message_of op = (case op of (ts, room, from_tenant, from_agent, body, mentions) \<Rightarrow>
     \<lparr>bm_from = from_agent, bm_body = body, bm_mentions = mentions, bm_ts_ms = ts\<rparr>)"

datatype room_op = OpenOp string string | PostOp post_op

locale band_room =
  fixes r_open :: "'r \<Rightarrow> string \<Rightarrow> string \<Rightarrow> (band_error + room_id) \<times> 'r"
    and r_post :: "'r \<Rightarrow> i64 \<Rightarrow> room_id \<Rightarrow> string \<Rightarrow> string \<Rightarrow> string \<Rightarrow> string list \<Rightarrow> (band_error + unit) \<times> 'r"
    and r_history :: "'r \<Rightarrow> room_id \<Rightarrow> band_error + band_message list"
    and may_post :: "'r \<Rightarrow> room_id \<Rightarrow> string \<Rightarrow> bool"
  assumes open_keeps: "r_history rs room = Inr ms \<Longrightarrow>
      r_history (snd (r_open rs t i)) room = Inr ms \<and> may_post (snd (r_open rs t i)) room u = may_post rs room u"
    and post_accepted: "may_post rs room t \<Longrightarrow> r_history rs room = Inr ms \<Longrightarrow>
      fst (r_post rs ts room t a b m) = Inr () \<and> r_history (snd (r_post rs ts room t a b m)) room = Inr (ms @ [message_of (ts, room, t, a, b, m)])"
    and post_refused: "\<not> may_post rs room t \<Longrightarrow> \<exists>e. r_post rs ts room t a b m = (Inl e, rs)"
    and post_frame: "room' \<noteq> room \<Longrightarrow> r_history (snd (r_post rs ts room t a b m)) room' = r_history rs room'"
    and post_keeps: "may_post (snd (r_post rs ts room t a b m)) room' u = may_post rs room' u"
begin

fun r_exec :: "'r \<Rightarrow> room_op \<Rightarrow> 'r" where
  "r_exec rs (OpenOp t i) = snd (r_open rs t i)"
| "r_exec rs (PostOp (ts, room, t, a, b, m)) = snd (r_post rs ts room t a b m)"

fun kept :: "'r \<Rightarrow> room_id \<Rightarrow> room_op \<Rightarrow> band_message list" where
  "kept rs room (OpenOp t i) = []"
| "kept rs room (PostOp (ts, room', t, a, b, m)) = (if room' = room \<and> may_post rs room t then [message_of (ts, room', t, a, b, m)] else [])"

lemma exec_history:
  assumes "r_history rs room = Inr ms"
  shows "r_history (r_exec rs op) room = Inr (ms @ kept rs room op) \<and> may_post (r_exec rs op) room = may_post rs room"
proof (cases "(rs, op)" rule: r_exec.cases)
  case (1 _ t i)
  then show ?thesis using open_keeps [OF assms] by auto
next
  case (2 _ ts room' t a b m)
  then show ?thesis
    using assms post_accepted [of rs room t ms] post_refused [of rs room t ts a b m] post_frame [of room room'] post_keeps
    by (cases "room' = room"; cases "may_post rs room t") (auto simp: fun_eq_iff)
qed

lemma run_history:
  "r_history rs room = Inr ms \<Longrightarrow> r_history (foldl r_exec rs ops) room = Inr (ms @ concat (map (kept rs room) ops))"
proof (induction ops arbitrary: rs ms)
  case (Cons op ops)
  have "kept (r_exec rs op) room x = kept rs room x" for x
    using exec_history [OF Cons.prems, of op] by (cases "(rs, x)" rule: r_exec.cases) simp_all
  then have eq: "kept (r_exec rs op) room = kept rs room" by blast
  show ?case using Cons.IH [OF conjunct1 [OF exec_history [OF Cons.prems, of op]]] eq by simp
qed simp

end

definition mock_may_post :: "mock_rooms \<Rightarrow> room_id \<Rightarrow> string \<Rightarrow> bool" where
  "mock_may_post rooms room t \<longleftrightarrow> (case rooms room of Some entry \<Rightarrow> owner_tenant entry = t | None \<Rightarrow> False)"

interpretation mock: band_room "mock_open uuid_v5" mock_post mock_history mock_may_post for uuid_v5
  by unfold_locales
    (auto simp: mock_open_def mock_post_def mock_history_def mock_may_post_def message_of_def Let_def split: option.splits)

section \<open>Properties\<close>

definition run_opens :: "tenant_registry \<Rightarrow> (room_id \<times> string \<times> string) list \<Rightarrow> tenant_registry" where
  "run_opens reg calls = foldl (\<lambda>reg (fresh, t, i). snd (open_room fresh reg t i)) reg calls"

definition first_opened :: "tenant_registry \<Rightarrow> (room_id \<times> string \<times> string) list \<Rightarrow> string \<times> string \<rightharpoonup> room_id" where
  "first_opened reg calls = map_of (map (\<lambda>(fresh, t, i). ((t, i), fresh)) (filter (\<lambda>(fresh, t, i). tenants reg t \<noteq> None) calls))"

lemma run_opens_rooms:
  "tr_rooms (run_opens reg calls) = first_opened reg calls ++ tr_rooms reg \<and> tenants (run_opens reg calls) = tenants reg"
  if "dom (tr_rooms reg) = {}"
  using that
proof (induction calls rule: rev_induct)
  case (snoc c calls)
  obtain fresh t i where c: "c = (fresh, t, i)" by (cases c)
  let ?reg = "run_opens reg calls"
  have IH: "tr_rooms ?reg = first_opened reg calls" "tenants ?reg = tenants reg" using snoc by auto
  have step: "run_opens reg (calls @ [c]) = snd (open_room fresh ?reg t i)" by (simp add: run_opens_def c)
  have "first_opened reg (calls @ [c]) = (if tenants reg t = None then first_opened reg calls else [(t, i) \<mapsto> fresh] ++ first_opened reg calls)"
    by (auto simp: first_opened_def c)
  moreover have "tr_rooms (snd (open_room fresh ?reg t i)) = (if tenants reg t = None then first_opened reg calls else [(t, i) \<mapsto> fresh] ++ first_opened reg calls)"
    using IH by (auto simp: open_room_def map_add_def fun_eq_iff split: option.split)
  moreover have "tenants (snd (open_room fresh ?reg t i)) = tenants reg" using IH by (auto simp: open_room_def split: option.split)
  ultimately show ?case using step snoc.prems by simp
qed (simp_all add: run_opens_def first_opened_def)

lemma first_opened_inj:
  assumes "distinct (map fst calls)" and "first_opened reg calls p = Some room" and "first_opened reg calls q = Some room"
  shows "p = q"
proof -
  have "(room, fst p, snd p) \<in> set calls" "(room, fst q, snd q) \<in> set calls"
    using assms(2,3) by (auto simp: first_opened_def dest!: map_of_SomeD)
  then show ?thesis using assms(1) by (metis eq_key_imp_eq_value prod.collapse)
qed

text \<open>Fact: rooms belong to one tenant and invoice. After any sequence of \<open>open_room\<close> calls with distinct fresh ids, a tenant that
  looks up its own room gets the id of the first call for that pair, whatever was opened in between; two pairs never share a
  room; and a look-up in the name of another tenant is refused.\<close>

theorem tenant_rooms_exact:
  assumes "tr_rooms reg = Map.empty" and "distinct (map fst calls)" and "tenants reg t \<noteq> None"
  shows "get_room (run_opens reg calls) t t i = Inr (map_of (map (\<lambda>(fresh, u, j). ((u, j), fresh)) (filter (\<lambda>(fresh, u, j). u = t) calls)) (t, i)) \<and>
    (get_room (run_opens reg calls) t t i = Inr (Some room) \<and> get_room (run_opens reg calls) u u j = Inr (Some room) \<longrightarrow> (t, i) = (u, j)) \<and>
    (v \<noteq> t \<longrightarrow> get_room (run_opens reg calls) v t i = Inl (CrossTenantAccess v t))"
proof (intro conjI impI)
  have R: "tr_rooms (run_opens reg calls) = first_opened reg calls" "tenants (run_opens reg calls) = tenants reg"
    using run_opens_rooms [of reg calls] assms(1) by auto
  have "first_opened reg calls (t, i) = map_of (map (\<lambda>(fresh, u, j). ((u, j), fresh)) (filter (\<lambda>(fresh, u, j). u = t) calls)) (t, i)"
    unfolding first_opened_def using assms(3) by (induction calls) auto
  then show "get_room (run_opens reg calls) t t i = Inr (map_of (map (\<lambda>(fresh, u, j). ((u, j), fresh)) (filter (\<lambda>(fresh, u, j). u = t) calls)) (t, i))"
    using R assms(3) by (simp add: get_room_def)
  assume "get_room (run_opens reg calls) t t i = Inr (Some room) \<and> get_room (run_opens reg calls) u u j = Inr (Some room)"
  then show "(t, i) = (u, j)"
    using R first_opened_inj [OF assms(2), of reg "(t, i)" room "(u, j)"] by (auto simp: get_room_def split: if_splits)
next
  assume "v \<noteq> t"
  then show "get_room (run_opens reg calls) v t i = Inl (CrossTenantAccess v t)" by (simp add: get_room_def)
qed

definition toy_registry :: tenant_registry where
  "toy_registry = with_default_tenants_and_seed toy_crypto ''seed''"

theorem tenant_rooms_exact_witness:
  "get_room (run_opens toy_registry [(''r1'', ''stark'', ''i''), (''r2'', ''acme'', ''i''), (''r3'', ''stark'', ''i'')]) ''stark'' ''stark'' ''i'' = Inr (Some ''r1'') \<and>
   get_room (run_opens toy_registry [(''r1'', ''stark'', ''i'')]) ''wayne'' ''stark'' ''i'' = Inl (CrossTenantAccess ''wayne'' ''stark'')"
  using tenant_rooms_exact [THEN conjunct1, of toy_registry "[(''r1'', ''stark'', ''i''), (''r2'', ''acme'', ''i''), (''r3'', ''stark'', ''i'')]" "''stark''" "''i''"]
    tenant_rooms_exact [THEN conjunct2, THEN conjunct2, of toy_registry "[(''r1'', ''stark'', ''i'')]" "''stark''" "''wayne''" "''i''"]
  by (simp add: toy_registry_def with_default_tenants_and_seed_def)

text \<open>Fact: a transcript holds the owner's messages and nothing else. Once a tenant has opened a new room, whatever opens and
  posts follow, by anyone, the history of that room is the list of the messages the owner posted to it, in order.\<close>

theorem room_transcript_exact:
  assumes "mock_open uuid_v5 rooms t i = (Inr room, rooms')" and "rooms room = None"
  shows "mock_history (foldl (mock.r_exec uuid_v5) rooms' ops) room =
    Inr (map message_of [p. PostOp p \<leftarrow> ops, fst (snd p) = room \<and> fst (snd (snd p)) = t])"
proof -
  have new: "mock_history rooms' room = Inr []" and own: "mock_may_post rooms' room u \<longleftrightarrow> u = t" for u
    using assms by (auto simp: mock_open_def mock_history_def mock_may_post_def Let_def)
  have "mock.kept rooms' room op = map message_of (case op of PostOp p \<Rightarrow> if fst (snd p) = room \<and> fst (snd (snd p)) = t then [p] else [] | _ \<Rightarrow> [])" for op
    using own by (cases "(rooms', op)" rule: mock.r_exec.cases) auto
  then have "concat (map (mock.kept rooms' room) ops) = map message_of [p. PostOp p \<leftarrow> ops, fst (snd p) = room \<and> fst (snd (snd p)) = t]"
    by (induction ops) (auto split: room_op.split)
  then show ?thesis using mock.run_history [OF new, of uuid_v5 ops] by simp
qed

theorem room_transcript_exact_witness:
  "mock_history (foldl (mock.r_exec (\<lambda>x. x)) (snd (mock_open (\<lambda>x. x) Map.empty ''stark'' ''i''))
     [PostOp (1, ''stark:i'', ''wayne'', ''a'', ''b'', []), PostOp (2, ''stark:i'', ''stark'', ''a'', ''c'', [])]) ''stark:i'' =
   Inr [\<lparr>bm_from = ''a'', bm_body = ''c'', bm_mentions = [], bm_ts_ms = 2\<rparr>]"
  using room_transcript_exact [of "\<lambda>x. x" Map.empty "''stark''" "''i''" "''stark:i''" "snd (mock_open (\<lambda>x. x) Map.empty ''stark'' ''i'')"
    "[PostOp (1, ''stark:i'', ''wayne'', ''a'', ''b'', []), PostOp (2, ''stark:i'', ''stark'', ''a'', ''c'', [])]"]
  by (simp add: mock_open_def message_of_def Let_def)

section \<open>Keyring cache\<close>

definition keyring_run :: "(string \<Rightarrow> string \<Rightarrow> string) \<Rightarrow> tenant_keyring \<Rightarrow> (bool \<times> string) list \<Rightarrow> tenant_keyring" where
  "keyring_run hmac kr ops = foldl (\<lambda>kr (lookup, t). if lookup then snd (get_or_derive hmac kr t) else evict kr t) kr ops"

definition keyring_inv :: "(string \<Rightarrow> string \<Rightarrow> string) \<Rightarrow> string \<Rightarrow> tenant_keyring \<Rightarrow> bool" where
  "keyring_inv hmac seed kr \<longleftrightarrow> master_seed kr = seed \<and> (\<forall>t key. derived kr t = Some key \<longrightarrow> key = derive_for_tenant hmac (keyring_new seed) t)"

lemma keyring_inv_run: "keyring_inv hmac seed (keyring_run hmac (keyring_new seed) ops)"
proof (induction ops rule: rev_induct)
  case (snoc op ops)
  then show ?case
    by (cases op) (auto simp: keyring_inv_def keyring_run_def get_or_derive_def evict_def derive_for_tenant_def keyring_new_def Let_def
        split: option.splits)
qed (simp add: keyring_inv_def keyring_run_def keyring_new_def)

text \<open>Fact: caching is invisible. After any look-ups (\<open>True\<close>) and evictions (\<open>False\<close>), the key of a tenant is the one derived from
  the master seed and the tenant id alone, and an empty id is refused.\<close>

theorem keyring_cache_exact:
  "fst (get_or_derive hmac (keyring_run hmac (keyring_new seed) ops) t) =
     (if t = [] then Inl EmptyTenantId else Inr (take 32 (hmac seed (BIP32_LIKE_DOMAIN @ t))))"
  using keyring_inv_run [of hmac seed ops]
  by (auto simp: get_or_derive_def keyring_inv_def derive_for_tenant_def keyring_new_def Let_def split: option.split)

end
