(* ===== verification/Baaar.thy ===== *)
theory Baaar
  imports Contract
begin

text \<open>
  The BAAAR kill-switch, in its three copies: \<^verbatim>\<open>crates/themis-agents/src/baaar.rs\<close> (the gate and the consensus gate of
  version 2), \<^verbatim>\<open>crates/themis-orchestrator/src/baaar_z3.rs\<close> and \<^verbatim>\<open>crates/tl-gate/src/lib.rs\<close>.

  An \<^verbatim>\<open>f32\<close> is its IEEE bit pattern, compared as IEEE prescribes. Rounded arithmetic and the conversions from JSON
  numbers are parameters.
\<close>

unbundle bit_operations_syntax

section \<open>Single-precision numbers\<close>

type_synonym f32 = "32 word"

definition is_nan :: "f32 \<Rightarrow> bool" where
  "is_nan x \<longleftrightarrow> (x AND 0x7F800000) = 0x7F800000 \<and> (x AND 0x007FFFFF) \<noteq> 0"

text \<open>The magnitude bits order the numbers of one sign; both zeros have key 0.\<close>

definition f32_key :: "f32 \<Rightarrow> int" where
  "f32_key x = (let magnitude = uint (x AND 0x7FFFFFFF) in if x AND 0x80000000 = 0 then magnitude else - magnitude)"

definition f32_lt :: "f32 \<Rightarrow> f32 \<Rightarrow> bool" where
  "f32_lt x y \<longleftrightarrow> \<not> is_nan x \<and> \<not> is_nan y \<and> f32_key x < f32_key y"

definition f32_eq :: "f32 \<Rightarrow> f32 \<Rightarrow> bool" where
  "f32_eq x y \<longleftrightarrow> \<not> is_nan x \<and> \<not> is_nan y \<and> f32_key x = f32_key y"

definition f32_clamp :: "f32 \<Rightarrow> f32 \<Rightarrow> f32 \<Rightarrow> f32" where
  "f32_clamp x lo hi = (if f32_lt x lo then lo else if f32_lt hi x then hi else x)"

section \<open>Assessment and verdict\<close>

datatype finding_kind = SecretLeak | PriceAnomaly | PhantomVendor | MathFraud | Duplicate | OtherKind string

definition kind_as_str :: "finding_kind \<Rightarrow> string" where
  "kind_as_str k = (case k of SecretLeak \<Rightarrow> ''secret_leak'' | PriceAnomaly \<Rightarrow> ''price_anomaly''
     | PhantomVendor \<Rightarrow> ''phantom_vendor'' | MathFraud \<Rightarrow> ''math_fraud'' | Duplicate \<Rightarrow> ''duplicate'' | OtherKind s \<Rightarrow> s)"

definition kind_of_str :: "string \<Rightarrow> finding_kind" where
  "kind_of_str s = (if s = ''secret_leak'' then SecretLeak else if s = ''price_anomaly'' then PriceAnomaly
     else if s = ''phantom_vendor'' then PhantomVendor else if s = ''math_fraud'' then MathFraud
     else if s = ''duplicate'' then Duplicate else OtherKind s)"

record finding =
  f_kind :: finding_kind
  f_description :: string

record fraud_assessment =
  risk_score :: f32
  findings :: "finding list"
  coherence_score :: f32
  debate_rounds :: u32
  explicit_halt :: bool

datatype baaar_reason =
    RiskScoreExceeded | SecretLeakDetected | CoherenceTooLow | MaxDebateRoundsReached | ExplicitHaltRequested

datatype outcome = Approve | HaltWith baaar_reason

definition RISK_SCORE_HALT :: f32 where "RISK_SCORE_HALT = 0x3F59999A"
definition COHERENCE_FLOOR :: f32 where "COHERENCE_FLOOR = 0x3E99999A"
definition MAX_DEBATE_ROUNDS :: u32 where "MAX_DEBATE_ROUNDS = 5"

text \<open>The conversions of JSON numbers: \<^verbatim>\<open>as_f64\<close> followed by the cast to \<^verbatim>\<open>f32\<close>, and \<^verbatim>\<open>as_u64\<close>.\<close>

record json_numbers =
  jn_f32 :: "json \<Rightarrow> f32 option"
  jn_u64 :: "json \<Rightarrow> u64 option"

definition json_as_bool :: "json \<Rightarrow> bool option" where
  "json_as_bool v = (case v of JBool b \<Rightarrow> Some b | _ \<Rightarrow> None)"

definition json_as_array :: "json \<Rightarrow> json list option" where
  "json_as_array v = (case v of JArray xs \<Rightarrow> Some xs | _ \<Rightarrow> None)"

definition finding_of_json :: "json \<Rightarrow> finding option" where
  "finding_of_json item = (case Option.bind (json_get item ''kind'') as_str of
       None \<Rightarrow> None
     | Some kind_str \<Rightarrow> Some \<lparr>f_kind = kind_of_str kind_str,
         f_description = (case Option.bind (json_get item ''description'') as_str of Some d \<Rightarrow> d | None \<Rightarrow> [])\<rparr>)"

definition from_decision_payload :: "json_numbers \<Rightarrow> json \<Rightarrow> fraud_assessment" where
  "from_decision_payload jn payload =
     (let inner = (case json_get payload ''assessment'' of Some v \<Rightarrow> v | None \<Rightarrow> payload)
      in \<lparr>risk_score = (case Option.bind (json_get inner ''risk_score'') (jn_f32 jn) of Some x \<Rightarrow> x | None \<Rightarrow> 0),
          findings = (case Option.bind (json_get inner ''findings'') json_as_array of
              Some items \<Rightarrow> List.map_filter finding_of_json items | None \<Rightarrow> []),
          coherence_score = (case Option.bind (json_get inner ''coherence_score'') (jn_f32 jn) of
              Some x \<Rightarrow> x | None \<Rightarrow> 0x3F800000),
          debate_rounds = ucast (case Option.bind (json_get inner ''debate_rounds'') (jn_u64 jn) of Some n \<Rightarrow> n | None \<Rightarrow> 0),
          explicit_halt = (case Option.bind (json_get inner ''explicit_halt'') json_as_bool of Some b \<Rightarrow> b | None \<Rightarrow> False)\<rparr>)"

definition baaar_check :: "fraud_assessment \<Rightarrow> outcome" where
  "baaar_check a =
     (if f32_lt RISK_SCORE_HALT (risk_score a) then HaltWith RiskScoreExceeded
      else if list_ex (\<lambda>f. f_kind f = SecretLeak) (findings a) then HaltWith SecretLeakDetected
      else if f32_lt (coherence_score a) COHERENCE_FLOOR then HaltWith CoherenceTooLow
      else if debate_rounds a \<ge> MAX_DEBATE_ROUNDS then HaltWith MaxDebateRoundsReached
      else if explicit_halt a then HaltWith ExplicitHaltRequested
      else Approve)"

section \<open>Self-anchored consensus\<close>

datatype agent_role =
    Extractor | PoMatcher | FraudAuditor | GaapClassifier | ProvenanceSigner | AuditWatchdog | RegressionTester | DemoNarrator

definition role_as_str :: "agent_role \<Rightarrow> string" where
  "role_as_str r = (case r of Extractor \<Rightarrow> ''extractor'' | PoMatcher \<Rightarrow> ''po_matcher'' | FraudAuditor \<Rightarrow> ''fraud_auditor''
     | GaapClassifier \<Rightarrow> ''gaap_classifier'' | ProvenanceSigner \<Rightarrow> ''provenance_signer''
     | AuditWatchdog \<Rightarrow> ''audit_watchdog'' | RegressionTester \<Rightarrow> ''regression_tester'' | DemoNarrator \<Rightarrow> ''demo_narrator'')"

record baaar_v2_gate =
  agent_weights :: "agent_role \<rightharpoonup> f32"
  sac_threshold :: f32

definition baaar_v2_new :: baaar_v2_gate where
  "baaar_v2_new = \<lparr>agent_weights = (\<lambda>r. Some (if r = FraudAuditor then 0x3F800000 else 0x3F000000)), sac_threshold = 0x3F000000\<rparr>"

definition with_sac_threshold :: "baaar_v2_gate \<Rightarrow> f32 \<Rightarrow> baaar_v2_gate" where
  "with_sac_threshold g threshold = g\<lparr>sac_threshold := f32_clamp threshold 0 0x3F800000\<rparr>"

record f32_ops =
  fadd :: "f32 \<Rightarrow> f32 \<Rightarrow> f32"
  fmul :: "f32 \<Rightarrow> f32 \<Rightarrow> f32"
  fdiv :: "f32 \<Rightarrow> f32 \<Rightarrow> f32"

fun sac_sums :: "f32_ops \<Rightarrow> baaar_v2_gate \<Rightarrow> (agent_role \<times> f32) list \<Rightarrow> f32 \<Rightarrow> f32 \<Rightarrow> f32 \<times> f32" where
  "sac_sums ops g [] weighted_sum weight_total = (weighted_sum, weight_total)"
| "sac_sums ops g ((role, confidence) # rest) weighted_sum weight_total = (case agent_weights g role of
       Some w \<Rightarrow> sac_sums ops g rest (fadd ops weighted_sum (fmul ops w (f32_clamp confidence 0 0x3F800000))) (fadd ops weight_total w)
     | None \<Rightarrow> sac_sums ops g rest weighted_sum weight_total)"

definition check_sac :: "f32_ops \<Rightarrow> baaar_v2_gate \<Rightarrow> fraud_assessment \<Rightarrow> (agent_role \<times> f32) list \<Rightarrow> outcome" where
  "check_sac ops g a confidences = (case baaar_check a of
       HaltWith r \<Rightarrow> HaltWith r
     | Approve \<Rightarrow>
         if confidences = [] then HaltWith CoherenceTooLow
         else (let (weighted_sum, weight_total) = sac_sums ops g confidences 0 0
               in if f32_eq weight_total 0 then HaltWith CoherenceTooLow
                  else if f32_lt (fdiv ops weighted_sum weight_total) (sac_threshold g) then HaltWith CoherenceTooLow
                  else Approve))"

section \<open>The flattened copies\<close>

datatype security_severity = SevLow | SevMedium | SevHigh | SevCritical

record baaar_inputs =
  bi_risk_score :: f32
  bi_security_severity :: security_severity
  bi_coherence_score :: f32
  bi_debate_rounds :: u32
  bi_explicit_halt_requested :: bool

definition z3_should_halt :: "baaar_inputs \<Rightarrow> bool" where
  "z3_should_halt i =
     (if f32_lt RISK_SCORE_HALT (bi_risk_score i) then True
      else if bi_security_severity i = SevCritical then True
      else if f32_lt (bi_coherence_score i) COHERENCE_FLOOR then True
      else if bi_debate_rounds i \<ge> MAX_DEBATE_ROUNDS then True
      else if bi_explicit_halt_requested i then True
      else False)"

datatype gate_verdict = GateAllow | GateHalt baaar_reason

definition to_outcome :: "gate_verdict \<Rightarrow> outcome" where
  "to_outcome v = (case v of GateAllow \<Rightarrow> Approve | GateHalt r \<Rightarrow> HaltWith r)"

record gate_input =
  gi_risk_score :: f32
  gi_findings :: "finding list"
  gi_coherence_score :: f32
  gi_debate_rounds :: u32
  gi_explicit_halt_requested :: bool
  gi_security_severity :: "security_severity option"

definition from_assessment :: "fraud_assessment \<Rightarrow> gate_input" where
  "from_assessment a = \<lparr>gi_risk_score = risk_score a, gi_findings = findings a, gi_coherence_score = coherence_score a,
     gi_debate_rounds = debate_rounds a, gi_explicit_halt_requested = explicit_halt a, gi_security_severity = None\<rparr>"

definition from_baaar_inputs :: "baaar_inputs \<Rightarrow> gate_input" where
  "from_baaar_inputs b = \<lparr>gi_risk_score = bi_risk_score b, gi_findings = [], gi_coherence_score = bi_coherence_score b,
     gi_debate_rounds = bi_debate_rounds b, gi_explicit_halt_requested = bi_explicit_halt_requested b,
     gi_security_severity = Some (bi_security_severity b)\<rparr>"

definition should_halt :: "gate_input \<Rightarrow> gate_verdict" where
  "should_halt i =
     (if f32_lt 0x3F59999A (gi_risk_score i) then GateHalt RiskScoreExceeded
      else if list_ex (\<lambda>f. f_kind f = SecretLeak) (gi_findings i) then GateHalt SecretLeakDetected
      else if f32_lt (gi_coherence_score i) 0x3E99999A then GateHalt CoherenceTooLow
      else if gi_debate_rounds i \<ge> 5 then GateHalt MaxDebateRoundsReached
      else if gi_explicit_halt_requested i then GateHalt ExplicitHaltRequested
      else GateAllow)"

section \<open>Properties\<close>

text \<open>The conditions in the order they are judged.\<close>

definition baaar_conditions :: "fraud_assessment \<Rightarrow> (bool \<times> baaar_reason) list" where
  "baaar_conditions a =
     [(f32_lt RISK_SCORE_HALT (risk_score a), RiskScoreExceeded),
      (\<exists>f \<in> set (findings a). f_kind f = SecretLeak, SecretLeakDetected),
      (f32_lt (coherence_score a) COHERENCE_FLOOR, CoherenceTooLow),
      (MAX_DEBATE_ROUNDS \<le> debate_rounds a, MaxDebateRoundsReached),
      (explicit_halt a, ExplicitHaltRequested)]"

text \<open>Fact: the kill-switch and its copy agree on the first condition that holds. The gate approves exactly when none of the
  five conditions holds and otherwise halts with the reason of the first one that does; the copy of \<^verbatim>\<open>tl-gate\<close> gives the
  same verdict on the same assessment; and the consensus gate can only add halts, never replace or lift one.\<close>

theorem baaar_first_condition:
  "baaar_check a = (case find fst (baaar_conditions a) of Some (_, r) \<Rightarrow> HaltWith r | None \<Rightarrow> Approve) \<and>
   to_outcome (should_halt (from_assessment a)) = baaar_check a \<and>
   (baaar_check a = Approve \<or> check_sac ops g a cs = baaar_check a)"
  by (auto simp: baaar_check_def baaar_conditions_def should_halt_def from_assessment_def to_outcome_def check_sac_def
      RISK_SCORE_HALT_def COHERENCE_FLOOR_def MAX_DEBATE_ROUNDS_def list_ex_iff)

text \<open>Fact: a critical finding is lost in the conversion. The flattened gate halts on a critical severity, but the conversion of
  \<^verbatim>\<open>tl-gate\<close> keeps no finding of it, so the same inputs are allowed there; apart from that the two agree.\<close>

theorem critical_severity_lost:
  "(should_halt (from_baaar_inputs b) = GateAllow \<longleftrightarrow> \<not> z3_should_halt (b\<lparr>bi_security_severity := SevLow\<rparr>)) \<and>
   z3_should_halt (b\<lparr>bi_security_severity := SevCritical\<rparr>)"
  by (simp add: should_halt_def from_baaar_inputs_def z3_should_halt_def RISK_SCORE_HALT_def COHERENCE_FLOOR_def
      MAX_DEBATE_ROUNDS_def)

text \<open>Fact: the round count is truncated to 32 bits before it is judged, so an assessment that reports 4294967296 rounds and nothing
  else is approved.\<close>

theorem debate_rounds_truncated:
  assumes "jn_u64 jn v = Some 4294967296"
  shows "baaar_check (from_decision_payload jn (JObject [(''debate_rounds'', v)])) = Approve"
proof -
  have "(ucast (4294967296 :: u64) :: u32) = 0" by code_simp
  then show ?thesis
    using assms
    by (simp add: baaar_check_def from_decision_payload_def json_get_def f32_lt_def is_nan_def f32_key_def
        RISK_SCORE_HALT_def COHERENCE_FLOOR_def MAX_DEBATE_ROUNDS_def)
qed

text \<open>Fact: neither threshold holds for a number that is not one: an assessment whose scores are both NaN is halted by the other
  three conditions only.\<close>

lemma nan_scores_not_halted:
  assumes "is_nan (risk_score a)" and "is_nan (coherence_score a)"
  shows "baaar_check a \<noteq> HaltWith RiskScoreExceeded \<and> baaar_check a \<noteq> HaltWith CoherenceTooLow"
  using assms by (simp add: baaar_check_def f32_lt_def)

lemma kind_roundtrip: "kind_of_str (kind_as_str k) = k \<or> (\<exists>s. k = OtherKind s)"
  by (cases k) (simp_all add: kind_of_str_def kind_as_str_def)

end
