(* ===== verification/InvoiceState.thy ===== *)
theory InvoiceState
  imports Baaar
begin

text \<open>
  \<^verbatim>\<open>crates/themis-orchestrator/src/state.rs\<close>: the state machine of one invoice, with its history of visited states. The
  clock reading of an operation is its last argument.
\<close>

section \<open>The machine\<close>

datatype invoice_state =
    Received | Extracting | Matching | Auditing | Classifying | Signing | Narrating | Validating | Done | Halted

fun next_state :: "invoice_state \<Rightarrow> invoice_state option" where
  "next_state Received = Some Extracting"
| "next_state Extracting = Some Matching"
| "next_state Matching = Some Auditing"
| "next_state Auditing = Some Classifying"
| "next_state Classifying = Some Signing"
| "next_state Signing = Some Narrating"
| "next_state Narrating = Some Validating"
| "next_state Validating = Some Done"
| "next_state Done = None"
| "next_state Halted = None"

fun state_as_str :: "invoice_state \<Rightarrow> string" where
  "state_as_str Received = ''received''"
| "state_as_str Extracting = ''extracting''"
| "state_as_str Matching = ''matching''"
| "state_as_str Auditing = ''auditing''"
| "state_as_str Classifying = ''classifying''"
| "state_as_str Signing = ''signing''"
| "state_as_str Narrating = ''narrating''"
| "state_as_str Validating = ''validating''"
| "state_as_str Done = ''done''"
| "state_as_str Halted = ''halted''"

datatype transition = Advance | Halt baaar_reason | Fail string

datatype state_error = TerminalState invoice_state | InvalidTransition invoice_state invoice_state

record state_machine =
  sm_state :: invoice_state
  sm_history :: "(invoice_state \<times> i64) list"

definition sm_new :: "i64 \<Rightarrow> state_machine" where
  "sm_new now = \<lparr>sm_state = Received, sm_history = [(Received, now)]\<rparr>"

definition starting_at :: "invoice_state \<Rightarrow> i64 \<Rightarrow> state_machine" where
  "starting_at s now = \<lparr>sm_state = s, sm_history = [(s, now)]\<rparr>"

definition sm_transition :: "state_machine \<Rightarrow> transition \<Rightarrow> i64 \<Rightarrow> (state_error + invoice_state) \<times> state_machine" where
  "sm_transition sm t now =
     (if sm_state sm = Done \<or> sm_state sm = Halted then (Inl (TerminalState (sm_state sm)), sm)
      else (let new_state = (case t of
                Advance \<Rightarrow> (case next_state (sm_state sm) of Some s \<Rightarrow> Inr s | None \<Rightarrow> Inl (TerminalState (sm_state sm)))
              | Halt _ \<Rightarrow> Inr Halted
              | Fail _ \<Rightarrow> Inr Halted)
            in case new_state of
                 Inl e \<Rightarrow> (Inl e, sm)
               | Inr s \<Rightarrow> (Inr s, sm\<lparr>sm_state := s, sm_history := sm_history sm @ [(s, now)]\<rparr>)))"

section \<open>Reachable machines\<close>

inductive sm_reach :: "state_machine \<Rightarrow> bool" where
  sm_start: "sm_reach (sm_new now)"
| sm_step: "sm_reach sm \<Longrightarrow> sm_transition sm t now = (r, sm') \<Longrightarrow> sm_reach sm'"

text \<open>The happy path, and the position of a state on it.\<close>

definition happy_path :: "invoice_state list" where
  "happy_path = [Received, Extracting, Matching, Auditing, Classifying, Signing, Narrating, Validating, Done]"

fun state_index :: "invoice_state \<Rightarrow> nat" where
  "state_index Received = 0"
| "state_index Extracting = 1"
| "state_index Matching = 2"
| "state_index Auditing = 3"
| "state_index Classifying = 4"
| "state_index Signing = 5"
| "state_index Narrating = 6"
| "state_index Validating = 7"
| "state_index Done = 8"
| "state_index Halted = 9"

definition path_to :: "invoice_state \<Rightarrow> invoice_state list" where
  "path_to s = take (Suc (state_index s)) happy_path"

lemma path_to_next: "next_state s = Some s' \<Longrightarrow> path_to s' = path_to s @ [s']"
  by (cases s) (auto simp: path_to_def happy_path_def)

definition visited :: "state_machine \<Rightarrow> invoice_state list" where
  "visited sm = map fst (sm_history sm)"

definition sm_inv :: "state_machine \<Rightarrow> bool" where
  "sm_inv sm \<longleftrightarrow>
     (if sm_state sm = Halted then \<exists>s. s \<noteq> Done \<and> s \<noteq> Halted \<and> visited sm = path_to s @ [Halted]
      else visited sm = path_to (sm_state sm))"

lemma next_state_None: "next_state s = None \<longleftrightarrow> s = Done \<or> s = Halted"
  by (cases s) simp_all

lemma next_not_Halted: "next_state s \<noteq> Some Halted"
  by (cases s) simp_all

lemma sm_inv_step:
  assumes "sm_inv sm" and "sm_transition sm t now = (r, sm')"
  shows "sm_inv sm'"
proof (cases "sm_state sm = Done \<or> sm_state sm = Halted")
  case True
  then show ?thesis using assms by (simp add: sm_transition_def)
next
  case False
  then obtain n where n: "next_state (sm_state sm) = Some n" using next_state_None by (cases "next_state (sm_state sm)") auto
  show ?thesis
  proof (cases t)
    case Advance
    then have "sm' = sm\<lparr>sm_state := n, sm_history := sm_history sm @ [(n, now)]\<rparr>"
      using assms(2) False n by (simp add: sm_transition_def)
    moreover have "n \<noteq> Halted" using n next_not_Halted by metis
    ultimately show ?thesis using assms(1) False path_to_next [OF n] by (simp add: sm_inv_def visited_def)
  qed (use assms False in \<open>auto simp: sm_transition_def sm_inv_def visited_def\<close>)
qed

lemma sm_inv_reach: "sm_reach sm \<Longrightarrow> sm_inv sm"
  by (induction rule: sm_reach.induct)
    (auto simp: sm_new_def sm_inv_def [of "\<lparr>sm_state = Received, sm_history = _\<rparr>"] visited_def path_to_def happy_path_def
      intro: sm_inv_step)

text \<open>Fact: an invoice is done only by the full path. The history of a reachable machine is the happy path up to the current
  state, each state once and in order, or such a path short of its end followed by the halt; it never has more than nine entries,
  and a finished or halted machine refuses every transition and stays as it is.\<close>

theorem invoice_history_exact:
  assumes "sm_reach sm"
  shows "(if sm_state sm = Halted
          then \<exists>n. 0 < n \<and> n < length happy_path \<and> map fst (sm_history sm) = take n happy_path @ [Halted]
          else \<exists>n. map fst (sm_history sm) = take n happy_path \<and> last (take n happy_path) = sm_state sm) \<and>
         length (sm_history sm) \<le> 9 \<and>
         (sm_state sm \<in> {Done, Halted} \<longrightarrow> (\<forall>t now. sm_transition sm t now = (Inl (TerminalState (sm_state sm)), sm)))"
proof -
  have inv: "sm_inv sm" using assms by (rule sm_inv_reach)
  have idx: "s \<noteq> Done \<Longrightarrow> s \<noteq> Halted \<Longrightarrow> Suc (state_index s) < length happy_path" for s
    by (cases s) (simp_all add: happy_path_def)
  have end_at: "s \<noteq> Halted \<Longrightarrow> last (path_to s) = s" for s
    by (cases s) (simp_all add: path_to_def happy_path_def)
  have len: "length (visited sm) \<le> 9"
  proof (cases "sm_state sm = Halted")
    case True
    then obtain s where "s \<noteq> Done" "s \<noteq> Halted" "visited sm = path_to s @ [Halted]" using inv by (auto simp: sm_inv_def)
    then show ?thesis using idx [of s] by (simp add: path_to_def happy_path_def)
  next
    case False
    then show ?thesis using inv by (simp add: sm_inv_def path_to_def happy_path_def)
  qed
  have ending: "sm_state sm \<in> {Done, Halted} \<longrightarrow> (\<forall>t now. sm_transition sm t now = (Inl (TerminalState (sm_state sm)), sm))"
    by (auto simp: sm_transition_def)
  have path: "if sm_state sm = Halted
      then \<exists>n. 0 < n \<and> n < length happy_path \<and> visited sm = take n happy_path @ [Halted]
      else \<exists>n. visited sm = take n happy_path \<and> last (take n happy_path) = sm_state sm"
  proof (cases "sm_state sm = Halted")
    case True
    then obtain s where "s \<noteq> Done" "s \<noteq> Halted" "visited sm = path_to s @ [Halted]" using inv by (auto simp: sm_inv_def)
    then show ?thesis using idx [of s] True by (auto simp: path_to_def intro!: exI [of _ "Suc (state_index s)"])
  next
    case False
    then show ?thesis using inv end_at [of "sm_state sm"] by (auto simp: sm_inv_def path_to_def)
  qed
  show ?thesis using len ending path unfolding visited_def by simp
qed

theorem invoice_history_exact_witness:
  "length (sm_history (snd (sm_transition (sm_new 5) (Fail ''LLM down'') 6))) \<le> 9"
proof -
  have "sm_reach (snd (sm_transition (sm_new 5) (Fail ''LLM down'') 6))"
    by (rule sm_step [OF sm_start]) (rule prod.collapse [symmetric])
  then show ?thesis using invoice_history_exact by blast
qed

end
