(* ===== verification/Packets.thy ===== *)
theory Packets
  imports Tenants InvoiceState
begin

text \<open>
  What the invoice pipeline passes around: the decision, error and context of an agent
  (\<^verbatim>\<open>crates/themis-agents/src/decision.rs\<close>, \<^verbatim>\<open>traits.rs\<close>), the evidence packet and its signed envelope
  (\<^verbatim>\<open>crates/themis-orchestrator/src/packet.rs\<close>), the incident classes of \<^verbatim>\<open>crates/themis-compliance/src/eu_ai_act.rs\<close> and
  the events of \<^verbatim>\<open>events.rs\<close>. The JSON text and the debug text of a packet are parameters.
\<close>

section \<open>Agents\<close>

datatype decision_type =
    Extracted | PoMatched | FraudAssessed | GaapClassified | ProvenanceSigned | WatchdogAlert | RegressionResult | Narrated

definition decision_as_str :: "decision_type \<Rightarrow> string" where
  "decision_as_str d = (case d of Extracted \<Rightarrow> ''extracted'' | PoMatched \<Rightarrow> ''po_matched'' | FraudAssessed \<Rightarrow> ''fraud_assessed''
     | GaapClassified \<Rightarrow> ''gaap_classified'' | ProvenanceSigned \<Rightarrow> ''provenance_signed'' | WatchdogAlert \<Rightarrow> ''watchdog_alert''
     | RegressionResult \<Rightarrow> ''regression_result'' | Narrated \<Rightarrow> ''narrated'')"

record agent_decision =
  ad_agent_id :: string
  ad_tenant_id :: string
  ad_invoice_id :: string
  ad_decision_type :: decision_type
  ad_confidence :: f32
  ad_reasoning :: string
  ad_timestamp_ms :: i64
  ad_payload :: json

datatype agent_error =
    LlmUnavailable string | LlmMalformedPayload string | RateLimited u64 | AuthenticationError string string
  | InvalidInput string | InternalError string

definition agent_error_text :: "agent_error \<Rightarrow> string" where
  "agent_error_text e = (case e of
       LlmUnavailable s \<Rightarrow> ''LLM unavailable: '' @ s
     | LlmMalformedPayload s \<Rightarrow> ''LLM returned a malformed payload: '' @ s
     | RateLimited ms \<Rightarrow> ''rate limited: retry after '' @ show_nat (unat ms) @ ''ms''
     | AuthenticationError provider reason \<Rightarrow> provider @ '' authentication failed: '' @ reason
     | InvalidInput s \<Rightarrow> ''invalid input: '' @ s
     | InternalError s \<Rightarrow> ''internal error: '' @ s)"

record agent_context =
  ac_tenant_id :: string
  ac_invoice_id :: string
  ac_raw_invoice :: string
  ac_content_type :: string
  ac_upstream_decisions :: "agent_decision list"
  ac_metadata :: "string \<rightharpoonup> string"

definition context_new :: "string \<Rightarrow> string \<Rightarrow> agent_context" where
  "context_new tenant_id invoice_id = \<lparr>ac_tenant_id = tenant_id, ac_invoice_id = invoice_id, ac_raw_invoice = [],
     ac_content_type = [], ac_upstream_decisions = [], ac_metadata = Map.empty\<rparr>"

definition with_raw_invoice :: "agent_context \<Rightarrow> string \<Rightarrow> string \<Rightarrow> agent_context" where
  "with_raw_invoice ctx bytes content_type = ctx\<lparr>ac_raw_invoice := bytes, ac_content_type := content_type\<rparr>"

definition with_upstream :: "agent_context \<Rightarrow> agent_decision \<Rightarrow> agent_context" where
  "with_upstream ctx decision = ctx\<lparr>ac_upstream_decisions := ac_upstream_decisions ctx @ [decision]\<rparr>"

definition with_upstream_stream :: "agent_context \<Rightarrow> agent_decision list \<Rightarrow> agent_context" where
  "with_upstream_stream ctx stream = foldl with_upstream ctx stream"

type_synonym agent = "agent_context \<Rightarrow> agent_error + agent_decision"

lemma with_upstream_stream_eq [simp]:
  "with_upstream_stream ctx ds = ctx\<lparr>ac_upstream_decisions := ac_upstream_decisions ctx @ ds\<rparr>"
  unfolding with_upstream_stream_def by (induction ds arbitrary: ctx) (simp_all add: with_upstream_def)

section \<open>Evidence packets\<close>

record framework_mappings =
  dora_art_9 :: bool
  dora_art_10 :: bool
  dora_art_17 :: bool
  eu_ai_act_art_12 :: bool
  eu_ai_act_art_26 :: bool
  nist_ai_rmf :: bool
  owasp_agentic :: bool

definition default_mappings :: framework_mappings where
  "default_mappings = \<lparr>dora_art_9 = True, dora_art_10 = True, dora_art_17 = True, eu_ai_act_art_12 = True,
     eu_ai_act_art_26 = True, nist_ai_rmf = True, owasp_agentic = True\<rparr>"

definition coverage_count :: "framework_mappings \<Rightarrow> nat" where
  "coverage_count m = length (filter (\<lambda>x. x) [dora_art_9 m, dora_art_10 m, dora_art_17 m, eu_ai_act_art_12 m,
     eu_ai_act_art_26 m, nist_ai_rmf m, owasp_agentic m])"

record peer_verdict =
  pv_agent :: string
  pv_risk_score :: "64 word"
  pv_findings :: "string list"
  pv_recommendation :: string
  pv_timestamp_ms :: i64

record evidence_packet =
  ep_packet_id :: string
  ep_tenant_id :: string
  ep_invoice_id :: string
  ep_agent_decisions :: "agent_decision list"
  ep_generated_at_ms :: i64
  ep_bbaaar_outcome :: outcome
  ep_framework_mappings :: framework_mappings
  ep_peer_verdicts :: "peer_verdict list"

definition evidence_packet_new :: "string \<Rightarrow> i64 \<Rightarrow> string \<Rightarrow> string \<Rightarrow> agent_decision list \<Rightarrow> outcome \<Rightarrow> evidence_packet" where
  "evidence_packet_new packet_id now tenant_id invoice_id decisions oc =
     \<lparr>ep_packet_id = packet_id, ep_tenant_id = tenant_id, ep_invoice_id = invoice_id, ep_agent_decisions = decisions,
      ep_generated_at_ms = now, ep_bbaaar_outcome = oc, ep_framework_mappings = default_mappings, ep_peer_verdicts = []\<rparr>"

definition attach_peer_verdict :: "evidence_packet \<Rightarrow> peer_verdict \<Rightarrow> evidence_packet" where
  "attach_peer_verdict p verdict = p\<lparr>ep_peer_verdicts := ep_peer_verdicts p @ [verdict]\<rparr>"

text \<open>The codec of packets: \<^verbatim>\<open>serde_json::to_vec\<close>, the debug text that is hashed when it fails, and BLAKE3.\<close>

record packet_codec =
  pc_json :: "evidence_packet \<Rightarrow> string + string"
  pc_debug :: "evidence_packet \<Rightarrow> string"
  pc_blake3 :: "string \<Rightarrow> string"

definition packet_blake3_hash :: "packet_codec \<Rightarrow> evidence_packet \<Rightarrow> string" where
  "packet_blake3_hash pc p = hex_encode (pc_blake3 pc (case pc_json pc p of Inr bytes \<Rightarrow> bytes | Inl _ \<Rightarrow> pc_debug pc p))"

record signed_packet =
  sd_packet :: evidence_packet
  sd_signature_hex :: string
  sd_public_key_hex :: string
  sd_blake3_hash_hex :: string
  sd_rekor_entry :: "string option"

definition wrap :: "packet_codec \<Rightarrow> evidence_packet \<Rightarrow> string \<Rightarrow> string \<Rightarrow> signed_packet" where
  "wrap pc p signature_hex pk_hex = \<lparr>sd_packet = p, sd_signature_hex = signature_hex, sd_public_key_hex = pk_hex,
     sd_blake3_hash_hex = packet_blake3_hash pc p, sd_rekor_entry = None\<rparr>"

definition wrap_with_rekor :: "packet_codec \<Rightarrow> evidence_packet \<Rightarrow> string \<Rightarrow> string \<Rightarrow> string \<Rightarrow> signed_packet" where
  "wrap_with_rekor pc p signature_hex pk_hex entry = \<lparr>sd_packet = p, sd_signature_hex = signature_hex, sd_public_key_hex = pk_hex,
     sd_blake3_hash_hex = packet_blake3_hash pc p, sd_rekor_entry = Some entry\<rparr>"

section \<open>Incidents\<close>

datatype incident_severity = IncCritical | IncHigh | IncMedium | IncLow

definition reporting_window_for :: "incident_severity \<Rightarrow> u32" where
  "reporting_window_for s = (case s of IncCritical \<Rightarrow> 24 | IncHigh \<Rightarrow> 72 | IncMedium \<Rightarrow> 360 | IncLow \<Rightarrow> 360)"

definition severity_for_baaar :: "baaar_reason \<Rightarrow> incident_severity" where
  "severity_for_baaar r = (case r of RiskScoreExceeded \<Rightarrow> IncHigh | SecretLeakDetected \<Rightarrow> IncHigh
     | CoherenceTooLow \<Rightarrow> IncMedium | MaxDebateRoundsReached \<Rightarrow> IncMedium | ExplicitHaltRequested \<Rightarrow> IncMedium)"

text \<open>The debug texts the events carry, the severity in lower case.\<close>

definition reason_debug :: "baaar_reason \<Rightarrow> string" where
  "reason_debug r = (case r of RiskScoreExceeded \<Rightarrow> ''RiskScoreExceeded'' | SecretLeakDetected \<Rightarrow> ''SecretLeakDetected''
     | CoherenceTooLow \<Rightarrow> ''CoherenceTooLow'' | MaxDebateRoundsReached \<Rightarrow> ''MaxDebateRoundsReached''
     | ExplicitHaltRequested \<Rightarrow> ''ExplicitHaltRequested'')"

definition severity_debug :: "incident_severity \<Rightarrow> string" where
  "severity_debug s = (case s of IncCritical \<Rightarrow> ''Critical'' | IncHigh \<Rightarrow> ''High'' | IncMedium \<Rightarrow> ''Medium'' | IncLow \<Rightarrow> ''Low'')"

section \<open>Events\<close>

datatype event =
    AgentStarted string string
  | AgentCompleted string string u32 u32 u32
  | BaaarHalt string string string
  | EvidenceSealed string string
  | RunFinished string
  | ProviderActive string string
  | AgentDispute string string f32 string f32 f32 string
  | HumanOverride string string string i64 string
  | AgentHandoff string string string string
  | IncidentReported string string i64 string u32 string
  | SponsorStack string string string string
  | AiDisclosure string string string string

definition type_str :: "event \<Rightarrow> string" where
  "type_str e = (case e of
       AgentStarted _ _ \<Rightarrow> ''agent_started'' | AgentCompleted _ _ _ _ _ \<Rightarrow> ''agent_completed'' | BaaarHalt _ _ _ \<Rightarrow> ''baaar_halt''
     | EvidenceSealed _ _ \<Rightarrow> ''evidence_sealed'' | RunFinished _ \<Rightarrow> ''run_finished'' | ProviderActive _ _ \<Rightarrow> ''provider_active''
     | AgentDispute _ _ _ _ _ _ _ \<Rightarrow> ''agent_dispute'' | HumanOverride _ _ _ _ _ \<Rightarrow> ''human_override''
     | AgentHandoff _ _ _ _ \<Rightarrow> ''agent_handoff'' | IncidentReported _ _ _ _ _ _ \<Rightarrow> ''incident_reported''
     | SponsorStack _ _ _ _ \<Rightarrow> ''sponsor_stack'' | AiDisclosure _ _ _ _ \<Rightarrow> ''ai_disclosure'')"

text \<open>The first \<open>n\<close> characters of a UTF-8 text.\<close>

fun chars_take :: "nat \<Rightarrow> string \<Rightarrow> string" where
  "chars_take n [] = []"
| "chars_take n (c # cs) =
     (if is_cont c then c # chars_take n cs else (case n of 0 \<Rightarrow> [] | Suc m \<Rightarrow> c # chars_take m cs))"

lemma chars_take_chars: "chars_count (chars_take n s) \<le> n" and chars_take_all: "chars_count s \<le> n \<Longrightarrow> chars_take n s = s"
  by (induction n s rule: chars_take.induct) (auto simp: chars_count_def split: nat.splits if_splits)

end
