(* ===== verification/Guards.thy ===== *)
theory Guards
  imports Prelude
begin

text \<open>
  The two behavioural guards of the orchestrator: \<^verbatim>\<open>crates/themis-orchestrator/src/human_guard.rs\<close>, the alert-fatigue
  detector, and \<^verbatim>\<open>rogue_monitor.rs\<close>, the rogue-agent monitor. An \<^verbatim>\<open>Instant\<close> is an integer; every operation runs
  under its lock, so a history is a sequence of operations.
\<close>

section \<open>Alert fatigue\<close>

datatype fatigue_status = FatigueOk u32 | Suspended int u32

datatype fatigue_error = RequiresReauth

record fatigue_detector =
  max_approvals :: u32
  fd_window :: int
  fd_approvals :: "int list"

text \<open>\<open>None\<close> is the failed assertion of the constructor and the failed conversion of the queue length.\<close>

definition fatigue_with_params :: "u32 \<Rightarrow> int \<Rightarrow> fatigue_detector option" where
  "fatigue_with_params m window = (if m > 0 then Some \<lparr>max_approvals = m, fd_window = window, fd_approvals = []\<rparr> else None)"

text \<open>\<^verbatim>\<open>duration_since\<close> is zero for a later instant.\<close>

definition expired :: "int \<Rightarrow> int \<Rightarrow> int \<Rightarrow> bool" where
  "expired window now t \<longleftrightarrow> max 0 (now - t) \<ge> window"

definition prune :: "int \<Rightarrow> int \<Rightarrow> int list \<Rightarrow> int list" where
  "prune window now queue = dropWhile (expired window now) queue"

definition queue_count :: "int list \<Rightarrow> u32 option" where
  "queue_count queue = (if length queue < 2 ^ 32 then Some (word_of_nat (length queue)) else None)"

definition record_approval_at :: "int \<Rightarrow> fatigue_detector \<Rightarrow> fatigue_status option \<times> fatigue_detector" where
  "record_approval_at now d =
     (let queue = prune (fd_window d) now (fd_approvals d) @ [now];
          d' = d\<lparr>fd_approvals := queue\<rparr>
      in (case queue_count queue of
            None \<Rightarrow> None
          | Some count \<Rightarrow>
              Some (if count > max_approvals d
                then Suspended (case queue of t # _ \<Rightarrow> t + fd_window d | [] \<Rightarrow> now) count
                else FatigueOk count), d'))"

definition check_authorization :: "int \<Rightarrow> fatigue_detector \<Rightarrow> (fatigue_error + unit) option \<times> fatigue_detector" where
  "check_authorization now d =
     (let queue = prune (fd_window d) now (fd_approvals d);
          d' = d\<lparr>fd_approvals := queue\<rparr>
      in (case queue_count queue of
            None \<Rightarrow> None
          | Some count \<Rightarrow> Some (if count > max_approvals d then Inl RequiresReauth else Inr ()), d'))"

definition reset_after_reauth :: "fatigue_detector \<Rightarrow> fatigue_detector" where
  "reset_after_reauth d = d\<lparr>fd_approvals := []\<rparr>"

datatype fatigue_op = Approval int | CheckAuth int | Reauth

fun fatigue_exec :: "fatigue_op \<Rightarrow> fatigue_detector \<Rightarrow> fatigue_detector" where
  "fatigue_exec (Approval now) d = snd (record_approval_at now d)"
| "fatigue_exec (CheckAuth now) d = snd (check_authorization now d)"
| "fatigue_exec Reauth d = reset_after_reauth d"

definition fatigue_run :: "fatigue_op list \<Rightarrow> fatigue_detector \<Rightarrow> fatigue_detector" where
  "fatigue_run ops d = foldl (\<lambda>d op. fatigue_exec op d) d ops"

text \<open>The specification: the approvals since the last re-authentication, and the clock readings of a history.\<close>

definition approvals_since :: "fatigue_op list \<Rightarrow> int list" where
  "approvals_since ops = foldl (\<lambda>ts op. case op of Approval t \<Rightarrow> ts @ [t] | CheckAuth _ \<Rightarrow> ts | Reauth \<Rightarrow> []) [] ops"

definition op_times :: "fatigue_op list \<Rightarrow> int list" where
  "op_times ops = List.map_filter (\<lambda>op. case op of Approval t \<Rightarrow> Some t | CheckAuth t \<Rightarrow> Some t | Reauth \<Rightarrow> None) ops"

lemma snoc_simps [simp]:
  "approvals_since (ops @ [op]) =
     (case op of Approval t \<Rightarrow> approvals_since ops @ [t] | CheckAuth _ \<Rightarrow> approvals_since ops | Reauth \<Rightarrow> [])"
  "op_times (ops @ [op]) = op_times ops @ (case op of Approval t \<Rightarrow> [t] | CheckAuth t \<Rightarrow> [t] | Reauth \<Rightarrow> [])"
  "fatigue_run (ops @ [op]) d = fatigue_exec op (fatigue_run ops d)"
  by (simp_all add: approvals_since_def op_times_def fatigue_run_def map_filter_def split: fatigue_op.split)

lemma prune_sorted: "sorted ts \<Longrightarrow> prune window now ts = filter (\<lambda>t. \<not> expired window now t) ts"
proof (induction ts)
  case (Cons t ts)
  show ?case
  proof (cases "expired window now t")
    case True
    then show ?thesis using Cons by (simp add: prune_def)
  next
    case False
    then have "\<not> expired window now u" if "u \<in> set ts" for u
      using that Cons.prems by (fastforce simp: expired_def)
    then show ?thesis using False by (simp add: prune_def filter_id_conv)
  qed
qed (simp add: prune_def)

lemma expired_later: "expired window now t \<Longrightarrow> now \<le> later \<Longrightarrow> expired window later t"
  by (auto simp: expired_def)

definition fatigue_sim :: "int \<Rightarrow> fatigue_op list \<Rightarrow> fatigue_detector \<Rightarrow> bool" where
  "fatigue_sim window ops d \<longleftrightarrow> fd_window d = window \<and>
     (\<forall>now. (\<forall>t \<in> set (op_times ops). t \<le> now) \<longrightarrow>
        prune window now (fd_approvals d) = filter (\<lambda>t. \<not> expired window now t) (approvals_since ops))"

lemma approvals_subset: "set (approvals_since ops) \<subseteq> set (op_times ops)"
proof (induction ops rule: rev_induct)
  case (snoc op ops)
  then show ?case by (auto split: fatigue_op.split)
qed (simp add: approvals_since_def)

lemma approvals_sorted: "sorted (op_times ops) \<Longrightarrow> sorted (approvals_since ops)"
proof (induction ops rule: rev_induct)
  case (snoc op ops)
  then show ?case using approvals_subset [of ops] by (cases op) (auto simp: sorted_append)
qed (simp add: approvals_since_def)

lemma live_filter:
  assumes "sorted ts" and "t \<le> now"
  shows "prune window now (filter (\<lambda>u. \<not> expired window t u) ts) = filter (\<lambda>u. \<not> expired window now u) ts"
  using assms expired_later by (auto simp: prune_sorted sorted_filter [of id, simplified] intro!: filter_cong)

lemma fatigue_sim_exec:
  assumes "fatigue_sim window ops d" and "sorted (op_times (ops @ [op]))"
  shows "fatigue_sim window (ops @ [op]) (fatigue_exec op d)"
proof -
  have sorted: "sorted (approvals_since ops)" and late: "\<And>t u. op = Approval t \<or> op = CheckAuth t \<Longrightarrow> u \<in> set (op_times ops) \<Longrightarrow> u \<le> t"
    using assms(2) by (auto simp: sorted_append intro: approvals_sorted split: fatigue_op.splits)
  have pruned: "prune window t (fd_approvals d) = filter (\<lambda>u. \<not> expired window t u) (approvals_since ops)"
    if "op = Approval t \<or> op = CheckAuth t" for t
    using assms(1) late [OF that] by (simp add: fatigue_sim_def)
  have w: "fd_window d = window" using assms(1) by (simp add: fatigue_sim_def)
  show ?thesis
  proof (cases op)
    case (Approval t)
    have "sorted (approvals_since ops @ [t])"
      using sorted late Approval approvals_subset [of ops] by (auto simp: sorted_append)
    then have "prune window now (filter (\<lambda>u. \<not> expired window t u) (approvals_since ops) @ [t]) =
        filter (\<lambda>u. \<not> expired window now u) (approvals_since ops @ [t])" if "t \<le> now" for now
      using that expired_later by (subst prune_sorted) (auto simp: sorted_append sorted_filter [of id, simplified] intro!: filter_cong)
    then show ?thesis
      using Approval pruned w by (simp add: fatigue_sim_def record_approval_at_def Let_def)
  next
    case (CheckAuth t)
    then show ?thesis
      using pruned w live_filter [OF sorted] by (simp add: fatigue_sim_def check_authorization_def Let_def)
  next
    case Reauth
    then show ?thesis using w by (simp add: fatigue_sim_def reset_after_reauth_def prune_def)
  qed
qed

lemma fatigue_sim_run:
  assumes "fd_approvals d = []" and "sorted (op_times ops)"
  shows "fatigue_sim (fd_window d) ops (fatigue_run ops d)"
  using assms(2)
proof (induction ops rule: rev_induct)
  case Nil
  then show ?case using assms(1) by (simp add: fatigue_sim_def fatigue_run_def approvals_since_def prune_def)
next
  case (snoc op ops)
  then have "sorted (op_times ops)" by (simp add: sorted_append)
  then show ?case using snoc fatigue_sim_exec by simp
qed

lemma fatigue_max [simp]: "max_approvals (fatigue_run ops d) = max_approvals d"
proof (induction ops rule: rev_induct)
  case (snoc op ops)
  then show ?case
    by (cases op) (simp_all add: record_approval_at_def check_authorization_def reset_after_reauth_def Let_def)
qed (simp add: fatigue_run_def)

text \<open>Fact: the fatigue gate counts exactly the approvals of the sliding window. After any history of approvals, checks and
  re-authentications under a clock that does not run backwards, authorization is refused exactly when more approvals than the
  budget were made since the last re-authentication and less than a window ago. So a suspension also ends by waiting, without
  any re-authentication.\<close>

theorem fatigue_exact:
  assumes "fatigue_with_params m window = Some d" and "sorted (op_times ops @ [now])" and "length (approvals_since ops) < 2 ^ 32"
  shows "fst (check_authorization now (fatigue_run ops d)) =
    Some (if length (filter (\<lambda>t. now - t < window) (approvals_since ops)) > unat m then Inl RequiresReauth else Inr ())"
proof -
  have d: "d = \<lparr>max_approvals = m, fd_window = window, fd_approvals = []\<rparr>"
    using assms(1) by (simp add: fatigue_with_params_def split: if_splits)
  have "fatigue_sim window ops (fatigue_run ops d)"
    using fatigue_sim_run [of d ops] assms(2) by (simp add: d sorted_append)
  moreover have late: "\<forall>t \<in> set (op_times ops). t \<le> now" using assms(2) by (simp add: sorted_append)
  moreover have "filter (\<lambda>t. \<not> expired window now t) (approvals_since ops) = filter (\<lambda>t. now - t < window) (approvals_since ops)"
    using late approvals_subset [of ops] by (fastforce simp: expired_def intro!: filter_cong)
  ultimately have q: "prune window now (fd_approvals (fatigue_run ops d)) = filter (\<lambda>t. now - t < window) (approvals_since ops)"
    and w: "fd_window (fatigue_run ops d) = window" by (simp_all add: fatigue_sim_def)
  let ?n = "length (filter (\<lambda>t. now - t < window) (approvals_since ops))"
  have "?n < 2 ^ 32" using assms(3) le_less_trans [OF length_filter_le] by blast
  then have "m < word_of_nat ?n \<longleftrightarrow> unat m < ?n"
    by (simp add: word_less_nat_alt unsigned_of_nat take_bit_nat_eq_self)
  then show ?thesis
    using \<open>?n < 2 ^ 32\<close> by (simp add: check_authorization_def Let_def q w queue_count_def) (simp add: d)
qed

theorem fatigue_exact_witness:
  "fst (check_authorization 100 (fatigue_run [Approval 1, Approval 2, Approval 3] \<lparr>max_approvals = 2, fd_window = 60, fd_approvals = []\<rparr>)) = Some (Inr ()) \<and>
   fst (check_authorization 50 (fatigue_run [Approval 1, Approval 2, Approval 3] \<lparr>max_approvals = 2, fd_window = 60, fd_approvals = []\<rparr>)) = Some (Inl RequiresReauth)"
  using fatigue_exact [of 2 60 "\<lparr>max_approvals = 2, fd_window = 60, fd_approvals = []\<rparr>" "[Approval 1, Approval 2, Approval 3]" 100]
    fatigue_exact [of 2 60 "\<lparr>max_approvals = 2, fd_window = 60, fd_approvals = []\<rparr>" "[Approval 1, Approval 2, Approval 3]" 50]
  by (simp add: fatigue_with_params_def op_times_def approvals_since_def map_filter_def)

section \<open>Rogue agents\<close>

datatype rogue_status = RogueActive u32 | RogueQuarantined u32

record rogue_monitor =
  rm_threshold :: u32
  per_agent_counts :: "string \<rightharpoonup> u32"
  rm_quarantined :: "string set"

definition rogue_with_threshold :: "u32 \<Rightarrow> rogue_monitor option" where
  "rogue_with_threshold th = (if th > 0 then Some \<lparr>rm_threshold = th, per_agent_counts = Map.empty, rm_quarantined = {}\<rparr> else None)"

definition record_message :: "rogue_monitor \<Rightarrow> string \<Rightarrow> bool \<Rightarrow> rogue_status \<times> rogue_monitor" where
  "record_message rm agent mentioned_another =
     (if mentioned_another
      then (RogueActive 0, rm\<lparr>per_agent_counts := (per_agent_counts rm)(agent := None), rm_quarantined := rm_quarantined rm - {agent}\<rparr>)
      else
        (let count = (case per_agent_counts rm agent of Some c \<Rightarrow> c | None \<Rightarrow> 0) + 1;
             rm' = rm\<lparr>per_agent_counts := (per_agent_counts rm)(agent \<mapsto> count)\<rparr>;
             already_quarantined = agent \<in> rm_quarantined rm
         in if count \<ge> rm_threshold rm
            then (if already_quarantined then RogueActive count else RogueQuarantined count,
                  rm'\<lparr>rm_quarantined := insert agent (rm_quarantined rm)\<rparr>)
            else (RogueActive count, rm')))"

definition is_quarantined :: "rogue_monitor \<Rightarrow> string \<Rightarrow> bool" where
  "is_quarantined rm agent \<longleftrightarrow> agent \<in> rm_quarantined rm"

definition unquarantine :: "rogue_monitor \<Rightarrow> string \<Rightarrow> rogue_monitor" where
  "unquarantine rm agent = rm\<lparr>rm_quarantined := rm_quarantined rm - {agent}, per_agent_counts := (per_agent_counts rm)(agent := None)\<rparr>"

datatype rogue_op = Message string bool | Unquarantine string

fun rogue_exec :: "rogue_op \<Rightarrow> rogue_monitor \<Rightarrow> rogue_monitor" where
  "rogue_exec (Message agent mentioned) rm = snd (record_message rm agent mentioned)"
| "rogue_exec (Unquarantine agent) rm = unquarantine rm agent"

definition rogue_run :: "rogue_op list \<Rightarrow> rogue_monitor \<Rightarrow> rogue_monitor" where
  "rogue_run ops rm = foldl (\<lambda>rm op. rogue_exec op rm) rm ops"

text \<open>The specification: how many messages without a mention an agent has sent since its last mention or release.\<close>

definition streak_step :: "string \<Rightarrow> nat \<Rightarrow> rogue_op \<Rightarrow> nat" where
  "streak_step agent n op = (case op of
       Message a mentioned \<Rightarrow> if a = agent then (if mentioned then 0 else Suc n) else n
     | Unquarantine a \<Rightarrow> if a = agent then 0 else n)"

definition streak :: "string \<Rightarrow> rogue_op list \<Rightarrow> nat" where
  "streak agent ops = foldl (streak_step agent) 0 ops"

definition rogue_sim :: "u32 \<Rightarrow> string \<Rightarrow> nat \<Rightarrow> rogue_monitor \<Rightarrow> bool" where
  "rogue_sim th agent n rm \<longleftrightarrow> rm_threshold rm = th \<and>
     (case per_agent_counts rm agent of Some c \<Rightarrow> c | None \<Rightarrow> 0) = word_of_nat n \<and>
     (agent \<in> rm_quarantined rm \<longleftrightarrow> unat th \<le> n)"

lemma word_of_nat_le: "Suc n < 2 ^ 32 \<Longrightarrow> th \<le> word_of_nat n + 1 \<longleftrightarrow> unat th \<le> Suc n" for th :: u32
proof -
  assume "Suc n < 2 ^ 32"
  then have "unat (word_of_nat (Suc n) :: u32) = Suc n"
    by (simp add: unsigned_of_nat take_bit_nat_eq_self del: of_nat_Suc)
  then show ?thesis by (simp add: word_le_nat_alt add.commute)
qed

lemma rogue_sim_exec:
  assumes "rogue_sim th agent n rm" and "0 < th" and "streak_step agent n op < 2 ^ 32"
  shows "rogue_sim th agent (streak_step agent n op) (rogue_exec op rm)"
proof (cases op)
  case (Message a mentioned)
  show ?thesis
  proof (cases "a = agent \<and> \<not> mentioned")
    case True
    then show ?thesis
      using assms Message word_of_nat_le [of n th]
      by (auto simp: rogue_sim_def record_message_def Let_def streak_step_def add.commute)
  next
    case False
    then show ?thesis
      using assms Message
      by (auto simp: rogue_sim_def record_message_def Let_def streak_step_def word_less_nat_alt)
  qed
next
  case (Unquarantine a)
  then show ?thesis
    using assms by (auto simp: rogue_sim_def unquarantine_def streak_step_def word_less_nat_alt)
qed

lemma rogue_quarantined_iff:
  assumes "rogue_with_threshold th = Some rm" and "length ops < 2 ^ 32"
  shows "is_quarantined (rogue_run ops rm) agent \<longleftrightarrow> unat th \<le> streak agent ops"
proof -
  have rm: "rm = \<lparr>rm_threshold = th, per_agent_counts = Map.empty, rm_quarantined = {}\<rparr>" and th: "0 < th"
    using assms(1) by (auto simp: rogue_with_threshold_def split: if_splits)
  have le: "streak agent ops \<le> length ops" for ops
    by (induction ops rule: rev_induct) (auto simp: streak_def streak_step_def split: rogue_op.split)
  have "rogue_sim th agent (streak agent ops) (rogue_run ops rm)"
    using assms(2)
  proof (induction ops rule: rev_induct)
    case Nil
    then show ?case using th by (simp add: rogue_sim_def rm rogue_run_def streak_def word_less_nat_alt)
  next
    case (snoc op ops)
    then show ?case
      using rogue_sim_exec [of th agent "streak agent ops" "rogue_run ops rm" op] th le [of "ops @ [op]"]
      by (simp add: rogue_run_def streak_def)
  qed
  then show ?thesis by (simp add: rogue_sim_def is_quarantined_def)
qed

text \<open>Fact: quarantine follows the current streak. An agent is quarantined exactly while the number of its messages since it
  last mentioned another agent, or was released, is at least the threshold; whatever other agents do is irrelevant. So a single
  mention lifts the quarantine.\<close>

theorem rogue_exact:
  assumes "rogue_with_threshold th = Some rm" and "length ops < 2 ^ 32"
  shows "is_quarantined (rogue_run ops rm) agent \<longleftrightarrow> unat th \<le> streak agent ops"
  using assms by (rule rogue_quarantined_iff)

theorem rogue_exact_witness:
  "is_quarantined (rogue_run [Message ''a'' False, Message ''b'' True, Message ''a'' False] \<lparr>rm_threshold = 2, per_agent_counts = Map.empty, rm_quarantined = {}\<rparr>) ''a'' \<and>
   \<not> is_quarantined (rogue_run [Message ''a'' False, Message ''a'' False, Message ''a'' True] \<lparr>rm_threshold = 2, per_agent_counts = Map.empty, rm_quarantined = {}\<rparr>) ''a''"
  using rogue_exact [of 2 "\<lparr>rm_threshold = 2, per_agent_counts = Map.empty, rm_quarantined = {}\<rparr>" "[Message ''a'' False, Message ''b'' True, Message ''a'' False]" "''a''"]
    rogue_exact [of 2 "\<lparr>rm_threshold = 2, per_agent_counts = Map.empty, rm_quarantined = {}\<rparr>" "[Message ''a'' False, Message ''a'' False, Message ''a'' True]" "''a''"]
  by (simp add: rogue_with_threshold_def streak_def streak_step_def)

text \<open>Fact: a quarantined agent that goes on sending is reported as active again, while it stays quarantined.\<close>

theorem quarantined_reported_active:
  assumes "is_quarantined rm agent" and "rm_threshold rm \<le> (case per_agent_counts rm agent of Some c \<Rightarrow> c | None \<Rightarrow> 0) + 1"
  shows "\<exists>count. fst (record_message rm agent False) = RogueActive count \<and> is_quarantined (snd (record_message rm agent False)) agent"
  using assms by (simp add: record_message_def is_quarantined_def Let_def)

end
