(* ===== verification/Orchestrator.thy ===== *)
theory Orchestrator
  imports Packets Guards
begin

text \<open>
  \<^verbatim>\<open>crates/themis-orchestrator/src/orchestrator.rs\<close> with its collaborators \<^verbatim>\<open>agent_registry.rs\<close>, \<^verbatim>\<open>rekor_anchoring.rs\<close> and
  \<^verbatim>\<open>evidence_sealing.rs\<close>: one invoice through the eight agents, with the BAAAR gate, the rogue monitor, the human guard, the
  signature, the transparency log and the sealed packet. The feature \<^verbatim>\<open>defense\<close> is on, as by default.

  The agents, the room, the log client and the authority are trait objects: fields of \<open>orch_world\<close>. The clock readings and fresh
  ids of one call are its \<open>call_env\<close>; the state machine's clock is indexed by the length of its history and the run ids by the
  number of events published before. A result \<open>None\<close> is the panic of the human guard on a queue of 2^32 approvals.
\<close>

section \<open>World and state\<close>

record 'r orch_world =
  w_crypto :: crypto
  w_codec :: packet_codec
  w_numbers :: json_numbers
  w_agents :: "string \<rightharpoonup> agent"
  w_registry :: tenant_registry
  w_open :: "'r \<Rightarrow> string \<Rightarrow> string \<Rightarrow> (band_error + room_id) \<times> 'r"
  w_post :: "'r \<Rightarrow> room_id \<Rightarrow> string \<Rightarrow> string \<Rightarrow> string \<Rightarrow> string list \<Rightarrow> (band_error + unit) \<times> 'r"
  w_rekor :: "(string \<Rightarrow> string \<Rightarrow> string + string) option"
  w_tsa :: tsa

record call_env =
  ce_now :: "nat \<Rightarrow> i64"
  ce_run_id :: "nat \<Rightarrow> string"
  ce_incident_ms :: i64
  ce_packet_id :: string
  ce_generated_ms :: i64
  ce_instant :: int
  ce_seal :: seal_env

record 'r orchestrator =
  o_rooms :: 'r
  o_bus :: "event list option"
  o_rogue :: "rogue_monitor option"
  o_human :: "fatigue_detector option"
  o_machines :: "string \<rightharpoonup> state_machine"
  o_services :: "(string \<rightharpoonup> evidence_service) option"

datatype orchestrator_error =
    TenantErr tenant_error | MissingAgent string | AgentFailed string agent_error | StateErr state_error
  | BandErr band_error | EvidenceErr string | SignerInit string string

text \<open>The variables of one run.\<close>

record run_locals =
  rl_sm :: state_machine
  rl_decisions :: "agent_decision list"
  rl_outcome :: outcome

section \<open>Events and messages\<close>

definition publish :: "(nat \<Rightarrow> event) \<Rightarrow> 'r orchestrator \<Rightarrow> 'r orchestrator" where
  "publish ev st = (case o_bus st of None \<Rightarrow> st | Some es \<Rightarrow> st\<lparr>o_bus := Some (es @ [ev (length es)])\<rparr>)"

definition model_id_for_agent :: "agent_role \<Rightarrow> string" where
  "model_id_for_agent r = (case r of
       Extractor \<Rightarrow> ''Qwen/Qwen3-Coder-30B-A3B-Instruct''
     | PoMatcher \<Rightarrow> ''Qwen/Qwen3-Coder-30B-A3B-Instruct''
     | FraudAuditor \<Rightarrow> ''anthropic/claude-sonnet-4.5''
     | GaapClassifier \<Rightarrow> ''meta-llama/Llama-3.3-70B-Instruct''
     | _ \<Rightarrow> ''deterministic-signer'')"

definition role_of_name :: "string \<Rightarrow> agent_role" where
  "role_of_name agent_name =
     (if agent_name = ''extractor'' then Extractor else if agent_name = ''po_matcher'' then PoMatcher
      else if agent_name = ''fraud_auditor'' then FraudAuditor else if agent_name = ''gaap_classifier'' then GaapClassifier
      else if agent_name = ''provenance_signer'' then ProvenanceSigner else if agent_name = ''demo_narrator'' then DemoNarrator
      else if agent_name = ''regression_tester'' then RegressionTester else if agent_name = ''audit_watchdog'' then AuditWatchdog
      else DemoNarrator)"

definition publish_provider_event :: "call_env \<Rightarrow> string \<Rightarrow> 'r orchestrator \<Rightarrow> 'r orchestrator" where
  "publish_provider_event e agent_name st =
     publish (\<lambda>n. ProviderActive (ce_run_id e n) (model_id_for_agent (role_of_name agent_name))) st"

definition next_agent_mention :: "string \<Rightarrow> string list" where
  "next_agent_mention agent_name =
     (if agent_name = ''extractor'' then [''fraud_auditor''] else if agent_name = ''fraud_auditor'' then [''gaap_classifier'']
      else if agent_name = ''gaap_classifier'' then [''provenance_signer''] else if agent_name = ''provenance_signer'' then [''audit_watchdog'']
      else if agent_name = ''po_matcher'' then [''fraud_auditor''] else if agent_name = ''audit_watchdog'' then [''demo_narrator'']
      else [])"

definition publish_handoff_event :: "'r orch_world \<Rightarrow> call_env \<Rightarrow> room_id \<Rightarrow> string \<Rightarrow> string \<Rightarrow> agent_decision \<Rightarrow> 'r orchestrator \<Rightarrow> 'r orchestrator" where
  "publish_handoff_event w e room tenant_id agent_name decision st =
     (let next = next_agent_mention agent_name;
          o1 = (case next of
              next_name # _ \<Rightarrow> publish (\<lambda>n. AgentHandoff (ce_run_id e n) agent_name next_name (chars_take 200 (ad_reasoning decision))) st
            | [] \<Rightarrow> st)
      in o1\<lparr>o_rooms := snd (w_post w (o_rooms o1) room tenant_id agent_name (ad_reasoning decision) next)\<rparr>)"

section \<open>Packets, signatures, the log\<close>

definition assemble :: "call_env \<Rightarrow> string \<Rightarrow> string \<Rightarrow> agent_decision list \<Rightarrow> outcome \<Rightarrow> evidence_packet" where
  "assemble e tenant_id invoice_id decisions oc =
     evidence_packet_new (ce_packet_id e) (ce_generated_ms e) tenant_id invoice_id decisions oc"

definition should_sign :: "bool \<Rightarrow> bool" where
  "should_sign destructive_blocked = (\<not> destructive_blocked)"

definition sign :: "'r orch_world \<Rightarrow> evidence_packet \<Rightarrow> string \<Rightarrow> orchestrator_error + signed_packet" where
  "sign w p tenant_id =
     (let pk_hex = (case tenants (w_registry w) tenant_id of Some t \<Rightarrow> ed25519_public_key_hex t | None \<Rightarrow> []);
          signer = signer_for_tenant (w_crypto w) tenant_id
      in case pc_json (w_codec w) p of
           Inl err \<Rightarrow> Inl (EvidenceErr (''canonical JSON serialization: '' @ err))
         | Inr canonical_payload \<Rightarrow> Inr (wrap (w_codec w) p (sign_hex (w_crypto w) signer canonical_payload) pk_hex))"

definition anchor_in_rekor :: "'r orch_world \<Rightarrow> signed_packet \<Rightarrow> string \<Rightarrow> signed_packet" where
  "anchor_in_rekor w sgn_p tenant_id = (case w_rekor w of
       None \<Rightarrow> sgn_p
     | Some rekor \<Rightarrow> (case rekor (sd_blake3_hash_hex sgn_p) tenant_id of
           Inr entry \<Rightarrow> wrap_with_rekor (w_codec w) (sd_packet sgn_p) (sd_signature_hex sgn_p) (sd_public_key_hex sgn_p) entry
         | Inl _ \<Rightarrow> sgn_p))"

section \<open>Moving the state machine\<close>

definition clocked :: "call_env \<Rightarrow> state_machine \<Rightarrow> transition \<Rightarrow> (state_error + invoice_state) \<times> state_machine" where
  "clocked e sm t = sm_transition sm t (ce_now e (length (sm_history sm)))"

function advance_to :: "call_env \<Rightarrow> invoice_state \<Rightarrow> state_machine \<Rightarrow> (state_error + unit) \<times> state_machine" where
  "advance_to e target sm =
     (if sm_state sm = target then (Inr (), sm)
      else (case clocked e sm Advance of
          (Inl err, sm') \<Rightarrow> (Inl err, sm')
        | (Inr _, sm') \<Rightarrow> advance_to e target sm'))"
  by pat_completeness auto

lemma clocked_Advance:
  "clocked e sm Advance = (case next_state (sm_state sm) of
       None \<Rightarrow> (Inl (TerminalState (sm_state sm)), sm)
     | Some s \<Rightarrow> (Inr s, sm\<lparr>sm_state := s, sm_history := sm_history sm @ [(s, ce_now e (length (sm_history sm)))]\<rparr>))"
  by (cases "sm_state sm") (simp_all add: clocked_def sm_transition_def)

lemma next_state_index: "next_state s = Some s' \<Longrightarrow> state_index s' = Suc (state_index s) \<and> state_index s < 8"
  by (cases s) auto

termination advance_to
  by (relation "measure (\<lambda>(e, target, sm). 9 - state_index (sm_state sm))")
    (auto simp: clocked_Advance split: option.splits dest!: next_state_index)

declare advance_to.simps [simp del]

definition force_advance_to_done :: "call_env \<Rightarrow> state_machine \<Rightarrow> state_machine" where
  "force_advance_to_done e sm = (if sm_state sm \<noteq> Done \<and> sm_state sm \<noteq> Halted then snd (advance_to e Done sm) else sm)"

section \<open>One stage\<close>

definition halt_and_return :: "'r orch_world \<Rightarrow> call_env \<Rightarrow> string \<Rightarrow> string \<Rightarrow> run_locals \<Rightarrow> string \<Rightarrow> orchestrator_error + signed_packet" where
  "halt_and_return w e tenant_id invoice_id l reason = (case fst (clocked e (rl_sm l) (Fail reason)) of
       Inl err \<Rightarrow> Inl (StateErr err)
     | Inr _ \<Rightarrow> sign w (assemble e tenant_id invoice_id (rl_decisions l) Approve) tenant_id)"

definition check_baaar_and_maybe_halt :: "'r orch_world \<Rightarrow> call_env \<Rightarrow> string \<Rightarrow> string \<Rightarrow> string \<Rightarrow> agent_decision \<Rightarrow> run_locals \<Rightarrow> 'r orchestrator
    \<Rightarrow> (orchestrator_error + bool) \<times> run_locals \<times> 'r orchestrator" where
  "check_baaar_and_maybe_halt w e tenant_id invoice_id agent_name decision l st =
     (if agent_name \<noteq> ''fraud_auditor'' then (Inr False, l, st)
      else (case baaar_check (from_decision_payload (w_numbers w) (ad_payload decision)) of
          Approve \<Rightarrow> (Inr False, l, st)
        | HaltWith reason \<Rightarrow> (case clocked e (rl_sm l) (Halt reason) of
              (Inl err, sm) \<Rightarrow> (Inl (StateErr err), l\<lparr>rl_outcome := HaltWith reason, rl_sm := sm\<rparr>, st)
            | (Inr _, sm) \<Rightarrow>
                (let severity = severity_for_baaar reason;
                     narrative = ''BAAAR HALT: reason='' @ reason_debug reason @ '' agent='' @ agent_name @ '' tenant='' @ tenant_id @
                       '' invoice='' @ invoice_id;
                     st = publish (\<lambda>n. IncidentReported (ce_run_id e n) (to_ascii_lowercase (severity_debug severity)) (ce_incident_ms e)
                       narrative (reporting_window_for severity) tenant_id) st;
                     st = publish (\<lambda>n. BaaarHalt (ce_run_id e n) (reason_debug reason) agent_name) st
                 in (Inr True, l\<lparr>rl_outcome := HaltWith reason, rl_sm := sm\<rparr>, st)))))"

datatype flow = Continue | Break | Return "orchestrator_error + signed_packet"

definition stage_context :: "string \<Rightarrow> string \<Rightarrow> string \<Rightarrow> string \<Rightarrow> agent_decision list \<Rightarrow> agent_context" where
  "stage_context tenant_id invoice_id raw agent_name decisions =
     (let ctx = with_upstream_stream (context_new tenant_id invoice_id) decisions
      in if agent_name = ''extractor'' then with_raw_invoice ctx raw ''application/octet-stream'' else ctx)"

definition observe_rogue :: "string \<Rightarrow> 'r orchestrator \<Rightarrow> bool \<times> 'r orchestrator" where
  "observe_rogue agent_name st = (case o_rogue st of
       None \<Rightarrow> (False, st)
     | Some rm \<Rightarrow> (let rm = snd (record_message rm agent_name False) in (is_quarantined rm agent_name, st\<lparr>o_rogue := Some rm\<rparr>)))"

definition run_stage :: "'r orch_world \<Rightarrow> call_env \<Rightarrow> string \<Rightarrow> string \<Rightarrow> string \<Rightarrow> room_id \<Rightarrow> string \<Rightarrow> invoice_state \<Rightarrow> run_locals \<Rightarrow> 'r orchestrator
    \<Rightarrow> flow \<times> run_locals \<times> 'r orchestrator" where
  "run_stage w e tenant_id invoice_id raw room agent_name expected_state l st =
     (case advance_to e expected_state (rl_sm l) of
        (Inl err, sm) \<Rightarrow> (Return (Inl (StateErr err)), l\<lparr>rl_sm := sm\<rparr>, st)
      | (Inr _, sm) \<Rightarrow>
          (let l = l\<lparr>rl_sm := sm\<rparr>; halt = halt_and_return w e tenant_id invoice_id l
           in case w_agents w agent_name of
                None \<Rightarrow> (Return (halt (''missing agent: '' @ agent_name)), l, st)
              | Some agent \<Rightarrow>
                  (case observe_rogue agent_name st of (quarantined, st) \<Rightarrow>
                     if quarantined then (Return (halt (''agent '' @ agent_name @ '' quarantined by rogue_monitor'')), l, st)
                     else (case agent (stage_context tenant_id invoice_id raw agent_name (rl_decisions l)) of
                         Inl err \<Rightarrow> (Return (halt (''agent '' @ agent_name @ '': '' @ agent_error_text err)), l, st)
                       | Inr decision \<Rightarrow>
                           (let l = l\<lparr>rl_decisions := rl_decisions l @ [decision]\<rparr>;
                                st = publish_handoff_event w e room tenant_id agent_name decision (publish_provider_event e agent_name st)
                            in case check_baaar_and_maybe_halt w e tenant_id invoice_id agent_name decision l st of
                                 (Inl err, l, st) \<Rightarrow> (Return (Inl err), l, st)
                               | (Inr True, l, st) \<Rightarrow> (Break, l, st)
                               | (Inr False, l, st) \<Rightarrow> (Continue, l, st))))))"

fun run_stages :: "'r orch_world \<Rightarrow> call_env \<Rightarrow> string \<Rightarrow> string \<Rightarrow> string \<Rightarrow> room_id \<Rightarrow> (string \<times> invoice_state) list \<Rightarrow> run_locals \<Rightarrow> 'r orchestrator
    \<Rightarrow> (orchestrator_error + signed_packet) option \<times> run_locals \<times> 'r orchestrator" where
  "run_stages w e tenant_id invoice_id raw room [] l st = (None, l, st)"
| "run_stages w e tenant_id invoice_id raw room ((agent_name, expected_state) # rest) l st =
     (case run_stage w e tenant_id invoice_id raw room agent_name expected_state l st of
        (Return r, l, st) \<Rightarrow> (Some r, l, st)
      | (Break, l, st) \<Rightarrow> (None, l, st)
      | (Continue, l, st) \<Rightarrow> run_stages w e tenant_id invoice_id raw room rest l st)"

definition stages :: "(string \<times> invoice_state) list" where
  "stages = [(''extractor'', Extracting), (''po_matcher'', Matching), (''fraud_auditor'', Auditing), (''gaap_classifier'', Classifying),
     (''provenance_signer'', Signing), (''demo_narrator'', Narrating), (''regression_tester'', Validating), (''audit_watchdog'', Done)]"

section \<open>One invoice\<close>

definition destructive_blocked :: "call_env \<Rightarrow> 'r orchestrator \<Rightarrow> bool option \<times> 'r orchestrator" where
  "destructive_blocked e st = (case o_human st of
       None \<Rightarrow> (Some False, st)
     | Some hg \<Rightarrow> (case check_authorization (ce_instant e) hg of (r, hg) \<Rightarrow> (map_option isl r, st\<lparr>o_human := Some hg\<rparr>)))"

definition finish_run :: "'r orch_world \<Rightarrow> call_env \<Rightarrow> string \<Rightarrow> string \<Rightarrow> run_locals \<Rightarrow> 'r orchestrator
    \<Rightarrow> (orchestrator_error + signed_packet) option \<times> 'r orchestrator" where
  "finish_run w e tenant_id invoice_id l st =
     (let sm = force_advance_to_done e (rl_sm l)
      in case destructive_blocked e st of
           (None, st) \<Rightarrow> (None, st)
         | (Some blocked, st) \<Rightarrow>
             (let p = assemble e tenant_id invoice_id (rl_decisions l) (rl_outcome l)
              in if should_sign blocked
                 then (case sign w p tenant_id of
                     Inl err \<Rightarrow> (Some (Inl err), st)
                   | Inr sgn_p \<Rightarrow>
                       (Some (Inr (if should_sign blocked then anchor_in_rekor w sgn_p tenant_id else sgn_p)),
                        publish (\<lambda>n. AgentCompleted (ce_run_id e n) ''pipeline'' 0 0 0)
                          (st\<lparr>o_machines := (o_machines st)(tenant_id @ '':'' @ invoice_id \<mapsto> sm)\<rparr>)))
                 else (Some (Inr (wrap (w_codec w) p [] [])), st)))"

definition process_invoice :: "'r orch_world \<Rightarrow> call_env \<Rightarrow> string \<Rightarrow> string \<Rightarrow> string \<Rightarrow> 'r orchestrator
    \<Rightarrow> (orchestrator_error + signed_packet) option \<times> 'r orchestrator" where
  "process_invoice w e tenant_id invoice_id raw st =
     (if tenants (w_registry w) tenant_id = None then (Some (Inl (TenantErr (UnknownTenant tenant_id))), st)
      else (case w_open w (o_rooms st) tenant_id invoice_id of
          (Inl err, rs) \<Rightarrow> (Some (Inl (BandErr err)), st\<lparr>o_rooms := rs\<rparr>)
        | (Inr room, rs) \<Rightarrow>
            (case w_post w rs room tenant_id ''orchestrator'' (''Processing invoice '' @ invoice_id) [] of
               (Inl err, rs) \<Rightarrow> (Some (Inl (BandErr err)), st\<lparr>o_rooms := rs\<rparr>)
             | (Inr _, rs) \<Rightarrow>
                 (case run_stages w e tenant_id invoice_id raw room stages
                         \<lparr>rl_sm = sm_new (ce_now e 0), rl_decisions = [], rl_outcome = Approve\<rparr> (st\<lparr>o_rooms := rs\<rparr>) of
                    (Some r, l, st) \<Rightarrow> (Some r, st)
                  | (None, l, st) \<Rightarrow> finish_run w e tenant_id invoice_id l st))))"

section \<open>Sealing a run\<close>

definition chain_error_text :: "evidence_error \<Rightarrow> string" where
  "chain_error_text e = (case e of
       EvHashMismatch n \<Rightarrow> ''hash mismatch at sequence '' @ show_nat (unat n)
     | EvInvalidGenesis n \<Rightarrow> ''invalid genesis: sequence should be 0, got '' @ show_nat (unat n)
     | EvBrokenChain n \<Rightarrow> ''broken chain at sequence '' @ show_nat (unat n) @ '': prev_hash is the all-zero placeholder''
     | EvRetentionExceeded m \<Rightarrow> ''retention exceeded: previous entry is older than the configured window ('' @ show_nat (unat m) @ '' months)'')"

definition ev_error_text :: "ev_error \<Rightarrow> string" where
  "ev_error_text e = (case e of EvSigner s \<Rightarrow> ''signer: '' @ s | EvChain c \<Rightarrow> ''chain: '' @ chain_error_text c
     | EvTs s \<Rightarrow> ''tsa: '' @ s | EvVerifyFailed s \<Rightarrow> ''verification failed: '' @ s)"

definition evidence_sealing_new :: "(string \<times> evidence_service) list \<Rightarrow> (string \<rightharpoonup> evidence_service) option" where
  "evidence_sealing_new services = (if services = [] then None else Some (map_of services))"

definition seal_signed :: "'r orch_world \<Rightarrow> call_env \<Rightarrow> signed_packet \<Rightarrow> string \<Rightarrow> string \<Rightarrow> 'r orchestrator
    \<Rightarrow> (orchestrator_error + sealed_packet) \<times> 'r orchestrator" where
  "seal_signed w e sgn_p tenant_id invoice_id st = (case o_services st of
       None \<Rightarrow> (Inl (EvidenceErr ''no evidence service configured; use with_evidence() at construction''), st)
     | Some services \<Rightarrow> (case pc_json (w_codec w) (sd_packet sgn_p) of
           Inl err \<Rightarrow> (Inl (EvidenceErr (''serialize packet for seal: '' @ err)), st)
         | Inr payload \<Rightarrow> (case services tenant_id of
               None \<Rightarrow> (Inl (EvidenceErr (''no evidence service for tenant '' @ tenant_id)), st)
             | Some svc \<Rightarrow> (case seal (w_crypto w) (w_tsa w) (ce_seal e) svc invoice_id payload (sd_rekor_entry sgn_p) of
                   (r, svc) \<Rightarrow>
                     (case r of Inl err \<Rightarrow> Inl (EvidenceErr (''seal: '' @ ev_error_text err)) | Inr sealed \<Rightarrow> Inr sealed,
                      st\<lparr>o_services := Some (services(tenant_id \<mapsto> svc))\<rparr>)))))"

definition process_invoice_sealed :: "'r orch_world \<Rightarrow> call_env \<Rightarrow> string \<Rightarrow> string \<Rightarrow> string \<Rightarrow> 'r orchestrator
    \<Rightarrow> (orchestrator_error + signed_packet \<times> sealed_packet option) option \<times> 'r orchestrator" where
  "process_invoice_sealed w e tenant_id invoice_id raw st = (case process_invoice w e tenant_id invoice_id raw st of
       (None, st) \<Rightarrow> (None, st)
     | (Some (Inl err), st) \<Rightarrow> (Some (Inl err), st)
     | (Some (Inr sgn_p), st) \<Rightarrow> (case seal_signed w e sgn_p tenant_id invoice_id st of
           (Inl err, st) \<Rightarrow> (Some (Inl err), st)
         | (Inr sealed, st) \<Rightarrow> (Some (Inr (sgn_p, Some sealed)), st)))"

section \<open>What a run computes\<close>

text \<open>The pipeline without its machinery: the agents in order, each on the decisions before it, until one cannot run or the gate
  halts.\<close>

datatype pipeline_end =
    Completed "agent_decision list" | GateHalted baaar_reason "agent_decision list" | StageFailed string "agent_decision list"

definition gate_on :: "'r orch_world \<Rightarrow> string \<Rightarrow> agent_decision \<Rightarrow> outcome" where
  "gate_on w agent_name d =
     (if agent_name = ''fraud_auditor'' then baaar_check (from_decision_payload (w_numbers w) (ad_payload d)) else Approve)"

fun pipeline_spec :: "'r orch_world \<Rightarrow> string \<Rightarrow> string \<Rightarrow> string \<Rightarrow> (string \<Rightarrow> bool) \<Rightarrow> string list \<Rightarrow> agent_decision list \<Rightarrow> pipeline_end" where
  "pipeline_spec w t i raw blocked [] ds = Completed ds"
| "pipeline_spec w t i raw blocked (n # ns) ds = (case w_agents w n of
       None \<Rightarrow> StageFailed n ds
     | Some agent \<Rightarrow>
         if blocked n then StageFailed n ds
         else (case agent (stage_context t i raw n ds) of
             Inl _ \<Rightarrow> StageFailed n ds
           | Inr d \<Rightarrow> (case gate_on w n d of
                 HaltWith r \<Rightarrow> GateHalted r (ds @ [d])
               | Approve \<Rightarrow> pipeline_spec w t i raw blocked ns (ds @ [d]))))"

definition rogue_blocks :: "'r orchestrator \<Rightarrow> string \<Rightarrow> bool" where
  "rogue_blocks st n = (case o_rogue st of None \<Rightarrow> False | Some rm \<Rightarrow> is_quarantined (snd (record_message rm n False)) n)"

definition conclude :: "'r orch_world \<Rightarrow> call_env \<Rightarrow> string \<Rightarrow> string \<Rightarrow> 'r orchestrator \<Rightarrow> outcome \<Rightarrow> agent_decision list \<Rightarrow> (orchestrator_error + signed_packet) option" where
  "conclude w e t i st oc ds = (case fst (destructive_blocked e st) of
       None \<Rightarrow> None
     | Some True \<Rightarrow> Some (Inr (wrap (w_codec w) (assemble e t i ds oc) [] []))
     | Some False \<Rightarrow> Some (map_sum id (\<lambda>p. anchor_in_rekor w p t) (sign w (assemble e t i ds oc) t)))"

subsection \<open>Moving the machine\<close>

lemma advance_next:
  assumes "next_state (sm_state sm) = Some s"
  shows "\<exists>sm'. advance_to e s sm = (Inr (), sm') \<and> sm_state sm' = s"
  using assms next_state_index [OF assms]
  by (subst advance_to.simps, subst advance_to.simps) (auto simp: clocked_Advance)

lemma clocked_stop:
  assumes "t \<noteq> Advance"
  shows "clocked e sm t = (if sm_state sm = Done \<or> sm_state sm = Halted then (Inl (TerminalState (sm_state sm)), sm)
     else (Inr Halted, sm\<lparr>sm_state := Halted, sm_history := sm_history sm @ [(Halted, ce_now e (length (sm_history sm)))]\<rparr>))"
  using assms by (cases t) (simp_all add: clocked_def sm_transition_def)

lemma force_advance_done: "sm_state sm = Done \<or> sm_state sm = Halted \<Longrightarrow> force_advance_to_done e sm = sm"
  by (auto simp: force_advance_to_done_def)

subsection \<open>Frames\<close>

lemma publish_frame [simp]:
  "o_rogue (publish ev st) = o_rogue st" "o_human (publish ev st) = o_human st"
  "o_machines (publish ev st) = o_machines st" "o_rooms (publish ev st) = o_rooms st" "o_services (publish ev st) = o_services st"
  by (simp_all add: publish_def split: option.split)

lemma handoff_frame [simp]:
  "o_rogue (publish_handoff_event w e room t n d st) = o_rogue st" "o_human (publish_handoff_event w e room t n d st) = o_human st"
  "o_machines (publish_handoff_event w e room t n d st) = o_machines st"
  "o_services (publish_handoff_event w e room t n d st) = o_services st"
  "o_rooms (publish_handoff_event w e room t n d st) = snd (w_post w (o_rooms st) room t n (ad_reasoning d) (next_agent_mention n))"
  by (simp_all add: publish_handoff_event_def Let_def split: list.split)

lemma provider_frame [simp]:
  "o_rogue (publish_provider_event e n st) = o_rogue st" "o_human (publish_provider_event e n st) = o_human st"
  "o_machines (publish_provider_event e n st) = o_machines st" "o_services (publish_provider_event e n st) = o_services st"
  "o_rooms (publish_provider_event e n st) = o_rooms st"
  by (simp_all add: publish_provider_event_def)

lemma observe_rogue_eq:
  "observe_rogue n st = (rogue_blocks st n, st\<lparr>o_rogue := map_option (\<lambda>rm. snd (record_message rm n False)) (o_rogue st)\<rparr>)"
  by (cases "o_rogue st") (simp_all add: observe_rogue_def rogue_blocks_def Let_def)

lemma record_message_other: "n' \<noteq> n \<Longrightarrow> is_quarantined (snd (record_message (snd (record_message rm n False)) n' False)) n' =
    is_quarantined (snd (record_message rm n' False)) n'"
  by (auto simp: record_message_def is_quarantined_def Let_def)

lemma rogue_blocks_other:
  "n' \<noteq> n \<Longrightarrow> o_rogue st' = map_option (\<lambda>rm. snd (record_message rm n False)) (o_rogue st) \<Longrightarrow> rogue_blocks st' n' = rogue_blocks st n'"
  by (cases "o_rogue st") (simp_all add: rogue_blocks_def record_message_other)

subsection \<open>The stages\<close>

definition failed_stage :: "'r orch_world \<Rightarrow> call_env \<Rightarrow> string \<Rightarrow> string \<Rightarrow> invoice_state \<Rightarrow> agent_decision list \<Rightarrow> orchestrator_error + signed_packet" where
  "failed_stage w e t i s ds = (if s = Done then Inl (StateErr (TerminalState Done)) else sign w (assemble e t i ds Approve) t)"

lemma halt_and_return_eq: "sm_state (rl_sm l) \<noteq> Halted \<Longrightarrow>
    halt_and_return w e t i l reason = failed_stage w e t i (sm_state (rl_sm l)) (rl_decisions l)"
  by (simp add: halt_and_return_def clocked_stop failed_stage_def)

lemma check_baaar_eq:
  assumes "n = ''fraud_auditor'' \<longrightarrow> sm_state (rl_sm l) \<noteq> Done \<and> sm_state (rl_sm l) \<noteq> Halted"
  shows "case check_baaar_and_maybe_halt w e t i n d l st of (r, l', st') \<Rightarrow>
    o_rooms st' = o_rooms st \<and> o_human st' = o_human st \<and> o_machines st' = o_machines st \<and> o_rogue st' = o_rogue st \<and> o_services st' = o_services st \<and>
    (case gate_on w n d of Approve \<Rightarrow> r = Inr False \<and> l' = l
     | HaltWith x \<Rightarrow> r = Inr True \<and> rl_decisions l' = rl_decisions l \<and> rl_outcome l' = HaltWith x \<and> sm_state (rl_sm l') = Halted)"
  using assms
  by (cases "n = ''fraud_auditor''")
    (auto simp: check_baaar_and_maybe_halt_def gate_on_def clocked_stop Let_def split: outcome.split)

definition stage_ok :: "'r orch_world \<Rightarrow> call_env \<Rightarrow> string \<Rightarrow> string \<Rightarrow> room_id \<Rightarrow> string \<Rightarrow> invoice_state \<Rightarrow> run_locals \<Rightarrow> 'r orchestrator
    \<Rightarrow> pipeline_end \<Rightarrow> flow \<times> run_locals \<times> 'r orchestrator \<Rightarrow> bool" where
  "stage_ok w e t i room n x l st pe res = (case res of (fl, l', st') \<Rightarrow> o_human st' = o_human st \<and> o_machines st' = o_machines st \<and> o_services st' = o_services st \<and>
     o_rogue st' = (if w_agents w n = None then o_rogue st else map_option (\<lambda>rm. snd (record_message rm n False)) (o_rogue st)) \<and>
     o_rooms st' = (case pe of StageFailed _ _ \<Rightarrow> o_rooms st
       | GateHalted _ ds \<Rightarrow> snd (w_post w (o_rooms st) room t n (ad_reasoning (last ds)) (next_agent_mention n))
       | Completed ds \<Rightarrow> snd (w_post w (o_rooms st) room t n (ad_reasoning (last ds)) (next_agent_mention n))) \<and>
     (case pe of
        StageFailed _ ds \<Rightarrow> fl = Return (failed_stage w e t i x ds)
      | GateHalted r ds \<Rightarrow> fl = Break \<and> rl_decisions l' = ds \<and> rl_outcome l' = HaltWith r \<and> sm_state (rl_sm l') = Halted
      | Completed ds \<Rightarrow> fl = Continue \<and> rl_decisions l' = ds \<and> rl_outcome l' = rl_outcome l \<and> sm_state (rl_sm l') = x))"

lemma run_stage_eq:
  assumes "advance_to e x (rl_sm l) = (Inr (), sm)" and "sm_state sm = x" and "x \<noteq> Halted" and "n = ''fraud_auditor'' \<longrightarrow> x \<noteq> Done"
  shows "stage_ok w e t i room n x l st (pipeline_spec w t i raw (rogue_blocks st) [n] (rl_decisions l)) (run_stage w e t i raw room n x l st)"
proof (cases "w_agents w n")
  case None
  then show ?thesis using assms by (simp add: stage_ok_def run_stage_def Let_def halt_and_return_eq)
next
  case (Some agent)
  let ?l = "l\<lparr>rl_sm := sm\<rparr>" and ?out = "agent (stage_context t i raw n (rl_decisions l))"
  show ?thesis
  proof (cases "rogue_blocks st n \<or> isl ?out")
    case True
    then show ?thesis using Some assms
      by (auto simp: stage_ok_def run_stage_def Let_def observe_rogue_eq halt_and_return_eq isl_def)
  next
    case False
    then obtain d where d: "?out = Inr d" by (cases ?out) auto
    show ?thesis
      using False Some assms d check_baaar_eq [where n = n and l = "?l\<lparr>rl_decisions := rl_decisions l @ [d]\<rparr>" and w = w and e = e and t = t and i = i and d = d
        and st = "publish_handoff_event w e room t n d (publish_provider_event e n (snd (observe_rogue n st)))"]
      by (auto simp: stage_ok_def run_stage_def Let_def observe_rogue_eq split: outcome.splits prod.splits)
  qed
qed

fun consecutive :: "invoice_state \<Rightarrow> (string \<times> invoice_state) list \<Rightarrow> bool" where
  "consecutive s [] = True"
| "consecutive s ((n, x) # rest) = (next_state s = Some x \<and> (n = ''fraud_auditor'' \<longrightarrow> x \<noteq> Done) \<and> n \<notin> fst ` set rest \<and> consecutive x rest)"

lemma run_stage_ok:
  assumes "consecutive (sm_state (rl_sm l)) ((n, x) # rest)"
  shows "stage_ok w e t i room n x l st (pipeline_spec w t i raw (rogue_blocks st) [n] (rl_decisions l)) (run_stage w e t i raw room n x l st)"
proof -
  obtain sm where "advance_to e x (rl_sm l) = (Inr (), sm)" "sm_state sm = x"
    using advance_next [of "rl_sm l" x e] assms by auto
  moreover have "x \<noteq> Halted" using assms next_not_Halted [of "sm_state (rl_sm l)"] by auto
  ultimately show ?thesis using assms by (intro run_stage_eq) auto
qed

definition run_ok :: "'r orch_world \<Rightarrow> call_env \<Rightarrow> string \<Rightarrow> string \<Rightarrow> (string \<times> invoice_state) list \<Rightarrow> run_locals \<Rightarrow> 'r orchestrator
    \<Rightarrow> pipeline_end \<Rightarrow> (orchestrator_error + signed_packet) option \<times> run_locals \<times> 'r orchestrator \<Rightarrow> bool" where
  "run_ok w e t i rest l st pe res = (case res of (r, l', st') \<Rightarrow> o_human st' = o_human st \<and> o_machines st' = o_machines st \<and> o_services st' = o_services st \<and>
     (case pe of
        StageFailed n ds \<Rightarrow> r = Some (failed_stage w e t i (the (map_of rest n)) ds)
      | GateHalted x ds \<Rightarrow> r = None \<and> rl_decisions l' = ds \<and> rl_outcome l' = HaltWith x \<and> sm_state (rl_sm l') = Halted
      | Completed ds \<Rightarrow> r = None \<and> rl_decisions l' = ds \<and> rl_outcome l' = rl_outcome l \<and>
          sm_state (rl_sm l') = last (sm_state (rl_sm l) # map snd rest)))"

lemma pipeline_spec_Cons:
  "pipeline_spec w t i raw b (n # ns) ds = (case pipeline_spec w t i raw b [n] ds of Completed ds' \<Rightarrow> pipeline_spec w t i raw b ns ds' | pe \<Rightarrow> pe)"
  by (auto split: option.split sum.split outcome.split)

lemma pipeline_spec_cong: "(\<And>n. n \<in> set ns \<Longrightarrow> b n = b' n) \<Longrightarrow> pipeline_spec w t i raw b ns ds = pipeline_spec w t i raw b' ns ds"
  by (induction ns arbitrary: ds) (auto split: option.split sum.split outcome.split)

lemma pipeline_failed_in: "pipeline_spec w t i raw b ns ds = StageFailed n ds' \<Longrightarrow> n \<in> set ns"
  by (induction ns arbitrary: ds) (auto split: option.splits sum.splits outcome.splits if_splits)

lemma rest_spec:
  assumes "stage_ok w e t i room n x l st (pipeline_spec w t i raw (rogue_blocks st) [n] ds) (fl, l', st')"
    and "pipeline_spec w t i raw (rogue_blocks st) [n] ds = Completed ds'" and "n \<notin> fst ` set rest"
  shows "pipeline_spec w t i raw (rogue_blocks st') (map fst rest) ds'' = pipeline_spec w t i raw (rogue_blocks st) (map fst rest) ds''"
proof (rule pipeline_spec_cong)
  fix m assume "m \<in> set (map fst rest)"
  then have "m \<noteq> n" using assms(3) by auto
  moreover have "w_agents w n \<noteq> None" using assms(2) by (auto split: option.splits)
  then have "o_rogue st' = map_option (\<lambda>rm. snd (record_message rm n False)) (o_rogue st)"
    using assms(1) by (auto simp: stage_ok_def simp del: pipeline_spec.simps)
  ultimately show "rogue_blocks st' m = rogue_blocks st m" by (rule rogue_blocks_other)
qed

lemma run_stages_eq:
  "consecutive (sm_state (rl_sm l)) rest \<Longrightarrow>
     run_ok w e t i rest l st (pipeline_spec w t i raw (rogue_blocks st) (map fst rest) (rl_decisions l)) (run_stages w e t i raw room rest l st)"
proof (induction rest arbitrary: l st)
  case Nil
  then show ?case by (simp add: run_ok_def)
next
  case (Cons stage rest)
  obtain n x where s: "stage = (n, x)" by (cases stage)
  obtain fl l' st' where rs: "run_stage w e t i raw room n x l st = (fl, l', st')" by (cases "run_stage w e t i raw room n x l st")
  let ?pe = "pipeline_spec w t i raw (rogue_blocks st) [n] (rl_decisions l)"
  have ok: "stage_ok w e t i room n x l st ?pe (fl, l', st')"
    using run_stage_ok [OF Cons.prems [unfolded s], of w e t i room st raw] rs by simp
  have pe: "pipeline_spec w t i raw (rogue_blocks st) (map fst (stage # rest)) (rl_decisions l) =
      (case ?pe of Completed ds \<Rightarrow> pipeline_spec w t i raw (rogue_blocks st) (map fst rest) ds | pe \<Rightarrow> pe)"
    unfolding s list.map fst_conv by (rule pipeline_spec_Cons)
  have failed: "m = n" if "?pe = StageFailed m ds" for m ds
    using pipeline_failed_in [OF that] by simp
  show ?case
  proof (cases ?pe)
    case (Completed ds)
    note eq = rest_spec [OF ok Completed, of rest]
    have "run_ok w e t i rest l' st' (pipeline_spec w t i raw (rogue_blocks st) (map fst rest) ds) (run_stages w e t i raw room rest l' st')"
      using Cons.IH [of l' st'] Cons.prems s ok Completed eq by (simp add: stage_ok_def)
    moreover have "m \<noteq> n" if "pipeline_spec w t i raw (rogue_blocks st) (map fst rest) ds = StageFailed m ds'" for m ds'
      using pipeline_failed_in [OF that] Cons.prems s by auto
    ultimately show ?thesis
      using ok Completed unfolding pe by (auto simp: s rs run_ok_def stage_ok_def split: pipeline_end.splits simp del: pipeline_spec.simps)
  qed (use ok failed in \<open>unfold pe, auto simp: s rs run_ok_def stage_ok_def simp del: pipeline_spec.simps\<close>)
qed

lemma consecutive_stages: "consecutive Received stages"
  by (simp add: stages_def)

lemma process_invoice_started:
  assumes "tenants (w_registry w) t \<noteq> None" and "w_open w (o_rooms st) t i = (Inr room, rs)"
    and "w_post w rs room t ''orchestrator'' (''Processing invoice '' @ i) [] = (Inr (), rs')"
  shows "process_invoice w e t i raw st = (case run_stages w e t i raw room stages
      \<lparr>rl_sm = sm_new (ce_now e 0), rl_decisions = [], rl_outcome = Approve\<rparr> (st\<lparr>o_rooms := rs'\<rparr>) of
        (Some r, l, st) \<Rightarrow> (Some r, st) | (None, l, st) \<Rightarrow> finish_run w e t i l st)"
  using assms by (auto simp: process_invoice_def)

lemma finish_run_eq:
  assumes "o_human st' = o_human st"
  shows "fst (finish_run w e t i l st') = conclude w e t i st (rl_outcome l) (rl_decisions l)"
proof -
  have "fst (destructive_blocked e st') = fst (destructive_blocked e st)"
    using assms by (simp add: destructive_blocked_def split: option.split prod.split)
  then show ?thesis
    by (cases "destructive_blocked e st'")
      (auto simp: finish_run_def conclude_def should_sign_def Let_def split: option.split sum.split bool.split)
qed

lemma run_stages_started:
  "run_ok w e t i stages \<lparr>rl_sm = sm_new (ce_now e 0), rl_decisions = [], rl_outcome = Approve\<rparr> (st\<lparr>o_rooms := rs\<rparr>)
     (pipeline_spec w t i raw (rogue_blocks st) (map fst stages) [])
     (run_stages w e t i raw room stages \<lparr>rl_sm = sm_new (ce_now e 0), rl_decisions = [], rl_outcome = Approve\<rparr> (st\<lparr>o_rooms := rs\<rparr>))"
proof -
  have "rogue_blocks (st\<lparr>o_rooms := rs\<rparr>) = rogue_blocks st" by (simp add: rogue_blocks_def fun_eq_iff)
  then show ?thesis
    using run_stages_eq [of "\<lparr>rl_sm = sm_new (ce_now e 0), rl_decisions = [], rl_outcome = Approve\<rparr>" stages w e t i "st\<lparr>o_rooms := rs\<rparr>" raw room]
      consecutive_stages by (simp add: sm_new_def del: pipeline_spec.simps)
qed

lemma stage_state: "n \<in> set (map fst stages) \<Longrightarrow> the (map_of stages n) = Done \<longleftrightarrow> n = ''audit_watchdog''"
  by (auto simp: stages_def)

lemma process_invoice_result:
  assumes "tenants (w_registry w) t \<noteq> None" and "w_open w (o_rooms st) t i = (Inr room, rs)"
    and "w_post w rs room t ''orchestrator'' (''Processing invoice '' @ i) [] = (Inr (), rs')"
  shows "fst (process_invoice w e t i raw st) = (case pipeline_spec w t i raw (rogue_blocks st) (map fst stages) [] of
       StageFailed n ds \<Rightarrow> Some (if n = ''audit_watchdog'' then Inl (StateErr (TerminalState Done)) else sign w (assemble e t i ds Approve) t)
     | GateHalted r ds \<Rightarrow> conclude w e t i st (HaltWith r) ds
     | Completed ds \<Rightarrow> conclude w e t i st Approve ds)"
proof -
  let ?l = "\<lparr>rl_sm = sm_new (ce_now e 0), rl_decisions = [], rl_outcome = Approve\<rparr>"
  obtain r l' st' where run: "run_stages w e t i raw room stages ?l (st\<lparr>o_rooms := rs'\<rparr>) = (r, l', st')"
    by (cases "run_stages w e t i raw room stages ?l (st\<lparr>o_rooms := rs'\<rparr>)")
  note ok = run_stages_started [where w = w and e = e and t = t and i = i and st = st and rs = rs' and raw = raw and room = room, unfolded run run_ok_def prod.case]
  have fin: "fst (finish_run w e t i l' st') = conclude w e t i st (rl_outcome l') (rl_decisions l')"
    using ok by (intro finish_run_eq) simp
  show ?thesis
  proof (cases "pipeline_spec w t i raw (rogue_blocks st) (map fst stages) []")
    case (StageFailed n ds)
    then show ?thesis
      using ok stage_state [OF pipeline_failed_in [OF StageFailed]] process_invoice_started [OF assms, of e raw] run
      by (simp add: failed_stage_def del: pipeline_spec.simps)
  qed (use ok fin process_invoice_started [OF assms, of e raw] run in \<open>simp_all del: pipeline_spec.simps\<close>)
qed

section \<open>Properties\<close>

text \<open>Property C5: what a run returns. For a known tenant and a working room, the answer of \<open>process_invoice\<close> is decided by the agents
  in order: each sees exactly the decisions before it (the first one the raw bytes too); a halt of the gate on the fraud auditor's
  decision ends the run with that reason and without calling a later agent; a missing, quarantined or failing agent ends it with a
  signed packet of the decisions so far and the outcome \<open>Approve\<close>, except for the last agent, where the run ends in an error. A
  completed or halted run is signed and anchored, or returned unsigned while the human guard is suspended.\<close>

theorem pipeline_exact:
  assumes "tenants (w_registry w) t \<noteq> None" and "w_open w (o_rooms st) t i = (Inr room, rs)"
    and "w_post w rs room t ''orchestrator'' (''Processing invoice '' @ i) [] = (Inr (), rs')"
  shows "fst (process_invoice w e t i raw st) = (case pipeline_spec w t i raw (rogue_blocks st) (map fst stages) [] of
       StageFailed n ds \<Rightarrow> Some (if n = ''audit_watchdog'' then Inl (StateErr (TerminalState Done)) else sign w (assemble e t i ds Approve) t)
     | GateHalted r ds \<Rightarrow> conclude w e t i st (HaltWith r) ds
     | Completed ds \<Rightarrow> conclude w e t i st Approve ds)"
  using assms by (rule process_invoice_result)

text \<open>A concrete world: a room that accepts everything, and agents that answer with a fixed payload.\<close>

definition toy_decision :: "json \<Rightarrow> agent_decision" where
  "toy_decision payload = \<lparr>ad_agent_id = ''a'', ad_tenant_id = ''stark'', ad_invoice_id = ''i'', ad_decision_type = Extracted,
     ad_confidence = 0, ad_reasoning = ''ok'', ad_timestamp_ms = 0, ad_payload = payload\<rparr>"

definition toy_world_on :: "('r \<Rightarrow> string \<Rightarrow> string \<Rightarrow> (band_error + room_id) \<times> 'r) \<Rightarrow>
    ('r \<Rightarrow> room_id \<Rightarrow> string \<Rightarrow> string \<Rightarrow> string \<Rightarrow> string list \<Rightarrow> (band_error + unit) \<times> 'r) \<Rightarrow> string list \<Rightarrow> json \<Rightarrow> 'r orch_world" where
  "toy_world_on op po names payload = \<lparr>w_crypto = toy_crypto,
     w_codec = \<lparr>pc_json = (\<lambda>p. Inr (ep_invoice_id p)), pc_debug = (\<lambda>_. []), pc_blake3 = (\<lambda>x. x)\<rparr>,
     w_numbers = \<lparr>jn_f32 = (\<lambda>_. None), jn_u64 = (\<lambda>_. None)\<rparr>,
     w_agents = (\<lambda>n. if n \<in> set names then Some (\<lambda>ctx. Inr (toy_decision payload)) else None),
     w_registry = toy_registry, w_open = op, w_post = po, w_rekor = None, w_tsa = toy_tsa\<rparr>"

definition toy_world :: "string list \<Rightarrow> json \<Rightarrow> unit orch_world" where
  "toy_world = toy_world_on (\<lambda>rs t i. (Inr ''r'', rs)) (\<lambda>rs room t a b m. (Inr (), rs))"

definition toy_env :: call_env where
  "toy_env = \<lparr>ce_now = (\<lambda>_. 0), ce_run_id = (\<lambda>_. ''u''), ce_incident_ms = 0, ce_packet_id = ''p'', ce_generated_ms = 0, ce_instant = 0,
     ce_seal = \<lparr>se_now_retention = 0, se_now_append = 0, se_packet_id = ''p''\<rparr>\<rparr>"

definition toy_start_on :: "'r \<Rightarrow> rogue_monitor option \<Rightarrow> fatigue_detector option \<Rightarrow> 'r orchestrator" where
  "toy_start_on rs rm hg = \<lparr>o_rooms = rs, o_bus = Some [], o_rogue = rm, o_human = hg, o_machines = Map.empty,
     o_services = Some [''stark'' \<mapsto> evidence_for_tenant toy_crypto ''stark'']\<rparr>"

definition toy_start :: "rogue_monitor option \<Rightarrow> fatigue_detector option \<Rightarrow> unit orchestrator" where
  "toy_start = toy_start_on ()"

lemmas toy_defs = toy_decision_def toy_world_def toy_world_on_def toy_env_def toy_start_def toy_start_on_def toy_registry_def with_default_tenants_and_seed_def

theorem pipeline_exact_witness:
  "fst (process_invoice (toy_world (map fst stages) (JObject [(''explicit_halt'', JBool True)])) toy_env ''stark'' ''i'' ''raw'' (toy_start None None)) =
     conclude (toy_world (map fst stages) (JObject [(''explicit_halt'', JBool True)])) toy_env ''stark'' ''i'' (toy_start None None)
       (HaltWith ExplicitHaltRequested) (replicate 3 (toy_decision (JObject [(''explicit_halt'', JBool True)]))) \<and>
   fst (process_invoice (toy_world (butlast (map fst stages)) JNull) toy_env ''stark'' ''i'' ''raw'' (toy_start None None)) =
     Some (Inl (StateErr (TerminalState Done)))"
  using pipeline_exact [of "toy_world (map fst stages) (JObject [(''explicit_halt'', JBool True)])" "''stark''" "toy_start None None" "''i''" "''r''" "()" "()" toy_env "''raw''"]
    pipeline_exact [of "toy_world (butlast (map fst stages)) JNull" "''stark''" "toy_start None None" "''i''" "''r''" "()" "()" toy_env "''raw''"]
  by (simp add: toy_defs stages_def rogue_blocks_def gate_on_def baaar_check_def from_decision_payload_def json_get_def json_as_bool_def
      json_as_array_def f32_lt_def f32_key_def is_nan_def RISK_SCORE_HALT_def COHERENCE_FLOOR_def MAX_DEBATE_ROUNDS_def
      numeral_3_eq_3)

subsection \<open>The monitor over many invoices\<close>

definition messages :: "string list \<Rightarrow> rogue_op list" where
  "messages ns = map (\<lambda>n. Message n False) ns"

definition rooms_work :: "'r orch_world \<Rightarrow> bool" where
  "rooms_work w \<longleftrightarrow> (\<forall>rs t i. \<exists>room rs' rs''. w_open w rs t i = (Inr room, rs') \<and>
     w_post w rs' room t ''orchestrator'' (''Processing invoice '' @ i) [] = (Inr (), rs''))"

definition run_invoices :: "'r orch_world \<Rightarrow> (call_env \<times> string \<times> string \<times> string) list \<Rightarrow> 'r orchestrator \<Rightarrow> 'r orchestrator" where
  "run_invoices w calls st = foldl (\<lambda>st (e, t, i, raw). snd (process_invoice w e t i raw st)) st calls"

lemma rogue_run_append: "rogue_run (ops @ ops') rm = rogue_run ops' (rogue_run ops rm)"
  by (simp add: rogue_run_def)

lemma run_stages_rogue:
  "consecutive (sm_state (rl_sm l)) rest \<Longrightarrow>
     \<exists>k. o_rogue (snd (snd (run_stages w e t i raw room rest l st))) = map_option (rogue_run (messages (take k (map fst rest)))) (o_rogue st) \<and>
       (rest \<noteq> [] \<and> w_agents w (fst (hd rest)) \<noteq> None \<longrightarrow> 0 < k)"
proof (induction rest arbitrary: l st)
  case Nil
  then show ?case by (cases "o_rogue st") (auto simp: messages_def rogue_run_def)
next
  case (Cons stage rest)
  obtain n x where s: "stage = (n, x)" by (cases stage)
  obtain fl l' st' where rs: "run_stage w e t i raw room n x l st = (fl, l', st')" by (cases "run_stage w e t i raw room n x l st")
  have ok: "stage_ok w e t i room n x l st (pipeline_spec w t i raw (rogue_blocks st) [n] (rl_decisions l)) (fl, l', st')"
    using run_stage_ok [OF Cons.prems [unfolded s], of w e t i room st raw] rs by simp
  have one: "o_rogue st' = map_option (rogue_run (messages [n])) (o_rogue st)" if "w_agents w n \<noteq> None"
    using that ok by (cases "o_rogue st") (auto simp: stage_ok_def messages_def rogue_run_def)
  show ?case
  proof (cases fl)
    case Continue
    then have ag: "w_agents w n \<noteq> None" using ok by (auto simp: stage_ok_def split: option.splits)
    obtain k where "o_rogue (snd (snd (run_stages w e t i raw room rest l' st'))) = map_option (rogue_run (messages (take k (map fst rest)))) (o_rogue st')"
      using Cons.IH [of l' st'] Cons.prems s ok Continue by (auto simp: stage_ok_def split: pipeline_end.splits)
    then show ?thesis
      using one [OF ag] Continue rs s
      by (intro exI [of _ "Suc k"]) (cases "o_rogue st", simp_all add: messages_def rogue_run_def)
  next
    case Break
    then have "w_agents w n \<noteq> None" using ok by (auto simp: stage_ok_def split: option.splits)
    then show ?thesis using one Break rs s by (intro exI [of _ 1]) simp
  next
    case (Return r)
    show ?thesis
    proof (cases "w_agents w n")
      case None
      then have "o_rogue st' = o_rogue st" using ok by (simp add: stage_ok_def)
      then show ?thesis using Return rs s None by (intro exI [of _ 0]) (cases "o_rogue st", simp_all add: messages_def rogue_run_def)
    next
      case Some
      then show ?thesis using one Return rs s by (intro exI [of _ 1]) simp
    qed
  qed
qed

lemma finish_run_rogue: "o_rogue (snd (finish_run w e t i l st)) = o_rogue st"
  by (auto simp: finish_run_def destructive_blocked_def Let_def split: option.split sum.split prod.split)

lemma process_invoice_rogue:
  assumes "rooms_work w" and "tenants (w_registry w) t \<noteq> None" and "w_agents w ''extractor'' \<noteq> None"
  shows "\<exists>k. o_rogue (snd (process_invoice w e t i raw st)) = map_option (rogue_run (messages (take (Suc k) (map fst stages)))) (o_rogue st)"
proof -
  let ?l = "\<lparr>rl_sm = sm_new (ce_now e 0), rl_decisions = [], rl_outcome = Approve\<rparr>"
  obtain room rs rs' where o: "w_open w (o_rooms st) t i = (Inr room, rs)"
      "w_post w rs room t ''orchestrator'' (''Processing invoice '' @ i) [] = (Inr (), rs')"
    using assms(1) unfolding rooms_work_def by metis
  obtain r l' st' where run: "run_stages w e t i raw room stages ?l (st\<lparr>o_rooms := rs'\<rparr>) = (r, l', st')"
    by (cases "run_stages w e t i raw room stages ?l (st\<lparr>o_rooms := rs'\<rparr>)")
  obtain k where k: "o_rogue st' = map_option (rogue_run (messages (take k (map fst stages)))) (o_rogue st)" "0 < k"
    using run_stages_rogue [of ?l stages w e t i raw room "st\<lparr>o_rooms := rs'\<rparr>"] run assms(3) consecutive_stages
    by (auto simp: sm_new_def stages_def)
  have "o_rogue (snd (process_invoice w e t i raw st)) = o_rogue st'"
    using process_invoice_started [OF assms(2) o, of e raw] run finish_run_rogue [of w e t i l' st'] by (cases r) auto
  then show ?thesis using k by (metis gr0_implies_Suc)
qed

lemma streak_others: "agent \<notin> set ns \<Longrightarrow> foldl (streak_step agent) c (messages ns) = c"
  by (induction ns) (auto simp: messages_def streak_step_def)

lemma streak_stages: "foldl (streak_step ''extractor'') c (messages (take (Suc k) (map fst stages))) = Suc c"
proof -
  have "''extractor'' \<notin> set (take k (tl (map fst stages)))" by (auto simp: stages_def dest!: in_set_takeD)
  then show ?thesis
    using streak_others [of "''extractor''" "take k (tl (map fst stages))" "Suc c"]
    by (simp add: stages_def messages_def streak_step_def)
qed

lemma run_invoices_rogue:
  assumes "rooms_work w" and "w_agents w ''extractor'' \<noteq> None" and "\<forall>(e, t, i, raw) \<in> set calls. tenants (w_registry w) t \<noteq> None"
  shows "\<exists>ops. o_rogue (run_invoices w calls st) = map_option (rogue_run ops) (o_rogue st) \<and> length ops \<le> 8 * length calls \<and>
    streak ''extractor'' ops = length calls"
  using assms(3)
proof (induction calls rule: rev_induct)
  case Nil
  then show ?case by (cases "o_rogue st") (auto simp: run_invoices_def rogue_run_def streak_def intro: exI [of _ "[]"])
next
  case (snoc c calls)
  then obtain ops where ops: "o_rogue (run_invoices w calls st) = map_option (rogue_run ops) (o_rogue st)" "length ops \<le> 8 * length calls"
      "streak ''extractor'' ops = length calls" by auto
  obtain e t i raw where c: "c = (e, t, i, raw)" by (cases c)
  obtain k where k: "o_rogue (snd (process_invoice w e t i raw (run_invoices w calls st))) =
      map_option (rogue_run (messages (take (Suc k) (map fst stages)))) (o_rogue (run_invoices w calls st))"
    using process_invoice_rogue [OF assms(1) _ assms(2), of t e i raw "run_invoices w calls st"] snoc.prems c by auto
  have "length (messages (take (Suc k) (map fst stages))) \<le> 8" by (simp add: messages_def stages_def)
  then show ?case
    using ops k c streak_stages [of "length calls" k]
    by (intro exI [of _ "ops @ messages (take (Suc k) (map fst stages))"])
      (cases "o_rogue st", simp_all add: run_invoices_def rogue_run_append streak_def)
qed

text \<open>Fact: an attached rogue monitor stops the pipeline. Every run counts one message of the extractor that mentions nobody, so
  from the invoice whose number is the threshold on, whatever the agents answer, no agent is called: the run returns a signed
  packet without any decision, whose outcome is \<open>Approve\<close>.\<close>

theorem rogue_monitor_starves:
  assumes "rooms_work w" and "w_agents w ''extractor'' \<noteq> None" and "\<forall>(e, t, i, raw) \<in> set calls. tenants (w_registry w) t \<noteq> None"
    and "tenants (w_registry w) t \<noteq> None" and "rogue_with_threshold th = Some rm" and "o_rogue st = Some rm"
    and "unat th \<le> Suc (length calls)" and "length calls < 2 ^ 28"
  shows "fst (process_invoice w e t i raw (run_invoices w calls st)) = Some (sign w (assemble e t i [] Approve) t)"
proof -
  let ?st = "run_invoices w calls st"
  obtain ops where ops: "o_rogue ?st = Some (rogue_run ops rm)" "length ops \<le> 8 * length calls" "streak ''extractor'' ops = length calls"
    using run_invoices_rogue [OF assms(1-3), of st] assms(6) by auto
  have "is_quarantined (rogue_run (ops @ [Message ''extractor'' False]) rm) ''extractor''"
    using rogue_quarantined_iff [OF assms(5), of "ops @ [Message ''extractor'' False]" "''extractor''"] ops assms(7,8)
    by (simp add: streak_def streak_step_def)
  then have blocked: "rogue_blocks ?st ''extractor''" using ops(1) by (simp add: rogue_blocks_def rogue_run_def)
  have "pipeline_spec w t i raw (rogue_blocks ?st) (map fst stages) [] = StageFailed ''extractor'' []"
    using blocked assms(2) by (auto simp: stages_def)
  moreover obtain room rs rs' where "w_open w (o_rooms ?st) t i = (Inr room, rs)"
      "w_post w rs room t ''orchestrator'' (''Processing invoice '' @ i) [] = (Inr (), rs')"
    using assms(1) unfolding rooms_work_def by metis
  ultimately show ?thesis using process_invoice_result [OF assms(4), of ?st i room rs rs' e raw] by (simp del: pipeline_spec.simps)
qed

theorem rogue_monitor_starves_witness:
  "fst (process_invoice (toy_world (map fst stages) JNull) toy_env ''stark'' ''i'' ''raw''
     (run_invoices (toy_world (map fst stages) JNull) [(toy_env, ''wayne'', ''j'', ''raw'')]
       (toy_start (rogue_with_threshold 2) None))) =
   Some (sign (toy_world (map fst stages) JNull) (assemble toy_env ''stark'' ''i'' [] Approve) ''stark'')"
  by (rule rogue_monitor_starves [where th = 2 and rm = "the (rogue_with_threshold 2)"])
    (auto simp: toy_defs rooms_work_def rogue_with_threshold_def stages_def)

subsection \<open>Signatures\<close>

definition authentic :: "'r orch_world \<Rightarrow> signed_packet \<Rightarrow> bool" where
  "authentic w p \<longleftrightarrow> (\<exists>bytes pk sig. pc_json (w_codec w) (sd_packet p) = Inr bytes \<and>
     cr_hex_decode (w_crypto w) (sd_public_key_hex p) = Inr pk \<and> cr_hex_decode (w_crypto w) (sd_signature_hex p) = Inr sig \<and>
     cr_verify (w_crypto w) pk bytes sig = Inr ())"

lemma sign_Inr:
  assumes "crypto_laws (w_crypto w)" and "w_registry w = with_default_tenants_and_seed (w_crypto w) seed"
    and "tenants (w_registry w) t \<noteq> None" and "sign w p t = Inr q"
  shows "authentic w q \<and> sd_packet q = p \<and> sd_blake3_hash_hex q = packet_blake3_hash (w_codec w) p \<and> sd_rekor_entry q = None \<and>
    sd_public_key_hex q = public_key_hex (w_crypto w) (signer_for_tenant (w_crypto w) t)"
proof -
  have "sd_public_key_hex q = hex_encode (cr_public (w_crypto w) (sg_seed (signer_for_tenant (w_crypto w) t)))"
    using assms(2-4) by (auto simp: sign_def with_default_tenants_and_seed_def default_tenant_def public_key_hex_def wrap_def Let_def
        split: if_splits sum.splits)
  then show ?thesis
    using assms(1,4) by (auto simp: sign_def authentic_def crypto_laws_def sign_hex_def public_key_hex_def wrap_def Let_def split: sum.splits)
qed

lemma anchor_keeps:
  "sd_blake3_hash_hex q = packet_blake3_hash (w_codec w) (sd_packet q) \<Longrightarrow>
   sd_packet (anchor_in_rekor w q t) = sd_packet q \<and> authentic w (anchor_in_rekor w q t) = authentic w q \<and>
   sd_public_key_hex (anchor_in_rekor w q t) = sd_public_key_hex q \<and>
   sd_blake3_hash_hex (anchor_in_rekor w q t) = sd_blake3_hash_hex q"
  by (auto simp: anchor_in_rekor_def wrap_with_rekor_def authentic_def split: option.split sum.split)

lemma process_invoice_Inr:
  assumes "fst (process_invoice w e t i raw st) = Some (Inr p)"
  obtains oc ds where "tenants (w_registry w) t \<noteq> None" and "conclude w e t i st oc ds = Some (Inr p)"
  | ds where "tenants (w_registry w) t \<noteq> None" and "sign w (assemble e t i ds Approve) t = Inr p"
proof -
  have t: "tenants (w_registry w) t \<noteq> None" using assms by (auto simp: process_invoice_def split: if_splits)
  obtain r1 rs where o: "w_open w (o_rooms st) t i = (r1, rs)" by (cases "w_open w (o_rooms st) t i")
  obtain room where r1: "r1 = Inr room" using assms t o by (cases r1) (auto simp: process_invoice_def)
  obtain r2 rs' where o2: "w_post w rs room t ''orchestrator'' (''Processing invoice '' @ i) [] = (r2, rs')"
    by (cases "w_post w rs room t ''orchestrator'' (''Processing invoice '' @ i) []")
  have "r2 = Inr ()" using assms t o r1 o2 by (cases r2) (auto simp: process_invoice_def)
  then show thesis
    using process_invoice_result [OF t, of st i room rs rs' e raw] o o2 r1 assms that t
    by (auto simp del: pipeline_spec.simps split: pipeline_end.splits if_splits)
qed

text \<open>Property C6: signed packets are authentic. Whatever the agents, the room, the log and the guards do, a packet that
  \<open>process_invoice\<close> returns is about the invoice and tenant asked for and carries the hash of its content; and unless its signature is empty,
  the public key in the packet is the one of the tenant's signing service and the signature verifies under it over the JSON text of the packet.\<close>

theorem signed_runs_verify:
  assumes "crypto_laws (w_crypto w)" and "w_registry w = with_default_tenants_and_seed (w_crypto w) seed"
    and "fst (process_invoice w e t i raw st) = Some (Inr p)"
  shows "ep_tenant_id (sd_packet p) = t \<and> ep_invoice_id (sd_packet p) = i \<and>
    sd_blake3_hash_hex p = packet_blake3_hash (w_codec w) (sd_packet p) \<and>
    (sd_signature_hex p = [] \<or>
       authentic w p \<and> sd_public_key_hex p = public_key_hex (w_crypto w) (signer_for_tenant (w_crypto w) t))"
  using assms(3)
proof (cases rule: process_invoice_Inr)
  case (1 oc ds)
  then consider "p = wrap (w_codec w) (assemble e t i ds oc) [] []"
    | q where "sign w (assemble e t i ds oc) t = Inr q" "p = anchor_in_rekor w q t"
    by (auto simp: conclude_def map_sum_def split: option.splits bool.splits sum.splits)
  then show ?thesis
  proof cases
    case 1
    then show ?thesis by (simp add: wrap_def assemble_def evidence_packet_new_def)
  next
    case (2 q)
    then show ?thesis
      using sign_Inr [OF assms(1,2) \<open>tenants (w_registry w) t \<noteq> None\<close> 2(1)] anchor_keeps [of q w t]
      by (simp add: assemble_def evidence_packet_new_def)
  qed
next
  case (2 ds)
  then show ?thesis using sign_Inr [OF assms(1,2) 2] by (simp add: assemble_def evidence_packet_new_def)
qed

theorem signed_runs_verify_witness:
  "\<exists>p. fst (process_invoice (toy_world [] JNull) toy_env ''stark'' ''i'' ''raw'' (toy_start None None)) = Some (Inr p) \<and>
     authentic (toy_world [] JNull) p \<and> sd_public_key_hex p = public_key_hex toy_crypto (signer_for_tenant toy_crypto ''stark'') \<and>
     sd_signature_hex p \<noteq> []"
proof -
  obtain p where p: "sign (toy_world [] JNull) (assemble toy_env ''stark'' ''i'' [] Approve) ''stark'' = Inr p" "sd_signature_hex p \<noteq> []"
    by (simp add: sign_def toy_defs wrap_def sign_hex_def toy_crypto_def hex_encode_def hex_byte_def)
  have "fst (process_invoice (toy_world [] JNull) toy_env ''stark'' ''i'' ''raw'' (toy_start None None)) = Some (Inr p)"
    using process_invoice_result [of "toy_world [] JNull" "''stark''" "toy_start None None" "''i''" "''r''" "()" "()" toy_env "''raw''"] p(1)
    by (simp add: toy_world_def toy_world_on_def toy_registry_def with_default_tenants_and_seed_def stages_def)
  then show ?thesis
    using signed_runs_verify [of "toy_world [] JNull" "''seed''" toy_env "''stark''" "''i''" "''raw''" "toy_start None None" p] toy_crypto_laws p(2)
    by (simp add: toy_world_def toy_world_on_def toy_registry_def)
qed

subsection \<open>Transcripts\<close>

fun decisions_of :: "pipeline_end \<Rightarrow> agent_decision list" where
  "decisions_of (Completed ds) = ds"
| "decisions_of (GateHalted r ds) = ds"
| "decisions_of (StageFailed n ds) = ds"

definition handoffs :: "string list \<Rightarrow> agent_decision list \<Rightarrow> (string \<times> string \<times> string list) list" where
  "handoffs ns ds = map (\<lambda>(n, d). (n, ad_reasoning d, next_agent_mention n)) (zip ns ds)"

definition said :: "band_message \<Rightarrow> string \<times> string \<times> string list" where
  "said m = (bm_from m, bm_body m, bm_mentions m)"

lemma one_stage_end:
  "pipeline_spec w t i raw b [n] ds = StageFailed n ds \<or>
   (\<exists>d. pipeline_spec w t i raw b [n] ds = Completed (ds @ [d])) \<or> (\<exists>r d. pipeline_spec w t i raw b [n] ds = GateHalted r (ds @ [d]))"
  by (auto split: option.split sum.split outcome.split)

context band_room
begin

lemma run_stages_transcript:
  assumes "w_post w = (\<lambda>rs. r_post rs (clk rs))" and "consecutive (sm_state (rl_sm l)) rest"
    and "may_post (o_rooms st) room t" and "r_history (o_rooms st) room = Inr ms"
  shows "\<exists>new ms'. decisions_of (pipeline_spec w t i raw (rogue_blocks st) (map fst rest) (rl_decisions l)) = rl_decisions l @ new \<and>
    r_history (o_rooms (snd (snd (run_stages w e t i raw room rest l st)))) room = Inr (ms @ ms') \<and>
    map said ms' = handoffs (map fst rest) new"
  using assms(2-4)
proof (induction rest arbitrary: l st ms)
  case Nil
  then show ?case by (simp add: handoffs_def)
next
  case (Cons stage rest)
  obtain n x where s: "stage = (n, x)" by (cases stage)
  obtain fl l' st' where rs: "run_stage w e t i raw room n x l st = (fl, l', st')" by (cases "run_stage w e t i raw room n x l st")
  let ?pe = "pipeline_spec w t i raw (rogue_blocks st) [n] (rl_decisions l)"
  have ok: "stage_ok w e t i room n x l st ?pe (fl, l', st')"
    using run_stage_ok [OF Cons.prems(1) [unfolded s], of w e t i room st raw] rs by simp
  have pe: "pipeline_spec w t i raw (rogue_blocks st) (map fst (stage # rest)) (rl_decisions l) =
      (case ?pe of Completed ds \<Rightarrow> pipeline_spec w t i raw (rogue_blocks st) (map fst rest) ds | pe \<Rightarrow> pe)"
    unfolding s list.map fst_conv by (rule pipeline_spec_Cons)
  have posted: "\<exists>m. r_history (snd (w_post w (o_rooms st) room t n b ns)) room = Inr (ms @ [m]) \<and> said m = (n, b, ns) \<and>
      may_post (snd (w_post w (o_rooms st) room t n b ns)) room t" for b ns
    using assms(1) post_accepted [OF Cons.prems(2,3), of "clk (o_rooms st)" n b ns] post_keeps Cons.prems(2)
    by (simp add: message_of_def said_def)
  consider (failed) "?pe = StageFailed n (rl_decisions l)" | (completed) d where "?pe = Completed (rl_decisions l @ [d])"
    | (halted) r d where "?pe = GateHalted r (rl_decisions l @ [d])"
    using one_stage_end [of w t i raw "rogue_blocks st" n "rl_decisions l"] by blast
  then show ?case
  proof cases
    case failed
    then show ?thesis using ok Cons.prems(3) unfolding pe
      by (auto simp: s rs stage_ok_def handoffs_def simp del: pipeline_spec.simps)
  next
    case (halted r d)
    then show ?thesis using ok posted [of "ad_reasoning d" "next_agent_mention n"] unfolding pe
      by (auto simp: s rs stage_ok_def handoffs_def simp del: pipeline_spec.simps)
  next
    case (completed d)
    note eq = rest_spec [OF ok completed, of rest]
    obtain m where m: "r_history (o_rooms st') room = Inr (ms @ [m])" "said m = (n, ad_reasoning d, next_agent_mention n)" "may_post (o_rooms st') room t"
      using posted [of "ad_reasoning d" "next_agent_mention n"] ok completed by (auto simp: stage_ok_def)
    then show ?thesis
      using Cons.IH [of l' st' "ms @ [m]"] Cons.prems ok completed eq unfolding pe
      by (auto simp: s rs stage_ok_def handoffs_def simp del: pipeline_spec.simps)
  qed
qed

end

lemma finish_run_rooms: "o_rooms (snd (finish_run w e t i l st)) = o_rooms st"
  by (auto simp: finish_run_def destructive_blocked_def Let_def split: option.split sum.split prod.split)

text \<open>Fact: the transcript shows the run. With the in-memory room, a run of a known tenant on a room not opened before leaves in it
  the opening message and then, in order, one message for each decision the pipeline took: the agent's name, its reasoning and
  the agent it mentions. Nothing is posted for an agent that failed or was not called.\<close>

theorem run_transcript_exact:
  assumes "w_open w = mock_open uuid_v5" and "w_post w = (\<lambda>rs. mock_post rs (clk rs))" and "tenants (w_registry w) t \<noteq> None"
    and "o_rooms st (uuid_v5 (t @ '':'' @ i)) = None"
  shows "\<exists>ms. mock_history (o_rooms (snd (process_invoice w e t i raw st))) (uuid_v5 (t @ '':'' @ i)) = Inr ms \<and>
    map said ms = (''orchestrator'', ''Processing invoice '' @ i, []) #
      handoffs (map fst stages) (decisions_of (pipeline_spec w t i raw (rogue_blocks st) (map fst stages) []))"
proof -
  let ?l = "\<lparr>rl_sm = sm_new (ce_now e 0), rl_decisions = [], rl_outcome = Approve\<rparr>"
  define room where "room = uuid_v5 (t @ '':'' @ i)"
  define rs where "rs = snd (mock_open uuid_v5 (o_rooms st) t i)"
  have o: "w_open w (o_rooms st) t i = (Inr room, rs)" using assms(1) by (simp add: rs_def room_def mock_open_def Let_def)
  have new: "mock_history rs room = Inr []" "mock_may_post rs room t"
    using assms(4) by (auto simp: rs_def room_def mock_open_def mock_history_def mock_may_post_def Let_def)
  define rs' where "rs' = snd (mock_post rs (clk rs) room t ''orchestrator'' (''Processing invoice '' @ i) [])"
  note post = mock.post_accepted [OF new(2,1), of "clk rs" "''orchestrator''" "''Processing invoice '' @ i" "[]", folded rs'_def]
  have p: "w_post w rs room t ''orchestrator'' (''Processing invoice '' @ i) [] = (Inr (), rs')"
    using conjunct1 [OF post] unfolding assms(2) rs'_def by (intro prod_eqI) (simp_all only: fst_conv snd_conv)
  obtain m where m: "mock_history rs' room = Inr [m]" "said m = (''orchestrator'', ''Processing invoice '' @ i, [])"
    using conjunct2 [OF post] by (simp add: message_of_def said_def)
  have may: "mock_may_post rs' room t" unfolding rs'_def mock.post_keeps by (rule new(2))
  obtain r l' st' where run: "run_stages w e t i raw room stages ?l (st\<lparr>o_rooms := rs'\<rparr>) = (r, l', st')"
    by (cases "run_stages w e t i raw room stages ?l (st\<lparr>o_rooms := rs'\<rparr>)")
  have "rogue_blocks (st\<lparr>o_rooms := rs'\<rparr>) = rogue_blocks st" by (simp add: rogue_blocks_def fun_eq_iff)
  then obtain ms' where ms': "mock_history (o_rooms st') room = Inr (m # ms')"
      "map said ms' = handoffs (map fst stages) (decisions_of (pipeline_spec w t i raw (rogue_blocks st) (map fst stages) []))"
    using mock.run_stages_transcript [OF assms(2), of ?l stages "st\<lparr>o_rooms := rs'\<rparr>" room t "[m]" i raw e] consecutive_stages m may run
    by (auto simp: sm_new_def simp del: pipeline_spec.simps)
  have "o_rooms (snd (process_invoice w e t i raw st)) = o_rooms st'"
    using process_invoice_started [OF assms(3) o p, of e raw] run finish_run_rooms [of w e t i l' st'] by (cases r) auto
  then show ?thesis using ms' m(2) unfolding room_def [symmetric] by (intro exI [of _ "m # ms'"]) (simp del: pipeline_spec.simps)
qed

theorem run_transcript_exact_witness:
  "\<exists>ms. mock_history (o_rooms (snd (process_invoice (toy_world_on (mock_open (\<lambda>x. x)) (\<lambda>rs. mock_post rs 0) [''extractor''] JNull) toy_env
       ''stark'' ''i'' ''raw'' (toy_start_on Map.empty None None)))) ''stark:i'' = Inr ms \<and>
     map said ms = [(''orchestrator'', ''Processing invoice i'', []), (''extractor'', ''ok'', [''fraud_auditor''])]"
  using run_transcript_exact [of "toy_world_on (mock_open (\<lambda>x. x)) (\<lambda>rs. mock_post rs 0) [''extractor''] JNull" "\<lambda>x. x" "\<lambda>rs. 0" "''stark''"
      "toy_start_on Map.empty None None" "''i''" toy_env "''raw''"]
  by (simp add: toy_defs stages_def rogue_blocks_def gate_on_def handoffs_def next_agent_mention_def)

subsection \<open>Sealing\<close>

lemma seal_signed_Inr:
  assumes "seal_signed w e p t i st = (Inr sealed, st')" and "o_services st = Some services" and "services t = Some svc"
  shows "sp_signature_hex sealed = sign_hex (w_crypto w) (es_signer svc) (cr_blake3 (w_crypto w) (sp_payload_canonical_json sealed)) \<and>
    (\<exists>services' svc'. o_services st' = Some services' \<and> services' t = Some svc' \<and> length (es_chain svc') = Suc (length (es_chain svc)))"
  using assms
  by (auto simp: seal_signed_def seal_def Let_def ev_append_with_timestamp_def split: sum.splits if_splits prod.splits)

lemma finish_run_services: "o_services (snd (finish_run w e t i l st)) = o_services st"
  by (auto simp: finish_run_def destructive_blocked_def Let_def split: option.split sum.split prod.split)

lemma process_invoice_services:
  assumes "tenants (w_registry w) t \<noteq> None" and "w_open w (o_rooms st) t i = (Inr room, rs)"
    and "w_post w rs room t ''orchestrator'' (''Processing invoice '' @ i) [] = (Inr (), rs')"
  shows "o_services (snd (process_invoice w e t i raw st)) = o_services st"
proof -
  let ?l = "\<lparr>rl_sm = sm_new (ce_now e 0), rl_decisions = [], rl_outcome = Approve\<rparr>"
  obtain r l' st' where run: "run_stages w e t i raw room stages ?l (st\<lparr>o_rooms := rs'\<rparr>) = (r, l', st')"
    by (cases "run_stages w e t i raw room stages ?l (st\<lparr>o_rooms := rs'\<rparr>)")
  have "o_services st' = o_services st"
    using run_stages_started [where w = w and e = e and t = t and i = i and st = st and rs = rs' and raw = raw and room = room] run
    by (simp add: run_ok_def del: pipeline_spec.simps)
  then show ?thesis using process_invoice_started [OF assms, of e raw] run finish_run_services [of w e t i l' st'] by (cases r) auto
qed

text \<open>Fact: a suspended human guard does not stop sealing. While the guard refuses authorization, a completed run returns a packet
  without a signature; \<open>process_invoice_sealed\<close> nevertheless seals it: the sealed packet has the tenant's signature, and the chain
  has one more entry.\<close>

theorem suspended_run_still_sealed:
  assumes "tenants (w_registry w) t \<noteq> None" and "w_open w (o_rooms st) t i = (Inr room, rs)"
    and "w_post w rs room t ''orchestrator'' (''Processing invoice '' @ i) [] = (Inr (), rs')"
    and "pipeline_spec w t i raw (rogue_blocks st) (map fst stages) [] = Completed ds" and "fst (destructive_blocked e st) = Some True"
    and "o_services st = Some services" and "services t = Some svc"
    and "process_invoice_sealed w e t i raw st = (Some (Inr (p, Some sealed)), st')"
  shows "sd_signature_hex p = [] \<and>
    sp_signature_hex sealed = sign_hex (w_crypto w) (es_signer svc) (cr_blake3 (w_crypto w) (sp_payload_canonical_json sealed)) \<and>
    (\<exists>services' svc'. o_services st' = Some services' \<and> services' t = Some svc' \<and> length (es_chain svc') = Suc (length (es_chain svc)))"
proof -
  obtain st1 where run: "process_invoice w e t i raw st = (Some (Inr p), st1)" and seal: "seal_signed w e p t i st1 = (Inr sealed, st')"
    using assms(8) by (auto simp: process_invoice_sealed_def split: prod.splits option.splits sum.splits)
  have "p = wrap (w_codec w) (assemble e t i ds Approve) [] []"
    using process_invoice_result [OF assms(1-3), of e raw] run assms(4,5) by (simp add: conclude_def del: pipeline_spec.simps)
  then have "sd_signature_hex p = []" by (simp add: wrap_def)
  moreover have "o_services st1 = Some services" using process_invoice_services [OF assms(1-3), of e raw] run assms(6) by simp
  ultimately show ?thesis using seal_signed_Inr [OF seal, of services svc] assms(7) by simp
qed

definition toy_suspended :: fatigue_detector where
  "toy_suspended = \<lparr>max_approvals = 1, fd_window = 60, fd_approvals = [0, 0]\<rparr>"

lemma toy_suspended_run:
  fixes w defines "w \<equiv> toy_world (map fst stages) JNull"
  shows "\<exists>st1. process_invoice w toy_env ''stark'' ''i'' ''raw'' (toy_start None (Some toy_suspended)) =
      (Some (Inr (wrap (w_codec w) (assemble toy_env ''stark'' ''i'' (map (\<lambda>_. toy_decision JNull) stages) Approve) [] [])), st1) \<and>
      o_services st1 = Some [''stark'' \<mapsto> evidence_for_tenant toy_crypto ''stark'']"
    and "pipeline_spec w ''stark'' ''i'' ''raw'' (rogue_blocks (toy_start None (Some toy_suspended))) (map fst stages) [] = Completed (map (\<lambda>_. toy_decision JNull) stages)"
    and "fst (destructive_blocked toy_env (toy_start None (Some toy_suspended))) = Some True"
proof -
  let ?st = "toy_start None (Some toy_suspended)"
  show spec: "pipeline_spec w ''stark'' ''i'' ''raw'' (rogue_blocks ?st) (map fst stages) [] = Completed (map (\<lambda>_. toy_decision JNull) stages)"
    by (simp add: w_def toy_defs stages_def rogue_blocks_def gate_on_def baaar_check_def from_decision_payload_def json_get_def
        f32_lt_def f32_key_def is_nan_def RISK_SCORE_HALT_def COHERENCE_FLOOR_def MAX_DEBATE_ROUNDS_def)
  show susp: "fst (destructive_blocked toy_env ?st) = Some True"
    by (simp add: destructive_blocked_def toy_defs toy_suspended_def check_authorization_def prune_def expired_def queue_count_def)
  show "\<exists>st1. process_invoice w toy_env ''stark'' ''i'' ''raw'' ?st =
      (Some (Inr (wrap (w_codec w) (assemble toy_env ''stark'' ''i'' (map (\<lambda>_. toy_decision JNull) stages) Approve) [] [])), st1) \<and>
      o_services st1 = Some [''stark'' \<mapsto> evidence_for_tenant toy_crypto ''stark'']"
    using process_invoice_result [of w "''stark''" ?st "''i''" "''r''" "()" "()" toy_env "''raw''"] spec susp
      process_invoice_services [of w "''stark''" ?st "''i''" "''r''" "()" "()" toy_env "''raw''"]
    by (cases "process_invoice w toy_env ''stark'' ''i'' ''raw'' ?st")
      (simp add: conclude_def w_def toy_world_def toy_world_on_def toy_start_def toy_start_on_def toy_registry_def
        with_default_tenants_and_seed_def del: pipeline_spec.simps)
qed

lemma toy_seals:
  assumes "o_services st = Some [''stark'' \<mapsto> evidence_for_tenant toy_crypto ''stark'']"
  shows "\<exists>sealed st'. seal_signed (toy_world names payload) toy_env p ''stark'' i st = (Inr sealed, st')"
proof -
  have "cr_json toy_crypto x = Inr x" "tsa_stamp toy_tsa x = Inr \<lparr>tr_time = ''now'', tr_accuracy_ms = 1\<rparr>" "tsa_verify toy_tsa y x" for x y
    by (simp_all add: toy_crypto_def toy_tsa_def)
  moreover have "w_crypto (toy_world names payload) = toy_crypto" "w_tsa (toy_world names payload) = toy_tsa"
      "pc_json (w_codec (toy_world names payload)) p = Inr (ep_invoice_id p)" for p
    by (simp_all add: toy_world_def toy_world_on_def)
  ultimately show ?thesis
    using assms by (simp add: seal_signed_def seal_def enforce_retention_def evidence_for_tenant_def Let_def)
qed

theorem suspended_run_still_sealed_witness:
  "\<exists>p sealed st'. process_invoice_sealed (toy_world (map fst stages) JNull) toy_env ''stark'' ''i'' ''raw'' (toy_start None (Some toy_suspended)) =
     (Some (Inr (p, Some sealed)), st') \<and> sd_signature_hex p = [] \<and> sp_signature_hex sealed \<noteq> []"
proof -
  let ?w = "toy_world (map fst stages) JNull" and ?st = "toy_start None (Some toy_suspended)"
  obtain st1 where st1: "process_invoice ?w toy_env ''stark'' ''i'' ''raw'' ?st =
      (Some (Inr (wrap (w_codec ?w) (assemble toy_env ''stark'' ''i'' (map (\<lambda>_. toy_decision JNull) stages) Approve) [] [])), st1)"
      "o_services st1 = Some [''stark'' \<mapsto> evidence_for_tenant toy_crypto ''stark'']"
    using toy_suspended_run(1) by blast
  obtain p sealed st' where r: "process_invoice_sealed ?w toy_env ''stark'' ''i'' ''raw'' ?st = (Some (Inr (p, Some sealed)), st')"
    using st1(1) toy_seals [OF st1(2), of "map fst stages" JNull
        "wrap (w_codec ?w) (assemble toy_env ''stark'' ''i'' (map (\<lambda>_. toy_decision JNull) stages) Approve) [] []" "''i''"]
    by (auto simp: process_invoice_sealed_def)
  have "sp_signature_hex sealed \<noteq> []"
    using suspended_run_still_sealed [OF _ _ _ toy_suspended_run(2,3) _ _ r, of "''r''" "()" "()" "[''stark'' \<mapsto> evidence_for_tenant toy_crypto ''stark'']"]
    by (simp add: toy_defs sign_hex_def toy_crypto_def hex_encode_def hex_byte_def)
  moreover have "sd_signature_hex p = []" using r st1(1) by (auto simp: process_invoice_sealed_def wrap_def split: prod.splits sum.splits)
  ultimately show ?thesis using r by blast
qed

end
