(* ===== verification/Trust.thy ===== *)
theory Trust
  imports Evidence
begin

text \<open>
  The trust boundaries between agents: \<^verbatim>\<open>crates/themis-band-client/src/signed_message.rs\<close> and \<^verbatim>\<open>trust_gate.rs\<close> (signed messages and the
  senders a peer accepts), \<^verbatim>\<open>crates/tl-mcp-server/src/rule_of_two.rs\<close> (the quorum before a destructive action) and
  \<^verbatim>\<open>crates/tl-argus/src/cordon.rs\<close> (no raw code for the synthesizing agent).

  A verifying key is its bytes. Ed25519, base58, hex and the canonical JSON text are the parameter \<open>dalek\<close>; the difference of time
  stamps wraps as \<^verbatim>\<open>i64\<close> arithmetic does in a release build.
\<close>

section \<open>Signed messages\<close>

record dalek =
  dk_public :: "string \<Rightarrow> string"
  dk_sign :: "string \<Rightarrow> string \<Rightarrow> string"
  dk_parse :: "string \<Rightarrow> bool"
  dk_verify_strict :: "string \<Rightarrow> string \<Rightarrow> string \<Rightarrow> bool"
  dk_b58 :: "string \<Rightarrow> string"
  dk_unb58 :: "string \<Rightarrow> string option"
  dk_hex_decode :: "string \<Rightarrow> string + string"
  dk_jcs :: "json \<Rightarrow> string"

definition MAX_TIMESTAMP_SKEW_MS :: int where "MAX_TIMESTAMP_SKEW_MS = 60000"

definition ED25519_PUB_MULTICODEC :: string where "ED25519_PUB_MULTICODEC = [CHR 0xED, CHR 0x01]"

record did =
  did_method :: string
  did_id :: string

definition did_from_verifying_key :: "dalek \<Rightarrow> string \<Rightarrow> did" where
  "did_from_verifying_key dk pk =
     \<lparr>did_method = ''did:key'', did_id = ''z6Mk'' @ dk_b58 dk (ED25519_PUB_MULTICODEC @ pk)\<rparr>"

definition did_as_string :: "did \<Rightarrow> string" where
  "did_as_string d = did_method d @ '':'' @ did_id d"

record signed_message =
  sm_did :: did
  sm_body :: json
  sm_signature_hex :: string
  sm_timestamp_ms :: i64

datatype signed_message_error = InvalidDid | MsgInvalidSignature | TimestampSkew | Canonicalize string | HexDecode string

definition signed_payload :: "dalek \<Rightarrow> json \<Rightarrow> i64 \<Rightarrow> string" where
  "signed_payload dk body timestamp_ms = dk_jcs dk body @ be_bytes 8 (unat timestamp_ms)"

definition sign_message :: "dalek \<Rightarrow> json \<Rightarrow> string \<Rightarrow> i64 \<Rightarrow> signed_message" where
  "sign_message dk body signing_key timestamp_ms =
     \<lparr>sm_did = did_from_verifying_key dk (dk_public dk signing_key), sm_body = body,
      sm_signature_hex = hex_encode (dk_sign dk signing_key (signed_payload dk body timestamp_ms)), sm_timestamp_ms = timestamp_ms\<rparr>"

definition did_to_verifying_key :: "dalek \<Rightarrow> did \<Rightarrow> signed_message_error + string" where
  "did_to_verifying_key dk d =
     (if did_method d \<noteq> ''did:key'' then Inl InvalidDid
      else (case strip_prefix ''z6Mk'' (did_id d) of
          None \<Rightarrow> Inl InvalidDid
        | Some i \<Rightarrow> (case dk_unb58 dk i of
              None \<Rightarrow> Inl InvalidDid
            | Some raw \<Rightarrow>
                if length raw \<noteq> 2 + 32 \<or> take 2 raw \<noteq> ED25519_PUB_MULTICODEC then Inl InvalidDid
                else if dk_parse dk (drop 2 raw) then Inr (drop 2 raw) else Inl InvalidDid)))"

definition i64_abs :: "i64 \<Rightarrow> i64" where
  "i64_abs d = (if sint d < 0 then - d else d)"

definition verify_message :: "dalek \<Rightarrow> signed_message \<Rightarrow> i64 \<Rightarrow> signed_message_error + unit" where
  "verify_message dk msg now_ms =
     (let skew = i64_abs (sm_timestamp_ms msg - now_ms)
      in if sint skew > MAX_TIMESTAMP_SKEW_MS then Inl TimestampSkew
         else (case did_to_verifying_key dk (sm_did msg) of
             Inl e \<Rightarrow> Inl e
           | Inr pk \<Rightarrow> (case dk_hex_decode dk (sm_signature_hex msg) of
                 Inl e \<Rightarrow> Inl (HexDecode e)
               | Inr sig_bytes \<Rightarrow>
                   if length sig_bytes \<noteq> 64 then Inl MsgInvalidSignature
                   else if dk_verify_strict dk pk (signed_payload dk (sm_body msg) (sm_timestamp_ms msg)) sig_bytes then Inr ()
                   else Inl MsgInvalidSignature)))"

section \<open>Trust gate\<close>

record trust_gate =
  known_dids :: "did \<rightharpoonup> string"
  allow_unsigned_for_testing :: bool

datatype trust_gate_error = SignedErr signed_message_error | UntrustedDid string

definition trust_gate_new :: "bool \<Rightarrow> trust_gate" where
  "trust_gate_new allow_unsigned = \<lparr>known_dids = Map.empty, allow_unsigned_for_testing = allow_unsigned\<rparr>"

definition trust :: "trust_gate \<Rightarrow> did \<Rightarrow> string \<Rightarrow> trust_gate" where
  "trust g d pubkey = g\<lparr>known_dids := (known_dids g)(d \<mapsto> pubkey)\<rparr>"

definition trust_check :: "dalek \<Rightarrow> trust_gate \<Rightarrow> signed_message \<Rightarrow> i64 \<Rightarrow> trust_gate_error + unit" where
  "trust_check dk g msg now_ms = (case verify_message dk msg now_ms of
       Inl e \<Rightarrow> Inl (SignedErr e)
     | Inr _ \<Rightarrow>
         if known_dids g (sm_did msg) = None \<and> \<not> allow_unsigned_for_testing g then Inl (UntrustedDid (did_as_string (sm_did msg)))
         else Inr ())"

section \<open>Rule of two\<close>

definition EXTENDED_CI_ENV_VARS :: "string list" where
  "EXTENDED_CI_ENV_VARS = [''CI'', ''GITHUB_ACTIONS'', ''JENKINS_URL'', ''TF_BUILD'', ''BUILDKITE'', ''DRONE'', ''CIRRUS_CI'', ''WOODPECKER'',
     ''GITLAB_CI'', ''BAMBOO_BUILDKEY'', ''TRAVIS'', ''APPVEYOR'', ''CIRCLECI'', ''TEAMCITY_VERSION'', ''AZURE_HTTP_USER_AGENT'', ''NETLIFY'', ''VERCEL'']"

definition HUMAN_OVERRIDE_ENV :: string where "HUMAN_OVERRIDE_ENV = ''APOHARA_WRITE_AGENT_TRUST''"

datatype quorum_reason = NoCiEnv | NoTty | NoHumanOverride

record host =
  h_env :: "string \<rightharpoonup> string"
  h_stdin_tty :: bool
  h_stdout_tty :: bool

definition detect_ci_environment :: "host \<Rightarrow> string list \<Rightarrow> string option" where
  "detect_ci_environment h env_vars = List.find (\<lambda>name. h_env h name \<noteq> None) env_vars"

definition has_interactive_tty :: "host \<Rightarrow> bool" where
  "has_interactive_tty h = (h_stdin_tty h \<and> h_stdout_tty h)"

definition has_human_override :: "host \<Rightarrow> bool" where
  "has_human_override h = (h_env h HUMAN_OVERRIDE_ENV \<noteq> None)"

record trust_quorum =
  tq_ci :: bool
  tq_tty :: bool
  tq_human :: bool
  tq_passes :: bool

definition check_rule_of_two :: "host \<Rightarrow> trust_quorum" where
  "check_rule_of_two h =
     (let ci = (detect_ci_environment h EXTENDED_CI_ENV_VARS \<noteq> None);
          tty = has_interactive_tty h;
          human = has_human_override h;
          count = (of_bool ci + of_bool tty + of_bool human :: 8 word)
      in \<lparr>tq_ci = ci, tq_tty = tty, tq_human = human, tq_passes = (count \<ge> 2)\<rparr>)"

definition enforce :: "host \<Rightarrow> quorum_reason + trust_quorum" where
  "enforce h =
     (let q = check_rule_of_two h
      in if tq_passes q then Inr q
         else Inl (if \<not> tq_ci q then NoCiEnv else if \<not> tq_tty q then NoTty else NoHumanOverride))"

section \<open>Cordon\<close>

datatype cordon_error = RawCodeLeak | InvalidSpec string

datatype context_requirement = DiffOnly | DiffPlusRepoSample | OtherAgentsOutputs

definition verify_safe_to_synthesize :: "context_requirement \<Rightarrow> cordon_error + unit" where
  "verify_safe_to_synthesize c = (case c of OtherAgentsOutputs \<Rightarrow> Inr () | _ \<Rightarrow> Inl RawCodeLeak)"

text \<open>\<^verbatim>\<open>lines\<close> splits at line feeds; a carriage return before one and an empty last line do not change how a line starts.\<close>

definition diff_text :: "string \<Rightarrow> bool" where
  "diff_text s \<longleftrightarrow> list_ex (\<lambda>l. prefix ''+ '' l \<or> prefix ''- '' l) (split_on newline s) \<and> newline \<in> set s"

definition raw_key :: "(string \<Rightarrow> string) \<Rightarrow> string \<Rightarrow> bool" where
  "raw_key lower k = (let kl = lower k in contains_str kl ''raw'' \<and> contains_str kl ''code'' \<or> kl = ''raw_diff'')"

fun scan_for_raw_code :: "(string \<Rightarrow> string) \<Rightarrow> json \<Rightarrow> cordon_error + unit"
  and scan_items :: "(string \<Rightarrow> string) \<Rightarrow> json list \<Rightarrow> cordon_error + unit"
  and scan_fields :: "(string \<Rightarrow> string) \<Rightarrow> (string \<times> json) list \<Rightarrow> cordon_error + unit" where
  "scan_for_raw_code lower (JString s) = (if diff_text s then Inl RawCodeLeak else Inr ())"
| "scan_for_raw_code lower (JArray vs) = scan_items lower vs"
| "scan_for_raw_code lower (JObject kvs) = scan_fields lower kvs"
| "scan_for_raw_code lower JNull = Inr ()"
| "scan_for_raw_code lower (JBool b) = Inr ()"
| "scan_for_raw_code lower (JNumber n) = Inr ()"
| "scan_items lower [] = Inr ()"
| "scan_items lower (v # vs) = (case scan_for_raw_code lower v of Inl e \<Rightarrow> Inl e | Inr _ \<Rightarrow> scan_items lower vs)"
| "scan_fields lower [] = Inr ()"
| "scan_fields lower ((k, v) # kvs) =
     (if raw_key lower k then Inl RawCodeLeak
      else (case scan_for_raw_code lower v of Inl e \<Rightarrow> Inl e | Inr _ \<Rightarrow> scan_fields lower kvs))"

section \<open>Lemmas\<close>

text \<open>What the code relies on: hex and base58 decoding invert encoding (base58 has one text per byte string), keys have 32 bytes and
  parse, and a signature has 64 bytes and verifies under the key it was made with.\<close>

definition dalek_laws :: "dalek \<Rightarrow> bool" where
  "dalek_laws dk \<longleftrightarrow> (\<forall>b. dk_hex_decode dk (hex_encode b) = Inr b) \<and> (\<forall>b s. dk_unb58 dk s = Some b \<longleftrightarrow> s = dk_b58 dk b) \<and>
     (\<forall>k. length (dk_public dk k) = 32 \<and> dk_parse dk (dk_public dk k)) \<and>
     (\<forall>k m. length (dk_sign dk k m) = 64 \<and> dk_verify_strict dk (dk_public dk k) m (dk_sign dk k m))"

lemma did_to_verifying_key_iff:
  assumes "dalek_laws dk"
  shows "did_to_verifying_key dk d = Inr pk \<longleftrightarrow> d = did_from_verifying_key dk pk \<and> length pk = 32 \<and> dk_parse dk pk"
proof
  have b58: "dk_unb58 dk s = Some b \<longleftrightarrow> s = dk_b58 dk b" for s b using assms by (simp add: dalek_laws_def)
  {
    assume "did_to_verifying_key dk d = Inr pk"
    then obtain i raw where d: "did_method d = ''did:key''" "strip_prefix ''z6Mk'' (did_id d) = Some i" "dk_unb58 dk i = Some raw"
        "length raw = 34" "take 2 raw = ED25519_PUB_MULTICODEC" "pk = drop 2 raw" "dk_parse dk pk"
      by (auto simp: did_to_verifying_key_def split: option.splits if_splits)
    have "raw = ED25519_PUB_MULTICODEC @ pk" using append_take_drop_id [of 2 raw] d(5,6) by simp
    then have "did_id d = ''z6Mk'' @ dk_b58 dk (ED25519_PUB_MULTICODEC @ pk)" using d(2,3) b58 strip_prefix_Some by metis
    then show "d = did_from_verifying_key dk pk \<and> length pk = 32 \<and> dk_parse dk pk"
      using d by (cases d) (simp add: did_from_verifying_key_def)
  }
  assume r: "d = did_from_verifying_key dk pk \<and> length pk = 32 \<and> dk_parse dk pk"
  have "dk_unb58 dk (dk_b58 dk (ED25519_PUB_MULTICODEC @ pk)) = Some (ED25519_PUB_MULTICODEC @ pk)" using b58 by blast
  moreover have "strip_prefix ''z6Mk'' (did_id d) = Some (dk_b58 dk (ED25519_PUB_MULTICODEC @ pk))"
    unfolding strip_prefix_Some using r by (simp add: did_from_verifying_key_def)
  ultimately show "did_to_verifying_key dk d = Inr pk"
    using r by (simp add: did_to_verifying_key_def did_from_verifying_key_def ED25519_PUB_MULTICODEC_def)
qed

lemma skew_eq:
  assumes "0 \<le> sint a" and "0 \<le> sint b"
  shows "sint (i64_abs (a - b)) = \<bar>sint a - sint b\<bar>"
proof -
  have "sint a < 2 ^ 63" "sint b < 2 ^ 63" using sint_lt [of a] sint_lt [of b] by simp_all
  then have "sint (a - b) = sint a - sint b" "sint (b - a) = sint b - sint a" using assms by (intro sint_diff; linarith)+
  moreover have "- (a - b) = b - a" by simp
  ultimately show ?thesis unfolding i64_abs_def by (simp only: split: if_split) linarith
qed

lemma verify_message_iff:
  assumes "dalek_laws dk" and "0 \<le> sint (sm_timestamp_ms msg)" and "0 \<le> sint now"
  shows "verify_message dk msg now = Inr () \<longleftrightarrow> \<bar>sint (sm_timestamp_ms msg) - sint now\<bar> \<le> 60000 \<and>
    (\<exists>pk sig. sm_did msg = did_from_verifying_key dk pk \<and> length pk = 32 \<and> dk_parse dk pk \<and>
       dk_hex_decode dk (sm_signature_hex msg) = Inr sig \<and> length sig = 64 \<and>
       dk_verify_strict dk pk (dk_jcs dk (sm_body msg) @ be_bytes 8 (unat (sm_timestamp_ms msg))) sig)"
proof -
  have "verify_message dk msg now = Inr () \<longleftrightarrow> sint (i64_abs (sm_timestamp_ms msg - now)) \<le> 60000 \<and>
    (\<exists>pk sig. did_to_verifying_key dk (sm_did msg) = Inr pk \<and> dk_hex_decode dk (sm_signature_hex msg) = Inr sig \<and> length sig = 64 \<and>
       dk_verify_strict dk pk (signed_payload dk (sm_body msg) (sm_timestamp_ms msg)) sig)"
    by (cases "did_to_verifying_key dk (sm_did msg)"; cases "dk_hex_decode dk (sm_signature_hex msg)")
      (simp_all add: verify_message_def Let_def MAX_TIMESTAMP_SKEW_MS_def)
  then show ?thesis
    unfolding skew_eq [OF assms(2,3)] did_to_verifying_key_iff [OF assms(1)] signed_payload_def by blast
qed

section \<open>Properties\<close>

lemma trust_check_iff:
  fixes testing peers defines "g \<equiv> foldl (\<lambda>g (d, pk). trust g d pk) (trust_gate_new testing) peers"
  shows "trust_check dk g msg now = Inr () \<longleftrightarrow> verify_message dk msg now = Inr () \<and> (testing \<or> sm_did msg \<in> fst ` set peers)"
proof -
  have "known_dids g d \<noteq> None \<longleftrightarrow> d \<in> fst ` set peers" "allow_unsigned_for_testing g = testing" for d
    unfolding g_def by (induction peers rule: rev_induct) (auto simp: trust_gate_new_def trust_def)
  from this(1) [of "sm_did msg"] this(2) show ?thesis
    by (cases "known_dids g (sm_did msg)") (auto simp: trust_check_def split: sum.split)
qed

text \<open>Fact: whom the trust gate lets through. For times after the epoch, a message is accepted exactly when its time stamp is
  within sixty seconds of now, it is signed by the key its \<^verbatim>\<open>did:key\<close> names, over the canonical body and the time stamp, and that
  identity was trusted before (or the testing flag is set).\<close>

theorem trust_gate_exact:
  assumes "dalek_laws dk" and "0 \<le> sint (sm_timestamp_ms msg)" and "0 \<le> sint now"
  shows "trust_check dk (foldl (\<lambda>g (d, pk). trust g d pk) (trust_gate_new testing) peers) msg now = Inr () \<longleftrightarrow>
      \<bar>sint (sm_timestamp_ms msg) - sint now\<bar> \<le> 60000 \<and> (testing \<or> sm_did msg \<in> fst ` set peers) \<and>
      (\<exists>pk sig. sm_did msg = did_from_verifying_key dk pk \<and> length pk = 32 \<and> dk_parse dk pk \<and>
         dk_hex_decode dk (sm_signature_hex msg) = Inr sig \<and> length sig = 64 \<and>
         dk_verify_strict dk pk (dk_jcs dk (sm_body msg) @ be_bytes 8 (unat (sm_timestamp_ms msg))) sig)"
  unfolding trust_check_iff verify_message_iff [OF assms] by blast

text \<open>A simple instance of the parameters: base58 is the identity on texts, keys and signatures are constant.\<close>

definition toy_dalek :: dalek where
  "toy_dalek = \<lparr>dk_public = (\<lambda>_. replicate 32 CHR ''K''), dk_sign = (\<lambda>_ _. replicate 64 CHR ''S''), dk_parse = (\<lambda>_. True),
     dk_verify_strict = (\<lambda>_ _ sig. sig = replicate 64 CHR ''S''), dk_b58 = (\<lambda>b. b), dk_unb58 = Some,
     dk_hex_decode = (\<lambda>s. Inr (unhex s)), dk_jcs = (\<lambda>_. ''body'')\<rparr>"

lemma toy_dalek_laws: "dalek_laws toy_dalek"
  by (auto simp: dalek_laws_def toy_dalek_def)

theorem trust_gate_exact_witness:
  "trust_check toy_dalek (foldl (\<lambda>g (d, pk). trust g d pk) (trust_gate_new False) [(did_from_verifying_key toy_dalek (replicate 32 CHR ''K''), ''k'')])
     (sign_message toy_dalek JNull ''seed'' 1000) 61000 = Inr () \<and>
   trust_check toy_dalek (foldl (\<lambda>g (d, pk). trust g d pk) (trust_gate_new False) []) (sign_message toy_dalek JNull ''seed'' 1000) 61000 \<noteq> Inr ()"
  using trust_gate_exact [OF toy_dalek_laws, of "sign_message toy_dalek JNull ''seed'' 1000" 61000 False "[(did_from_verifying_key toy_dalek (replicate 32 CHR ''K''), ''k'')]"]
    trust_gate_exact [OF toy_dalek_laws, of "sign_message toy_dalek JNull ''seed'' 1000" 61000 False "[]"]
  by (auto simp: sign_message_def toy_dalek_def)

text \<open>Fact: the time window has a hole. A message stamped exactly \<open>2 ^ 63\<close> milliseconds before now passes the skew check, because the
  absolute value of the least \<^verbatim>\<open>i64\<close> wraps to itself.\<close>

theorem skew_hole:
  assumes "dalek_laws dk"
  shows "verify_message dk (sign_message dk body k (now - 2 ^ 63)) now = Inr ()"
proof -
  have d: "did_to_verifying_key dk (did_from_verifying_key dk (dk_public dk k)) = Inr (dk_public dk k)"
    using assms unfolding did_to_verifying_key_iff [OF assms] by (simp add: dalek_laws_def)
  have "now - 2 ^ 63 - now = (- (2 ^ 63) :: i64)" by simp
  then have "sint (i64_abs (now - 2 ^ 63 - now)) \<le> 60000" by (simp add: i64_abs_def)
  then show ?thesis
    using assms d by (simp add: verify_message_def sign_message_def MAX_TIMESTAMP_SKEW_MS_def dalek_laws_def Let_def)
qed

text \<open>Fact: two of three. The quorum passes exactly when at least two of the three signals are present (a set CI variable, terminals
  on both standard streams, the override variable), and otherwise the error names the first missing one.\<close>

theorem rule_of_two_exact:
  "let ci = (\<exists>name \<in> set EXTENDED_CI_ENV_VARS. h_env h name \<noteq> None); tty = (h_stdin_tty h \<and> h_stdout_tty h); human = (h_env h HUMAN_OVERRIDE_ENV \<noteq> None)
   in enforce h = (if ci \<and> tty \<or> ci \<and> human \<or> tty \<and> human then Inr \<lparr>tq_ci = ci, tq_tty = tty, tq_human = human, tq_passes = True\<rparr>
      else if \<not> ci then Inl NoCiEnv else Inl NoTty)"
proof -
  have "detect_ci_environment h EXTENDED_CI_ENV_VARS \<noteq> None \<longleftrightarrow> (\<exists>name \<in> set EXTENDED_CI_ENV_VARS. h_env h name \<noteq> None)"
    by (auto simp: detect_ci_environment_def find_None_iff)
  moreover have "\<not> (2 :: 8 word) \<le> 1" by (simp add: word_le_nat_alt)
  ultimately show ?thesis
    by (cases "\<exists>name \<in> set EXTENDED_CI_ENV_VARS. h_env h name \<noteq> None"; cases "h_stdin_tty h \<and> h_stdout_tty h"; cases "h_env h HUMAN_OVERRIDE_ENV \<noteq> None")
      (simp_all add: enforce_def check_rule_of_two_def has_interactive_tty_def has_human_override_def Let_def)
qed

text \<open>The texts and keys of a JSON value, at any depth.\<close>

fun json_texts :: "json \<Rightarrow> string set" and json_keys :: "json \<Rightarrow> string set" where
  "json_texts (JString s) = {s}"
| "json_texts (JArray vs) = (\<Union>v \<in> set vs. json_texts v)"
| "json_texts (JObject kvs) = (\<Union>(k, v) \<in> set kvs. json_texts v)"
| "json_texts _ = {}"
| "json_keys (JArray vs) = (\<Union>v \<in> set vs. json_keys v)"
| "json_keys (JObject kvs) = (\<Union>(k, v) \<in> set kvs. insert k (json_keys v))"
| "json_keys _ = {}"

definition clean :: "(string \<Rightarrow> string) \<Rightarrow> json \<Rightarrow> bool" where
  "clean lower v \<longleftrightarrow> (\<forall>s \<in> json_texts v. \<not> diff_text s) \<and> (\<forall>k \<in> json_keys v. \<not> raw_key lower k)"

lemma clean_simps [simp]:
  "clean lower (JString s) \<longleftrightarrow> \<not> diff_text s" "clean lower (JArray vs) \<longleftrightarrow> (\<forall>v \<in> set vs. clean lower v)"
  "clean lower (JObject kvs) \<longleftrightarrow> (\<forall>(k, v) \<in> set kvs. \<not> raw_key lower k \<and> clean lower v)"
  "clean lower JNull" "clean lower (JBool b)" "clean lower (JNumber n)"
  unfolding clean_def by (fastforce+)

lemma scan_clean:
  "scan_for_raw_code lower v = Inr () \<longleftrightarrow> clean lower v"
  "scan_items lower vs = Inr () \<longleftrightarrow> (\<forall>v \<in> set vs. clean lower v)"
  "scan_fields lower kvs = Inr () \<longleftrightarrow> (\<forall>(k, v) \<in> set kvs. \<not> raw_key lower k \<and> clean lower v)"
  by (induction lower v and lower vs and lower kvs rule: scan_for_raw_code_scan_items_scan_fields.induct) (auto split: sum.splits)

text \<open>Fact: what passes the cordon. A value is let through to the synthesizing agent exactly when no text in it, at any depth, looks
  like a diff of several lines and no key names raw code or a raw diff.\<close>

theorem cordon_exact:
  "scan_for_raw_code lower v = Inr () \<longleftrightarrow> (\<forall>s \<in> json_texts v. \<not> diff_text s) \<and> (\<forall>k \<in> json_keys v. \<not> raw_key lower k)"
  unfolding scan_clean clean_def ..

end
