(* ===== verification/Scitt.thy ===== *)
theory Scitt
  imports Trust
begin

text \<open>
  \<^verbatim>\<open>crates/tl-scitt/src/lib.rs\<close> and \<^verbatim>\<open>countersign.rs\<close>: receipts that are verified offline, and their countersignatures. The COSE decoder and the
  structure a COSE signature covers are the parameter \<open>cose\<close>; BLAKE3 is a parameter.
\<close>

section \<open>Receipts\<close>

datatype inclusion_proof = NoProof

record scitt_receipt =
  rc_payload :: string
  rc_cose_sign1 :: string
  rc_issuer_kid :: string
  rc_issuer_pubkey_fingerprint :: string
  rc_inclusion_proof :: "inclusion_proof option"
  rc_issued_at :: u64
  rc_registry_id :: string

datatype scitt_error =
    ScittInvalidSignature | KeyIdMismatch | PayloadHashMismatch | CborDecodeFailed string | CoseParseFailed string | MissingInclusionProof

record cose_sign1 =
  cs_payload :: "string option"
  cs_signature :: string
  cs_protected :: string

record cose =
  co_parse :: "string \<Rightarrow> string + cose_sign1"
  co_tbs :: "cose_sign1 \<Rightarrow> string"

definition verify_offline :: "cose \<Rightarrow> dalek \<Rightarrow> (string \<Rightarrow> string) \<Rightarrow> scitt_receipt \<Rightarrow> string \<Rightarrow> scitt_error + bool" where
  "verify_offline co dk blake3 receipt issuer_pubkey =
     (if rc_issuer_pubkey_fingerprint receipt \<noteq> blake3 issuer_pubkey then Inl KeyIdMismatch
      else (case co_parse co (rc_cose_sign1 receipt) of
          Inl e \<Rightarrow> Inl (CborDecodeFailed e)
        | Inr sign1 \<Rightarrow> (case cs_payload sign1 of
              None \<Rightarrow> Inl (CoseParseFailed ''COSE_Sign1 missing payload field'')
            | Some cose_payload \<Rightarrow>
                if cose_payload \<noteq> rc_payload receipt then Inl PayloadHashMismatch
                else if length (cs_signature sign1) \<noteq> 64 then Inl ScittInvalidSignature
                else if \<not> dk_verify_strict dk issuer_pubkey (co_tbs co sign1) (cs_signature sign1) then Inl ScittInvalidSignature
                else (case rc_inclusion_proof receipt of Some NoProof \<Rightarrow> Inr True | None \<Rightarrow> Inr True))))"

section \<open>Countersignatures\<close>

record counter_signed_receipt =
  cr_receipt :: scitt_receipt
  cosc_signature :: string
  cosc_pubkey_fingerprint :: string

datatype counter_sign_error = InnerReceiptInvalid scitt_error | InvalidCounterSignature | CoscKeyIdMismatch

definition blake3_pubkey_fingerprint :: "(string \<Rightarrow> string) \<Rightarrow> string \<Rightarrow> string" where
  "blake3_pubkey_fingerprint blake3 pubkey = take 32 (blake3 pubkey)"

definition counter_verify_offline :: "cose \<Rightarrow> dalek \<Rightarrow> (string \<Rightarrow> string) \<Rightarrow> counter_signed_receipt \<Rightarrow> string \<Rightarrow> string
    \<Rightarrow> (counter_sign_error + unit) option" where
  "counter_verify_offline co dk blake3 c issuer_pubkey cosc_pubkey =
     (if length (cosc_pubkey_fingerprint c) \<noteq> 32 then None
      else if blake3_pubkey_fingerprint blake3 cosc_pubkey \<noteq> cosc_pubkey_fingerprint c then Some (Inl CoscKeyIdMismatch)
      else (case verify_offline co dk blake3 (cr_receipt c) issuer_pubkey of
          Inl e \<Rightarrow> Some (Inl (InnerReceiptInvalid e))
        | Inr _ \<Rightarrow>
            if length (cosc_signature c) \<noteq> 64 then None
            else if dk_verify_strict dk cosc_pubkey (rc_cose_sign1 (cr_receipt c)) (cosc_signature c) then Some (Inr ())
            else Some (Inl InvalidCounterSignature)))"

section \<open>Properties\<close>

lemma verify_offline_iff:
  "verify_offline co dk blake3 r pk = Inr b \<longleftrightarrow> b \<and> rc_issuer_pubkey_fingerprint r = blake3 pk \<and>
     (\<exists>s. co_parse co (rc_cose_sign1 r) = Inr s \<and> cs_payload s = Some (rc_payload r) \<and> length (cs_signature s) = 64 \<and>
        dk_verify_strict dk pk (co_tbs co s) (cs_signature s))"
proof -
  have "(case rc_inclusion_proof r of Some NoProof \<Rightarrow> Inr True | None \<Rightarrow> Inr True) = (Inr True :: scitt_error + bool)"
    by (simp split: option.split inclusion_proof.split)
  then show ?thesis
    by (auto simp: verify_offline_def split: sum.splits option.splits)
qed

lemma verify_offline_metadata:
  "verify_offline co dk blake3 (r\<lparr>rc_issuer_kid := kid, rc_issued_at := ts, rc_registry_id := reg\<rparr>) pk = verify_offline co dk blake3 r pk"
  unfolding verify_offline_def by (simp cong: sum.case_cong option.case_cong if_cong)

text \<open>Fact: what a countersigned receipt proves. It is accepted exactly when its two fingerprints are those of the given keys,
  the envelope parses to the payload of the receipt with a signature of the issuer, and the countersigner signed the bytes of the
  envelope. So two accepted receipts with the same envelope have the same payload; and nothing but payload, envelope and
  fingerprint is bound: key id, issue time and registry may be replaced at will.\<close>

theorem countersigned_exact:
  "(counter_verify_offline co dk blake3 c pk cpk = Some (Inr ()) \<longleftrightarrow>
      length (cosc_pubkey_fingerprint c) = 32 \<and> cosc_pubkey_fingerprint c = take 32 (blake3 cpk) \<and>
      rc_issuer_pubkey_fingerprint (cr_receipt c) = blake3 pk \<and>
      (\<exists>s. co_parse co (rc_cose_sign1 (cr_receipt c)) = Inr s \<and> cs_payload s = Some (rc_payload (cr_receipt c)) \<and>
         length (cs_signature s) = 64 \<and> dk_verify_strict dk pk (co_tbs co s) (cs_signature s)) \<and>
      length (cosc_signature c) = 64 \<and> dk_verify_strict dk cpk (rc_cose_sign1 (cr_receipt c)) (cosc_signature c)) \<and>
   counter_verify_offline co dk blake3 (c\<lparr>cr_receipt := (cr_receipt c)\<lparr>rc_issuer_kid := kid, rc_issued_at := ts, rc_registry_id := reg\<rparr>\<rparr>) pk cpk =
     counter_verify_offline co dk blake3 c pk cpk"
proof
  show "counter_verify_offline co dk blake3 (c\<lparr>cr_receipt := (cr_receipt c)\<lparr>rc_issuer_kid := kid, rc_issued_at := ts, rc_registry_id := reg\<rparr>\<rparr>) pk cpk =
     counter_verify_offline co dk blake3 c pk cpk"
    by (simp add: counter_verify_offline_def verify_offline_metadata)
  have "(\<exists>b. verify_offline co dk blake3 (cr_receipt c) pk = Inr b) \<longleftrightarrow>
      rc_issuer_pubkey_fingerprint (cr_receipt c) = blake3 pk \<and>
      (\<exists>s. co_parse co (rc_cose_sign1 (cr_receipt c)) = Inr s \<and> cs_payload s = Some (rc_payload (cr_receipt c)) \<and>
         length (cs_signature s) = 64 \<and> dk_verify_strict dk pk (co_tbs co s) (cs_signature s))"
    unfolding verify_offline_iff by blast
  moreover have "counter_verify_offline co dk blake3 c pk cpk = Some (Inr ()) \<longleftrightarrow>
      length (cosc_pubkey_fingerprint c) = 32 \<and> cosc_pubkey_fingerprint c = take 32 (blake3 cpk) \<and>
      (\<exists>b. verify_offline co dk blake3 (cr_receipt c) pk = Inr b) \<and>
      length (cosc_signature c) = 64 \<and> dk_verify_strict dk cpk (rc_cose_sign1 (cr_receipt c)) (cosc_signature c)"
    by (cases "verify_offline co dk blake3 (cr_receipt c) pk") (auto simp: counter_verify_offline_def blake3_pubkey_fingerprint_def)
  ultimately show "counter_verify_offline co dk blake3 c pk cpk = Some (Inr ()) \<longleftrightarrow>
      length (cosc_pubkey_fingerprint c) = 32 \<and> cosc_pubkey_fingerprint c = take 32 (blake3 cpk) \<and>
      rc_issuer_pubkey_fingerprint (cr_receipt c) = blake3 pk \<and>
      (\<exists>s. co_parse co (rc_cose_sign1 (cr_receipt c)) = Inr s \<and> cs_payload s = Some (rc_payload (cr_receipt c)) \<and>
         length (cs_signature s) = 64 \<and> dk_verify_strict dk pk (co_tbs co s) (cs_signature s)) \<and>
      length (cosc_signature c) = 64 \<and> dk_verify_strict dk cpk (rc_cose_sign1 (cr_receipt c)) (cosc_signature c)"
    by simp
qed

end
