(* ===== verification/DerTlv.thy ===== *)
theory DerTlv
  imports Prelude
begin

unbundle bit_operations_syntax

text \<open>
  The hand-written DER readers of \<^verbatim>\<open>crates/themis-evidence/src/timestamp.rs\<close>: tag-length-value elements, the signing-certificate
  attributes, ECDSA signatures and PKCS#1 public keys. Bytes are 8-bit words. A slice or an index out of range panics, which is the
  outer \<open>None\<close>; the inner option or sum is what the Rust function returns.
\<close>

type_synonym bytes = "u8 list"

definition slice :: "bytes \<Rightarrow> nat \<Rightarrow> nat \<Rightarrow> bytes option" where
  "slice xs i j = (if i \<le> j \<and> j \<le> length xs then Some (take (j - i) (drop i xs)) else None)"

text \<open>The operator \<^verbatim>\<open>?\<close> in a function that returns an option, and in one that returns a result.\<close>

fun try_opt :: "'a option option \<Rightarrow> ('a \<Rightarrow> 'b option option) \<Rightarrow> 'b option option" where
  "try_opt None f = None"
| "try_opt (Some None) f = Some None"
| "try_opt (Some (Some x)) f = f x"

fun try_res :: "('e + 'a) option \<Rightarrow> ('a \<Rightarrow> ('e + 'b) option) \<Rightarrow> ('e + 'b) option" where
  "try_res None f = None"
| "try_res (Some (Inl e)) f = Some (Inl e)"
| "try_res (Some (Inr x)) f = f x"

definition ok_or :: "'e \<Rightarrow> 'a option option \<Rightarrow> ('e + 'a) option" where
  "ok_or e r = map_option (\<lambda>v. case v of None \<Rightarrow> Inl e | Some x \<Rightarrow> Inr x) r"

section \<open>Elements\<close>

definition read_tlv :: "bytes \<Rightarrow> (bytes \<times> u8) option option" where
  "read_tlv input = (case input of
     tag # len_byte # rest \<Rightarrow>
       let out = (\<lambda>n. map_option (\<lambda>t. Some (t, tag)) (slice input 0 n))
       in if len_byte < 0x80 then out (2 + unat len_byte)
          else if len_byte = 0x81 then (case rest of
              [] \<Rightarrow> Some None
            | len # rest' \<Rightarrow> if length rest' < unat len then Some None else out (3 + unat len))
          else if len_byte = 0x82 then (case rest of
              hi # lo # rest' \<Rightarrow> (let len = unat hi * 256 + unat lo in if length rest' < len then Some None else out (4 + len))
            | _ \<Rightarrow> Some None)
          else Some None
   | _ \<Rightarrow> Some None)"

definition tlv_value_len :: "bytes \<Rightarrow> nat" where
  "tlv_value_len input = (case input of
     _ # len_byte # rest \<Rightarrow>
       if len_byte < 0x80 then unat len_byte
       else if len_byte = 0x81 then (case rest of [] \<Rightarrow> 0 | len # _ \<Rightarrow> unat len)
       else if len_byte = 0x82 then (case rest of hi # lo # _ \<Rightarrow> unat hi * 256 + unat lo | _ \<Rightarrow> 0)
       else 0
   | _ \<Rightarrow> 0)"

definition skip_tlv :: "bytes \<Rightarrow> bytes option" where
  "skip_tlv input = (case read_tlv input of
     None \<Rightarrow> None
   | Some None \<Rightarrow> Some []
   | Some (Some (tlv, _)) \<Rightarrow> slice input (length tlv) (length input))"

definition tlv_value_bytes :: "bytes \<Rightarrow> bytes option" where
  "tlv_value_bytes input = (case read_tlv input of
     None \<Rightarrow> None
   | Some None \<Rightarrow> Some []
   | Some (Some (tlv, _)) \<Rightarrow> slice input (length tlv - tlv_value_len input) (length tlv))"

definition wrap_with_tag :: "u8 \<Rightarrow> bytes \<Rightarrow> bytes" where
  "wrap_with_tag tag value =
     (let len = length value
      in tag # (if len < 128 then [word_of_nat len] else [0x82, word_of_nat (len div 256), word_of_nat (len mod 256)]) @ value)"

definition wrap_as_sequence :: "bytes \<Rightarrow> bytes" where
  "wrap_as_sequence value = wrap_with_tag 0x30 value"

section \<open>Signing-certificate attributes\<close>

fun ess_v1_loop :: "nat \<Rightarrow> bytes \<Rightarrow> bytes option option" where
  "ess_v1_loop 0 p = Some None"
| "ess_v1_loop (Suc k) p = try_opt (read_tlv p) (\<lambda>(tlv, tag).
     if tag = 0x04 then
       let value_len = tlv_value_len p; header_len = length tlv - value_len
       in map_option Some (slice p header_len (header_len + value_len))
     else if tag \<noteq> 0x30 then Some None
     else Option.bind (tlv_value_bytes p) (ess_v1_loop k))"

definition extract_ess_cert_hash_v1 :: "bytes \<Rightarrow> bytes option option" where
  "extract_ess_cert_hash_v1 set_value = try_opt (read_tlv set_value) (\<lambda>(_, first).
     if first \<noteq> 0x30 then Some None else Option.bind (tlv_value_bytes set_value) (ess_v1_loop 3))"

definition step_into :: "bytes \<Rightarrow> bytes option option" where
  "step_into p = try_opt (read_tlv p) (\<lambda>(_, tag). if tag \<noteq> 0x30 then Some None else map_option Some (tlv_value_bytes p))"

definition extract_ess_cert_hash_v2 :: "bytes \<Rightarrow> bytes option option" where
  "extract_ess_cert_hash_v2 set_value =
     try_opt (step_into set_value) (\<lambda>p. try_opt (step_into p) (\<lambda>p. try_opt (step_into p) (\<lambda>p.
     try_opt (read_tlv p) (\<lambda>(_, t3). if t3 \<noteq> 0x30 then Some None else
       try_opt (map_option Some (skip_tlv p)) (\<lambda>p.
       try_opt (read_tlv p) (\<lambda>(hash_tlv, hash_tag). if hash_tag \<noteq> 0x04 then Some None else
         try_opt (map_option Some (tlv_value_bytes p)) (\<lambda>hash_value.
           let header_len = length hash_tlv - length hash_value
           in map_option Some (slice p header_len (header_len + length hash_value)))))))))"

section \<open>ECDSA signatures and public keys\<close>

definition normalize_int :: "bytes \<Rightarrow> nat \<Rightarrow> bytes" where
  "normalize_int b target =
     (let b = (case b of c # cs \<Rightarrow> if c = 0 \<and> cs \<noteq> [] then cs else b | [] \<Rightarrow> b)
      in if length b \<le> target then replicate (target - length b) 0 @ b else drop (length b - target) b)"

definition hex_tag :: "u8 \<Rightarrow> string" where
  "hex_tag t = hex_byte (char_of (unat t))"

definition read_integer :: "string \<Rightarrow> bytes \<Rightarrow> (string + bytes) option" where
  "read_integer what p = try_res (ok_or (''DER sig: missing '' @ what) (read_tlv p)) (\<lambda>(tlv, tag).
     if tag \<noteq> 0x02 then Some (Inl (''DER sig: '' @ what @ '' not INTEGER, got 0x'' @ hex_tag tag))
     else let value_len = tlv_value_len p; hdr = length tlv - value_len in map_option Inr (slice p hdr (hdr + value_len)))"

definition der_to_ecdsa_p384_signature :: "(bytes \<Rightarrow> bytes \<Rightarrow> string + 's) \<Rightarrow> bytes \<Rightarrow> (string + 's) option" where
  "der_to_ecdsa_p384_signature from_scalars der =
     try_res (ok_or ''DER sig: missing SEQUENCE'' (read_tlv der)) (\<lambda>(_, outer_tag).
     if outer_tag \<noteq> 0x30 then Some (Inl (''DER sig: expected SEQUENCE, got 0x'' @ hex_tag outer_tag)) else
     Option.bind (tlv_value_bytes der) (\<lambda>p.
     try_res (read_integer ''r'' p) (\<lambda>r_bytes.
     Option.bind (skip_tlv p) (\<lambda>p.
     try_res (read_integer ''s'' p) (\<lambda>s_bytes.
       Some (map_sum (\<lambda>e. ''from_scalars: '' @ e) id (from_scalars (normalize_int r_bytes 48) (normalize_int s_bytes 48))))))))"

definition be_number :: "bytes \<Rightarrow> nat" where
  "be_number bs = foldl (\<lambda>a b. a * 256 + unat b) 0 bs"

definition read_der_length :: "bytes \<Rightarrow> string + nat \<times> nat" where
  "read_der_length buf = (case buf of
     [] \<Rightarrow> Inl ''empty length''
   | first # rest \<Rightarrow>
       if first < 0x80 then Inr (unat first, 1)
       else let n = unat (first AND 0x7F)
            in if n = 0 \<or> n > 8 \<or> length buf < 1 + n then Inl ''invalid long-form length''
               else Inr (be_number (take n rest), 1 + n))"

definition strip_asn1_integer_sign :: "bytes \<Rightarrow> bytes" where
  "strip_asn1_integer_sign bs = (case bs of a # b # rest \<Rightarrow> if a = 0 \<and> b AND 0x80 \<noteq> 0 then b # rest else bs | _ \<Rightarrow> bs)"

text \<open>Positions are \<^verbatim>\<open>usize\<close>: \<^verbatim>\<open>1 + seq_len.0\<close> wraps, and an end that would wrap lies below the start of its slice, which panics.\<close>

definition take_integer :: "string \<Rightarrow> bytes \<Rightarrow> nat \<Rightarrow> (string + bytes \<times> nat) option" where
  "take_integer what der p = try_res (Some (read_der_length (drop (p + 1) der))) (\<lambda>(len, ll).
     let p = p + 1 + ll
     in if p + len \<ge> 2 ^ 64 then None
        else if p + len > length der then Some (Inl (what @ '' length exceeds buffer''))
        else Some (Inr (strip_asn1_integer_sign (take len (drop p der)), p + len)))"

definition parse_pkcs1_rsa_pubkey :: "bytes \<Rightarrow> (string + bytes \<times> bytes) option" where
  "parse_pkcs1_rsa_pubkey der =
     (if length der < 2 \<or> der ! 0 \<noteq> 0x30 then Some (Inl ''expected SEQUENCE tag 0x30'')
      else try_res (Some (read_der_length (drop 1 der))) (\<lambda>seq_len.
        let p = (1 + fst seq_len) mod 2 ^ 64
        in if p > length der then Some (Inl ''SEQUENCE length exceeds buffer'')
           else if p = length der then None
           else if der ! p \<noteq> 0x02 then Some (Inl ''expected INTEGER tag 0x02 for modulus'')
           else try_res (take_integer ''modulus'' der p) (\<lambda>(n_bytes, p).
             if p \<ge> length der \<or> der ! p \<noteq> 0x02 then Some (Inl ''expected INTEGER tag 0x02 for exponent'')
             else try_res (take_integer ''exponent'' der p) (\<lambda>(e_bytes, p). Some (Inr (n_bytes, e_bytes))))))"

section \<open>Encodings\<close>

text \<open>The ways to write a length below 65536 that the readers understand, and the shortest of them, which DER prescribes.\<close>

definition len_form :: "bytes \<Rightarrow> nat \<Rightarrow> bool" where
  "len_form h n \<longleftrightarrow> n < 128 \<and> h = [word_of_nat n] \<or> n < 256 \<and> h = [0x81, word_of_nat n] \<or>
     n < 65536 \<and> h = [0x82, word_of_nat (n div 256), word_of_nat (n mod 256)]"

definition der_len :: "nat \<Rightarrow> bytes" where
  "der_len n = (if n < 128 then [word_of_nat n] else if n < 256 then [0x81, word_of_nat n]
     else [0x82, word_of_nat (n div 256), word_of_nat (n mod 256)])"

definition der_tlv :: "u8 \<Rightarrow> bytes \<Rightarrow> bytes" where
  "der_tlv tag v = tag # der_len (length v) @ v"

lemma len_form_der_len [intro, simp]: "n < 65536 \<Longrightarrow> len_form (der_len n) n"
  by (auto simp: len_form_def der_len_def)

lemma unat_u8_of_nat [simp]: "n < 256 \<Longrightarrow> unat (word_of_nat n :: u8) = n"
  by (simp add: unat_of_nat)

lemma short_byte [simp]: "n < 128 \<Longrightarrow> (word_of_nat n :: u8) < 0x80"
  by (simp add: word_less_nat_alt unat_of_nat)

lemma take_3_4: "take (3 + n) (a # b # c # xs) = a # b # c # take n xs" "take (4 + n) (a # b # c # d # xs) = a # b # c # d # take n xs"
  by (simp_all add: eval_nat_numeral)

lemma len_form_facts:
  assumes "len_form h (length v)"
  shows read_tlv_form: "read_tlv (t # h @ v @ rest) = Some (Some (t # h @ v, t))"
    and tlv_value_len_form: "tlv_value_len (t # h @ v @ rest) = length v"
  using assms by (auto simp: len_form_def read_tlv_def tlv_value_len_def slice_def Let_def take_3_4)

lemma read_tlv_der [simp]: "length v < 65536 \<Longrightarrow> read_tlv (der_tlv t v @ rest) = Some (Some (der_tlv t v, t))"
  and tlv_value_len_der [simp]: "length v < 65536 \<Longrightarrow> tlv_value_len (der_tlv t v @ rest) = length v"
  using len_form_facts [of "der_len (length v)" v t rest] by (simp_all add: der_tlv_def)

lemma length_der_tlv: "length (der_tlv t v) = Suc (length (der_len (length v)) + length v)"
  by (simp add: der_tlv_def)

lemma drop_der_tlv: "drop (length (der_tlv t v) - length v) (der_tlv t v @ rest) = v @ rest"
  by (simp add: der_tlv_def)

lemma slice_der_value: "slice (der_tlv t v @ rest) (length (der_tlv t v) - length v) (length (der_tlv t v)) = Some v"
  using drop_der_tlv [of t v rest] by (simp add: slice_def length_der_tlv)

lemma tlv_value_bytes_der [simp]: "length v < 65536 \<Longrightarrow> tlv_value_bytes (der_tlv t v @ rest) = Some v"
  by (simp add: tlv_value_bytes_def slice_der_value)

lemma skip_tlv_der [simp]: "length v < 65536 \<Longrightarrow> skip_tlv (der_tlv t v @ rest) = Some rest"
  by (simp add: skip_tlv_def slice_def)

lemmas der_single [simp] = read_tlv_der [where rest = "[]", simplified] tlv_value_bytes_der [where rest = "[]", simplified]
  tlv_value_len_der [where rest = "[]", simplified]

lemma read_tlv_Nil [simp]: "read_tlv [] = Some None"
  by (simp add: read_tlv_def)

text \<open>Reading the value at the position the extractors compute.\<close>

lemma slice_der_header:
  "slice (der_tlv t v @ rest) (length (der_tlv t v) - length v) (length (der_tlv t v) - length v + length v) = Some v"
  using slice_der_value by (simp add: length_der_tlv)

section \<open>Properties\<close>

text \<open>Fact: an element written by \<^verbatim>\<open>wrap_with_tag\<close> is read back with its tag and value, and skipping it leaves what follows, exactly as
  long as the value is shorter than 65536 bytes; above that the two length bytes hold the length modulo 65536.\<close>

theorem wrapped_element_roundtrip:
  "(length v < 65536 \<longrightarrow> read_tlv (wrap_with_tag t v @ rest) = Some (Some (wrap_with_tag t v, t)) \<and>
      tlv_value_bytes (wrap_with_tag t v @ rest) = Some v \<and> skip_tlv (wrap_with_tag t v @ rest) = Some rest) \<and>
   (length v \<ge> 65536 \<longrightarrow> tlv_value_len (wrap_with_tag t v @ rest) = length v mod 65536)"
proof (intro conjI impI)
  define h where "h = (if length v < 128 then [word_of_nat (length v)] else [0x82, word_of_nat (length v div 256), word_of_nat (length v mod 256)] :: bytes)"
  have w: "wrap_with_tag t v = t # h @ v" by (simp add: wrap_with_tag_def h_def Let_def)
  have f: "length v < 65536 \<Longrightarrow> len_form h (length v)" by (auto simp: len_form_def h_def)
  note f = len_form_facts [OF f, of t rest]
  show "length v < 65536 \<Longrightarrow> read_tlv (wrap_with_tag t v @ rest) = Some (Some (wrap_with_tag t v, t))" by (simp add: w f)
  show "length v < 65536 \<Longrightarrow> tlv_value_bytes (wrap_with_tag t v @ rest) = Some v" by (simp add: w f tlv_value_bytes_def slice_def)
  show "length v < 65536 \<Longrightarrow> skip_tlv (wrap_with_tag t v @ rest) = Some rest" by (simp add: w f skip_tlv_def slice_def)
  show "length v \<ge> 65536 \<Longrightarrow> tlv_value_len (wrap_with_tag t v @ rest) = length v mod 65536"
    using mod_mult2_eq [of "length v" 256 256] by (simp add: w h_def tlv_value_len_def unat_of_nat)
qed

theorem wrapped_element_roundtrip_witness:
  "tlv_value_bytes (wrap_with_tag 0x30 [2, 1, 1] @ [5]) = Some [2, 1, 1] \<and> tlv_value_len (wrap_with_tag 0x30 (replicate 65537 0) @ []) = 1"
  using wrapped_element_roundtrip [of "[2, 1, 1]" "0x30" "[5]"] wrapped_element_roundtrip [of "replicate 65537 0" "0x30" "[]"] by simp

text \<open>The octets of a non-negative INTEGER whose minimal big-endian form is \<open>b\<close>, and a signature with the values \<open>r\<close> and \<open>s\<close>.\<close>

definition int_octets :: "bytes \<Rightarrow> bytes" where
  "int_octets b = (if hd b \<ge> 0x80 then 0 # b else b)"

definition ecdsa_der :: "bytes \<Rightarrow> bytes \<Rightarrow> bytes" where
  "ecdsa_der r s = der_tlv 0x30 (der_tlv 0x02 (int_octets r) @ der_tlv 0x02 (int_octets s))"

definition minimal_int :: "bytes \<Rightarrow> bool" where
  "minimal_int b \<longleftrightarrow> b \<noteq> [] \<and> (hd b = 0 \<longrightarrow> b = [0])"

definition pad_left :: "nat \<Rightarrow> bytes \<Rightarrow> bytes" where
  "pad_left k b = replicate (k - length b) 0 @ b"

lemma normalize_int_octets: "minimal_int b \<Longrightarrow> length b \<le> k \<Longrightarrow> normalize_int (int_octets b) k = pad_left k b"
  by (cases b) (auto simp: normalize_int_def int_octets_def minimal_int_def pad_left_def Let_def)

lemma length_int_octets: "length (int_octets b) \<le> Suc (length b)"
  by (simp add: int_octets_def)

lemma length_der_tlv_le: "length (der_tlv t v) \<le> length v + 4"
  by (simp add: der_tlv_def der_len_def)

lemma read_integer_der: "length v < 65536 \<Longrightarrow> read_integer what (der_tlv 0x02 v @ rest) = Some (Inr v)"
  by (simp add: read_integer_def ok_or_def Let_def slice_der_header)

lemma be_number_snoc [simp]: "be_number (bs @ [b]) = be_number bs * 256 + unat b" and be_number_Nil [simp]: "be_number [] = 0"
  by (simp_all add: be_number_def)

lemma be_number_zeros [simp]: "be_number (replicate k 0) = 0"
  by (induction k) (simp_all add: replicate_append_same [symmetric])

lemma be_number_pad: "be_number (replicate k 0 @ b) = be_number b"
  by (induction b rule: rev_induct) (simp_all flip: append_assoc)

lemma ecdsa_decodes:
  assumes "minimal_int r" and "minimal_int s" and "length r \<le> 48" and "length s \<le> 48"
  shows "der_to_ecdsa_p384_signature (\<lambda>a b. Inr (a, b)) (ecdsa_der r s) = Some (Inr (pad_left 48 r, pad_left 48 s))"
proof -
  let ?p = "der_tlv 0x02 (int_octets r)" and ?q = "der_tlv 0x02 (int_octets s)"
  have ir: "length (int_octets r) < 65536" and js: "length (int_octets s) < 65536"
    using length_int_octets [of r] length_int_octets [of s] assms(3,4) by simp_all
  have "length (?p @ ?q) < 65536"
    using length_der_tlv_le [of "0x02" "int_octets r"] length_der_tlv_le [of "0x02" "int_octets s"]
      length_int_octets [of r] length_int_octets [of s] assms(3,4) by simp
  then show ?thesis using read_integer_der [OF ir, of "''r''" ?q] read_integer_der [OF js, of "''s''" "[]"] ir
    by (simp add: der_to_ecdsa_p384_signature_def ecdsa_der_def ok_or_def normalize_int_octets assms)
qed

text \<open>Property C28: decoding an ECDSA signature. The DER form of two numbers of at most 48 bytes, with or without the sign byte, gives exactly
  the two 48-byte scalars of the same value.\<close>

theorem ecdsa_signature_roundtrip:
  assumes "minimal_int r" and "minimal_int s" and "length r \<le> 48" and "length s \<le> 48"
  shows "\<exists>r48 s48. length r48 = 48 \<and> length s48 = 48 \<and> be_number r48 = be_number r \<and> be_number s48 = be_number s \<and>
     der_to_ecdsa_p384_signature (\<lambda>a b. Inr (a, b)) (ecdsa_der r s) = Some (Inr (r48, s48))"
  using ecdsa_decodes [OF assms] assms(3,4)
  by (intro exI [of _ "pad_left 48 r"] exI [of _ "pad_left 48 s"]) (simp add: pad_left_def be_number_pad)

theorem ecdsa_signature_roundtrip_witness:
  "\<exists>r48 s48. be_number r48 = 200 \<and> be_number s48 = 7 \<and>
     der_to_ecdsa_p384_signature (\<lambda>a b. Inr (a, b)) (ecdsa_der [200] [7]) = Some (Inr (r48, s48 :: bytes) :: string + bytes \<times> bytes)"
  using ecdsa_signature_roundtrip [of "[200]" "[7]"] by (auto simp: minimal_int_def be_number_def)

text \<open>The contents of the two signing-certificate attributes as RFC 5035 lays them out: a list of certificate identifiers, each with the hash of
  the certificate; the second version puts the hash algorithm in front of it unless it is SHA-256, the default, which DER leaves out.\<close>

definition ess_v1_octets :: "bytes \<Rightarrow> bytes \<Rightarrow> bytes \<Rightarrow> bytes" where
  "ess_v1_octets hash issuer_serial more = der_tlv 0x30 (der_tlv 0x30 (der_tlv 0x04 hash @ issuer_serial) @ more)"

definition ess_v2_octets :: "(bytes \<times> bytes) option \<Rightarrow> bytes \<Rightarrow> bytes \<Rightarrow> bytes \<Rightarrow> bytes" where
  "ess_v2_octets alg hash issuer_serial more =
     der_tlv 0x30 (der_tlv 0x30 ((case alg of None \<Rightarrow> [] | Some (oid, params) \<Rightarrow> der_tlv 0x30 (der_tlv 0x06 oid @ params)) @ der_tlv 0x04 hash @ issuer_serial) @ more)"

lemma ess_v1_hash:
  assumes "length hash \<le> 64" and "length issuer_serial \<le> 4096" and "length more \<le> 16384"
  shows "extract_ess_cert_hash_v1 (ess_v1_octets hash issuer_serial more @ policies) = Some (Some hash)"
proof -
  let ?id = "der_tlv 0x04 hash @ issuer_serial"
  have h: "length hash < 65536" using assms by simp
  have i: "length ?id < 65536" using length_der_tlv_le [of "0x04" hash] assms by simp
  have o: "length (der_tlv 0x30 ?id @ more) < 65536"
    using length_der_tlv_le [of "0x04" hash] length_der_tlv_le [of "0x30" ?id] assms by simp
  show ?thesis using h i o slice_der_header [of "0x04" hash issuer_serial]
    by (simp add: extract_ess_cert_hash_v1_def ess_v1_octets_def numeral_3_eq_3)
qed

lemma step_into_der [simp]: "length v < 65536 \<Longrightarrow> step_into (der_tlv 0x30 v @ rest) = Some (Some v)"
  "length v < 65536 \<Longrightarrow> t \<noteq> 0x30 \<Longrightarrow> step_into (der_tlv t v @ rest) = Some None"
  by (simp_all add: step_into_def)

lemma ess_v2_never:
  assumes "length hash \<le> 64" and "length issuer_serial \<le> 4096" and "length more \<le> 16384"
    and "case alg of None \<Rightarrow> True | Some (oid, params) \<Rightarrow> length oid \<le> 32 \<and> length params \<le> 64"
  shows "extract_ess_cert_hash_v2 (ess_v2_octets alg hash issuer_serial more @ policies) = Some None"
proof -
  let ?tail = "der_tlv 0x04 hash @ issuer_serial"
  have h: "length hash < 65536" using assms by simp
  have t: "length ?tail \<le> 4200" using length_der_tlv_le [of "0x04" hash] assms by simp
  show ?thesis
  proof (cases alg)
    case None
    have "length (der_tlv 0x30 ?tail @ more) < 65536" using t length_der_tlv_le [of "0x30" ?tail] assms by simp
    with h t show ?thesis by (simp add: extract_ess_cert_hash_v2_def ess_v2_octets_def None)
  next
    case (Some a)
    with assms(4) obtain oid params where a: "alg = Some (oid, params)" "length oid \<le> 32" "length params \<le> 64" by (cases a) simp
    let ?alg = "der_tlv 0x06 oid @ params"
    have l: "length ?alg \<le> 104" using length_der_tlv_le [of "0x06" oid] a by simp
    have m: "length (der_tlv 0x30 ?alg @ ?tail) \<le> 4400" using length_der_tlv_le [of "0x30" ?alg] l t by simp
    have "length (der_tlv 0x30 (der_tlv 0x30 ?alg @ ?tail) @ more) < 65536"
      using m length_der_tlv_le [of "0x30" "der_tlv 0x30 ?alg @ ?tail"] assms by simp
    with a l m h show ?thesis by (simp add: extract_ess_cert_hash_v2_def ess_v2_octets_def)
  qed
qed

text \<open>Fact: of the two signing-certificate attributes the first is understood and the second is not. The contents of an
  \<^verbatim>\<open>ESSCertID\<close> attribute give its certificate hash; those of an \<^verbatim>\<open>ESSCertIDv2\<close> attribute, with or without the hash algorithm, give
  nothing, because the extractor steps into one SEQUENCE too many.\<close>

theorem ess_attributes_exact:
  assumes "length hash \<le> 64" and "length issuer_serial \<le> 4096" and "length more \<le> 16384"
    and "case alg of None \<Rightarrow> True | Some (oid, params) \<Rightarrow> length oid \<le> 32 \<and> length params \<le> 64"
  shows "extract_ess_cert_hash_v1 (ess_v1_octets hash issuer_serial more @ policies) = Some (Some hash) \<and>
     extract_ess_cert_hash_v2 (ess_v2_octets alg hash issuer_serial more @ policies) = Some None"
  using ess_v1_hash ess_v2_never assms by simp

theorem ess_attributes_exact_witness:
  "extract_ess_cert_hash_v1 (ess_v1_octets [1, 2] [] [] @ []) = Some (Some [1, 2]) \<and>
   extract_ess_cert_hash_v2 (ess_v2_octets (Some ([0x60], [5, 0])) [1, 2] [] [] @ []) = Some None"
  using ess_attributes_exact [of "[1, 2]" "[]" "[]" "Some ([0x60], [5, 0])" "[]"] by simp

text \<open>Fact: a short-form length that runs past the end of the input is the one case in which a reader panics.\<close>

theorem truncated_element_panics:
  "read_tlv input = None \<longleftrightarrow> (\<exists>tag len rest. input = tag # len # rest \<and> len < 0x80 \<and> length rest < unat len)"
  by (auto simp: read_tlv_def slice_def Let_def split: list.splits)

lemma take_2: "take 2 (a # b # xs) = [a, b]"
  by (simp add: numeral_2_eq_2)

lemma int_octets_65537 [simp]: "int_octets [1, 0, 1] = [1, 0, 1]"
  by (simp add: int_octets_def word_le_nat_alt)

lemma read_der_length_der: "n < 65536 \<Longrightarrow> read_der_length (der_len n @ rest) = Inr (n, length (der_len n))"
  by (auto simp: read_der_length_def der_len_def be_number_def Let_def take_2)

definition rsa_key_der :: "bytes \<Rightarrow> bytes \<Rightarrow> bytes" where
  "rsa_key_der n e = der_tlv 0x30 (der_tlv 0x02 (int_octets n) @ der_tlv 0x02 (int_octets e))"

text \<open>No RSA key in DER can be read: the parser takes the length of the SEQUENCE for the size of its length field and looks for the modulus and
  the exponent in the last one to three bytes of the key, which cannot hold two integers.\<close>

lemma read_der_length_pos: "read_der_length buf = Inr (len, ll) \<Longrightarrow> 1 \<le> ll"
  by (auto simp: read_der_length_def Let_def split: list.splits if_splits)

lemma take_integer_moves:
  assumes "take_integer what der p = Some (Inr (b, p'))"
  shows "p + 2 \<le> p' \<and> p' \<le> length der"
proof -
  obtain len ll where r: "read_der_length (drop (p + 1) der) = Inr (len, ll)"
    using assms by (cases "read_der_length (drop (p + 1) der)") (auto simp: take_integer_def)
  then show ?thesis using assms read_der_length_pos [OF r] by (auto simp: take_integer_def Let_def split: if_splits)
qed

lemma try_res_Inr: "try_res r f = Some (Inr y) \<Longrightarrow> \<exists>x. r = Some (Inr x) \<and> f x = Some (Inr y)"
  by (cases "(r, f)" rule: try_res.cases) auto

lemma rsa_key_never_parsed:
  assumes "length content < 65536"
  shows "parse_pkcs1_rsa_pubkey (der_tlv 0x30 content) \<noteq> Some (Inr key)"
proof
  define der where "der = der_tlv 0x30 content"
  define p where "p = 1 + length content"
  have der: "der = 0x30 # der_len (length content) @ content" by (simp add: der_def der_tlv_def)
  have ll: "length (der_len (length content)) \<le> 3" by (simp add: der_len_def)
  have h: "\<not> (length der < 2 \<or> der ! 0 \<noteq> 0x30)" by (simp add: der der_len_def)
  have l: "read_der_length (drop 1 der) = Inr (length content, length (der_len (length content)))"
    using read_der_length_der [OF assms] by (simp add: der)
  have p: "(1 + length content) mod 2 ^ 64 = p" using assms by (simp add: p_def)
  assume "parse_pkcs1_rsa_pubkey (der_tlv 0x30 content) = Some (Inr key)"
  then have "try_res (take_integer ''modulus'' der p) (\<lambda>(n_bytes, p).
      if p \<ge> length der \<or> der ! p \<noteq> 0x02 then Some (Inl ''expected INTEGER tag 0x02 for exponent'')
      else try_res (take_integer ''exponent'' der p) (\<lambda>(e_bytes, p). Some (Inr (n_bytes, e_bytes)))) = Some (Inr key)"
    unfolding parse_pkcs1_rsa_pubkey_def der_def [symmetric] if_not_P [OF h] l try_res.simps Let_def fst_conv p by (simp split: if_splits)
  then obtain n q e q' where "take_integer ''modulus'' der p = Some (Inr (n, q))" "take_integer ''exponent'' der q = Some (Inr (e, q'))"
    by (force dest!: try_res_Inr split: if_splits)
  then have "p + 4 \<le> length der" by (auto dest!: take_integer_moves)
  then show False using ll by (simp add: der p_def)
qed

end
