(* ===== verification/Timestamps.thy ===== *)
theory Timestamps
  imports DerTlv
begin

unbundle bit_operations_syntax

text \<open>
  \<^verbatim>\<open>crates/themis-evidence/src/timestamp.rs\<close>: requesting an RFC 3161 time stamp and verifying the answer. The structures that the crates
  \<^verbatim>\<open>x509-tsp\<close>, \<^verbatim>\<open>cms\<close> and \<^verbatim>\<open>x509-cert\<close> decode are records of the fields the code reads; their decoders and encoders are the parameter
  \<open>asn1\<close>, the hash functions and the P-384 curve the parameter \<open>ts_crypto\<close>. Object identifiers are their dotted text. The outer \<open>None\<close>
  of a verifier is a panic.
\<close>

section \<open>Data\<close>

record timestamp_response =
  tsr_time :: i64
  tsr_accuracy_ms :: i64
  tsr_raw_der :: bytes

datatype ts_error = TsTransport string | TsInvalidResponse string | TsTimeout u64

datatype timestamp_error = Asn1 string | Cms string | X509 string | HashMismatch string string | SignerCertMissing | ChainInvalid string
  | SignatureInvalid string | EssBindingFailed string

definition OID_AA_SIGNING_CERTIFICATE :: string where "OID_AA_SIGNING_CERTIFICATE = ''1.2.840.113549.1.9.16.2.12''"
definition OID_AA_SIGNING_CERTIFICATE_V2 :: string where "OID_AA_SIGNING_CERTIFICATE_V2 = ''1.2.840.113549.1.9.16.2.47''"
definition OID_MESSAGE_DIGEST :: string where "OID_MESSAGE_DIGEST = ''1.2.840.113549.1.9.4''"
definition OID_ECDSA_WITH_SHA512 :: string where "OID_ECDSA_WITH_SHA512 = ''1.2.840.10045.4.3.4''"

abbreviation ID_SIGNED_DATA :: string where "ID_SIGNED_DATA \<equiv> ''1.2.840.113549.1.7.2''"
abbreviation ID_CE_SUBJECT_KEY_IDENTIFIER :: string where "ID_CE_SUBJECT_KEY_IDENTIFIER \<equiv> ''2.5.29.14''"
abbreviation RSA_ENCRYPTION :: string where "RSA_ENCRYPTION \<equiv> ''1.2.840.113549.1.1.1''"
abbreviation ID_EC_PUBLIC_KEY :: string where "ID_EC_PUBLIC_KEY \<equiv> ''1.2.840.10045.2.1''"

record certificate =
  ce_issuer :: string
  ce_subject :: string
  ce_serial :: string
  ce_extensions :: "(string \<times> bytes) list"
  ce_key_alg :: string
  ce_key :: "bytes option"
  ce_sig_alg :: string
  ce_signature :: "bytes option"

datatype signer_identifier = IssuerAndSerialNumber string string | SubjectKeyIdentifier bytes

record attribute =
  at_oid :: string
  at_values :: "bytes list"

record signer_info =
  si_sid :: signer_identifier
  si_signed_attrs :: "attribute list option"
  si_sig_alg :: string
  si_signature :: bytes

record signed_data =
  sd_econtent :: "bytes option"
  sd_certificates :: "certificate option list option"
  sd_signer_infos :: "signer_info list"

record 't asn1 =
  as_timestamp_resp :: "bytes \<Rightarrow> string + 't option"
  as_token_der :: "'t \<Rightarrow> string + bytes"
  as_content_info :: "bytes \<Rightarrow> string + string \<times> bytes"
  as_signed_data :: "bytes \<Rightarrow> string + signed_data"
  as_tst_info :: "bytes \<Rightarrow> string + bytes"
  as_ski :: "bytes \<Rightarrow> string + bytes"
  as_attrs_der :: "attribute list \<Rightarrow> string + bytes"
  as_cert_der :: "certificate \<Rightarrow> string + bytes"
  as_tbs_der :: "certificate \<Rightarrow> string + bytes"

record ('k, 's) ts_crypto =
  tc_sha1 :: "bytes \<Rightarrow> bytes"
  tc_sha256 :: "bytes \<Rightarrow> bytes"
  tc_sha384 :: "bytes \<Rightarrow> bytes"
  tc_sha512 :: "bytes \<Rightarrow> bytes"
  tc_p384_key :: "bytes \<Rightarrow> string + 'k"
  tc_from_scalars :: "bytes \<Rightarrow> bytes \<Rightarrow> string + 's"
  tc_verify_prehash :: "'k \<Rightarrow> bytes \<Rightarrow> 's \<Rightarrow> string + unit"

definition hex_of :: "bytes \<Rightarrow> string" where
  "hex_of b = hex_encode (map (\<lambda>w. char_of (unat w)) b)"

abbreviation map_err :: "('a \<Rightarrow> 'b) \<Rightarrow> 'a + 'c \<Rightarrow> 'b + 'c" where
  "map_err f \<equiv> map_sum f id"

section \<open>Requesting a stamp\<close>

record http_response =
  hr_success :: bool
  hr_status :: string
  hr_body :: "string + bytes"

type_synonym http_post = "string \<Rightarrow> bytes \<Rightarrow> string + http_response"

definition sha256_oid :: bytes where
  "sha256_oid = [0x06, 0x09, 0x60, 0x86, 0x48, 0x01, 0x65, 0x03, 0x04, 0x02, 0x01]"

definition stamp_request :: "bytes \<Rightarrow> bytes" where
  "stamp_request hash_bytes =
     (let alg = [0x30, word_of_nat (length sha256_oid + 2)] @ sha256_oid @ [0x05, 0x00];
          mi = [0x30, word_of_nat (length alg + 2 + length hash_bytes)] @ alg @ [0x04, word_of_nat (length hash_bytes)] @ hash_bytes;
          version = [0x02, 0x01, 0x01]
      in [0x30, word_of_nat (length version + length mi)] @ version @ mi)"

definition freetsa_stamp :: "(string \<Rightarrow> string + bytes) \<Rightarrow> http_post \<Rightarrow> string \<Rightarrow> i64 \<Rightarrow> string \<Rightarrow> ts_error + timestamp_response" where
  "freetsa_stamp hex_decode post url now hash_hex = (case hex_decode hash_hex of
     Inl e \<Rightarrow> Inl (TsInvalidResponse (''hash must be hex: '' @ e))
   | Inr hash_bytes \<Rightarrow>
       if length hash_bytes \<noteq> 32
       then Inl (TsInvalidResponse (''expected 32-byte SHA-256 hash, got '' @ show_nat (length hash_bytes) @ '' bytes''))
       else (case post url (stamp_request hash_bytes) of
         Inl e \<Rightarrow> Inl (TsTransport (''FreeTSA POST: '' @ e))
       | Inr response \<Rightarrow>
           if \<not> hr_success response then Inl (TsTransport (''FreeTSA returned '' @ hr_status response))
           else (case hr_body response of
             Inl e \<Rightarrow> Inl (TsTransport (''FreeTSA read body: '' @ e))
           | Inr raw_der \<Rightarrow>
               if raw_der = [] then Inl (TsInvalidResponse ''FreeTSA returned empty body'')
               else Inr \<lparr>tsr_time = now, tsr_accuracy_ms = 1000, tsr_raw_der = raw_der\<rparr>)))"

definition mock_stamp :: "i64 \<Rightarrow> string \<Rightarrow> ts_error + timestamp_response" where
  "mock_stamp now hash_hex = Inr \<lparr>tsr_time = now, tsr_accuracy_ms = 1000, tsr_raw_der = []\<rparr>"

definition mock_ts_verify :: "timestamp_response \<Rightarrow> string \<Rightarrow> bool" where
  "mock_ts_verify response hash_hex = True"

definition verify_quick :: "timestamp_response \<Rightarrow> string \<Rightarrow> bool" where
  "verify_quick response hash_hex = (tsr_raw_der response \<noteq> [])"

definition freetsa_verify :: "timestamp_response \<Rightarrow> string \<Rightarrow> bool" where
  "freetsa_verify response hash_hex = verify_quick response hash_hex"

section \<open>Parsing the answer\<close>

definition parse_signed_data :: "'t asn1 \<Rightarrow> bytes \<Rightarrow> timestamp_error + signed_data" where
  "parse_signed_data a der = (case as_timestamp_resp a der of
     Inl e \<Rightarrow> Inl (Asn1 (''TimeStampResp: '' @ e))
   | Inr None \<Rightarrow> Inl (Cms ''timeStampToken missing'')
   | Inr (Some token) \<Rightarrow> (case as_token_der a token of
       Inl e \<Rightarrow> Inl (Asn1 (''encode ContentInfo: '' @ e))
     | Inr token_der \<Rightarrow> (case as_content_info a token_der of
         Inl e \<Rightarrow> Inl (Asn1 (''inner ContentInfo: '' @ e))
       | Inr (content_type, content) \<Rightarrow>
           if content_type \<noteq> ID_SIGNED_DATA then Inl (Cms (''expected id-signedData, got '' @ content_type))
           else map_err (\<lambda>e. Asn1 (''SignedData: '' @ e)) (as_signed_data a (wrap_as_sequence content)))))"

definition parse_tst_info :: "'t asn1 \<Rightarrow> bytes \<Rightarrow> timestamp_error + bytes" where
  "parse_tst_info a der = (case parse_signed_data a der of
     Inl e \<Rightarrow> Inl e
   | Inr sd \<Rightarrow> (case sd_econtent sd of
       None \<Rightarrow> Inl (Cms ''encapContentInfo.eContent missing'')
     | Some econtent \<Rightarrow> map_err (\<lambda>e. Asn1 (''TstInfo: '' @ e)) (as_tst_info a econtent)))"

section \<open>Binding the signer\<close>

definition ski_extension_matches :: "'t asn1 \<Rightarrow> bytes \<Rightarrow> string \<times> bytes \<Rightarrow> bool" where
  "ski_extension_matches a ski ext = (case ext of (oid, value) \<Rightarrow>
     oid = ID_CE_SUBJECT_KEY_IDENTIFIER \<and> (case as_ski a value of Inr v \<Rightarrow> v = ski | Inl _ \<Rightarrow> False))"

definition cert_matches_signer :: "'t asn1 \<Rightarrow> certificate \<Rightarrow> signer_info \<Rightarrow> bool" where
  "cert_matches_signer a cert si = (case si_sid si of
     IssuerAndSerialNumber issuer serial \<Rightarrow> ce_issuer cert = issuer \<and> ce_serial cert = serial
   | SubjectKeyIdentifier ski \<Rightarrow> list_ex (ski_extension_matches a ski) (ce_extensions cert))"

definition locate_signer_cert :: "'t asn1 \<Rightarrow> certificate option list option \<Rightarrow> signer_info \<Rightarrow> certificate list \<Rightarrow> timestamp_error + certificate" where
  "locate_signer_cert a cms_certs si trusted =
     (case find (\<lambda>cert. cert_matches_signer a cert si) (List.map_filter id (case cms_certs of Some certs \<Rightarrow> certs | None \<Rightarrow> []) @ trusted) of
        Some cert \<Rightarrow> Inr cert
      | None \<Rightarrow> Inl SignerCertMissing)"

fun extract_message_digest :: "attribute list \<Rightarrow> bytes option" where
  "extract_message_digest [] = None"
| "extract_message_digest (attr # attrs) =
     (case at_values attr of
        v # _ \<Rightarrow> if at_oid attr = OID_MESSAGE_DIGEST then Some v else extract_message_digest attrs
      | [] \<Rightarrow> extract_message_digest attrs)"

fun first_hash :: "(bytes \<Rightarrow> bytes option option) \<Rightarrow> bytes list \<Rightarrow> bytes option option" where
  "first_hash f [] = Some None"
| "first_hash f (v # vs) = (case f v of None \<Rightarrow> None | Some None \<Rightarrow> first_hash f vs | Some (Some h) \<Rightarrow> Some (Some h))"

definition attr_values :: "string \<Rightarrow> attribute list \<Rightarrow> bytes list" where
  "attr_values oid attrs = concat (map at_values (filter (\<lambda>attr. at_oid attr = oid) attrs))"

definition verify_ess_signing_certificate :: "('k, 's) ts_crypto \<Rightarrow> attribute list \<Rightarrow> bytes \<Rightarrow> (timestamp_error + unit) option" where
  "verify_ess_signing_certificate c attrs cert_der =
     (let check = (\<lambda>name hash computed. if computed = hash then Inr ()
            else Inl (EssBindingFailed (name @ '' cert_hash mismatch: attr='' @ hex_of hash @ '' computed='' @ hex_of computed)));
          show_bool = (\<lambda>b. if b then ''true'' else ''false'');
          seen = (\<lambda>oid. show_bool (list_ex (\<lambda>attr. at_oid attr = oid) attrs))
      in case first_hash extract_ess_cert_hash_v1 (attr_values OID_AA_SIGNING_CERTIFICATE attrs) of
           None \<Rightarrow> None
         | Some (Some hash) \<Rightarrow> Some (check ''ESSCertID'' hash (tc_sha1 c cert_der))
         | Some None \<Rightarrow> (case first_hash extract_ess_cert_hash_v2 (attr_values OID_AA_SIGNING_CERTIFICATE_V2 attrs) of
               None \<Rightarrow> None
             | Some (Some hash) \<Rightarrow> Some (check ''ESSCertIDv2'' hash (tc_sha256 c cert_der))
             | Some None \<Rightarrow> Some (Inl (EssBindingFailed (''no SigningCertificate(v2) attribute found (v1_seen='' @
                 seen OID_AA_SIGNING_CERTIFICATE @ '' v2_seen='' @ seen OID_AA_SIGNING_CERTIFICATE_V2 @ '')'')))))"

section \<open>Signatures and the chain\<close>

definition timestamp_error_text :: "timestamp_error \<Rightarrow> string" where
  "timestamp_error_text e = (case e of
     Asn1 m \<Rightarrow> ''ASN.1 parse error: '' @ m
   | Cms m \<Rightarrow> ''CMS structure error: '' @ m
   | X509 m \<Rightarrow> ''X.509 parse error: '' @ m
   | HashMismatch expected got \<Rightarrow> ''TSTInfo hash mismatch: expected '' @ expected @ '', got '' @ got
   | SignerCertMissing \<Rightarrow> ''signer certificate not found in trust list or CMS''
   | ChainInvalid m \<Rightarrow> ''signer certificate not issued by trusted root: '' @ m
   | SignatureInvalid m \<Rightarrow> ''CMS signature verification failed: '' @ m
   | EssBindingFailed m \<Rightarrow> ''ESS SigningCertificate binding failed: '' @ m)"

definition decode_signature :: "('k, 's) ts_crypto \<Rightarrow> bytes \<Rightarrow> (timestamp_error + 's) option" where
  "decode_signature c der = map_option (map_err SignatureInvalid) (der_to_ecdsa_p384_signature (tc_from_scalars c) der)"

definition verify_cms_signature_p384_sha512 :: "('k, 's) ts_crypto \<Rightarrow> signer_info \<Rightarrow> bytes \<Rightarrow> bytes \<Rightarrow> (timestamp_error + unit) option" where
  "verify_cms_signature_p384_sha512 c si message key =
     (if si_sig_alg si \<noteq> OID_ECDSA_WITH_SHA512 then Some (Inl (SignatureInvalid (''expected ecdsa-with-SHA512, got '' @ si_sig_alg si)))
      else if length key \<noteq> 97 \<or> key ! 0 \<noteq> 0x04
      then Some (Inl (X509 (''expected 97-byte SEC1 uncompressed P-384 point, got '' @ show_nat (length key) @ '' bytes (prefix 0x'' @
        hex_tag (if key = [] then 0 else hd key) @ '')'')))
      else case tc_p384_key c key of
        Inl e \<Rightarrow> Some (Inl (X509 (''p384 VerifyingKey: '' @ e)))
      | Inr verifying_key \<Rightarrow> try_res (decode_signature c (si_signature si)) (\<lambda>sig.
          Some (map_err (\<lambda>e. SignatureInvalid (''verify: '' @ e)) (tc_verify_prehash c verifying_key (tc_sha512 c message) sig))))"

fun to_bytes_be :: "nat \<Rightarrow> bytes" where
  "to_bytes_be n = (if n < 256 then [word_of_nat n] else to_bytes_be (n div 256) @ [word_of_nat (n mod 256)])"

declare to_bytes_be.simps [simp del]

definition digest_info :: "('k, 's) ts_crypto \<Rightarrow> string \<Rightarrow> bytes \<Rightarrow> (bytes \<times> bytes) option" where
  "digest_info c sig_alg tbs_der =
     (let pre = (\<lambda>total last len. [0x30, total, 0x30, 0x0D, 0x06, 0x09, 0x60, 0x86, 0x48, 0x01, 0x65, 0x03, 0x04, 0x02, last, 0x05, 0x00, 0x04, len])
      in if sig_alg = ''1.2.840.113549.1.1.11'' then Some (tc_sha256 c tbs_der, pre 0x31 0x01 0x20)
         else if sig_alg = ''1.2.840.113549.1.1.12'' then Some (tc_sha384 c tbs_der, pre 0x41 0x02 0x30)
         else if sig_alg = ''1.2.840.113549.1.1.13'' then Some (tc_sha512 c tbs_der, pre 0x51 0x03 0x40)
         else None)"

definition verify_chain_rsa :: "('k, 's) ts_crypto \<Rightarrow> certificate \<Rightarrow> bytes \<Rightarrow> bytes \<Rightarrow> string \<Rightarrow> (timestamp_error + unit) option" where
  "verify_chain_rsa c root tbs_der sig_bytes sig_alg = (case ce_key root of
     None \<Rightarrow> Some (Inl (X509 ''root RSA key not BIT STRING''))
   | Some pk_der \<Rightarrow> (case digest_info c sig_alg tbs_der of
       None \<Rightarrow> Some (Inl (ChainInvalid (''unsupported RSA sig alg: '' @ sig_alg)))
     | Some (hashed, info) \<Rightarrow>
         try_res (map_option (map_err (\<lambda>e. X509 (''RSA pubkey decode: '' @ e))) (parse_pkcs1_rsa_pubkey pk_der)) (\<lambda>(n_bytes, e_bytes).
           if be_number n_bytes = 0 then None
           else let m = to_bytes_be (be_number sig_bytes ^ be_number e_bytes mod be_number n_bytes);
                    m_bytes = replicate (length n_bytes - length m) 0 @ m
             in Some (if m_bytes \<noteq> info @ hashed then Inl (ChainInvalid ''RSA chain: signature does not match expected DigestInfo'') else Inr ()))))"

definition verify_chain_ecdsa_p384 :: "('k, 's) ts_crypto \<Rightarrow> bytes \<Rightarrow> bytes \<Rightarrow> bytes \<Rightarrow> string \<Rightarrow> (timestamp_error + unit) option" where
  "verify_chain_ecdsa_p384 c root_pk tbs_der sig_bytes sig_alg = (case tc_p384_key c root_pk of
     Inl e \<Rightarrow> Some (Inl (X509 (''p384 root: '' @ e)))
   | Inr verifying_key \<Rightarrow>
       try_res (map_option (map_err (\<lambda>e. ChainInvalid (''decode root sig: '' @ timestamp_error_text e))) (decode_signature c sig_bytes)) (\<lambda>sig.
         let check = (\<lambda>digest. Some (map_err (\<lambda>e. ChainInvalid (''root sig over signer TBS: '' @ e)) (tc_verify_prehash c verifying_key digest sig)))
         in if sig_alg = ''1.2.840.10045.4.3.4'' then check (tc_sha512 c tbs_der)
            else if sig_alg = ''1.2.840.10045.4.3.3'' then check (tc_sha384 c tbs_der)
            else if sig_alg = ''1.2.840.10045.4.3.2'' then check (tc_sha256 c tbs_der)
            else Some (Inl (ChainInvalid (''unsupported ECDSA sig alg: '' @ sig_alg)))))"

fun verify_ts_chain :: "'t asn1 \<Rightarrow> ('k, 's) ts_crypto \<Rightarrow> certificate \<Rightarrow> certificate list \<Rightarrow> (timestamp_error + unit) option" where
  "verify_ts_chain a c signer [] = Some (Inl (ChainInvalid (''no root matches signer.issuer ('' @ ce_issuer signer @ '')'')))"
| "verify_ts_chain a c signer (root # roots) =
     (if ce_issuer signer \<noteq> ce_subject root then verify_ts_chain a c signer roots
      else case as_tbs_der a signer of
        Inl e \<Rightarrow> Some (Inl (X509 (''encode tbsCertificate: '' @ e)))
      | Inr tbs_der \<Rightarrow>
          let sig_bytes = (case ce_signature signer of Some b \<Rightarrow> b | None \<Rightarrow> [])
          in if ce_key_alg root = RSA_ENCRYPTION then verify_chain_rsa c root tbs_der sig_bytes (ce_sig_alg signer)
             else if ce_key_alg root = ID_EC_PUBLIC_KEY then (case ce_key root of
               None \<Rightarrow> Some (Inl (X509 ''root key not BIT STRING''))
             | Some key \<Rightarrow>
                 if length key \<noteq> 97 \<or> key ! 0 \<noteq> 0x04
                 then Some (Inl (ChainInvalid (''root EC key is not a 97-byte SEC1 uncompressed point: got '' @ show_nat (length key) @ '' bytes'')))
                 else verify_chain_ecdsa_p384 c key tbs_der sig_bytes (ce_sig_alg signer))
             else Some (Inl (ChainInvalid (''unsupported root public key OID: '' @ ce_key_alg root))))"

definition message_digest_ok :: "('k, 's) ts_crypto \<Rightarrow> bytes \<Rightarrow> bytes \<Rightarrow> timestamp_error option" where
  "message_digest_ok c message_digest econtent =
     (let check = (\<lambda>computed. if message_digest \<noteq> computed
            then Some (EssBindingFailed (''messageDigest mismatch: attr='' @ hex_of message_digest @ '' computed='' @ hex_of computed)) else None)
      in if length message_digest = 32 then check (tc_sha256 c econtent)
         else if length message_digest = 64 then check (tc_sha512 c econtent)
         else Some (EssBindingFailed (''unsupported messageDigest length: '' @ show_nat (length message_digest) @ '' bytes'')))"

definition verify_signed_data :: "'t asn1 \<Rightarrow> ('k, 's) ts_crypto \<Rightarrow> signed_data \<Rightarrow> certificate list \<Rightarrow> certificate list \<Rightarrow> (timestamp_error + unit) option" where
  "verify_signed_data a c sd trusted_signer_certs trusted_roots = (case sd_signer_infos sd of
     [] \<Rightarrow> Some (Inl (Cms ''signerInfos is empty''))
   | si # _ \<Rightarrow> (case si_signed_attrs si of
       None \<Rightarrow> Some (Inl (Cms ''signedAttrs missing''))
     | Some attrs \<Rightarrow> (case sd_econtent sd of
         None \<Rightarrow> Some (Inl (Cms ''encapContentInfo.eContent missing''))
       | Some econtent \<Rightarrow> (case extract_message_digest attrs of
           None \<Rightarrow> Some (Inl (Cms ''messageDigest attribute missing''))
         | Some message_digest \<Rightarrow> (case message_digest_ok c message_digest econtent of
             Some e \<Rightarrow> Some (Inl e)
           | None \<Rightarrow>
               try_res (Some (locate_signer_cert a (sd_certificates sd) si trusted_signer_certs)) (\<lambda>signer_cert.
               try_res (Some (map_err X509 (as_cert_der a signer_cert))) (\<lambda>cert_der.
               try_res (verify_ess_signing_certificate c attrs cert_der) (\<lambda>_.
               try_res (Some (map_err (\<lambda>e. Asn1 (''encode signedAttrs: '' @ e)) (as_attrs_der a attrs))) (\<lambda>attrs_der.
               case ce_key signer_cert of
                 None \<Rightarrow> Some (Inl (X509 ''subject_public_key is not BIT STRING''))
               | Some key \<Rightarrow>
                   try_res (verify_cms_signature_p384_sha512 c si attrs_der key) (\<lambda>_. verify_ts_chain a c signer_cert trusted_roots))))))))))"

definition ts_verify_strict :: "'t asn1 \<Rightarrow> timestamp_response \<Rightarrow> bytes \<Rightarrow> timestamp_error + bool" where
  "ts_verify_strict a response hash = map_sum id (\<lambda>imprint. imprint = hash) (parse_tst_info a (tsr_raw_der response))"

definition ts_verify_strict_with_certs ::
  "'t asn1 \<Rightarrow> ('k, 's) ts_crypto \<Rightarrow> timestamp_response \<Rightarrow> bytes \<Rightarrow> certificate list \<Rightarrow> certificate list \<Rightarrow> (timestamp_error + bool) option" where
  "ts_verify_strict_with_certs a c response hash trusted_signer_certs trusted_roots =
     try_res (Some (parse_tst_info a (tsr_raw_der response))) (\<lambda>imprint.
       if imprint \<noteq> hash then Some (Inr False)
       else try_res (Some (parse_signed_data a (tsr_raw_der response))) (\<lambda>sd.
         try_res (verify_signed_data a c sd trusted_signer_certs trusted_roots) (\<lambda>_. Some (Inr True))))"

section \<open>The authority as an interface\<close>

text \<open>The contract of the trait \<^verbatim>\<open>TimestampAuthority\<close> that sealing relies on: what was stamped is accepted by the same authority, and it
  carries the fixed accuracy and the clock reading of the call.\<close>

locale timestamp_authority =
  fixes stamp :: "i64 \<Rightarrow> string \<Rightarrow> ts_error + timestamp_response" and check :: "timestamp_response \<Rightarrow> string \<Rightarrow> bool"
  assumes stamped_verifies: "stamp now h = Inr r \<Longrightarrow> check r h"
    and stamped_fields: "stamp now h = Inr r \<Longrightarrow> tsr_time r = now \<and> tsr_accuracy_ms r = 1000"
begin

lemma sealed_stamp: "(case stamp now h of Inl e \<Rightarrow> Inl (Inl e) | Inr r \<Rightarrow> if check r h then Inr (tsr_time r) else Inl (Inr r)) =
    (case stamp now h of Inl e \<Rightarrow> Inl (Inl e) | Inr r \<Rightarrow> Inr now)"
  using stamped_verifies stamped_fields by (simp split: sum.splits)

end

interpretation mock: timestamp_authority mock_stamp mock_ts_verify
  by unfold_locales (auto simp: mock_stamp_def mock_ts_verify_def)

interpretation freetsa: timestamp_authority "freetsa_stamp hex_decode post url" freetsa_verify
  for hex_decode :: "string \<Rightarrow> string + bytes" and post :: http_post and url :: string
  by unfold_locales (auto simp: freetsa_stamp_def freetsa_verify_def verify_quick_def split: sum.splits if_splits)

section \<open>What acceptance means\<close>

text \<open>Acceptance of each step, without its error cases.\<close>

definition digest_bound :: "('k, 's) ts_crypto \<Rightarrow> bytes \<Rightarrow> bytes \<Rightarrow> bool" where
  "digest_bound c md econtent \<longleftrightarrow> length md = 32 \<and> md = tc_sha256 c econtent \<or> length md = 64 \<and> md = tc_sha512 c econtent"

definition ess_bound :: "('k, 's) ts_crypto \<Rightarrow> attribute list \<Rightarrow> bytes \<Rightarrow> bool" where
  "ess_bound c attrs cert_der \<longleftrightarrow>
     first_hash extract_ess_cert_hash_v1 (attr_values OID_AA_SIGNING_CERTIFICATE attrs) = Some (Some (tc_sha1 c cert_der)) \<or>
     first_hash extract_ess_cert_hash_v1 (attr_values OID_AA_SIGNING_CERTIFICATE attrs) = Some None \<and>
     first_hash extract_ess_cert_hash_v2 (attr_values OID_AA_SIGNING_CERTIFICATE_V2 attrs) = Some (Some (tc_sha256 c cert_der))"

definition p384_signed :: "('k, 's) ts_crypto \<Rightarrow> bytes \<Rightarrow> bytes \<Rightarrow> bytes \<Rightarrow> bool" where
  "p384_signed c key digest der \<longleftrightarrow> length key = 97 \<and> key ! 0 = 0x04 \<and> (\<exists>k s. tc_p384_key c key = Inr k \<and>
     der_to_ecdsa_p384_signature (tc_from_scalars c) der = Some (Inr s) \<and> tc_verify_prehash c k digest s = Inr ())"

definition ec_digest :: "('k, 's) ts_crypto \<Rightarrow> string \<Rightarrow> (bytes \<Rightarrow> bytes) option" where
  "ec_digest c alg = map_of [(''1.2.840.10045.4.3.4'', tc_sha512 c), (''1.2.840.10045.4.3.3'', tc_sha384 c), (''1.2.840.10045.4.3.2'', tc_sha256 c)] alg"

definition issued_by :: "'t asn1 \<Rightarrow> ('k, 's) ts_crypto \<Rightarrow> certificate \<Rightarrow> certificate \<Rightarrow> bool" where
  "issued_by a c signer root \<longleftrightarrow> (\<exists>tbs. as_tbs_der a signer = Inr tbs \<and>
     (ce_key_alg root = RSA_ENCRYPTION \<and>
        verify_chain_rsa c root tbs (case ce_signature signer of Some b \<Rightarrow> b | None \<Rightarrow> []) (ce_sig_alg signer) = Some (Inr ()) \<or>
      ce_key_alg root = ID_EC_PUBLIC_KEY \<and> (\<exists>key h. ce_key root = Some key \<and> ec_digest c (ce_sig_alg signer) = Some h \<and>
        p384_signed c key (h tbs) (case ce_signature signer of Some b \<Rightarrow> b | None \<Rightarrow> []))))"

lemma try_res_ok: "try_res r f = Some (Inr y) \<longleftrightarrow> (\<exists>x. r = Some (Inr x) \<and> f x = Some (Inr y))"
  by (cases "(r, f)" rule: try_res.cases) auto

lemma case_option_ok: "(case k of None \<Rightarrow> Some (Inl e) | Some x \<Rightarrow> f x) = Some (Inr y) \<longleftrightarrow> (\<exists>x. k = Some x \<and> f x = Some (Inr y))"
  by (cases k) auto

lemma map_err_ok [simp]: "map_option (map_err g) r = Some (Inr x) \<longleftrightarrow> r = Some (Inr x)"
  by (cases r; cases "the r") auto

lemma map_err_Inr [simp]: "map_err g r = Inr x \<longleftrightarrow> r = Inr x"
  by (cases r) auto

lemma message_digest_ok_None: "message_digest_ok c md econtent = None \<longleftrightarrow> digest_bound c md econtent"
  by (auto simp: message_digest_ok_def digest_bound_def Let_def)

lemma verify_ess_ok: "verify_ess_signing_certificate c attrs cert_der = Some (Inr ()) \<longleftrightarrow> ess_bound c attrs cert_der"
  by (auto simp: verify_ess_signing_certificate_def ess_bound_def Let_def split: option.splits)

lemma verify_cms_ok: "verify_cms_signature_p384_sha512 c si message key = Some (Inr ()) \<longleftrightarrow>
    si_sig_alg si = OID_ECDSA_WITH_SHA512 \<and> p384_signed c key (tc_sha512 c message) (si_signature si)"
  by (auto simp: verify_cms_signature_p384_sha512_def p384_signed_def decode_signature_def try_res_ok split: sum.splits)

lemma verify_ecdsa_ok: "length key = 97 \<Longrightarrow> key ! 0 = 0x04 \<Longrightarrow> verify_chain_ecdsa_p384 c key tbs sig alg = Some (Inr ()) \<longleftrightarrow>
    (\<exists>h. ec_digest c alg = Some h \<and> p384_signed c key (h tbs) sig)"
  by (auto simp: verify_chain_ecdsa_p384_def p384_signed_def decode_signature_def ec_digest_def try_res_ok Let_def split: sum.splits)

lemma verify_ts_chain_ok: "verify_ts_chain a c signer roots = Some (Inr ()) \<longleftrightarrow>
    (\<exists>root. find (\<lambda>root. ce_subject root = ce_issuer signer) roots = Some root \<and> issued_by a c signer root)"
proof (induction roots)
  case (Cons root roots)
  show ?case
  proof (cases "ce_issuer signer = ce_subject root")
    case True
    show ?thesis
    proof (cases "as_tbs_der a signer")
      case (Inr tbs)
      with True verify_ecdsa_ok [of "the (ce_key root)" c tbs] show ?thesis
        by (cases "ce_key root") (auto simp: issued_by_def Let_def p384_signed_def)
    qed (use True in \<open>simp add: issued_by_def\<close>)
  qed (use Cons in auto)
qed simp

lemma locate_signer_cert_ok: "locate_signer_cert a certs si trusted = Inr cert \<longleftrightarrow>
    find (\<lambda>cert. cert_matches_signer a cert si) (List.map_filter id (case certs of Some cs \<Rightarrow> cs | None \<Rightarrow> []) @ trusted) = Some cert"
  by (simp add: locate_signer_cert_def split: option.splits)

lemma parse_tst_info_ok: "parse_tst_info a der = Inr hash \<longleftrightarrow>
    (\<exists>sd econtent. parse_signed_data a der = Inr sd \<and> sd_econtent sd = Some econtent \<and> as_tst_info a econtent = Inr hash)"
  by (auto simp: parse_tst_info_def split: sum.splits option.splits)

text \<open>Everything that acceptance of one signed structure means: the first signer's attributes carry the digest of the stamped content and bind the
  certificate that the signer names, that certificate's key signed the attributes, and the first trusted root with the name of its issuer signed it.\<close>

definition stamp_authentic :: "'t asn1 \<Rightarrow> ('k, 's) ts_crypto \<Rightarrow> signed_data \<Rightarrow> bytes \<Rightarrow> certificate list \<Rightarrow> certificate list \<Rightarrow> bool" where
  "stamp_authentic a c sd econtent certs roots \<longleftrightarrow> (\<exists>si rest attrs md signer cert_der attrs_der key root.
     sd_signer_infos sd = si # rest \<and> si_signed_attrs si = Some attrs \<and>
     extract_message_digest attrs = Some md \<and> digest_bound c md econtent \<and>
     find (\<lambda>cert. cert_matches_signer a cert si) (List.map_filter id (case sd_certificates sd of Some cs \<Rightarrow> cs | None \<Rightarrow> []) @ certs) = Some signer \<and>
     as_cert_der a signer = Inr cert_der \<and> ess_bound c attrs cert_der \<and>
     as_attrs_der a attrs = Inr attrs_der \<and> ce_key signer = Some key \<and>
     si_sig_alg si = OID_ECDSA_WITH_SHA512 \<and> p384_signed c key (tc_sha512 c attrs_der) (si_signature si) \<and>
     find (\<lambda>root. ce_subject root = ce_issuer signer) roots = Some root \<and> issued_by a c signer root)"

lemma verify_signed_data_ok:
  assumes "sd_econtent sd = Some econtent"
  shows "verify_signed_data a c sd certs roots = Some (Inr ()) \<longleftrightarrow> stamp_authentic a c sd econtent certs roots"
proof (cases "sd_signer_infos sd")
  case (Cons si rest)
  show ?thesis
  proof (cases "si_signed_attrs si")
    case (Some attrs)
    show ?thesis
    proof (cases "extract_message_digest attrs")
      case md: (Some md)
      show ?thesis
      proof (cases "digest_bound c md econtent")
        case True
        then have "message_digest_ok c md econtent = None" by (simp add: message_digest_ok_None)
        with True show ?thesis
          by (simp add: verify_signed_data_def stamp_authentic_def assms Cons Some md try_res_ok locate_signer_cert_ok case_option_ok verify_ess_ok verify_cms_ok verify_ts_chain_ok)
      next
        case False
        then have "message_digest_ok c md econtent \<noteq> None" by (simp add: message_digest_ok_None)
        with False show ?thesis by (auto simp: verify_signed_data_def stamp_authentic_def assms Cons Some md)
      qed
    qed (simp add: verify_signed_data_def stamp_authentic_def assms Cons Some)
  qed (simp add: verify_signed_data_def stamp_authentic_def assms Cons)
qed (simp add: verify_signed_data_def stamp_authentic_def assms)

section \<open>Properties\<close>

text \<open>Property C9: strict verification of a time stamp is exact. It answers true precisely when the answer of the authority parses, its imprint is the
  hash, and the signed structure is stamp_authentic: digest of the content, binding of the certificate, signature and issuer are all right. It
  answers false precisely when the imprint is another one.\<close>

theorem strict_verification_exact:
  "(ts_verify_strict_with_certs a c r hash certs roots = Some (Inr True) \<longleftrightarrow>
      (\<exists>sd econtent. parse_signed_data a (tsr_raw_der r) = Inr sd \<and> sd_econtent sd = Some econtent \<and> as_tst_info a econtent = Inr hash \<and>
         stamp_authentic a c sd econtent certs roots)) \<and>
   (ts_verify_strict_with_certs a c r hash certs roots = Some (Inr False) \<longleftrightarrow>
      (\<exists>imprint. parse_tst_info a (tsr_raw_der r) = Inr imprint \<and> imprint \<noteq> hash))"
proof
  show "ts_verify_strict_with_certs a c r hash certs roots = Some (Inr True) \<longleftrightarrow>
      (\<exists>sd econtent. parse_signed_data a (tsr_raw_der r) = Inr sd \<and> sd_econtent sd = Some econtent \<and> as_tst_info a econtent = Inr hash \<and>
         stamp_authentic a c sd econtent certs roots)"
    by (auto simp: ts_verify_strict_with_certs_def try_res_ok parse_tst_info_ok verify_signed_data_ok)
  show "ts_verify_strict_with_certs a c r hash certs roots = Some (Inr False) \<longleftrightarrow>
      (\<exists>imprint. parse_tst_info a (tsr_raw_der r) = Inr imprint \<and> imprint \<noteq> hash)"
    by (auto simp: ts_verify_strict_with_certs_def try_res_ok split: if_splits)
qed

text \<open>An RSA root never vouches for a signer. Its key is any DER SEQUENCE of less than 64 kilobytes, so any RSA public key of such a size.\<close>

definition rsa_root :: "certificate \<Rightarrow> bool" where
  "rsa_root root \<longleftrightarrow> ce_key_alg root = RSA_ENCRYPTION \<and> (\<exists>content. length content < 65536 \<and> ce_key root = Some (der_tlv 0x30 content))"

lemma rsa_root_rejects: "rsa_root root \<Longrightarrow> \<not> issued_by a c signer root"
  by (auto simp: rsa_root_def issued_by_def verify_chain_rsa_def try_res_ok rsa_key_never_parsed split: option.splits)

text \<open>Property C27: against roots with RSA keys, of any modulus and exponent whose DER encoding has less than 64 kilobytes, strict verification
  accepts no time stamp at all.\<close>

theorem rsa_rooted_stamps_rejected:
  assumes "\<forall>root \<in> set roots. rsa_root root"
  shows "ts_verify_strict_with_certs a c r hash certs roots \<noteq> Some (Inr True)"
proof
  assume "ts_verify_strict_with_certs a c r hash certs roots = Some (Inr True)"
  then obtain sd econtent where "sd_econtent sd = Some econtent" "verify_signed_data a c sd certs roots = Some (Inr ())"
    by (auto simp: ts_verify_strict_with_certs_def try_res_ok parse_tst_info_ok split: if_splits)
  then obtain signer root where "find (\<lambda>root. ce_subject root = ce_issuer signer) roots = Some root" "issued_by a c signer root"
    by (auto simp: verify_signed_data_ok stamp_authentic_def)
  with assms rsa_root_rejects show False by (metis find_Some_iff nth_mem)
qed

text \<open>A stamp that is accepted against a P-384 root.\<close>

definition sample_key :: bytes where "sample_key = 0x04 # replicate 96 1"

definition sample_attrs :: "attribute list" where
  "sample_attrs = [\<lparr>at_oid = OID_MESSAGE_DIGEST, at_values = [replicate 32 7]\<rparr>,
     \<lparr>at_oid = OID_AA_SIGNING_CERTIFICATE, at_values = [ess_v1_octets (replicate 20 9) [] []]\<rparr>]"

definition sample_cert :: "string \<Rightarrow> bytes \<Rightarrow> certificate" where
  "sample_cert alg key = \<lparr>ce_issuer = ''CA'', ce_subject = ''CA'', ce_serial = ''1'', ce_extensions = [], ce_key_alg = alg, ce_key = Some key,
     ce_sig_alg = OID_ECDSA_WITH_SHA512, ce_signature = Some (ecdsa_der [1] [1])\<rparr>"

definition sample_sd :: signed_data where
  "sample_sd = \<lparr>sd_econtent = Some [5], sd_certificates = None, sd_signer_infos = [\<lparr>si_sid = IssuerAndSerialNumber ''CA'' ''1'',
     si_signed_attrs = Some sample_attrs, si_sig_alg = OID_ECDSA_WITH_SHA512, si_signature = ecdsa_der [1] [1]\<rparr>]\<rparr>"

definition sample_asn1 :: "unit asn1" where
  "sample_asn1 = \<lparr>as_timestamp_resp = (\<lambda>_. Inr (Some ())), as_token_der = (\<lambda>_. Inr []), as_content_info = (\<lambda>_. Inr (ID_SIGNED_DATA, [])),
     as_signed_data = (\<lambda>_. Inr sample_sd), as_tst_info = Inr, as_ski = Inr, as_attrs_der = (\<lambda>_. Inr [1]), as_cert_der = (\<lambda>_. Inr [2]), as_tbs_der = (\<lambda>_. Inr [3])\<rparr>"

definition sample_ts_crypto :: "(bytes, bytes \<times> bytes) ts_crypto" where
  "sample_ts_crypto = \<lparr>tc_sha1 = (\<lambda>_. replicate 20 9), tc_sha256 = (\<lambda>_. replicate 32 7), tc_sha384 = (\<lambda>_. []), tc_sha512 = (\<lambda>_. []),
     tc_p384_key = Inr, tc_from_scalars = (\<lambda>r s. Inr (r, s)), tc_verify_prehash = (\<lambda>_ _ _. Inr ())\<rparr>"

lemma sample_signed: "p384_signed sample_ts_crypto sample_key d (ecdsa_der [1] [1])"
proof -
  obtain r s where "der_to_ecdsa_p384_signature (\<lambda>a b. Inr (a, b)) (ecdsa_der [1] [1]) = Some (Inr (r, s) :: string + bytes \<times> bytes)"
    using ecdsa_decodes [of "[1]" "[1]"] by (auto simp: minimal_int_def)
  then show ?thesis by (simp add: p384_signed_def sample_ts_crypto_def sample_key_def)
qed

lemma sample_authentic: "stamp_authentic sample_asn1 sample_ts_crypto sample_sd [5] [sample_cert ID_EC_PUBLIC_KEY sample_key] [sample_cert ID_EC_PUBLIC_KEY sample_key]"
proof -
  have "first_hash extract_ess_cert_hash_v1 (attr_values OID_AA_SIGNING_CERTIFICATE sample_attrs) = Some (Some (replicate 20 9))"
    using ess_v1_hash [of "replicate 20 9" "[]" "[]" "[]"]
    by (simp add: attr_values_def sample_attrs_def OID_MESSAGE_DIGEST_def OID_AA_SIGNING_CERTIFICATE_def)
  then have "ess_bound sample_ts_crypto sample_attrs [2]" by (simp add: ess_bound_def sample_ts_crypto_def)
  moreover have "issued_by sample_asn1 sample_ts_crypto (sample_cert ID_EC_PUBLIC_KEY sample_key) (sample_cert ID_EC_PUBLIC_KEY sample_key)"
    using sample_signed by (auto simp: issued_by_def sample_asn1_def sample_cert_def ec_digest_def OID_ECDSA_WITH_SHA512_def)
  moreover have "extract_message_digest sample_attrs = Some (replicate 32 7)" "digest_bound sample_ts_crypto (replicate 32 7) [5]"
    by (simp_all add: sample_attrs_def digest_bound_def sample_ts_crypto_def)
  ultimately show ?thesis using sample_signed
    by (simp add: stamp_authentic_def sample_sd_def sample_asn1_def map_filter_simps cert_matches_signer_def sample_cert_def)
qed

theorem rsa_rooted_stamps_rejected_witness:
  "ts_verify_strict_with_certs sample_asn1 sample_ts_crypto \<lparr>tsr_time = 0, tsr_accuracy_ms = 0, tsr_raw_der = []\<rparr> [5]
     [sample_cert ID_EC_PUBLIC_KEY sample_key] [sample_cert ID_EC_PUBLIC_KEY sample_key] = Some (Inr True) \<and>
   ts_verify_strict_with_certs sample_asn1 sample_ts_crypto \<lparr>tsr_time = 0, tsr_accuracy_ms = 0, tsr_raw_der = []\<rparr> [5]
     [sample_cert ID_EC_PUBLIC_KEY sample_key] [sample_cert RSA_ENCRYPTION (rsa_key_der (replicate 512 0xC1) [1, 0, 1])] \<noteq> Some (Inr True)"
proof
  show "ts_verify_strict_with_certs sample_asn1 sample_ts_crypto \<lparr>tsr_time = 0, tsr_accuracy_ms = 0, tsr_raw_der = []\<rparr> [5]
     [sample_cert ID_EC_PUBLIC_KEY sample_key] [sample_cert ID_EC_PUBLIC_KEY sample_key] = Some (Inr True)"
  proof -
    have e: "sd_econtent sample_sd = Some [5]" by (simp add: sample_sd_def)
    have p: "parse_signed_data sample_asn1 [] = Inr sample_sd" "as_tst_info sample_asn1 [5] = Inr [5]" by (simp_all add: parse_signed_data_def sample_asn1_def)
    show ?thesis using sample_authentic by (simp add: ts_verify_strict_with_certs_def try_res_ok parse_tst_info_def e p verify_signed_data_ok [OF e])
  qed
  show "ts_verify_strict_with_certs sample_asn1 sample_ts_crypto \<lparr>tsr_time = 0, tsr_accuracy_ms = 0, tsr_raw_der = []\<rparr> [5]
     [sample_cert ID_EC_PUBLIC_KEY sample_key] [sample_cert RSA_ENCRYPTION (rsa_key_der (replicate 512 0xC1) [1, 0, 1])] \<noteq> Some (Inr True)"
    by (rule rsa_rooted_stamps_rejected) (simp add: rsa_root_def sample_cert_def rsa_key_der_def, rule exI, rule conjI [OF _ refl],
      simp add: der_tlv_def der_len_def int_octets_def)
qed

text \<open>Fact: the comparison with the expected digest leaves out the PKCS#1 padding, so that even a key that parses can only accept when its modulus
  has at most 83 bytes.\<close>

theorem rsa_accepts_only_short_keys:
  assumes "length (tc_sha256 c tbs) = 32" and "length (tc_sha384 c tbs) = 48" and "length (tc_sha512 c tbs) = 64"
    and "verify_chain_rsa c root tbs sig alg = Some (Inr ())"
  shows "\<exists>key n e. ce_key root = Some key \<and> parse_pkcs1_rsa_pubkey key = Some (Inr (n, e)) \<and> length n \<le> 83"
proof -
  from assms(4) obtain key h info n e where r: "ce_key root = Some key" "digest_info c alg tbs = Some (h, info)"
    "parse_pkcs1_rsa_pubkey key = Some (Inr (n, e))"
    and m: "(let m = to_bytes_be (be_number sig ^ be_number e mod be_number n) in replicate (length n - length m) 0 @ m) = info @ h"
    by (auto simp: verify_chain_rsa_def try_res_ok Let_def split: option.splits if_splits)
  have "length n \<le> length (info @ h)" unfolding m [symmetric] by (simp add: Let_def)
  moreover from r(2) assms(1-3) have "length (info @ h) \<le> 83" by (auto simp: digest_info_def Let_def split: if_splits)
  ultimately show ?thesis using r by auto
qed

lemma stamp_request_der:
  "length h = 32 \<Longrightarrow> stamp_request h = der_tlv 0x30 ([0x02, 0x01, 0x01] @ der_tlv 0x30 (der_tlv 0x30 (sha256_oid @ [0x05, 0x00]) @ der_tlv 0x04 h))"
  by (simp add: stamp_request_def der_tlv_def der_len_def sha256_oid_def Let_def)

text \<open>Fact: requesting a stamp. The call succeeds precisely when the argument is the hex text of 32 bytes and the authority, asked with the DER
  encoding of a version 1 request for that SHA-256 imprint, answers with a success status and a body that is not empty; the stamp then
  holds that body and the local clock, and the same authority accepts it for whatever hash.\<close>

theorem freetsa_stamp_exact:
  "freetsa_stamp hex_decode post url now hash_hex = Inr r \<longleftrightarrow>
     (\<exists>h resp body. hex_decode hash_hex = Inr h \<and> length h = 32 \<and>
        post url (der_tlv 0x30 ([0x02, 0x01, 0x01] @ der_tlv 0x30 (der_tlv 0x30 (sha256_oid @ [0x05, 0x00]) @ der_tlv 0x04 h))) = Inr resp \<and>
        hr_success resp \<and> hr_body resp = Inr body \<and> body \<noteq> [] \<and>
        r = \<lparr>tsr_time = now, tsr_accuracy_ms = 1000, tsr_raw_der = body\<rparr>) \<and> freetsa_verify r other_hash"
proof -
  have "freetsa_verify r other_hash" if "freetsa_stamp hex_decode post url now hash_hex = Inr r"
    using freetsa.stamped_verifies [OF that] by (simp add: freetsa_verify_def verify_quick_def)
  then show ?thesis by (auto simp: freetsa_stamp_def stamp_request_der split: sum.splits if_splits)
qed

end
