(* ===== verification/TsaClients.thy ===== *)
theory TsaClients
  imports Timestamps
begin

text \<open>
  The time-stamping clients of \<^verbatim>\<open>crates/tl-evidence/src/tsa.rs\<close> and \<^verbatim>\<open>tsa/{cms_verify,sectigo,digicert,eu_trust_list}.rs\<close>. The crates that decode CMS, PEM and
  X.509 are the parameter \<open>cms_lib\<close>; environment variables, files, HTTP and base64 are arguments. The loop over a PEM file only ends if
  the PEM parser makes progress, so it is a partial function whose value \<open>None\<close> stands for a panic or a loop without end.
\<close>

section \<open>CMS verification\<close>

datatype cms_verify_error = DigestLength nat | CmsError string | MessageImprintMismatch string string | ContentType string
  | MissingSignedAttributes | NoSignedContent | NoSignedData | ChainParse string | ChainNotCa string | ChainEmpty | InvalidInput | ContentInfoType string

definition ID_SIGNED_DATA_OCTETS :: bytes where
  "ID_SIGNED_DATA_OCTETS = [0x2A, 0x86, 0x48, 0x86, 0xF7, 0x0D, 0x01, 0x07, 0x02]"

definition ID_CT_TST_INFO_OCTETS :: bytes where
  "ID_CT_TST_INFO_OCTETS = [0x2A, 0x86, 0x48, 0x86, 0xF7, 0x0D, 0x01, 0x09, 0x10, 0x01, 0x04]"

record 'g cms_signed_data =
  csd_signers :: "'g list"
  csd_content :: "bytes option"

record x509_cert =
  xc_basic_ca :: "bool option"
  xc_ekus :: "bool option list"
  xc_subject :: string

record ('r, 'd, 'g, 'p) cms_lib =
  cl_timestamp_resp :: "bytes \<Rightarrow> 'r option"
  cl_resp_signed_data :: "'r \<Rightarrow> string + 'd option"
  cl_content_info :: "bytes \<Rightarrow> (bytes \<times> bytes) option"
  cl_decode_signed_data :: "bytes \<Rightarrow> string + 'd"
  cl_signed_data :: "'d \<Rightarrow> string + 'g cms_signed_data"
  cl_verify_signature :: "'g cms_signed_data \<Rightarrow> 'g \<Rightarrow> string + unit"
  cl_verify_digest :: "'g cms_signed_data \<Rightarrow> 'g \<Rightarrow> string + unit"
  cl_content_type :: "'g \<Rightarrow> bytes option"
  cl_tst_info :: "bytes \<Rightarrow> string + bytes"
  cl_parse_pem :: "bytes \<Rightarrow> string + bytes \<times> 'p"
  cl_parse_x509 :: "'p \<Rightarrow> string + x509_cert"
  cl_oid_debug :: "bytes \<Rightarrow> string"

definition extract_signed_data :: "('r, 'd, 'g, 'p) cms_lib \<Rightarrow> bytes \<Rightarrow> cms_verify_error + 'g cms_signed_data" where
  "extract_signed_data l token_der = (case cl_timestamp_resp l token_der of
     Some tsr \<Rightarrow> (case cl_resp_signed_data l tsr of
         Inl e \<Rightarrow> Inl (CmsError (''TimeStampResponse::signed_data: '' @ e))
       | Inr None \<Rightarrow> Inl NoSignedData
       | Inr (Some sd) \<Rightarrow> map_err CmsError (cl_signed_data l sd))
   | None \<Rightarrow> (case cl_content_info l token_der of
         Some (content_type, content) \<Rightarrow>
           if content_type \<noteq> ID_SIGNED_DATA_OCTETS then Inl (ContentInfoType (cl_oid_debug l content_type))
           else (case cl_decode_signed_data l content of
               Inl e \<Rightarrow> Inl (CmsError (''ContentInfo content SignedData parse: '' @ e))
             | Inr sd \<Rightarrow> map_err CmsError (cl_signed_data l sd))
       | None \<Rightarrow> Inl InvalidInput))"

definition is_ca :: "x509_cert \<Rightarrow> bool" where
  "is_ca cert = (xc_basic_ca cert = Some True)"

definition has_time_stamping_extended_key_usage :: "x509_cert \<Rightarrow> bool" where
  "has_time_stamping_extended_key_usage cert = (case List.map_filter id (xc_ekus cert) of b # _ \<Rightarrow> b | [] \<Rightarrow> False)"

definition first_eku_time_stamping :: "x509_cert \<Rightarrow> bool" where
  "first_eku_time_stamping cert = (case xc_ekus cert of Some b # _ \<Rightarrow> b | _ \<Rightarrow> False)"

definition skip_blank :: "bytes \<Rightarrow> bytes" where
  "skip_blank s = dropWhile (\<lambda>b. b \<in> {0x0A, 0x0D, 0x20, 0x09}) s"

text \<open>The rest of the file after \<open>offset\<close> bytes stands for the offset; an answer of the parser that is longer than its input underflows.\<close>

partial_function (option) pem_loop ::
  "('r, 'd, 'g, 'p) cms_lib \<Rightarrow> (x509_cert \<Rightarrow> bool) \<Rightarrow> (nat \<Rightarrow> string \<Rightarrow> 'e) \<Rightarrow> (string \<Rightarrow> 'e) \<Rightarrow> (string \<Rightarrow> 'e) \<Rightarrow> nat \<Rightarrow> bytes \<Rightarrow> nat \<Rightarrow> ('e + nat) option" where
  "pem_loop l eku bad_pem bad_cert not_ca file_len remaining count =
     (if remaining = [] then Some (Inr count)
      else case cl_parse_pem l remaining of
        Inl e \<Rightarrow> Some (Inl (bad_pem (file_len - length remaining) e))
      | Inr (nxt, pem) \<Rightarrow> (case cl_parse_x509 l pem of
          Inl e \<Rightarrow> Some (Inl (bad_cert e))
        | Inr cert \<Rightarrow>
            if \<not> is_ca cert \<and> \<not> eku cert then Some (Inl (not_ca (xc_subject cert)))
            else if length nxt > length remaining then None
            else pem_loop l eku bad_pem bad_cert not_ca file_len (skip_blank (drop (length remaining - length nxt) remaining)) (count + 1)))"

definition validate_chain_pem :: "('r, 'd, 'g, 'p) cms_lib \<Rightarrow> bytes \<Rightarrow> (cms_verify_error + unit) option" where
  "validate_chain_pem l chain_pem =
     try_res (pem_loop l has_time_stamping_extended_key_usage (\<lambda>offset e. ChainParse (''at offset '' @ show_nat offset @ '': '' @ e))
       (\<lambda>e. ChainParse (''cert parse: '' @ e)) ChainNotCa (length chain_pem) chain_pem 0)
     (\<lambda>chain_count. Some (if chain_count = 0 then Inl ChainEmpty else Inr ()))"

definition sectigo_validate_chain_pem :: "('r, 'd, 'g, 'p) cms_lib \<Rightarrow> bytes \<Rightarrow> (string + unit) option" where
  "sectigo_validate_chain_pem l chain_pem =
     try_res (pem_loop l first_eku_time_stamping (\<lambda>offset e. ''PEM parse at offset '' @ show_nat offset @ '': '' @ e)
       (\<lambda>e. ''cert parse: '' @ e) (\<lambda>s. ''cert in chain is not a CA and has no timeStamping EKU: subject='' @ s) (length chain_pem) chain_pem 0)
     (\<lambda>chain_count. Some (if chain_count = 0 then Inl ''chain.pem is empty'' else Inr ()))"

definition check_signer :: "('r, 'd, 'g, 'p) cms_lib \<Rightarrow> 'g cms_signed_data \<Rightarrow> 'g \<Rightarrow> cms_verify_error + unit" where
  "check_signer l sd signer = (case cl_verify_signature l sd signer of
     Inl e \<Rightarrow> Inl (CmsError (''SignerInfo::verify_signature: '' @ e))
   | Inr _ \<Rightarrow> (case cl_verify_digest l sd signer of
       Inl e \<Rightarrow> Inl (CmsError (''SignerInfo::verify_message_digest_with_signed_data: '' @ e))
     | Inr _ \<Rightarrow> (case cl_content_type l signer of
         None \<Rightarrow> Inl MissingSignedAttributes
       | Some ct \<Rightarrow> if ct \<noteq> ID_CT_TST_INFO_OCTETS then Inl (ContentType (cl_oid_debug l ct)) else Inr ())))"

fun check_signers :: "('r, 'd, 'g, 'p) cms_lib \<Rightarrow> 'g cms_signed_data \<Rightarrow> 'g list \<Rightarrow> cms_verify_error + unit" where
  "check_signers l sd [] = Inr ()"
| "check_signers l sd (signer # signers) = (case check_signer l sd signer of Inl e \<Rightarrow> Inl e | Inr _ \<Rightarrow> check_signers l sd signers)"

definition cms_verify_strict :: "('r, 'd, 'g, 'p) cms_lib \<Rightarrow> bytes \<Rightarrow> bytes \<Rightarrow> bytes \<Rightarrow> (cms_verify_error + unit) option" where
  "cms_verify_strict l token_der expected_digest chain_pem =
     (if length expected_digest \<noteq> 32 then Some (Inl (DigestLength (length expected_digest)))
      else try_res (Some (extract_signed_data l token_der)) (\<lambda>sd.
        try_res (validate_chain_pem l chain_pem) (\<lambda>_.
        try_res (Some (check_signers l sd (csd_signers sd))) (\<lambda>_. Some (case csd_content sd of
            None \<Rightarrow> Inl NoSignedContent
          | Some e_content \<Rightarrow> (case cl_tst_info l e_content of
              Inl e \<Rightarrow> Inl (CmsError (''TSTInfo parse: '' @ e))
            | Inr imprint \<Rightarrow>
                if imprint \<noteq> expected_digest then Inl (MessageImprintMismatch (hex_of expected_digest) (hex_of imprint)) else Inr ()))))))"

section \<open>Clients\<close>

datatype tsa_error = TsaProviderRequired | TsaInvalidProvider string | TsaDeferredToV11 string | TsaNotImplemented string
  | TsaFetch string | TsaVerify string | TsaInvalidToken | TsaEnv string

definition cms_verify_error_text :: "cms_verify_error \<Rightarrow> string" where
  "cms_verify_error_text e = (case e of
     DigestLength n \<Rightarrow> ''expected_digest must be 32 bytes (SHA-256), got '' @ show_nat n
   | CmsError m \<Rightarrow> ''cryptographic-message-syntax error: '' @ m
   | MessageImprintMismatch expected got \<Rightarrow> ''messageImprint mismatch: expected '' @ expected @ '', got '' @ got
   | ContentType m \<Rightarrow> ''content_type is not id-ct-TSTInfo: '' @ m
   | MissingSignedAttributes \<Rightarrow> ''missing signed_attributes''
   | NoSignedContent \<Rightarrow> ''signed_content is None''
   | NoSignedData \<Rightarrow> ''TimeStampResp has no SignedData''
   | ChainParse m \<Rightarrow> ''chain PEM parse failed: '' @ m
   | ChainNotCa m \<Rightarrow> ''cert in chain is not a CA: '' @ m
   | ChainEmpty \<Rightarrow> ''chain.pem is empty''
   | InvalidInput \<Rightarrow> ''input is neither a valid TimeStampResp nor a valid ContentInfo''
   | ContentInfoType m \<Rightarrow> ''ContentInfo content_type is not id-signedData: '' @ m)"

definition DEFAULT_SECTIGO_ENDPOINT :: string where "DEFAULT_SECTIGO_ENDPOINT = ''https://timestamp.sectigo.com''"
definition DEFAULT_DIGICERT_ENDPOINT :: string where "DEFAULT_DIGICERT_ENDPOINT = ''https://timestamp.digicert.com''"
definition FREETSA_DEFAULT_URL :: string where "FREETSA_DEFAULT_URL = ''https://freetsa.org/tsr''"

record tsp_client =
  tp_endpoint :: string
  tp_chain_pem :: bytes

record tsa_io =
  io_hex_decode :: "string \<Rightarrow> string + bytes"
  io_post :: http_post
  io_base64 :: "bytes \<Rightarrow> bytes"
  io_now :: i64
  io_duration :: "u64 \<Rightarrow> string"
  io_debug :: "string \<Rightarrow> string"

definition sectigo_fetch_token :: "tsa_io \<Rightarrow> tsp_client \<Rightarrow> bytes \<Rightarrow> tsa_error + bytes" where
  "sectigo_fetch_token io cl digest = (case io_post io (tp_endpoint cl) (io_base64 io digest) of
     Inl e \<Rightarrow> Inl (TsaFetch (''HTTP request failed: '' @ e))
   | Inr response \<Rightarrow>
       if \<not> hr_success response then Inl (TsaFetch (''Sectigo endpoint returned HTTP '' @ hr_status response))
       else map_err (\<lambda>e. TsaFetch (''failed to read response body: '' @ e)) (hr_body response))"

definition digicert_fetch_token :: "tsa_io \<Rightarrow> tsp_client \<Rightarrow> bytes \<Rightarrow> tsa_error + bytes" where
  "digicert_fetch_token io cl digest = (case io_post io (tp_endpoint cl) (io_base64 io digest) of
     Inl e \<Rightarrow> Inl (TsaFetch (''DigiCert HTTP error: '' @ e))
   | Inr response \<Rightarrow>
       if \<not> hr_success response then Inl (TsaFetch (''DigiCert returned HTTP '' @ hr_status response))
       else map_err (\<lambda>e. TsaFetch (''DigiCert read body: '' @ e)) (hr_body response))"

definition sectigo_verify_token :: "('r, 'd, 'g, 'p) cms_lib \<Rightarrow> tsp_client \<Rightarrow> bytes \<Rightarrow> bytes \<Rightarrow> (tsa_error + unit) option" where
  "sectigo_verify_token l cl token_der expected_digest =
     map_option (map_err (\<lambda>e. TsaVerify (''Sectigo verify_token: '' @ cms_verify_error_text e))) (cms_verify_strict l token_der expected_digest (tp_chain_pem cl))"

definition digicert_verify_token :: "('r, 'd, 'g, 'p) cms_lib \<Rightarrow> tsp_client \<Rightarrow> bytes \<Rightarrow> bytes \<Rightarrow> (tsa_error + unit) option" where
  "digicert_verify_token l cl token_der expected_digest =
     map_option (map_err (\<lambda>e. TsaVerify (''DigiCert verify_token: '' @ cms_verify_error_text e))) (cms_verify_strict l token_der expected_digest (tp_chain_pem cl))"

definition qualified_new :: tsp_client where
  "qualified_new = \<lparr>tp_endpoint = DEFAULT_SECTIGO_ENDPOINT, tp_chain_pem = []\<rparr>"

definition qualified_new_digicert :: tsp_client where
  "qualified_new_digicert = \<lparr>tp_endpoint = DEFAULT_DIGICERT_ENDPOINT, tp_chain_pem = []\<rparr>"

datatype tsa_tier = MockTier | FreeTsaTier | QualifiedTier

datatype tsa_client = MockClient string | FreeTsaClient string | QualifiedClient tsp_client

definition tsa_client_tier :: "tsa_client \<Rightarrow> tsa_tier" where
  "tsa_client_tier cl = (case cl of MockClient _ \<Rightarrow> MockTier | FreeTsaClient _ \<Rightarrow> FreeTsaTier | QualifiedClient _ \<Rightarrow> QualifiedTier)"

definition tsa_client_url :: "tsa_client \<Rightarrow> string" where
  "tsa_client_url cl = (case cl of MockClient _ \<Rightarrow> ''mock://local'' | FreeTsaClient url \<Rightarrow> url | QualifiedClient q \<Rightarrow> tp_endpoint q)"

definition hex_digit_of :: "char \<Rightarrow> nat option" where
  "hex_digit_of ch = (let n = code ch in if 48 \<le> n \<and> n < 58 then Some (n - 48) else if 97 \<le> n \<and> n < 103 then Some (n - 87)
     else if 65 \<le> n \<and> n < 71 then Some (n - 55) else None)"

text \<open>\<^verbatim>\<open>u8::from_str_radix(s, 16)\<close> on two bytes: a plus sign may stand in front of one digit.\<close>

definition radix16_pair :: "char \<Rightarrow> char \<Rightarrow> nat option" where
  "radix16_pair a b = (if a = CHR ''+'' then hex_digit_of b
     else Option.bind (hex_digit_of a) (\<lambda>x. map_option (\<lambda>y. 16 * x + y) (hex_digit_of b)))"

fun hex_pairs :: "(string \<Rightarrow> string) \<Rightarrow> nat \<Rightarrow> string \<Rightarrow> tsa_error + bytes" where
  "hex_pairs dbg i (a # b # rest) =
     (if \<not> utf8_valid [a, b] then Inl (TsaFetch (''digest_hex byte '' @ show_nat i @ '' is not valid UTF-8''))
      else case radix16_pair a b of
        None \<Rightarrow> Inl (TsaFetch (''digest_hex byte '' @ show_nat i @ '' is not valid hex: '' @ dbg [a, b]))
      | Some v \<Rightarrow> map_sum id (Cons (word_of_nat v)) (hex_pairs dbg (i + 1) rest))"
| "hex_pairs dbg i _ = Inr []"

definition decode_hex_digest :: "(string \<Rightarrow> string) \<Rightarrow> string \<Rightarrow> tsa_error + bytes" where
  "decode_hex_digest dbg digest_hex =
     (if length digest_hex \<noteq> 64 then Inl (TsaFetch (''digest_hex must be 64 ASCII hex chars (SHA-256), got '' @ show_nat (length digest_hex)))
      else hex_pairs dbg 0 digest_hex)"

definition ts_error_text :: "(u64 \<Rightarrow> string) \<Rightarrow> ts_error \<Rightarrow> string" where
  "ts_error_text duration e = (case e of TsTransport m \<Rightarrow> ''transport error: '' @ m | TsInvalidResponse m \<Rightarrow> ''invalid response: '' @ m
     | TsTimeout d \<Rightarrow> ''timeout after '' @ duration d)"

definition tsa_fetch_token :: "tsa_io \<Rightarrow> tsa_client \<Rightarrow> string \<Rightarrow> tsa_error + bytes" where
  "tsa_fetch_token io cl digest_hex =
     (let of_stamp = map_sum (\<lambda>e. TsaFetch (ts_error_text (io_duration io) e)) tsr_raw_der
      in case cl of
        MockClient url \<Rightarrow> of_stamp (mock_stamp (io_now io) digest_hex)
      | FreeTsaClient url \<Rightarrow> of_stamp (freetsa_stamp (io_hex_decode io) (io_post io) url (io_now io) digest_hex)
      | QualifiedClient stub \<Rightarrow> (case decode_hex_digest (io_debug io) digest_hex of
          Inl e \<Rightarrow> Inl e
        | Inr digest_bytes \<Rightarrow> sectigo_fetch_token io stub digest_bytes))"

definition tsa_verify_token :: "('r, 'd, 'g, 'p) cms_lib \<Rightarrow> (string \<Rightarrow> string) \<Rightarrow> tsa_client \<Rightarrow> bytes \<Rightarrow> string \<Rightarrow> (tsa_error + unit) option" where
  "tsa_verify_token l dbg cl token digest_hex =
     (let response = \<lparr>tsr_time = 0, tsr_accuracy_ms = 0, tsr_raw_der = token\<rparr>;
          verdict = (\<lambda>valid. if valid then Inr () else Inl TsaInvalidToken)
      in case cl of
        MockClient _ \<Rightarrow> Some (verdict (mock_ts_verify response digest_hex))
      | FreeTsaClient _ \<Rightarrow> Some (verdict (freetsa_verify response digest_hex))
      | QualifiedClient stub \<Rightarrow> (case decode_hex_digest dbg digest_hex of
          Inl e \<Rightarrow> Some (Inl e)
        | Inr digest_bytes \<Rightarrow> map_option (\<lambda>r. verdict (case r of Inr _ \<Rightarrow> True | Inl _ \<Rightarrow> False)) (sectigo_verify_token l stub token digest_bytes)))"

section \<open>Choosing a client\<close>

datatype var_error = NotPresent | NotUnicode string

record init_env =
  iv_var :: "string \<Rightarrow> var_error + string"
  iv_read :: "string \<Rightarrow> string + bytes"

definition var_or :: "init_env \<Rightarrow> string \<Rightarrow> string \<Rightarrow> string" where
  "var_or env name dflt = (case iv_var env name of Inr v \<Rightarrow> v | Inl _ \<Rightarrow> dflt)"

text \<open>\<^verbatim>\<open>Path::parent\<close> on the text of a path: trailing separators and current-directory components are dropped, then the last component.\<close>

fun path_trim_rev :: "string \<Rightarrow> string" where
  "path_trim_rev (a # b # r) = (if a = CHR ''/'' then path_trim_rev (b # r)
     else if a = CHR ''.'' \<and> b = CHR ''/'' then path_trim_rev (b # r) else a # b # r)"
| "path_trim_rev r = r"

definition path_parent :: "string \<Rightarrow> string option" where
  "path_parent p = (let r = path_trim_rev (rev p)
     in if r = [] \<or> r = ''/'' then None else Some (rev (path_trim_rev (dropWhile (\<lambda>ch. ch \<noteq> CHR ''/'') r))))"

definition chain_join :: "string \<Rightarrow> string \<Rightarrow> string" where
  "chain_join dir rel = (if rel \<noteq> [] \<and> hd rel = CHR ''/'' then rel else if dir = [] \<or> last dir = CHR ''/'' then dir @ rel else dir @ ''/'' @ rel)"

definition default_chain_path :: "init_env \<Rightarrow> string \<Rightarrow> string" where
  "default_chain_path env rel =
     (let crate_dir = var_or env ''CARGO_MANIFEST_DIR'' ''.'';
          workspace = (case Option.bind (path_parent crate_dir) path_parent of Some p \<Rightarrow> p | None \<Rightarrow> ''.'')
      in chain_join workspace rel)"

definition load_chain :: "init_env \<Rightarrow> string \<Rightarrow> string \<Rightarrow> string \<Rightarrow> tsa_error + bytes" where
  "load_chain env what var rel =
     (let chain_path = (case iv_var env var of Inr p \<Rightarrow> p | Inl _ \<Rightarrow> default_chain_path env rel)
      in map_err (\<lambda>e. TsaFetch (what @ '' chain PEM read failed ('' @ chain_path @ ''): '' @ e)) (iv_read env chain_path))"

definition tsa_init :: "init_env \<Rightarrow> tsa_error + tsa_client" where
  "tsa_init env = (case iv_var env ''TL_TSA_PROVIDER'' of
     Inl NotPresent \<Rightarrow> Inl TsaProviderRequired
   | Inl (NotUnicode e) \<Rightarrow> Inl (TsaEnv e)
   | Inr v \<Rightarrow>
       if v = ''mock'' then Inr (MockClient ''mock://local'')
       else if v = ''free_tsa'' \<or> v = ''free'' then Inr (FreeTsaClient FREETSA_DEFAULT_URL)
       else if v = ''sectigo'' then
         (let endpoint = var_or env ''TL_SECTIGO_URL'' DEFAULT_SECTIGO_ENDPOINT
          in case load_chain env ''Sectigo'' ''TL_SECTIGO_CHAIN_PEM_FILE'' ''audit_artifacts/test_fixtures/sectigo/chain.pem'' of
               Inl e \<Rightarrow> Inl e
             | Inr chain_pem \<Rightarrow> (let client = \<lparr>tp_endpoint = endpoint, tp_chain_pem = chain_pem\<rparr> in Inr (QualifiedClient qualified_new)))
       else if v = ''qualified'' \<or> v = ''qtsp'' then Inr (QualifiedClient qualified_new)
       else if v = ''digicert'' then
         (let endpoint = var_or env ''TL_DIGICERT_URL'' DEFAULT_DIGICERT_ENDPOINT
          in case load_chain env ''DigiCert'' ''TL_DIGICERT_CHAIN_PEM_FILE'' ''audit_artifacts/test_fixtures/digicert/chain.pem'' of
               Inl e \<Rightarrow> Inl e
             | Inr chain_pem \<Rightarrow> (let client = \<lparr>tp_endpoint = endpoint, tp_chain_pem = chain_pem\<rparr> in Inr (QualifiedClient qualified_new)))
       else Inl (TsaInvalidProvider v))"

section \<open>The EU trust list\<close>

definition OID_QTSP_POLICY_1 :: string where "OID_QTSP_POLICY_1 = ''0.4.0.194112.1.2''"
definition OID_QTSP_POLICY_2 :: string where "OID_QTSP_POLICY_2 = ''0.4.0.194112.1.3''"

definition is_qualified_policy_oid :: "string \<Rightarrow> bool" where
  "is_qualified_policy_oid oid = (oid = OID_QTSP_POLICY_1 \<or> oid = OID_QTSP_POLICY_2)"

definition SECTIGO_ROOT_FINGERPRINTS :: "string list" where
  "SECTIGO_ROOT_FINGERPRINTS =
    [''AB:CD:EF:01:23:45:67:89:AB:CD:EF:01:23:45:67:89:AB:CD:EF:01:23:45:67:89:AB:CD:EF:01:23:45:67:89:AB:CD'',
     ''12:34:56:78:9A:BC:DE:F0:12:34:56:78:9A:BC:DE:F0:12:34:56:78:9A:BC:DE:F0:12:34:56:78:9A:BC:DE:F0:12:34'']"

definition DIGICERT_ROOT_FINGERPRINTS :: "string list" where
  "DIGICERT_ROOT_FINGERPRINTS =
    [''FE:DC:BA:98:76:54:32:10:FE:DC:BA:98:76:54:32:10:FE:DC:BA:98:76:54:32:10:FE:DC:BA:98:76:54:32:10:FE:DC'',
     ''01:23:45:67:89:AB:CD:EF:01:23:45:67:89:AB:CD:EF:01:23:45:67:89:AB:CD:EF:01:23:45:67:89:AB:CD:EF:01:23:45:67'']"

definition KNOWN_EU_TL_ROOTS :: "string list" where
  "KNOWN_EU_TL_ROOTS = [SECTIGO_ROOT_FINGERPRINTS ! 0, SECTIGO_ROOT_FINGERPRINTS ! 1, DIGICERT_ROOT_FINGERPRINTS ! 0, DIGICERT_ROOT_FINGERPRINTS ! 1]"

record eu_trust_list_validation =
  eu_is_qualified :: bool
  eu_policy_oid :: "string option"
  eu_root_fingerprint :: "string option"
  eu_root_on_eu_tl :: bool
  eu_chain_length :: nat
  eu_notes :: "string list"

datatype eu_trust_list_error = EmptyChain | InvalidPolicyOid string | RootNotOnEuTrustList string | ChainTooShort

definition is_valid_for_eu_regulation :: "eu_trust_list_validation \<Rightarrow> bool" where
  "is_valid_for_eu_regulation v = (eu_is_qualified v \<and> eu_root_on_eu_tl v \<and> eu_policy_oid v \<noteq> None \<and> eu_chain_length v \<ge> 2)"

definition qualified_policy :: "string option \<Rightarrow> nat \<Rightarrow> eu_trust_list_error + string" where
  "qualified_policy policy_oid chain_length =
     (if chain_length = 0 then Inl EmptyChain else if chain_length < 2 then Inl ChainTooShort
      else case policy_oid of
        Some o' \<Rightarrow> if is_qualified_policy_oid o' then Inr o' else Inl (InvalidPolicyOid o')
      | None \<Rightarrow> Inl (InvalidPolicyOid ''(none)''))"

definition root_known :: "string \<Rightarrow> bool" where
  "root_known root_fingerprint = list_ex (\<lambda>known. to_ascii_lowercase known = to_ascii_lowercase root_fingerprint) KNOWN_EU_TL_ROOTS"

definition validate_eu_trust_list :: "string option \<Rightarrow> string \<Rightarrow> nat \<Rightarrow> eu_trust_list_error + eu_trust_list_validation" where
  "validate_eu_trust_list policy_oid root_fingerprint chain_length = (case qualified_policy policy_oid chain_length of
     Inl e \<Rightarrow> Inl e
   | Inr policy \<Rightarrow>
       if \<not> root_known root_fingerprint then Inl (RootNotOnEuTrustList root_fingerprint)
       else Inr \<lparr>eu_is_qualified = True, eu_policy_oid = Some policy, eu_root_fingerprint = Some root_fingerprint, eu_root_on_eu_tl = True,
         eu_chain_length = chain_length, eu_notes =
           [''Chain has '' @ show_nat chain_length @ '' cert(s): leaf + intermediates + root'', ''Leaf cert asserts qualified policy OID: '' @ policy,
            ''Root fingerprint '' @ root_fingerprint @ '' is registered on the EU Trust List'', ''Qualified under ETSI EN 319 421 + eIDAS Article 42'']\<rparr>)"

definition validate_eu_trust_list_lenient :: "string option \<Rightarrow> string \<Rightarrow> nat \<Rightarrow> eu_trust_list_error + eu_trust_list_validation" where
  "validate_eu_trust_list_lenient policy_oid root_fingerprint chain_length = (case qualified_policy policy_oid chain_length of
     Inl e \<Rightarrow> Inl e
   | Inr policy \<Rightarrow>
       Inr \<lparr>eu_is_qualified = True, eu_policy_oid = Some policy, eu_root_fingerprint = Some root_fingerprint, eu_root_on_eu_tl = root_known root_fingerprint,
         eu_chain_length = chain_length, eu_notes =
           [''Chain has '' @ show_nat chain_length @ '' cert(s)'', ''Policy OID: '' @ policy,
            if root_known root_fingerprint then ''Root '' @ root_fingerprint @ '' is on EU Trust List''
            else ''Root '' @ root_fingerprint @ '' is NOT in hardcoded EU Trust List (operator must verify against live EU TL)'']\<rparr>)"

section \<open>Properties\<close>

lemma pem_loop_Nil [simp]: "pem_loop l eku f g h n [] k = Some (Inr k)"
  by (subst pem_loop.simps) simp

lemma empty_chain_rejected: "validate_chain_pem l [] = Some (Inl ChainEmpty)"
  by (simp add: validate_chain_pem_def)

lemma qualified_rejects:
  "tp_chain_pem cl = [] \<Longrightarrow> \<exists>e. cms_verify_strict l token digest (tp_chain_pem cl) = Some (Inl e)"
  by (cases "extract_signed_data l token") (simp_all add: cms_verify_strict_def empty_chain_rejected)

text \<open>Fact: the client that start-up chooses for a qualified provider verifies nothing. Whatever endpoint and certificate chain the environment
  names, the client talks to the default Sectigo endpoint and has no chain, so that every token is refused for every digest.\<close>

theorem qualified_client_useless:
  assumes "tsa_init env = Inr cl" and "iv_var env ''TL_TSA_PROVIDER'' = Inr v" and "v \<in> {''sectigo'', ''digicert'', ''qualified'', ''qtsp''}"
  shows "tsa_client_tier cl = QualifiedTier \<and> tsa_client_url cl = DEFAULT_SECTIGO_ENDPOINT \<and>
     (\<forall>token digest_hex. \<exists>e. tsa_verify_token l dbg cl token digest_hex = Some (Inl e))"
proof -
  from assms have cl: "cl = QualifiedClient qualified_new" by (auto simp: tsa_init_def Let_def split: sum.splits if_splits)
  have "\<exists>e. tsa_verify_token l dbg cl token digest_hex = Some (Inl e)" for token digest_hex
  proof (cases "decode_hex_digest dbg digest_hex")
    case (Inr d)
    obtain e where "cms_verify_strict l token d (tp_chain_pem qualified_new) = Some (Inl e)"
      using qualified_rejects [of qualified_new l token d] by (auto simp: qualified_new_def)
    with Inr show ?thesis by (simp add: cl tsa_verify_token_def sectigo_verify_token_def Let_def)
  qed (simp add: cl tsa_verify_token_def Let_def)
  then show ?thesis by (simp add: cl tsa_client_tier_def tsa_client_url_def qualified_new_def)
qed

lemma check_signers_ok: "check_signers l sd gs = Inr () \<longleftrightarrow> (\<forall>g \<in> set gs. check_signer l sd g = Inr ())"
  by (induction gs) (auto split: sum.splits)

lemma imprint_step_ok:
  "(case content of None \<Rightarrow> Inl NoSignedContent
     | Some e \<Rightarrow> (case f e of Inl err \<Rightarrow> Inl (g err) | Inr imprint \<Rightarrow> if imprint \<noteq> digest then Inl (h imprint) else Inr ())) = Inr () \<longleftrightarrow>
   (\<exists>e. content = Some e \<and> f e = Inr digest)"
  by (auto split: option.splits sum.splits)

text \<open>Fact: what the CMS verifier accepts. A token is accepted precisely when the digest has 32 bytes, the token holds signed data, the chain
  file passes its structural check, every signer passes, and the imprint is the digest. The signers' certificates are not related to the
  chain file, and a token without a signer needs no signature.\<close>

theorem cms_acceptance_exact:
  "cms_verify_strict l token digest chain = Some (Inr ()) \<longleftrightarrow>
     length digest = 32 \<and> validate_chain_pem l chain = Some (Inr ()) \<and>
     (\<exists>sd e. extract_signed_data l token = Inr sd \<and> list_all (\<lambda>g. check_signer l sd g = Inr ()) (csd_signers sd) \<and>
        csd_content sd = Some e \<and> cl_tst_info l e = Inr digest)"
  by (auto simp: cms_verify_strict_def try_res_ok check_signers_ok imprint_step_ok list_all_iff split: if_splits)

text \<open>Fact: signed data without a signer is accepted without any signature.\<close>

theorem unsigned_token_accepted:
  assumes "length digest = 32" and "validate_chain_pem l chain = Some (Inr ())"
    and "extract_signed_data l token = Inr \<lparr>csd_signers = [], csd_content = Some e\<rparr>" and "cl_tst_info l e = Inr digest"
  shows "cms_verify_strict l token digest chain = Some (Inr ())"
  using assms by (simp add: cms_verify_strict_def)

text \<open>Property C29: the certificate chain is read to its end. When the PEM parser hands back a shorter rest each time it succeeds, the loop over the file
  ends with a verdict for every input.\<close>

theorem chain_check_terminates:
  assumes "\<forall>s nxt pem. cl_parse_pem l s = Inr (nxt, pem) \<longrightarrow> length nxt < length s"
  shows "\<exists>r. validate_chain_pem l chain = Some r"
proof -
  have "\<exists>r. pem_loop l eku f g h n rest k = Some r" for eku f g h n rest k
  proof (induction "length rest" arbitrary: rest k rule: less_induct)
    case less
    show ?case
    proof (cases "rest = []")
      case False
      show ?thesis
      proof (cases "cl_parse_pem l rest")
        case (Inr np)
        obtain nxt pem where np: "np = (nxt, pem)" by (cases np)
        let ?rest = "skip_blank (drop (length rest - length nxt) rest)"
        have n: "length nxt < length rest" using assms Inr np by blast
        have "length ?rest \<le> length (drop (length rest - length nxt) rest)" unfolding skip_blank_def by (rule length_dropWhile_le)
        with n have "length ?rest < length rest" by simp
        from less [OF this] obtain r where "pem_loop l eku f g h n ?rest (k + 1) = Some r" by blast
        with False Inr np n show ?thesis by (subst pem_loop.simps) (simp split: sum.splits)
      qed (use False in \<open>subst pem_loop.simps, simp\<close>)
    qed simp
  qed
  then obtain r where "pem_loop l has_time_stamping_extended_key_usage (\<lambda>offset e. ChainParse (''at offset '' @ show_nat offset @ '': '' @ e))
       (\<lambda>e. ChainParse (''cert parse: '' @ e)) ChainNotCa (length chain) chain 0 = Some r" by blast
  then show ?thesis by (cases r) (simp_all add: validate_chain_pem_def)
qed

text \<open>A library that takes one byte of a chain file for one certificate, and a token for its imprint.\<close>

definition sample_lib :: "(unit, bytes, unit, unit) cms_lib" where
  "sample_lib = \<lparr>cl_timestamp_resp = (\<lambda>_. None), cl_resp_signed_data = (\<lambda>_. Inr None), cl_content_info = (\<lambda>t. Some (ID_SIGNED_DATA_OCTETS, t)),
     cl_decode_signed_data = Inr, cl_signed_data = (\<lambda>d. Inr \<lparr>csd_signers = [()], csd_content = Some d\<rparr>), cl_verify_signature = (\<lambda>_ _. Inr ()),
     cl_verify_digest = (\<lambda>_ _. Inr ()), cl_content_type = (\<lambda>_. Some ID_CT_TST_INFO_OCTETS), cl_tst_info = Inr,
     cl_parse_pem = (\<lambda>s. case s of [] \<Rightarrow> Inl ''eof'' | _ # r \<Rightarrow> Inr (r, ())), cl_parse_x509 = (\<lambda>_. Inr \<lparr>xc_basic_ca = Some True, xc_ekus = [], xc_subject = ''CA''\<rparr>),
     cl_oid_debug = (\<lambda>_. [])\<rparr>"

theorem chain_check_terminates_witness: "\<exists>r. validate_chain_pem sample_lib [1, 0x0A, 2] = Some r"
  by (rule chain_check_terminates) (simp add: sample_lib_def split: list.splits)

theorem qualified_client_useless_witness:
  "\<exists>cl. tsa_init \<lparr>iv_var = (\<lambda>v. if v = ''TL_TSA_PROVIDER'' then Inr ''digicert'' else Inl NotPresent), iv_read = (\<lambda>_. Inr [1])\<rparr> = Inr cl \<and>
     tsa_client_url cl = DEFAULT_SECTIGO_ENDPOINT \<and> (\<exists>e. tsa_verify_token sample_lib id cl [] [] = Some (Inl e))"
proof -
  let ?env = "\<lparr>iv_var = (\<lambda>v. if v = ''TL_TSA_PROVIDER'' then Inr ''digicert'' else Inl NotPresent), iv_read = (\<lambda>_. Inr [1])\<rparr>"
  obtain cl where cl: "tsa_init ?env = Inr cl" by (simp add: tsa_init_def load_chain_def)
  from qualified_client_useless [OF cl, of "''digicert''" sample_lib id] cl show ?thesis by auto
qed

lemma sample_pem: "pem_loop sample_lib eku f g h n [1] k = Some (Inr (k + 1))"
  by (subst pem_loop.simps) (simp add: sample_lib_def is_ca_def skip_blank_def)

lemma sample_chain_ok: "validate_chain_pem sample_lib [1] = Some (Inr ())"
  by (simp add: validate_chain_pem_def sample_pem)

text \<open>A client with a chain accepts the token of the sample library, so that the refusal above is due to the missing chain.\<close>

lemma sample_token_accepted:
  "sectigo_verify_token sample_lib \<lparr>tp_endpoint = [], tp_chain_pem = [1]\<rparr> (replicate 32 3) (replicate 32 3) = Some (Inr ())"
proof -
  have "extract_signed_data sample_lib t = Inr \<lparr>csd_signers = [()], csd_content = Some t\<rparr>" "check_signer sample_lib sd g = Inr ()"
    "cl_tst_info sample_lib t = Inr t" for t sd g
    by (simp_all add: extract_signed_data_def check_signer_def sample_lib_def)
  then show ?thesis using sample_chain_ok by (simp add: sectigo_verify_token_def cms_verify_strict_def)
qed

lemma hex_digit_of_char: "n < 16 \<Longrightarrow> hex_digit_of (hex_char n) = Some n"
  by (simp add: hex_digit_of_def code_hex_char Let_def)

lemma hex_char_ascii: "n < 16 \<Longrightarrow> hex_char n \<noteq> CHR ''+'' \<and> code (hex_char n) < 128"
  using code_hex_char [of n] by (auto split: if_splits)

lemma hex_pairs_encode: "hex_pairs dbg i (hex_encode b) = Inr (map (\<lambda>ch. word_of_nat (code ch)) b)"
proof (induction b arbitrary: i)
  case (Cons ch b)
  let ?hi = "hex_char (code ch div 16)" and ?lo = "hex_char (code ch mod 16)"
  have "radix16_pair ?hi ?lo = Some (code ch)"
    using hex_char_ascii [of "code ch div 16"] by (simp add: radix16_pair_def hex_digit_of_char)
  moreover have "utf8_valid [?hi, ?lo]"
    using hex_char_ascii [of "code ch div 16"] hex_char_ascii [of "code ch mod 16"] by simp
  ultimately show ?case using Cons by (simp add: hex_encode_def hex_byte_def)
qed (simp add: hex_encode_def)

text \<open>Fact: the hex text of a digest is decoded to its bytes, and so is a text that is not hex: a plus sign may stand for the first digit of a byte.\<close>

theorem hex_digest_decoded:
  "length b = 32 \<Longrightarrow> decode_hex_digest dbg (hex_encode b) = Inr (map (\<lambda>ch. word_of_nat (code ch)) b)"
  "decode_hex_digest dbg (concat (replicate 32 ''+0'')) = Inr (replicate 32 0)"
proof -
  show "length b = 32 \<Longrightarrow> decode_hex_digest dbg (hex_encode b) = Inr (map (\<lambda>ch. word_of_nat (code ch)) b)"
    by (simp add: decode_hex_digest_def hex_pairs_encode)
  have "hex_pairs dbg i (concat (replicate k ''+0'')) = Inr (replicate k 0)" for i k
    by (induction k arbitrary: i) (simp_all add: radix16_pair_def hex_digit_of_def)
  then show "decode_hex_digest dbg (concat (replicate 32 ''+0'')) = Inr (replicate 32 0)"
    by (simp add: decode_hex_digest_def length_concat sum_list_replicate)
qed

text \<open>The text of a SHA-256 fingerprint.\<close>

definition fingerprint :: "string \<Rightarrow> string" where
  "fingerprint digest = join_with '':'' (map hex_byte digest)"

lemma length_fingerprint: "digest \<noteq> [] \<Longrightarrow> length (fingerprint digest) + 1 = 3 * length digest"
  unfolding fingerprint_def
proof (induction digest)
  case (Cons a digest)
  then show ?case by (cases digest) (simp_all add: hex_byte_def)
qed simp

text \<open>Fact: qualification under the trust list is exact, and no certificate has it: the verdict is positive precisely for chains of two or more
  certificates with a qualified policy whose root fingerprint is listed, while every listed text is longer than the fingerprint of a
  SHA-256 digest, so that each actual root is refused.\<close>

theorem eu_trust_list_exact:
  "((\<exists>v. validate_eu_trust_list policy root n = Inr v \<and> is_valid_for_eu_regulation v) \<longleftrightarrow>
      n \<ge> 2 \<and> (policy = Some OID_QTSP_POLICY_1 \<or> policy = Some OID_QTSP_POLICY_2) \<and>
      to_ascii_lowercase root \<in> to_ascii_lowercase ` set KNOWN_EU_TL_ROOTS) \<and>
   (length digest = 32 \<longrightarrow> (\<exists>e. validate_eu_trust_list policy (fingerprint digest) n = Inl e))"
proof -
  have k: "root_known r \<longleftrightarrow> to_ascii_lowercase r \<in> to_ascii_lowercase ` set KNOWN_EU_TL_ROOTS" for r
    unfolding root_known_def list_ex_iff image_iff by metis
  have "length f > 95" if "f \<in> set KNOWN_EU_TL_ROOTS" for f
    using that by (auto simp: KNOWN_EU_TL_ROOTS_def SECTIGO_ROOT_FINGERPRINTS_def DIGICERT_ROOT_FINGERPRINTS_def)
  moreover have "length (fingerprint digest) = 95" if "length digest = 32" using length_fingerprint [of digest] that by fastforce
  ultimately have "\<not> root_known (fingerprint digest)" if "length digest = 32"
    unfolding k using that by (metis imageE length_map less_irrefl to_ascii_lowercase_def)
  then show ?thesis unfolding k [symmetric]
    by (auto simp: validate_eu_trust_list_def qualified_policy_def is_valid_for_eu_regulation_def is_qualified_policy_oid_def split: option.splits)
qed

theorem eu_trust_list_exact_witness:
  "(\<exists>v. validate_eu_trust_list (Some OID_QTSP_POLICY_1) (KNOWN_EU_TL_ROOTS ! 0) 2 = Inr v \<and> is_valid_for_eu_regulation v) \<and>
   (\<exists>e. validate_eu_trust_list (Some OID_QTSP_POLICY_1) (fingerprint (replicate 32 CHR 0xAB)) 2 = Inl e)"
  using eu_trust_list_exact [of "Some OID_QTSP_POLICY_1" "KNOWN_EU_TL_ROOTS ! 0" 2 "replicate 32 CHR 0xAB"]
  by (simp add: KNOWN_EU_TL_ROOTS_def)

end
