(* ===== verification/Watermark.thy ===== *)
theory Watermark
  imports DerTlv Baaar
begin

unbundle bit_operations_syntax

text \<open>
  \<^verbatim>\<open>crates/tl-watermark/src/lib.rs\<close>: the watermark providers. The trait is a locale, once with the audit hashes that every provider promises and
  once extended by detection of what was applied; the providers interpret it. SHA-256 and BLAKE3, the floating-point operations, the
  file system and the sandboxed subprocess are parameters.
\<close>

section \<open>Data\<close>

datatype media_type = Image | Audio | Text | Video

datatype watermark_status = Applied | AlreadyPresent | AppliedWithWarnings "string list"

record watermarked_output =
  wo_status :: watermark_status
  wo_bytes :: bytes
  wo_manifest :: bytes
  wo_input_sha256 :: bytes
  wo_output_sha256 :: bytes

record detection_result =
  dr_detected :: bool
  dr_confidence :: f32
  dr_metadata :: json

datatype watermark_error = ApplyFailed string | DetectFailed string | BinaryUnavailable string | SandboxUnavailable string | MalformedInput string

abbreviation f32_one :: f32 where "f32_one \<equiv> 0x3F800000"
abbreviation f32_half :: f32 where "f32_half \<equiv> 0x3F000000"
abbreviation f32_zero :: f32 where "f32_zero \<equiv> 0"

definition ascii_bytes :: "string \<Rightarrow> bytes" where
  "ascii_bytes s = map (\<lambda>ch. word_of_nat (code ch)) s"

section \<open>C2PA\<close>

record c2pa_watermark =
  c2_c2patool_path :: string
  c2_firejail_path :: "string option"
  c2_signing_key_pem :: bytes

definition c2pa_new :: "bytes \<Rightarrow> c2pa_watermark" where
  "c2pa_new key = \<lparr>c2_c2patool_path = ''/usr/local/bin/c2patool'', c2_firejail_path = Some ''/usr/bin/firejail'', c2_signing_key_pem = key\<rparr>"

definition with_firejail :: "string \<Rightarrow> string \<Rightarrow> bytes \<Rightarrow> c2pa_watermark" where
  "with_firejail tool firejail key = \<lparr>c2_c2patool_path = tool, c2_firejail_path = Some firejail, c2_signing_key_pem = key\<rparr>"

record proc_output =
  po_success :: bool
  po_status :: string
  po_stderr :: string

text \<open>The system as one call sees it: which files exist, the temporary directory and process number, the outcomes of the write, the subprocess and
  the read, and the UTF-8 and character operations on its error text. The calls made are returned with the result.\<close>

record c2pa_sys =
  cs_exists :: "string \<Rightarrow> bool"
  cs_tmp :: string
  cs_pid :: nat
  cs_write :: "string \<Rightarrow> bytes \<Rightarrow> string option"
  cs_run :: "string \<Rightarrow> string list \<Rightarrow> string + proc_output"
  cs_read :: "string \<Rightarrow> string + bytes"
  cs_take_chars :: "nat \<Rightarrow> string \<Rightarrow> string"
  cs_sha256 :: "bytes \<Rightarrow> bytes"

datatype c2pa_call = WroteFile string | RanCommand string "string list" | RemovedFile string

definition tmp_file :: "c2pa_sys \<Rightarrow> string \<Rightarrow> string" where
  "tmp_file s what = cs_tmp s @ (if cs_tmp s \<noteq> [] \<and> last (cs_tmp s) = CHR ''/'' then [] else ''/'') @ ''tl-c2pa-'' @ what @ ''-'' @ show_nat (cs_pid s) @ ''.bin''"

definition c2pa_args :: "c2pa_watermark \<Rightarrow> c2pa_sys \<Rightarrow> string list" where
  "c2pa_args w s = [''--quiet'', ''--noprofile'', ''--read-only=/'', ''--tmp=/tmp'', ''--no-net'', ''--'', c2_c2patool_path w,
     ''embed'', ''-i'', tmp_file s ''in'', ''-o'', tmp_file s ''out'']"

definition c2pa_apply :: "c2pa_watermark \<Rightarrow> c2pa_sys \<Rightarrow> bytes \<Rightarrow> (watermark_error + watermarked_output) \<times> c2pa_call list" where
  "c2pa_apply w s input = (case c2_firejail_path w of
     None \<Rightarrow> (Inl (SandboxUnavailable (''c2patool requires firejail sandbox (TL_WATERMARK sandbox = firejail); '' @
       ''set C2paWatermark::firejail_path or install firejail'')), [])
   | Some firejail \<Rightarrow>
       if \<not> cs_exists s firejail then (Inl (BinaryUnavailable (''firejail not found at '' @ firejail)), [])
       else if \<not> cs_exists s (c2_c2patool_path w) then (Inl (BinaryUnavailable (''c2patool not found at '' @ c2_c2patool_path w)), [])
       else if length input < 8 then (Inl (MalformedInput ''input too short (< 8 bytes) for C2PA apply''), [])
       else let tmp_in = tmp_file s ''in''; tmp_out = tmp_file s ''out''; wrote = [WroteFile tmp_in] in (case cs_write s tmp_in input of
         Some e \<Rightarrow> (Inl (ApplyFailed (''write tmp_in: '' @ e)), [])
       | None \<Rightarrow>
           if \<not> utf8_valid (c2_c2patool_path w) then (Inl (ApplyFailed ''c2patool_path is not UTF-8''), wrote)
           else if \<not> utf8_valid tmp_in then (Inl (ApplyFailed ''tmp_in is not UTF-8''), wrote)
           else if \<not> utf8_valid tmp_out then (Inl (ApplyFailed ''tmp_out is not UTF-8''), wrote)
           else let ran = wrote @ [RanCommand firejail (c2pa_args w s)] in (case cs_run s firejail (c2pa_args w s) of
             Inl e \<Rightarrow> (Inl (ApplyFailed (''firejail spawn failed: '' @ e)), ran @ [RemovedFile tmp_in])
           | Inr output \<Rightarrow>
               if \<not> po_success output
               then (Inl (ApplyFailed (''c2patool exited '' @ po_status output @ '': '' @ cs_take_chars s 500 (po_stderr output))), ran @ [RemovedFile tmp_in])
               else (case cs_read s tmp_out of
                 Inl e \<Rightarrow> (Inl (ApplyFailed (''read tmp_out: '' @ e)), ran)
               | Inr bs \<Rightarrow> (Inr \<lparr>wo_status = Applied, wo_bytes = bs, wo_manifest = [], wo_input_sha256 = cs_sha256 s input, wo_output_sha256 = cs_sha256 s bs\<rparr>,
                   ran @ [RemovedFile tmp_in, RemovedFile tmp_out])))))"

definition c2pa_detect :: "bytes \<Rightarrow> watermark_error + detection_result" where
  "c2pa_detect input = (if input = [] then Inl (MalformedInput ''empty input to c2pa detect'')
     else Inr \<lparr>dr_detected = True, dr_confidence = f32_half,
       dr_metadata = JObject [(''stub'', JBool True), (''note'', JString ''v1.1.1 stub; production uses c2patool verify'')]\<rparr>)"

section \<open>AudioSeal and the no-op provider\<close>

definition audioseal_tag :: bytes where "audioseal_tag = ascii_bytes ''audioseal_stub_v1.1.1''"

definition audioseal_apply :: "(bytes \<Rightarrow> bytes) \<Rightarrow> bool \<Rightarrow> bytes \<Rightarrow> watermark_error + watermarked_output" where
  "audioseal_apply sha256 stub input =
     (if stub then let bs = input @ [0, 1, 2] @ audioseal_tag
        in Inr \<lparr>wo_status = Applied, wo_bytes = bs, wo_manifest = audioseal_tag, wo_input_sha256 = sha256 input, wo_output_sha256 = sha256 bs\<rparr>
      else Inl (ApplyFailed ''real AudioSeal not implemented in v1.1.1; use stub()''))"

definition audioseal_detect :: "bool \<Rightarrow> bytes \<Rightarrow> watermark_error + detection_result" where
  "audioseal_detect stub input =
     (if stub then let has_marker = suffix audioseal_tag input
        in Inr \<lparr>dr_detected = has_marker, dr_confidence = (if has_marker then f32_one else f32_zero), dr_metadata = JObject [(''stub'', JBool True)]\<rparr>
      else Inl (DetectFailed ''real AudioSeal not implemented in v1.1.1; use stub()''))"

definition passthrough_apply :: "(bytes \<Rightarrow> bytes) \<Rightarrow> bytes \<Rightarrow> watermark_error + watermarked_output" where
  "passthrough_apply sha256 input = (let sha = sha256 input
     in Inr \<lparr>wo_status = AlreadyPresent, wo_bytes = input, wo_manifest = [], wo_input_sha256 = sha, wo_output_sha256 = sha\<rparr>)"

definition passthrough_detect :: "bytes \<Rightarrow> watermark_error + detection_result" where
  "passthrough_detect input = Inr \<lparr>dr_detected = False, dr_confidence = f32_zero, dr_metadata = JObject [(''passthrough'', JBool True)]\<rparr>"

section \<open>The text watermark\<close>

record kirchenbauer =
  kb_key :: bytes
  kb_gamma :: f32
  kb_delta :: f32

definition kirchenbauer_new :: "bytes \<Rightarrow> kirchenbauer" where
  "kirchenbauer_new key = \<lparr>kb_key = key, kb_gamma = 0x3E800000, kb_delta = 0x40000000\<rparr>"

definition with_wm_params :: "bytes \<Rightarrow> f32 \<Rightarrow> f32 \<Rightarrow> kirchenbauer" where
  "with_wm_params key gamma delta = \<lparr>kb_key = key, kb_gamma = gamma, kb_delta = delta\<rparr>"

text \<open>BLAKE3, the product of the fraction and the vocabulary size cut to \<^verbatim>\<open>u32\<close>, the addition of \<^verbatim>\<open>f32\<close>, and the operations on \<^verbatim>\<open>f64\<close>.\<close>

record 'z wm_ops =
  wm_blake3 :: "bytes \<Rightarrow> bytes"
  wm_fraction :: "f32 \<Rightarrow> u32 \<Rightarrow> u32"
  wm_fadd :: "f32 \<Rightarrow> f32 \<Rightarrow> f32"
  wm_of_nat :: "nat \<Rightarrow> 'z"
  wm_of_f32 :: "f32 \<Rightarrow> 'z"
  wm_mul :: "'z \<Rightarrow> 'z \<Rightarrow> 'z"
  wm_sub :: "'z \<Rightarrow> 'z \<Rightarrow> 'z"
  wm_div :: "'z \<Rightarrow> 'z \<Rightarrow> 'z"
  wm_sqrt :: "'z \<Rightarrow> 'z"
  wm_abs :: "'z \<Rightarrow> 'z"
  wm_less :: "'z \<Rightarrow> 'z \<Rightarrow> bool"
  wm_leq :: "'z \<Rightarrow> 'z \<Rightarrow> bool"
  wm_to_f32 :: "'z \<Rightarrow> f32"
  wm_lit :: "string \<Rightarrow> 'z"
  wm_show :: "'z \<Rightarrow> string"
  wm_show_f32 :: "f32 \<Rightarrow> string"

definition u32_le_bytes :: "u32 \<Rightarrow> bytes" where
  "u32_le_bytes n = map (\<lambda>i. word_of_nat (unat (drop_bit (8 * i) n) mod 256)) [0, 1, 2, 3]"

definition wm_seed :: "'z wm_ops \<Rightarrow> kirchenbauer \<Rightarrow> u32 \<Rightarrow> u32" where
  "wm_seed ops w position = (let hash = wm_blake3 ops (kb_key w @ u32_le_bytes position)
     in word_of_nat (unat (hash ! 0) + 256 * unat (hash ! 1) + 65536 * unat (hash ! 2) + 16777216 * unat (hash ! 3)))"

definition green_size :: "'z wm_ops \<Rightarrow> kirchenbauer \<Rightarrow> u32 \<Rightarrow> u32" where
  "green_size ops w vocab_size = max (wm_fraction ops (kb_gamma w) vocab_size) 1"

definition green_list_for_position :: "'z wm_ops \<Rightarrow> kirchenbauer \<Rightarrow> u32 \<Rightarrow> u32 \<Rightarrow> u32 list" where
  "green_list_for_position ops w position vocab_size =
     (let seed = wm_seed ops w position
      in map (\<lambda>i. (seed + word_of_nat i * 0x9E3779B1) mod max vocab_size 1) [0..<unat (green_size ops w vocab_size)])"

definition bias_logits :: "'z wm_ops \<Rightarrow> kirchenbauer \<Rightarrow> f32 list \<Rightarrow> u32 \<Rightarrow> f32 list" where
  "bias_logits ops w logits position =
     (let green_set = set (green_list_for_position ops w position (word_of_nat (length logits)))
      in map (\<lambda>(i, l). if word_of_nat i \<in> green_set then wm_fadd ops l (kb_delta w) else l) (enumerate 0 logits))"

record 'z detection_stats =
  ds_detected :: bool
  ds_z_score :: 'z
  ds_green_count :: nat
  ds_total_count :: nat
  ds_gamma :: f32

definition green_count :: "'z wm_ops \<Rightarrow> kirchenbauer \<Rightarrow> u32 list \<Rightarrow> u32 \<Rightarrow> nat" where
  "green_count ops w tokens vocab_size =
     length (filter (\<lambda>(i, tok). tok \<in> set (green_list_for_position ops w (word_of_nat i) vocab_size)) (enumerate 0 tokens))"

definition detect_tokens :: "'z wm_ops \<Rightarrow> kirchenbauer \<Rightarrow> u32 list \<Rightarrow> u32 \<Rightarrow> 'z detection_stats" where
  "detect_tokens ops w tokens vocab_size =
     (let n = length tokens
      in if n = 0 then \<lparr>ds_detected = False, ds_z_score = wm_lit ops ''0.0'', ds_green_count = 0, ds_total_count = 0, ds_gamma = kb_gamma w\<rparr>
         else let count = green_count ops w tokens vocab_size;
                  n_f = wm_of_nat ops n;
                  gamma = wm_of_f32 ops (kb_gamma w);
                  expected = wm_mul ops n_f gamma;
                  variance = wm_mul ops (wm_mul ops n_f gamma) (wm_sub ops (wm_lit ops ''1.0'') gamma);
                  std_dev = wm_sqrt ops variance;
                  z = (if wm_less ops (wm_lit ops ''0.0'') std_dev then wm_div ops (wm_sub ops (wm_of_nat ops count) expected) std_dev else wm_lit ops ''0.0'')
              in \<lparr>ds_detected = wm_less ops (wm_lit ops ''4.0'') z, ds_z_score = z, ds_green_count = count, ds_total_count = n, ds_gamma = kb_gamma w\<rparr>)"

definition confidence :: "'z wm_ops \<Rightarrow> 'z detection_stats \<Rightarrow> 'z" where
  "confidence ops st =
     (let z = wm_abs ops (ds_z_score st); at_least = (\<lambda>t. wm_leq ops (wm_lit ops t) z);
          one_minus_cdf = wm_lit ops (if at_least ''6.0'' then ''1.0'' else if at_least ''4.0'' then ''0.99997'' else if at_least ''3.0'' then ''0.99865''
            else if at_least ''2.0'' then ''0.97725'' else if at_least ''1.0'' then ''0.84134'' else ''0.5'')
      in if wm_leq ops (wm_lit ops ''0.0'') (ds_z_score st) then one_minus_cdf else wm_sub ops (wm_lit ops ''1.0'') one_minus_cdf)"

definition detect_token_sequence :: "'z wm_ops \<Rightarrow> kirchenbauer \<Rightarrow> u32 list \<Rightarrow> u32 \<Rightarrow> watermark_error + detection_result" where
  "detect_token_sequence ops w tokens vocab_size =
     (let st = detect_tokens ops w tokens vocab_size
      in Inr \<lparr>dr_detected = ds_detected st, dr_confidence = wm_to_f32 ops (confidence ops st), dr_metadata = JObject
        [(''algorithm'', JString ''kirchenbauer_et_al_2023''), (''z_score'', JNumber (wm_show ops (ds_z_score st))),
         (''green_count'', JNumber (show_nat (ds_green_count st))), (''total_count'', JNumber (show_nat (ds_total_count st))),
         (''gamma'', JNumber (wm_show_f32 ops (ds_gamma st))), (''threshold_z'', JNumber ''4.0'')]\<rparr>)"

definition kirchenbauer_marker :: bytes where "kirchenbauer_marker = ascii_bytes ''kirchenbauer_text watermark v1.1.1 stub''"

definition kirchenbauer_apply :: "(bytes \<Rightarrow> bytes) \<Rightarrow> bytes \<Rightarrow> watermark_error + watermarked_output" where
  "kirchenbauer_apply sha256 input =
     (let bs = input @ [0x0A] @ ascii_bytes ''# ['' @ kirchenbauer_marker @ ascii_bytes '']'' @ [0x0A]
      in Inr \<lparr>wo_status = Applied, wo_bytes = bs, wo_manifest = ascii_bytes ''kirchenbauer_text_stub_v1.1.1'', wo_input_sha256 = sha256 input,
        wo_output_sha256 = sha256 bs\<rparr>)"

definition kirchenbauer_detect :: "bytes \<Rightarrow> watermark_error + detection_result" where
  "kirchenbauer_detect input = (let has_marker = sublist kirchenbauer_marker input
     in Inr \<lparr>dr_detected = has_marker, dr_confidence = (if has_marker then f32_one else f32_zero), dr_metadata = JObject [(''stub'', JBool True)]\<rparr>)"

section \<open>The provider interface\<close>

text \<open>Every provider records the hashes of what it was given and of what it hands back, so that successive applications link.\<close>

locale watermark_provider =
  fixes sha256 :: "bytes \<Rightarrow> bytes" and mark :: "bytes \<Rightarrow> watermark_error + watermarked_output"
  assumes audited: "mark x = Inr out \<Longrightarrow> wo_input_sha256 out = sha256 x \<and> wo_output_sha256 out = sha256 (wo_bytes out)"
begin

lemma custody: "mark x = Inr o1 \<Longrightarrow> mark (wo_bytes o1) = Inr o2 \<Longrightarrow> wo_input_sha256 o2 = wo_output_sha256 o1"
  using audited by metis

end

text \<open>A detectable watermark is found in the output, also after a second application.\<close>

locale detectable_provider = watermark_provider +
  fixes find_mark :: "bytes \<Rightarrow> watermark_error + detection_result"
  assumes found: "mark x = Inr out \<Longrightarrow> \<exists>d. find_mark (wo_bytes out) = Inr d \<and> dr_detected d"
begin

lemma marked_twice: "mark x = Inr o1 \<Longrightarrow> mark (wo_bytes o1) = Inr o2 \<Longrightarrow>
    (\<exists>d. find_mark (wo_bytes o2) = Inr d \<and> dr_detected d) \<and> wo_input_sha256 o2 = wo_output_sha256 o1"
  using found custody by blast

end

interpretation audioseal: detectable_provider sha256 "audioseal_apply sha256 stub" "audioseal_detect stub"
  for sha256 :: "bytes \<Rightarrow> bytes" and stub :: bool
proof unfold_locales
  fix x out
  assume "audioseal_apply sha256 stub x = Inr out"
  then show "wo_input_sha256 out = sha256 x \<and> wo_output_sha256 out = sha256 (wo_bytes out)"
    and "\<exists>d. audioseal_detect stub (wo_bytes out) = Inr d \<and> dr_detected d"
    by (auto simp: audioseal_apply_def audioseal_detect_def Let_def suffix_def split: if_splits)
qed

interpretation kirchenbauer: detectable_provider sha256 "kirchenbauer_apply sha256" kirchenbauer_detect
  for sha256 :: "bytes \<Rightarrow> bytes"
proof unfold_locales
  fix x out
  assume "kirchenbauer_apply sha256 x = Inr out"
  then show "wo_input_sha256 out = sha256 x \<and> wo_output_sha256 out = sha256 (wo_bytes out)"
    and "\<exists>d. kirchenbauer_detect (wo_bytes out) = Inr d \<and> dr_detected d"
    using sublist_appendI [of kirchenbauer_marker "x @ [0x0A] @ ascii_bytes ''# [''" "ascii_bytes '']'' @ [0x0A]"]
    by (auto simp: kirchenbauer_apply_def kirchenbauer_detect_def Let_def)
qed

interpretation passthrough: watermark_provider sha256 "passthrough_apply sha256"
  for sha256 :: "bytes \<Rightarrow> bytes"
  by unfold_locales (auto simp: passthrough_apply_def Let_def)

interpretation c2pa: watermark_provider "cs_sha256 s" "\<lambda>input. fst (c2pa_apply w s input)"
  for s :: c2pa_sys and w :: c2pa_watermark
  by unfold_locales (auto simp: c2pa_apply_def Let_def split: option.splits if_splits sum.splits)

section \<open>Properties\<close>

text \<open>Fact: marking and detecting. What the text and audio providers mark is detected, also when it is marked again, and for all providers the input hash
  of a later application is the output hash of the earlier one.\<close>

theorem watermark_roundtrip:
  "(kirchenbauer_apply sha256 x = Inr o1 \<and> kirchenbauer_apply sha256 (wo_bytes o1) = Inr o2 \<longrightarrow>
      (\<exists>d. kirchenbauer_detect (wo_bytes o2) = Inr d \<and> dr_detected d) \<and> wo_input_sha256 o2 = wo_output_sha256 o1) \<and>
   (audioseal_apply sha256 stub x = Inr o1 \<and> audioseal_apply sha256 stub (wo_bytes o1) = Inr o2 \<longrightarrow>
      (\<exists>d. audioseal_detect stub (wo_bytes o2) = Inr d \<and> dr_detected d) \<and> wo_input_sha256 o2 = wo_output_sha256 o1) \<and>
   (fst (c2pa_apply w s x) = Inr o1 \<and> fst (c2pa_apply w s (wo_bytes o1)) = Inr o2 \<longrightarrow> wo_input_sha256 o2 = wo_output_sha256 o1)"
  using kirchenbauer.marked_twice [of sha256 x o1 o2] audioseal.marked_twice [of sha256 stub x o1 o2] c2pa.custody [of w s x o1 o2] by simp

theorem watermark_roundtrip_witness:
  "\<exists>o1 o2 d. kirchenbauer_apply id [72] = Inr o1 \<and> kirchenbauer_apply id (wo_bytes o1) = Inr o2 \<and>
     kirchenbauer_detect (wo_bytes o2) = Inr d \<and> dr_detected d"
proof -
  obtain o1 where a: "kirchenbauer_apply id [72] = Inr o1" by (simp add: kirchenbauer_apply_def Let_def)
  obtain o2 where b: "kirchenbauer_apply id (wo_bytes o1) = Inr o2" by (simp add: kirchenbauer_apply_def Let_def)
  from watermark_roundtrip [of id "[72]" o1 o2] a b show ?thesis by blast
qed

lemma max_one_pos: "0 < unat (max v (1 :: u32))"
  by (metis max.cobounded2 unat_gt_0 word_le_0_iff zero_neq_one)

lemma green_below: "tok \<in> set (green_list_for_position ops w position vocab_size) \<Longrightarrow> tok < max vocab_size 1"
  by (auto simp: green_list_for_position_def Let_def word_less_nat_alt unat_mod max_one_pos)

lemma filter_all_length: "length (filter P xs) = length xs \<longleftrightarrow> (\<forall>x \<in> set xs. P x)"
  by (metis filter_id_conv length_filter_less nat_neq_iff)

text \<open>Fact: the text watermark. Exactly the logits of the tokens in the list of a position get the bias; a sequence counts as fully marked precisely
  when every token is in the list of its own position; and the lists hold tokens of the vocabulary only.\<close>

theorem text_watermark_exact:
  "length (bias_logits ops w logits position) = length logits \<and>
   (\<forall>i < length logits. bias_logits ops w logits position ! i =
      (if word_of_nat i \<in> set (green_list_for_position ops w position (word_of_nat (length logits))) then wm_fadd ops (logits ! i) (kb_delta w) else logits ! i)) \<and>
   (ds_green_count (detect_tokens ops w tokens vocab_size) = length tokens \<longleftrightarrow>
      (\<forall>i < length tokens. tokens ! i \<in> set (green_list_for_position ops w (word_of_nat i) vocab_size))) \<and>
   (\<forall>tok \<in> set (green_list_for_position ops w position vocab_size). tok < max vocab_size 1)"
proof (intro conjI)
  show "ds_green_count (detect_tokens ops w tokens vocab_size) = length tokens \<longleftrightarrow>
      (\<forall>i < length tokens. tokens ! i \<in> set (green_list_for_position ops w (word_of_nat i) vocab_size))"
  proof -
    have "ds_green_count (detect_tokens ops w tokens vocab_size) = green_count ops w tokens vocab_size"
      by (simp add: detect_tokens_def green_count_def Let_def)
    moreover have "green_count ops w tokens vocab_size = length (enumerate 0 tokens) \<longleftrightarrow>
        (\<forall>i < length tokens. tokens ! i \<in> set (green_list_for_position ops w (word_of_nat i) vocab_size))"
      unfolding green_count_def filter_all_length all_set_conv_all_nth by (simp add: nth_enumerate_eq)
    ultimately show ?thesis by simp
  qed
qed (auto simp: bias_logits_def Let_def nth_enumerate_eq green_below)

text \<open>Integer arithmetic in place of the floating-point operations, with a hash that is always zero.\<close>

definition sample_ops :: "int wm_ops" where
  "sample_ops = \<lparr>wm_blake3 = (\<lambda>_. [0, 0, 0, 0]), wm_fraction = (\<lambda>_ v. v), wm_fadd = (\<lambda>a _. a + 1), wm_of_nat = int, wm_of_f32 = (\<lambda>_. 1),
     wm_mul = (*), wm_sub = (-), wm_div = (div), wm_sqrt = id, wm_abs = abs, wm_less = (<), wm_leq = (\<le>), wm_to_f32 = (\<lambda>_. 0), wm_lit = (\<lambda>_. 0),
     wm_show = (\<lambda>_. []), wm_show_f32 = (\<lambda>_. [])\<rparr>"

lemma sample_green: "green_list_for_position sample_ops w position 3 = [0, 1, 1]"
proof -
  have "[0..<3] = [0, 1, 2 :: nat]" by (simp add: upt_rec)
  then show ?thesis
    by (simp add: green_list_for_position_def green_size_def wm_seed_def sample_ops_def Let_def max_def word_le_nat_alt)
qed

theorem text_watermark_exact_witness:
  "bias_logits sample_ops (kirchenbauer_new []) [5, 6, 7] 0 ! 2 = 7 \<and> ds_green_count (detect_tokens sample_ops (kirchenbauer_new []) [0, 1] 3) = 2"
proof -
  note e = text_watermark_exact [of sample_ops "kirchenbauer_new []" "[5, 6, 7]" 0 "[0, 1]" 3]
  from e have "bias_logits sample_ops (kirchenbauer_new []) [5, 6, 7] 0 ! 2 = 7" by (simp add: sample_green)
  moreover from e have "ds_green_count (detect_tokens sample_ops (kirchenbauer_new []) [0, 1] 3) = 2"
    by (auto simp: sample_green less_Suc_eq)
  ultimately show ?thesis ..
qed

text \<open>Fact: the list may name a token twice and leave another out, here with the whole vocabulary of three tokens asked for.\<close>

theorem green_list_repeats:
  "unat (green_size sample_ops w 3) = 3 \<and> 2 \<notin> set (green_list_for_position sample_ops w position 3)"
  by (simp add: sample_green) (simp add: green_size_def sample_ops_def max_def word_le_nat_alt)

text \<open>Fact: the C2PA detector reports a watermark in every input that is not empty.\<close>

theorem c2pa_detects_anything: "input \<noteq> [] \<Longrightarrow> \<exists>d. c2pa_detect input = Inr d \<and> dr_detected d"
  by (simp add: c2pa_detect_def)

end
