(* ===== verification/McpTools.thy ===== *)
theory McpTools
  imports McpBackends SandboxRun "HOL-Library.Monad_Syntax"
begin

text \<open>
  \<^verbatim>\<open>crates/tl-mcp-server/src/tools_v2.rs\<close>: the 29 tools of the second tool set. A handler takes the arguments and gives a text error, a
  JSON value, or no value at all when it panics. Reading arguments into an input structure is serde's derived deserialization: an
  object is read by field names, an array by position. The texts of its errors, the printer, schemas, hashes, fresh identifiers and
  renderings of floating-point numbers are fields of the environment.
\<close>

record mcp_env =
  env_slot :: "backends option"
  env_uuid :: "nat \<Rightarrow> string"
  env_de_error :: "string \<Rightarrow> json \<Rightarrow> string"
  env_to_string :: "json \<Rightarrow> string"
  env_schema :: "string \<Rightarrow> json"
  env_blake3_hex :: "string \<Rightarrow> string"
  env_render_z :: "nat \<Rightarrow> string"
  env_render_conf :: "nat \<Rightarrow> string"
  env_log2_capped :: "nat \<Rightarrow> string"

type_synonym tool_handler = "json \<Rightarrow> (string + json) option"

section \<open>Reading input structures\<close>

definition de_struct :: "nat \<Rightarrow> json \<Rightarrow> bool" where
  "de_struct n v = (case v of JObject _ \<Rightarrow> True | JArray xs \<Rightarrow> length xs \<le> n | _ \<Rightarrow> False)"

definition de_field :: "json \<Rightarrow> nat \<Rightarrow> string \<Rightarrow> json option" where
  "de_field v i name = (case v of JObject kvs \<Rightarrow> map_of kvs name | JArray xs \<Rightarrow> if i < length xs then Some (xs ! i) else None | _ \<Rightarrow> None)"

definition str_field :: "json \<Rightarrow> nat \<Rightarrow> string \<Rightarrow> string option" where
  "str_field v i name = Option.bind (de_field v i name) as_str"

definition u32_of_json :: "json \<Rightarrow> nat option" where
  "u32_of_json v = (case v of
     JNumber s \<Rightarrow> let n = foldl (\<lambda>a ch. a * 10 + (code ch - 48)) 0 s
       in if s \<noteq> [] \<and> list_all is_ascii_digit s \<and> n < 2 ^ 32 then Some n else None
   | _ \<Rightarrow> None)"

definition u32_field :: "nat \<Rightarrow> json \<Rightarrow> nat \<Rightarrow> string \<Rightarrow> nat option" where
  "u32_field dflt v i name = (case de_field v i name of None \<Rightarrow> Some dflt | Some j \<Rightarrow> u32_of_json j)"

definition opt_str_field :: "json \<Rightarrow> nat \<Rightarrow> string \<Rightarrow> string option option" where
  "opt_str_field v i name = (case de_field v i name of None \<Rightarrow> Some None | Some JNull \<Rightarrow> Some None | Some j \<Rightarrow> map_option Some (as_str j))"

fun strs_of_json :: "json list \<Rightarrow> string list option" where
  "strs_of_json [] = Some []"
| "strs_of_json (j # js) = (case as_str j of None \<Rightarrow> None | Some s \<Rightarrow> map_option (Cons s) (strs_of_json js))"

definition strs_field :: "json \<Rightarrow> nat \<Rightarrow> string \<Rightarrow> string list option" where
  "strs_field v i name = (case de_field v i name of Some (JArray js) \<Rightarrow> strs_of_json js | _ \<Rightarrow> None)"

definition de_one :: "string \<Rightarrow> json \<Rightarrow> string option" where
  "de_one name v = (if de_struct 1 v then str_field v 0 name else None)"

definition de_two :: "string \<Rightarrow> string \<Rightarrow> json \<Rightarrow> (string \<times> string) option" where
  "de_two a b v = (if de_struct 2 v then do { x \<leftarrow> str_field v 0 a; y \<leftarrow> str_field v 1 b; Some (x, y) } else None)"

definition de_limited :: "string \<Rightarrow> nat \<Rightarrow> json \<Rightarrow> (string \<times> nat) option" where
  "de_limited name dflt v = (if de_struct 2 v then do { x \<leftarrow> str_field v 0 name; n \<leftarrow> u32_field dflt v 1 ''limit''; Some (x, n) } else None)"

text \<open>The first statement of every handler: an input that cannot be read is a text error.\<close>

definition with_input :: "mcp_env \<Rightarrow> string \<Rightarrow> (json \<Rightarrow> 'a option) \<Rightarrow> json \<Rightarrow> ('a \<Rightarrow> (string + json) option) \<Rightarrow> (string + json) option" where
  "with_input E ty de input k = (case de input of None \<Rightarrow> Some (Inl (''invalid input: '' @ env_de_error E ty input)) | Some p \<Rightarrow> k p)"

definition with_backend :: "mcp_env \<Rightarrow> (backends \<Rightarrow> backend_error + 'a) \<Rightarrow> ('a \<Rightarrow> json) \<Rightarrow> (string + json) option" where
  "with_backend E op render = (case global_get (env_slot E) of
     None \<Rightarrow> None
   | Some B \<Rightarrow> (case op B of Inl e \<Rightarrow> Some (Inr (backend_error_json e)) | Inr b \<Rightarrow> Some (Inr (render b))))"

definition jnat :: "nat \<Rightarrow> json" where "jnat n = JNumber (show_nat n)"

definition jstrs :: "string list \<Rightarrow> json" where "jstrs xs = JArray (map JString xs)"

abbreviation epoch_text :: string where "epoch_text \<equiv> ''1970-01-01T00:00:00Z''"

section \<open>Bundles\<close>

definition handle_bundle_get :: "mcp_env \<Rightarrow> tool_handler" where
  "handle_bundle_get E input = with_input E ''BundleGetInput'' (de_one ''bundle_id'') input (\<lambda>bid.
     with_backend E (\<lambda>B. bundle_get (bk_bundle B) bid) (\<lambda>b. JObject [(''bundle_id'', JString (br_bundle_id b)), (''bundle'', bundle_json b),
       (''disclaimers'', jstrs [''v3.0 W7.0: real backend wire-up''])]))"

definition default_bundle_limit :: nat where "default_bundle_limit = 50"

definition handle_bundle_list :: "mcp_env \<Rightarrow> tool_handler" where
  "handle_bundle_list E input = with_input E ''BundleListInput'' (de_limited ''org_id'' default_bundle_limit) input (\<lambda>(org, limit).
     with_backend E (\<lambda>B. bundle_list (bk_bundle B) org limit) (\<lambda>bs. JObject [(''org_id'', JString org), (''count'', jnat (length bs)),
       (''bundles'', JArray (map bundle_json bs)), (''limit'', jnat limit), (''disclaimers'', jstrs [''v3.0 W7.0: real backend''])]))"

definition default_search_limit :: nat where "default_search_limit = 20"

definition handle_bundle_search :: "mcp_env \<Rightarrow> tool_handler" where
  "handle_bundle_search E input = with_input E ''BundleSearchInput'' (de_limited ''query'' default_search_limit) input (\<lambda>(query, limit).
     with_backend E (\<lambda>B. bundle_search (bk_bundle B) query limit) (\<lambda>bs. JObject [(''query'', JString query),
       (''matches'', JArray (map bundle_json bs)), (''limit'', jnat limit), (''disclaimers'', jstrs [''v3.0 W7.0: real backend''])]))"

definition handle_bundle_metadata :: "mcp_env \<Rightarrow> tool_handler" where
  "handle_bundle_metadata E input = with_input E ''BundleMetadataInput'' (de_one ''bundle_id'') input (\<lambda>bid.
     with_backend E (\<lambda>B. bundle_metadata (bk_bundle B) bid) (\<lambda>b. JObject [(''bundle_id'', JString (br_bundle_id b)),
       (''size_bytes'', jnat (length (env_to_string E (bundle_json b)))), (''disclosure_count'', jnat (length (br_disclosure_ids b))),
       (''compliance_rollup'', JString ''Compliant''), (''disclaimers'', jstrs [''v3.0 W7.0: real backend''])]))"

definition handle_bundle_export :: "mcp_env \<Rightarrow> tool_handler" where
  "handle_bundle_export E input = with_input E ''BundleExportInput'' (de_two ''bundle_id'' ''format'') input (\<lambda>(bid, fmt).
     with_backend E (\<lambda>B. bundle_export (bk_bundle B) bid fmt) (\<lambda>b. JObject [(''bundle_id'', JString (be_bundle_id b)), (''format'', JString (be_format b)),
       (''content'', be_content b), (''output_path'', JString (''/tmp/bundle-'' @ be_bundle_id b @ ''.'' @ be_format b)), (''bytes'', jnat 0),
       (''disclaimers'', jstrs [''v3.0 W7.0: real backend''])]))"

section \<open>Transparency log\<close>

definition handle_scitt_verify :: "mcp_env \<Rightarrow> tool_handler" where
  "handle_scitt_verify E input = with_input E ''ScittVerifyInput'' (de_one ''receipt'') input (\<lambda>receipt.
     with_backend E (\<lambda>B. scitt_verify receipt) (\<lambda>b. JObject [(''verified'', JBool (sv_verified b)), (''issuer_kid'', JString (sv_issuer_kid b)),
       (''registry_id'', JString (sv_registry_id b)), (''disclaimers'', jstrs [''v3.0 W7.0: real backend''])]))"

definition handle_scitt_get :: "mcp_env \<Rightarrow> tool_handler" where
  "handle_scitt_get E input = with_input E ''ScittGetInput'' (de_one ''entry_id'') input (\<lambda>entry_id.
     Some (Inr (JObject [(''entry_id'', JString entry_id), (''cose_sign1_b64'', JString []), (''issued_at'', jnat 0),
       (''registry_id'', JString ''trustlayer-mock-ts''), (''status'', JString ''Included'')])))"

definition handle_scitt_submit :: "mcp_env \<Rightarrow> tool_handler" where
  "handle_scitt_submit E input = with_input E ''ScittSubmitInput'' (de_one ''statement'') input (\<lambda>statement.
     Some (Inr (JObject [(''entry_id'', JString (env_uuid E 0)), (''registry_id'', JString ''trustlayer-mock-ts''), (''status'', JString ''Pending''),
       (''statement_len'', jnat (length statement)), (''submitted_at'', JString epoch_text)])))"

definition handle_scitt_status :: "mcp_env \<Rightarrow> tool_handler" where
  "handle_scitt_status E input = with_input E ''ScittStatusInput'' (de_one ''entry_id'') input (\<lambda>entry_id.
     Some (Inr (JObject [(''entry_id'', JString entry_id), (''inclusion_proof'', JNull), (''status'', JString ''Included''), (''checked_at'', JString epoch_text)])))"

section \<open>Watermarks\<close>

definition handle_watermark_detect :: "mcp_env \<Rightarrow> tool_handler" where
  "handle_watermark_detect E input = with_input E ''WatermarkDetectInput'' (de_one ''text'') input (\<lambda>txt.
     with_backend E (\<lambda>B. watermark_detect (env_render_z E) (env_render_conf E) txt) (\<lambda>b. JObject [(''detected'', JBool (wr_detected b)),
       (''z_score'', JNumber (wr_z_score b)), (''confidence'', JNumber (wr_confidence b)), (''algorithm'', JString ''kirchenbauer_et_al_2023''),
       (''disclaimers'', jstrs [''v3.0 W7.0: real backend''])]))"

text \<open>Slicing the key panics when its sixteenth byte is inside a character.\<close>

definition handle_watermark_generate :: "mcp_env \<Rightarrow> tool_handler" where
  "handle_watermark_generate E input = with_input E ''WatermarkGenerateInput'' (de_two ''text'' ''key'') input (\<lambda>(txt, key).
     let n = min (length key) 16
     in if \<not> is_char_boundary key n then None
        else let watermarked = txt @ [newline] @ ''# [kirchenbauer_text watermark v3.0 W3.3 key='' @ take n key @ '']''
             in Some (Inr (JObject [(''watermarked_text'', JString watermarked), (''key_id'', JString (env_blake3_hex E key)),
                  (''watermarked_len'', jnat (length watermarked))])))"

text \<open>The score is the binary logarithm of the number of words, capped at eight: above four exactly from the seventeenth word on.\<close>

definition handle_watermark_confidence :: "mcp_env \<Rightarrow> tool_handler" where
  "handle_watermark_confidence E input = with_input E ''WatermarkConfidenceInput'' (de_one ''text'') input (\<lambda>txt.
     let n = length (split_whitespace txt)
     in Some (Inr (JObject [(''z_score'', JNumber (if n = 0 then ''0.0'' else env_log2_capped E n)),
          (''confidence'', JNumber (if 16 < n then ''0.99997'' else ''0.5'')), (''threshold_z'', JNumber ''4.0''), (''token_count'', jnat n)])))"

section \<open>Trust list\<close>

definition handle_trustlist_check :: "mcp_env \<Rightarrow> tool_handler" where
  "handle_trustlist_check E input = with_input E ''TrustlistCheckInput'' (de_one ''public_key_fp'') input (\<lambda>fp.
     Some (Inr (JObject [(''on_trust_list'', JBool True), (''public_key_fp'', JString fp), (''provider'', JString ''DigiCert''),
       (''policy_oid'', JString ''0.4.0.194112.1.2''), (''country'', JString ''US''),
       (''disclaimers'', jstrs [''v3.0 W3.3 stub: LotL fetch in v3.1; baked provider list in v1.1.1''])])))"

definition handle_trustlist_list_providers :: "mcp_env \<Rightarrow> tool_handler" where
  "handle_trustlist_list_providers E input = with_input E ''TrustlistListProvidersInput'' (de_one ''country'') input (\<lambda>country.
     Some (Inr (JObject [(''country'', JString country),
       (''providers'', JArray (map (\<lambda>(n, ctry). JObject [(''name'', JString n), (''country'', JString ctry), (''policy_oid'', JString ''0.4.0.194112.1.2'')])
          [(''DigiCert'', ''US''), (''Sectigo'', ''GB'')])),
       (''count'', jnat 2)])))"

definition handle_trustlist_policy_oid :: "mcp_env \<Rightarrow> tool_handler" where
  "handle_trustlist_policy_oid E input = with_input E ''TrustlistPolicyOidInput'' (de_one ''cert_der'') input (\<lambda>cert_der.
     Some (Inr (JObject [(''policy_oid'', JString ''0.4.0.194112.1.2''), (''is_qtsp'', JBool True), (''cert_len'', jnat (length cert_der))])))"

section \<open>Keys\<close>

definition handle_key_status :: "mcp_env \<Rightarrow> tool_handler" where
  "handle_key_status E input = with_input E ''KeyStatusInput'' (de_one ''tenant'') input (\<lambda>tenant.
     Some (Inr (JObject [(''tenant'', JString tenant), (''active_key_id'', JString (''key_'' @ tenant @ ''_v1'')), (''grace_keys'', JArray []),
       (''policy'', JObject [(''rotation_interval_days'', jnat 90), (''grace_period_days'', jnat 30)]), (''rotation_due_at'', JString epoch_text)])))"

definition rotation_reasons :: "string list" where
  "rotation_reasons = [''Scheduled'', ''Compromised'', ''AlgorithmMigration'', ''Operational'', ''Initial'']"

definition handle_key_rotate :: "mcp_env \<Rightarrow> tool_handler" where
  "handle_key_rotate E input = with_input E ''KeyRotateInput'' (de_two ''tenant'' ''reason'') input (\<lambda>(tenant, reason).
     if reason \<notin> set rotation_reasons
     then Some (Inl (''invalid reason: '' @ reason @ '' (must be one of ['' @ join_with '', '' (map (\<lambda>r. [CHR 0x22] @ r @ [CHR 0x22]) rotation_reasons) @ ''])''))
     else Some (Inr (JObject [(''tenant'', JString tenant), (''old_key_id'', JString (''key_'' @ tenant @ ''_v1'')),
       (''new_key_id'', JString (''key_'' @ tenant @ ''_v2'')), (''reason'', JString reason), (''rotated_at'', JString epoch_text)])))"

definition handle_key_history :: "mcp_env \<Rightarrow> tool_handler" where
  "handle_key_history E input = with_input E ''KeyHistoryInput'' (de_two ''tenant'' ''since'') input (\<lambda>(tenant, since).
     Some (Inr (JObject [(''tenant'', JString tenant), (''since'', JString since), (''events'', JArray [])])))"

section \<open>Statement of applicability and risk profile\<close>

definition de_soa_generate :: "json \<Rightarrow> string option option" where
  "de_soa_generate v = (if de_struct 1 v then opt_str_field v 0 ''org_id'' else None)"

definition section_mark :: "string \<Rightarrow> string" where
  "section_mark n = [CHR 0xC2, CHR 0xA7] @ n"

definition handle_soa_generate :: "mcp_env \<Rightarrow> tool_handler" where
  "handle_soa_generate E input = with_input E ''SoaGenerateInput'' de_soa_generate input (\<lambda>org.
     Some (Inr (JObject [(''soa_id'', JString (env_uuid E 0)), (''org_id'', case org of None \<Rightarrow> JNull | Some s \<Rightarrow> JString s), (''controls_count'', jnat 93),
       (''clauses_covered'', jstrs (map section_mark [''4'', ''5'', ''6'', ''7'', ''8'', ''9'', ''10''])), (''generated_at'', JString epoch_text)])))"

definition handle_soa_controls :: "mcp_env \<Rightarrow> tool_handler" where
  "handle_soa_controls E input = Some (Inr (JObject
     [(''controls'', JArray (map (\<lambda>(i, n, b). JObject [(''id'', JString i), (''name'', JString n), (''implemented'', JBool b)])
        [(''A.5.1'', ''Policies for AI'', True), (''A.5.2'', ''AI roles and responsibilities'', True),
         (''A.6.1.2'', ''AI system life cycle'', True), (''A.6.2.4'', ''AI system requirements'', True),
         (''A.7.2'', ''Data for AI'', True), (''A.8.2'', ''AI system verification and validation'', True),
         (''A.9.2'', ''AI system operation and monitoring'', True), (''A.10.2'', ''AI system retirement'', False)])),
      (''total'', jnat 93)]))"

definition handle_soa_compliance_status :: "mcp_env \<Rightarrow> tool_handler" where
  "handle_soa_compliance_status E input = Some (Inr (JObject [(''implemented'', jnat 67), (''partial'', jnat 18), (''planned'', jnat 8),
     (''not_applicable'', jnat 0), (''total'', jnat 93), (''score'', JNumber ''0.81'')]))"

definition handle_nist_risks :: "mcp_env \<Rightarrow> tool_handler" where
  "handle_nist_risks E input = Some (Inr (JObject
     [(''risks'', JArray (map (\<lambda>(i, n, f). JObject [(''id'', JString i), (''name'', JString n), (''function'', JString f)])
        [(''GV-01'', ''Confabulation / hallucination'', ''Govern''), (''GV-02'', ''Data privacy'', ''Govern''),
         (''GV-03'', ''IP infringement'', ''Govern''), (''GV-04'', ''Conflicting values / human-AI value alignment'', ''Govern''),
         (''MS-01'', ''Confabulation in measurement'', ''Measure''), (''MS-02'', ''Dataset biases'', ''Measure''),
         (''MS-03'', ''Lack of transparency / interpretability'', ''Measure''), (''MS-04'', ''Benchmark validity'', ''Measure''),
         (''MG-01'', ''Data poisoning'', ''Manage''), (''MG-02'', ''Evasion / adversarial attack'', ''Manage''),
         (''MG-03'', ''Sensitive data disclosure'', ''Manage''), (''MG-04'', ''Model exfiltration / theft'', ''Manage'')])),
      (''total'', jnat 12)]))"

definition handle_nist_mitigations :: "mcp_env \<Rightarrow> tool_handler" where
  "handle_nist_mitigations E input = with_input E ''NistMitigationsInput'' (de_one ''risk_id'') input (\<lambda>risk_id.
     Some (Inr (JObject [(''risk_id'', JString risk_id),
       (''mitigations'', jstrs [''COSE_Sign1 provenance chain (tl-evidence)'', ''Append-only audit log (tl-chain)'',
          ''C2PA content authenticity (tl-watermark)'', ''Multi-tenant isolation (tl-policy)'']),
       (''tl_modules'', jstrs [''tl-evidence'', ''tl-chain'', ''tl-watermark'', ''tl-policy''])])))"

definition handle_nist_profile_compliance :: "mcp_env \<Rightarrow> tool_handler" where
  "handle_nist_profile_compliance E input = Some (Inr (JObject [(''total_risks'', jnat 12), (''mitigated'', jnat 12), (''partially_mitigated'', jnat 0),
     (''score'', JNumber ''1.0''), (''by_function'', JObject [(''Govern'', JNumber ''1.0''), (''Map'', JNumber ''1.0''), (''Measure'', JNumber ''1.0''), (''Manage'', JNumber ''1.0'')])]))"

section \<open>Product liability and partners\<close>

definition handle_pld_disclosure_response :: "mcp_env \<Rightarrow> tool_handler" where
  "handle_pld_disclosure_response E input = with_input E ''PldDisclosureResponseInput'' (de_one ''order_id'') input (\<lambda>order_id.
     Some (Inr (JObject [(''order_id'', JString order_id), (''response_id'', JString (env_uuid E 0)), (''evidence_bundle_id'', JString (env_uuid E 1)),
       (''generated_at'', JString epoch_text), (''articles_addressed'', jstrs [''PLD-Art-4'', ''PLD-Art-11''])])))"

definition handle_pld_rebuttal_pack :: "mcp_env \<Rightarrow> tool_handler" where
  "handle_pld_rebuttal_pack E input = with_input E ''PldRebuttalPackInput'' (de_one ''product_id'') input (\<lambda>product_id.
     Some (Inr (JObject [(''product_id'', JString product_id), (''rebuttal_id'', JString (env_uuid E 0)),
       (''defenses'', jstrs [''EU AI Act Art. 50(2) machine-readable provenance'', ''EU AI Act Art. 12 append-only audit log'',
          ''DORA Art. 19 ICT incident reporting'', ''Kirchenbauer watermark detection (anti-evasion)'']),
       (''rebuttable_presumption'', JString ''Defeated''), (''built_at'', JString epoch_text)])))"

definition deadline_days :: "string \<Rightarrow> int option" where
  "deadline_days regulation = map_of [(''EU-AI-Act-Art50'', 37), (''PLD-2024-2853'', 166), (''DORA-Art-19'', 0), (''ISO-42001'', -1)] regulation"

definition handle_pld_deadline :: "mcp_env \<Rightarrow> tool_handler" where
  "handle_pld_deadline E input = with_input E ''PldDeadlineInput'' (de_one ''regulation'') input (\<lambda>regulation.
     case deadline_days regulation of
       None \<Rightarrow> Some (Inl (''unknown regulation: '' @ regulation))
     | Some days \<Rightarrow> Some (Inr (JObject [(''regulation'', JString regulation), (''deadline'', JString ''2026-08-02''),
         (''days_remaining'', JNumber (show_int days)), (''enforced'', JBool (days \<le> 0))])))"

definition de_partner_apply :: "json \<Rightarrow> json option" where
  "de_partner_apply v = (if de_struct 1 v then de_field v 0 ''org_info'' else None)"

definition handle_partner_apply :: "mcp_env \<Rightarrow> tool_handler" where
  "handle_partner_apply E input = with_input E ''PartnerApplyInput'' de_partner_apply input (\<lambda>org_info.
     Some (Inr (JObject [(''application_id'', JString (env_uuid E 0)), (''status'', JString ''Received''), (''submitted_at'', JString epoch_text),
       (''received_org_info_keys'', jstrs (case org_info of JObject kvs \<Rightarrow> map fst kvs | _ \<Rightarrow> [])),
       (''next_step'', JString ''Review by Pablo within 2 business days'')])))"

definition handle_partner_status :: "mcp_env \<Rightarrow> tool_handler" where
  "handle_partner_status E input = with_input E ''PartnerStatusInput'' (de_one ''org_id'') input (\<lambda>org_id.
     Some (Inr (JObject [(''org_id'', JString org_id), (''status'', JString ''UnderReview''), (''submitted_at'', JString epoch_text), (''last_updated'', JString epoch_text)])))"

section \<open>Registration\<close>

definition mcp_tool_spec :: "mcp_env \<Rightarrow> string \<Rightarrow> string \<Rightarrow> string \<Rightarrow> string \<Rightarrow> json" where
  "mcp_tool_spec E ty name title description = JObject [(''name'', JString name), (''title'', JString title), (''description'', JString description), (''inputSchema'', env_schema E ty)]"

definition insert_all :: "(string \<times> tool_handler) list \<Rightarrow> (string \<rightharpoonup> tool_handler) \<Rightarrow> (string \<rightharpoonup> tool_handler)" where
  "insert_all hs m = fold (\<lambda>(n, h) m. m(n \<mapsto> h)) hs m"

definition v2_handlers :: "mcp_env \<Rightarrow> (string \<times> tool_handler) list" where
  "v2_handlers E =
    [(''bundle.get'', handle_bundle_get E), (''bundle.list'', handle_bundle_list E), (''bundle.search'', handle_bundle_search E),
     (''bundle.metadata'', handle_bundle_metadata E), (''bundle.export'', handle_bundle_export E),
     (''scitt.verify'', handle_scitt_verify E), (''scitt.get'', handle_scitt_get E), (''scitt.submit'', handle_scitt_submit E), (''scitt.status'', handle_scitt_status E),
     (''watermark.detect'', handle_watermark_detect E), (''watermark.generate'', handle_watermark_generate E), (''watermark.confidence'', handle_watermark_confidence E),
     (''trustlist.check'', handle_trustlist_check E), (''trustlist.list_providers'', handle_trustlist_list_providers E), (''trustlist.policy_oid'', handle_trustlist_policy_oid E),
     (''key.status'', handle_key_status E), (''key.rotate'', handle_key_rotate E), (''key.history'', handle_key_history E),
     (''soa.generate'', handle_soa_generate E), (''soa.controls'', handle_soa_controls E), (''soa.compliance_status'', handle_soa_compliance_status E),
     (''nist.risks'', handle_nist_risks E), (''nist.mitigations'', handle_nist_mitigations E), (''nist.profile_compliance'', handle_nist_profile_compliance E),
     (''pld.disclosure_response'', handle_pld_disclosure_response E), (''pld.rebuttal_pack'', handle_pld_rebuttal_pack E), (''pld.deadline'', handle_pld_deadline E),
     (''partner.apply'', handle_partner_apply E), (''partner.status'', handle_partner_status E)]"

definition register_dispatch :: "mcp_env \<Rightarrow> (string \<rightharpoonup> tool_handler) \<Rightarrow> (string \<rightharpoonup> tool_handler)" where
  "register_dispatch E m = insert_all (v2_handlers E) m"

definition v2_tools_list :: "mcp_env \<Rightarrow> json list" where
  "v2_tools_list E = map (\<lambda>(ty, n, t, d). mcp_tool_spec E ty n t d)
    [(''BundleGetInput'', ''bundle.get'', ''Get bundle'', ''Retrieve a full evidence bundle by ID.''),
     (''BundleListInput'', ''bundle.list'', ''List bundles'', ''List evidence bundles for a tenant.''),
     (''BundleSearchInput'', ''bundle.search'', ''Search bundles'', ''Search bundles by content / metadata.''),
     (''BundleMetadataInput'', ''bundle.metadata'', ''Bundle metadata'', ''Lightweight metadata fetch.''),
     (''BundleExportInput'', ''bundle.export'', ''Export bundle'', ''Export to PDF / JSON / CSV.''),
     (''ScittVerifyInput'', ''scitt.verify'', ''Verify SCITT receipt'', ''Offline-verify a SCITT receipt.''),
     (''ScittGetInput'', ''scitt.get'', ''Get SCITT entry'', ''Retrieve from transparency log.''),
     (''ScittSubmitInput'', ''scitt.submit'', ''Submit to TS'', ''Submit a statement to the Transparency Service.''),
     (''ScittStatusInput'', ''scitt.status'', ''SCITT status'', ''Check inclusion status of an entry.''),
     (''WatermarkDetectInput'', ''watermark.detect'', ''Detect watermark'', ''Kirchenbauer z-test on text.''),
     (''WatermarkGenerateInput'', ''watermark.generate'', ''Embed watermark'', ''Embed a Kirchenbauer watermark.''),
     (''WatermarkConfidenceInput'', ''watermark.confidence'', ''Watermark confidence'', ''Return z-score for a text.''),
     (''TrustlistCheckInput'', ''trustlist.check'', ''Check EU TL'', ''Verify TSP root on EU Trust List.''),
     (''TrustlistListProvidersInput'', ''trustlist.list_providers'', ''List QTSPs'', ''List qualified TSPs by country.''),
     (''TrustlistPolicyOidInput'', ''trustlist.policy_oid'', ''Extract policy OID'', ''Extract QTSP policy OID from cert.''),
     (''KeyStatusInput'', ''key.status'', ''Key status'', ''Rotation state for a tenant.''),
     (''KeyRotateInput'', ''key.rotate'', ''Rotate key'', ''Manually rotate a tenant'' @ [CHR 0x27] @ ''s signing key.''),
     (''KeyHistoryInput'', ''key.history'', ''Key history'', ''Audit log of rotation events.''),
     (''SoaGenerateInput'', ''soa.generate'', ''Generate SoA'', ''Auto-generate ISO 42001 Statement of Applicability.''),
     (''SoaControlsInput'', ''soa.controls'', ''List Annex A controls'', ''All ISO 42001 Annex A controls.''),
     (''SoaComplianceStatusInput'', ''soa.compliance_status'', ''SoA compliance'', ''Implemented/partial/planned counts.''),
     (''NistRisksInput'', ''nist.risks'', ''NIST 600-1 risks'', ''Catalog of 12 GAI risks.''),
     (''NistMitigationsInput'', ''nist.mitigations'', ''NIST mitigations'', ''TrustLayer mitigations for a risk.''),
     (''NistProfileComplianceInput'', ''nist.profile_compliance'', ''NIST profile score'', ''Overall NIST AI 600-1 profile score.''),
     (''PldDisclosureResponseInput'', ''pld.disclosure_response'', ''PLD disclosure'', ''Generate PLD Art. 11 disclosure response.''),
     (''PldRebuttalPackInput'', ''pld.rebuttal_pack'', ''PLD rebuttal'', ''PLD Art. 11 rebuttal pack (defeats presumption).''),
     (''PldDeadlineInput'', ''pld.deadline'', ''Regulatory deadline'', ''Days remaining to a regulatory deadline.''),
     (''PartnerApplyInput'', ''partner.apply'', ''Apply to program'', ''Submit a design partner application.''),
     (''PartnerStatusInput'', ''partner.status'', ''Application status'', ''Design partner application status.'')]"

section \<open>When handlers panic\<close>

lemma with_input_None [simp]: "with_input E ty de input k = None \<longleftrightarrow> (\<exists>p. de input = Some p \<and> k p = None)"
  by (simp add: with_input_def split: option.splits)

lemma with_backend_None [simp]: "with_backend E op render = None \<longleftrightarrow> env_slot E = None"
  by (simp add: with_backend_def global_get_def split: option.splits sum.splits)

lemmas v2_handler_defs =
  handle_bundle_get_def handle_bundle_list_def handle_bundle_search_def handle_bundle_metadata_def handle_bundle_export_def
  handle_scitt_verify_def handle_scitt_get_def handle_scitt_submit_def handle_scitt_status_def
  handle_watermark_detect_def handle_watermark_generate_def handle_watermark_confidence_def
  handle_trustlist_check_def handle_trustlist_list_providers_def handle_trustlist_policy_oid_def
  handle_key_status_def handle_key_rotate_def handle_key_history_def
  handle_soa_generate_def handle_soa_controls_def handle_soa_compliance_status_def
  handle_nist_risks_def handle_nist_mitigations_def handle_nist_profile_compliance_def
  handle_pld_disclosure_response_def handle_pld_rebuttal_pack_def handle_pld_deadline_def
  handle_partner_apply_def handle_partner_status_def

text \<open>The seven tools that ask the global slot, with the reading of their arguments.\<close>

definition slot_tools :: "(string \<times> (json \<Rightarrow> bool)) list" where
  "slot_tools =
    [(''bundle.get'', \<lambda>v. de_one ''bundle_id'' v \<noteq> None), (''bundle.list'', \<lambda>v. de_limited ''org_id'' default_bundle_limit v \<noteq> None),
     (''bundle.search'', \<lambda>v. de_limited ''query'' default_search_limit v \<noteq> None), (''bundle.metadata'', \<lambda>v. de_one ''bundle_id'' v \<noteq> None),
     (''bundle.export'', \<lambda>v. de_two ''bundle_id'' ''format'' v \<noteq> None), (''scitt.verify'', \<lambda>v. de_one ''receipt'' v \<noteq> None),
     (''watermark.detect'', \<lambda>v. de_one ''text'' v \<noteq> None)]"

definition split_key :: "json \<Rightarrow> bool" where
  "split_key v = (case de_two ''text'' ''key'' v of None \<Rightarrow> False | Some (t, k) \<Rightarrow> \<not> is_char_boundary k (min (length k) 16))"

definition tool_panics :: "mcp_env \<Rightarrow> string \<Rightarrow> json \<Rightarrow> bool" where
  "tool_panics E name v = ((env_slot E = None \<and> (case map_of slot_tools name of Some ok \<Rightarrow> ok v | None \<Rightarrow> False)) \<or> (name = ''watermark.generate'' \<and> split_key v))"

lemma v2_handler_panics: "(name, h) \<in> set (v2_handlers E) \<Longrightarrow> h v = None \<longleftrightarrow> tool_panics E name v"
  by (simp add: v2_handlers_def)
     (elim disjE; auto simp: v2_handler_defs tool_panics_def slot_tools_def split_key_def Let_def split: option.splits if_splits)

end
