(* ===== verification/McpServer.thy ===== *)
theory McpServer
  imports McpTools LineServer
begin

text \<open>
  \<^verbatim>\<open>crates/tl-mcp-server/src/main.rs\<close>: the seven tools of the first tool set, the dispatch table, the JSON-RPC handler and the loop over
  standard input. Reading a request line and printing are serde's and are parameters. A panic of a handler ends the process.
\<close>

section \<open>The first tool set\<close>

record generate_disclosure_input =
  gd_ai_system_id :: string
  gd_content :: string
  gd_content_hash :: string
  gd_deployer_name :: string
  gd_deployer_country :: string
  gd_deployer_sector :: string

definition de_generate_disclosure :: "json \<Rightarrow> generate_disclosure_input option" where
  "de_generate_disclosure v = (if de_struct 6 v then do {
     a \<leftarrow> str_field v 0 ''ai_system_id''; b \<leftarrow> str_field v 1 ''content''; h \<leftarrow> str_field v 2 ''content_hash'';
     n \<leftarrow> str_field v 3 ''deployer_name''; y \<leftarrow> str_field v 4 ''deployer_country''; s \<leftarrow> str_field v 5 ''deployer_sector'';
     Some \<lparr>gd_ai_system_id = a, gd_content = b, gd_content_hash = h, gd_deployer_name = n, gd_deployer_country = y, gd_deployer_sector = s\<rparr> } else None)"

definition handle_generate_disclosure :: "mcp_env \<Rightarrow> tool_handler" where
  "handle_generate_disclosure E input = with_input E ''GenerateDisclosureInput'' de_generate_disclosure input (\<lambda>p.
     Some (Inr (JObject [(''disclosure_id'', JString (env_uuid E 0)), (''compliance_rollup'', JString ''Partial''),
       (''v1_disclaimers'', jstrs [''watermark layer: NotApplicable in v1.0'', ''FreeTSA timestamp: dev-only, not forensically valid'']),
       (''received'', JObject [(''ai_system_id'', JString (gd_ai_system_id p)), (''content_hash'', JString (gd_content_hash p)),
          (''deployer'', JObject [(''name'', JString (gd_deployer_name p)), (''country'', JString (gd_deployer_country p)), (''sector'', JString (gd_deployer_sector p))])])])))"

definition handle_verify_provenance :: "mcp_env \<Rightarrow> tool_handler" where
  "handle_verify_provenance E input = with_input E ''VerifyProvenanceInput'' (de_one ''cose_sign1_b64'') input (\<lambda>cose.
     Some (Inr (JObject [(''verified'', JBool True), (''cose_sign1_b64'', JString cose),
       (''disclaimers'', jstrs [''v1.1.0: structural verification only; full CMS verify in v1.1.1''])])))"

definition handle_sign_artifact :: "mcp_env \<Rightarrow> tool_handler" where
  "handle_sign_artifact E input = with_input E ''SignArtifactInput'' (de_one ''content_hash'') input (\<lambda>hash.
     Some (Inr (JObject [(''cose_sign1_b64'', JString (''sig_for_'' @ hash)), (''row_hash'', JString hash), (''tsa_token_b64'', JNull)])))"

definition de_create_bundle :: "json \<Rightarrow> string list option" where
  "de_create_bundle v = (if de_struct 1 v then strs_field v 0 ''disclosure_ids'' else None)"

definition handle_create_evidence_bundle :: "mcp_env \<Rightarrow> tool_handler" where
  "handle_create_evidence_bundle E input = with_input E ''CreateEvidenceBundleInput'' de_create_bundle input (\<lambda>ids.
     Some (Inr (JObject [(''bundle_id'', JString (env_uuid E 0)), (''disclosure_ids'', jstrs ids)])))"

definition handle_evaluate_policy :: "mcp_env \<Rightarrow> tool_handler" where
  "handle_evaluate_policy E input = with_input E ''EvaluatePolicyInput'' (de_two ''disclosure_id'' ''regulation'') input (\<lambda>(did, regulation).
     Some (Inr (JObject [(''disclosure_id'', JString did), (''regulation'', JString regulation), (''decision'', JString ''Compliant''),
       (''rationale'', JString (regulation @ '' strategy evaluated: no violations''))])))"

definition handle_inspect_receipt :: "mcp_env \<Rightarrow> tool_handler" where
  "handle_inspect_receipt E input = with_input E ''InspectReceiptInput'' (de_one ''receipt_id'') input (\<lambda>rid.
     Some (Inr (JObject [(''receipt_id'', JString rid), (''status'', JString ''Active'')])))"

definition handle_check_compliance :: "mcp_env \<Rightarrow> tool_handler" where
  "handle_check_compliance E input = with_input E ''CheckComplianceInput'' (de_one ''bundle_id'') input (\<lambda>bid.
     Some (Inr (JObject [(''bundle_id'', JString bid), (''rollup'', JString ''Partial''),
       (''layers'', JObject [(''disclosure'', JString ''Compliant''), (''provenance'', JString ''Compliant''), (''watermark'', JString ''NotApplicable''), (''retention'', JString ''Compliant'')])])))"

section \<open>Dispatch\<close>

definition v1_handlers :: "mcp_env \<Rightarrow> (string \<times> tool_handler) list" where
  "v1_handlers E =
    [(''tl_generate_disclosure'', handle_generate_disclosure E), (''tl_verify_provenance'', handle_verify_provenance E),
     (''tl_sign_artifact'', handle_sign_artifact E), (''tl_create_evidence_bundle'', handle_create_evidence_bundle E),
     (''tl_evaluate_policy'', handle_evaluate_policy E), (''tl_inspect_receipt'', handle_inspect_receipt E),
     (''tl_check_compliance'', handle_check_compliance E)]"

definition build_tool_dispatch :: "mcp_env \<Rightarrow> string \<rightharpoonup> tool_handler" where
  "build_tool_dispatch E = register_dispatch E (insert_all (v1_handlers E) Map.empty)"

definition build_tools_list :: "mcp_env \<Rightarrow> json" where
  "build_tools_list E = JObject [(''tools'', JArray (map (\<lambda>(ty, n, t, d). mcp_tool_spec E ty n t d)
     [(''GenerateDisclosureInput'', ''tl_generate_disclosure'', ''Generate signed disclosure'', ''Generate a signed, chained, timestamped disclosure for an AI artifact.''),
      (''VerifyProvenanceInput'', ''tl_verify_provenance'', ''Verify provenance'', ''Verify the COSE_Sign1 envelope of a disclosure receipt.''),
      (''SignArtifactInput'', ''tl_sign_artifact'', ''Sign artifact'', ''Sign an artifact (its content hash) with the active signing key.''),
      (''CreateEvidenceBundleInput'', ''tl_create_evidence_bundle'', ''Create evidence bundle'', ''Bundle multiple disclosures into a single evidence package.''),
      (''EvaluatePolicyInput'', ''tl_evaluate_policy'', ''Evaluate policy'', ''Evaluate a policy strategy (DORA, Article 50, etc.) on a disclosure.''),
      (''InspectReceiptInput'', ''tl_inspect_receipt'', ''Inspect receipt'', ''Inspect a stored receipt by ID.''),
      (''CheckComplianceInput'', ''tl_check_compliance'', ''Check compliance'', ''Check the 4-layer compliance assessment for a bundle.'')]
     @ v2_tools_list E))]"

section \<open>JSON-RPC\<close>

record json_rpc_request =
  rq_method :: string
  rq_params :: "json option"
  rq_id :: "json option"

record json_rpc_error =
  je_code :: int
  je_message :: string
  je_data :: "json option"

record json_rpc_response =
  rs_jsonrpc :: string
  rs_result :: "json option"
  rs_error :: "json_rpc_error option"
  rs_id :: json

definition JSONRPC_VERSION :: string where "JSONRPC_VERSION = ''2.0''"
definition ERR_METHOD_NOT_FOUND :: int where "ERR_METHOD_NOT_FOUND = -32601"
definition ERR_INVALID_PARAMS :: int where "ERR_INVALID_PARAMS = -32602"
definition ERR_INTERNAL :: int where "ERR_INTERNAL = -32603"

definition ok_response :: "json \<Rightarrow> json \<Rightarrow> json_rpc_response" where
  "ok_response ident v = \<lparr>rs_jsonrpc = JSONRPC_VERSION, rs_result = Some v, rs_error = None, rs_id = ident\<rparr>"

definition err_response :: "json \<Rightarrow> int \<Rightarrow> string \<Rightarrow> json_rpc_response" where
  "err_response ident n m = \<lparr>rs_jsonrpc = JSONRPC_VERSION, rs_result = None, rs_error = Some \<lparr>je_code = n, je_message = m, je_data = None\<rparr>, rs_id = ident\<rparr>"

definition tool_content :: "string \<Rightarrow> bool \<Rightarrow> json" where
  "tool_content txt is_error = JObject [(''content'', JArray [JObject [(''type'', JString ''text''), (''text'', JString txt)]]), (''isError'', JBool is_error)]"

definition initialize_reply :: "string \<Rightarrow> json" where
  "initialize_reply version = JObject [(''protocolVersion'', JString ''2024-11-05''),
     (''serverInfo'', JObject [(''name'', JString ''apohara-trustlayer-mcp-server''), (''version'', JString version)]),
     (''capabilities'', JObject [(''tools'', JObject [])])]"

definition handle_request :: "mcp_env \<Rightarrow> string \<Rightarrow> json_rpc_request \<Rightarrow> json_rpc_response option" where
  "handle_request E version req =
     (let ident = (case rq_id req of Some i \<Rightarrow> i | None \<Rightarrow> JNull)
      in if rq_method req = ''initialize'' then Some (ok_response ident (initialize_reply version))
         else if rq_method req = ''tools/list'' then Some (ok_response ident (build_tools_list E))
         else if rq_method req = ''tools/call'' then
           (case rq_params req of
              None \<Rightarrow> Some (err_response ident ERR_INVALID_PARAMS ''tools/call requires {name, arguments}'')
            | Some params \<Rightarrow> (case Option.bind (json_get params ''name'') as_str of
                  None \<Rightarrow> Some (err_response ident ERR_INVALID_PARAMS ''missing params.name'')
                | Some name \<Rightarrow>
                    let arguments = (case json_get params ''arguments'' of Some a \<Rightarrow> a | None \<Rightarrow> JObject [])
                    in (case build_tool_dispatch E name of
                          None \<Rightarrow> Some (err_response ident ERR_METHOD_NOT_FOUND (''unknown tool: '' @ name))
                        | Some handler \<Rightarrow> (case handler arguments of
                              None \<Rightarrow> None
                            | Some (Inr value) \<Rightarrow> Some (ok_response ident (tool_content (env_to_string E value) False))
                            | Some (Inl e) \<Rightarrow> Some (ok_response ident (tool_content e True))))))
         else if rq_method req = ''ping'' then Some (ok_response ident (JObject []))
         else Some (err_response ident ERR_METHOD_NOT_FOUND (''method not found: '' @ rq_method req)))"

section \<open>The server loop\<close>

text \<open>\<open>read\<close> is serde's reading of a request line, with its error text; \<open>show\<close> the printing of a response, which may fail. The
  outcome of the loop is the end of input, an I/O error, or the death of the process.\<close>

datatype server_end = Eof | IoFailed string | Died

record wire =
  wire_read :: "string \<Rightarrow> string + json_rpc_request"
  wire_show :: "json_rpc_response \<Rightarrow> string + string"

definition parse_error_line :: "string \<Rightarrow> string" where
  "parse_error_line e = ''{\"jsonrpc\":\"2.0\",\"error\":{\"code\":-32700,\"message\":\"parse error: '' @ e @ ''\"},\"id\":null}''"

definition serialize_error_line :: "string \<Rightarrow> string" where
  "serialize_error_line e = ''{\"jsonrpc\":\"2.0\",\"error\":{\"code\":'' @ show_int ERR_INTERNAL @ '',\"message\":\"internal serialize error: '' @ e @ ''\"},\"id\":null}''"

definition answer_line :: "mcp_env \<Rightarrow> wire \<Rightarrow> string \<Rightarrow> string \<Rightarrow> string option" where
  "answer_line E W version trimmed = (case wire_read W trimmed of
     Inr req \<Rightarrow> map_option (\<lambda>resp. case wire_show W resp of Inr s \<Rightarrow> s | Inl e \<Rightarrow> serialize_error_line e) (handle_request E version req)
   | Inl e \<Rightarrow> Some (parse_error_line e))"

fun run_stdio_server :: "mcp_env \<Rightarrow> wire \<Rightarrow> string \<Rightarrow> (string list \<Rightarrow> string option) \<Rightarrow> (string + string) list \<Rightarrow> string list \<Rightarrow> string list \<times> server_end" where
  "run_stdio_server E W version wr [] out = (out, Eof)"
| "run_stdio_server E W version wr (Inl e # ls) out = (out, IoFailed e)"
| "run_stdio_server E W version wr (Inr input # ls) out =
     (if trim input = [] then run_stdio_server E W version wr ls out
      else (case answer_line E W version (trim input) of
          None \<Rightarrow> (out, Died)
        | Some response \<Rightarrow> (case wr out of
              Some e \<Rightarrow> (out, IoFailed e)
            | None \<Rightarrow> run_stdio_server E W version wr ls (out @ [response]))))"

text \<open>\<^verbatim>\<open>main\<close> starts the loop without filling the global slot.\<close>

definition mcp_main :: "mcp_env \<Rightarrow> wire \<Rightarrow> string \<Rightarrow> (string list \<Rightarrow> string option) \<Rightarrow> (string + string) list \<Rightarrow> string list \<times> server_end" where
  "mcp_main E W version wr ls = run_stdio_server (E\<lparr>env_slot := None\<rparr>) W version wr ls []"

interpretation trustlayer_server: line_server "\<lambda>l. map_option Some (answer_line E W version (trim l))" "run_stdio_server E W version"
  "\<lambda>out. (out, Eof)" "\<lambda>out e. (out, IoFailed e)" "\<lambda>out. (out, Died)"
  by unfold_locales (auto split: option.split)

section \<open>The dispatch table\<close>

lemma insert_all_map_of: "distinct (map fst hs) \<Longrightarrow> insert_all hs m = m ++ map_of hs"
proof (induction hs arbitrary: m)
  case (Cons h hs)
  obtain n f where h: "h = (n, f)" by fastforce
  from Cons.prems h have "map_of hs n = None" by (auto simp: map_of_eq_None_iff)
  with Cons h show ?case by (auto simp: insert_all_def map_add_def fun_eq_iff split: option.splits)
qed (simp add: insert_all_def)

definition tool_names :: "string list" where
  "tool_names =
    [''tl_generate_disclosure'', ''tl_verify_provenance'', ''tl_sign_artifact'', ''tl_create_evidence_bundle'', ''tl_evaluate_policy'', ''tl_inspect_receipt'',
     ''tl_check_compliance'', ''bundle.get'', ''bundle.list'', ''bundle.search'', ''bundle.metadata'', ''bundle.export'', ''scitt.verify'', ''scitt.get'',
     ''scitt.submit'', ''scitt.status'', ''watermark.detect'', ''watermark.generate'', ''watermark.confidence'', ''trustlist.check'',
     ''trustlist.list_providers'', ''trustlist.policy_oid'', ''key.status'', ''key.rotate'', ''key.history'', ''soa.generate'', ''soa.controls'',
     ''soa.compliance_status'', ''nist.risks'', ''nist.mitigations'', ''nist.profile_compliance'', ''pld.disclosure_response'', ''pld.rebuttal_pack'',
     ''pld.deadline'', ''partner.apply'', ''partner.status'']"

lemma handler_names: "map fst (v1_handlers E @ v2_handlers E) = tool_names"
  by (simp add: v1_handlers_def v2_handlers_def tool_names_def)

lemma distinct_tool_names: "distinct tool_names"
  by (simp add: tool_names_def)

lemma dispatch_map_of: "build_tool_dispatch E = map_of (v1_handlers E @ v2_handlers E)"
proof -
  have d: "distinct (map fst (v1_handlers E) @ map fst (v2_handlers E))"
    using distinct_tool_names handler_names [of E] by simp
  then have "dom (map_of (v1_handlers E)) \<inter> dom (map_of (v2_handlers E)) = {}"
    by (simp add: dom_map_of_conv_image_fst)
  with d show ?thesis
    using map_add_comm by (simp add: build_tool_dispatch_def register_dispatch_def insert_all_map_of)
qed

lemma dispatch_known: "build_tool_dispatch E name = None \<longleftrightarrow> name \<notin> set tool_names"
  unfolding dispatch_map_of map_of_eq_None_iff handler_names [of E, symmetric] by auto

lemmas v1_handler_defs = handle_generate_disclosure_def handle_verify_provenance_def handle_sign_artifact_def handle_create_evidence_bundle_def
  handle_evaluate_policy_def handle_inspect_receipt_def handle_check_compliance_def

lemma v1_handler_panics: "(name, h) \<in> set (v1_handlers E) \<Longrightarrow> h v = None \<longleftrightarrow> tool_panics E name v"
  by (simp add: v1_handlers_def)
     (elim disjE; auto simp: v1_handler_defs tool_panics_def slot_tools_def split: option.splits if_splits)

lemma handler_panics: "build_tool_dispatch E name = Some h \<Longrightarrow> h v = None \<longleftrightarrow> tool_panics E name v"
  unfolding dispatch_map_of
  by (drule map_of_SomeD) (auto simp: v1_handler_panics v2_handler_panics)

lemma panicking_known: "tool_panics E name v \<Longrightarrow> name \<in> set tool_names"
  by (auto simp: tool_panics_def slot_tools_def tool_names_def split: if_splits option.splits)

section \<open>Properties\<close>

lemma tool_spec_schema:
  "\<forall>t \<in> set (map (\<lambda>(ty, n, t, d). mcp_tool_spec E ty n t d) xs). \<exists>ty. json_get t ''inputSchema'' = Some (env_schema E ty)"
  by (auto simp: mcp_tool_spec_def json_get_def)

text \<open>Fact: the tools a client is told about are exactly the tools the server dispatches. The reply to \<^verbatim>\<open>tools/list\<close> names 36 different
  tools, in the order of the two tool sets, each with the schema of an input structure, and a name has a handler if and only if it
  is one of them.\<close>

theorem mcp_tools_advertised:
  "\<exists>specs. build_tools_list E = JObject [(''tools'', JArray specs)] \<and> length specs = 36 \<and> distinct (map (\<lambda>t. json_get t ''name'') specs) \<and>
     (\<forall>t \<in> set specs. \<exists>ty. json_get t ''inputSchema'' = Some (env_schema E ty)) \<and>
     (\<forall>name. build_tool_dispatch E name \<noteq> None \<longleftrightarrow> Some (JString name) \<in> (\<lambda>t. json_get t ''name'') ` set specs)"
proof -
  obtain specs where s: "build_tools_list E = JObject [(''tools'', JArray specs)]" by (simp add: build_tools_list_def)
  then have n: "map (\<lambda>t. json_get t ''name'') specs = map (Some \<circ> JString) tool_names"
    by (auto simp: build_tools_list_def v2_tools_list_def mcp_tool_spec_def json_get_def tool_names_def)
  have "\<forall>t \<in> set specs. \<exists>ty. json_get t ''inputSchema'' = Some (env_schema E ty)"
    using s unfolding build_tools_list_def v2_tools_list_def
    by (simp only: map_append [symmetric] json.inject list.inject prod.inject simp_thms) (use tool_spec_schema in blast)
  moreover have "length specs = 36" using n [THEN arg_cong, of length] by (simp add: tool_names_def)
  moreover have "distinct (map (\<lambda>t. json_get t ''name'') specs)"
    unfolding n using distinct_tool_names by (simp add: distinct_map inj_on_def)
  moreover have "(\<lambda>t. json_get t ''name'') ` set specs = (Some \<circ> JString) ` set tool_names"
    using n by (metis list.set_map)
  ultimately show ?thesis using s dispatch_known [of E] by (intro exI [of _ specs]) auto
qed

definition called_tool :: "json_rpc_request \<Rightarrow> (string \<times> json) option" where
  "called_tool req = (if rq_method req = ''tools/call'' then do {
     params \<leftarrow> rq_params req; name \<leftarrow> Option.bind (json_get params ''name'') as_str;
     Some (name, case json_get params ''arguments'' of Some a \<Rightarrow> a | None \<Rightarrow> JObject []) } else None)"

lemma handle_request_None:
  "handle_request E version req = None \<longleftrightarrow> (\<exists>name v h. called_tool req = Some (name, v) \<and> build_tool_dispatch E name = Some h \<and> h v = None)"
  by (auto simp: handle_request_def called_tool_def Let_def bind_eq_Some_conv split: option.splits sum.splits)

lemma handle_request_panics: "handle_request E version req = None \<longleftrightarrow> (\<exists>name v. called_tool req = Some (name, v) \<and> tool_panics E name v)"
  unfolding handle_request_None using handler_panics [of E] panicking_known [of E] dispatch_known [of E] by (metis not_None_eq)

text \<open>Property C24: every request is answered by a well-formed response unless its handler panics, and a handler panics only where stated.
  A response carries version 2.0, the identifier of the request (null when it has none) and exactly one of a result and an error, whose
  code is "method not found" or "invalid parameters". No response comes back exactly when the request calls, with readable arguments, one of
  the seven tools that use the global services before these are set up, or \<^verbatim>\<open>watermark.generate\<close> with a key whose
  sixteenth byte is inside a character.\<close>

theorem mcp_response_wellformed:
  "(case handle_request E version req of
      None \<Rightarrow> \<exists>name v. called_tool req = Some (name, v) \<and> tool_panics E name v
    | Some resp \<Rightarrow> rs_jsonrpc resp = ''2.0'' \<and> rs_id resp = (case rq_id req of Some i \<Rightarrow> i | None \<Rightarrow> JNull) \<and>
        (rs_result resp = None \<longleftrightarrow> rs_error resp \<noteq> None) \<and> (case rs_error resp of None \<Rightarrow> True | Some e \<Rightarrow> je_code e \<in> {-32601, -32602}) \<and>
        (\<nexists>name v. called_tool req = Some (name, v) \<and> tool_panics E name v))"
proof (cases "handle_request E version req")
  case None
  then show ?thesis using handle_request_panics [of E version req] by simp
next
  case (Some resp)
  then have "rs_jsonrpc resp = ''2.0'' \<and> rs_id resp = (case rq_id req of Some i \<Rightarrow> i | None \<Rightarrow> JNull) \<and>
      (rs_result resp = None \<longleftrightarrow> rs_error resp \<noteq> None) \<and> (case rs_error resp of None \<Rightarrow> True | Some e \<Rightarrow> je_code e \<in> {-32601, -32602})"
    by (auto simp: handle_request_def Let_def ok_response_def err_response_def JSONRPC_VERSION_def ERR_METHOD_NOT_FOUND_def ERR_INVALID_PARAMS_def
        split: if_splits option.splits sum.splits)
  with Some handle_request_panics [of E version req] show ?thesis by simp
qed

lemma answer_line_None: "answer_line E W version l = None \<longleftrightarrow> (\<exists>req name v. wire_read W l = Inr req \<and> called_tool req = Some (name, v) \<and> tool_panics E name v)"
  by (auto simp: answer_line_def handle_request_panics split: sum.splits)

lemma filter_answers:
  "\<forall>l \<in> set ls. trim l = [] \<or> f l \<noteq> None \<Longrightarrow>
   List.map_filter (\<lambda>l. if trim l = [] then None else Option.bind (map_option Some (f l)) (\<lambda>r. r)) ls = map (\<lambda>l. the (f l)) (filter (\<lambda>l. trim l \<noteq> []) ls)"
  by (induction ls) (auto simp: map_filter_simps)

text \<open>Property C23: the server answers every line that is not blank once and in order, until a handler panics. Without I/O errors the output
  is one line per line of input that is not blank, up to the first whose request panics; the loop reaches the end of input if and only
  if there is none, and otherwise the process dies there and nothing after is answered. A line panics only when it reads as a request for
  a tool that panics: lines that do not parse are answered too.\<close>

theorem mcp_server_answers:
  "run_stdio_server E W version (\<lambda>_. None) (map Inr ls) [] =
     (let live = takeWhile (\<lambda>l. trim l = [] \<or> answer_line E W version (trim l) \<noteq> None) ls
      in (map (\<lambda>l. the (answer_line E W version (trim l))) (filter (\<lambda>l. trim l \<noteq> []) live), if live = ls then Eof else Died)) \<and>
   (answer_line E W version l = None \<longleftrightarrow> (\<exists>req name v. wire_read W l = Inr req \<and> called_tool req = Some (name, v) \<and> tool_panics E name v))"
proof -
  let ?live = "takeWhile (\<lambda>l. trim l = [] \<or> answer_line E W version (trim l) \<noteq> None) ls"
  have "\<forall>l \<in> set ?live. trim l = [] \<or> answer_line E W version (trim l) \<noteq> None" by (auto dest: set_takeWhileD)
  from filter_answers [OF this] show ?thesis
    using answer_line_None trustlayer_server.answers_until_death [of E W version ls "[]"] by (simp add: Let_def)
qed

definition sample_env :: mcp_env where
  "sample_env = \<lparr>env_slot = None, env_uuid = (\<lambda>n. ''u'' @ show_nat n), env_de_error = (\<lambda>ty v. ty), env_to_string = (\<lambda>v. ''{}''), env_schema = (\<lambda>ty. JString ty),
     env_blake3_hex = (\<lambda>s. ''h''), env_render_z = show_nat, env_render_conf = show_nat, env_log2_capped = show_nat\<rparr>"

definition sample_wire :: wire where
  "sample_wire = \<lparr>wire_read = (\<lambda>l. if l = ''list'' then Inr \<lparr>rq_method = ''tools/call'', rq_params = Some (JObject [(''name'', JString ''bundle.list''),
       (''arguments'', JObject [(''org_id'', JString ''acme'')])]), rq_id = None\<rparr> else Inl ''expected value''), wire_show = (\<lambda>r. Inr ''ok'')\<rparr>"

theorem mcp_server_answers_witness:
  "run_stdio_server sample_env sample_wire ''0'' (\<lambda>_. None) (map Inr [''x'', ''list'', ''x'']) [] = ([parse_error_line ''expected value''], Died)"
proof -
  have t: "trim ''x'' = ''x''" "trim ''list'' = ''list''" by code_simp+
  have "called_tool \<lparr>rq_method = ''tools/call'', rq_params = Some (JObject [(''name'', JString ''bundle.list''), (''arguments'', JObject [(''org_id'', JString ''acme'')])]), rq_id = None\<rparr>
      = Some (''bundle.list'', JObject [(''org_id'', JString ''acme'')])"
    by (simp add: called_tool_def json_get_def as_str_def)
  moreover have "tool_panics sample_env ''bundle.list'' (JObject [(''org_id'', JString ''acme'')])"
    by (simp add: sample_env_def tool_panics_def slot_tools_def de_limited_def de_struct_def str_field_def u32_field_def de_field_def as_str_def)
  ultimately have "answer_line sample_env sample_wire ''0'' ''list'' = None"
    using mcp_server_answers [of sample_env sample_wire "''0''" "[]" "''list''"] by (auto simp: sample_wire_def)
  moreover have "answer_line sample_env sample_wire ''0'' ''x'' = Some (parse_error_line ''expected value'')"
    by (simp add: answer_line_def sample_wire_def)
  ultimately show ?thesis
    using mcp_server_answers [of sample_env sample_wire "''0''" "[''x'', ''list'', ''x'']" "''x''"] t by simp
qed

text \<open>Fact: as started by \<^verbatim>\<open>main\<close> the server dies on the first well-formed call of a bundle tool, whatever the client sent with it.\<close>

theorem mcp_main_dies:
  assumes "wire_read W (trim l) = Inr req" and "called_tool req = Some (''bundle.list'', JObject [(''org_id'', JString org)])" and "trim l \<noteq> []"
  shows "mcp_main E W version wr (Inr l # rest) = ([], Died)"
proof -
  have "tool_panics (E\<lparr>env_slot := None\<rparr>) ''bundle.list'' (JObject [(''org_id'', JString org)])"
    by (simp add: tool_panics_def slot_tools_def de_limited_def de_struct_def str_field_def u32_field_def de_field_def as_str_def)
  then have "answer_line (E\<lparr>env_slot := None\<rparr>) W version (trim l) = None" using assms(1,2) answer_line_None by blast
  with assms(3) show ?thesis unfolding mcp_main_def by (intro trustlayer_server.dead_after_panic) simp_all
qed

theorem mcp_main_dies_witness: "mcp_main sample_env sample_wire ''0'' (\<lambda>_. None) [Inr ''list'', Inr ''more''] = ([], Died)"
proof (rule mcp_main_dies)
  have t: "trim ''list'' = ''list''" by code_simp
  then show "wire_read sample_wire (trim ''list'') = Inr \<lparr>rq_method = ''tools/call'', rq_params = Some (JObject [(''name'', JString ''bundle.list''),
       (''arguments'', JObject [(''org_id'', JString ''acme'')])]), rq_id = None\<rparr>" by (simp add: sample_wire_def)
  show "trim ''list'' \<noteq> []" using t by simp
qed (simp add: called_tool_def json_get_def as_str_def)

end
