(* ===== verification/WireVerify.thy ===== *)
theory WireVerify
  imports Orchestrator McpTools
begin

text \<open>
  \<^verbatim>\<open>crates/themis-orchestrator/src/wire_format.rs\<close>, the public JSON form of a signed packet, and \<^verbatim>\<open>bin/tl-verify/src/main.rs\<close>, the offline verifier
  that reads it. Environment variables, dates, base64, hex, Ed25519 and the JSON printer are parameters; reading a packet file is
  serde's derived deserialization of the fields the source lists. \<open>None\<close> is a panic of the verifier.
\<close>

section \<open>Wire format\<close>

record agent_output_wire =
  aw_agent_id :: string
  aw_verdict :: string
  aw_summary :: string
  aw_risk_score :: "f32 option"

record flattened_packet =
  fp_case_id :: string
  fp_tenant_id :: string
  fp_decision_id :: string
  fp_input_data :: string
  fp_start_time :: "string option"
  fp_end_time :: "string option"
  fp_policy_version :: string
  fp_reference_database :: string
  fp_natural_person_id :: "string option"
  fp_hash_chain_prev :: string
  fp_agent_outputs :: "agent_output_wire list"
  fp_hash :: string
  fp_signature_hex :: string
  fp_public_key_hex :: string
  fp_signed_payload_b64 :: string
  fp_rfc3161_tsa_url :: "string option"
  fp_rekor_entry :: "json option"

record wire_ops =
  wi_operator_email :: "string option"
  wi_to_iso :: "i64 \<Rightarrow> string option"
  wi_base64 :: "string \<Rightarrow> string"
  wi_f32_json :: "f32 \<Rightarrow> json"
  wi_rekor_json :: "string \<Rightarrow> json option"

definition map_agent_outputs :: "agent_decision list \<Rightarrow> string \<Rightarrow> agent_output_wire list" where
  "map_agent_outputs ds verdict = map (\<lambda>d. \<lparr>aw_agent_id = ad_agent_id d, aw_verdict = verdict, aw_summary = ad_reasoning d, aw_risk_score = Some (ad_confidence d)\<rparr>) ds"

definition filter_opt :: "('a \<Rightarrow> bool) \<Rightarrow> 'a option \<Rightarrow> 'a option" where
  "filter_opt P v = Option.bind v (\<lambda>x. if P x then Some x else None)"

definition from_signed :: "wire_ops \<Rightarrow> packet_codec \<Rightarrow> signed_packet \<Rightarrow> sealed_packet option \<Rightarrow> flattened_packet" where
  "from_signed wo pc sp sealed =
     (let p = sd_packet sp; end_ms = ep_generated_at_ms p; start_ms = end_ms - 90000;
          verdict = (case ep_bbaaar_outcome p of Approve \<Rightarrow> ''approve'' | HaltWith _ \<Rightarrow> ''halt'')
      in \<lparr>fp_case_id = ep_tenant_id p @ '':'' @ ep_invoice_id p, fp_tenant_id = ep_tenant_id p, fp_decision_id = ep_packet_id p, fp_input_data = ep_invoice_id p,
          fp_start_time = wi_to_iso wo start_ms, fp_end_time = wi_to_iso wo end_ms, fp_policy_version = ''apohara-vouch-1'',
          fp_reference_database = ''stanford-invoicenet-50'',
          fp_natural_person_id = filter_opt (\<lambda>s. s \<noteq> []) (map_option trim (wi_operator_email wo)),
          fp_hash_chain_prev = replicate 64 (CHR ''0''), fp_agent_outputs = map_agent_outputs (ep_agent_decisions p) verdict,
          fp_hash = sd_blake3_hash_hex sp, fp_signature_hex = sd_signature_hex sp, fp_public_key_hex = sd_public_key_hex sp,
          fp_signed_payload_b64 = (case pc_json pc p of Inr bytes \<Rightarrow> wi_base64 wo bytes | Inl _ \<Rightarrow> []),
          fp_rfc3161_tsa_url = filter_opt (\<lambda>u. u \<noteq> []) (map_option (\<lambda>s. ti_tsa_url (sp_timestamp s)) sealed),
          fp_rekor_entry = Option.bind (sd_rekor_entry sp) (wi_rekor_json wo)\<rparr>)"

definition null_or_str :: "string option \<Rightarrow> json" where
  "null_or_str v = (case v of None \<Rightarrow> JNull | Some s \<Rightarrow> JString s)"

definition output_json :: "wire_ops \<Rightarrow> agent_output_wire \<Rightarrow> json" where
  "output_json wo a = JObject [(''agent_id'', JString (aw_agent_id a)), (''verdict'', JString (aw_verdict a)), (''summary'', JString (aw_summary a)),
     (''risk_score'', case aw_risk_score a of None \<Rightarrow> JNull | Some r \<Rightarrow> wi_f32_json wo r)]"

definition wire_fields :: "wire_ops \<Rightarrow> flattened_packet \<Rightarrow> (string \<times> json) list" where
  "wire_fields wo f =
    ([(''case_id'', JString (fp_case_id f)), (''tenant_id'', JString (fp_tenant_id f)), (''decision_id'', JString (fp_decision_id f)),
      (''input_data'', JString (fp_input_data f)), (''start_time'', null_or_str (fp_start_time f)), (''end_time'', null_or_str (fp_end_time f)),
      (''policy_version'', JString (fp_policy_version f)), (''reference_database'', JString (fp_reference_database f))]
     @ (case fp_natural_person_id f of None \<Rightarrow> [] | Some s \<Rightarrow> [(''natural_person_id'', JString s)])
     @ [(''hash_chain_prev'', JString (fp_hash_chain_prev f)), (''hash_chain_link'', JNull), (''agent_outputs'', JArray (map (output_json wo) (fp_agent_outputs f))),
        (''hash'', JString (fp_hash f)), (''signature_hex'', JString (fp_signature_hex f)), (''public_key_hex'', JString (fp_public_key_hex f)),
        (''signed_payload_b64'', JString (fp_signed_payload_b64 f)), (''rfc3161_ts_der_hex'', JNull), (''rfc3161_tsa_url'', null_or_str (fp_rfc3161_tsa_url f)),
        (''c2pa_manifest'', JNull)]
     @ (case fp_rekor_entry f of None \<Rightarrow> [] | Some e \<Rightarrow> [(''rekor_entry'', e)]))"

definition wire_json :: "wire_ops \<Rightarrow> flattened_packet \<Rightarrow> json" where
  "wire_json wo f = JObject (wire_fields wo f)"

section \<open>Reading a packet file\<close>

record packet_file =
  pf_case_id :: "string option"
  pf_tenant_id :: "string option"
  pf_agent_outputs :: "json list option"
  pf_hash_chain_link :: "string option"
  pf_reference_database :: "string option"
  pf_policy_version :: "string option"
  pf_natural_person_id :: "string option"
  pf_decision_id :: "string option"
  pf_hash_chain_prev :: "string option"
  pf_start_time :: "string option"
  pf_end_time :: "string option"
  pf_input_data :: "string option"
  pf_hash :: "string option"
  pf_signature_hex :: "string option"
  pf_public_key_hex :: "string option"
  pf_c2pa_manifest :: "json option"
  pf_rfc3161_ts_der_hex :: "string option"
  pf_rfc3161_tsa_url :: "string option"
  pf_signed_payload_b64 :: "string option"

definition opt_time_field :: "(string \<Rightarrow> string option) \<Rightarrow> json \<Rightarrow> nat \<Rightarrow> string \<Rightarrow> string option option" where
  "opt_time_field rfc3339 v i name = (case opt_str_field v i name of
     None \<Rightarrow> None | Some None \<Rightarrow> Some None | Some (Some s) \<Rightarrow> map_option Some (rfc3339 s))"

definition opt_list_field :: "json \<Rightarrow> nat \<Rightarrow> string \<Rightarrow> json list option option" where
  "opt_list_field v i name = (case de_field v i name of None \<Rightarrow> Some None | Some JNull \<Rightarrow> Some None | Some (JArray js) \<Rightarrow> Some (Some js) | _ \<Rightarrow> None)"

definition opt_value_field :: "json \<Rightarrow> nat \<Rightarrow> string \<Rightarrow> json option" where
  "opt_value_field v i name = (case de_field v i name of Some JNull \<Rightarrow> None | r \<Rightarrow> r)"

text \<open>\<open>rfc3339\<close> reads a date and gives the text the code prints for it. As an array the file must have all fields but the last.\<close>

definition read_packet_file :: "(string \<Rightarrow> string option) \<Rightarrow> json \<Rightarrow> packet_file option" where
  "read_packet_file rfc3339 v =
     (if (case v of JObject _ \<Rightarrow> True | JArray xs \<Rightarrow> length xs \<in> {18, 19} | _ \<Rightarrow> False) then do {
        a \<leftarrow> opt_str_field v 0 ''case_id''; b \<leftarrow> opt_str_field v 1 ''tenant_id''; ao \<leftarrow> opt_list_field v 2 ''agent_outputs'';
        l \<leftarrow> opt_str_field v 3 ''hash_chain_link''; r \<leftarrow> opt_str_field v 4 ''reference_database''; pv \<leftarrow> opt_str_field v 5 ''policy_version'';
        n \<leftarrow> opt_str_field v 6 ''natural_person_id''; d \<leftarrow> opt_str_field v 7 ''decision_id''; hp \<leftarrow> opt_str_field v 8 ''hash_chain_prev'';
        s \<leftarrow> opt_time_field rfc3339 v 9 ''start_time''; e \<leftarrow> opt_time_field rfc3339 v 10 ''end_time''; i \<leftarrow> opt_str_field v 11 ''input_data'';
        h \<leftarrow> opt_str_field v 12 ''hash''; sg \<leftarrow> opt_str_field v 13 ''signature_hex''; pk \<leftarrow> opt_str_field v 14 ''public_key_hex'';
        der \<leftarrow> opt_str_field v 16 ''rfc3161_ts_der_hex''; u \<leftarrow> opt_str_field v 17 ''rfc3161_tsa_url''; sp \<leftarrow> opt_str_field v 18 ''signed_payload_b64'';
        Some \<lparr>pf_case_id = a, pf_tenant_id = b, pf_agent_outputs = ao, pf_hash_chain_link = l, pf_reference_database = r, pf_policy_version = pv,
          pf_natural_person_id = n, pf_decision_id = d, pf_hash_chain_prev = hp, pf_start_time = s, pf_end_time = e, pf_input_data = i, pf_hash = h,
          pf_signature_hex = sg, pf_public_key_hex = pk, pf_c2pa_manifest = opt_value_field v 15 ''c2pa_manifest'', pf_rfc3161_ts_der_hex = der,
          pf_rfc3161_tsa_url = u, pf_signed_payload_b64 = sp\<rparr> } else None)"

section \<open>The verifier\<close>

datatype verify_error = UsageErr | IoErr string | JsonErr string | MissingField string | Ed25519Err string | HexErr string

datatype step = Pass string | Fail string string | Skipped string string

definition step_label :: "step \<Rightarrow> string" where
  "step_label s = (case s of Pass l \<Rightarrow> l | Fail l _ \<Rightarrow> l | Skipped l _ \<Rightarrow> l)"

definition step_passed :: "step \<Rightarrow> bool" where
  "step_passed s = (case s of Pass _ \<Rightarrow> True | _ \<Rightarrow> False)"

record verify_ops =
  vo_crypto :: crypto
  vo_unb64 :: "string \<Rightarrow> string option"
  vo_json :: "json \<Rightarrow> string option"
  vo_de_error :: "json \<Rightarrow> string"

definition canonical_payload :: "packet_file \<Rightarrow> json" where
  "canonical_payload p = JObject [(''case_id'', null_or_str (pf_case_id p)), (''tenant_id'', null_or_str (pf_tenant_id p)),
     (''agent_outputs'', case pf_agent_outputs p of None \<Rightarrow> JNull | Some js \<Rightarrow> JArray js), (''reference_database'', null_or_str (pf_reference_database p)),
     (''policy_version'', null_or_str (pf_policy_version p)), (''natural_person_id'', null_or_str (pf_natural_person_id p)),
     (''decision_id'', null_or_str (pf_decision_id p)), (''start_time'', null_or_str (pf_start_time p)), (''end_time'', null_or_str (pf_end_time p)),
     (''input_data'', null_or_str (pf_input_data p))]"

definition sig_ok :: "verify_ops \<Rightarrow> string \<Rightarrow> string \<Rightarrow> string \<Rightarrow> bool" where
  "sig_ok vo pk sg msg = (cr_verify (vo_crypto vo) pk msg sg = Inr ())"

definition hash_format_step :: "string \<Rightarrow> step" where
  "hash_format_step h = (if length h \<noteq> 64 then Fail ''hash_format'' (''expected 64 chars, got '' @ show_nat (length h)) else Pass ''hash_format'')"

definition signature_step :: "verify_ops \<Rightarrow> packet_file \<Rightarrow> string \<Rightarrow> string \<Rightarrow> string \<Rightarrow> (verify_error + step) option" where
  "signature_step vo p hash_hex signature_hex pk_hex =
     (if length signature_hex \<noteq> 128 then Some (Inr (Fail ''signature_format'' (''expected 128 hex chars, got '' @ show_nat (length signature_hex))))
      else if length pk_hex \<noteq> 64 then Some (Inr (Fail ''public_key_format'' (''expected 64 hex chars, got '' @ show_nat (length pk_hex))))
      else if length hash_hex \<noteq> 64 then Some (Inr (Fail ''ed25519_signature'' (''hash is '' @ show_nat (length hash_hex) @ '' chars; need 64 to verify'')))
      else (case cr_hex_decode (vo_crypto vo) signature_hex of Inl e \<Rightarrow> Some (Inl (HexErr e)) | Inr sg \<Rightarrow>
           (case cr_hex_decode (vo_crypto vo) pk_hex of Inl e \<Rightarrow> Some (Inl (HexErr e)) | Inr pk \<Rightarrow>
             if length pk \<noteq> 32 then None
             else (case cr_parse_key (vo_crypto vo) pk of Inl e \<Rightarrow> Some (Inl (Ed25519Err e)) | Inr _ \<Rightarrow>
               if length sg \<noteq> 64 then None
               else (case cr_hex_decode (vo_crypto vo) hash_hex of Inl e \<Rightarrow> Some (Inl (HexErr e)) | Inr hash_bytes \<Rightarrow>
                 let against_hash = sig_ok vo pk sg hash_bytes;
                     against_signed_payload = (case Option.bind (pf_signed_payload_b64 p) (vo_unb64 vo) of None \<Rightarrow> False | Some bytes \<Rightarrow> sig_ok vo pk sg bytes);
                     against_payload = (case vo_json vo (canonical_payload p) of None \<Rightarrow> False | Some bytes \<Rightarrow> sig_ok vo pk sg bytes)
                 in Some (Inr (if against_hash \<or> against_signed_payload \<or> against_payload then Pass ''ed25519_signature''
                      else Fail ''ed25519_signature'' ''signature did not verify against signed_payload, hash bytes, or canonical payload'')))))))"

definition chain_prev_step :: "packet_file \<Rightarrow> step" where
  "chain_prev_step p = (let prev = (case pf_hash_chain_prev p of None \<Rightarrow> [] | Some s \<Rightarrow> s)
     in if prev \<noteq> [] \<and> length prev \<noteq> 64 then Fail ''hash_chain_prev_format'' (''expected 64 chars, got '' @ show_nat (length prev)) else Pass ''hash_chain_prev_format'')"

definition nonempty_opt :: "string option \<Rightarrow> bool" where
  "nonempty_opt v = (case v of None \<Rightarrow> False | Some s \<Rightarrow> s \<noteq> [])"

definition art12_populated :: "packet_file \<Rightarrow> nat" where
  "art12_populated p = length (filter (\<lambda>x. x)
     [pf_start_time p \<noteq> None, pf_end_time p \<noteq> None, nonempty_opt (pf_reference_database p), nonempty_opt (pf_input_data p) \<or> nonempty_opt (pf_case_id p),
      pf_natural_person_id p \<noteq> None, nonempty_opt (pf_decision_id p), nonempty_opt (pf_policy_version p), nonempty_opt (pf_hash_chain_prev p)])"

definition art12_step :: "packet_file \<Rightarrow> step" where
  "art12_step p = (if 7 \<le> art12_populated p then Pass ''eu_ai_act_art12_coverage''
     else Fail ''eu_ai_act_art12_coverage'' (''only '' @ show_nat (art12_populated p) @ ''/8 fields populated''))"

definition timestamp_step :: "verify_ops \<Rightarrow> packet_file \<Rightarrow> verify_error + step" where
  "timestamp_step vo p = (case pf_rfc3161_ts_der_hex p of
     Some der_hex \<Rightarrow> (case cr_hex_decode (vo_crypto vo) der_hex of
         Inl e \<Rightarrow> Inl (HexErr e)
       | Inr der \<Rightarrow> Inr (if der = [] then Fail ''rfc3161_timestamp'' ''empty DER'' else Pass ''rfc3161_timestamp''))
   | None \<Rightarrow> Inr (Skipped ''rfc3161_timestamp'' ''no DER block in packet (synthetic)''))"

text \<open>The message of a mismatch slices the key at byte 16, which panics inside a character.\<close>

definition tenant_key_step :: "verify_ops \<Rightarrow> packet_file \<Rightarrow> string \<Rightarrow> step option" where
  "tenant_key_step vo p pk_hex = (case pf_tenant_id p of
     Some tenant_id \<Rightarrow>
       if public_key_hex (vo_crypto vo) (signer_for_tenant (vo_crypto vo) tenant_id) = pk_hex then Some (Pass ''tenant_key_match'')
       else let n = min 16 (length pk_hex)
            in if \<not> is_char_boundary pk_hex n then None
               else Some (Fail ''tenant_key_match'' (''public key in packet ('' @ take n pk_hex @ '') does not match tenant '' @ tenant_id @ [CHR 0x27] @ ''s derived key''))
   | None \<Rightarrow> Some (Skipped ''tenant_key_match'' ''no tenant_id in packet''))"

definition verify_file :: "verify_ops \<Rightarrow> packet_file \<Rightarrow> (verify_error + step list) option" where
  "verify_file vo p = (case pf_hash p of None \<Rightarrow> Some (Inl (MissingField ''hash'')) | Some hash_hex \<Rightarrow>
     (case pf_signature_hex p of None \<Rightarrow> Some (Inl (MissingField ''signature_hex'')) | Some signature_hex \<Rightarrow>
     (case pf_public_key_hex p of None \<Rightarrow> Some (Inl (MissingField ''public_key_hex'')) | Some pk_hex \<Rightarrow>
     (case signature_step vo p hash_hex signature_hex pk_hex of None \<Rightarrow> None | Some (Inl e) \<Rightarrow> Some (Inl e) | Some (Inr s3) \<Rightarrow>
     (case timestamp_step vo p of Inl e \<Rightarrow> Some (Inl e) | Inr s6 \<Rightarrow>
     (case tenant_key_step vo p pk_hex of None \<Rightarrow> None | Some s7 \<Rightarrow>
        Some (Inr [Pass ''structural'', hash_format_step hash_hex, s3, chain_prev_step p, art12_step p, s6, s7])))))))"

definition step_ok :: "step \<Rightarrow> bool" where
  "step_ok s = (case s of Fail _ _ \<Rightarrow> False | _ \<Rightarrow> True)"

definition steps_text :: "step list \<Rightarrow> string" where
  "steps_text ss = concat (map (\<lambda>s. (case s of Pass l \<Rightarrow> ''  PASS  '' @ l | Fail l m \<Rightarrow> ''  FAIL  '' @ l @ '': '' @ m | Skipped l m \<Rightarrow> ''  SKIP  '' @ l @ '': '' @ m) @ [CHR 0x0A]) ss)"

text \<open>\<^verbatim>\<open>run\<close>: the arguments, the file contents or the error of reading it, and the JSON reader; the result is what is printed and the exit
  code, or an error, which \<^verbatim>\<open>main\<close> prints and turns into code 2 for wrong usage and 1 otherwise.\<close>

definition verify_run :: "verify_ops \<Rightarrow> (string \<Rightarrow> string option) \<Rightarrow> (string \<Rightarrow> string + string) \<Rightarrow> (string \<Rightarrow> string + json) \<Rightarrow> string list \<Rightarrow> (verify_error + string \<times> nat) option" where
  "verify_run vo rfc3339 read_file parse args = (case args of
     [prog, path] \<Rightarrow> (case read_file path of
         Inl e \<Rightarrow> Some (Inl (IoErr e))
       | Inr bytes \<Rightarrow> (case parse bytes of
             Inl e \<Rightarrow> Some (Inl (JsonErr e))
           | Inr v \<Rightarrow> (case read_packet_file rfc3339 v of
                 None \<Rightarrow> Some (Inl (JsonErr (vo_de_error vo v)))
               | Some p \<Rightarrow> (case verify_file vo p of
                     None \<Rightarrow> None
                   | Some (Inl e) \<Rightarrow> Some (Inl e)
                   | Some (Inr steps) \<Rightarrow>
                       let all_passed = list_all (\<lambda>s. step_passed s \<or> (case s of Skipped _ _ \<Rightarrow> True | _ \<Rightarrow> False)) steps;
                           any_failed = list_ex (\<lambda>s. \<not> step_passed s \<and> (case s of Skipped _ _ \<Rightarrow> False | _ \<Rightarrow> True)) steps;
                           head = ''tl-verify: '' @ path @ [CHR 0x0A] @ steps_text steps
                       in Some (Inr (if any_failed \<or> \<not> all_passed then (head @ [CHR 0x0A] @ ''Result: FAIL'' @ [CHR 0x0A], 1)
                                     else (head @ [CHR 0x0A] @ ''Result: PASS'' @ [CHR 0x0A], 0)))))))
   | _ \<Rightarrow> Some (Inl UsageErr))"

definition verify_exit :: "(verify_error + string \<times> nat) option \<Rightarrow> nat option" where
  "verify_exit r = map_option (\<lambda>r. case r of Inr (_, n) \<Rightarrow> n | Inl UsageErr \<Rightarrow> 2 | Inl _ \<Rightarrow> 1) r"

section \<open>What the orchestrator signs\<close>

definition signed_by :: "'r orch_world \<Rightarrow> string \<Rightarrow> signed_packet \<Rightarrow> bool" where
  "signed_by w t p \<longleftrightarrow> (\<exists>bytes. pc_json (w_codec w) (sd_packet p) = Inr bytes \<and>
     sd_signature_hex p = sign_hex (w_crypto w) (signer_for_tenant (w_crypto w) t) bytes \<and>
     sd_public_key_hex p = public_key_hex (w_crypto w) (signer_for_tenant (w_crypto w) t))"

definition packet_of :: "'r orch_world \<Rightarrow> call_env \<Rightarrow> string \<Rightarrow> string \<Rightarrow> signed_packet \<Rightarrow> bool" where
  "packet_of w e t i p \<longleftrightarrow> ep_packet_id (sd_packet p) = ce_packet_id e \<and> ep_tenant_id (sd_packet p) = t \<and> ep_invoice_id (sd_packet p) = i \<and>
     ep_generated_at_ms (sd_packet p) = ce_generated_ms e \<and> sd_blake3_hash_hex p = packet_blake3_hash (w_codec w) (sd_packet p)"

lemma sign_signed_by:
  assumes "w_registry w = with_default_tenants_and_seed (w_crypto w) seed" and "tenants (w_registry w) t \<noteq> None"
    and "sign w (assemble e t i ds oc) t = Inr q"
  shows "signed_by w t q \<and> packet_of w e t i q"
  using assms
  by (auto simp: sign_def signed_by_def packet_of_def assemble_def evidence_packet_new_def with_default_tenants_and_seed_def default_tenant_def
      wrap_def Let_def split: if_splits sum.splits)

lemma anchor_signed_by:
  "sd_blake3_hash_hex q = packet_blake3_hash (w_codec w) (sd_packet q) \<Longrightarrow>
   signed_by w t (anchor_in_rekor w q t) = signed_by w t q \<and> packet_of w e t i (anchor_in_rekor w q t) = packet_of w e t i q"
  by (auto simp: anchor_in_rekor_def wrap_with_rekor_def signed_by_def packet_of_def split: option.split sum.split)

lemma process_invoice_signed:
  assumes "w_registry w = with_default_tenants_and_seed (w_crypto w) seed" and "fst (process_invoice w e t i raw st) = Some (Inr p)"
  shows "packet_of w e t i p \<and> (sd_signature_hex p = [] \<and> sd_public_key_hex p = [] \<or> signed_by w t p)"
  using assms(2)
proof (cases rule: process_invoice_Inr)
  case (1 oc ds)
  then consider "p = wrap (w_codec w) (assemble e t i ds oc) [] []"
    | q where "sign w (assemble e t i ds oc) t = Inr q" "p = anchor_in_rekor w q t"
    by (auto simp: conclude_def map_sum_def split: option.splits bool.splits sum.splits)
  then show ?thesis
  proof cases
    case 1
    then show ?thesis by (simp add: wrap_def assemble_def evidence_packet_new_def packet_of_def)
  next
    case (2 q)
    with sign_signed_by [OF assms(1) \<open>tenants (w_registry w) t \<noteq> None\<close> 2(1)] anchor_signed_by [of q w t e i] show ?thesis
      by (auto simp: packet_of_def)
  qed
next
  case (2 ds)
  then show ?thesis using sign_signed_by [OF assms(1) 2] by simp
qed

section \<open>Reading back what was written\<close>

definition file_of_wire :: "wire_ops \<Rightarrow> flattened_packet \<Rightarrow> packet_file" where
  "file_of_wire wo f = \<lparr>pf_case_id = Some (fp_case_id f), pf_tenant_id = Some (fp_tenant_id f), pf_agent_outputs = Some (map (output_json wo) (fp_agent_outputs f)),
     pf_hash_chain_link = None, pf_reference_database = Some (fp_reference_database f), pf_policy_version = Some (fp_policy_version f),
     pf_natural_person_id = fp_natural_person_id f, pf_decision_id = Some (fp_decision_id f), pf_hash_chain_prev = Some (fp_hash_chain_prev f),
     pf_start_time = fp_start_time f, pf_end_time = fp_end_time f, pf_input_data = Some (fp_input_data f), pf_hash = Some (fp_hash f),
     pf_signature_hex = Some (fp_signature_hex f), pf_public_key_hex = Some (fp_public_key_hex f), pf_c2pa_manifest = None, pf_rfc3161_ts_der_hex = None,
     pf_rfc3161_tsa_url = fp_rfc3161_tsa_url f, pf_signed_payload_b64 = Some (fp_signed_payload_b64 f)\<rparr>"

lemma opt_str_null_or_str: "opt_str_field (JObject kvs) i k = Some v" if "map_of kvs k = Some (null_or_str v)"
  using that by (simp add: opt_str_field_def de_field_def null_or_str_def as_str_def split: option.split)

lemma opt_str_some: "opt_str_field (JObject kvs) i k = Some (Some v)" if "map_of kvs k = Some (JString v)"
  using that by (simp add: opt_str_field_def de_field_def as_str_def)

lemma opt_str_none: "opt_str_field (JObject kvs) i k = Some None" if "map_of kvs k = None \<or> map_of kvs k = Some JNull"
  using that by (auto simp: opt_str_field_def de_field_def)

lemma wire_lookup:
  "map_of (wire_fields wo f) ''case_id'' = Some (JString (fp_case_id f))" "map_of (wire_fields wo f) ''tenant_id'' = Some (JString (fp_tenant_id f))"
    "map_of (wire_fields wo f) ''agent_outputs'' = Some (JArray (map (output_json wo) (fp_agent_outputs f)))" "map_of (wire_fields wo f) ''hash_chain_link'' = Some JNull"
    "map_of (wire_fields wo f) ''reference_database'' = Some (JString (fp_reference_database f))" "map_of (wire_fields wo f) ''policy_version'' = Some (JString (fp_policy_version f))"
    "map_of (wire_fields wo f) ''natural_person_id'' = map_option JString (fp_natural_person_id f)" "map_of (wire_fields wo f) ''decision_id'' = Some (JString (fp_decision_id f))"
    "map_of (wire_fields wo f) ''hash_chain_prev'' = Some (JString (fp_hash_chain_prev f))" "map_of (wire_fields wo f) ''start_time'' = Some (null_or_str (fp_start_time f))"
    "map_of (wire_fields wo f) ''end_time'' = Some (null_or_str (fp_end_time f))" "map_of (wire_fields wo f) ''input_data'' = Some (JString (fp_input_data f))"
    "map_of (wire_fields wo f) ''hash'' = Some (JString (fp_hash f))" "map_of (wire_fields wo f) ''signature_hex'' = Some (JString (fp_signature_hex f))"
    "map_of (wire_fields wo f) ''public_key_hex'' = Some (JString (fp_public_key_hex f))" "map_of (wire_fields wo f) ''c2pa_manifest'' = Some JNull"
    "map_of (wire_fields wo f) ''rfc3161_ts_der_hex'' = Some JNull" "map_of (wire_fields wo f) ''rfc3161_tsa_url'' = Some (null_or_str (fp_rfc3161_tsa_url f))"
    "map_of (wire_fields wo f) ''signed_payload_b64'' = Some (JString (fp_signed_payload_b64 f))"
  by (cases "fp_natural_person_id f"; cases "fp_rekor_entry f"; simp add: wire_fields_def)+

lemma opt_list_some: "opt_list_field (JObject kvs) i k = Some (Some js)" if "map_of kvs k = Some (JArray js)"
  using that by (simp add: opt_list_field_def de_field_def)

lemma opt_str_missing: "opt_str_field (JObject kvs) i k = Some v" if "map_of kvs k = map_option JString v"
  using that by (cases v) (simp_all add: opt_str_field_def de_field_def as_str_def)

lemma opt_time_null_or_str: "opt_time_field rfc (JObject kvs) i k = Some (Some d)" if "map_of kvs k = Some (null_or_str (Some s))" "rfc s = Some d"
  using that by (simp add: opt_time_field_def opt_str_null_or_str)

lemma read_wire:
  assumes "fp_start_time f = Some s0" "fp_end_time f = Some e0" "rfc s0 = Some s0" "rfc e0 = Some e0"
  shows "read_packet_file rfc (wire_json wo f) = Some (file_of_wire wo f)"
  using assms
  by (simp add: read_packet_file_def wire_json_def file_of_wire_def opt_str_some wire_lookup opt_list_some opt_str_none opt_str_missing
      opt_time_null_or_str opt_str_null_or_str opt_value_field_def de_field_def)

section \<open>Properties\<close>

lemma exit_steps:
  assumes "read_file path = Inr bytes" "parse bytes = Inr v" "read_packet_file rfc v = Some p" "verify_file vo p = Some (Inr steps)"
  shows "verify_exit (verify_run vo rfc read_file parse [prog, path]) = Some (if list_all step_ok steps then 0 else 1)"
proof -
  have "list_all (\<lambda>s. step_passed s \<or> (case s of Skipped _ _ \<Rightarrow> True | _ \<Rightarrow> False)) steps \<longleftrightarrow> list_all step_ok steps"
    by (intro list.pred_cong refl) (simp add: step_passed_def step_ok_def split: step.split)
  moreover have "list_ex (\<lambda>s. \<not> step_passed s \<and> (case s of Skipped _ _ \<Rightarrow> False | _ \<Rightarrow> True)) steps \<longleftrightarrow> \<not> list_all step_ok steps"
    by (induction steps) (auto simp: step_passed_def step_ok_def split: step.splits)
  ultimately show ?thesis using assms by (simp add: verify_run_def verify_exit_def Let_def)
qed

definition codec_agrees :: "'r orch_world \<Rightarrow> wire_ops \<Rightarrow> verify_ops \<Rightarrow> bool" where
  "codec_agrees w wo vo \<longleftrightarrow> crypto_laws (w_crypto w) \<and> vo_crypto vo = w_crypto w \<and> (\<forall>b. vo_unb64 vo (wi_base64 wo b) = Some b) \<and>
     (\<forall>b. length (pc_blake3 (w_codec w) b) = 32)"

lemma signed_step_passes:
  assumes "codec_agrees w wo vo" "signed_by w t p" "sd_blake3_hash_hex p = packet_blake3_hash (w_codec w) (sd_packet p)"
    and "f = file_of_wire wo (from_signed wo (w_codec w) p sealed)"
  shows "signature_step vo f (sd_blake3_hash_hex p) (sd_signature_hex p) (sd_public_key_hex p) = Some (Inr (Pass ''ed25519_signature''))"
  using assms
  by (auto simp: codec_agrees_def signed_by_def signature_step_def crypto_laws_def sign_hex_def public_key_hex_def packet_blake3_hash_def sig_ok_def
      file_of_wire_def from_signed_def Let_def)

text \<open>A packet of the orchestrator, served in the wire format and read back by the verifier, has the exit code 0 when it is signed, with
  or without a seal; when it carries no signature, which is how a blocked run ends, the exit code is 1.\<close>

lemma served_verify:
  assumes "codec_agrees w wo vo" and "w_registry w = with_default_tenants_and_seed (w_crypto w) seed"
    and "fst (process_invoice w e t i raw st) = Some (Inr p)" and "ce_packet_id e \<noteq> []"
    and "wi_to_iso wo (ce_generated_ms e - 90000) = Some s0" "wi_to_iso wo (ce_generated_ms e) = Some e0" "rfc s0 = Some s0" "rfc e0 = Some e0"
    and "read_file path = Inr bytes" "parse bytes = Inr (wire_json wo (from_signed wo (w_codec w) p sealed))"
  shows "verify_exit (verify_run vo rfc read_file parse [prog, path]) = Some (if sd_signature_hex p = [] then 1 else 0)"
proof -
  let ?f = "from_signed wo (w_codec w) p sealed"
  let ?pf = "file_of_wire wo ?f"
  have p: "packet_of w e t i p" "sd_signature_hex p = [] \<and> sd_public_key_hex p = [] \<or> signed_by w t p" using process_invoice_signed [OF assms(2,3)] by auto
  have rd: "read_packet_file rfc (wire_json wo ?f) = Some ?pf"
    using assms(5-8) p(1) by (intro read_wire [of _ s0 e0]) (simp_all add: from_signed_def packet_of_def Let_def)
  have len: "length (sd_blake3_hash_hex p) = 64"
    using p(1) assms(1) by (simp add: packet_of_def packet_blake3_hash_def codec_agrees_def split: sum.split)
  have fixed: "timestamp_step vo ?pf = Inr (Skipped ''rfc3161_timestamp'' ''no DER block in packet (synthetic)'')"
    "chain_prev_step ?pf = Pass ''hash_chain_prev_format''" "hash_format_step (sd_blake3_hash_hex p) = Pass ''hash_format''"
    "art12_step ?pf = Pass ''eu_ai_act_art12_coverage''"
    using p(1) assms(4-6) len
    by (simp_all add: timestamp_step_def chain_prev_step_def hash_format_step_def art12_step_def art12_populated_def nonempty_opt_def file_of_wire_def
        from_signed_def packet_of_def Let_def)
  have pf: "pf_hash ?pf = Some (sd_blake3_hash_hex p)" "pf_signature_hex ?pf = Some (sd_signature_hex p)" "pf_public_key_hex ?pf = Some (sd_public_key_hex p)"
    "pf_tenant_id ?pf = Some t"
    using p(1) by (simp_all add: file_of_wire_def from_signed_def packet_of_def Let_def)
  note ex = exit_steps [of read_file path bytes parse "wire_json wo ?f" rfc ?pf vo _ prog, OF assms(9,10) rd]
  show ?thesis
  proof (cases "sd_signature_hex p = []")
    case True
    have "sd_public_key_hex p = [] \<or> sd_public_key_hex p = public_key_hex (vo_crypto vo) (signer_for_tenant (vo_crypto vo) t)"
      using p(2) assms(1) by (auto simp: codec_agrees_def signed_by_def)
    then have "tenant_key_step vo ?pf (sd_public_key_hex p) \<noteq> None"
      unfolding tenant_key_step_def pf(4) by (auto simp: is_char_boundary_def Let_def)
    then obtain s7 where "tenant_key_step vo ?pf (sd_public_key_hex p) = Some s7" by blast
    moreover have "signature_step vo ?pf (sd_blake3_hash_hex p) (sd_signature_hex p) (sd_public_key_hex p) =
        Some (Inr (Fail ''signature_format'' (''expected 128 hex chars, got '' @ show_nat 0)))"
      using True by (simp add: signature_step_def)
    ultimately show ?thesis
      using ex True fixed pf by (simp add: verify_file_def step_ok_def)
  next
    case False
    with p(2) have sb: "signed_by w t p" by simp
    then have "tenant_key_step vo ?pf (sd_public_key_hex p) = Some (Pass ''tenant_key_match'')"
      using pf assms(1) by (auto simp: tenant_key_step_def signed_by_def codec_agrees_def)
    moreover have "signature_step vo ?pf (sd_blake3_hash_hex p) (sd_signature_hex p) (sd_public_key_hex p) = Some (Inr (Pass ''ed25519_signature''))"
      using signed_step_passes [OF assms(1) sb] p(1) by (simp add: packet_of_def)
    ultimately show ?thesis
      using ex False fixed pf by (simp add: verify_file_def step_ok_def)
  qed
qed

definition wire_world :: "unit orch_world" where
  "wire_world = (toy_world [] JNull)\<lparr>w_codec := \<lparr>pc_json = (\<lambda>p. Inr (ep_invoice_id p)), pc_debug = (\<lambda>_. []), pc_blake3 = (\<lambda>_. replicate 32 CHR ''Z'')\<rparr>\<rparr>"

definition sample_wire_ops :: wire_ops where
  "sample_wire_ops = \<lparr>wi_operator_email = None, wi_to_iso = (\<lambda>_. Some ''t''), wi_base64 = (\<lambda>s. s), wi_f32_json = (\<lambda>_. JNull), wi_rekor_json = (\<lambda>_. None)\<rparr>"

definition sample_verify :: verify_ops where
  "sample_verify = \<lparr>vo_crypto = toy_crypto, vo_unb64 = Some, vo_json = (\<lambda>_. None), vo_de_error = (\<lambda>_. [])\<rparr>"

lemma wire_world_run:
  assumes "o_human st = None" "o_rogue st = None"
  obtains p where "fst (process_invoice wire_world toy_env ''stark'' ''i'' raw st) = Some (Inr p)" "sd_signature_hex p \<noteq> []"
proof -
  obtain p where p: "sign wire_world (assemble toy_env ''stark'' ''i'' [] Approve) ''stark'' = Inr p" "sd_signature_hex p \<noteq> []"
    by (simp add: sign_def wire_world_def toy_defs wrap_def sign_hex_def toy_crypto_def hex_encode_def hex_byte_def)
  have "fst (process_invoice wire_world toy_env ''stark'' ''i'' raw st) = Some (Inr p)"
    using process_invoice_result [of wire_world "''stark''" st "''i''" "''r''" "()" "()" toy_env raw] p(1)
    by (simp add: wire_world_def toy_world_def toy_world_on_def toy_registry_def with_default_tenants_and_seed_def stages_def)
  then show thesis using p(2) by (rule that)
qed

lemma wire_world_agrees: "codec_agrees wire_world sample_wire_ops sample_verify"
  by (simp add: codec_agrees_def wire_world_def toy_world_def toy_world_on_def sample_verify_def sample_wire_ops_def toy_crypto_laws)

text \<open>Property C15: the verifier does not bind the visible fields to the signature. Whatever file it accepts on the strength of its
  signed payload, it also accepts with other agent outputs, another case, any other non-empty decision and input, other times, another or,
  unless the file needs the field to reach seven of the eight of the coverage check, no operator, and any other hash of 64 hex digits: none
  of these is compared with the signed bytes.\<close>

theorem visible_fields_unbound:
  assumes "verify_file vo p = Some (Inr steps)" "list_all step_ok steps"
    and "pf_signature_hex p = Some sig" "pf_public_key_hex p = Some pkh" "pf_signed_payload_b64 p = Some b64" "vo_unb64 vo b64 = Some payload"
    and "cr_hex_decode (vo_crypto vo) sig = Inr sb" "cr_hex_decode (vo_crypto vo) pkh = Inr pk" "sig_ok vo pk sb payload"
    and "length h = 64" "cr_hex_decode (vo_crypto vo) h = Inr hb" "d \<noteq> []" "x \<noteq> []"
    and "operator \<noteq> None \<or> pf_natural_person_id p = None \<or> art12_populated p = 8"
  shows "\<exists>steps'. verify_file vo (p\<lparr>pf_agent_outputs := outputs, pf_decision_id := Some d, pf_case_id := cid, pf_input_data := Some x,
      pf_natural_person_id := operator, pf_start_time := Some s, pf_end_time := Some e, pf_hash := Some h\<rparr>) = Some (Inr steps') \<and> list_all step_ok steps'"
proof -
  let ?q = "p\<lparr>pf_agent_outputs := outputs, pf_decision_id := Some d, pf_case_id := cid, pf_input_data := Some x,
      pf_natural_person_id := operator, pf_start_time := Some s, pf_end_time := Some e, pf_hash := Some h\<rparr>"
  obtain h0 s3 s6 s7 where st: "pf_hash p = Some h0" "signature_step vo p h0 sig pkh = Some (Inr s3)" "timestamp_step vo p = Inr s6"
      "tenant_key_step vo p pkh = Some s7" "step_ok s3" "step_ok (chain_prev_step p)" "step_ok s6" "step_ok s7"
    using assms(1-4) by (auto simp: verify_file_def split: option.splits sum.splits)
  have len: "length sig = 128" "length pkh = 64"
    using st(2,5) by (auto simp: signature_step_def step_ok_def split: if_splits)
  have key: "length pk = 32" "length sb = 64" "cr_parse_key (vo_crypto vo) pk = Inr ()"
    using st(2) assms(7,8) len by (auto simp: signature_step_def step_ok_def Let_def split: if_splits sum.splits) (use st(5) in \<open>auto simp: step_ok_def\<close>)
  have "signature_step vo ?q h sig pkh = Some (Inr (Pass ''ed25519_signature''))"
    using assms(5-11) len key by (simp add: signature_step_def Let_def)
  moreover have "timestamp_step vo ?q = Inr s6" "tenant_key_step vo ?q pkh = Some s7" "chain_prev_step ?q = chain_prev_step p"
    using st(3,4) by (simp_all add: timestamp_step_def tenant_key_step_def chain_prev_step_def)
  moreover have "art12_step ?q = Pass ''eu_ai_act_art12_coverage''"
  proof -
    have "step_ok (art12_step p)" using assms(1-4) by (auto simp: verify_file_def split: option.splits sum.splits)
    then have "7 \<le> art12_populated p" by (simp add: art12_step_def step_ok_def split: if_splits)
    then have "7 \<le> art12_populated ?q"
      using assms(12-14) unfolding art12_populated_def by (auto simp: nonempty_opt_def split: if_splits)
    then show ?thesis by (simp add: art12_step_def)
  qed
  ultimately show ?thesis
    using assms(3,4,10) st by (simp add: verify_file_def hash_format_step_def step_ok_def)
qed

definition sample_file :: packet_file where
  "sample_file = \<lparr>pf_case_id = Some ''c'', pf_tenant_id = Some ''stark'', pf_agent_outputs = None, pf_hash_chain_link = None, pf_reference_database = Some ''r'',
     pf_policy_version = Some ''v'', pf_natural_person_id = None, pf_decision_id = Some ''d'', pf_hash_chain_prev = Some (replicate 64 CHR ''0''),
     pf_start_time = Some ''t'', pf_end_time = Some ''t'', pf_input_data = Some ''i'', pf_hash = Some (hex_encode (replicate 32 CHR ''Z'')),
     pf_signature_hex = Some (hex_encode (replicate 64 CHR ''S'')), pf_public_key_hex = Some (hex_encode (replicate 32 CHR ''K'')), pf_c2pa_manifest = None,
     pf_rfc3161_ts_der_hex = None, pf_rfc3161_tsa_url = None, pf_signed_payload_b64 = Some ''payload''\<rparr>"

theorem visible_fields_unbound_witness:
  "\<exists>steps'. verify_file sample_verify (sample_file\<lparr>pf_agent_outputs := Some [JString ''approve''], pf_decision_id := Some ''other'', pf_case_id := None,
      pf_input_data := Some ''other'', pf_natural_person_id := None, pf_start_time := Some ''u'', pf_end_time := Some ''u'',
      pf_hash := Some (hex_encode (replicate 32 CHR ''Y''))\<rparr>) = Some (Inr steps') \<and> list_all step_ok steps'"
proof (rule visible_fields_unbound)
  let ?k = "hex_encode (replicate 32 CHR ''K'')" and ?s = "hex_encode (replicate 64 CHR ''S'')"
  let ?steps = "[Pass ''structural'', Pass ''hash_format'', Pass ''ed25519_signature'', Pass ''hash_chain_prev_format'', Pass ''eu_ai_act_art12_coverage'',
      Skipped ''rfc3161_timestamp'' ''no DER block in packet (synthetic)'', Pass ''tenant_key_match'']"
  have "signature_step sample_verify sample_file (hex_encode (replicate 32 CHR ''Z'')) ?s ?k = Some (Inr (Pass ''ed25519_signature''))"
    by (simp add: signature_step_def sample_verify_def toy_crypto_def sig_ok_def)
  moreover have "tenant_key_step sample_verify sample_file ?k = Some (Pass ''tenant_key_match'')"
    by (simp add: tenant_key_step_def sample_file_def sample_verify_def public_key_hex_def toy_crypto_def)
  ultimately show "verify_file sample_verify sample_file = Some (Inr ?steps)"
    by (simp add: verify_file_def timestamp_step_def hash_format_step_def chain_prev_step_def art12_step_def art12_populated_def nonempty_opt_def)
       (simp add: sample_file_def hash_format_step_def chain_prev_step_def timestamp_step_def art12_step_def art12_populated_def nonempty_opt_def)
qed (simp_all add: step_ok_def sample_file_def sample_verify_def toy_crypto_def sig_ok_def nonempty_opt_def)

end
