(* ===== verification/Compliance.thy ===== *)
theory Compliance
  imports Packets SandboxRun
begin

text \<open>
  \<^verbatim>\<open>crates/themis-compliance/src/framework.rs\<close>, \<^verbatim>\<open>service.rs\<close> and the mappers \<^verbatim>\<open>dora.rs\<close>, \<^verbatim>\<open>eu_ai_act.rs\<close>, \<^verbatim>\<open>nist_ai_rmf.rs\<close>, \<^verbatim>\<open>owasp_agentic.rs\<close>,
  \<^verbatim>\<open>iso_42001.rs\<close>: what a packet shows for five regulatory frameworks. The trait of a mapper is the locale \<open>compliance_mapper\<close>. BLAKE3, the
  JSON printer, the package version and the arithmetic on floating-point numbers are parameters.
\<close>

section \<open>Maps\<close>

type_synonym u16 = "16 word"

abbreviation unit_f32 :: f32 where "unit_f32 \<equiv> 0x3F800000"

datatype framework = Dora | EuAiAct | NistAiRmf | OwaspAgentic | Iso42001

definition framework_as_str :: "framework \<Rightarrow> string" where
  "framework_as_str f = (case f of Dora \<Rightarrow> ''dora'' | EuAiAct \<Rightarrow> ''eu_ai_act'' | NistAiRmf \<Rightarrow> ''nist_ai_rmf'' | OwaspAgentic \<Rightarrow> ''owasp_agentic'' | Iso42001 \<Rightarrow> ''iso_42001'')"

record compliance_packet =
  cp_packet_id :: string
  cp_tenant_id :: string
  cp_invoice_id :: string
  cp_agent_decisions :: "agent_decision list"
  cp_outcome :: outcome

definition compliance_packet_new :: "string \<Rightarrow> string \<Rightarrow> agent_decision list \<Rightarrow> outcome \<Rightarrow> compliance_packet" where
  "compliance_packet_new tenant_id invoice_id decisions oc = \<lparr>cp_packet_id = ''00000000-0000-0000-0000-000000000001'', cp_tenant_id = tenant_id,
     cp_invoice_id = invoice_id, cp_agent_decisions = decisions, cp_outcome = oc\<rparr>"

record compliance_map =
  cm_framework :: framework
  cm_populated :: u16
  cm_total :: u16
  cm_fields :: "(string \<times> json) list"
  cm_notes :: "string list"

definition compliance_map_new :: "framework \<Rightarrow> u16 \<Rightarrow> compliance_map" where
  "compliance_map_new f fields_total = \<lparr>cm_framework = f, cm_populated = 0, cm_total = fields_total, cm_fields = [], cm_notes = []\<rparr>"

definition add_field :: "string \<Rightarrow> json \<Rightarrow> compliance_map \<Rightarrow> compliance_map" where
  "add_field name v m = m\<lparr>cm_fields := cm_fields m @ [(name, v)], cm_populated := cm_populated m + 1\<rparr>"

definition add_note :: "string \<Rightarrow> compliance_map \<Rightarrow> compliance_map" where
  "add_note n m = m\<lparr>cm_notes := cm_notes m @ [n]\<rparr>"

record compliance_ops =
  co_blake3_hex :: "string \<Rightarrow> string"
  co_to_string :: "json \<Rightarrow> string"
  co_f32_json :: "f32 \<Rightarrow> json"
  co_mean :: "f32 list \<Rightarrow> f32"
  co_ratio :: "u16 \<Rightarrow> u16 \<Rightarrow> f32"
  co_version :: string

definition map_coverage_pct :: "compliance_ops \<Rightarrow> compliance_map \<Rightarrow> f32" where
  "map_coverage_pct co m = (if cm_total m = 0 then unit_f32 else co_ratio co (cm_populated m) (cm_total m))"

abbreviation jcount :: "nat \<Rightarrow> json" where "jcount n \<equiv> JNumber (show_nat n)"

section \<open>Mappers\<close>

definition incident_classification :: "baaar_reason \<Rightarrow> string" where
  "incident_classification r = (case r of RiskScoreExceeded \<Rightarrow> ''fraud_suspected'' | SecretLeakDetected \<Rightarrow> ''sanctions_match''
     | CoherenceTooLow \<Rightarrow> ''data_incoherence'' | MaxDebateRoundsReached \<Rightarrow> ''policy_violation'' | ExplicitHaltRequested \<Rightarrow> ''policy_violation'')"

definition dora_map :: "compliance_ops \<Rightarrow> compliance_packet \<Rightarrow> compliance_map" where
  "dora_map co p =
     (let ds = cp_agent_decisions p;
          m = compliance_map_new Dora 3;
          m = (if \<exists>d \<in> set ds. ad_decision_type d \<in> {FraudAssessed, WatchdogAlert}
               then add_field ''art_9_ict_risk_management'' (JObject [(''mechanism'', JString ''BaaarGate 5-condition kill-switch + StateMachine traversal''),
                      (''populated_from_decisions'', jcount (length ds))]) m
               else m);
          m = (case find (\<lambda>d. ad_decision_type d = WatchdogAlert) ds of
                 Some alert \<Rightarrow> add_field ''art_10_incident_detection'' (JObject [(''agent'', JString ''audit_watchdog''),
                      (''coherence_score'', co_f32_json co (ad_confidence alert)), (''reasoning'', JString (ad_reasoning alert))]) m
               | None \<Rightarrow> add_note ''no WatchdogAlert decision in chain; Art 10 detection evidence missing'' m)
      in (case cp_outcome p of
            HaltWith reason \<Rightarrow> add_field ''art_17_incident_reporting'' (JObject [(''outcome'', JString ''halt''), (''evidence_packet_id'', JString (cp_packet_id p)),
               (''tenant_id'', JString (cp_tenant_id p)), (''invoice_id'', JString (cp_invoice_id p)), (''halt_reason'', JString (reason_debug reason)),
               (''incident_classification'', JString (incident_classification reason)), (''reporting_window_hours'', jcount 72), (''mock_recipient'', JString ''NCA-ES'')]) m
          | Approve \<Rightarrow> add_field ''art_17_incident_reporting'' (JObject [(''outcome'', JString ''no_incident''), (''incident_classification'', JString ''none''),
               (''reporting_window_hours'', jcount 0), (''mock_recipient'', JString ''NCA-ES''), (''note'', JString ''no HALT in this run; Art 17 reporting N/A'')]) m))"

definition timestamp_json :: "agent_decision option \<Rightarrow> json" where
  "timestamp_json d = JNumber (show_int (case d of Some d \<Rightarrow> sint (ad_timestamp_ms d) | None \<Rightarrow> 0))"

definition head_opt :: "'a list \<Rightarrow> 'a option" where "head_opt xs = (case xs of [] \<Rightarrow> None | x # _ \<Rightarrow> Some x)"

definition last_opt :: "'a list \<Rightarrow> 'a option" where "last_opt xs = (if xs = [] then None else Some (last xs))"

definition eu_ai_act_map :: "compliance_ops \<Rightarrow> compliance_packet \<Rightarrow> compliance_map" where
  "eu_ai_act_map co p =
     (let ds = cp_agent_decisions p;
          m = compliance_map_new EuAiAct 9;
          m = add_field ''art_12_1_start_time'' (timestamp_json (head_opt ds)) m;
          m = add_field ''art_12_2_end_time'' (timestamp_json (last_opt ds)) m;
          m = add_field ''art_12_3_reference_database'' (JString (''keys/po-database/'' @ cp_tenant_id p @ ''.json'')) m;
          first_payload = (case head_opt ds of Some d \<Rightarrow> co_to_string co (ad_payload d) | None \<Rightarrow> []);
          m = add_field ''art_12_4_input_data'' (JObject [(''first_decision_payload_blake3'', JString (co_blake3_hex co first_payload))]) m;
          m = add_field ''art_12_5_natural_person_id'' (JString (''operator@'' @ cp_tenant_id p @ ''.local'')) m;
          m = add_field ''art_12_6_decision_id'' (JString (cp_packet_id p)) m;
          m = add_field ''art_12_7_policy_version'' (JString ''themis-policy@2026-06-12 (JCR gate + BAAAR 5 conditions)'') m;
          chain_prev = (if ds = [] then ''genesis (no predecessor)'' else ''blake3('' @ show_nat (length ds) @ '' upstream decisions)'');
          m = add_field ''art_12_8_hash_chain_prev'' (JString chain_prev) m
      in add_field ''art_26_deployer_name'' (JString (cp_tenant_id p)) m)"

definition nist_ai_rmf_map :: "compliance_ops \<Rightarrow> compliance_packet \<Rightarrow> compliance_map" where
  "nist_ai_rmf_map co p =
     (let ds = cp_agent_decisions p;
          m = compliance_map_new NistAiRmf 4;
          m = (if ds \<noteq> [] then add_field ''govern'' (JObject [(''mechanism'', JString ''InvoiceState state machine''), (''decisions_in_chain'', jcount (length ds))]) m else m);
          m = add_field ''map'' (JObject [(''trust_domain'', JString (cp_tenant_id p)), (''registry'', JString ''TenantRegistry (2 default trust domains)'')]) m;
          avg = (if ds = [] then 0 else co_mean co (map ad_confidence ds));
          m = add_field ''measure'' (JObject [(''mean_confidence'', co_f32_json co avg),
                (''outcome'', JString (case cp_outcome p of Approve \<Rightarrow> ''approve'' | HaltWith _ \<Rightarrow> ''halt''))]) m
      in if \<exists>d \<in> set ds. ad_decision_type d \<in> {RegressionResult, ProvenanceSigned}
         then add_field ''manage'' (JObject [(''agents'', JArray [JString ''regression_tester'', JString ''provenance_signer'']), (''evidence_packet_signed'', JBool True)]) m
         else add_note ''no RegressionResult or ProvenanceSigned in chain; Manage evidence missing'' m)"

definition ASI_CATEGORIES :: "string list" where
  "ASI_CATEGORIES = [''ASI01_prompt_injection'', ''ASI02_sensitive_data_exposure'', ''ASI03_supply_chain'', ''ASI04_data_and_model_poisoning'',
     ''ASI05_improper_output_handling'', ''ASI06_excessive_agency'', ''ASI07_system_prompt_leakage'', ''ASI08_vector_and_embedding_weaknesses'',
     ''ASI09_misinformation'', ''ASI10_rogue_agents'']"

definition NOT_ASSESSED :: "string list" where
  "NOT_ASSESSED = [''ASI01_prompt_injection'', ''ASI03_supply_chain'', ''ASI04_data_and_model_poisoning'', ''ASI05_improper_output_handling'',
     ''ASI07_system_prompt_leakage'', ''ASI08_vector_and_embedding_weaknesses'', ''ASI09_misinformation'']"

definition secret_leak_in :: "agent_decision \<Rightarrow> bool" where
  "secret_leak_in d = (case json_get (ad_payload d) ''findings'' of
     Some (JArray fs) \<Rightarrow> \<exists>f \<in> set fs. Option.bind (json_get f ''kind'') as_str = Some ''secret_leak'' | _ \<Rightarrow> False)"

definition exceeds_scope :: "agent_decision \<Rightarrow> bool" where
  "exceeds_scope d = (ad_decision_type d \<noteq> FraudAssessed \<and>
     (case Option.bind (json_get (ad_payload d) ''outcome'') as_str of Some s \<Rightarrow> prefix ''halt_'' s | None \<Rightarrow> False))"

definition asi_verdict :: "bool \<Rightarrow> json" where "asi_verdict t = JString (if t then ''triggered'' else ''mitigated'')"

definition owasp_agentic_map :: "compliance_packet \<Rightarrow> compliance_map" where
  "owasp_agentic_map p =
     (let ds = cp_agent_decisions p;
          m = compliance_map_new OwaspAgentic (word_of_nat (length ASI_CATEGORIES));
          leak = ((\<exists>d \<in> set ds. secret_leak_in d) \<or> cp_outcome p = HaltWith SecretLeakDetected);
          m = add_field ''ASI02_sensitive_data_exposure'' (asi_verdict leak) m;
          m = (if leak then add_note ''ASI02 triggered by SecretLeak finding or BAAAR halt'' m else m);
          agency = (\<exists>d \<in> set ds. exceeds_scope d);
          m = add_field ''ASI06_excessive_agency'' (asi_verdict agency) m;
          rogue = (cp_outcome p \<noteq> Approve \<and> (\<forall>d \<in> set ds. ad_decision_type d \<noteq> FraudAssessed));
          m = add_field ''ASI10_rogue_agents'' (asi_verdict rogue) m;
          m = fold (\<lambda>asi. add_field asi (JString ''not_assessed'')) NOT_ASSESSED m;
          triggered = (if leak then [''ASI02''] else []) @ (if agency then [''ASI06''] else []) @ (if rogue then [''ASI10''] else [])
      in if triggered \<noteq> [] then add_note (''triggered ASIs: '' @ join_with '', '' triggered) m else m)"

definition arrow_text :: string where "arrow_text = [CHR 0xE2, CHR 0x86, CHR 0x92]"

definition iso_42001_map :: "compliance_ops \<Rightarrow> compliance_packet \<Rightarrow> compliance_map" where
  "iso_42001_map co p =
     (let m = compliance_map_new Iso42001 5;
          m = add_field ''clause_6_1_risk_assessment'' (JObject [(''mechanism'', JString (''BaaarGate::check (5 deterministic conditions: risk_score>0.85, '' @
                ''secret_leak, coherence<0.3, debate_rounds>=5, explicit_halt)'')), (''always_invoked'', JBool True),
                (''agent_decisions_observed'', jcount (length (cp_agent_decisions p)))]) m;
          m = add_field ''clause_8_4_impact_assessment'' (JObject [(''ref'', JString (''themis-compliance v'' @ co_version co)),
                (''scope'', JString ''AI decision-support system for buyer-side AP invoice fraud detection'')]) m;
          m = add_field ''clause_9_1_monitoring_measurement'' (JObject [(''monitoring_mechanism'', JString ''BAAAR-gate + 310+-test suite''),
                (''evidence_packet_emitted'', JBool True), (''audit_log_durable'', JBool True)]) m;
          m = add_field ''clause_10_2_continual_improvement'' (JObject [(''improvement_cycle'', JString ''post-hackathon sprint (vNext roadmap)''),
                (''feed'', JString (''BAAAR HALT events + tenant incident reports '' @ arrow_text @ '' compliance mapper deltas''))]) m;
          m = add_field ''annex_a_6_lifecycle_stage'' (JObject [(''stage'', JString ''production''),
                (''deployment_manifest_ref'', JString ''Band of Agents Hackathon 2026-06-19 submission''), (''rollback_supported'', JBool True)]) m
      in add_note (''ISO/IEC 42001:2023 AIMS clauses mapped: 5/5 populated for tenant='' @ cp_tenant_id p @ '', invoice='' @ cp_invoice_id p) m)"

record iso_42001_fields =
  if_risk_assessment_conducted :: bool
  if_impact_assessment_ref :: string
  if_monitoring_mechanism :: string
  if_improvement_cycle :: string
  if_lifecycle_stage :: string

definition iso_42001_default :: "compliance_ops \<Rightarrow> iso_42001_fields" where
  "iso_42001_default co = \<lparr>if_risk_assessment_conducted = True, if_impact_assessment_ref = ''themis-compliance v'' @ co_version co,
     if_monitoring_mechanism = ''BAAAR-gate + 310+-test suite'', if_improvement_cycle = ''post-hackathon sprint (vNext roadmap)'', if_lifecycle_stage = ''production''\<rparr>"

definition summary_line :: "iso_42001_fields \<Rightarrow> string" where
  "summary_line f = ''ISO 42001: risk_assessment='' @ (if if_risk_assessment_conducted f then ''conducted'' else ''not_conducted'') @
     '', monitoring='' @ if_monitoring_mechanism f @ '', lifecycle='' @ if_lifecycle_stage f"

section \<open>The service\<close>

record compliance_report =
  rp_frameworks :: "compliance_map list"
  rp_total_populated :: u16
  rp_total_fields :: u16
  rp_coverage_pct :: f32
  rp_ac8_pass :: bool
  rp_ac15_pass :: bool

type_synonym mapper = "compliance_packet \<Rightarrow> compliance_map"

definition default_mappers :: "compliance_ops \<Rightarrow> mapper list" where
  "default_mappers co = [dora_map co, eu_ai_act_map co, nist_ai_rmf_map co, owasp_agentic_map, iso_42001_map co]"

definition with_mapper :: "mapper list \<Rightarrow> mapper \<Rightarrow> mapper list" where "with_mapper ms m = ms @ [m]"

definition art_12_count :: "compliance_map list \<Rightarrow> nat" where
  "art_12_count ms = fold (\<lambda>m n. if framework_as_str (cm_framework m) = ''eu_ai_act'' then length (filter (\<lambda>(k, _). prefix ''art_12_'' k) (cm_fields m)) else n) ms 0"

definition compliance_service_report :: "compliance_ops \<Rightarrow> mapper list \<Rightarrow> compliance_packet \<Rightarrow> compliance_report" where
  "compliance_service_report co mappers packet =
     (let ms = map (\<lambda>f. f packet) mappers;
          total_populated = sum_list (map cm_populated ms);
          total_fields = sum_list (map cm_total ms)
      in \<lparr>rp_frameworks = ms, rp_total_populated = total_populated, rp_total_fields = total_fields,
          rp_coverage_pct = (if total_fields = 0 then unit_f32 else co_ratio co total_populated total_fields),
          rp_ac8_pass = list_all (\<lambda>m. 1 \<le> cm_populated m) ms, rp_ac15_pass = (7 \<le> art_12_count ms)\<rparr>)"

section \<open>What every mapper promises\<close>

lemma add_simps [simp]:
  "cm_framework (add_field k v m) = cm_framework m" "cm_total (add_field k v m) = cm_total m"
  "cm_fields (add_field k v m) = cm_fields m @ [(k, v)]" "cm_populated (add_field k v m) = cm_populated m + 1"
  "cm_framework (add_note t m) = cm_framework m" "cm_total (add_note t m) = cm_total m"
  "cm_fields (add_note t m) = cm_fields m" "cm_populated (add_note t m) = cm_populated m"
  "cm_framework (compliance_map_new f n) = f" "cm_total (compliance_map_new f n) = n"
  "cm_fields (compliance_map_new f n) = []" "cm_populated (compliance_map_new f n) = 0"
  by (simp_all add: add_field_def add_note_def compliance_map_new_def)

locale compliance_mapper =
  fixes fw :: framework and mp :: mapper and fields_total :: nat
  assumes of_framework: "cm_framework (mp p) = fw"
    and of_total: "cm_total (mp p) = word_of_nat fields_total" "fields_total < 65536"
    and counted: "cm_populated (mp p) = word_of_nat (length (cm_fields (mp p)))"
    and some_field: "0 < length (cm_fields (mp p))"
    and bounded: "length (cm_fields (mp p)) \<le> fields_total"
    and named_once: "distinct (map fst (cm_fields (mp p)))"
begin

lemma populated_nat: "unat (cm_populated (mp p)) = length (cm_fields (mp p))"
  using counted [of p] bounded [of p] of_total(2) by (simp add: unat_of_nat take_bit_nat_eq_self)

lemma total_nat: "unat (cm_total (mp p)) = fields_total"
  using of_total by (simp add: unat_of_nat take_bit_nat_eq_self)

lemma populated_le_total: "cm_populated (mp p) \<le> cm_total (mp p)"
  using bounded [of p] by (simp add: word_le_nat_alt populated_nat total_nat)

lemma has_field: "1 \<le> cm_populated (mp p)"
  using some_field [of p] by (simp add: word_le_nat_alt populated_nat Suc_le_eq)

end

interpretation dora: compliance_mapper Dora "dora_map co" 3
  by unfold_locales (simp_all add: dora_map_def Let_def split: option.split outcome.split)

interpretation eu_ai_act: compliance_mapper EuAiAct "eu_ai_act_map co" 9
  by unfold_locales (simp_all add: eu_ai_act_map_def Let_def)

interpretation nist_ai_rmf: compliance_mapper NistAiRmf "nist_ai_rmf_map co" 4
  by unfold_locales (simp_all add: nist_ai_rmf_map_def Let_def)

interpretation owasp_agentic: compliance_mapper OwaspAgentic owasp_agentic_map 10
  by unfold_locales (simp_all add: owasp_agentic_map_def NOT_ASSESSED_def ASI_CATEGORIES_def Let_def)

interpretation iso_42001: compliance_mapper Iso42001 "iso_42001_map co" 5
  by unfold_locales (simp_all add: iso_42001_map_def Let_def)

section \<open>Properties\<close>

definition seen :: "compliance_packet \<Rightarrow> decision_type set \<Rightarrow> bool" where
  "seen p ts = (\<exists>d \<in> set (cp_agent_decisions p). ad_decision_type d \<in> ts)"

lemma dora_populated: "cm_populated (dora_map co p) = 1 + of_bool (seen p {FraudAssessed, WatchdogAlert}) + of_bool (seen p {WatchdogAlert})"
  by (auto simp: dora_map_def Let_def seen_def find_None_iff find_Some_iff split: option.split outcome.split)

lemma nist_populated: "cm_populated (nist_ai_rmf_map co p) = 2 + of_bool (cp_agent_decisions p \<noteq> []) + of_bool (seen p {RegressionResult, ProvenanceSigned})"
  by (auto simp: nist_ai_rmf_map_def Let_def seen_def)

lemma fixed_populated: "cm_populated (eu_ai_act_map co p) = 9" "cm_populated (owasp_agentic_map p) = 10" "cm_populated (iso_42001_map co p) = 5"
  by (simp_all add: eu_ai_act_map_def owasp_agentic_map_def iso_42001_map_def NOT_ASSESSED_def Let_def)

lemma art_12_always: "art_12_count (map (\<lambda>f. f p) (default_mappers co)) = 8"
  by (simp add: art_12_count_def default_mappers_def dora.of_framework eu_ai_act.of_framework nist_ai_rmf.of_framework owasp_agentic.of_framework
      iso_42001.of_framework framework_as_str_def) (simp add: eu_ai_act_map_def Let_def)

text \<open>Fact: a compliance report counts what the packet shows, and its acceptance flags cannot fail. With the five mappers of the
  service the report has 31 fields in the order of the mappers; 27 are populated for every packet, and one more each for a fraud
  assessment or watchdog alert, for a watchdog alert, for any decision, and for a regression result or provenance signature. Both
  acceptance flags hold for every packet, an empty one included.\<close>

theorem compliance_report_exact:
  "compliance_service_report co (default_mappers co) p = r \<longleftrightarrow>
     map cm_framework (rp_frameworks r) = [Dora, EuAiAct, NistAiRmf, OwaspAgentic, Iso42001] \<and> rp_frameworks r = map (\<lambda>f. f p) (default_mappers co) \<and>
     rp_total_fields r = 31 \<and>
     rp_total_populated r = 27 + of_bool (seen p {FraudAssessed, WatchdogAlert}) + of_bool (seen p {WatchdogAlert}) +
       of_bool (cp_agent_decisions p \<noteq> []) + of_bool (seen p {RegressionResult, ProvenanceSigned}) \<and>
     rp_coverage_pct r = co_ratio co (rp_total_populated r) 31 \<and> rp_ac8_pass r \<and> rp_ac15_pass r"
proof -
  let ?r = "compliance_service_report co (default_mappers co) p"
  have ms: "rp_frameworks ?r = map (\<lambda>f. f p) (default_mappers co)" by (simp add: compliance_service_report_def Let_def)
  have fw: "map cm_framework (map (\<lambda>f. f p) (default_mappers co)) = [Dora, EuAiAct, NistAiRmf, OwaspAgentic, Iso42001]"
    by (simp add: default_mappers_def dora.of_framework eu_ai_act.of_framework nist_ai_rmf.of_framework owasp_agentic.of_framework iso_42001.of_framework)
  have tf: "rp_total_fields ?r = 31"
    by (simp add: compliance_service_report_def Let_def default_mappers_def dora.of_total eu_ai_act.of_total nist_ai_rmf.of_total owasp_agentic.of_total iso_42001.of_total)
  have tp: "rp_total_populated ?r = 27 + of_bool (seen p {FraudAssessed, WatchdogAlert}) + of_bool (seen p {WatchdogAlert}) +
       of_bool (cp_agent_decisions p \<noteq> []) + of_bool (seen p {RegressionResult, ProvenanceSigned})"
    by (simp add: compliance_service_report_def Let_def default_mappers_def dora_populated nist_populated fixed_populated)
  have flags: "rp_ac8_pass ?r" "rp_ac15_pass ?r"
    using art_12_always [of p co] dora.has_field eu_ai_act.has_field nist_ai_rmf.has_field owasp_agentic.has_field iso_42001.has_field
    by (simp_all add: compliance_service_report_def Let_def) (simp add: default_mappers_def)
  have cov: "rp_coverage_pct ?r = co_ratio co (rp_total_populated ?r) 31"
    using tf by (simp add: compliance_service_report_def Let_def)
  show ?thesis using ms fw tf tp flags cov by (cases r; cases ?r) auto
qed

end
