(* ===== verification/HttpApi.thy ===== *)
theory HttpApi
  imports WireVerify Compliance
begin

text \<open>
  \<^verbatim>\<open>crates/themis-orchestrator/src/http.rs\<close>: the state behind the HTTP interface of the orchestrator and its handlers. A handler takes a
  request that axum has extracted and gives a response and the new state; no response is a panic of the orchestrator. The event bus of
  the state is the one the orchestrator publishes to, as \<^verbatim>\<open>build_default_state\<close> wires it. PDF rendering, the JSON printer, base64, version
  5 UUIDs, header validation, the subtraction of floating-point numbers and the debug texts of errors are parameters.
\<close>

section \<open>State\<close>

record sponsor_stack_info =
  ss_band :: string
  ss_aiml_api :: string
  ss_featherless :: string

definition sponsor_default :: sponsor_stack_info where
  "sponsor_default = \<lparr>ss_band = ''band-sdk[langgraph]==0.2.11'', ss_aiml_api = ''anthropic/claude-sonnet-4.5 + meta-llama/Llama-3.3-70B-Instruct'',
     ss_featherless = ''Qwen/Qwen3-Coder-30B-A3B-Instruct''\<rparr>"

record 'r app_state =
  ap_orch :: "'r orchestrator"
  ap_band_room :: "('r \<Rightarrow> room_id \<Rightarrow> band_message list) option"
  ap_reports :: "string \<rightharpoonup> compliance_report"
  ap_packets :: "string \<rightharpoonup> signed_packet"
  ap_sealed :: "string \<rightharpoonup> sealed_packet"
  ap_model_id :: string
  ap_sponsor :: sponsor_stack_info

definition app_state_new :: "'r orchestrator \<Rightarrow> string \<Rightarrow> sponsor_stack_info \<Rightarrow> 'r app_state" where
  "app_state_new orch model_id sponsor = \<lparr>ap_orch = orch, ap_band_room = None, ap_reports = Map.empty, ap_packets = Map.empty, ap_sealed = Map.empty,
     ap_model_id = model_id, ap_sponsor = sponsor\<rparr>"

definition with_band_room :: "('r \<Rightarrow> room_id \<Rightarrow> band_message list) \<Rightarrow> 'r app_state \<Rightarrow> 'r app_state" where
  "with_band_room room st = st\<lparr>ap_band_room := Some room\<rparr>"

definition build_default_state :: "'r orchestrator \<Rightarrow> ('r \<Rightarrow> room_id \<Rightarrow> band_message list) \<Rightarrow> string \<Rightarrow> 'r app_state" where
  "build_default_state orch room model_id = with_band_room room (app_state_new (orch\<lparr>o_bus := Some []\<rparr>) model_id sponsor_default)"

definition scripted_history :: "mock_rooms \<Rightarrow> room_id \<Rightarrow> band_message list" where
  "scripted_history rooms room = (case rooms room of Some entry \<Rightarrow> room_history entry | None \<Rightarrow> [])"

definition store_run :: "string \<Rightarrow> compliance_report \<Rightarrow> 'r app_state \<Rightarrow> 'r app_state" where
  "store_run run_id r st = st\<lparr>ap_reports := (ap_reports st)(run_id \<mapsto> r)\<rparr>"

definition store_packet :: "signed_packet \<Rightarrow> 'r app_state \<Rightarrow> 'r app_state" where
  "store_packet p st = st\<lparr>ap_packets := (ap_packets st)(ep_packet_id (sd_packet p) \<mapsto> p)\<rparr>"

definition store_sealed :: "string \<Rightarrow> sealed_packet \<Rightarrow> 'r app_state \<Rightarrow> 'r app_state" where
  "store_sealed packet_id s st = st\<lparr>ap_sealed := (ap_sealed st)(packet_id \<mapsto> s)\<rparr>"

definition bus_publish :: "event \<Rightarrow> 'r app_state \<Rightarrow> 'r app_state" where
  "bus_publish ev st = st\<lparr>ap_orch := publish (\<lambda>_. ev) (ap_orch st)\<rparr>"

section \<open>Responses\<close>

datatype http_body = JsonBody json | RawBody string

record web_response =
  hs_status :: nat
  hs_content_type :: string
  hs_disposition :: "string option"
  hs_body :: http_body

definition json_reply :: "nat \<Rightarrow> json \<Rightarrow> web_response" where
  "json_reply status v = \<lparr>hs_status = status, hs_content_type = ''application/json'', hs_disposition = None, hs_body = JsonBody v\<rparr>"

definition text_reply :: "nat \<Rightarrow> string \<Rightarrow> web_response" where
  "text_reply status s = \<lparr>hs_status = status, hs_content_type = ''text/plain; charset=utf-8'', hs_disposition = None, hs_body = RawBody s\<rparr>"

definition build_response :: "nat \<Rightarrow> string \<Rightarrow> string \<Rightarrow> web_response" where
  "build_response status ct s = \<lparr>hs_status = status, hs_content_type = ct, hs_disposition = None, hs_body = RawBody s\<rparr>"

definition html_response :: "string \<Rightarrow> web_response" where "html_response s = build_response 200 ''text/html; charset=utf-8'' s"
definition css_response :: "string \<Rightarrow> web_response" where "css_response s = build_response 200 ''text/css; charset=utf-8'' s"
definition js_response :: "string \<Rightarrow> web_response" where "js_response s = build_response 200 ''application/javascript; charset=utf-8'' s"

record 'r http_world =
  hw_orch :: "'r orch_world"
  hw_call :: call_env
  hw_run_id :: string
  hw_now_ms :: i64
  hw_unb64 :: "string \<Rightarrow> string option"
  hw_ops :: compliance_ops
  hw_f32_sub :: "f32 \<Rightarrow> f32 \<Rightarrow> f32"
  hw_wire :: wire_ops
  hw_pretty :: "json \<Rightarrow> string + string"
  hw_pdf :: "signed_packet \<Rightarrow> string + string"
  hw_header :: "string \<Rightarrow> string option"
  hw_uuid_v5 :: "string \<Rightarrow> string"
  hw_debug :: "orchestrator_error \<Rightarrow> string"
  hw_outcome_debug :: "outcome \<Rightarrow> string"
  hw_parse_usize :: "string \<Rightarrow> nat option"
  hw_event_json :: "event \<Rightarrow> string"

definition build_attachment_response :: "'r http_world \<Rightarrow> nat \<Rightarrow> string \<Rightarrow> string \<Rightarrow> string \<Rightarrow> web_response" where
  "build_attachment_response w status ct disposition s = (case hw_header w disposition of
     Some e \<Rightarrow> text_reply 500 (''build response: '' @ e)
   | None \<Rightarrow> \<lparr>hs_status = status, hs_content_type = ct, hs_disposition = Some disposition, hs_body = RawBody s\<rparr>)"

section \<open>The event stream\<close>

definition sponsor_event :: "'r app_state \<Rightarrow> event" where
  "sponsor_event st = SponsorStack ''00000000-0000-0000-0000-000000000000'' (ss_band (ap_sponsor st)) (ss_aiml_api (ap_sponsor st)) (ss_featherless (ap_sponsor st))"

text \<open>What a subscriber receives: the prelude, then every later event of the bus; a lagging receiver loses events (\<open>None\<close>), which are
  skipped.\<close>

definition get_events_sse :: "'r http_world \<Rightarrow> 'r app_state \<Rightarrow> event option list \<Rightarrow> (string \<times> string) list" where
  "get_events_sse w st received = map (\<lambda>ev. (type_str ev, hw_event_json w ev)) (sponsor_event st # List.map_filter (\<lambda>ev. ev) received)"

section \<open>Invoices\<close>

record post_invoice_request =
  pi_tenant_id :: string
  pi_invoice_id :: string
  pi_raw_b64 :: string

definition f32_abs :: "f32 \<Rightarrow> f32" where "f32_abs x = take_bit 31 x"

definition dispute_threshold :: f32 where "dispute_threshold = 0x3E99999A"

definition dispute_event :: "'r http_world \<Rightarrow> evidence_packet \<Rightarrow> event option" where
  "dispute_event w p = (case (find (\<lambda>d. ad_agent_id d = ''fraud_auditor'') (ep_agent_decisions p), find (\<lambda>d. ad_agent_id d = ''gaap_classifier'') (ep_agent_decisions p)) of
     (Some fraud, Some gaap) \<Rightarrow>
       let fraud_risk = ad_confidence fraud; gaap_risk = hw_f32_sub w unit_f32 (ad_confidence gaap); delta = f32_abs (hw_f32_sub w fraud_risk gaap_risk)
       in if f32_lt dispute_threshold delta
          then Some (AgentDispute (hw_run_id w) ''fraud_auditor'' fraud_risk ''gaap_classifier'' gaap_risk delta (if ep_bbaaar_outcome p = Approve then ''approve'' else ''halt''))
          else None
   | _ \<Rightarrow> None)"

definition map_json :: "compliance_map \<Rightarrow> json" where
  "map_json m = JObject [(''framework'', JString (framework_as_str (cm_framework m))), (''populated'', jcount (unat (cm_populated m))), (''total'', jcount (unat (cm_total m))),
     (''fields'', JArray (map (\<lambda>(k, v). JArray [JString k, v]) (cm_fields m))), (''notes'', JArray (map JString (cm_notes m)))]"

definition report_json :: "compliance_ops \<Rightarrow> compliance_report \<Rightarrow> json" where
  "report_json co r = JObject [(''frameworks'', JArray (map map_json (rp_frameworks r))), (''total_populated'', jcount (unat (rp_total_populated r))),
     (''total_fields'', jcount (unat (rp_total_fields r))), (''coverage_pct'', co_f32_json co (rp_coverage_pct r)), (''ac8_pass'', JBool (rp_ac8_pass r)),
     (''ac15_pass'', JBool (rp_ac15_pass r))]"

definition run_orchestrator :: "'r http_world \<Rightarrow> string \<Rightarrow> string \<Rightarrow> string \<Rightarrow> 'r orchestrator
    \<Rightarrow> (orchestrator_error + signed_packet \<times> sealed_packet option) option \<times> 'r orchestrator" where
  "run_orchestrator w t i raw orch =
     (if o_services orch \<noteq> None then process_invoice_sealed (hw_orch w) (hw_call w) t i raw orch
      else (case process_invoice (hw_orch w) (hw_call w) t i raw orch of
          (None, orch) \<Rightarrow> (None, orch)
        | (Some (Inl e), orch) \<Rightarrow> (Some (Inl e), orch)
        | (Some (Inr p), orch) \<Rightarrow> (Some (Inr (p, None)), orch)))"

definition packet_report :: "'r http_world \<Rightarrow> evidence_packet \<Rightarrow> compliance_report" where
  "packet_report w p = compliance_service_report (hw_ops w) (default_mappers (hw_ops w))
     (compliance_packet_new (ep_tenant_id p) (ep_invoice_id p) (ep_agent_decisions p) (ep_bbaaar_outcome p))"

definition store_result :: "'r http_world \<Rightarrow> signed_packet \<Rightarrow> sealed_packet option \<Rightarrow> 'r app_state \<Rightarrow> 'r app_state" where
  "store_result w p sealed st =
     (let ep = sd_packet p;
          st = (case dispute_event w ep of Some ev \<Rightarrow> bus_publish ev st | None \<Rightarrow> st);
          st = store_packet p (store_run (hw_run_id w) (packet_report w ep) st);
          st = (case sealed of Some s \<Rightarrow> store_sealed (ep_packet_id ep) s st | None \<Rightarrow> st)
      in bus_publish (RunFinished (hw_run_id w)) (bus_publish (EvidenceSealed (hw_run_id w) (ep_packet_id ep)) st))"

definition post_invoices :: "'r http_world \<Rightarrow> post_invoice_request \<Rightarrow> 'r app_state \<Rightarrow> web_response option \<times> 'r app_state" where
  "post_invoices w req st =
     (let raw = (case hw_unb64 w (pi_raw_b64 req) of Some b \<Rightarrow> b | None \<Rightarrow> []);
          st = bus_publish (AgentStarted (hw_run_id w) ''extractor'') (bus_publish (ProviderActive (hw_run_id w) (ap_model_id st)) st)
      in (case run_orchestrator w (pi_tenant_id req) (pi_invoice_id req) raw (ap_orch st) of
            (None, orch) \<Rightarrow> (None, st\<lparr>ap_orch := orch\<rparr>)
          | (Some (Inl e), orch) \<Rightarrow> (Some (json_reply 500 (JObject [(''error'', JString (hw_debug w e))])), st\<lparr>ap_orch := orch\<rparr>)
          | (Some (Inr (p, sealed)), orch) \<Rightarrow>
              (Some (json_reply 200 (JObject [(''run_id'', JString (hw_run_id w)), (''packet_id'', JString (ep_packet_id (sd_packet p))),
                 (''compliance'', report_json (hw_ops w) (packet_report w (sd_packet p))), (''model_id'', JString (ap_model_id st))])),
               store_result w p sealed (st\<lparr>ap_orch := orch\<rparr>))))"

definition get_compliance_report_json :: "'r http_world \<Rightarrow> string \<Rightarrow> 'r app_state \<Rightarrow> web_response" where
  "get_compliance_report_json w run_id st = (case ap_reports st run_id of
     Some r \<Rightarrow> json_reply 200 (report_json (hw_ops w) r)
   | None \<Rightarrow> json_reply 404 (JObject [(''error'', JString ''run_id not found'')]))"

section \<open>Transcripts, packets and overrides\<close>

definition message_json :: "band_message \<Rightarrow> json" where
  "message_json m = JObject [(''from'', JString (bm_from m)), (''body'', JString (bm_body m)), (''mentions'', jstrs (bm_mentions m)),
     (''ts_ms'', JNumber (show_int (sint (bm_ts_ms m))))]"

definition get_room_transcript :: "'r http_world \<Rightarrow> string \<Rightarrow> (string \<rightharpoonup> string) \<Rightarrow> 'r app_state \<Rightarrow> web_response" where
  "get_room_transcript w room_id params st = (case ap_band_room st of
     None \<Rightarrow> json_reply 503 (JObject [(''error'', JString ''band room not exposed in this build'')])
   | Some history \<Rightarrow>
       if CHR '':'' \<notin> set room_id then json_reply 400 (JObject [(''error'', JString ''room_id must be tenant:invoice'')])
       else let room = hw_uuid_v5 w room_id;
                last_n = (case Option.bind (params ''last_n'') (hw_parse_usize w) of Some n \<Rightarrow> n | None \<Rightarrow> 50);
                all = history (o_rooms (ap_orch st)) room; n = length all; start = n - last_n
            in json_reply 200 (JObject [(''room_id'', JString room), (''total_messages'', jcount n), (''messages'', JArray (map message_json (drop start all)))]))"

definition get_packet_pdf :: "'r http_world \<Rightarrow> string \<Rightarrow> 'r app_state \<Rightarrow> web_response" where
  "get_packet_pdf w packet_id st = (case ap_packets st packet_id of
     None \<Rightarrow> text_reply 404 (''packet '' @ packet_id @ '' not found'')
   | Some p \<Rightarrow> (case hw_pdf w p of
         Inl e \<Rightarrow> text_reply 500 (''PDF render: '' @ e)
       | Inr bytes \<Rightarrow> build_attachment_response w 200 ''application/pdf''
           (''attachment; filename='' @ [CHR 0x22] @ ''themis-'' @ ep_tenant_id (sd_packet p) @ ''-'' @ ep_invoice_id (sd_packet p) @ ''.pdf'' @ [CHR 0x22]) bytes))"

definition get_packet_json :: "'r http_world \<Rightarrow> string \<Rightarrow> 'r app_state \<Rightarrow> web_response" where
  "get_packet_json w packet_id st = (case ap_packets st packet_id of
     None \<Rightarrow> text_reply 404 (''packet '' @ packet_id @ '' not found'')
   | Some p \<Rightarrow> (case hw_pretty w (wire_json (hw_wire w) (from_signed (hw_wire w) (w_codec (hw_orch w)) p (ap_sealed st packet_id))) of
         Inl e \<Rightarrow> text_reply 500 (''serialize flattened packet: '' @ e)
       | Inr bytes \<Rightarrow> build_attachment_response w 200 ''application/json''
           (''attachment; filename='' @ [CHR 0x22] @ ''vouch-'' @ ep_tenant_id (sd_packet p) @ ''-'' @ ep_invoice_id (sd_packet p) @ ''.json'' @ [CHR 0x22]) bytes))"

record human_override_request =
  ho_credential_id :: string
  ho_signature :: string
  ho_user_verified :: bool
  ho_reason :: string

definition post_human_override :: "'r http_world \<Rightarrow> string \<Rightarrow> human_override_request \<Rightarrow> 'r app_state \<Rightarrow> web_response \<times> 'r app_state" where
  "post_human_override w packet_id req st =
     (if \<not> ho_user_verified req then (json_reply 401 (JObject [(''error'', JString ''user_verified flag must be true; WebAuthn ceremony required'')]), st)
      else if trim (ho_reason req) = [] then (json_reply 400 (JObject [(''error'', JString ''reason is required for audit trail'')]), st)
      else let keyid = chars_take 16 (ho_credential_id req); sig_len = length (ho_signature req)
           in (json_reply 200 (JObject [(''status'', JString ''approved''), (''packet_id'', JString packet_id), (''approver_keyid'', JString keyid),
                 (''timestamp_ms'', JNumber (show_int (sint (hw_now_ms w)))), (''signature_bytes'', jcount sig_len),
                 (''audit_trail'', JString ''Event::HumanOverride published to SSE stream'')]),
               bus_publish (HumanOverride packet_id packet_id keyid (hw_now_ms w) (ho_reason req @ '' (sig='' @ show_nat sig_len @ ''B)'')) st))"

section \<open>Sequences of requests\<close>

text \<open>The requests that change the state; the world of a request is what the request found outside the program.\<close>

datatype http_request = PostInvoices post_invoice_request | PostOverride string human_override_request

definition http_update :: "'r http_world \<Rightarrow> http_request \<Rightarrow> 'r app_state \<Rightarrow> 'r app_state" where
  "http_update w rq st = (case rq of PostInvoices req \<Rightarrow> snd (post_invoices w req st) | PostOverride pid req \<Rightarrow> snd (post_human_override w pid req st))"

fun http_session :: "('r http_world \<times> http_request) list \<Rightarrow> 'r app_state \<Rightarrow> 'r app_state" where
  "http_session [] st = st"
| "http_session ((w, rq) # rest) st = http_session rest (http_update w rq st)"

lemma bus_publish_frame [simp]:
  "ap_reports (bus_publish ev st) = ap_reports st" "ap_packets (bus_publish ev st) = ap_packets st" "ap_sealed (bus_publish ev st) = ap_sealed st"
  "ap_model_id (bus_publish ev st) = ap_model_id st" "ap_orch (bus_publish ev st) = publish (\<lambda>_. ev) (ap_orch st)"
  by (simp_all add: bus_publish_def)

lemma store_frame [simp]:
  "ap_reports (store_run r x st) = (ap_reports st)(r \<mapsto> x)" "ap_packets (store_run r x st) = ap_packets st" "ap_sealed (store_run r x st) = ap_sealed st"
  "ap_orch (store_run r x st) = ap_orch st"
  "ap_reports (store_packet p st) = ap_reports st" "ap_packets (store_packet p st) = (ap_packets st)(ep_packet_id (sd_packet p) \<mapsto> p)"
  "ap_sealed (store_packet p st) = ap_sealed st" "ap_orch (store_packet p st) = ap_orch st"
  "ap_reports (store_sealed k s st) = ap_reports st" "ap_packets (store_sealed k s st) = ap_packets st"
  "ap_sealed (store_sealed k s st) = (ap_sealed st)(k \<mapsto> s)" "ap_orch (store_sealed k s st) = ap_orch st"
  by (simp_all add: store_run_def store_packet_def store_sealed_def)

lemma store_result_maps [simp]:
  "ap_reports (store_result w p sealed st) = (ap_reports st)(hw_run_id w \<mapsto> packet_report w (sd_packet p))"
  "ap_packets (store_result w p sealed st) = (ap_packets st)(ep_packet_id (sd_packet p) \<mapsto> p)"
  "ap_sealed (store_result w p sealed st) = (case sealed of None \<Rightarrow> ap_sealed st | Some s \<Rightarrow> (ap_sealed st)(ep_packet_id (sd_packet p) \<mapsto> s))"
  "o_services (ap_orch (store_result w p sealed st)) = o_services (ap_orch st)"
  by (simp_all add: store_result_def Let_def split: option.split)

lemma override_frame [simp]:
  "ap_reports (snd (post_human_override w pid req st)) = ap_reports st" "ap_packets (snd (post_human_override w pid req st)) = ap_packets st"
  "ap_sealed (snd (post_human_override w pid req st)) = ap_sealed st"
  "o_services (ap_orch (snd (post_human_override w pid req st))) = o_services (ap_orch st)"
  by (simp_all add: post_human_override_def Let_def)

subsection \<open>What a run leaves in the orchestrator\<close>

lemma process_invoice_services_any: "o_services (snd (process_invoice w e t i raw st)) = o_services st"
proof (cases "tenants (w_registry w) t")
  case (Some tn)
  obtain r1 rs where o: "w_open w (o_rooms st) t i = (r1, rs)" by (cases "w_open w (o_rooms st) t i")
  show ?thesis
  proof (cases r1)
    case (Inr room)
    obtain r2 rs' where p: "w_post w rs room t ''orchestrator'' (''Processing invoice '' @ i) [] = (r2, rs')"
      by (cases "w_post w rs room t ''orchestrator'' (''Processing invoice '' @ i) []")
    show ?thesis using Some o Inr p process_invoice_services [of w t st i room rs rs' e raw] by (cases r2) (auto simp: process_invoice_def)
  qed (use Some o in \<open>simp add: process_invoice_def\<close>)
qed (simp add: process_invoice_def)

definition seal_of :: "'r orch_world \<Rightarrow> signed_packet \<Rightarrow> sealed_packet \<Rightarrow> bool" where
  "seal_of w p s \<longleftrightarrow> sp_invoice_id s = ep_invoice_id (sd_packet p) \<and>
     (\<exists>payload. pc_json (w_codec w) (sd_packet p) = Inr payload \<and> cr_json (w_crypto w) payload = Inr (sp_payload_canonical_json s))"

lemma seal_signed_seal_of:
  assumes "seal_signed w e p t i st = (Inr s, st')" and "ep_invoice_id (sd_packet p) = i"
  shows "seal_of w p s"
  using assms by (auto simp: seal_signed_def seal_of_def seal_def Let_def split: option.splits sum.splits prod.splits if_splits)

lemma seal_signed_services: "seal_signed w e p t i st = (r, st') \<Longrightarrow> o_services st' = None \<longleftrightarrow> o_services st = None"
  by (auto simp: seal_signed_def split: option.splits sum.splits prod.splits)

lemma run_orchestrator_services: "o_services (snd (run_orchestrator w t i raw st)) = None \<longleftrightarrow> o_services st = None"
proof (cases "process_invoice (hw_orch w) (hw_call w) t i raw st")
  case (Pair r st')
  then have "o_services st' = o_services st" using process_invoice_services_any [of "hw_orch w" "hw_call w" t i raw st] by simp
  then show ?thesis
    using Pair seal_signed_services [where w = "hw_orch w" and e = "hw_call w" and t = t and i = i and st = st']
    by (cases "o_services st"; cases r) (simp_all add: run_orchestrator_def process_invoice_sealed_def split: sum.split prod.split)
qed

lemma run_orchestrator_packet:
  assumes "w_registry (hw_orch w) = with_default_tenants_and_seed (w_crypto (hw_orch w)) seed"
    and "run_orchestrator w t i raw st = (Some (Inr (p, sealed)), st')"
  shows "fst (process_invoice (hw_orch w) (hw_call w) t i raw st) = Some (Inr p)" "packet_of (hw_orch w) (hw_call w) t i p"
    "sd_signature_hex p = [] \<and> sd_public_key_hex p = [] \<or> signed_by (hw_orch w) t p"
    "(case sealed of None \<Rightarrow> o_services st = None | Some s \<Rightarrow> o_services st \<noteq> None \<and> seal_of (hw_orch w) p s)"
proof -
  show run: "fst (process_invoice (hw_orch w) (hw_call w) t i raw st) = Some (Inr p)"
    using assms(2) by (auto simp: run_orchestrator_def process_invoice_sealed_def split: if_splits option.splits sum.splits prod.splits)
  show pk: "packet_of (hw_orch w) (hw_call w) t i p" "sd_signature_hex p = [] \<and> sd_public_key_hex p = [] \<or> signed_by (hw_orch w) t p"
    using process_invoice_signed [OF assms(1) run] by auto
  show "case sealed of None \<Rightarrow> o_services st = None | Some s \<Rightarrow> o_services st \<noteq> None \<and> seal_of (hw_orch w) p s"
    using assms(2) pk(1) seal_signed_seal_of [of "hw_orch w" "hw_call w" p t i]
    by (auto simp: run_orchestrator_def process_invoice_sealed_def packet_of_def split: if_splits option.splits sum.splits prod.splits)
qed

lemma post_invoices_cases:
  obtains (panic) orch where "post_invoices w req st = (None, st\<lparr>ap_orch := orch\<rparr>)" "o_services orch = None \<longleftrightarrow> o_services (ap_orch st) = None"
  | (failed) e orch where "post_invoices w req st = (Some (json_reply 500 (JObject [(''error'', JString (hw_debug w e))])), st\<lparr>ap_orch := orch\<rparr>)"
      "o_services orch = None \<longleftrightarrow> o_services (ap_orch st) = None"
  | (stored) p sealed o1 raw orch where "post_invoices w req st = (Some (json_reply 200 (JObject [(''run_id'', JString (hw_run_id w)),
        (''packet_id'', JString (ep_packet_id (sd_packet p))), (''compliance'', report_json (hw_ops w) (packet_report w (sd_packet p))),
        (''model_id'', JString (ap_model_id st))])), store_result w p sealed (st\<lparr>ap_orch := orch\<rparr>))"
      "run_orchestrator w (pi_tenant_id req) (pi_invoice_id req) raw o1 = (Some (Inr (p, sealed)), orch)" "o_services o1 = o_services (ap_orch st)"
      "o_services orch = None \<longleftrightarrow> o_services (ap_orch st) = None"
proof -
  define st1 where "st1 = bus_publish (AgentStarted (hw_run_id w) ''extractor'') (bus_publish (ProviderActive (hw_run_id w) (ap_model_id st)) st)"
  define raw where "raw = (case hw_unb64 w (pi_raw_b64 req) of Some b \<Rightarrow> b | None \<Rightarrow> [])"
  obtain r orch where run: "run_orchestrator w (pi_tenant_id req) (pi_invoice_id req) raw (ap_orch st1) = (r, orch)" by fastforce
  have sv: "o_services (ap_orch st1) = o_services (ap_orch st)" by (simp add: st1_def)
  have so: "o_services orch = None \<longleftrightarrow> o_services (ap_orch st) = None"
    using run_orchestrator_services [of w "pi_tenant_id req" "pi_invoice_id req" raw "ap_orch st1"] run sv by simp
  have upd: "st1\<lparr>ap_orch := orch\<rparr> = st\<lparr>ap_orch := orch\<rparr>" by (simp add: st1_def bus_publish_def)
  have mid: "ap_model_id st1 = ap_model_id st" by (simp add: st1_def)
  have eq: "post_invoices w req st = (case (r, orch) of
       (None, orch) \<Rightarrow> (None, st\<lparr>ap_orch := orch\<rparr>)
     | (Some (Inl e), orch) \<Rightarrow> (Some (json_reply 500 (JObject [(''error'', JString (hw_debug w e))])), st\<lparr>ap_orch := orch\<rparr>)
     | (Some (Inr (p, sealed)), orch) \<Rightarrow>
         (Some (json_reply 200 (JObject [(''run_id'', JString (hw_run_id w)), (''packet_id'', JString (ep_packet_id (sd_packet p))),
            (''compliance'', report_json (hw_ops w) (packet_report w (sd_packet p))), (''model_id'', JString (ap_model_id st))])),
          store_result w p sealed (st\<lparr>ap_orch := orch\<rparr>)))"
    unfolding post_invoices_def Let_def st1_def [symmetric] raw_def [symmetric] run
    using upd by (simp add: mid split: option.split sum.split)
  consider "r = None" | e where "r = Some (Inl e)" | p sealed where "r = Some (Inr (p, sealed))" by (metis option.exhaust sum.exhaust prod.exhaust)
  then show thesis
  proof cases
    case 1
    then show thesis using eq so by (intro panic [of orch]) auto
  next
    case (2 e)
    then show thesis using eq so by (intro failed [of e orch]) auto
  next
    case (3 p sealed)
    then show thesis using eq so run sv by (intro stored [of p sealed orch raw "ap_orch st1"]) auto
  qed
qed

section \<open>The packet store\<close>

definition stored_ok :: "'r orch_world \<Rightarrow> string \<Rightarrow> signed_packet \<Rightarrow> bool" where
  "stored_ok ow pid p \<longleftrightarrow> ep_packet_id (sd_packet p) = pid \<and> sd_blake3_hash_hex p = packet_blake3_hash (w_codec ow) (sd_packet p) \<and>
     (sd_signature_hex p = [] \<and> sd_public_key_hex p = [] \<or> signed_by ow (ep_tenant_id (sd_packet p)) p)"

definition store_ok :: "'r orch_world \<Rightarrow> 'r app_state \<Rightarrow> bool" where
  "store_ok ow st \<longleftrightarrow> (\<forall>pid p. ap_packets st pid = Some p \<longrightarrow> stored_ok ow pid p) \<and>
     (\<forall>pid s. ap_sealed st pid = Some s \<longrightarrow> (\<exists>p. ap_packets st pid = Some p \<and> seal_of ow p s))"

definition app_inv :: "'r orch_world \<Rightarrow> 'r app_state \<Rightarrow> bool" where
  "app_inv ow st \<longleftrightarrow> store_ok ow st \<and> (o_services (ap_orch st) = None \<longrightarrow> ap_sealed st = Map.empty)"

lemma app_inv_start: "app_inv ow (build_default_state orch room model)"
  by (simp add: app_inv_def store_ok_def build_default_state_def with_band_room_def app_state_new_def)

lemma post_invoices_inv:
  assumes "w_registry ow = with_default_tenants_and_seed (w_crypto ow) seed" and "hw_orch w = ow" and "app_inv ow st"
  shows "app_inv ow (snd (post_invoices w req st))"
proof (cases rule: post_invoices_cases [of w req st])
  case (stored p sealed o1 raw orch)
  note rp = run_orchestrator_packet [OF _ stored(2), of seed, unfolded assms(2), OF assms(1)]
  have "stored_ok ow (ep_packet_id (sd_packet p)) p" using rp(2,3) by (simp add: stored_ok_def packet_of_def)
  then show ?thesis
    using assms(3) rp(4) stored(1,3,4) by (cases sealed) (auto simp: app_inv_def store_ok_def)
qed (use assms(3) in \<open>auto simp: app_inv_def store_ok_def\<close>)

lemma http_update_inv:
  assumes "w_registry ow = with_default_tenants_and_seed (w_crypto ow) seed" and "hw_orch w = ow" and "app_inv ow st"
  shows "app_inv ow (http_update w rq st)"
  using assms post_invoices_inv [OF assms]
  by (cases rq) (simp_all add: http_update_def app_inv_def store_ok_def)

lemma http_session_inv:
  assumes "w_registry ow = with_default_tenants_and_seed (w_crypto ow) seed" and "\<forall>(w, rq) \<in> set rqs. hw_orch w = ow" and "app_inv ow st"
  shows "app_inv ow (http_session rqs st)"
  using assms(2,3)
proof (induction rqs arbitrary: st)
  case (Cons x rqs)
  obtain w rq where x: "x = (w, rq)" by (cases x)
  then show ?case using Cons http_update_inv [OF assms(1), of w st rq] by simp
qed simp

text \<open>Property C13: whatever is posted, the packet store stays sound. After any sequence of invoices and overrides, failed runs included, every
  stored packet is filed under its own identifier, carries the hash of its content and is signed with the key of its tenant or not at
  all, and every stored seal belongs to the packet of the same identifier: it names its invoice and its payload is that packet.\<close>

theorem packet_store_sound:
  assumes "w_registry ow = with_default_tenants_and_seed (w_crypto ow) seed" and "\<forall>(w, rq) \<in> set rqs. hw_orch w = ow"
  shows "store_ok ow (http_session rqs (build_default_state orch room model))"
  using http_session_inv [OF assms app_inv_start] by (simp add: app_inv_def)

section \<open>Downloads\<close>

lemma post_invoices_other:
  assumes "w_registry (hw_orch w) = with_default_tenants_and_seed (w_crypto (hw_orch w)) seed"
  shows "r \<noteq> hw_run_id w \<Longrightarrow> ap_reports (snd (post_invoices w req st)) r = ap_reports st r"
    "k \<noteq> ce_packet_id (hw_call w) \<Longrightarrow> ap_packets (snd (post_invoices w req st)) k = ap_packets st k"
proof -
  show "ap_reports (snd (post_invoices w req st)) r = ap_reports st r" if "r \<noteq> hw_run_id w"
    using that by (cases rule: post_invoices_cases [of w req st]) auto
  show "ap_packets (snd (post_invoices w req st)) k = ap_packets st k" if "k \<noteq> ce_packet_id (hw_call w)"
  proof (cases rule: post_invoices_cases [of w req st])
    case (stored p sealed o1 raw orch)
    then show ?thesis using that run_orchestrator_packet(2) [OF assms stored(2)] by (simp add: packet_of_def)
  qed auto
qed

lemma http_session_keeps:
  assumes "\<forall>(w, rq) \<in> set rqs. w_registry (hw_orch w) = with_default_tenants_and_seed (w_crypto (hw_orch w)) seed \<and> hw_run_id w \<noteq> r \<and> ce_packet_id (hw_call w) \<noteq> k"
  shows "ap_reports (http_session rqs st) r = ap_reports st r \<and> ap_packets (http_session rqs st) k = ap_packets st k"
  using assms
proof (induction rqs arbitrary: st)
  case (Cons x rqs)
  obtain w rq where x: "x = (w, rq)" by (cases x)
  then show ?case
    using Cons post_invoices_other [of w seed] by (cases rq) (auto simp: http_update_def)
qed simp

text \<open>Property C14: a posted invoice can be downloaded and verified. When posting an invoice is answered with status 200, the answer names the
  run and the packet; after any further requests with other runs and packets, the report of the run is served as it was answered, and
  the JSON download of the packet, unless it cannot be printed, is a file for which the offline verifier ends with exit code 0 if the
  packet is signed and with 1 if it is not.\<close>

theorem posted_packet_verifies:
  assumes "w_registry (hw_orch w) = with_default_tenants_and_seed (w_crypto (hw_orch w)) seed" and "codec_agrees (hw_orch w) (hw_wire w) vo"
    and "post_invoices w req st = (Some resp, st')" "hs_status resp = 200"
    and "\<forall>(w', rq) \<in> set rqs. w_registry (hw_orch w') = with_default_tenants_and_seed (w_crypto (hw_orch w')) seed \<and>
           hw_run_id w' \<noteq> hw_run_id w \<and> ce_packet_id (hw_call w') \<noteq> ce_packet_id (hw_call w)"
    and "ce_packet_id (hw_call w) \<noteq> []"
    and "wi_to_iso (hw_wire w) (ce_generated_ms (hw_call w) - 90000) = Some s0" "wi_to_iso (hw_wire w) (ce_generated_ms (hw_call w)) = Some e0"
    and "rfc s0 = Some s0" "rfc e0 = Some e0"
    and "\<And>v bytes. hw_pretty w v = Inr bytes \<Longrightarrow> parse bytes = Inr v"
    and "dl = get_packet_json w (ce_packet_id (hw_call w)) (http_session rqs st')"
  shows "\<exists>p. resp = json_reply 200 (JObject [(''run_id'', JString (hw_run_id w)), (''packet_id'', JString (ce_packet_id (hw_call w))),
        (''compliance'', report_json (hw_ops w) (packet_report w (sd_packet p))), (''model_id'', JString (ap_model_id st))]) \<and>
      packet_of (hw_orch w) (hw_call w) (pi_tenant_id req) (pi_invoice_id req) p \<and> ap_packets (http_session rqs st') (ce_packet_id (hw_call w)) = Some p \<and>
      get_compliance_report_json w (hw_run_id w) (http_session rqs st') = json_reply 200 (report_json (hw_ops w) (packet_report w (sd_packet p))) \<and>
      (hs_status dl = 200 \<or> hs_status dl = 500) \<and>
      (hs_status dl = 200 \<longrightarrow> (\<exists>bytes. hs_body dl = RawBody bytes \<and> (\<forall>read_file path. read_file path = Inr bytes \<longrightarrow>
         verify_exit (verify_run vo rfc read_file parse [prog, path]) = Some (if sd_signature_hex p = [] then 1 else 0))))"
proof -
  obtain p sealed o1 raw orch where
    st: "resp = json_reply 200 (JObject [(''run_id'', JString (hw_run_id w)), (''packet_id'', JString (ep_packet_id (sd_packet p))),
        (''compliance'', report_json (hw_ops w) (packet_report w (sd_packet p))), (''model_id'', JString (ap_model_id st))])"
      "st' = store_result w p sealed (st\<lparr>ap_orch := orch\<rparr>)"
      "run_orchestrator w (pi_tenant_id req) (pi_invoice_id req) raw o1 = (Some (Inr (p, sealed)), orch)"
    using assms(3,4) by (cases rule: post_invoices_cases [of w req st]) (auto simp: json_reply_def)
  note rp = run_orchestrator_packet [OF assms(1) st(3)]
  have pid: "ep_packet_id (sd_packet p) = ce_packet_id (hw_call w)" using rp(2) by (simp add: packet_of_def)
  define sl where "sl = ap_sealed (http_session rqs st') (ce_packet_id (hw_call w))"
  have kept: "ap_reports (http_session rqs st') (hw_run_id w) = Some (packet_report w (sd_packet p))"
    "ap_packets (http_session rqs st') (ce_packet_id (hw_call w)) = Some p"
    using http_session_keeps [OF assms(5), of st'] st(2) pid by auto
  let ?v = "wire_json (hw_wire w) (from_signed (hw_wire w) (w_codec (hw_orch w)) p sl)"
  have dl: "hs_status dl = 200 \<or> hs_status dl = 500" "hs_status dl = 200 \<Longrightarrow> \<exists>bytes. hs_body dl = RawBody bytes \<and> hw_pretty w ?v = Inr bytes"
    using kept(2) assms(12)
    by (auto simp: get_packet_json_def build_attachment_response_def text_reply_def sl_def split: sum.splits option.splits)
  have "verify_exit (verify_run vo rfc read_file parse [prog, path]) = Some (if sd_signature_hex p = [] then 1 else 0)"
    if "read_file path = Inr bytes" "hw_pretty w ?v = Inr bytes" for read_file path bytes
    by (rule served_verify [where rfc = rfc and parse = parse and read_file = read_file and path = path,
          OF assms(2,1) rp(1) assms(6-10) that(1) assms(11) [OF that(2)]])
  then show ?thesis
    using st(1) rp(2) kept pid dl by (intro exI [of _ p]) (auto simp: get_compliance_report_json_def)
qed

definition sample_compliance_ops :: compliance_ops where
  "sample_compliance_ops = \<lparr>co_blake3_hex = (\<lambda>s. s), co_to_string = (\<lambda>_. []), co_f32_json = (\<lambda>_. JNull), co_mean = (\<lambda>_. 0), co_ratio = (\<lambda>_ _. 0), co_version = ''0''\<rparr>"

definition http_world_with :: "string \<Rightarrow> call_env \<Rightarrow> (json \<Rightarrow> string + string) \<Rightarrow> unit http_world" where
  "http_world_with run e pretty = \<lparr>hw_orch = wire_world, hw_call = e, hw_run_id = run, hw_now_ms = 0, hw_unb64 = Some, hw_ops = sample_compliance_ops,
     hw_f32_sub = (\<lambda>a b. a), hw_wire = sample_wire_ops, hw_pretty = pretty, hw_pdf = (\<lambda>_. Inl []), hw_header = (\<lambda>_. None), hw_uuid_v5 = (\<lambda>s. s),
     hw_debug = (\<lambda>_. []), hw_outcome_debug = (\<lambda>_. []), hw_parse_usize = (\<lambda>_. None), hw_event_json = (\<lambda>_. [])\<rparr>"

definition http_start :: "unit app_state" where
  "http_start = build_default_state ((toy_start None None)\<lparr>o_services := None\<rparr>) (\<lambda>_ _. []) ''m''"

definition stark_invoice :: post_invoice_request where
  "stark_invoice = \<lparr>pi_tenant_id = ''stark'', pi_invoice_id = ''i'', pi_raw_b64 = ''raw''\<rparr>"

lemma http_start_parts [simp]:
  "o_services (ap_orch http_start) = None" "o_human (ap_orch http_start) = None" "o_rogue (ap_orch http_start) = None" "ap_model_id http_start = ''m''"
  "o_bus (ap_orch http_start) = Some []"
  by (simp_all add: http_start_def build_default_state_def with_band_room_def app_state_new_def toy_start_def toy_start_on_def)

lemma wire_world_registry: "w_registry wire_world = with_default_tenants_and_seed (w_crypto wire_world) ''seed''"
  by (simp add: wire_world_def toy_world_def toy_world_on_def toy_registry_def)

lemma post_stark:
  obtains p where "sd_signature_hex p \<noteq> []" "\<forall>run pretty. post_invoices (http_world_with run toy_env pretty) stark_invoice http_start =
    (Some (json_reply 200 (JObject [(''run_id'', JString run), (''packet_id'', JString ''p''),
        (''compliance'', report_json sample_compliance_ops (packet_report (http_world_with run toy_env pretty) (sd_packet p))), (''model_id'', JString ''m'')])),
     snd (post_invoices (http_world_with run toy_env pretty) stark_invoice http_start))"
    "\<forall>run pretty. ap_packets (snd (post_invoices (http_world_with run toy_env pretty) stark_invoice http_start)) ''p'' = Some p"
proof -
  let ?st = "\<lambda>run. ap_orch (bus_publish (AgentStarted run ''extractor'') (bus_publish (ProviderActive run ''m'') http_start))"
  have q: "o_human (?st run) = None" "o_rogue (?st run) = None" "o_services (?st run) = None" for run by (simp_all add: publish_def split: option.split)
  obtain p where p: "sign wire_world (assemble toy_env ''stark'' ''i'' [] Approve) ''stark'' = Inr p" "sd_signature_hex p \<noteq> []"
    by (simp add: sign_def wire_world_def toy_defs wrap_def sign_hex_def toy_crypto_def hex_encode_def hex_byte_def)
  have run: "fst (process_invoice wire_world toy_env ''stark'' ''i'' ''raw'' (?st run)) = Some (Inr p)" for run
    using process_invoice_result [of wire_world "''stark''" "?st run" "''i''" "''r''" "()" "()" toy_env "''raw''"] p(1)
    by (simp add: wire_world_def toy_world_def toy_world_on_def toy_registry_def with_default_tenants_and_seed_def stages_def)
  have id: "ep_packet_id (sd_packet p) = ''p''"
    using process_invoice_signed [OF wire_world_registry run] by (simp add: packet_of_def toy_env_def)
  have ro: "\<exists>o'. run_orchestrator (http_world_with run toy_env pretty) ''stark'' ''i'' ''raw'' (?st run) = (Some (Inr (p, None)), o')" for run pretty
    using run [of run] q(3) [of run]
    by (cases "process_invoice wire_world toy_env ''stark'' ''i'' ''raw'' (?st run)") (simp add: run_orchestrator_def http_world_with_def)
  show thesis
  proof (rule that [of p]; (intro allI)?)
    fix run pretty
    obtain o' where o': "run_orchestrator (http_world_with run toy_env pretty) ''stark'' ''i'' ''raw'' (?st run) = (Some (Inr (p, None)), o')" using ro by blast
    have w: "hw_run_id (http_world_with run toy_env pretty) = run" "hw_unb64 (http_world_with run toy_env pretty) = Some"
      "hw_ops (http_world_with run toy_env pretty) = sample_compliance_ops"
      by (simp_all add: http_world_with_def)
    have eq: "post_invoices (http_world_with run toy_env pretty) stark_invoice http_start =
        (Some (json_reply 200 (JObject [(''run_id'', JString run), (''packet_id'', JString ''p''),
          (''compliance'', report_json sample_compliance_ops (packet_report (http_world_with run toy_env pretty) (sd_packet p))), (''model_id'', JString ''m'')])),
         store_result (http_world_with run toy_env pretty) p None
           (bus_publish (AgentStarted run ''extractor'') (bus_publish (ProviderActive run ''m'') http_start)\<lparr>ap_orch := o'\<rparr>))"
      unfolding post_invoices_def Let_def w using o' id by (simp add: stark_invoice_def)
    then show "post_invoices (http_world_with run toy_env pretty) stark_invoice http_start =
      (Some (json_reply 200 (JObject [(''run_id'', JString run), (''packet_id'', JString ''p''),
          (''compliance'', report_json sample_compliance_ops (packet_report (http_world_with run toy_env pretty) (sd_packet p))), (''model_id'', JString ''m'')])),
       snd (post_invoices (http_world_with run toy_env pretty) stark_invoice http_start))"
      by simp
    show "ap_packets (snd (post_invoices (http_world_with run toy_env pretty) stark_invoice http_start)) ''p'' = Some p" using eq id by simp
  qed (rule p(2))
qed

lemma http_session_services: "o_services (ap_orch (http_session rqs st)) = None \<longleftrightarrow> o_services (ap_orch st) = None"
proof (induction rqs arbitrary: st)
  case (Cons x rqs)
  obtain w rq where x: "x = (w, rq)" by (cases x)
  have "o_services (ap_orch (snd (post_invoices w req st))) = None \<longleftrightarrow> o_services (ap_orch st) = None" for req
    by (cases rule: post_invoices_cases [of w req st]) auto
  then show ?case using Cons x by (cases rq) (simp_all add: http_update_def)
qed simp

lemma http_start_default: "http_start = build_default_state ((toy_start None None)\<lparr>o_services := None\<rparr>) (\<lambda>_ _. []) ''m''"
  by (simp add: http_start_def)

theorem packet_store_sound_witness:
  "store_ok wire_world (http_session [(http_world_with ''run'' toy_env (\<lambda>_. Inl []), PostInvoices stark_invoice)] http_start) \<and>
   ap_packets (http_session [(http_world_with ''run'' toy_env (\<lambda>_. Inl []), PostInvoices stark_invoice)] http_start) \<noteq> Map.empty"
proof
  show "store_ok wire_world (http_session [(http_world_with ''run'' toy_env (\<lambda>_. Inl []), PostInvoices stark_invoice)] http_start)"
    unfolding http_start_default
    by (rule packet_store_sound [OF wire_world_registry]) (simp add: http_world_with_def)
  obtain p where "\<forall>run pretty. ap_packets (snd (post_invoices (http_world_with run toy_env pretty) stark_invoice http_start)) ''p'' = Some p"
    by (rule post_stark)
  from this [rule_format, of "''run''" "\<lambda>_. Inl []"]
  show "ap_packets (http_session [(http_world_with ''run'' toy_env (\<lambda>_. Inl []), PostInvoices stark_invoice)] http_start) \<noteq> Map.empty"
    by (intro notI) (simp add: http_update_def)
qed

theorem posted_packet_verifies_witness:
  "\<exists>(p :: signed_packet) pretty v dl. sd_signature_hex p \<noteq> [] \<and>
     dl = get_packet_json (http_world_with ''run'' toy_env pretty) ''p'' (http_session
         [(http_world_with ''later'' (toy_env\<lparr>ce_packet_id := ''q''\<rparr>) pretty, PostInvoices stark_invoice)]
         (snd (post_invoices (http_world_with ''run'' toy_env pretty) stark_invoice http_start))) \<and>
     hs_status dl = 200 \<and> hs_body dl = RawBody ''x'' \<and>
     verify_exit (verify_run sample_verify Some (\<lambda>_. Inr ''x'') (\<lambda>_. Inr v) [''tl-verify'', ''f'']) = Some 0"
proof -
  obtain p where p: "sd_signature_hex p \<noteq> []"
    "\<forall>run pretty. post_invoices (http_world_with run toy_env pretty) stark_invoice http_start =
      (Some (json_reply 200 (JObject [(''run_id'', JString run), (''packet_id'', JString ''p''),
        (''compliance'', report_json sample_compliance_ops (packet_report (http_world_with run toy_env pretty) (sd_packet p))), (''model_id'', JString ''m'')])),
      snd (post_invoices (http_world_with run toy_env pretty) stark_invoice http_start))"
    "\<forall>run pretty. ap_packets (snd (post_invoices (http_world_with run toy_env pretty) stark_invoice http_start)) ''p'' = Some p"
    by (rule post_stark)
  note p = p(1) p(2) [rule_format] p(3) [rule_format]
  define v where "v = wire_json sample_wire_ops (from_signed sample_wire_ops (w_codec wire_world) p None)"
  define w where "w = http_world_with ''run'' toy_env (\<lambda>u. if u = v then Inr ''x'' else Inl [])"
  define later where "later = [(http_world_with ''later'' (toy_env\<lparr>ce_packet_id := ''q''\<rparr>) (\<lambda>u. if u = v then Inr ''x'' else Inl []), PostInvoices stark_invoice)]"
  define st' where "st' = snd (post_invoices w stark_invoice http_start)"
  define dl where "dl = get_packet_json w ''p'' (http_session later st')"
  have w: "hw_orch w = wire_world" "hw_call w = toy_env" "hw_run_id w = ''run''" "hw_wire w = sample_wire_ops" "ce_packet_id toy_env = ''p''"
    "hw_pretty w = (\<lambda>u. if u = v then Inr ''x'' else Inl [])" "hw_header w = (\<lambda>_. None)"
    by (simp_all add: w_def http_world_with_def toy_env_def)
  have fresh: "\<forall>(w', rq) \<in> set later. w_registry (hw_orch w') = with_default_tenants_and_seed (w_crypto (hw_orch w')) ''seed'' \<and>
      hw_run_id w' \<noteq> hw_run_id w \<and> ce_packet_id (hw_call w') \<noteq> ce_packet_id (hw_call w)"
    using wire_world_registry w by (simp add: later_def http_world_with_def)
  have inv: "app_inv wire_world (http_session ((w, PostInvoices stark_invoice) # later) http_start)"
    by (rule http_session_inv [OF wire_world_registry])
      (simp_all add: later_def http_world_with_def w app_inv_start http_start_default)
  then have "ap_sealed (http_session later st') ''p'' = None"
    using http_session_services [of "(w, PostInvoices stark_invoice) # later" http_start] by (simp add: app_inv_def st'_def http_update_def)
  moreover have kept: "ap_packets (http_session later st') ''p'' = Some p"
    using http_session_keeps [OF fresh, of st'] p(3) w by (simp add: st'_def w_def)
  ultimately have dl: "hs_status dl = 200" "hs_body dl = RawBody ''x''"
    by (simp_all add: dl_def get_packet_json_def build_attachment_response_def w v_def)
  have parse: "Inr v = Inr u" if "hw_pretty w u = Inr bytes" for u bytes using that w by (simp split: if_splits)
  define resp where "resp = json_reply 200 (JObject [(''run_id'', JString ''run''), (''packet_id'', JString ''p''),
        (''compliance'', report_json sample_compliance_ops (packet_report w (sd_packet p))), (''model_id'', JString ''m'')])"
  have post: "post_invoices w stark_invoice http_start = (Some resp, st')"
    using p(2) [of "''run''"] by (simp add: resp_def w_def st'_def)
  have "w_registry (hw_orch w) = with_default_tenants_and_seed (w_crypto (hw_orch w)) ''seed''" "codec_agrees (hw_orch w) (hw_wire w) sample_verify"
    using wire_world_registry wire_world_agrees w by simp_all
  note ppv = posted_packet_verifies [OF this post _ fresh, where parse = "\<lambda>_. Inr v" and rfc = Some and dl = dl and prog = "''tl-verify''" and ?s0.0 = "''t''" and ?e0.0 = "''t''"]
  have "\<exists>p'. ap_packets (http_session later st') ''p'' = Some p' \<and> (\<forall>read_file path. read_file path = Inr ''x'' \<longrightarrow>
      verify_exit (verify_run sample_verify Some read_file (\<lambda>_. Inr v) [''tl-verify'', path]) = Some (if sd_signature_hex p' = [] then 1 else 0))"
    using ppv parse dl kept by (simp add: resp_def json_reply_def w dl_def sample_wire_ops_def)
  then have "verify_exit (verify_run sample_verify Some (\<lambda>_. Inr ''x'') (\<lambda>_. Inr v) [''tl-verify'', ''f'']) = Some 0"
    using kept p(1) by auto
  note ok = this
  show ?thesis
    by (intro exI [of _ p] exI [of _ "\<lambda>u. if u = v then Inr ''x'' else Inl ([]::string)"] exI [of _ v] exI [of _ dl] conjI)
      (use p(1) dl ok in \<open>simp_all only: dl_def st'_def w_def later_def not_False_eq_True\<close>)
qed

section \<open>The event stream of a run\<close>

definition pipeline_event :: "event \<Rightarrow> bool" where
  "pipeline_event ev \<longleftrightarrow> type_str ev \<in> {''provider_active'', ''agent_handoff'', ''incident_reported'', ''baaar_halt'', ''agent_completed''}"

definition bus_ext :: "'r orchestrator \<Rightarrow> 'r orchestrator \<Rightarrow> bool" where
  "bus_ext st st' \<longleftrightarrow> (case o_bus st of None \<Rightarrow> o_bus st' = None | Some es \<Rightarrow> \<exists>es'. o_bus st' = Some (es @ es') \<and> list_all pipeline_event es')"

named_theorems bus_intros

lemma bus_ext_refl [bus_intros, simp]: "o_bus st' = o_bus st \<Longrightarrow> bus_ext st st'"
  by (auto simp: bus_ext_def split: option.split)

lemma bus_ext_trans: "bus_ext st st' \<Longrightarrow> bus_ext st' st'' \<Longrightarrow> bus_ext st st''"
  by (fastforce simp: bus_ext_def split: option.splits)

lemma publish_ext [bus_intros]: "(\<And>n. pipeline_event (ev n)) \<Longrightarrow> bus_ext st (publish ev st)"
  by (auto simp: bus_ext_def publish_def split: option.split)

lemma handoff_ext: "bus_ext st (publish_handoff_event w e room t n d (publish_provider_event e n st))"
proof -
  have "bus_ext st (publish_provider_event e n st)" by (simp add: publish_provider_event_def publish_ext pipeline_event_def type_str_def)
  moreover have "bus_ext st' (publish_handoff_event w e room t n d st')" for st'
    using publish_ext [of "\<lambda>k. AgentHandoff (ce_run_id e k) n (hd (next_agent_mention n)) (chars_take 200 (ad_reasoning d))" st']
    by (auto simp: publish_handoff_event_def Let_def bus_ext_def pipeline_event_def type_str_def split: list.splits option.splits)
  ultimately show ?thesis by (rule bus_ext_trans)
qed

lemma baaar_ext: "bus_ext st (snd (snd (check_baaar_and_maybe_halt w e t i n d l st)))"
proof -
  have "bus_ext st (publish (\<lambda>k. BaaarHalt (r k) a b) (publish (\<lambda>k. IncidentReported (r k) s m x y z) st))" for r a b s m x y z
    by (intro bus_ext_trans [OF publish_ext publish_ext]) (simp_all add: pipeline_event_def type_str_def)
  then show ?thesis by (auto simp: check_baaar_and_maybe_halt_def Let_def split: outcome.split sum.split prod.split)
qed

lemma observe_bus: "o_bus (snd (observe_rogue n st)) = o_bus st"
  by (simp add: observe_rogue_def Let_def split: option.split)

lemma run_stage_ext: "bus_ext st (snd (snd (run_stage w e t i raw room n s l st)))"
proof -
  obtain a sm where adv: "advance_to e s (rl_sm l) = (a, sm)" by fastforce
  obtain q st1 where ob: "observe_rogue n st = (q, st1)" by fastforce
  have st1: "bus_ext st st1" using observe_bus [of n st] ob by simp
  have run: "bus_ext st (snd (snd (check_baaar_and_maybe_halt w e t i n d l' (publish_handoff_event w e room t n d (publish_provider_event e n st1)))))" for d l'
    using bus_ext_trans [OF bus_ext_trans [OF st1 handoff_ext] baaar_ext] .
  show ?thesis
  proof (cases a)
    case (Inr u)
    show ?thesis
    proof (cases "w_agents w n")
      case (Some agent)
      show ?thesis
      proof (cases "q \<or> (\<exists>err. agent (stage_context t i raw n (rl_decisions l)) = Inl err)")
        case True
        then show ?thesis using adv Inr Some ob st1 by (auto simp: run_stage_def Let_def)
      next
        case False
        then obtain d where d: "\<not> q" "agent (stage_context t i raw n (rl_decisions l)) = Inr d" by (meson old.sum.exhaust)
        obtain c l2 st2 where c: "check_baaar_and_maybe_halt w e t i n d (l\<lparr>rl_sm := sm, rl_decisions := rl_decisions l @ [d]\<rparr>)
            (publish_handoff_event w e room t n d (publish_provider_event e n st1)) = (c, l2, st2)" by (metis prod_cases3)
        then show ?thesis
          using adv Inr Some ob d run [of d "l\<lparr>rl_sm := sm, rl_decisions := rl_decisions l @ [d]\<rparr>"]
          by (cases c) (simp_all add: run_stage_def Let_def split: bool.split)
      qed
    qed (use adv Inr in \<open>simp add: run_stage_def Let_def\<close>)
  qed (use adv in \<open>simp add: run_stage_def\<close>)
qed

lemma run_stages_ext: "bus_ext st (snd (snd (run_stages w e t i raw room ss l st)))"
proof (induction ss arbitrary: l st)
  case (Cons x ss)
  obtain n s where x: "x = (n, s)" by (cases x)
  obtain fl l' st' where r: "run_stage w e t i raw room n s l st = (fl, l', st')" by (metis prod_cases3)
  then have "bus_ext st st'" using run_stage_ext [of st w e t i raw room n s l] by simp
  then show ?case using x r Cons.IH [of st' l'] bus_ext_trans by (cases fl) auto
qed simp

lemma finish_run_ext: "bus_ext st (snd (finish_run w e t i l st))"
proof -
  obtain b st1 where d: "destructive_blocked e st = (b, st1)" by fastforce
  have b1: "bus_ext st st1" using d by (auto simp: destructive_blocked_def split: option.splits prod.splits)
  have "bus_ext st (publish (\<lambda>k. AgentCompleted (ce_run_id e k) ''pipeline'' 0 0 0) (st1\<lparr>o_machines := m\<rparr>))" for m
    by (rule bus_ext_trans [OF bus_ext_trans [OF b1 bus_ext_refl] publish_ext]) (simp_all add: pipeline_event_def type_str_def)
  then show ?thesis using b1 d by (auto simp: finish_run_def Let_def split: option.split sum.split)
qed

lemma process_invoice_ext: "bus_ext st (snd (process_invoice w e t i raw st))"
proof (cases "tenants (w_registry w) t")
  case (Some tn)
  obtain r1 rs where o: "w_open w (o_rooms st) t i = (r1, rs)" by (cases "w_open w (o_rooms st) t i")
  show ?thesis
  proof (cases r1)
    case (Inr room)
    obtain r2 rs' where p: "w_post w rs room t ''orchestrator'' (''Processing invoice '' @ i) [] = (r2, rs')"
      by (cases "w_post w rs room t ''orchestrator'' (''Processing invoice '' @ i) []")
    let ?l = "\<lparr>rl_sm = sm_new (ce_now e 0), rl_decisions = [], rl_outcome = Approve\<rparr>"
    obtain r l st1 where rn: "run_stages w e t i raw room stages ?l (st\<lparr>o_rooms := rs'\<rparr>) = (r, l, st1)" by (metis prod_cases3)
    have "bus_ext st st1"
      using bus_ext_trans [OF bus_ext_refl run_stages_ext [of "st\<lparr>o_rooms := rs'\<rparr>" w e t i raw room stages ?l]] rn by simp
    then show ?thesis
      using Some o Inr p rn bus_ext_trans [OF _ finish_run_ext [of st1 w e t i l]]
      by (cases r2; cases r) (simp_all add: process_invoice_def)
  qed (use Some o in \<open>simp add: process_invoice_def\<close>)
qed (simp add: process_invoice_def)

lemma run_orchestrator_ext: "bus_ext st (snd (run_orchestrator w t i raw st))"
proof (cases "process_invoice (hw_orch w) (hw_call w) t i raw st")
  case (Pair r st')
  then have "bus_ext st st'" using process_invoice_ext [of st "hw_orch w" "hw_call w" t i raw] by simp
  moreover have "bus_ext st' st3" if "seal_signed w2 e p t i st' = (x, st3)" for w2 e p x st3
    using that by (intro bus_ext_refl) (auto simp: seal_signed_def split: option.splits sum.splits prod.splits)
  ultimately have "bus_ext st st' \<and> (\<forall>w2 e p x st3. seal_signed w2 e p t i st' = (x, st3) \<longrightarrow> bus_ext st st3)" by (blast intro: bus_ext_trans)
  then show ?thesis
    using Pair by (auto simp: run_orchestrator_def process_invoice_sealed_def split: option.split sum.split prod.split)
qed

definition finishes :: "event \<Rightarrow> bool" where
  "finishes ev \<longleftrightarrow> type_str ev = ''run_finished''"

text \<open>Property C16: a run that fails is never reported as over. Posting an invoice only appends to the event stream, starting with the model and the
  extractor; the last events of a successful run are the sealing of its packet and the end of the run, once; a run that fails or panics
  appends no end at all, so a client of the stream waits for it in vain.\<close>

theorem failed_run_never_finishes:
  assumes "o_bus (ap_orch st) = Some es" and "post_invoices w req st = (resp, st')"
  shows "\<exists>es'. o_bus (ap_orch st') = Some (es @ [ProviderActive (hw_run_id w) (ap_model_id st), AgentStarted (hw_run_id w) ''extractor''] @ es') \<and>
    (if map_option hs_status resp = Some 200
     then \<exists>ev pid. es' = ev @ [EvidenceSealed (hw_run_id w) pid, RunFinished (hw_run_id w)] \<and> list_all (\<lambda>e. \<not> finishes e) ev \<and> pid \<in> dom (ap_packets st')
     else list_all (\<lambda>e. \<not> finishes e) es')"
proof -
  define start where "start = es @ [ProviderActive (hw_run_id w) (ap_model_id st), AgentStarted (hw_run_id w) ''extractor'']"
  define st1 where "st1 = bus_publish (AgentStarted (hw_run_id w) ''extractor'') (bus_publish (ProviderActive (hw_run_id w) (ap_model_id st)) st)"
  define raw where "raw = (case hw_unb64 w (pi_raw_b64 req) of Some b \<Rightarrow> b | None \<Rightarrow> [])"
  obtain r orch where run: "run_orchestrator w (pi_tenant_id req) (pi_invoice_id req) raw (ap_orch st1) = (r, orch)" by fastforce
  have "o_bus (ap_orch st1) = Some start" using assms(1) by (simp add: st1_def publish_def start_def)
  then obtain mid where mid: "o_bus orch = Some (start @ mid)" "list_all pipeline_event mid"
    using run_orchestrator_ext [of "ap_orch st1" w "pi_tenant_id req" "pi_invoice_id req" raw] run by (auto simp: bus_ext_def)
  then have quiet: "list_all (\<lambda>e. \<not> finishes e) mid" by (auto simp: list_all_iff pipeline_event_def finishes_def)
  have eq: "post_invoices w req st = (case r of
       None \<Rightarrow> (None, st1\<lparr>ap_orch := orch\<rparr>)
     | Some (Inl e) \<Rightarrow> (Some (json_reply 500 (JObject [(''error'', JString (hw_debug w e))])), st1\<lparr>ap_orch := orch\<rparr>)
     | Some (Inr (p, sealed)) \<Rightarrow>
         (Some (json_reply 200 (JObject [(''run_id'', JString (hw_run_id w)), (''packet_id'', JString (ep_packet_id (sd_packet p))),
            (''compliance'', report_json (hw_ops w) (packet_report w (sd_packet p))), (''model_id'', JString (ap_model_id st1))])),
          store_result w p sealed (st1\<lparr>ap_orch := orch\<rparr>)))"
    unfolding post_invoices_def Let_def st1_def [symmetric] raw_def [symmetric] run by (simp split: option.split sum.split)
  show ?thesis
  proof (cases "\<exists>p sealed. r = Some (Inr (p, sealed))")
    case True
    then obtain p sealed where r: "r = Some (Inr (p, sealed))" by blast
    define ds where "ds = (case dispute_event w (sd_packet p) of Some ev \<Rightarrow> [ev] | None \<Rightarrow> [])"
    have ds: "list_all (\<lambda>e. \<not> finishes e) ds"
      by (auto simp: ds_def dispute_event_def finishes_def type_str_def Let_def split: option.splits)
    have "o_bus (ap_orch st') = Some (start @ mid @ ds @ [EvidenceSealed (hw_run_id w) (ep_packet_id (sd_packet p)), RunFinished (hw_run_id w)])"
      using assms(2) eq r mid(1) by (auto simp: store_result_def Let_def publish_def ds_def split: option.split)
    moreover have "map_option hs_status resp = Some 200" "ep_packet_id (sd_packet p) \<in> dom (ap_packets st')"
      using assms(2) eq r by (auto simp: json_reply_def)
    ultimately show ?thesis
      using quiet ds by (intro exI [of _ "mid @ ds @ [EvidenceSealed (hw_run_id w) (ep_packet_id (sd_packet p)), RunFinished (hw_run_id w)]"])
        (auto simp: start_def intro!: exI [of _ "mid @ ds"])
  next
    case False
    then have "map_option hs_status resp \<noteq> Some 200" "ap_orch st' = orch"
      using assms(2) eq by (auto simp: json_reply_def split: option.splits sum.splits)
    then show ?thesis using mid(1) quiet by (auto simp: start_def)
  qed
qed

text \<open>A tenant that is not registered: the run fails before the pipeline, and its stream stops after the extractor's start.\<close>

theorem failed_run_never_finishes_witness:
  "\<exists>resp st'. post_invoices (http_world_with ''run'' toy_env (\<lambda>_. Inl [])) (stark_invoice\<lparr>pi_tenant_id := ''nobody''\<rparr>) http_start = (Some resp, st') \<and> hs_status resp = 500 \<and>
     (\<exists>es'. o_bus (ap_orch st') = Some ([ProviderActive ''run'' ''m'', AgentStarted ''run'' ''extractor''] @ es') \<and> list_all (\<lambda>e. \<not> finishes e) es')"
proof -
  let ?w = "http_world_with ''run'' toy_env (\<lambda>_. Inl [])" and ?q = "stark_invoice\<lparr>pi_tenant_id := ''nobody''\<rparr>"
  have "tenants (w_registry wire_world) ''nobody'' = None"
    by (simp add: wire_world_registry with_default_tenants_and_seed_def)
  then have "run_orchestrator ?w ''nobody'' i raw (ap_orch (bus_publish a (bus_publish b http_start))) = (Some (Inl (TenantErr (UnknownTenant ''nobody''))),
      ap_orch (bus_publish a (bus_publish b http_start)))" for a b i raw
    by (simp add: run_orchestrator_def process_invoice_def http_world_with_def publish_def)
  then obtain resp st' where r: "post_invoices ?w ?q http_start = (Some resp, st')" "hs_status resp = 500"
    by (simp add: post_invoices_def Let_def stark_invoice_def json_reply_def)
  then show ?thesis
    using failed_run_never_finishes [OF _ r(1), of "[]"] by (simp add: http_world_with_def)
qed

section \<open>Overrides and transcripts\<close>

text \<open>Fact: an override is accepted on the client's word. The answer is 200 exactly if the request says that the user was verified and
  gives a reason; neither the packet, which may be unknown, nor the credential or the signature is looked at.\<close>

lemma override_unchecked:
  "hs_status (fst (post_human_override w pid req st)) = 200 \<longleftrightarrow> ho_user_verified req \<and> trim (ho_reason req) \<noteq> []"
  "hs_status (fst (post_human_override w pid req st)) = 200 \<Longrightarrow> snd (post_human_override w pid req st) =
     bus_publish (HumanOverride pid pid (chars_take 16 (ho_credential_id req)) (hw_now_ms w) (ho_reason req @ '' (sig='' @ show_nat (length (ho_signature req)) @ ''B)'')) st"
  by (auto simp: post_human_override_def json_reply_def Let_def)

text \<open>Fact: storing a packet replaces the one with the same identifier.\<close>

lemma store_packet_overwrites:
  "ep_packet_id (sd_packet p) = ep_packet_id (sd_packet q) \<Longrightarrow> ap_packets (store_packet q (store_packet p st)) (ep_packet_id (sd_packet p)) = Some q"
  by simp

end
