(* ===== verification/A2a.thy ===== *)
theory A2a
  imports HttpApi Canary
begin

text \<open>
  \<^verbatim>\<open>crates/themis-orchestrator/src/a2a_handler.rs\<close>: the A2A JSON-RPC endpoint of the orchestrator with its two in-process stores, the tasks
  and the verdicts of peer agents. Reading an envelope (serde's derived reader), numbers, UUIDs (their canonical text) and the clock are
  parameters; no response is a panic of the orchestrator.
\<close>

section \<open>Envelopes\<close>

record a2a_request =
  aq_jsonrpc :: "string option"
  aq_id :: "json option"
  aq_method :: "string option"
  aq_params :: json

definition A2A_JSONRPC_VERSION :: string where "A2A_JSONRPC_VERSION = ''2.0''"
definition ERR_PARSE :: int where "ERR_PARSE = -32700"
definition ERR_INVALID_REQUEST :: int where "ERR_INVALID_REQUEST = -32600"
definition A2A_METHOD_NOT_FOUND :: int where "A2A_METHOD_NOT_FOUND = -32601"
definition A2A_INVALID_PARAMS :: int where "A2A_INVALID_PARAMS = -32602"
definition A2A_ERR_INTERNAL :: int where "A2A_ERR_INTERNAL = -32603"

definition jsonrpc_success :: "nat \<Rightarrow> json \<Rightarrow> json \<Rightarrow> web_response" where
  "jsonrpc_success status rid result =
     json_reply status (JObject [(''jsonrpc'', JString A2A_JSONRPC_VERSION), (''id'', rid), (''result'', result)])"

definition jsonrpc_error :: "nat \<Rightarrow> json \<Rightarrow> int \<Rightarrow> string \<Rightarrow> web_response" where
  "jsonrpc_error status rid err_code message =
     json_reply status (JObject [(''jsonrpc'', JString A2A_JSONRPC_VERSION), (''id'', rid),
       (''error'', JObject [(''code'', JNumber (show_int err_code)), (''message'', JString message)])])"

section \<open>State\<close>

record a2a_task =
  at_run_id :: string
  at_tenant_id :: string
  at_invoice_id :: string
  at_packet_id :: string

record 'r a2a_state =
  as_app :: "'r app_state"
  as_tasks :: "string \<rightharpoonup> a2a_task"
  as_verdicts :: "string \<rightharpoonup> peer_verdict list"

definition a2a_new :: "'r app_state \<Rightarrow> 'r a2a_state" where
  "a2a_new app = \<lparr>as_app = app, as_tasks = Map.empty, as_verdicts = Map.empty\<rparr>"

record 'r a2a_world =
  aw_http :: "'r http_world"
  aw_read :: "string \<Rightarrow> string + a2a_request"
  aw_uuid :: "string \<Rightarrow> string option"
  aw_f64 :: "json \<Rightarrow> 64 word option"
  aw_i64 :: "json \<Rightarrow> i64 option"
  aw_f64_json :: "64 word \<Rightarrow> json"
  aw_card :: "json option"

section \<open>Authorization\<close>

definition bearer_prefix :: string where "bearer_prefix = ''Ed25519Bearer ''"

definition mock_ed25519_bearer_check :: "string option \<Rightarrow> string option" where
  "mock_ed25519_bearer_check header =
     (let auth = (case header of Some s \<Rightarrow> s | None \<Rightarrow> []); sig = drop (length bearer_prefix) auth
      in if auth = [] then Some ''missing Authorization header''
         else if take (length bearer_prefix) auth \<noteq> bearer_prefix then Some (''expected scheme '' @ [CHR 0x27] @ ''Ed25519Bearer'' @ [CHR 0x27])
         else if sig = [] then Some ''empty signature''
         else if length sig < 16 then Some ''signature too short (need >=16 hex chars)''
         else if \<not> list_all is_ascii_hexdigit sig then Some ''signature contains non-hex chars''
         else None)"

section \<open>Methods\<close>

definition str_param :: "json \<Rightarrow> string \<Rightarrow> string option" where
  "str_param v name = Option.bind (json_get v name) as_str"

definition nonempty_param :: "json \<Rightarrow> string \<Rightarrow> string option" where
  "nonempty_param v name = filter_opt (\<lambda>s. s \<noteq> []) (str_param v name)"

definition is_object :: "json \<Rightarrow> bool" where
  "is_object v = (case v of JObject _ \<Rightarrow> True | _ \<Rightarrow> False)"

definition sent_task_json :: "'r http_world \<Rightarrow> a2a_task \<Rightarrow> outcome \<Rightarrow> json" where
  "sent_task_json w r oc = JObject [(''task'', JObject [(''id'', JString (at_packet_id r)), (''context_id'', JString (at_run_id r)),
     (''status'', JObject [(''state'', JString ''completed''), (''message'', JObject [(''role'', JString ''agent''),
        (''parts'', JArray [JObject [(''kind'', JString ''data''), (''data'', JObject [(''tenant_id'', JString (at_tenant_id r)), (''invoice_id'', JString (at_invoice_id r)),
           (''run_id'', JString (at_run_id r)), (''packet_id'', JString (at_packet_id r)), (''verdict'', JString (hw_outcome_debug w oc))])]])])])])]"

definition peer_verdict_json :: "('a, 'b) a2a_world_scheme \<Rightarrow> peer_verdict \<Rightarrow> json" where
  "peer_verdict_json w v = JObject [(''agent'', JString (pv_agent v)), (''risk_score'', aw_f64_json w (pv_risk_score v)), (''findings'', jstrs (pv_findings v)),
     (''recommendation'', JString (pv_recommendation v)), (''timestamp_ms'', JNumber (show_int (sint (pv_timestamp_ms v))))]"

definition got_task_json :: "('a, 'b) a2a_world_scheme \<Rightarrow> a2a_task \<Rightarrow> peer_verdict list \<Rightarrow> json" where
  "got_task_json w r vs = JObject [(''task'', JObject [(''id'', JString (at_packet_id r)), (''context_id'', JString (at_run_id r)),
     (''status'', JObject [(''state'', JString ''completed''), (''message'', JObject [(''role'', JString ''agent''),
        (''parts'', JArray [JObject [(''kind'', JString ''data''), (''data'', JObject [(''tenant_id'', JString (at_tenant_id r)), (''invoice_id'', JString (at_invoice_id r)),
           (''run_id'', JString (at_run_id r)), (''packet_id'', JString (at_packet_id r)), (''peer_verdicts'', JArray (map (peer_verdict_json w) vs))])]])])])])]"

definition handle_message_send :: "'r a2a_world \<Rightarrow> json \<Rightarrow> json \<Rightarrow> 'r a2a_state \<Rightarrow> web_response option \<times> 'r a2a_state" where
  "handle_message_send w rid params st =
     (if \<not> is_object params then (Some (jsonrpc_error 400 rid A2A_INVALID_PARAMS ''params must be an object''), st)
      else (case nonempty_param params ''tenant_id'' of
        None \<Rightarrow> (Some (jsonrpc_error 400 rid A2A_INVALID_PARAMS ''params.tenant_id (string) is required''), st)
      | Some tenant_id \<Rightarrow> (case nonempty_param params ''invoice_id'' of
          None \<Rightarrow> (Some (jsonrpc_error 400 rid A2A_INVALID_PARAMS ''params.invoice_id (string) is required''), st)
        | Some invoice_id \<Rightarrow>
            (let h = aw_http w;
                 raw_b64 = (case str_param params ''raw_b64'' of Some s \<Rightarrow> s | None \<Rightarrow> []);
                 raw = (case hw_unb64 h raw_b64 of Some b \<Rightarrow> b | None \<Rightarrow> []);
                 run_id = hw_run_id h;
                 app = bus_publish (AgentStarted run_id ''extractor'') (bus_publish (ProviderActive run_id (ap_model_id (as_app st))) (as_app st))
             in (case process_invoice (hw_orch h) (hw_call h) tenant_id invoice_id raw (ap_orch app) of
                   (None, orch) \<Rightarrow> (None, st\<lparr>as_app := app\<lparr>ap_orch := orch\<rparr>\<rparr>)
                 | (Some (Inl e), orch) \<Rightarrow>
                     (Some (jsonrpc_error 500 rid A2A_ERR_INTERNAL (''process_invoice failed: '' @ hw_debug h e)), st\<lparr>as_app := app\<lparr>ap_orch := orch\<rparr>\<rparr>)
                 | (Some (Inr p), orch) \<Rightarrow>
                     (let task_id = ep_packet_id (sd_packet p);
                          rec = \<lparr>at_run_id = run_id, at_tenant_id = tenant_id, at_invoice_id = invoice_id, at_packet_id = task_id\<rparr>;
                          app = bus_publish (RunFinished run_id) (bus_publish (EvidenceSealed run_id task_id) (app\<lparr>ap_orch := orch\<rparr>))
                      in (Some (jsonrpc_success 200 rid (sent_task_json h rec (ep_bbaaar_outcome (sd_packet p)))),
                          st\<lparr>as_app := app, as_tasks := (as_tasks st)(task_id \<mapsto> rec)\<rparr>)))))))"

definition handle_tasks_get :: "'r a2a_world \<Rightarrow> json \<Rightarrow> json \<Rightarrow> 'r a2a_state \<Rightarrow> web_response" where
  "handle_tasks_get w rid params st =
     (if \<not> is_object params then jsonrpc_error 400 rid A2A_INVALID_PARAMS (''params must be an object with '' @ [CHR 0x60] @ ''id'' @ [CHR 0x60])
      else (case str_param params ''id'' of
        None \<Rightarrow> jsonrpc_error 400 rid A2A_INVALID_PARAMS ''params.id (string) is required''
      | Some s \<Rightarrow> (case aw_uuid w s of
          None \<Rightarrow> jsonrpc_error 400 rid A2A_INVALID_PARAMS ''params.id must be a UUID''
        | Some task_id \<Rightarrow> (case as_tasks st task_id of
            Some r \<Rightarrow> jsonrpc_success 200 rid (got_task_json w r (case as_verdicts st task_id of Some vs \<Rightarrow> vs | None \<Rightarrow> []))
          | None \<Rightarrow> jsonrpc_error 404 rid (-32004) (''task '' @ task_id @ '' not found'')))))"

definition obj_insert :: "string \<Rightarrow> json \<Rightarrow> json \<Rightarrow> json" where
  "obj_insert k x v = (case v of JObject kvs \<Rightarrow> JObject (filter (\<lambda>(k', _). k' \<noteq> k) kvs @ [(k, x)]) | _ \<Rightarrow> v)"

definition handle_extended_card :: "'r a2a_world \<Rightarrow> json \<Rightarrow> web_response" where
  "handle_extended_card w rid =
     (let card = (case aw_card w of Some c \<Rightarrow> c | None \<Rightarrow> JObject [])
      in jsonrpc_success 200 rid (JObject [(''card'', obj_insert ''extended'' (JBool True) card)]))"

definition as_array :: "json \<Rightarrow> json list option" where
  "as_array v = (case v of JArray xs \<Rightarrow> Some xs | _ \<Rightarrow> None)"

definition verdict_of_json :: "'r a2a_world \<Rightarrow> json \<Rightarrow> string + peer_verdict" where
  "verdict_of_json w v = (case nonempty_param v ''agent'' of
     None \<Rightarrow> Inl ''verdict.agent (string) is required''
   | Some agent \<Rightarrow> (case Option.bind (json_get v ''risk_score'') (aw_f64 w) of
         None \<Rightarrow> Inl ''verdict.risk_score (number) is required''
       | Some risk \<Rightarrow> Inr \<lparr>pv_agent = agent, pv_risk_score = risk,
           pv_findings = (case Option.bind (json_get v ''findings'') as_array of Some xs \<Rightarrow> List.map_filter as_str xs | None \<Rightarrow> []),
           pv_recommendation = (case str_param v ''recommendation'' of Some s \<Rightarrow> s | None \<Rightarrow> ''approve''),
           pv_timestamp_ms = (case Option.bind (json_get v ''timestamp_ms'') (aw_i64 w) of Some t \<Rightarrow> t | None \<Rightarrow> hw_now_ms (aw_http w))\<rparr>))"

definition handle_peer_verdict_attach :: "'r a2a_world \<Rightarrow> json \<Rightarrow> json \<Rightarrow> 'r a2a_state \<Rightarrow> web_response \<times> 'r a2a_state" where
  "handle_peer_verdict_attach w rid params st =
     (if \<not> is_object params then (jsonrpc_error 400 rid A2A_INVALID_PARAMS ''params must be an object'', st)
      else (case nonempty_param params ''packet_id'' of
        None \<Rightarrow> (jsonrpc_error 400 rid A2A_INVALID_PARAMS ''params.packet_id (string) is required'', st)
      | Some s \<Rightarrow> (case aw_uuid w s of
          None \<Rightarrow> (jsonrpc_error 400 rid A2A_INVALID_PARAMS ''params.packet_id must be a UUID'', st)
        | Some packet_id \<Rightarrow>
            if as_tasks st packet_id = None then (jsonrpc_error 404 rid (-32004) (''task '' @ packet_id @ '' not found''), st)
            else (case filter_opt is_object (json_get params ''verdict'') of
              None \<Rightarrow> (jsonrpc_error 400 rid A2A_INVALID_PARAMS ''params.verdict (object) is required'', st)
            | Some v \<Rightarrow> (case verdict_of_json w v of
                Inl e \<Rightarrow> (jsonrpc_error 400 rid A2A_INVALID_PARAMS e, st)
              | Inr verdict \<Rightarrow>
                  (let vs = (case as_verdicts st packet_id of Some vs \<Rightarrow> vs | None \<Rightarrow> []) @ [verdict]
                   in (jsonrpc_success 200 rid (JObject [(''attached'', JBool True), (''packet_id'', JString packet_id), (''agent'', JString (pv_agent verdict)),
                         (''count'', jcount (length vs))]),
                       st\<lparr>as_verdicts := (as_verdicts st)(packet_id \<mapsto> vs)\<rparr>)))))))"

definition a2a_dispatch :: "'r a2a_world \<Rightarrow> json \<Rightarrow> string \<Rightarrow> json \<Rightarrow> 'r a2a_state \<Rightarrow> web_response option \<times> 'r a2a_state" where
  "a2a_dispatch w rid m params st =
     (if m = ''message/send'' then handle_message_send w rid params st
      else if m = ''tasks/get'' then (Some (handle_tasks_get w rid params st), st)
      else if m = ''peer_verdict/attach'' then (case handle_peer_verdict_attach w rid params st of (r, st) \<Rightarrow> (Some r, st))
      else if m = ''agent/authenticatedExtendedCard'' then (Some (handle_extended_card w rid), st)
      else (Some (jsonrpc_error 404 rid A2A_METHOD_NOT_FOUND (''method not found: '' @ m)), st))"

definition post_a2a :: "'r a2a_world \<Rightarrow> string option \<Rightarrow> string \<Rightarrow> 'r a2a_state \<Rightarrow> web_response option \<times> 'r a2a_state" where
  "post_a2a w auth body st = (case mock_ed25519_bearer_check auth of
     Some reason \<Rightarrow> (Some (jsonrpc_error 401 JNull (-32001) (''unauthorized: '' @ reason)), st)
   | None \<Rightarrow> (case aw_read w body of
       Inl e \<Rightarrow> (Some (jsonrpc_error 400 JNull ERR_PARSE (''parse error: '' @ e)), st)
     | Inr req \<Rightarrow>
         (let rid = (case aq_id req of Some i \<Rightarrow> i | None \<Rightarrow> JNull)
          in if aq_jsonrpc req \<noteq> Some A2A_JSONRPC_VERSION
             then (Some (jsonrpc_error 400 rid ERR_INVALID_REQUEST (''jsonrpc field must be '' @ [CHR 0x22] @ ''2.0'' @ [CHR 0x22])), st)
             else (case filter_opt (\<lambda>m. m \<noteq> []) (aq_method req) of
               None \<Rightarrow> (Some (jsonrpc_error 400 rid ERR_INVALID_REQUEST ''method is required''), st)
             | Some m \<Rightarrow> a2a_dispatch w rid m (aq_params req) st))))"

section \<open>Answers\<close>

definition rpc_error_code :: "json \<Rightarrow> string option" where
  "rpc_error_code v = Option.bind (json_get v ''error'') (\<lambda>e. Option.bind (json_get e ''code'') (\<lambda>c. case c of JNumber n \<Rightarrow> Some n | _ \<Rightarrow> None))"

text \<open>The statuses and error codes of the endpoint; a result comes with status 200 only.\<close>

definition rpc_outcomes :: "(nat \<times> string option) list" where
  "rpc_outcomes = [(200, None), (400, Some (show_int (-32700))), (400, Some (show_int (-32600))), (404, Some (show_int (-32601))), (400, Some (show_int (-32602))), (500, Some (show_int (-32603))),
     (404, Some (show_int (-32004))), (401, Some (show_int (-32001)))]"

definition rpc_reply :: "json \<Rightarrow> web_response \<Rightarrow> bool" where
  "rpc_reply rid r = (case hs_body r of
     JsonBody v \<Rightarrow> json_get v ''jsonrpc'' = Some (JString ''2.0'') \<and> json_get v ''id'' = Some rid \<and>
       (json_get v ''result'' = None) = (json_get v ''error'' \<noteq> None) \<and> (hs_status r, rpc_error_code v) \<in> set rpc_outcomes
   | RawBody _ \<Rightarrow> False)"

lemma rpc_success: "rpc_reply rid (jsonrpc_success 200 rid v)"
  by (simp add: rpc_reply_def jsonrpc_success_def json_reply_def json_get_def rpc_error_code_def rpc_outcomes_def A2A_JSONRPC_VERSION_def)

lemma rpc_errors:
  "rpc_reply rid (jsonrpc_error 400 rid ERR_PARSE m)" "rpc_reply rid (jsonrpc_error 400 rid ERR_INVALID_REQUEST m)"
  "rpc_reply rid (jsonrpc_error 404 rid A2A_METHOD_NOT_FOUND m)" "rpc_reply rid (jsonrpc_error 400 rid A2A_INVALID_PARAMS m)"
  "rpc_reply rid (jsonrpc_error 500 rid A2A_ERR_INTERNAL m)" "rpc_reply rid (jsonrpc_error 404 rid (-32004) m)"
  "rpc_reply rid (jsonrpc_error 401 rid (-32001) m)"
  by (simp_all add: rpc_reply_def jsonrpc_error_def json_reply_def json_get_def rpc_error_code_def rpc_outcomes_def A2A_JSONRPC_VERSION_def
      ERR_PARSE_def ERR_INVALID_REQUEST_def A2A_METHOD_NOT_FOUND_def A2A_INVALID_PARAMS_def A2A_ERR_INTERNAL_def)

lemmas rpc_replies = rpc_success rpc_errors

lemma send_replies: "fst (handle_message_send w rid params st) = Some r \<Longrightarrow> rpc_reply rid r"
  by (auto simp: handle_message_send_def Let_def rpc_replies split: if_splits option.splits sum.splits prod.splits)

lemma get_replies: "rpc_reply rid (handle_tasks_get w rid params st)"
  by (simp add: handle_tasks_get_def rpc_replies split: option.split)

lemma attach_replies: "rpc_reply rid (fst (handle_peer_verdict_attach w rid params st))"
  by (simp add: handle_peer_verdict_attach_def Let_def rpc_replies split: option.split sum.split)

lemma dispatch_replies: "fst (a2a_dispatch w rid m params st) = Some r \<Longrightarrow> rpc_reply rid r"
  using send_replies [of w rid params st] get_replies [of rid w params st] attach_replies [of rid w params st]
  by (auto simp: a2a_dispatch_def handle_extended_card_def Let_def rpc_replies split: if_splits prod.splits)

text \<open>The identifier a reply must carry: the caller's, and null before the envelope has been read.\<close>

definition reply_id :: "'r a2a_world \<Rightarrow> string option \<Rightarrow> string \<Rightarrow> json" where
  "reply_id w auth body = (if mock_ed25519_bearer_check auth \<noteq> None then JNull
     else (case aw_read w body of Inl _ \<Rightarrow> JNull | Inr req \<Rightarrow> (case aq_id req of Some i \<Rightarrow> i | None \<Rightarrow> JNull)))"

text \<open>Fact: every request is answered with a JSON-RPC reply. Whatever header and bytes arrive, unless the pipeline itself panics, the
  reply carries the version, the identifier of the request (null when the request was refused or unreadable), either a result or an
  error and never both, and its status and error code are one of eight pairs; in particular a result comes with status 200 only.\<close>

theorem a2a_replies_wellformed:
  assumes "fst (post_a2a w auth body st) = Some r"
  shows "rpc_reply (reply_id w auth body) r"
  using assms by (auto simp: post_a2a_def reply_id_def Let_def rpc_replies dest: dispatch_replies split: option.splits sum.splits if_splits)

section \<open>Tasks and verdicts\<close>

fun a2a_session :: "('r a2a_world \<times> string option \<times> string) list \<Rightarrow> 'r a2a_state \<Rightarrow> 'r a2a_state" where
  "a2a_session [] st = st"
| "a2a_session ((w, auth, body) # rest) st = a2a_session rest (snd (post_a2a w auth body st))"

definition verdicts_on :: "'r a2a_state \<Rightarrow> string \<Rightarrow> peer_verdict list" where
  "verdicts_on st k = (case as_verdicts st k of Some vs \<Rightarrow> vs | None \<Rightarrow> [])"

text \<open>The verdict a request adds to the task \<open>k\<close>, read off the request alone.\<close>

definition call_of :: "'r a2a_world \<Rightarrow> string option \<Rightarrow> string \<Rightarrow> (string \<times> json) option" where
  "call_of w auth body = (if mock_ed25519_bearer_check auth \<noteq> None then None
     else (case aw_read w body of
         Inl _ \<Rightarrow> None
       | Inr req \<Rightarrow> if aq_jsonrpc req = Some ''2.0'' then map_option (\<lambda>m. (m, aq_params req)) (filter_opt (\<lambda>m. m \<noteq> []) (aq_method req)) else None))"

definition attached_by :: "string \<Rightarrow> ('r a2a_world \<times> string option \<times> string) \<Rightarrow> peer_verdict option" where
  "attached_by k rq = (case rq of (w, auth, body) \<Rightarrow> (case call_of w auth body of
     Some (m, params) \<Rightarrow>
       if m = ''peer_verdict/attach'' \<and> Option.bind (nonempty_param params ''packet_id'') (aw_uuid w) = Some k
       then (case map_option (verdict_of_json w) (filter_opt is_object (json_get params ''verdict'')) of Some (Inr v) \<Rightarrow> Some v | _ \<Rightarrow> None)
       else None
   | None \<Rightarrow> None))"

lemma not_object_param: "\<not> is_object v \<Longrightarrow> nonempty_param v k = None"
  by (simp add: nonempty_param_def str_param_def json_get_def is_object_def filter_opt_def split: json.splits)

lemma send_verdicts: "as_verdicts (snd (handle_message_send w rid params st)) = as_verdicts st"
  by (auto simp: handle_message_send_def Let_def split: option.split sum.split prod.split)

lemma send_tasks:
  assumes "w_registry (hw_orch (aw_http w)) = with_default_tenants_and_seed (w_crypto (hw_orch (aw_http w))) seed" and "k \<noteq> ce_packet_id (hw_call (aw_http w))"
  shows "as_tasks (snd (handle_message_send w rid params st)) k = as_tasks st k"
  using assms(2) process_invoice_signed [OF assms(1)]
  by (auto simp: handle_message_send_def Let_def packet_of_def split: option.split sum.split prod.split) (metis fst_conv)+

lemma post_a2a_call:
  "post_a2a w auth body st = (case call_of w auth body of
     Some (m, params) \<Rightarrow> a2a_dispatch w (reply_id w auth body) m params st | None \<Rightarrow> (fst (post_a2a w auth body st), st))"
  by (simp add: post_a2a_def call_of_def reply_id_def Let_def A2A_JSONRPC_VERSION_def filter_opt_def split: option.splits sum.split bind_splits)

lemma dispatch_tasks:
  assumes "w_registry (hw_orch (aw_http w)) = with_default_tenants_and_seed (w_crypto (hw_orch (aw_http w))) seed" and "k \<noteq> ce_packet_id (hw_call (aw_http w))"
  shows "as_tasks (snd (a2a_dispatch w rid m params st)) k = as_tasks st k"
  using send_tasks [OF assms]
  by (auto simp: a2a_dispatch_def handle_peer_verdict_attach_def Let_def split: option.split sum.split)

lemma dispatch_verdicts:
  assumes "as_tasks st k \<noteq> None"
  shows "verdicts_on (snd (a2a_dispatch w rid m params st)) k = verdicts_on st k @
    (if m = ''peer_verdict/attach'' \<and> Option.bind (nonempty_param params ''packet_id'') (aw_uuid w) = Some k
     then (case map_option (verdict_of_json w) (filter_opt is_object (json_get params ''verdict'')) of Some (Inr v) \<Rightarrow> [v] | _ \<Rightarrow> []) else [])"
proof (cases "m = ''peer_verdict/attach''")
  case True
  then show ?thesis
    using assms not_object_param [of params "''packet_id''"]
    by (auto simp: a2a_dispatch_def handle_peer_verdict_attach_def verdicts_on_def Let_def split: option.splits sum.splits if_splits)
next
  case False
  then show ?thesis
    using send_verdicts [of w rid params st] by (simp add: a2a_dispatch_def verdicts_on_def)
qed

lemma post_a2a_tasks:
  assumes "w_registry (hw_orch (aw_http w)) = with_default_tenants_and_seed (w_crypto (hw_orch (aw_http w))) seed" and "k \<noteq> ce_packet_id (hw_call (aw_http w))"
  shows "as_tasks (snd (post_a2a w auth body st)) k = as_tasks st k"
  using dispatch_tasks [OF assms] by (subst post_a2a_call) (auto split: option.split)

lemma post_a2a_verdicts:
  assumes "as_tasks st k \<noteq> None"
  shows "verdicts_on (snd (post_a2a w auth body st)) k = verdicts_on st k @ (case attached_by k (w, auth, body) of Some v \<Rightarrow> [v] | None \<Rightarrow> [])"
  using dispatch_verdicts [OF assms]
  by (subst post_a2a_call) (auto simp: attached_by_def split: option.splits sum.splits)

lemma a2a_session_keeps:
  assumes "\<forall>(w, auth, body) \<in> set rqs. w_registry (hw_orch (aw_http w)) = with_default_tenants_and_seed (w_crypto (hw_orch (aw_http w))) seed \<and>
      ce_packet_id (hw_call (aw_http w)) \<noteq> k"
    and "as_tasks st k = Some r"
  shows "as_tasks (a2a_session rqs st) k = Some r \<and> verdicts_on (a2a_session rqs st) k = verdicts_on st k @ List.map_filter (attached_by k) rqs"
  using assms
proof (induction rqs arbitrary: st)
  case Nil
  then show ?case by (simp add: List.map_filter_def)
next
  case (Cons x rqs)
  obtain w auth body where x: "x = (w, auth, body)" by (metis prod_cases3)
  have k: "as_tasks (snd (post_a2a w auth body st)) k = Some r"
    using post_a2a_tasks [of w seed k auth body st] Cons.prems x by force
  show ?case
    using Cons.IH [OF _ k] Cons.prems(1) post_a2a_verdicts [of st k w auth body] Cons.prems(2) x
    by (auto simp: List.map_filter_def split: option.split)
qed

lemma send_run:
  assumes "w_registry (hw_orch (aw_http w)) = with_default_tenants_and_seed (w_crypto (hw_orch (aw_http w))) seed"
    and "handle_message_send w rid params st = (Some resp, st')" and "hs_status resp = 200"
  obtains t i raw app orch where "nonempty_param params ''tenant_id'' = Some t" "nonempty_param params ''invoice_id'' = Some i"
    "app = bus_publish (AgentStarted (hw_run_id (aw_http w)) ''extractor'') (bus_publish (ProviderActive (hw_run_id (aw_http w)) (ap_model_id (as_app st))) (as_app st))"
    "snd (process_invoice (hw_orch (aw_http w)) (hw_call (aw_http w)) t i raw (ap_orch app)) = orch"
    "st' = st\<lparr>as_app := bus_publish (RunFinished (hw_run_id (aw_http w)))
        (bus_publish (EvidenceSealed (hw_run_id (aw_http w)) (ce_packet_id (hw_call (aw_http w)))) (app\<lparr>ap_orch := orch\<rparr>)),
      as_tasks := (as_tasks st)(ce_packet_id (hw_call (aw_http w)) \<mapsto> \<lparr>at_run_id = hw_run_id (aw_http w), at_tenant_id = t, at_invoice_id = i,
       at_packet_id = ce_packet_id (hw_call (aw_http w))\<rparr>)\<rparr>"
proof -
  obtain t i where ti: "nonempty_param params ''tenant_id'' = Some t" "nonempty_param params ''invoice_id'' = Some i" "is_object params"
    using assms(2,3) by (auto simp: handle_message_send_def jsonrpc_error_def json_reply_def split: if_splits option.splits)
  define app where "app = bus_publish (AgentStarted (hw_run_id (aw_http w)) ''extractor'') (bus_publish (ProviderActive (hw_run_id (aw_http w)) (ap_model_id (as_app st))) (as_app st))"
  define raw where "raw = (case hw_unb64 (aw_http w) (case str_param params ''raw_b64'' of Some s \<Rightarrow> s | None \<Rightarrow> []) of Some b \<Rightarrow> b | None \<Rightarrow> [])"
  obtain r orch where pi: "process_invoice (hw_orch (aw_http w)) (hw_call (aw_http w)) t i raw (ap_orch app) = (r, orch)" by fastforce
  obtain p where r: "r = Some (Inr p)"
    using assms(2,3) ti pi
    by (auto simp: handle_message_send_def app_def raw_def Let_def jsonrpc_error_def json_reply_def split: option.splits sum.splits)
  have "ep_packet_id (sd_packet p) = ce_packet_id (hw_call (aw_http w))"
    using process_invoice_signed [OF assms(1), of "hw_call (aw_http w)" t i raw "ap_orch app" p] pi r by (simp add: packet_of_def)
  then show thesis
    using assms(2) ti pi r by (intro that [of t i app raw orch]) (auto simp: handle_message_send_def app_def raw_def Let_def)
qed

text \<open>Property C17: a submitted task can be fetched with its verdicts. After \<open>message/send\<close> succeeded and any further requests whose runs have
  other packets, \<open>tasks/get\<close> with the packet's identifier, from whomever, returns the run, tenant and invoice of the submission and the
  verdicts of exactly those later \<open>peer_verdict/attach\<close> requests for it that were well-formed, in their order, after those from before.\<close>

theorem a2a_task_roundtrip:
  assumes "w_registry (hw_orch (aw_http w)) = with_default_tenants_and_seed (w_crypto (hw_orch (aw_http w))) seed"
    and "call_of w auth body = Some (''message/send'', params)" and "post_a2a w auth body st = (Some resp, st')" "hs_status resp = 200"
    and "\<forall>(w', auth', body') \<in> set rqs. w_registry (hw_orch (aw_http w')) = with_default_tenants_and_seed (w_crypto (hw_orch (aw_http w'))) seed \<and>
      ce_packet_id (hw_call (aw_http w')) \<noteq> k"
    and "k = ce_packet_id (hw_call (aw_http w))"
    and "call_of w2 auth2 body2 = Some (''tasks/get'', JObject [(''id'', JString k)])" and "aw_uuid w2 k = Some k"
  shows "\<exists>t i. nonempty_param params ''tenant_id'' = Some t \<and> nonempty_param params ''invoice_id'' = Some i \<and>
    post_a2a w2 auth2 body2 (a2a_session rqs st') = (Some (jsonrpc_success 200 (reply_id w2 auth2 body2)
      (got_task_json w2 \<lparr>at_run_id = hw_run_id (aw_http w), at_tenant_id = t, at_invoice_id = i, at_packet_id = k\<rparr>
        (verdicts_on st k @ List.map_filter (attached_by k) rqs))), a2a_session rqs st')"
proof -
  have "handle_message_send w (reply_id w auth body) params st = (Some resp, st')"
    using assms(2,3) post_a2a_call [of w auth body st] by (simp add: a2a_dispatch_def)
  then obtain t i where ti: "nonempty_param params ''tenant_id'' = Some t" "nonempty_param params ''invoice_id'' = Some i"
    "as_tasks st' k = Some \<lparr>at_run_id = hw_run_id (aw_http w), at_tenant_id = t, at_invoice_id = i, at_packet_id = k\<rparr>" "as_verdicts st' = as_verdicts st"
    using assms(4,6) by (elim send_run [OF assms(1)]) simp_all
  from a2a_session_keeps [OF assms(5) ti(3)] ti(4) show ?thesis
    using ti(1,2) assms(7,8) post_a2a_call [of w2 auth2 body2 "a2a_session rqs st'"]
    by (simp add: a2a_dispatch_def handle_tasks_get_def is_object_def str_param_def json_get_def as_str_def verdicts_on_def)
qed

definition sample_verdict :: json where
  "sample_verdict = JObject [(''agent'', JString ''peer''), (''risk_score'', JNumber ''1'')]"

definition sample_read :: "string \<Rightarrow> string + a2a_request" where
  "sample_read b = Inr \<lparr>aq_jsonrpc = Some ''2.0'', aq_id = Some (JNumber ''7''), aq_method = Some b, aq_params =
     (if b = ''message/send'' then JObject [(''tenant_id'', JString ''stark''), (''invoice_id'', JString ''i'')]
      else if b = ''tasks/get'' then JObject [(''id'', JString ''p'')] else JObject [(''packet_id'', JString ''p''), (''verdict'', sample_verdict)])\<rparr>"

definition a2a_world_with :: "call_env \<Rightarrow> unit a2a_world" where
  "a2a_world_with e = \<lparr>aw_http = http_world_with ''run'' e (\<lambda>_. Inl []), aw_read = sample_read, aw_uuid = Some, aw_f64 = (\<lambda>_. Some 1), aw_i64 = (\<lambda>_. None),
     aw_f64_json = (\<lambda>_. JNull), aw_card = None\<rparr>"

definition sample_auth :: "string option" where
  "sample_auth = Some ''Ed25519Bearer 0123456789abcdef''"

definition a2a_start :: "unit a2a_state" where
  "a2a_start = a2a_new http_start"

lemma a2a_world_parts:
  "aw_http (a2a_world_with e) = http_world_with ''run'' e (\<lambda>_. Inl [])" "aw_read (a2a_world_with e) = sample_read" "aw_uuid (a2a_world_with e) = Some"
  "hw_unb64 (http_world_with r e f) = Some" "hw_orch (http_world_with r e f) = wire_world" "hw_call (http_world_with r e f) = e" "hw_run_id (http_world_with r e f) = r"
  by (simp_all add: a2a_world_with_def http_world_with_def)

lemma sample_auth_ok: "mock_ed25519_bearer_check sample_auth = None"
  by (simp add: mock_ed25519_bearer_check_def sample_auth_def bearer_prefix_def is_ascii_hexdigit_def is_ascii_digit_def Let_def)

lemma sample_calls:
  "call_of (a2a_world_with e) sample_auth ''message/send'' = Some (''message/send'', JObject [(''tenant_id'', JString ''stark''), (''invoice_id'', JString ''i'')])"
  "call_of (a2a_world_with e) sample_auth ''tasks/get'' = Some (''tasks/get'', JObject [(''id'', JString ''p'')])"
  "call_of (a2a_world_with e) sample_auth ''peer_verdict/attach'' = Some (''peer_verdict/attach'', JObject [(''packet_id'', JString ''p''), (''verdict'', sample_verdict)])"
  by (simp_all add: call_of_def sample_auth_ok a2a_world_with_def sample_read_def filter_opt_def)

lemma send_stark:
  obtains resp where "post_a2a (a2a_world_with toy_env) sample_auth ''message/send'' a2a_start =
    (Some resp, snd (post_a2a (a2a_world_with toy_env) sample_auth ''message/send'' a2a_start))" "hs_status resp = 200"
proof -
  let ?st = "ap_orch (bus_publish (AgentStarted ''run'' ''extractor'') (bus_publish (ProviderActive ''run'' ''m'') http_start))"
  have "o_human ?st = None" "o_rogue ?st = None" by (simp_all add: publish_def split: option.split)
  then obtain p where "fst (process_invoice wire_world toy_env ''stark'' ''i'' [] ?st) = Some (Inr p)" by (rule wire_world_run)
  then obtain orch where "process_invoice wire_world toy_env ''stark'' ''i'' [] ?st = (Some (Inr p), orch)" by (metis prod.collapse)
  then have "\<exists>r. fst (post_a2a (a2a_world_with toy_env) sample_auth ''message/send'' a2a_start) = Some r \<and> hs_status r = 200"
    by (subst post_a2a_call) (simp add: sample_calls a2a_dispatch_def handle_message_send_def is_object_def nonempty_param_def str_param_def json_get_def as_str_def
        filter_opt_def a2a_world_parts a2a_start_def a2a_new_def jsonrpc_success_def json_reply_def Let_def)
  then show thesis using that by (metis prod.collapse)
qed

theorem a2a_replies_wellformed_witness:
  "\<exists>r. fst (post_a2a (a2a_world_with toy_env) sample_auth ''tasks/get'' a2a_start) = Some r \<and> rpc_reply (JNumber ''7'') r \<and> hs_status r = 404"
proof -
  have get: "fst (post_a2a (a2a_world_with toy_env) sample_auth ''tasks/get'' a2a_start) = Some (jsonrpc_error 404 (JNumber ''7'') (-32004) ''task p not found'')"
    by (subst post_a2a_call) (simp add: sample_calls a2a_dispatch_def handle_tasks_get_def is_object_def str_param_def json_get_def as_str_def a2a_start_def a2a_new_def
        reply_id_def sample_auth_ok a2a_world_parts sample_read_def)
  from a2a_replies_wellformed [OF this] show ?thesis
    using get by (simp add: reply_id_def sample_auth_ok a2a_world_with_def sample_read_def jsonrpc_error_def json_reply_def)
qed

theorem a2a_task_roundtrip_witness:
  "\<exists>r. fst (post_a2a (a2a_world_with toy_env) sample_auth ''tasks/get'' (a2a_session
      [(a2a_world_with (toy_env\<lparr>ce_packet_id := ''q''\<rparr>), sample_auth, ''peer_verdict/attach'')] (snd (post_a2a (a2a_world_with toy_env) sample_auth ''message/send'' a2a_start)))) =
    Some (jsonrpc_success 200 (JNumber ''7'') (got_task_json (a2a_world_with toy_env)
      \<lparr>at_run_id = ''run'', at_tenant_id = ''stark'', at_invoice_id = ''i'', at_packet_id = ''p''\<rparr>
      [\<lparr>pv_agent = ''peer'', pv_risk_score = 1, pv_findings = [], pv_recommendation = ''approve'', pv_timestamp_ms = 0\<rparr>]))"
proof -
  let ?rqs = "[(a2a_world_with (toy_env\<lparr>ce_packet_id := ''q''\<rparr>), sample_auth, ''peer_verdict/attach'')]"
  obtain resp where r: "post_a2a (a2a_world_with toy_env) sample_auth ''message/send'' a2a_start =
    (Some resp, snd (post_a2a (a2a_world_with toy_env) sample_auth ''message/send'' a2a_start))" "hs_status resp = 200" by (rule send_stark)
  have reg: "w_registry (hw_orch (aw_http (a2a_world_with e))) = with_default_tenants_and_seed (w_crypto (hw_orch (aw_http (a2a_world_with e)))) ''seed''" for e
    using wire_world_registry by (simp add: a2a_world_with_def http_world_with_def)
  have ids: "ce_packet_id (hw_call (aw_http (a2a_world_with e))) = ce_packet_id e" "aw_uuid (a2a_world_with e) = Some" "ce_packet_id toy_env = ''p''"
    "hw_run_id (aw_http (a2a_world_with e)) = ''run''" for e
    by (simp_all add: a2a_world_with_def http_world_with_def toy_env_def)
  have at: "List.map_filter (attached_by ''p'') ?rqs = [\<lparr>pv_agent = ''peer'', pv_risk_score = 1, pv_findings = [], pv_recommendation = ''approve'', pv_timestamp_ms = 0\<rparr>]"
    by (simp add: List.map_filter_def attached_by_def sample_calls nonempty_param_def str_param_def json_get_def as_str_def filter_opt_def is_object_def
        verdict_of_json_def sample_verdict_def ids)
      (simp add: a2a_world_with_def http_world_with_def str_param_def json_get_def)
  have "\<exists>t i. nonempty_param (JObject [(''tenant_id'', JString ''stark''), (''invoice_id'', JString ''i'')]) ''tenant_id'' = Some t \<and>
      nonempty_param (JObject [(''tenant_id'', JString ''stark''), (''invoice_id'', JString ''i'')]) ''invoice_id'' = Some i \<and>
      post_a2a (a2a_world_with toy_env) sample_auth ''tasks/get'' (a2a_session ?rqs (snd (post_a2a (a2a_world_with toy_env) sample_auth ''message/send'' a2a_start))) =
       (Some (jsonrpc_success 200 (reply_id (a2a_world_with toy_env) sample_auth ''tasks/get'') (got_task_json (a2a_world_with toy_env)
        \<lparr>at_run_id = hw_run_id (aw_http (a2a_world_with toy_env)), at_tenant_id = t, at_invoice_id = i, at_packet_id = ''p''\<rparr>
        (verdicts_on a2a_start ''p'' @ List.map_filter (attached_by ''p'') ?rqs))),
        a2a_session ?rqs (snd (post_a2a (a2a_world_with toy_env) sample_auth ''message/send'' a2a_start)))"
    by (rule a2a_task_roundtrip [OF reg sample_calls(1) r]) (simp_all add: reg sample_calls ids)
  then show ?thesis
    using at ids by (auto simp: nonempty_param_def str_param_def json_get_def as_str_def filter_opt_def verdicts_on_def a2a_start_def a2a_new_def reply_id_def sample_auth_ok)
      (simp_all add: a2a_world_with_def sample_read_def)
qed

section \<open>The stores\<close>

definition a2a_ok :: "'r a2a_state \<Rightarrow> bool" where
  "a2a_ok st \<longleftrightarrow> (\<forall>k r. as_tasks st k = Some r \<longrightarrow> at_packet_id r = k \<and> at_tenant_id r \<noteq> [] \<and> at_invoice_id r \<noteq> []) \<and>
     (\<forall>k vs. as_verdicts st k = Some vs \<longrightarrow> as_tasks st k \<noteq> None \<and> vs \<noteq> [] \<and> list_all (\<lambda>v. pv_agent v \<noteq> []) vs)"

lemma nonempty_param_some: "nonempty_param v k = Some s \<Longrightarrow> s \<noteq> []"
  by (auto simp: nonempty_param_def filter_opt_def split: bind_splits if_splits)

lemma verdict_agent: "verdict_of_json w v = Inr pv \<Longrightarrow> pv_agent pv \<noteq> []"
  by (auto simp: verdict_of_json_def dest: nonempty_param_some split: option.splits)

lemma send_ok: "a2a_ok st \<Longrightarrow> a2a_ok (snd (handle_message_send w rid params st))"
  by (auto simp: a2a_ok_def handle_message_send_def Let_def dest: nonempty_param_some split: option.split sum.split prod.split)

lemma attach_ok: "a2a_ok st \<Longrightarrow> a2a_ok (snd (handle_peer_verdict_attach w rid params st))"
  by (auto simp: a2a_ok_def handle_peer_verdict_attach_def Let_def dest: verdict_agent split: option.split sum.split)

lemma post_a2a_ok:
  assumes "a2a_ok st"
  shows "a2a_ok (snd (post_a2a w auth body st))"
proof -
  have "a2a_ok (snd (a2a_dispatch w rid m params st))" for rid m params
    using assms send_ok [OF assms] attach_ok [OF assms] by (simp add: a2a_dispatch_def case_prod_beta)
  then show ?thesis using assms by (subst post_a2a_call) (simp split: option.split prod.split)
qed

text \<open>Fact: the stores of the endpoint stay consistent. After any requests every task is filed under its packet's identifier and names a
  tenant and an invoice, and every list of verdicts belongs to a task, is not empty and names the agent of each verdict.\<close>

theorem a2a_stores_sound: "a2a_ok (a2a_session rqs (a2a_new app))"
proof -
  have "a2a_ok st \<Longrightarrow> a2a_ok (a2a_session rqs st)" for st
  proof (induction rqs arbitrary: st)
    case (Cons x rqs)
    then show ?case by (cases x) (simp add: post_a2a_ok)
  qed simp
  moreover have "a2a_ok (a2a_new app)" by (simp add: a2a_new_def a2a_ok_def)
  ultimately show ?thesis by blast
qed

text \<open>Property C18: what the endpoint announces as sealed cannot be downloaded. A successful \<open>message/send\<close> ends with the event that its packet
  is sealed; the packet is in neither store of the interface, so both download routes answer 404, and no seal was made.\<close>

theorem a2a_packet_not_stored:
  assumes "w_registry (hw_orch (aw_http w)) = with_default_tenants_and_seed (w_crypto (hw_orch (aw_http w))) seed"
    and "call_of w auth body = Some (''message/send'', params)" and "post_a2a w auth body st = (Some resp, st')" "hs_status resp = 200"
    and "o_bus (ap_orch (as_app st)) = Some es" and "ap_packets (as_app st) k = None" and "k = ce_packet_id (hw_call (aw_http w))"
  shows "\<exists>ev. o_bus (ap_orch (as_app st')) = Some (es @ ev @ [EvidenceSealed (hw_run_id (aw_http w)) k, RunFinished (hw_run_id (aw_http w))]) \<and>
    hs_status (get_packet_json (aw_http w) k (as_app st')) = 404 \<and> hs_status (get_packet_pdf (aw_http w) k (as_app st')) = 404 \<and>
    ap_sealed (as_app st') = ap_sealed (as_app st) \<and> o_services (ap_orch (as_app st')) = o_services (ap_orch (as_app st))"
proof -
  have "handle_message_send w (reply_id w auth body) params st = (Some resp, st')"
    using assms(2,3) post_a2a_call [of w auth body st] by (simp add: a2a_dispatch_def)
  then show ?thesis
  proof (rule send_run [OF assms(1) _ assms(4)])
    fix t i raw app orch
    assume app: "app = bus_publish (AgentStarted (hw_run_id (aw_http w)) ''extractor'') (bus_publish (ProviderActive (hw_run_id (aw_http w)) (ap_model_id (as_app st))) (as_app st))"
      and rn: "snd (process_invoice (hw_orch (aw_http w)) (hw_call (aw_http w)) t i raw (ap_orch app)) = orch"
      and st': "st' = st\<lparr>as_app := bus_publish (RunFinished (hw_run_id (aw_http w)))
        (bus_publish (EvidenceSealed (hw_run_id (aw_http w)) (ce_packet_id (hw_call (aw_http w)))) (app\<lparr>ap_orch := orch\<rparr>)),
        as_tasks := (as_tasks st)(ce_packet_id (hw_call (aw_http w)) \<mapsto> \<lparr>at_run_id = hw_run_id (aw_http w), at_tenant_id = t, at_invoice_id = i,
         at_packet_id = ce_packet_id (hw_call (aw_http w))\<rparr>)\<rparr>"
    have "o_services orch = o_services (ap_orch (as_app st))"
      using process_invoice_services_any [of "hw_orch (aw_http w)" "hw_call (aw_http w)" t i raw "ap_orch app"] rn app by simp
    moreover have "\<exists>ev. o_bus orch = Some (es @ ev)"
      using process_invoice_ext [of "ap_orch app" "hw_orch (aw_http w)" "hw_call (aw_http w)" t i raw] rn app assms(5)
      by (auto simp: bus_ext_def publish_def)
    ultimately show ?thesis
      using st' app assms(6,7) by (auto simp: publish_def get_packet_json_def get_packet_pdf_def text_reply_def)
  qed
qed

theorem a2a_packet_not_stored_witness:
  "\<exists>resp st' ev. post_a2a (a2a_world_with toy_env) sample_auth ''message/send'' a2a_start = (Some resp, st') \<and> hs_status resp = 200 \<and>
     o_bus (ap_orch (as_app st')) = Some (ev @ [EvidenceSealed ''run'' ''p'', RunFinished ''run'']) \<and>
     hs_status (get_packet_json (aw_http (a2a_world_with toy_env)) ''p'' (as_app st')) = 404"
proof -
  obtain resp where r: "post_a2a (a2a_world_with toy_env) sample_auth ''message/send'' a2a_start =
    (Some resp, snd (post_a2a (a2a_world_with toy_env) sample_auth ''message/send'' a2a_start))" "hs_status resp = 200" by (rule send_stark)
  have reg: "w_registry (hw_orch (aw_http (a2a_world_with toy_env))) = with_default_tenants_and_seed (w_crypto (hw_orch (aw_http (a2a_world_with toy_env)))) ''seed''"
    using wire_world_registry by (simp add: a2a_world_parts)
  have start: "o_bus (ap_orch (as_app a2a_start)) = Some []" "ap_packets (as_app a2a_start) ''p'' = None" "''p'' = ce_packet_id (hw_call (aw_http (a2a_world_with toy_env)))"
    by (simp_all add: a2a_start_def a2a_new_def a2a_world_parts toy_env_def) (simp add: http_start_def build_default_state_def with_band_room_def app_state_new_def)
  show ?thesis using a2a_packet_not_stored [OF reg sample_calls(1) r start] r by (auto simp: a2a_world_parts)
qed

end
