(* ===== verification/Compressor.thy ===== *)
theory Compressor
  imports Baaar
begin

text \<open>
  \<^verbatim>\<open>crates/themis-compressor\<close>: the word selection of \<^verbatim>\<open>classifier.rs\<close>, the profiles of \<^verbatim>\<open>variant.rs\<close> and the strategies of
  \<^verbatim>\<open>coordinator.rs\<close>. The rounded product of a rate and a word count, and the percentage of savings, are parameters. Force tokens are
  ASCII characters, as the default ones are. \<open>sort_key\<close> is stable, so ties stay in the order of the text.
\<close>

section \<open>Word selection\<close>

definition DEFAULT_RATE :: f32 where "DEFAULT_RATE = 0x3F000000"
definition DEFAULT_CHUNK_SIZE_WORDS :: nat where "DEFAULT_CHUNK_SIZE_WORDS = 160"
definition DEFAULT_FORCE_TOKENS :: "char list" where "DEFAULT_FORCE_TOKENS = [CHR ''.'', CHR ''!'', CHR ''?'', CHR '','', newline]"

record compression_config =
  cc_rate :: f32
  cc_force_tokens :: "char list"
  cc_chunk_size_words :: nat

definition config_default :: compression_config where
  "config_default = \<lparr>cc_rate = DEFAULT_RATE, cc_force_tokens = DEFAULT_FORCE_TOKENS, cc_chunk_size_words = DEFAULT_CHUNK_SIZE_WORDS\<rparr>"

definition config_with_rate :: "f32 \<Rightarrow> compression_config" where
  "config_with_rate rate = config_default\<lparr>cc_rate := rate\<rparr>"

fun chunks :: "nat \<Rightarrow> 'a list \<Rightarrow> 'a list list" where
  "chunks n [] = []"
| "chunks n (x # xs) = take (max 1 n) (x # xs) # chunks n (drop (max 1 n) (x # xs))"

definition chunk_by_words :: "string \<Rightarrow> nat \<Rightarrow> string list" where
  "chunk_by_words txt chunk_size =
     (if chunk_size = 0 then [txt]
      else let ws = split_whitespace txt
           in if ws = [] then [[]]
              else if length ws \<le> chunk_size then [txt]
              else map (join_with '' '') (chunks chunk_size ws))"

definition has_force :: "char list \<Rightarrow> string \<Rightarrow> bool" where
  "has_force force w = list_ex (\<lambda>c. c \<in> set force) w"

definition select_words_to_keep :: "(f32 \<Rightarrow> nat \<Rightarrow> nat) \<Rightarrow> string list \<Rightarrow> f32 \<Rightarrow> char list \<Rightarrow> string list" where
  "select_words_to_keep keep ws rate force =
     (let rate = f32_clamp rate 0 0x3F800000;
          numbered = enumerate 0 ws;
          non_force = filter (\<lambda>(i, w). \<not> has_force force w) numbered;
          keep_count = keep rate (length non_force);
          kept = set (map fst (take keep_count (sort_key (\<lambda>(i, w). - int (length w)) non_force)))
      in map snd (filter (\<lambda>(i, w). has_force force w \<or> i \<in> kept) numbered))"

definition compress_text :: "(f32 \<Rightarrow> nat \<Rightarrow> nat) \<Rightarrow> string \<Rightarrow> compression_config \<Rightarrow> string" where
  "compress_text keep txt cfg =
     (if txt = [] then []
      else join_with '' '' (map (\<lambda>chunk. join_with '' '' (select_words_to_keep keep (split_whitespace chunk) (cc_rate cfg) (cc_force_tokens cfg)))
             (chunk_by_words txt (cc_chunk_size_words cfg))))"

section \<open>Profiles\<close>

datatype compressor_variant = ShortText | MediumText | LongText

definition variant_name :: "compressor_variant \<Rightarrow> string" where
  "variant_name v = (case v of ShortText \<Rightarrow> ''short'' | MediumText \<Rightarrow> ''medium'' | LongText \<Rightarrow> ''long'')"

record variant_config =
  vc_target_rate :: f32
  vc_chunk_size_words :: nat

definition for_variant :: "compressor_variant \<Rightarrow> variant_config" where
  "for_variant v = (case v of ShortText \<Rightarrow> \<lparr>vc_target_rate = 0x3E99999A, vc_chunk_size_words = 80\<rparr>
     | MediumText \<Rightarrow> \<lparr>vc_target_rate = 0x3F000000, vc_chunk_size_words = 160\<rparr> | LongText \<Rightarrow> \<lparr>vc_target_rate = 0x3F333333, vc_chunk_size_words = 320\<rparr>)"

definition to_compression_config :: "variant_config \<Rightarrow> compression_config" where
  "to_compression_config v = config_default\<lparr>cc_rate := vc_target_rate v, cc_chunk_size_words := vc_chunk_size_words v\<rparr>"

definition auto_select :: "nat \<Rightarrow> compressor_variant" where
  "auto_select word_count = (if word_count \<le> 512 then ShortText else if word_count \<le> 2048 then MediumText else LongText)"

section \<open>Strategies\<close>

datatype compression_strategy = ApcReuse | CompressAndReuse | Compress | Passthrough

definition strategy_as_str :: "compression_strategy \<Rightarrow> string" where
  "strategy_as_str s = (case s of ApcReuse \<Rightarrow> ''apc_reuse'' | CompressAndReuse \<Rightarrow> ''compress_and_reuse'' | Compress \<Rightarrow> ''compress'' | Passthrough \<Rightarrow> ''passthrough'')"

record compression_decision =
  cd_strategy :: compression_strategy
  cd_strategy_name :: string
  cd_prefix :: string
  cd_compressed_tail :: string
  cd_final_context :: string
  cd_original_tokens :: u64
  cd_final_tokens :: u64
  cd_tokens_saved :: u64
  cd_savings_pct :: f32

definition saturating_sub :: "u64 \<Rightarrow> u64 \<Rightarrow> u64" where
  "saturating_sub a b = (if a < b then 0 else a - b)"

definition cd_passthrough :: "u64 \<Rightarrow> compression_decision" where
  "cd_passthrough n = \<lparr>cd_strategy = Passthrough, cd_strategy_name = ''passthrough'', cd_prefix = [], cd_compressed_tail = [], cd_final_context = [],
     cd_original_tokens = n, cd_final_tokens = n, cd_tokens_saved = 0, cd_savings_pct = 0\<rparr>"

definition cd_apc_reuse :: "string \<Rightarrow> string \<Rightarrow> u64 \<Rightarrow> compression_decision" where
  "cd_apc_reuse pre context n = \<lparr>cd_strategy = ApcReuse, cd_strategy_name = ''apc_reuse'', cd_prefix = pre, cd_compressed_tail = [], cd_final_context = context,
     cd_original_tokens = n, cd_final_tokens = n, cd_tokens_saved = 0, cd_savings_pct = 0\<rparr>"

definition cd_compress_and_reuse :: "(u64 \<Rightarrow> u64 \<Rightarrow> f32) \<Rightarrow> string \<Rightarrow> u64 \<Rightarrow> string \<Rightarrow> u64 \<Rightarrow> u64 \<Rightarrow> compression_decision" where
  "cd_compress_and_reuse pct pre prefix_tokens tail tail_tokens n =
     (let final_tokens = prefix_tokens + tail_tokens; saved = saturating_sub n final_tokens
      in \<lparr>cd_strategy = CompressAndReuse, cd_strategy_name = ''compress_and_reuse'', cd_prefix = pre, cd_compressed_tail = tail, cd_final_context = pre @ tail,
          cd_original_tokens = n, cd_final_tokens = final_tokens, cd_tokens_saved = saved, cd_savings_pct = (if 0 < n then pct saved n else 0)\<rparr>)"

definition cd_compress :: "(u64 \<Rightarrow> u64 \<Rightarrow> f32) \<Rightarrow> string \<Rightarrow> u64 \<Rightarrow> u64 \<Rightarrow> compression_decision" where
  "cd_compress pct compressed compressed_tokens n =
     (let saved = saturating_sub n compressed_tokens
      in \<lparr>cd_strategy = Compress, cd_strategy_name = ''compress'', cd_prefix = [], cd_compressed_tail = [], cd_final_context = compressed,
          cd_original_tokens = n, cd_final_tokens = compressed_tokens, cd_tokens_saved = saved, cd_savings_pct = (if 0 < n then pct saved n else 0)\<rparr>)"

record coordinator =
  min_context_tokens :: u64
  min_shared_prefix_tokens :: u64

definition coordinator_decide :: "(u64 \<Rightarrow> u64 \<Rightarrow> f32) \<Rightarrow> coordinator \<Rightarrow> u64 \<Rightarrow> bool \<Rightarrow> u64 \<Rightarrow> string \<Rightarrow> string \<Rightarrow> compression_decision" where
  "coordinator_decide pct c n has_shared_prefix prefix_tokens pre tail =
     (let long_enough = min_context_tokens c < n; has_long_prefix = has_shared_prefix \<and> min_shared_prefix_tokens c < prefix_tokens
      in if has_long_prefix \<and> \<not> long_enough then cd_apc_reuse pre [] n
         else if has_long_prefix \<and> long_enough
         then cd_compress_and_reuse pct pre prefix_tokens tail (word_of_nat (length (split_whitespace tail)) div 2) n
         else if long_enough then cd_compress pct [] (n div 2) n
         else cd_passthrough n)"

section \<open>Words of a text\<close>

lemma ws_len_space: "a \<noteq> [] \<Longrightarrow> ws_len (a @ CHR '' '' # b) = ws_len a"
  by (cases a rule: list.exhaust; cases "tl a" rule: list.exhaust; cases "tl (tl a)" rule: list.exhaust)
    (auto simp: ws_len_def ws2_def ws3_def split: list.split)

lemma trim_start_space: "trim_start (a @ CHR '' '' # b) = (if trim_start a = [] then trim_start b else trim_start a @ CHR '' '' # b)"
proof (induction a rule: trim_start.induct)
  case (1 a)
  show ?case
  proof (cases "a = []")
    case False
    show ?thesis
    proof (cases "ws_len a = 0")
      case True
      then show ?thesis using False ws_len_space [of a b] by (simp add: trim_start_id)
    next
      case ws: False
      have len: "ws_len a \<le> length a" by (auto simp: ws_len_def split: list.splits)
      have "trim_start (a @ CHR '' '' # b) = trim_start (drop (ws_len a) a @ CHR '' '' # b)"
        by (subst trim_start.simps) (use False ws ws_len_space [of a b] len in simp)
      then show ?thesis using 1 ws trim_start.simps [of a] by simp
    qed
  qed (simp add: trim_start_ascii ws1_def)
qed

lemma take_token_space: "take_token (a @ CHR '' '' # b) = (fst (take_token a), snd (take_token a) @ CHR '' '' # b)"
proof (induction a)
  case Nil
  then show ?case by (simp add: ws_len_ascii ws1_def)
next
  case (Cons c cs)
  then show ?case using ws_len_space [of "c # cs" b] by (simp split: prod.split)
qed

lemma split_whitespace_space: "split_whitespace (a @ CHR '' '' # b) = split_whitespace a @ split_whitespace b"
proof (induction a rule: split_whitespace.induct)
  case (1 a)
  show ?case
  proof (cases "trim_start a = []")
    case True
    then show ?thesis
      using split_whitespace.simps [of "a @ CHR '' '' # b"] split_whitespace.simps [of b] split_whitespace.simps [of a] by (simp add: trim_start_space)
  next
    case False
    then show ?thesis
      using 1 split_whitespace.simps [of "a @ CHR '' '' # b"] split_whitespace.simps [of a] by (simp add: trim_start_space take_token_space)
  qed
qed

text \<open>A word: no white space starts anywhere in it.\<close>

definition word_text :: "string \<Rightarrow> bool" where
  "word_text w \<longleftrightarrow> w \<noteq> [] \<and> take_token w = (w, [])"

lemma take_token_fst: "take_token (fst (take_token s)) = (fst (take_token s), [])"
proof (induction s)
  case (Cons c cs)
  obtain t r where tr: "take_token cs = (t, r)" by (cases "take_token cs")
  have "cs = t @ r" using take_token_append [OF tr] .
  have ws: "ws_len (c # t) = 0" if "ws_len (c # cs) = 0"
    using that \<open>cs = t @ r\<close> by (auto simp: ws_len_def split: list.splits if_splits)
  show ?case using Cons tr ws by (auto split: prod.splits)
qed simp

lemma split_whitespace_words: "w \<in> set (split_whitespace s) \<Longrightarrow> word_text w"
proof (induction s rule: split_whitespace.induct)
  case (1 s)
  show ?case
  proof (cases "trim_start s = []")
    case False
    have "fst (take_token (trim_start s)) \<noteq> []"
      using False by (cases "trim_start s") (auto split: prod.splits, metis less_irrefl ws_len_trim_start)
    then have "word_text (fst (take_token (trim_start s)))" by (simp add: word_text_def take_token_fst)
    then show ?thesis using 1 False split_whitespace.simps [of s] by auto
  qed (use 1 split_whitespace.simps [of s] in simp)
qed

lemma split_whitespace_word: "word_text w \<Longrightarrow> split_whitespace w = [w]"
proof -
  assume w: "word_text w"
  then have "ws_len w = 0" by (cases w) (auto simp: word_text_def split: if_splits)
  then show ?thesis using w split_whitespace.simps [of w] by (simp add: word_text_def trim_start_id)
qed

lemma split_join_parts: "split_whitespace (join_with '' '' parts) = concat (map split_whitespace parts)"
  by (induction "'' ''" parts rule: join_with.induct) (simp_all add: split_whitespace_space)

lemma split_join_words: "list_all word_text ws \<Longrightarrow> split_whitespace (join_with '' '' ws) = ws"
  unfolding split_join_parts by (induction ws) (simp_all add: split_whitespace_word)

lemma split_words_ok: "list_all word_text (split_whitespace s)"
  using split_whitespace_words by (auto simp: list_all_iff)

section \<open>Selection\<close>

lemma concat_chunks: "concat (chunks n xs) = xs"
  by (induction n xs rule: chunks.induct) (simp_all del: take_Suc_Cons drop_Suc_Cons)

lemma chunks_short: "xs \<noteq> [] \<Longrightarrow> length xs \<le> n \<Longrightarrow> chunks n xs = [xs]"
  by (cases xs) (simp_all add: max_def)

lemma chunks_bounds: "ys \<in> set (chunks n xs) \<Longrightarrow> ys \<noteq> [] \<and> length ys \<le> max 1 n \<and> set ys \<subseteq> set xs"
proof (induction n xs rule: chunks.induct)
  case (2 n x xs)
  then show ?case using set_take_subset [of "max 1 n" "x # xs"] set_drop_subset [of "max 1 n" "x # xs"]
    by (auto simp del: take_Suc_Cons drop_Suc_Cons)
qed simp

lemma filter_enumerate: "map snd (filter (\<lambda>(i, w). P w) (enumerate k ws)) = filter P ws"
  by (induction ws arbitrary: k) auto

lemma subseq_selected: "subseq (map snd (filter P (enumerate k ws))) ws"
  using subseq_map [OF subseq_filter_left, of snd P "enumerate k ws"] by simp

lemma sort_take_longest:
  assumes "x \<in> set (take k (sort_key f xs))" and "y \<in> set (drop k (sort_key f xs))"
  shows "f x \<le> (f y :: int)"
proof -
  have "sorted (map f (take k (sort_key f xs)) @ map f (drop k (sort_key f xs)))"
    by (metis append_take_drop_id map_append sorted_sort_key)
  then show ?thesis using assms by (auto simp: sorted_append)
qed

text \<open>The words of a selection: the ones that hold a force token and, of the others, the asked number of longest ones.\<close>

lemma selection_exact:
  fixes ws :: "string list" and force :: "char list" and keep :: "f32 \<Rightarrow> nat \<Rightarrow> nat" and rate :: f32
  defines "others \<equiv> filter (\<lambda>w. \<not> has_force force w) ws" and "sel \<equiv> select_words_to_keep keep ws rate force"
  shows selected_subseq: "subseq sel ws"
    and selected_force: "filter (has_force force) sel = filter (has_force force) ws"
    and selected_count: "length (filter (\<lambda>w. \<not> has_force force w) sel) = min (keep (f32_clamp rate 0 0x3F800000) (length others)) (length others)"
    and selected_longest: "v \<in> set ws - set sel \<Longrightarrow> w \<in> set sel \<Longrightarrow> \<not> has_force force w \<Longrightarrow> length v \<le> length w"
proof -
  let ?N = "enumerate 0 ws"
  define nf where "nf = filter (\<lambda>(i, w). \<not> has_force force w) ?N"
  define k where "k = keep (f32_clamp rate 0 0x3F800000) (length nf)"
  define srt where "srt = sort_key (\<lambda>(i, w). - int (length w)) nf"
  define kept where "kept = set (map fst (take k srt))"
  have sel: "sel = map snd (filter (\<lambda>(i, w). has_force force w \<or> i \<in> kept) ?N)"
    by (simp add: sel_def select_words_to_keep_def Let_def nf_def k_def srt_def kept_def)
  have dN: "distinct (map fst ?N)" by simp
  then have dl: "distinct ?N" unfolding distinct_map by blast
  have inj: "x = y" if "x \<in> set ?N" "y \<in> set ?N" "fst x = fst y" for x y
    using dN that unfolding distinct_map by (blast dest: inj_onD)
  have setS: "set srt = set nf" by (simp add: srt_def)
  have dS: "distinct srt" using dN by (simp add: srt_def nf_def distinct_map)
  have lo: "length nf = length others"
    using arg_cong [OF filter_enumerate [of "\<lambda>w. \<not> has_force force w" 0 ws], of length] by (simp add: others_def nf_def)
  have takeN: "set (take k srt) \<subseteq> set ?N" using setS set_take_subset [of k srt] by (auto simp: nf_def)
  have kept_iff: "fst x \<in> kept \<longleftrightarrow> x \<in> set (take k srt)" if x: "x \<in> set ?N" for x
  proof
    assume "fst x \<in> kept"
    then obtain y where "y \<in> set (take k srt)" "fst y = fst x" unfolding kept_def by auto
    then show "x \<in> set (take k srt)" using inj [of y x] x takeN by blast
  qed (simp add: kept_def)
  show "subseq sel ws" unfolding sel by (rule subseq_selected)
  have "filter (has_force force) sel = map snd (filter (\<lambda>(i, w). has_force force w) ?N)"
    unfolding sel filter_map filter_filter by (intro arg_cong [where f = "map snd"] filter_cong) auto
  then show "filter (has_force force) sel = filter (has_force force) ws" by (simp add: filter_enumerate)
  have "filter (\<lambda>w. \<not> has_force force w) sel = map snd (filter (\<lambda>x. x \<in> set (take k srt)) ?N)"
    unfolding sel filter_map filter_filter
    using kept_iff setS set_take_subset [of k srt] by (intro arg_cong [where f = "map snd"] filter_cong) (auto simp: nf_def)
  then have "length (filter (\<lambda>w. \<not> has_force force w) sel) = card (set (filter (\<lambda>x. x \<in> set (take k srt)) ?N))"
    using distinct_card [OF distinct_filter [OF dl], of "\<lambda>x. x \<in> set (take k srt)"] by simp
  also have "set (filter (\<lambda>x. x \<in> set (take k srt)) ?N) = set (take k srt)" using takeN by auto
  also have "card \<dots> = min k (length nf)" using dS by (simp add: distinct_card srt_def)
  finally show "length (filter (\<lambda>w. \<not> has_force force w) sel) = min (keep (f32_clamp rate 0 0x3F800000) (length others)) (length others)"
    by (simp add: k_def lo)
  show "length v \<le> length w" if v: "v \<in> set ws - set sel" and w: "w \<in> set sel" "\<not> has_force force w"
  proof -
    have "v \<in> snd ` set ?N" using v by (metis DiffD1 list.set_map map_snd_enumerate)
    then obtain i where i: "(i, v) \<in> set ?N" by auto
    have iv: "\<not> has_force force v \<and> i \<notin> kept"
    proof (rule ccontr)
      assume "\<not> (\<not> has_force force v \<and> i \<notin> kept)"
      then have "(i, v) \<in> set (filter (\<lambda>(i, w). has_force force w \<or> i \<in> kept) ?N)" using i by auto
      then have "v \<in> set sel" unfolding sel set_map by (metis image_eqI snd_conv)
      then show False using v by simp
    qed
    then have "(i, v) \<in> set srt" using i setS by (simp add: nf_def)
    moreover have "(i, v) \<notin> set (take k srt)" using kept_iff [OF i] iv by simp
    ultimately have vd: "(i, v) \<in> set (drop k srt)"
      by (metis Un_iff append_take_drop_id set_append)
    from w(1) obtain x where x: "x \<in> set ?N" "has_force force (snd x) \<or> fst x \<in> kept" "w = snd x"
      unfolding sel by auto
    have "x \<in> set (take k srt)" using kept_iff [OF x(1)] x(2,3) w(2) by blast
    then have "- int (length (snd x)) \<le> - int (length v)"
      using sort_take_longest [of x k "\<lambda>(i, w). - int (length w)" nf "(i, v)"] vd
      by (simp add: srt_def split_beta)
    then show ?thesis using x(3) by simp
  qed
qed

section \<open>Compression\<close>

text \<open>The words of each chunk of a text; a chunk size of zero makes the whole text one chunk.\<close>

definition word_chunks :: "compression_config \<Rightarrow> string \<Rightarrow> string list list" where
  "word_chunks cfg txt =
     (if cc_chunk_size_words cfg = 0 then [split_whitespace txt] else chunks (cc_chunk_size_words cfg) (split_whitespace txt))"

lemma concat_word_chunks: "concat (word_chunks cfg txt) = split_whitespace txt"
  by (simp add: word_chunks_def concat_chunks)

lemma select_nil [simp]: "select_words_to_keep keep [] r force = []"
  by (simp add: select_words_to_keep_def Let_def)

lemma chunks_word_text: "list_all word_text ws \<Longrightarrow> ys \<in> set (chunks n ws) \<Longrightarrow> list_all word_text ys"
  using chunks_bounds [of ys n ws] by (auto simp: list_all_iff)

lemma select_word_text: "list_all word_text ws \<Longrightarrow> list_all word_text (select_words_to_keep keep ws r force)"
  using list_emb_set [OF selected_subseq [of keep ws r force]] by (fastforce simp: list_all_iff)

lemma map_select_chunks:
  "concat (map (\<lambda>c. select_words_to_keep keep (split_whitespace c) r f) (chunk_by_words txt (cc_chunk_size_words cfg)))
     = concat (map (\<lambda>ws. select_words_to_keep keep ws r f) (word_chunks cfg txt))"
proof -
  have "split_whitespace (join_with '' '' ys) = ys" if "ys \<in> set (chunks n (split_whitespace txt))" for n ys
    by (rule split_join_words [OF chunks_word_text [OF split_words_ok that]])
  then have m: "map (\<lambda>c. select_words_to_keep keep (split_whitespace c) r f) (map (join_with '' '') (chunks n (split_whitespace txt)))
      = map (\<lambda>ws. select_words_to_keep keep ws r f) (chunks n (split_whitespace txt))" for n
    by simp
  have sp: "split_whitespace [] = []" using split_whitespace.simps [of "[]"] by simp
  let ?n = "cc_chunk_size_words cfg"
  consider "?n = 0" | "?n \<noteq> 0" "split_whitespace txt = []" | "?n \<noteq> 0" "split_whitespace txt \<noteq> []" "length (split_whitespace txt) \<le> ?n"
    | "?n \<noteq> 0" "split_whitespace txt \<noteq> []" "\<not> length (split_whitespace txt) \<le> ?n" by blast
  then show ?thesis
  proof cases
    case 4
    then show ?thesis using m [of ?n] by (simp only: chunk_by_words_def word_chunks_def Let_def if_False)
  qed (simp_all add: chunk_by_words_def word_chunks_def Let_def sp chunks_short)
qed

lemma compress_exact:
  "split_whitespace (compress_text keep txt cfg)
     = concat (map (\<lambda>ws. select_words_to_keep keep ws (cc_rate cfg) (cc_force_tokens cfg)) (word_chunks cfg txt))"
proof -
  have sp: "split_whitespace [] = []" using split_whitespace.simps [of "[]"] by simp
  have w: "split_whitespace (join_with '' '' (select_words_to_keep keep (split_whitespace c) r f)) = select_words_to_keep keep (split_whitespace c) r f" for c r f
    by (intro split_join_words select_word_text split_words_ok)
  show ?thesis
  proof (cases "txt = []")
    case True
    then show ?thesis by (simp add: compress_text_def sp word_chunks_def)
  next
    case False
    show ?thesis
      unfolding compress_text_def if_not_P [OF False] split_join_parts [of "map _ _"] map_map comp_def w map_select_chunks ..
  qed
qed

lemma subseq_concat_map: "(\<And>x. subseq (f x) x) \<Longrightarrow> subseq (concat (map f xs)) (concat xs)"
  by (induction xs) (simp_all add: list_emb_append_mono)

lemma filter_concat_map: "(\<And>x. filter P (f x) = filter P x) \<Longrightarrow> filter P (concat (map f xs)) = filter P (concat xs)"
  by (induction xs) simp_all

lemma words_no_newline: "word_text w \<Longrightarrow> newline \<notin> set w"
proof -
  have "newline \<notin> set (fst (take_token s))" for s
    by (induction s) (auto simp: ws_len_ascii ws1_def split: prod.split)
  then show "word_text w \<Longrightarrow> newline \<notin> set w" unfolding word_text_def by (metis fst_conv)
qed

lemma join_with_set: "set (join_with sep xs) \<subseteq> set sep \<union> \<Union> (set ` set xs)"
  by (induction sep xs rule: join_with.induct) auto

lemma compress_words_subseq: "subseq (split_whitespace (compress_text keep txt cfg)) (split_whitespace txt)"
proof -
  let ?f = "\<lambda>ws. select_words_to_keep keep ws (cc_rate cfg) (cc_force_tokens cfg)"
  show ?thesis
    unfolding compress_exact using subseq_concat_map [of ?f "word_chunks cfg txt", OF selected_subseq] by (simp add: concat_word_chunks)
qed

lemma compress_words_force: "filter (has_force (cc_force_tokens cfg)) (split_whitespace (compress_text keep txt cfg))
    = filter (has_force (cc_force_tokens cfg)) (split_whitespace txt)"
proof -
  let ?f = "\<lambda>ws. select_words_to_keep keep ws (cc_rate cfg) (cc_force_tokens cfg)"
  show ?thesis
    unfolding compress_exact
    using filter_concat_map [of "has_force (cc_force_tokens cfg)" ?f "word_chunks cfg txt", OF selected_force] by (simp add: concat_word_chunks)
qed

lemma select_all:
  assumes "keep (f32_clamp r 0 0x3F800000) (length (filter (\<lambda>w. \<not> has_force f w) ws)) \<ge> length (filter (\<lambda>w. \<not> has_force f w) ws)"
  shows "select_words_to_keep keep ws r f = ws"
proof -
  have "length (filter (\<lambda>w. \<not> has_force f w) (select_words_to_keep keep ws r f)) = length (filter (\<lambda>w. \<not> has_force f w) ws)"
    using selected_count [of f keep ws r] assms by simp
  moreover have "length (filter (has_force f) (select_words_to_keep keep ws r f)) = length (filter (has_force f) ws)"
    by (simp add: selected_force)
  ultimately have "length (select_words_to_keep keep ws r f) = length ws"
    using sum_length_filter_compl [of "has_force f" ws] sum_length_filter_compl [of "has_force f" "select_words_to_keep keep ws r f"] by simp
  then show ?thesis using selected_subseq [of keep ws r f] by (metis subseq_same_length)
qed

lemma select_forced:
  assumes "keep (f32_clamp r 0 0x3F800000) (length (filter (\<lambda>w. \<not> has_force f w) ws)) = 0"
  shows "select_words_to_keep keep ws r f = filter (has_force f) ws"
proof -
  have "length (filter (\<lambda>w. \<not> has_force f w) (select_words_to_keep keep ws r f)) = 0"
    using selected_count [of f keep ws r] assms by simp
  then have "filter (has_force f) (select_words_to_keep keep ws r f) = select_words_to_keep keep ws r f"
    by (simp add: filter_empty_conv filter_id_conv)
  then show ?thesis using selected_force [of f keep ws r] by simp
qed

lemma word_chunks_length: "0 < cc_chunk_size_words cfg \<Longrightarrow> ws \<in> set (word_chunks cfg txt) \<Longrightarrow> length ws \<le> cc_chunk_size_words cfg"
  using chunks_bounds [of ws "cc_chunk_size_words cfg"] by (simp add: word_chunks_def)

text \<open>Property C22: For every rounding of the kept count, compression returns a text whose words are words of the input in their order, it drops no word
that holds a force token and it changes none, and no line break of the input is in the result, although the default force tokens hold the line break.\<close>

theorem compression_keeps_order:
  "subseq (split_whitespace (compress_text keep txt cfg)) (split_whitespace txt)
   \<and> filter (has_force (cc_force_tokens cfg)) (split_whitespace (compress_text keep txt cfg))
       = filter (has_force (cc_force_tokens cfg)) (split_whitespace txt)
   \<and> newline \<notin> set (compress_text keep txt cfg)"
proof (intro conjI compress_words_subseq compress_words_force)
  have nl: "newline \<notin> set (join_with '' '' (select_words_to_keep keep (split_whitespace c) r f))" for c r f
    using join_with_set [of "'' ''" "select_words_to_keep keep (split_whitespace c) r f"] words_no_newline
      select_word_text [OF split_words_ok, of keep c r f] by (auto simp: list_all_iff)
  show "newline \<notin> set (compress_text keep txt cfg)"
  proof (cases "txt = []")
    case False
    let ?parts = "map (\<lambda>c. join_with '' '' (select_words_to_keep keep (split_whitespace c) (cc_rate cfg) (cc_force_tokens cfg)))
      (chunk_by_words txt (cc_chunk_size_words cfg))"
    have "newline \<notin> \<Union> (set ` set ?parts)" using nl by (simp only: set_map) blast
    then show ?thesis
      unfolding compress_text_def if_not_P [OF False] using join_with_set [of "'' ''" ?parts] by (auto simp del: set_map)
  qed (simp add: compress_text_def)
qed

text \<open>Fact: A chunk keeps, beside its forced words, as many others as the rounding asks for and has, and never drops a word that is longer than
another word it keeps.\<close>

theorem chunk_selection:
  "length (filter (\<lambda>w. \<not> has_force f w) (select_words_to_keep keep ws r f))
     = min (keep (f32_clamp r 0 0x3F800000) (length (filter (\<lambda>w. \<not> has_force f w) ws))) (length (filter (\<lambda>w. \<not> has_force f w) ws))
   \<and> (\<forall>v w. v \<in> set ws - set (select_words_to_keep keep ws r f) \<longrightarrow> w \<in> set (select_words_to_keep keep ws r f) \<longrightarrow> \<not> has_force f w
        \<longrightarrow> length v \<le> length w)"
  using selected_count selected_longest by blast

theorem chunk_selection_witness:
  "length (filter (\<lambda>w. \<not> has_force ''.'' w) (select_words_to_keep (\<lambda>r n. 1) [''a'', ''bcd'', ''e.''] 0 ''.'')) = 1"
  using chunk_selection [of "''.''" "\<lambda>r n. 1" "[''a'', ''bcd'', ''e.'']" 0] by (simp add: has_force_def)

end
