(* ===== verification/LlmBackends.thy ===== *)
theory LlmBackends
  imports Packets Compressor "HOL-Library.AList"
begin

text \<open>
  \<^verbatim>\<open>crates/themis-agents/src/llm.rs\<close>: the language-model backends behind the agents: the mock, the two HTTP backends with their retries on
  status 429, and the wrapper that compresses prompts. A call appends what it does to a trace of events: sleeps, requests and records of the
  metrics sink. What the server answers and how long a call took are functions of that trace. JSON parsing, the text of a status and the JSON
  form of an \<^verbatim>\<open>f32\<close> are parameters.
\<close>

section \<open>Requests and responses\<close>

record llm_request =
  lq_system_prompt :: string
  lq_user_prompt :: string
  lq_max_tokens :: u32
  lq_temperature :: f32
  lq_seed :: "u64 option"
  lq_response_schema :: "json option"
  lq_response_schema_name :: "string option"

datatype finish_reason = FinishStop | FinishLength | FinishContentFilter | FinishError | FinishUnknown

definition parse_finish_reason :: "string option \<Rightarrow> finish_reason" where
  "parse_finish_reason raw =
     (if raw = Some ''stop'' then FinishStop
      else if raw = Some ''length'' \<or> raw = Some ''max_tokens'' then FinishLength
      else if raw = Some ''content_filter'' \<or> raw = Some ''safety'' then FinishContentFilter
      else if raw = Some ''error'' \<or> raw = Some ''stop_error'' then FinishError
      else FinishUnknown)"

record llm_response =
  lr_text :: string
  lr_input_tokens :: u32
  lr_output_tokens :: u32
  lr_model_id :: string
  lr_finish_reason :: finish_reason

section \<open>The mock\<close>

text \<open>The hash map of canned responses is the list of its entries in iteration order. The message of the last branch slices the prompt at
  byte 40 and panics inside a character: \<open>None\<close>.\<close>

record mock_llm =
  mk_responses :: "(string \<times> llm_response) list"
  mk_default :: "llm_response option"
  mk_call_count :: u32
  mk_rate_limit_after :: u32
  mk_model_id :: string

definition mock_new :: "string \<Rightarrow> mock_llm" where
  "mock_new model = \<lparr>mk_responses = [], mk_default = None, mk_call_count = 0, mk_rate_limit_after = - 1, mk_model_id = model\<rparr>"

definition mock_with_response :: "string \<Rightarrow> llm_response \<Rightarrow> mock_llm \<Rightarrow> mock_llm" where
  "mock_with_response sub r m = m\<lparr>mk_responses := AList.update sub r (mk_responses m)\<rparr>"

definition mock_with_default :: "llm_response \<Rightarrow> mock_llm \<Rightarrow> mock_llm" where
  "mock_with_default r m = m\<lparr>mk_default := Some r\<rparr>"

definition mock_with_rate_limit_after :: "u32 \<Rightarrow> mock_llm \<Rightarrow> mock_llm" where
  "mock_with_rate_limit_after n m = m\<lparr>mk_rate_limit_after := n\<rparr>"

definition mock_complete :: "(string \<Rightarrow> string) \<Rightarrow> llm_request \<Rightarrow> mock_llm \<Rightarrow> (agent_error + llm_response) option \<times> mock_llm" where
  "mock_complete quoted req m =
     (let n = mk_call_count m + 1; m' = m\<lparr>mk_call_count := n\<rparr>
      in (if n > mk_rate_limit_after m then Some (Inl (RateLimited 60000))
          else (case find (\<lambda>(sub, _). contains_str (lq_user_prompt req) sub \<or> contains_str (lq_system_prompt req) sub) (mk_responses m) of
              Some (_, r) \<Rightarrow> Some (Inr r)
            | None \<Rightarrow> (case mk_default m of
                Some r \<Rightarrow> Some (Inr r)
              | None \<Rightarrow> (let k = min (length (lq_user_prompt req)) 40
                  in if is_char_boundary (lq_user_prompt req) k
                     then Some (Inl (LlmUnavailable (''MockLlmProvider: no response registered for prompt starting with '' @ quoted (take k (lq_user_prompt req)))))
                     else None))), m'))"

section \<open>The HTTP backends\<close>

record call_metrics =
  cm_success :: bool
  cm_latency_ms :: u64
  cm_tokens_in :: u32
  cm_tokens_out :: u32
  cm_model :: string

datatype llm_event =
    Slept u64
  | Posted string string json
  | Recorded call_metrics

text \<open>A response is a network error or a status with the outcome of reading its body.\<close>

type_synonym http_answer = "string + nat \<times> (string + string)"

record llm_world =
  lw_env :: "string \<rightharpoonup> string"
  lw_post :: "llm_event list \<Rightarrow> http_answer"
  lw_elapsed :: "llm_event list \<Rightarrow> u64"
  lw_parse_json :: "string \<Rightarrow> string + json"
  lw_status_text :: "nat \<Rightarrow> string"
  lw_numbers :: json_numbers
  lw_f32_json :: "f32 \<Rightarrow> json"

record http_backend =
  hb_api_key :: string
  hb_model :: string
  hb_base_url :: string
  hb_metrics :: bool

type_synonym llm_result = "(agent_error + llm_response) \<times> llm_event list"

definition featherless_new :: "string \<Rightarrow> string \<Rightarrow> http_backend" where
  "featherless_new api_key model = \<lparr>hb_api_key = api_key, hb_model = model, hb_base_url = ''https://api.featherless.ai'', hb_metrics = False\<rparr>"

definition featherless_from_env :: "llm_world \<Rightarrow> string \<Rightarrow> http_backend option" where
  "featherless_from_env w model = Option.bind (lw_env w ''FEATHERLESS_API_KEY'')
     (\<lambda>key. let key = trim key in if key = [] then None else Some (featherless_new key model))"

definition aimlapi_new :: "string \<Rightarrow> string \<Rightarrow> http_backend" where
  "aimlapi_new api_key model = \<lparr>hb_api_key = api_key, hb_model = model, hb_base_url = ''https://api.aimlapi.com'', hb_metrics = False\<rparr>"

definition with_base_url :: "string \<Rightarrow> http_backend \<Rightarrow> http_backend" where
  "with_base_url url b = b\<lparr>hb_base_url := url\<rparr>"

definition aimlapi_from_env_with_url :: "llm_world \<Rightarrow> string \<Rightarrow> string option \<Rightarrow> http_backend option" where
  "aimlapi_from_env_with_url w model url_override = Option.bind (lw_env w ''AIML_API_KEY'')
     (\<lambda>key. let key = trim key
        in if key = [] then None
           else Some (case url_override of
               None \<Rightarrow> aimlapi_new key model
             | Some url \<Rightarrow> (let url = trim url in if url = [] then aimlapi_new key model else with_base_url url (aimlapi_new key model))))"

definition aimlapi_from_env :: "llm_world \<Rightarrow> string \<Rightarrow> http_backend option" where
  "aimlapi_from_env w model = aimlapi_from_env_with_url w model None"

definition with_metrics :: "http_backend \<Rightarrow> http_backend" where
  "with_metrics b = b\<lparr>hb_metrics := True\<rparr>"

definition BACKOFFS_MS :: "u64 list" where "BACKOFFS_MS = [100, 200, 400]"

definition num_u32 :: "u32 \<Rightarrow> json" where "num_u32 n = JNumber (show_nat (unat n))"

definition request_body :: "llm_world \<Rightarrow> http_backend \<Rightarrow> llm_request \<Rightarrow> json" where
  "request_body w b req = JObject
     ([(''model'', JString (hb_model b)),
       (''messages'', JArray
         [JObject [(''role'', JString ''system''), (''content'', JString (lq_system_prompt req))],
          JObject [(''role'', JString ''user''), (''content'', JString (lq_user_prompt req))]]),
       (''max_tokens'', num_u32 (lq_max_tokens req)),
       (''temperature'', lw_f32_json w (lq_temperature req))] @
      (case lq_response_schema req of
         None \<Rightarrow> []
       | Some schema \<Rightarrow> [(''response_format'', JObject [(''type'', JString ''json_schema''),
           (''json_schema'', JObject
             [(''name'', JString (case lq_response_schema_name req of Some name \<Rightarrow> name | None \<Rightarrow> ''ThemisResponse'')), (''schema'', schema)])])]))"

definition record_call :: "llm_world \<Rightarrow> http_backend \<Rightarrow> bool \<Rightarrow> u32 \<Rightarrow> u32 \<Rightarrow> llm_event list \<Rightarrow> llm_event list" where
  "record_call w b ok tokens_in tokens_out tr =
     (if hb_metrics b
      then tr @ [Recorded \<lparr>cm_success = ok, cm_latency_ms = lw_elapsed w tr, cm_tokens_in = tokens_in, cm_tokens_out = tokens_out, cm_model = hb_model b\<rparr>]
      else tr)"

definition json_index :: "json \<Rightarrow> string \<Rightarrow> json" where
  "json_index v key = (case json_get v key of Some x \<Rightarrow> x | None \<Rightarrow> JNull)"

definition json_at :: "json \<Rightarrow> nat \<Rightarrow> json" where
  "json_at v i = (case v of JArray xs \<Rightarrow> if i < length xs then xs ! i else JNull | _ \<Rightarrow> JNull)"

definition usage_tokens :: "llm_world \<Rightarrow> json \<Rightarrow> string \<Rightarrow> u32" where
  "usage_tokens w parsed key = ucast (case jn_u64 (lw_numbers w) (json_index (json_index parsed ''usage'') key) of Some n \<Rightarrow> n | None \<Rightarrow> 0)"

definition message_content :: "json \<Rightarrow> string option" where
  "message_content parsed = as_str (json_index (json_index (json_at (json_index parsed ''choices'') 0) ''message'') ''content'')"

definition accept_body :: "string \<Rightarrow> llm_world \<Rightarrow> http_backend \<Rightarrow> string + string \<Rightarrow> llm_event list \<Rightarrow> llm_result" where
  "accept_body label w b body tr = (case body of
       Inl e \<Rightarrow> (Inl (LlmUnavailable (''read body: '' @ e)), tr)
     | Inr raw \<Rightarrow> (case lw_parse_json w raw of
         Inl e \<Rightarrow> (Inl (LlmMalformedPayload (label @ '' returned non-JSON: '' @ e @ '': '' @ chars_take 200 raw)), tr)
       | Inr parsed \<Rightarrow> (case message_content parsed of
           None \<Rightarrow> (Inl (LlmMalformedPayload ''missing choices[0].message.content''), tr)
         | Some txt \<Rightarrow> (let i = usage_tokens w parsed ''prompt_tokens''; out = usage_tokens w parsed ''completion_tokens''
             in (Inr \<lparr>lr_text = txt, lr_input_tokens = i, lr_output_tokens = out, lr_model_id = hb_model b,
                    lr_finish_reason = parse_finish_reason (as_str (json_index (json_at (json_index parsed ''choices'') 0) ''finish_reason''))\<rparr>,
                 record_call w b True i out tr)))))"

definition body_or_empty :: "string + string \<Rightarrow> string" where
  "body_or_empty body = (case body of Inr s \<Rightarrow> s | Inl _ \<Rightarrow> [])"

text \<open>What one response leads to; \<open>None\<close> is the retry on 429.\<close>

definition featherless_response :: "llm_world \<Rightarrow> http_backend \<Rightarrow> http_answer \<Rightarrow> llm_event list \<Rightarrow> llm_result option" where
  "featherless_response w b answer tr = (case answer of
       Inl e \<Rightarrow> Some (Inl (LlmUnavailable (''Featherless network error: '' @ e)), record_call w b False 0 0 tr)
     | Inr (status, body) \<Rightarrow>
         if status = 429 then None
         else if 500 \<le> status \<and> status \<le> 599
         then Some (Inl (LlmUnavailable (''Featherless 5xx: '' @ lw_status_text w status)), record_call w b False 0 0 tr)
         else if \<not> (200 \<le> status \<and> status \<le> 299)
         then Some (Inl (LlmUnavailable (''Featherless '' @ lw_status_text w status @ '': '' @ chars_take 200 (body_or_empty body))), record_call w b False 0 0 tr)
         else Some (accept_body ''Featherless'' w b body tr))"

definition aimlapi_auth_reason :: "llm_world \<Rightarrow> string \<Rightarrow> string" where
  "aimlapi_auth_reason w raw_body =
     (case (case lw_parse_json w raw_body of Inl _ \<Rightarrow> None
          | Inr v \<Rightarrow> Option.bind (Option.bind (json_get v ''error'') (\<lambda>e. json_get e ''message'')) as_str) of
        Some s \<Rightarrow> s
      | None \<Rightarrow> chars_take 200 raw_body)"

definition aimlapi_response :: "llm_world \<Rightarrow> http_backend \<Rightarrow> http_answer \<Rightarrow> llm_event list \<Rightarrow> llm_result option" where
  "aimlapi_response w b answer tr = (case answer of
       Inl e \<Rightarrow> Some (Inl (LlmUnavailable (''AIMLAPI network error: '' @ e)), record_call w b False 0 0 tr)
     | Inr (status, body) \<Rightarrow>
         if status = 429 then None
         else if 500 \<le> status \<and> status \<le> 599
         then Some (Inl (LlmUnavailable (''AIMLAPI 5xx: '' @ lw_status_text w status)), record_call w b False 0 0 tr)
         else if status = 401 \<or> status = 403
         then Some (Inl (AuthenticationError ''aimlapi'' (aimlapi_auth_reason w (body_or_empty body))), record_call w b False 0 0 tr)
         else if \<not> (200 \<le> status \<and> status \<le> 299)
         then Some (Inl (LlmUnavailable (''AIMLAPI '' @ lw_status_text w status @ '': '' @ chars_take 200 (body_or_empty body))), record_call w b False 0 0 tr)
         else Some (accept_body ''AIMLAPI'' w b body tr))"

text \<open>The loop over the attempts, each with the delay before it.\<close>

fun complete_attempts :: "(http_answer \<Rightarrow> llm_event list \<Rightarrow> llm_result option) \<Rightarrow> string \<Rightarrow> llm_world \<Rightarrow> http_backend \<Rightarrow> json \<Rightarrow>
    u64 option list \<Rightarrow> agent_error option \<Rightarrow> llm_event list \<Rightarrow> llm_result" where
  "complete_attempts handle exhausted w b body [] last_err tr =
     (Inl (case last_err of Some e \<Rightarrow> e | None \<Rightarrow> LlmUnavailable exhausted), record_call w b False 0 0 tr)"
| "complete_attempts handle exhausted w b body (delay # delays) last_err tr =
     (let tr = tr @ (case delay of None \<Rightarrow> [] | Some ms \<Rightarrow> [Slept ms]);
          tr = tr @ [Posted (hb_base_url b @ ''/v1/chat/completions'') (''Bearer '' @ hb_api_key b) body]
      in case handle (lw_post w tr) tr of
           None \<Rightarrow> complete_attempts handle exhausted w b body delays (Some (RateLimited 0)) tr
         | Some r \<Rightarrow> r)"

definition attempt_delays :: "u64 option list" where
  "attempt_delays = None # map Some BACKOFFS_MS"

definition featherless_complete :: "llm_world \<Rightarrow> http_backend \<Rightarrow> llm_request \<Rightarrow> llm_result" where
  "featherless_complete w b req =
     complete_attempts (featherless_response w b) ''Featherless: rate-limited after retries'' w b (request_body w b req) attempt_delays None []"

definition aimlapi_complete :: "llm_world \<Rightarrow> http_backend \<Rightarrow> llm_request \<Rightarrow> llm_result" where
  "aimlapi_complete w b req =
     complete_attempts (aimlapi_response w b) ''AIMLAPI: rate-limited after retries'' w b (request_body w b req) attempt_delays None []"

section \<open>Compression and routing\<close>

definition compression_new :: "f32 \<Rightarrow> compression_config" where
  "compression_new rate = config_with_rate rate"

definition compressed_request :: "(f32 \<Rightarrow> nat \<Rightarrow> nat) \<Rightarrow> compression_config \<Rightarrow> llm_request \<Rightarrow> llm_request" where
  "compressed_request keep cfg req =
     (let compressed_user = compress_text keep (lq_user_prompt req) cfg
      in req\<lparr>lq_user_prompt := if compressed_user = [] then lq_user_prompt req else compressed_user\<rparr>)"

definition compression_complete :: "(f32 \<Rightarrow> nat \<Rightarrow> nat) \<Rightarrow> compression_config \<Rightarrow> (llm_request \<Rightarrow> 'r) \<Rightarrow> llm_request \<Rightarrow> 'r" where
  "compression_complete keep cfg inner req = inner (compressed_request keep cfg req)"

definition agents_model_id :: "string \<Rightarrow> string option" where
  "agents_model_id agent_name =
     (if agent_name = ''fraud_auditor'' then Some ''Qwen/Qwen3-Coder-30B-A3B-Instruct''
      else if agent_name = ''gaap_classifier'' then Some ''meta-llama/Llama-3.3-70B-Instruct''
      else if agent_name = ''extractor'' then Some ''Qwen/Qwen3-30B''
      else if agent_name \<in> {''demo_narrator'', ''audit_watchdog'', ''regression_tester''} then Some ''Qwen/Qwen3-30B''
      else None)"

section \<open>Retries\<close>

definition attempt_events :: "http_backend \<Rightarrow> json \<Rightarrow> u64 option \<Rightarrow> llm_event list" where
  "attempt_events b body delay = (case delay of None \<Rightarrow> [] | Some ms \<Rightarrow> [Slept ms])
     @ [Posted (hb_base_url b @ ''/v1/chat/completions'') (''Bearer '' @ hb_api_key b) body]"

text \<open>The trace when request number \<open>k\<close> has been sent.\<close>

definition sent_upto :: "http_backend \<Rightarrow> json \<Rightarrow> nat \<Rightarrow> llm_event list" where
  "sent_upto b body k = concat (map (attempt_events b body) (take (Suc k) attempt_delays))"

definition rate_limited :: "http_answer \<Rightarrow> bool" where
  "rate_limited a = (case a of Inr (status, _) \<Rightarrow> status = 429 | Inl _ \<Rightarrow> False)"

text \<open>The outcomes of a successful status whose body could not be used.\<close>

definition unusable_body :: "agent_error + llm_response \<Rightarrow> bool" where
  "unusable_body r = (case r of Inl (LlmMalformedPayload _) \<Rightarrow> True | Inl (LlmUnavailable s) \<Rightarrow> prefix ''read body: '' s | _ \<Rightarrow> False)"

fun recorded :: "llm_event list \<Rightarrow> call_metrics list" where
  "recorded [] = []"
| "recorded (Recorded m # tr) = m # recorded tr"
| "recorded (Slept _ # tr) = recorded tr"
| "recorded (Posted _ _ _ # tr) = recorded tr"

lemma recorded_append [simp]: "recorded (tr @ tr') = recorded tr @ recorded tr'"
  by (induction tr rule: recorded.induct) simp_all

lemma recorded_attempt [simp]: "recorded (attempt_events b body d) = []"
  by (simp add: attempt_events_def split: option.split)

lemma recorded_sent [simp]: "recorded (sent_upto b body k) = []"
proof -
  have "recorded (concat (map (attempt_events b body) ds)) = []" for ds by (induction ds) simp_all
  then show ?thesis by (simp add: sent_upto_def)
qed

lemma complete_attempts_step: "complete_attempts handle ex w b body (d # ds) le tr =
    (case handle (lw_post w (tr @ attempt_events b body d)) (tr @ attempt_events b body d) of
       None \<Rightarrow> complete_attempts handle ex w b body ds (Some (RateLimited 0)) (tr @ attempt_events b body d)
     | Some r \<Rightarrow> r)"
  unfolding complete_attempts.simps(2) Let_def attempt_events_def append_assoc ..

declare complete_attempts.simps(2) [simp del] complete_attempts_step [simp]

lemma complete_attempts_first:
  assumes "\<forall>i<k. handle (lw_post w (tr @ concat (map (attempt_events b body) (take (Suc i) ds))))
      (tr @ concat (map (attempt_events b body) (take (Suc i) ds))) = None"
    and "k < length ds"
    and "handle (lw_post w (tr @ concat (map (attempt_events b body) (take (Suc k) ds))))
      (tr @ concat (map (attempt_events b body) (take (Suc k) ds))) = Some r"
  shows "complete_attempts handle ex w b body ds le tr = r"
  using assms
proof (induction ds arbitrary: k tr le)
  case (Cons d ds)
  show ?case
  proof (cases k)
    case 0
    then show ?thesis using Cons.prems(3) by simp
  next
    case (Suc j)
    have "handle (lw_post w (tr @ attempt_events b body d)) (tr @ attempt_events b body d) = None"
      using Cons.prems(1) Suc by force
    moreover have "complete_attempts handle ex w b body ds (Some (RateLimited 0)) (tr @ attempt_events b body d) = r"
    proof (rule Cons.IH [of j])
      show "\<forall>i<j. handle (lw_post w ((tr @ attempt_events b body d) @ concat (map (attempt_events b body) (take (Suc i) ds))))
          ((tr @ attempt_events b body d) @ concat (map (attempt_events b body) (take (Suc i) ds))) = None"
      proof (intro allI impI)
        fix i assume "i < j"
        then have "Suc i < k" using Suc by simp
        then show "handle (lw_post w ((tr @ attempt_events b body d) @ concat (map (attempt_events b body) (take (Suc i) ds))))
          ((tr @ attempt_events b body d) @ concat (map (attempt_events b body) (take (Suc i) ds))) = None"
          using Cons.prems(1) by (metis append.assoc concat.simps(2) list.simps(9) take_Suc_Cons)
      qed
    qed (use Cons.prems Suc in simp_all)
    ultimately show ?thesis by simp
  qed
qed simp

lemma complete_attempts_none:
  assumes "\<forall>i<length ds. handle (lw_post w (tr @ concat (map (attempt_events b body) (take (Suc i) ds))))
      (tr @ concat (map (attempt_events b body) (take (Suc i) ds))) = None"
  shows "complete_attempts handle ex w b body ds le tr =
    (Inl (if ds = [] then case le of Some e \<Rightarrow> e | None \<Rightarrow> LlmUnavailable ex else RateLimited 0),
     record_call w b False 0 0 (tr @ concat (map (attempt_events b body) ds)))"
  using assms
proof (induction ds arbitrary: tr le)
  case (Cons d ds)
  have "handle (lw_post w (tr @ attempt_events b body d)) (tr @ attempt_events b body d) = None"
    using Cons.prems by force
  moreover have "\<forall>i<length ds. handle (lw_post w ((tr @ attempt_events b body d) @ concat (map (attempt_events b body) (take (Suc i) ds))))
      ((tr @ attempt_events b body d) @ concat (map (attempt_events b body) (take (Suc i) ds))) = None"
  proof (intro allI impI)
    fix i assume "i < length ds"
    then have "Suc i < length (d # ds)" by simp
    then show "handle (lw_post w ((tr @ attempt_events b body d) @ concat (map (attempt_events b body) (take (Suc i) ds))))
      ((tr @ attempt_events b body d) @ concat (map (attempt_events b body) (take (Suc i) ds))) = None"
      using Cons.prems by (metis append.assoc concat.simps(2) list.simps(9) take_Suc_Cons)
  qed
  ultimately show ?case using Cons.IH [of "tr @ attempt_events b body d" "Some (RateLimited 0)"] by simp
qed simp

definition settled :: "http_backend \<Rightarrow> llm_event list \<Rightarrow> agent_error + llm_response \<Rightarrow> llm_event list \<Rightarrow> bool" where
  "settled b tr r tr' \<longleftrightarrow> (\<exists>ms. tr' = tr @ map Recorded ms \<and> length ms = (if hb_metrics b \<and> \<not> unusable_body r then 1 else 0) \<and> list_all (\<lambda>m. cm_success m \<longleftrightarrow> \<not> isl r) ms)"

text \<open>The contract of one provider: it retries exactly on 429, and it appends one record to the trace unless the body was unusable.\<close>

locale http_llm =
  fixes handle :: "llm_world \<Rightarrow> http_backend \<Rightarrow> http_answer \<Rightarrow> llm_event list \<Rightarrow> llm_result option"
    and complete :: "llm_world \<Rightarrow> http_backend \<Rightarrow> llm_request \<Rightarrow> llm_result"
  assumes retries: "handle w b a tr = None \<longleftrightarrow> rate_limited a"
    and appends: "handle w b a tr = Some (r, tr') \<Longrightarrow> settled b tr r tr'"
    and loops: "\<exists>ex. complete w b req = complete_attempts (handle w b) ex w b (request_body w b req) attempt_delays None []"
begin

lemma complete_answered:
  assumes "\<forall>i<k. rate_limited (lw_post w (sent_upto b (request_body w b req) i))" "k < 4"
    and "\<not> rate_limited (lw_post w (sent_upto b (request_body w b req) k))"
  shows "Some (complete w b req) = handle w b (lw_post w (sent_upto b (request_body w b req) k)) (sent_upto b (request_body w b req) k)"
proof -
  obtain ex where ex: "complete w b req = complete_attempts (handle w b) ex w b (request_body w b req) attempt_delays None []"
    using loops by blast
  obtain r where r: "handle w b (lw_post w (sent_upto b (request_body w b req) k)) (sent_upto b (request_body w b req) k) = Some r"
    using assms(3) retries by (metis not_Some_eq)
  have "complete_attempts (handle w b) ex w b (request_body w b req) attempt_delays None [] = r"
    using assms r retries by (intro complete_attempts_first) (simp_all add: sent_upto_def attempt_delays_def BACKOFFS_MS_def)
  then show ?thesis using ex r by simp
qed

lemma complete_exhausted:
  assumes "\<forall>i<4. rate_limited (lw_post w (sent_upto b (request_body w b req) i))"
  shows "complete w b req = (Inl (RateLimited 0), record_call w b False 0 0 (sent_upto b (request_body w b req) 3))"
proof -
  obtain ex where ex: "complete w b req = complete_attempts (handle w b) ex w b (request_body w b req) attempt_delays None []"
    using loops by blast
  have l: "length attempt_delays = 4" by (simp add: attempt_delays_def BACKOFFS_MS_def)
  have t: "take (Suc 3) attempt_delays = attempt_delays" by (simp add: l)
  have "complete_attempts (handle w b) ex w b (request_body w b req) attempt_delays None [] =
    (Inl (if attempt_delays = [] then case None of Some e \<Rightarrow> e | None \<Rightarrow> LlmUnavailable ex else RateLimited 0),
     record_call w b False 0 0 ([] @ concat (map (attempt_events b (request_body w b req)) attempt_delays)))"
    using assms by (intro complete_attempts_none) (simp add: l retries sent_upto_def)
  then show ?thesis using ex t l by (simp add: sent_upto_def attempt_delays_def)
qed

lemma complete_cases:
  obtains (answered) k where "k < 4" "\<forall>i<k. rate_limited (lw_post w (sent_upto b (request_body w b req) i))"
      "\<not> rate_limited (lw_post w (sent_upto b (request_body w b req) k))"
      "Some (complete w b req) = handle w b (lw_post w (sent_upto b (request_body w b req) k)) (sent_upto b (request_body w b req) k)"
  | (exhausted) "\<forall>i<4. rate_limited (lw_post w (sent_upto b (request_body w b req) i))"
proof (cases "\<forall>i<4. rate_limited (lw_post w (sent_upto b (request_body w b req) i))")
  case False
  define k where "k = (LEAST i. \<not> rate_limited (lw_post w (sent_upto b (request_body w b req) i)))"
  from False obtain i where i: "i < 4" "\<not> rate_limited (lw_post w (sent_upto b (request_body w b req) i))" by blast
  have k: "\<not> rate_limited (lw_post w (sent_upto b (request_body w b req) k))" unfolding k_def by (rule LeastI [of _ i]) (rule i(2))
  have "k \<le> i" unfolding k_def using i(2) by (rule Least_le)
  have b: "\<forall>i<k. rate_limited (lw_post w (sent_upto b (request_body w b req) i))" unfolding k_def using not_less_Least by blast
  show thesis by (rule answered [OF _ b k complete_answered [OF b _ k]]) (use \<open>k \<le> i\<close> i(1) in simp_all)
qed (rule exhausted)

lemma complete_records:
  "length (recorded (snd (complete w b req))) = (if hb_metrics b \<and> \<not> unusable_body (fst (complete w b req)) then 1 else 0)
   \<and> (\<forall>m\<in>set (recorded (snd (complete w b req))). cm_success m \<longleftrightarrow> \<not> isl (fst (complete w b req)))"
proof (cases rule: complete_cases [of w b req])
  case (answered k)
  obtain r tr' where c: "complete w b req = (r, tr')" by (cases "complete w b req")
  have rm: "recorded (map Recorded ms) = ms" for ms by (induction ms) simp_all
  show ?thesis using appends [of w b _ _ r tr'] answered(4) c rm by (force simp: settled_def list_all_iff)
next
  case exhausted
  show ?thesis using complete_exhausted [OF exhausted] by (simp add: record_call_def unusable_body_def)
qed

end

section \<open>The two providers\<close>

lemma settled_record: "ok = (\<not> isl r) \<Longrightarrow> \<not> unusable_body r \<Longrightarrow> settled b tr r (record_call w b ok i out tr)"
proof (cases "hb_metrics b")
  assume "ok = (\<not> isl r)" "\<not> unusable_body r"
  then show ?thesis if "hb_metrics b"
    using that unfolding settled_def
    by (intro exI [of _ "[\<lparr>cm_success = ok, cm_latency_ms = lw_elapsed w tr, cm_tokens_in = i, cm_tokens_out = out, cm_model = hb_model b\<rparr>]"])
      (simp add: record_call_def)
qed (simp add: record_call_def settled_def)

lemma settled_unusable: "unusable_body r \<Longrightarrow> settled b tr r tr"
  by (simp add: settled_def)

lemma settled_body: "accept_body label w b body tr = (r, tr') \<Longrightarrow> settled b tr r tr'"
  by (auto simp: accept_body_def unusable_body_def Let_def intro: settled_record settled_unusable split: sum.splits option.splits)

interpretation featherless: http_llm featherless_response featherless_complete
proof
  show "featherless_response w b a tr = None \<longleftrightarrow> rate_limited a" for w b a tr
    by (auto simp: featherless_response_def rate_limited_def split: sum.split)
  show "settled b tr r tr'"
    if "featherless_response w b a tr = Some (r, tr')" for w b a tr r tr'
    using that settled_body
    by (auto simp: featherless_response_def unusable_body_def intro!: settled_record split: sum.splits prod.splits if_splits)
  show "\<exists>ex. featherless_complete w b req = complete_attempts (featherless_response w b) ex w b (request_body w b req) attempt_delays None []" for w b req
    unfolding featherless_complete_def by blast
qed

interpretation aimlapi: http_llm aimlapi_response aimlapi_complete
proof
  show "aimlapi_response w b a tr = None \<longleftrightarrow> rate_limited a" for w b a tr
    by (auto simp: aimlapi_response_def rate_limited_def split: sum.split)
  show "settled b tr r tr'"
    if "aimlapi_response w b a tr = Some (r, tr')" for w b a tr r tr'
    using that settled_body
    by (auto simp: aimlapi_response_def unusable_body_def intro!: settled_record split: sum.splits prod.splits if_splits)
  show "\<exists>ex. aimlapi_complete w b req = complete_attempts (aimlapi_response w b) ex w b (request_body w b req) attempt_delays None []" for w b req
    unfolding aimlapi_complete_def by blast
qed

text \<open>Property C32: A call of the Featherless backend sends the same request at most four times, with pauses of 100, 200 and 400 milliseconds
between them; the first answer that is not a status 429 decides the call, and four of them give a rate limit. The other provider does the same.\<close>

theorem llm_retries_exact:
  "(\<forall>k<4. (\<forall>i<k. rate_limited (lw_post w (sent_upto b (request_body w b req) i))) \<longrightarrow> \<not> rate_limited (lw_post w (sent_upto b (request_body w b req) k)) \<longrightarrow>
      Some (featherless_complete w b req) = featherless_response w b (lw_post w (sent_upto b (request_body w b req) k)) (sent_upto b (request_body w b req) k) \<and>
      Some (aimlapi_complete w b req) = aimlapi_response w b (lw_post w (sent_upto b (request_body w b req) k)) (sent_upto b (request_body w b req) k)) \<and>
   ((\<forall>i<4. rate_limited (lw_post w (sent_upto b (request_body w b req) i))) \<longrightarrow>
      featherless_complete w b req = (Inl (RateLimited 0), record_call w b False 0 0 (sent_upto b (request_body w b req) 3)) \<and>
      aimlapi_complete w b req = (Inl (RateLimited 0), record_call w b False 0 0 (sent_upto b (request_body w b req) 3)))"
  using featherless.complete_answered aimlapi.complete_answered featherless.complete_exhausted aimlapi.complete_exhausted by blast

definition toy_llm_world :: "nat \<Rightarrow> llm_world" where
  "toy_llm_world n = \<lparr>lw_env = Map.empty, lw_post = (\<lambda>tr. if length tr < 2 * n then Inr (429, Inr []) else Inr (200, Inr ''{}'')),
     lw_elapsed = (\<lambda>_. 7), lw_parse_json = (\<lambda>s. if s = ''{}'' then Inr (JObject []) else Inl ''eof''), lw_status_text = show_nat,
     lw_numbers = \<lparr>jn_f32 = (\<lambda>_. None), jn_u64 = (\<lambda>_. None)\<rparr>, lw_f32_json = (\<lambda>_. JNull)\<rparr>"

definition toy_llm_request :: llm_request where
  "toy_llm_request = \<lparr>lq_system_prompt = ''s'', lq_user_prompt = ''u'', lq_max_tokens = 1, lq_temperature = 0, lq_seed = None,
     lq_response_schema = None, lq_response_schema_name = None\<rparr>"

lemma length_sent: "k < 4 \<Longrightarrow> length (sent_upto b body k) = 2 * k + 1"
proof -
  assume "k < 4"
  then consider "k = 0" | "k = 1" | "k = 2" | "k = 3" by linarith
  then show ?thesis
    by cases (simp_all add: sent_upto_def attempt_delays_def BACKOFFS_MS_def attempt_events_def eval_nat_numeral)
qed

theorem llm_retries_exact_witness:
  "Some (featherless_complete (toy_llm_world 1) (featherless_new ''k'' ''m'') toy_llm_request) =
     featherless_response (toy_llm_world 1) (featherless_new ''k'' ''m'') (Inr (200, Inr ''{}''))
       (sent_upto (featherless_new ''k'' ''m'') (request_body (toy_llm_world 1) (featherless_new ''k'' ''m'') toy_llm_request) 1)
   \<and> fst (featherless_complete (toy_llm_world 5) (featherless_new ''k'' ''m'') toy_llm_request) = Inl (RateLimited 0)"
proof
  have p: "lw_post (toy_llm_world n) (sent_upto b body k) = (if 2 * k + 1 < 2 * n then Inr (429, Inr []) else Inr (200, Inr ''{}''))" if "k < 4" for n b body k
    using length_sent [OF that] by (simp add: toy_llm_world_def)
  show "Some (featherless_complete (toy_llm_world 1) (featherless_new ''k'' ''m'') toy_llm_request) =
     featherless_response (toy_llm_world 1) (featherless_new ''k'' ''m'') (Inr (200, Inr ''{}''))
       (sent_upto (featherless_new ''k'' ''m'') (request_body (toy_llm_world 1) (featherless_new ''k'' ''m'') toy_llm_request) 1)"
    using conjunct1 [OF llm_retries_exact, rule_format, of 1 "toy_llm_world 1" "featherless_new ''k'' ''m''" toy_llm_request]
    by (simp add: p rate_limited_def)
  show "fst (featherless_complete (toy_llm_world 5) (featherless_new ''k'' ''m'') toy_llm_request) = Inl (RateLimited 0)"
    using conjunct2 [OF llm_retries_exact, of "toy_llm_world 5" "featherless_new ''k'' ''m''" toy_llm_request]
    by (simp add: p rate_limited_def)
qed

text \<open>Property C33: A call reports one record to an attached sink, marked as a success exactly when the call returns a response, except that it
reports none when the body of a successful status could not be used. The source documents both otherwise: the sink as called exactly once
per call, and the mark as set only for an answer with a well-formed block of usage, which is not looked at.\<close>

theorem llm_metrics_exact:
  "length (recorded (snd (featherless_complete w b req))) = (if hb_metrics b \<and> \<not> unusable_body (fst (featherless_complete w b req)) then 1 else 0)
   \<and> list_all (\<lambda>m. cm_success m = (\<not> isl (fst (featherless_complete w b req)))) (recorded (snd (featherless_complete w b req)))
   \<and> length (recorded (snd (aimlapi_complete w b req))) = (if hb_metrics b \<and> \<not> unusable_body (fst (aimlapi_complete w b req)) then 1 else 0)
   \<and> list_all (\<lambda>m. cm_success m = (\<not> isl (fst (aimlapi_complete w b req)))) (recorded (snd (aimlapi_complete w b req)))"
  using featherless.complete_records [of w b req] aimlapi.complete_records [of w b req] by (simp add: list_all_iff)

lemma unusable_body_unrecorded:
  "unusable_body (fst (featherless_complete (toy_llm_world 0) (with_metrics (featherless_new ''k'' ''m'')) toy_llm_request)) \<and>
   recorded (snd (featherless_complete (toy_llm_world 0) (with_metrics (featherless_new ''k'' ''m'')) toy_llm_request)) = []"
  by (simp add: featherless_complete_def attempt_delays_def featherless_response_def toy_llm_world_def accept_body_def message_content_def
      json_index_def json_at_def json_get_def as_str_def unusable_body_def attempt_events_def)

text \<open>Fact: An answer without any usage is recorded as a success, with no tokens.\<close>

theorem usage_not_needed:
  "map (\<lambda>m. (cm_success m, cm_tokens_in m, cm_tokens_out m)) (recorded (snd (featherless_complete ((toy_llm_world 0)\<lparr>lw_parse_json := (\<lambda>_. Inr
      (JObject [(''choices'', JArray [JObject [(''message'', JObject [(''content'', JString ''x'')])]])]))\<rparr>)
      (with_metrics (featherless_new ''k'' ''m'')) toy_llm_request))) = [(True, 0, 0)]"
  by (simp add: featherless_complete_def attempt_delays_def featherless_response_def toy_llm_world_def accept_body_def message_content_def
      json_index_def json_at_def json_get_def as_str_def attempt_events_def usage_tokens_def record_call_def with_metrics_def featherless_new_def Let_def)

text \<open>Fact: Over the same answers the two providers behave alike: they send the same requests with the same pauses and records, and one
returns a response exactly when the other returns the same one.\<close>

theorem llm_providers_agree:
  "snd (featherless_complete w b req) = snd (aimlapi_complete w b req) \<and>
   (\<forall>r. fst (featherless_complete w b req) = Inr r \<longleftrightarrow> fst (aimlapi_complete w b req) = Inr r)"
proof (cases rule: featherless.complete_cases [of w b req])
  case (answered k)
  let ?tr = "sent_upto b (request_body w b req) k" and ?a = "lw_post w (sent_upto b (request_body w b req) k)"
  have body: "snd (accept_body l w b s tr) = snd (accept_body l' w b s tr) \<and> (\<forall>r. fst (accept_body l w b s tr) = Inr r \<longleftrightarrow> fst (accept_body l' w b s tr) = Inr r)" for l l' s tr
    by (auto simp: accept_body_def Let_def split: sum.split option.split)
  have "\<exists>x y. featherless_response w b a tr = Some x \<and> aimlapi_response w b a tr = Some y \<and> snd x = snd y \<and> (\<forall>r. fst x = Inr r \<longleftrightarrow> fst y = Inr r)"
    if "\<not> rate_limited a" for a tr
    using that body [of "''Featherless''" _ tr "''AIMLAPI''"]
    by (auto simp: featherless_response_def aimlapi_response_def rate_limited_def prod_eq_iff split: sum.split)
  then obtain x y where "featherless_response w b ?a ?tr = Some x" "aimlapi_response w b ?a ?tr = Some y" "snd x = snd y" "\<forall>r. fst x = Inr r \<longleftrightarrow> fst y = Inr r"
    using answered(3) by blast
  then show ?thesis using answered(4) aimlapi.complete_answered [OF answered(2,1,3)] by simp
next
  case exhausted
  then show ?thesis by (simp add: featherless.complete_exhausted aimlapi.complete_exhausted)
qed

section \<open>Calls of the mock\<close>

fun mock_session :: "(string \<Rightarrow> string) \<Rightarrow> llm_request list \<Rightarrow> mock_llm \<Rightarrow> (agent_error + llm_response) option list" where
  "mock_session quoted [] m = []"
| "mock_session quoted (req # rqs) m = (case mock_complete quoted req m of (x, m') \<Rightarrow> x # mock_session quoted rqs m')"

lemma mock_complete_parts:
  "mk_call_count (snd (mock_complete q req m)) = mk_call_count m + 1" "mk_rate_limit_after (snd (mock_complete q req m)) = mk_rate_limit_after m"
  "fst (mock_complete q req m) = Some (Inl (RateLimited 60000)) \<longleftrightarrow> mk_call_count m + 1 > mk_rate_limit_after m"
  by (simp_all add: mock_complete_def Let_def split: option.split)

text \<open>The limit counts calls, whatever they ask: call number \<open>i\<close> is the first to be refused when \<open>i\<close> calls are allowed, so the limit 0, which the
  field documents as no limit, refuses every call.\<close>

lemma mock_session_limit:
  "unat (mk_call_count m) + length rqs < 2 ^ 32 \<Longrightarrow> i < length rqs \<Longrightarrow>
    mock_session q rqs m ! i = Some (Inl (RateLimited 60000)) \<longleftrightarrow> unat (mk_rate_limit_after m) \<le> unat (mk_call_count m) + i"
proof (induction rqs arbitrary: m i)
  case (Cons req rqs)
  obtain x m' where c: "mock_complete q req m = (x, m')" by (cases "mock_complete q req m")
  have n: "unat (mk_call_count m + 1) = unat (mk_call_count m) + 1" using Cons.prems(1) by (simp add: unat_word_ariths)
  note m' = mock_complete_parts [of q req m, unfolded c, simplified]
  show ?case
  proof (cases i)
    case 0
    then show ?thesis using c m' n by (auto simp: word_less_nat_alt)
  next
    case (Suc j)
    then show ?thesis using c m' n Cons.IH [of m' j] Cons.prems by simp
  qed
qed simp

section \<open>Compressed prompts\<close>

text \<open>Fact: Compression changes nothing of a request but its user prompt; the words of that are words of the original in their order, with all
the words that hold a force token, and a prompt that is not empty does not become empty.\<close>

theorem compressed_request_keeps:
  "\<exists>p. compressed_request keep cfg req = req\<lparr>lq_user_prompt := p\<rparr> \<and> subseq (split_whitespace p) (split_whitespace (lq_user_prompt req)) \<and>
     filter (has_force (cc_force_tokens cfg)) (split_whitespace p) = filter (has_force (cc_force_tokens cfg)) (split_whitespace (lq_user_prompt req)) \<and>
     (p = [] \<longleftrightarrow> lq_user_prompt req = [])"
proof (cases "compress_text keep (lq_user_prompt req) cfg = []")
  case True
  then show ?thesis by (intro exI [of _ "lq_user_prompt req"]) (simp add: compressed_request_def)
next
  case False
  then have "lq_user_prompt req \<noteq> []" by (auto simp: compress_text_def)
  then show ?thesis
    using False compress_words_subseq [of keep "lq_user_prompt req" cfg] compress_words_force [of cfg keep "lq_user_prompt req"]
    by (intro exI [of _ "compress_text keep (lq_user_prompt req) cfg"]) (simp add: compressed_request_def)
qed

definition keep_bounds :: "(f32 \<Rightarrow> nat \<Rightarrow> nat) \<Rightarrow> bool" where
  "keep_bounds keep \<longleftrightarrow> (\<forall>n\<le>160. keep 0 n = n \<and> keep 0x3F800000 n = 0)"

lemma compression_new_parts [simp]:
  "cc_rate (compression_new r) = r" "cc_force_tokens (compression_new r) = DEFAULT_FORCE_TOKENS" "cc_chunk_size_words (compression_new r) = 160"
  by (simp_all add: compression_new_def config_with_rate_def config_default_def DEFAULT_CHUNK_SIZE_WORDS_def)

lemma clamp_bounds: "f32_clamp 0 0 0x3F800000 = 0" "f32_clamp 0x3F800000 0 0x3F800000 = 0x3F800000"
  by (simp_all add: f32_clamp_def f32_lt_def f32_key_def is_nan_def)

lemma length_filter_chunk: "ws \<in> set (word_chunks (compression_new r) txt) \<Longrightarrow> length (filter P ws) \<le> 160"
  by (rule le_trans [OF length_filter_le]) (use word_chunks_length [of "compression_new r" ws "txt"] in simp)

lemma compress_words_none:
  assumes "keep_bounds keep"
  shows "split_whitespace (compress_text keep txt (compression_new 0x3F800000)) = filter (has_force DEFAULT_FORCE_TOKENS) (split_whitespace txt)"
proof -
  have "map (\<lambda>ws. select_words_to_keep keep ws 0x3F800000 DEFAULT_FORCE_TOKENS) (word_chunks (compression_new 0x3F800000) txt)
    = map (filter (has_force DEFAULT_FORCE_TOKENS)) (word_chunks (compression_new 0x3F800000) txt)"
    using assms length_filter_chunk by (intro map_cong select_forced) (auto simp: clamp_bounds keep_bounds_def)
  then show ?thesis
    unfolding compress_exact compression_new_parts by (simp only: filter_concat [symmetric] concat_word_chunks)
qed

text \<open>Fact: The rate of the compressing backend, documented as the fraction of words to keep, is the fraction to drop: the rate 0, said to give
an empty prompt, keeps every word, and the rate 1, said to give the original, keeps only the words with a force token.\<close>

theorem compression_rate_inverted:
  assumes "keep_bounds keep"
  shows "split_whitespace (lq_user_prompt (compressed_request keep (compression_new 0) req)) = split_whitespace (lq_user_prompt req) \<and>
    (compress_text keep (lq_user_prompt req) (compression_new 0x3F800000) = [] \<or>
     split_whitespace (lq_user_prompt (compressed_request keep (compression_new 0x3F800000) req))
        = filter (has_force DEFAULT_FORCE_TOKENS) (split_whitespace (lq_user_prompt req)))"
proof
  have "map (\<lambda>ws. select_words_to_keep keep ws 0 DEFAULT_FORCE_TOKENS) (word_chunks (compression_new 0) (lq_user_prompt req))
    = word_chunks (compression_new 0) (lq_user_prompt req)"
    using assms length_filter_chunk by (intro map_idI select_all) (auto simp: clamp_bounds keep_bounds_def)
  then have "split_whitespace (compress_text keep (lq_user_prompt req) (compression_new 0)) = split_whitespace (lq_user_prompt req)"
    unfolding compress_exact compression_new_parts by (simp only: concat_word_chunks)
  then show "split_whitespace (lq_user_prompt (compressed_request keep (compression_new 0) req)) = split_whitespace (lq_user_prompt req)"
    by (simp add: compressed_request_def Let_def)
  show "compress_text keep (lq_user_prompt req) (compression_new 0x3F800000) = [] \<or>
     split_whitespace (lq_user_prompt (compressed_request keep (compression_new 0x3F800000) req))
        = filter (has_force DEFAULT_FORCE_TOKENS) (split_whitespace (lq_user_prompt req))"
    using compress_words_none [OF assms, of "lq_user_prompt req"] by (simp add: compressed_request_def Let_def)
qed

theorem compression_rate_inverted_witness:
  "split_whitespace (lq_user_prompt (compressed_request (\<lambda>r n. if r = 0 then n else 0) (compression_new 0) toy_llm_request))
     = split_whitespace (lq_user_prompt toy_llm_request)"
  using compression_rate_inverted [of "\<lambda>r n. if r = 0 then n else 0" toy_llm_request] by (simp add: keep_bounds_def)

end
