(* ===== verification/Agents.thy ===== *)
theory Agents
  imports LlmBackends SandboxRun
begin

text \<open>
  The agents of \<^verbatim>\<open>crates/themis-agents/src\<close>: \<^verbatim>\<open>extractor.rs\<close>, \<^verbatim>\<open>po_matcher.rs\<close>, \<^verbatim>\<open>fraud_auditor.rs\<close>, \<^verbatim>\<open>gaap_classifier.rs\<close>,
  \<^verbatim>\<open>provenance_signer.rs\<close>, \<^verbatim>\<open>regression_tester.rs\<close>, \<^verbatim>\<open>audit_watchdog.rs\<close>, \<^verbatim>\<open>demo_narrator.rs\<close> and \<^verbatim>\<open>honesty_auditor.rs\<close>. An agent maps a
  context to an error or a decision, or panics: \<open>None\<close>. The language model is the function \<open>llm\<close> of a request. Typed JSON is read as serde's
  derived deserialization reads it: an object with each known key once, or an array in the order of the fields. Floating-point arithmetic
  and texts, error texts and the JSON parser are parameters.
\<close>

section \<open>Parameters and JSON\<close>

record agent_world =
  gw_now :: i64
  gw_parse :: "string \<Rightarrow> string + json"
  gw_text_error :: "string \<Rightarrow> string \<Rightarrow> string"
  gw_value_error :: "string \<Rightarrow> json \<Rightarrow> string"
  gw_i64 :: "json \<Rightarrow> i64 option"
  gw_f32 :: "json \<Rightarrow> f32 option"
  gw_u32 :: "json \<Rightarrow> u32 option"
  gw_f32_json :: "f32 \<Rightarrow> json"
  gw_f32_text :: "f32 \<Rightarrow> string"
  gw_fixed_text :: "nat \<Rightarrow> f32 \<Rightarrow> string"
  gw_delta_pct :: "i64 \<Rightarrow> i64 \<Rightarrow> f32"
  gw_mean :: "f32 list \<Rightarrow> f32"
  gw_quoted :: "string \<Rightarrow> string"
  gw_lossy :: "string \<Rightarrow> string"
  gw_pretty :: "json \<Rightarrow> string + string"
  gw_decisions_json :: "agent_decision list \<Rightarrow> string + string"
  gw_reason_debug :: "baaar_reason \<Rightarrow> string"

type_synonym agent_result = "(agent_error + agent_decision) option"
type_synonym llm = "llm_request \<Rightarrow> agent_error + llm_response"

definition de_record :: "string list \<Rightarrow> json \<Rightarrow> json list option" where
  "de_record names v = (case v of
       JObject kvs \<Rightarrow> if distinct (filter (\<lambda>k. k \<in> set names) (map fst kvs)) then those (map (map_of kvs) names) else None
     | JArray xs \<Rightarrow> if length xs = length names then Some xs else None
     | _ \<Rightarrow> None)"

definition de_list :: "(json \<Rightarrow> 'a option) \<Rightarrow> json \<Rightarrow> 'a list option" where
  "de_list f v = (case v of JArray xs \<Rightarrow> those (map f xs) | _ \<Rightarrow> None)"

definition from_text :: "agent_world \<Rightarrow> string \<Rightarrow> (json \<Rightarrow> 'a option) \<Rightarrow> string \<Rightarrow> string + 'a" where
  "from_text w ty de s = (case gw_parse w s of
       Inl _ \<Rightarrow> Inl (gw_text_error w ty s)
     | Inr v \<Rightarrow> (case de v of None \<Rightarrow> Inl (gw_text_error w ty s) | Some x \<Rightarrow> Inr x))"

definition from_value :: "agent_world \<Rightarrow> string \<Rightarrow> (json \<Rightarrow> 'a option) \<Rightarrow> json \<Rightarrow> string + 'a" where
  "from_value w ty de v = (case de v of None \<Rightarrow> Inl (gw_value_error w ty v) | Some x \<Rightarrow> Inr x)"

definition num_i64 :: "i64 \<Rightarrow> json" where "num_i64 n = JNumber (show_int (sint n))"

definition strip_suffix :: "string \<Rightarrow> string \<Rightarrow> string option" where
  "strip_suffix p s = (if suffix p s then Some (take (length s - length p) s) else None)"

definition fenced :: "string \<Rightarrow> string \<Rightarrow> string option" where
  "fenced opening trimmed = Option.bind (strip_prefix opening trimmed) (\<lambda>rest. map_option trim (strip_suffix ''```'' rest))"

definition strip_code_fences :: "string \<Rightarrow> string" where
  "strip_code_fences s =
     (let trimmed = trim s
      in case fenced ''```json'' trimmed of
           Some inner \<Rightarrow> inner
         | None \<Rightarrow> (case fenced ''```'' trimmed of Some inner \<Rightarrow> inner | None \<Rightarrow> trimmed))"

text \<open>The slice of the first 200 bytes of a response in an error message.\<close>

definition malformed_with_text :: "agent_world \<Rightarrow> string \<Rightarrow> string \<Rightarrow> agent_result" where
  "malformed_with_text w message s =
     (let k = min (length s) 200
      in if is_char_boundary s k then Some (Inl (LlmMalformedPayload (message @ ''; raw='' @ gw_quoted w (take k s)))) else None)"

definition lines_of :: "string list \<Rightarrow> string" where "lines_of ls = join_with [newline] ls"

definition schema_object :: "(string \<times> json) list \<Rightarrow> json" where
  "schema_object props = JObject [(''type'', JString ''object''), (''properties'', JObject props), (''required'', JArray (map (JString \<circ> fst) props))]"

definition string_type :: json where "string_type = JObject [(''type'', JString ''string'')]"

definition unit_interval :: json where
  "unit_interval = JObject [(''type'', JString ''number''), (''minimum'', JNumber ''0.0''), (''maximum'', JNumber ''1.0'')]"

definition natural_type :: json where "natural_type = JObject [(''type'', JString ''integer''), (''minimum'', JNumber ''0'')]"

definition array_of :: "json \<Rightarrow> json" where "array_of item = JObject [(''type'', JString ''array''), (''items'', item)]"

section \<open>Extractor\<close>

record line_item =
  li_description :: string
  li_amount_cents :: i64

record extracted_invoice =
  ei_vendor :: string
  ei_amount_cents :: i64
  ei_line_items :: "line_item list"
  ei_date_iso :: string
  ei_po_ref :: string

definition line_item_json :: "line_item \<Rightarrow> json" where
  "line_item_json l = JObject [(''description'', JString (li_description l)), (''amount_cents'', num_i64 (li_amount_cents l))]"

definition de_line_item :: "agent_world \<Rightarrow> json \<Rightarrow> line_item option" where
  "de_line_item w v = (case de_record [''description'', ''amount_cents''] v of
       Some [d, a] \<Rightarrow> (case (as_str d, gw_i64 w a) of (Some d, Some a) \<Rightarrow> Some \<lparr>li_description = d, li_amount_cents = a\<rparr> | _ \<Rightarrow> None)
     | _ \<Rightarrow> None)"

definition invoice_json :: "extracted_invoice \<Rightarrow> json" where
  "invoice_json i = JObject [(''vendor'', JString (ei_vendor i)), (''amount_cents'', num_i64 (ei_amount_cents i)),
     (''line_items'', JArray (map line_item_json (ei_line_items i))), (''date_iso'', JString (ei_date_iso i)), (''po_ref'', JString (ei_po_ref i))]"

definition de_invoice :: "agent_world \<Rightarrow> json \<Rightarrow> extracted_invoice option" where
  "de_invoice w v = (case de_record [''vendor'', ''amount_cents'', ''line_items'', ''date_iso'', ''po_ref''] v of
       Some [vn, a, ls, d, p] \<Rightarrow>
         (case (as_str vn, gw_i64 w a, de_list (de_line_item w) ls, as_str d, as_str p) of
            (Some vn, Some a, Some ls, Some d, Some p) \<Rightarrow>
              Some \<lparr>ei_vendor = vn, ei_amount_cents = a, ei_line_items = ls, ei_date_iso = d, ei_po_ref = p\<rparr>
          | _ \<Rightarrow> None)
     | _ \<Rightarrow> None)"

definition EXTRACTOR_SYSTEM_PROMPT :: string where
  "EXTRACTOR_SYSTEM_PROMPT = lines_of
    [''You are the Extractor agent in THEMIS, a multi-agent AP invoice fraud detection system. Given a raw invoice (PDF text, image OCR, or JSON), respond with a single JSON object matching this schema exactly:'',
     '''', ''{'', ''  \"vendor\": \"string (non-empty)\",'', ''  \"amount_cents\": integer (positive, total in cents),'',
     ''  \"line_items\": [{\"description\": \"string\", \"amount_cents\": integer}],'', ''  \"date_iso\": \"string (ISO 8601)\",'',
     ''  \"po_ref\": \"string (PO reference; empty if none)\"'', ''}'', '''', ''Respond with ONLY the JSON object. No commentary, no markdown fences.'']"

definition extracted_invoice_schema :: json where
  "extracted_invoice_schema = schema_object
     [(''vendor'', JObject [(''type'', JString ''string''), (''minLength'', JNumber ''1'')]), (''amount_cents'', natural_type),
      (''line_items'', array_of (schema_object [(''description'', string_type), (''amount_cents'', natural_type)])),
      (''date_iso'', string_type), (''po_ref'', string_type)]"

definition extractor_request :: "agent_world \<Rightarrow> agent_context \<Rightarrow> llm_request" where
  "extractor_request w ctx = \<lparr>lq_system_prompt = EXTRACTOR_SYSTEM_PROMPT,
     lq_user_prompt = ''Parse this '' @ ac_content_type ctx @ '' invoice ('' @ show_nat (length (ac_raw_invoice ctx)) @ '' bytes) and respond with the JSON object:'' @
       [newline, newline] @ gw_quoted w (gw_lossy w (take 2048 (ac_raw_invoice ctx))),
     lq_max_tokens = 2048, lq_temperature = 0, lq_seed = Some 42, lq_response_schema = Some extracted_invoice_schema,
     lq_response_schema_name = Some ''ExtractedInvoice''\<rparr>"

definition extractor_process :: "agent_world \<Rightarrow> llm \<Rightarrow> agent_context \<Rightarrow> agent_result" where
  "extractor_process w llm ctx =
     (if ac_raw_invoice ctx = [] then Some (Inl (agent_error.InvalidInput ''Extractor: raw_invoice is empty''))
      else (case llm (extractor_request w ctx) of
          Inl e \<Rightarrow> Some (Inl e)
        | Inr resp \<Rightarrow> (case from_text w ''ExtractedInvoice'' (de_invoice w) (strip_code_fences (lr_text resp)) of
            Inl e \<Rightarrow> malformed_with_text w (''Extractor: response is not valid ExtractedInvoice JSON: '' @ e) (lr_text resp)
          | Inr parsed \<Rightarrow>
              if ei_vendor parsed = [] then Some (Inl (LlmMalformedPayload (''Extractor: '' @ [squote] @ ''vendor'' @ [squote] @ '' is empty'')))
              else if sint (ei_amount_cents parsed) \<le> 0
              then Some (Inl (LlmMalformedPayload (''Extractor: '' @ [squote] @ ''amount_cents'' @ [squote] @ '' must be positive, got '' @ show_int (sint (ei_amount_cents parsed)))))
              else Some (Inr \<lparr>ad_agent_id = ''extractor'', ad_tenant_id = ac_tenant_id ctx, ad_invoice_id = ac_invoice_id ctx,
                ad_decision_type = Extracted, ad_confidence = 0x3F666666,
                ad_reasoning = ''Extracted invoice from '' @ ac_content_type ctx @ '' (vendor='' @ ei_vendor parsed @ '', amount_cents='' @
                  show_int (sint (ei_amount_cents parsed)) @ '', '' @ show_nat (length (ei_line_items parsed)) @ '' line items)'',
                ad_timestamp_ms = gw_now w, ad_payload = invoice_json parsed\<rparr>))))"

section \<open>Purchase-order matcher\<close>

record purchase_order =
  po_po_ref :: string
  po_expected_amount_cents :: i64
  po_vendor_name :: string

record po_match_result =
  pm_matched :: bool
  pm_expected_amount_cents :: "i64 option"
  pm_delta_pct :: "f32 option"
  pm_po_vendor :: "string option"

definition option_json :: "('a \<Rightarrow> json) \<Rightarrow> 'a option \<Rightarrow> json" where
  "option_json f x = (case x of None \<Rightarrow> JNull | Some a \<Rightarrow> f a)"

definition po_match_json :: "agent_world \<Rightarrow> po_match_result \<Rightarrow> json" where
  "po_match_json w r = JObject [(''matched'', JBool (pm_matched r)), (''expected_amount_cents'', option_json num_i64 (pm_expected_amount_cents r)),
     (''delta_pct'', option_json (gw_f32_json w) (pm_delta_pct r)), (''po_vendor'', option_json JString (pm_po_vendor r))]"

definition first_of :: "decision_type \<Rightarrow> agent_context \<Rightarrow> agent_decision option" where
  "first_of t ctx = find (\<lambda>d. ad_decision_type d = t) (ac_upstream_decisions ctx)"

text \<open>The subtraction wraps, as it does in a release build.\<close>

definition po_match :: "agent_world \<Rightarrow> (string \<rightharpoonup> purchase_order) \<Rightarrow> extracted_invoice \<Rightarrow> po_match_result" where
  "po_match w db invoice = (case db (ei_po_ref invoice) of
       Some po \<Rightarrow> \<lparr>pm_matched = True, pm_expected_amount_cents = Some (po_expected_amount_cents po),
         pm_delta_pct = Some (if po_expected_amount_cents po = 0 then 0
           else gw_delta_pct w (ei_amount_cents invoice - po_expected_amount_cents po) (po_expected_amount_cents po)),
         pm_po_vendor = Some (po_vendor_name po)\<rparr>
     | None \<Rightarrow> \<lparr>pm_matched = False, pm_expected_amount_cents = None, pm_delta_pct = None, pm_po_vendor = None\<rparr>)"

definition or_else :: "'a \<Rightarrow> 'a option \<Rightarrow> 'a" where "or_else d x = (case x of Some a \<Rightarrow> a | None \<Rightarrow> d)"

definition po_matcher_process :: "agent_world \<Rightarrow> (string \<rightharpoonup> purchase_order) \<Rightarrow> agent_context \<Rightarrow> agent_result" where
  "po_matcher_process w db ctx = Some (case first_of Extracted ctx of
       None \<Rightarrow> Inl (agent_error.InvalidInput ''PO Matcher: no Extracted decision in upstream_decisions'')
     | Some extracted \<Rightarrow> (case from_value w ''ExtractedInvoice'' (de_invoice w) (ad_payload extracted) of
         Inl e \<Rightarrow> Inl (LlmMalformedPayload (''PO Matcher: upstream Extracted payload is not ExtractedInvoice: '' @ e))
       | Inr invoice \<Rightarrow> (let result = po_match w db invoice
           in Inr \<lparr>ad_agent_id = ''po_matcher'', ad_tenant_id = ac_tenant_id ctx, ad_invoice_id = ac_invoice_id ctx,
                ad_decision_type = PoMatched, ad_confidence = 0x3F800000,
                ad_reasoning = (if pm_matched result
                  then ''Matched PO '' @ ei_po_ref invoice @ '' (vendor='' @ or_else ''?'' (pm_po_vendor result) @ '', expected='' @
                    show_int (sint (or_else 0 (pm_expected_amount_cents result))) @ '' cents, delta='' @
                    gw_fixed_text w 1 (or_else 0 (pm_delta_pct result)) @ ''%)''
                  else ''No PO found for ref '' @ gw_quoted w (ei_po_ref invoice)),
                ad_timestamp_ms = gw_now w, ad_payload = po_match_json w result\<rparr>)))"

section \<open>Fraud auditor\<close>

definition finding_json :: "finding \<Rightarrow> json" where
  "finding_json f = JObject [(''kind'', JString (kind_as_str (f_kind f))), (''description'', JString (f_description f))]"

definition de_finding :: "json \<Rightarrow> finding option" where
  "de_finding v = (case de_record [''kind'', ''description''] v of
       Some [k, d] \<Rightarrow> (case (as_str k, as_str d) of (Some k, Some d) \<Rightarrow> Some \<lparr>f_kind = kind_of_str k, f_description = d\<rparr> | _ \<Rightarrow> None)
     | _ \<Rightarrow> None)"

definition de_assessment :: "agent_world \<Rightarrow> json \<Rightarrow> fraud_assessment option" where
  "de_assessment w v = (case de_record [''risk_score'', ''findings'', ''coherence_score'', ''debate_rounds'', ''explicit_halt''] v of
       Some [r, fs, c, n, h] \<Rightarrow>
         (case (gw_f32 w r, de_list de_finding fs, gw_f32 w c, gw_u32 w n, json_as_bool h) of
            (Some r, Some fs, Some c, Some n, Some h) \<Rightarrow>
              Some \<lparr>risk_score = r, findings = fs, coherence_score = c, debate_rounds = n, explicit_halt = h\<rparr>
          | _ \<Rightarrow> None)
     | _ \<Rightarrow> None)"

definition assessment_json :: "agent_world \<Rightarrow> fraud_assessment \<Rightarrow> json" where
  "assessment_json w a = JObject [(''risk_score'', gw_f32_json w (risk_score a)), (''findings'', JArray (map finding_json (findings a))),
     (''coherence_score'', gw_f32_json w (coherence_score a)), (''debate_rounds'', num_u32 (debate_rounds a)), (''explicit_halt'', JBool (explicit_halt a))]"

definition reason_tag :: "baaar_reason \<Rightarrow> string" where
  "reason_tag r = (case r of RiskScoreExceeded \<Rightarrow> ''risk_score_exceeded'' | SecretLeakDetected \<Rightarrow> ''secret_leak_detected''
     | CoherenceTooLow \<Rightarrow> ''coherence_too_low'' | MaxDebateRoundsReached \<Rightarrow> ''max_debate_rounds_reached''
     | ExplicitHaltRequested \<Rightarrow> ''explicit_halt_requested'')"

text \<open>The derived form of the enum: a unit variant is a string, the variant with a reason is an object.\<close>

definition outcome_json :: "outcome \<Rightarrow> json" where
  "outcome_json x = (case x of Approve \<Rightarrow> JString ''approve'' | HaltWith r \<Rightarrow> JObject [(''halt'', JString (reason_tag r))])"

definition auditor_output_json :: "agent_world \<Rightarrow> fraud_assessment \<Rightarrow> outcome \<Rightarrow> json" where
  "auditor_output_json w a x = JObject [(''assessment'', assessment_json w a), (''outcome'', outcome_json x)]"

definition FRAUD_AUDITOR_SYSTEM_PROMPT :: string where
  "FRAUD_AUDITOR_SYSTEM_PROMPT = lines_of
    [''You are the Fraud Auditor agent in THEMIS. Given the upstream decisions for an invoice, produce a JSON object matching this schema:'',
     '''', ''{'', ''  \"risk_score\": number (0.0..=1.0),'',
     ''  \"findings\": [{\"kind\": \"secret_leak|price_anomaly|phantom_vendor|math_fraud|duplicate|other\", \"value\": \"string\", \"description\": \"string\"}],'',
     ''  \"coherence_score\": number (0.0..=1.0),'', ''  \"debate_rounds\": integer (>= 0),'', ''  \"explicit_halt\": boolean'', ''}'', '''',
     ''When you set `kind` to \"other\", the `value` field carries a custom tag.'', '''',
     ''Respond with ONLY the JSON object. No commentary, no markdown fences.'']"

definition fraud_assessment_schema :: json where
  "fraud_assessment_schema = schema_object
     [(''risk_score'', unit_interval),
      (''findings'', array_of (schema_object
         [(''kind'', JObject [(''type'', JString ''string''), (''enum'', JArray (map JString
            [''secret_leak'', ''price_anomaly'', ''phantom_vendor'', ''math_fraud'', ''duplicate'', ''other'']))]),
          (''value'', string_type), (''description'', string_type)])),
      (''coherence_score'', unit_interval), (''debate_rounds'', natural_type), (''explicit_halt'', JObject [(''type'', JString ''boolean'')])]"

definition auditor_request :: "agent_context \<Rightarrow> llm_request" where
  "auditor_request ctx = \<lparr>lq_system_prompt = FRAUD_AUDITOR_SYSTEM_PROMPT,
     lq_user_prompt = ''Assess this invoice (tenant='' @ ac_tenant_id ctx @ '', invoice_id='' @ ac_invoice_id ctx @ ''). Upstream decisions: '' @
       show_nat (length (ac_upstream_decisions ctx)),
     lq_max_tokens = 1024, lq_temperature = 0, lq_seed = Some 42, lq_response_schema = Some fraud_assessment_schema,
     lq_response_schema_name = Some ''FraudAssessment''\<rparr>"

definition fraud_auditor_process :: "agent_world \<Rightarrow> llm \<Rightarrow> agent_context \<Rightarrow> agent_result" where
  "fraud_auditor_process w llm ctx = (case llm (auditor_request ctx) of
       Inl e \<Rightarrow> Some (Inl e)
     | Inr resp \<Rightarrow> (case from_text w ''FraudAssessment'' (de_assessment w) (strip_code_fences (lr_text resp)) of
         Inl e \<Rightarrow> malformed_with_text w (''FraudAuditor: response is not valid FraudAssessment JSON: '' @ e) (lr_text resp)
       | Inr a \<Rightarrow> (let verdict = baaar_check a
           in Some (Inr \<lparr>ad_agent_id = ''fraud_auditor'', ad_tenant_id = ac_tenant_id ctx, ad_invoice_id = ac_invoice_id ctx,
                ad_decision_type = FraudAssessed, ad_confidence = 0x3F59999A,
                ad_reasoning = (case verdict of Approve \<Rightarrow> ''Fraud assessment approved: risk_score='' @ gw_f32_text w (risk_score a)
                  | HaltWith reason \<Rightarrow> ''HALTED by BAAAR: '' @ gw_reason_debug w reason),
                ad_timestamp_ms = gw_now w, ad_payload = auditor_output_json w a verdict\<rparr>))))"

section \<open>GAAP classifier\<close>

record gaap_account =
  ga_code :: string
  ga_name :: string
  ga_description :: string
  ga_parent_code :: "string option"

definition gaap_default_subset :: "gaap_account list" where
  "gaap_default_subset =
     [\<lparr>ga_code = ''6100'', ga_name = ''Operating Expenses'', ga_description = ''General operating expenses (rent, utilities, supplies).'', ga_parent_code = None\<rparr>,
      \<lparr>ga_code = ''6200'', ga_name = ''Cost of Goods Sold'', ga_description = ''Direct costs of producing goods sold.'', ga_parent_code = None\<rparr>,
      \<lparr>ga_code = ''6300'', ga_name = ''Professional Services'', ga_description = ''Legal, accounting, consulting fees.'', ga_parent_code = Some ''6100''\<rparr>,
      \<lparr>ga_code = ''6400'', ga_name = ''Travel and Entertainment'', ga_description = ''Travel, meals, client entertainment.'', ga_parent_code = Some ''6100''\<rparr>,
      \<lparr>ga_code = ''6500'', ga_name = ''Marketing and Advertising'', ga_description = ''Marketing campaigns, advertising spend.'', ga_parent_code = Some ''6100''\<rparr>,
      \<lparr>ga_code = ''6600'', ga_name = ''Office Supplies'', ga_description = ''Stationery, software licenses, small equipment.'', ga_parent_code = Some ''6100''\<rparr>]"

definition to_prompt_string :: "gaap_account list \<Rightarrow> string" where
  "to_prompt_string accounts = ''US-GAAP 2026 Account Codes:'' @ [newline] @
     concat (map (\<lambda>a. ''- '' @ ga_code a @ '': '' @ ga_name a @ '' '' @ utf8 0x2014 @ '' '' @ ga_description a @ [newline]) accounts)"

datatype gaap_framework = UsGaap | Ifrs

record line_item_classification =
  lc_description :: string
  lc_account_code :: string

record gaap_classification =
  gc_framework :: gaap_framework
  gc_account_code :: string
  gc_account_name :: string
  gc_confidence :: f32
  gc_per_line_item :: "line_item_classification list"

definition framework_tag :: "gaap_framework \<Rightarrow> string" where
  "framework_tag f = (case f of UsGaap \<Rightarrow> ''us_gaap'' | Ifrs \<Rightarrow> ''ifrs'')"

definition de_framework :: "json \<Rightarrow> gaap_framework option" where
  "de_framework v = (case (case v of JString s \<Rightarrow> Some s | JObject [(k, JNull)] \<Rightarrow> Some k | _ \<Rightarrow> None) of
       Some s \<Rightarrow> (if s = ''us_gaap'' then Some UsGaap else if s = ''ifrs'' then Some Ifrs else None)
     | None \<Rightarrow> None)"

definition de_line_class :: "json \<Rightarrow> line_item_classification option" where
  "de_line_class v = (case de_record [''description'', ''account_code''] v of
       Some [d, c] \<Rightarrow> (case (as_str d, as_str c) of (Some d, Some c) \<Rightarrow> Some \<lparr>lc_description = d, lc_account_code = c\<rparr> | _ \<Rightarrow> None)
     | _ \<Rightarrow> None)"

definition de_classification :: "agent_world \<Rightarrow> json \<Rightarrow> gaap_classification option" where
  "de_classification w v = (case de_record [''framework'', ''account_code'', ''account_name'', ''confidence'', ''per_line_item''] v of
       Some [f, c, n, x, ls] \<Rightarrow>
         (case (de_framework f, as_str c, as_str n, gw_f32 w x, de_list de_line_class ls) of
            (Some f, Some c, Some n, Some x, Some ls) \<Rightarrow>
              Some \<lparr>gc_framework = f, gc_account_code = c, gc_account_name = n, gc_confidence = x, gc_per_line_item = ls\<rparr>
          | _ \<Rightarrow> None)
     | _ \<Rightarrow> None)"

definition line_class_json :: "line_item_classification \<Rightarrow> json" where
  "line_class_json l = JObject [(''description'', JString (lc_description l)), (''account_code'', JString (lc_account_code l))]"

definition classification_json :: "agent_world \<Rightarrow> gaap_classification \<Rightarrow> json" where
  "classification_json w c = JObject [(''framework'', JString (framework_tag (gc_framework c))), (''account_code'', JString (gc_account_code c)),
     (''account_name'', JString (gc_account_name c)), (''confidence'', gw_f32_json w (gc_confidence c)),
     (''per_line_item'', JArray (map line_class_json (gc_per_line_item c)))]"

definition classification_of_items :: "gaap_account list \<Rightarrow> line_item_classification list \<Rightarrow> gaap_classification" where
  "classification_of_items taxonomy arr = \<lparr>gc_framework = UsGaap,
     gc_account_code = (case arr of [] \<Rightarrow> [] | l # _ \<Rightarrow> lc_account_code l),
     gc_account_name = (case arr of [] \<Rightarrow> []
       | l # _ \<Rightarrow> (case find (\<lambda>a. ga_code a = lc_account_code l) taxonomy of Some a \<Rightarrow> ga_name a | None \<Rightarrow> [])),
     gc_confidence = 0x3F333333, gc_per_line_item = arr\<rparr>"

definition GAAP_CLASSIFIER_SYSTEM_PROMPT :: string where
  "GAAP_CLASSIFIER_SYSTEM_PROMPT = lines_of
    [''You are the GAAP Classifier in THEMIS. Given invoice line items and the US-GAAP 2026 taxonomy subset below, classify each line item to the most appropriate account code. Respond with a single JSON object:'',
     '''', ''{'', ''  \"framework\": \"us_gaap\",'', ''  \"account_code\": \"<one of the codes in the taxonomy>\",'',
     ''  \"account_name\": \"<name from the taxonomy>\",'', ''  \"confidence\": number (0.0..=1.0),'',
     ''  \"per_line_item\": [{\"description\": \"<original>\", \"account_code\": \"<code>\"}]'', ''}'', '''',
     ''Use ONLY account codes from the taxonomy. The account_code + account_name in the top level should be the dominant classification. Respond with ONLY the JSON object, no commentary, no markdown fences.'']"

definition gaap_classification_schema :: json where
  "gaap_classification_schema = schema_object
     [(''framework'', JObject [(''type'', JString ''string''), (''enum'', JArray [JString ''us_gaap''])]), (''account_code'', string_type),
      (''account_name'', string_type), (''confidence'', unit_interval),
      (''per_line_item'', array_of (schema_object [(''description'', string_type), (''account_code'', string_type)]))]"

definition classifier_request :: "agent_world \<Rightarrow> gaap_account list \<Rightarrow> extracted_invoice \<Rightarrow> llm_request" where
  "classifier_request w taxonomy invoice = \<lparr>lq_system_prompt = GAAP_CLASSIFIER_SYSTEM_PROMPT @ [newline] @ to_prompt_string taxonomy,
     lq_user_prompt = ''Classify these line items for invoice from '' @ ei_vendor invoice @ '' ('' @ show_nat (length (ei_line_items invoice)) @ '' items):'' @
       [newline] @ (case gw_pretty w (JArray (map line_item_json (ei_line_items invoice))) of Inr s \<Rightarrow> s | Inl _ \<Rightarrow> []),
     lq_max_tokens = 1024, lq_temperature = 0, lq_seed = Some 42, lq_response_schema = Some gaap_classification_schema,
     lq_response_schema_name = Some ''GaapClassification''\<rparr>"

definition gaap_parse :: "agent_world \<Rightarrow> gaap_account list \<Rightarrow> string \<Rightarrow> gaap_classification option" where
  "gaap_parse w taxonomy cleaned = (case from_text w ''GaapClassification'' (de_classification w) cleaned of
       Inr c \<Rightarrow> Some c
     | Inl _ \<Rightarrow> (case from_text w ''Vec'' (de_list de_line_class) cleaned of
         Inr arr \<Rightarrow> Some (classification_of_items taxonomy arr)
       | Inl _ \<Rightarrow> None))"

definition gaap_classifier_process :: "agent_world \<Rightarrow> gaap_account list \<Rightarrow> llm \<Rightarrow> agent_context \<Rightarrow> agent_result" where
  "gaap_classifier_process w taxonomy llm ctx = (case first_of Extracted ctx of
       None \<Rightarrow> Some (Inl (agent_error.InvalidInput ''GAAP Classifier: no Extracted decision in upstream_decisions''))
     | Some extracted \<Rightarrow> (case from_value w ''ExtractedInvoice'' (de_invoice w) (ad_payload extracted) of
         Inl e \<Rightarrow> Some (Inl (LlmMalformedPayload (''GAAP Classifier: upstream Extracted payload is not ExtractedInvoice: '' @ e)))
       | Inr invoice \<Rightarrow> (case llm (classifier_request w taxonomy invoice) of
           Inl e \<Rightarrow> Some (Inl e)
         | Inr resp \<Rightarrow> (case gaap_parse w taxonomy (strip_code_fences (lr_text resp)) of
             None \<Rightarrow> malformed_with_text w ''GAAP Classifier: response is not GaapClassification or LineItemClassification array'' (lr_text resp)
           | Some c \<Rightarrow> Some (Inr \<lparr>ad_agent_id = ''gaap_classifier'', ad_tenant_id = ac_tenant_id ctx, ad_invoice_id = ac_invoice_id ctx,
               ad_decision_type = GaapClassified, ad_confidence = gc_confidence c,
               ad_reasoning = ''Classified '' @ show_nat (length (gc_per_line_item c)) @ '' line items into US-GAAP account '' @ gc_account_code c @
                 '' ('' @ gc_account_name c @ '')'',
               ad_timestamp_ms = gw_now w, ad_payload = classification_json w c\<rparr>)))))"

section \<open>What the parameters promise\<close>

definition f32_finite :: "f32 \<Rightarrow> bool" where
  "f32_finite x \<longleftrightarrow> (x AND 0x7F800000) \<noteq> 0x7F800000"

text \<open>Integers survive printing and reading; a finite \<^verbatim>\<open>f32\<close> does too, another one is printed as \<^verbatim>\<open>null\<close>, which is no number. The record
  \<open>json_numbers\<close> is the reading of the orchestrator.\<close>

definition number_laws :: "agent_world \<Rightarrow> json_numbers \<Rightarrow> bool" where
  "number_laws w jn \<longleftrightarrow> (\<forall>n. gw_i64 w (num_i64 n) = Some n) \<and> (\<forall>n. jn_u64 jn (num_u32 n) = Some (ucast n)) \<and>
     (\<forall>x. f32_finite x \<longrightarrow> jn_f32 jn (gw_f32_json w x) = Some x) \<and> (\<forall>x. \<not> f32_finite x \<longrightarrow> jn_f32 jn (gw_f32_json w x) = None)"

section \<open>Payloads\<close>

lemma those_map_Some [simp]: "(\<And>x. x \<in> set xs \<Longrightarrow> f x = Some (g x)) \<Longrightarrow> those (map f xs) = Some (map g xs)"
  by (induction xs) simp_all

lemma those_Some_Cons: "those xs = Some (y # ys) \<longleftrightarrow> (\<exists>zs. xs = Some y # zs \<and> those zs = Some ys)"
  by (cases xs) (auto split: option.splits)

lemma line_item_roundtrip:
  assumes "number_laws w jn"
  shows "de_line_item w (line_item_json l) = Some l"
  using assms by (simp add: de_line_item_def line_item_json_def de_record_def as_str_def number_laws_def)

lemma invoice_roundtrip:
  assumes "number_laws w jn"
  shows "de_invoice w (invoice_json i) = Some i"
proof -
  have "de_list (de_line_item w) (JArray (map line_item_json ls)) = Some ls" for ls
    using line_item_roundtrip [OF assms] by (simp add: de_list_def comp_def)
  then show ?thesis using assms by (simp add: de_invoice_def invoice_json_def de_record_def as_str_def number_laws_def)
qed

lemma extractor_decision:
  assumes "extractor_process w llm ctx = Some (Inr d)"
  obtains i resp where "ad_payload d = invoice_json i" "ad_decision_type d = Extracted" "ei_vendor i \<noteq> []" "0 < sint (ei_amount_cents i)"
    "llm (extractor_request w ctx) = Inr resp" "from_text w ''ExtractedInvoice'' (de_invoice w) (strip_code_fences (lr_text resp)) = Inr i"
  using assms by (force simp: extractor_process_def malformed_with_text_def Let_def split: sum.splits if_splits)

text \<open>Fact: What the extractor puts in its decision, the matcher reads back: behind an extractor the matcher always answers, for an invoice with
a vendor and a positive amount, and it reports a match exactly when the order of the invoice is in the database, with the expected amount of that order.\<close>

theorem matcher_reads_extractor:
  assumes "number_laws w jn" and "extractor_process w llm ctx = Some (Inr d)" and "first_of Extracted ctx' = Some d"
  shows "\<exists>i r. ad_payload d = invoice_json i \<and> ei_vendor i \<noteq> [] \<and> 0 < sint (ei_amount_cents i) \<and>
    po_matcher_process w db ctx' = Some (Inr r) \<and> ad_payload r = po_match_json w (po_match w db i) \<and> ad_tenant_id r = ac_tenant_id ctx' \<and>
    (pm_matched (po_match w db i) \<longleftrightarrow> ei_po_ref i \<in> dom db) \<and>
    pm_expected_amount_cents (po_match w db i) = map_option po_expected_amount_cents (db (ei_po_ref i))"
proof -
  obtain i where i: "ad_payload d = invoice_json i" "ei_vendor i \<noteq> []" "0 < sint (ei_amount_cents i)"
    using assms(2) by (rule extractor_decision)
  show ?thesis
    using i assms(3) invoice_roundtrip [OF assms(1), of i]
    by (intro exI [of _ i]) (auto simp: po_matcher_process_def from_value_def Let_def po_match_def split: option.split)
qed

text \<open>A reader of decimal texts, for worlds in which the laws hold.\<close>

definition read_nat :: "string \<Rightarrow> nat" where
  "read_nat s = foldl (\<lambda>n c. 10 * n + (code c - 48)) 0 s"

definition read_int :: "string \<Rightarrow> int" where
  "read_int s = (case s of c # r \<Rightarrow> if c = CHR ''-'' then - int (read_nat r) else int (read_nat s) | [] \<Rightarrow> 0)"

lemma read_show_nat [simp]: "read_nat (show_nat n) = n"
proof (induction n rule: show_nat.induct)
  case (1 n)
  show ?case
  proof (cases "n < 10")
    case True
    then show ?thesis by (subst show_nat.simps) (simp add: read_nat_def)
  next
    case False
    then show ?thesis using 1 by (subst show_nat.simps) (simp add: read_nat_def)
  qed
qed

lemma show_nat_digits: "show_nat n = c # r \<Longrightarrow> c \<noteq> CHR ''-''"
proof (induction n arbitrary: c r rule: show_nat.induct)
  case (1 n)
  show ?case
  proof (cases "n < 10")
    case True
    then have "code c = 48 + n" using 1(2) by (subst (asm) show_nat.simps) auto
    then show ?thesis by auto
  next
    case False
    then have e: "show_nat n = show_nat (n div 10) @ [char_of (48 + n mod 10)]" by (subst show_nat.simps) simp
    obtain c' r' where r': "show_nat (n div 10) = c' # r'"
      by (cases "show_nat (n div 10)") (auto, subst (asm) show_nat.simps, simp split: if_splits)
    then have "c' = c" using 1(2) e by simp
    then show ?thesis using 1(1) False r' by blast
  qed
qed

lemma read_show_int [simp]: "read_int (show_int i) = i"
proof (cases "i < 0")
  case False
  obtain c r where c: "show_nat (nat i) = c # r" by (metis list.exhaust read_show_nat show_nat.simps append_is_Nil_conv not_Cons_self2)
  then show ?thesis using False show_nat_digits [OF c] read_show_nat [of "nat i"] by (simp add: show_int_def read_int_def)
qed (simp add: show_int_def read_int_def)

definition toy_numbers :: json_numbers where
  "toy_numbers = \<lparr>jn_f32 = (\<lambda>v. case v of JNumber s \<Rightarrow> Some (word_of_nat (read_nat s)) | _ \<Rightarrow> None),
     jn_u64 = (\<lambda>v. case v of JNumber s \<Rightarrow> Some (word_of_nat (read_nat s)) | _ \<Rightarrow> None)\<rparr>"

definition toy_agent_world :: "json \<Rightarrow> agent_world" where
  "toy_agent_world v = \<lparr>gw_now = 0, gw_parse = (\<lambda>s. if s = ''j'' then Inr v else Inl ''eof''), gw_text_error = (\<lambda>_ _. ''e''), gw_value_error = (\<lambda>_ _. ''e''),
     gw_i64 = (\<lambda>v. case v of JNumber s \<Rightarrow> Some (word_of_int (read_int s)) | _ \<Rightarrow> None), gw_f32 = jn_f32 toy_numbers,
     gw_u32 = (\<lambda>v. map_option ucast (jn_u64 toy_numbers v)), gw_f32_json = (\<lambda>x. if f32_finite x then num_u32 x else JNull),
     gw_f32_text = (\<lambda>_. ''f''), gw_fixed_text = (\<lambda>_ _. ''f''), gw_delta_pct = (\<lambda>_ _. 0), gw_mean = (\<lambda>_. 0x3F800000), gw_quoted = id,
     gw_lossy = id, gw_pretty = (\<lambda>_. Inr ''p''), gw_decisions_json = (\<lambda>ds. Inr (concat (map ad_reasoning ds))), gw_reason_debug = (\<lambda>_. ''r'')\<rparr>"

lemma toy_number_laws: "number_laws (toy_agent_world v) toy_numbers"
  by (simp add: number_laws_def toy_agent_world_def toy_numbers_def num_i64_def num_u32_def)

definition toy_response :: "string \<Rightarrow> llm_response" where
  "toy_response s = \<lparr>lr_text = s, lr_input_tokens = 0, lr_output_tokens = 0, lr_model_id = ''m'', lr_finish_reason = FinishLength\<rparr>"

lemma strip_j [simp]: "strip_code_fences ''j'' = ''j''"
proof -
  have "trim ''j'' = ''j''" by (rule trim_solid) (simp_all add: ws1_def)
  then show ?thesis by (simp add: strip_code_fences_def Let_def fenced_def strip_prefix_def)
qed

lemma toy_from_text [simp]: "from_text (toy_agent_world v) ty de ''j'' = (case de v of None \<Rightarrow> Inl ''e'' | Some x \<Rightarrow> Inr x)"
  by (simp add: from_text_def toy_agent_world_def split: option.split)

definition toy_invoice :: extracted_invoice where
  "toy_invoice = \<lparr>ei_vendor = ''v'', ei_amount_cents = 5, ei_line_items = [], ei_date_iso = ''d'', ei_po_ref = ''p''\<rparr>"

definition toy_extracted :: agent_decision where
  "toy_extracted = \<lparr>ad_agent_id = ''extractor'', ad_tenant_id = ''t'', ad_invoice_id = ''i'', ad_decision_type = Extracted, ad_confidence = 0x3F666666,
     ad_reasoning = ''Extracted invoice from json (vendor=v, amount_cents=5, 0 line items)'', ad_timestamp_ms = 0, ad_payload = invoice_json toy_invoice\<rparr>"

lemma toy_extractor:
  "extractor_process (toy_agent_world (invoice_json toy_invoice)) (\<lambda>_. Inr (toy_response ''j'')) ((context_new ''t'' ''i'')\<lparr>ac_raw_invoice := ''x'', ac_content_type := ''json''\<rparr>)
    = Some (Inr toy_extracted)"
proof -
  have "de_invoice (toy_agent_world (invoice_json toy_invoice)) (invoice_json toy_invoice) = Some toy_invoice"
    by (rule invoice_roundtrip [OF toy_number_laws])
  moreover have "show_int 5 = ''5''" "show_nat 0 = ''0''" by code_simp+
  ultimately show ?thesis
    by (simp add: extractor_process_def toy_response_def toy_invoice_def toy_extracted_def context_new_def) (simp add: toy_agent_world_def)
qed

theorem matcher_reads_extractor_witness:
  "\<exists>r. po_matcher_process (toy_agent_world (invoice_json toy_invoice)) Map.empty ((context_new ''t'' ''i'')\<lparr>ac_upstream_decisions := [toy_extracted]\<rparr>) = Some (Inr r)"
proof -
  have "first_of Extracted ((context_new ''t'' ''i'')\<lparr>ac_upstream_decisions := [toy_extracted]\<rparr>) = Some toy_extracted"
    by (simp add: first_of_def toy_extracted_def)
  then show ?thesis using matcher_reads_extractor [OF toy_number_laws toy_extractor] by blast
qed

section \<open>The auditor and the gates\<close>

lemma auditor_decision:
  assumes "fraud_auditor_process w llm ctx = Some (Inr d)"
  obtains a v where "ad_payload d = auditor_output_json w a (baaar_check a)" "ad_decision_type d = FraudAssessed" "de_assessment w v = Some a"
  using assms by (force simp: fraud_auditor_process_def malformed_with_text_def from_text_def Let_def split: sum.splits option.splits if_splits)

lemma kind_of_str_idem: "kind_of_str (kind_as_str (kind_of_str s)) = kind_of_str s"
  by (simp add: kind_of_str_def kind_as_str_def)

lemma finding_roundtrip: "de_finding v = Some f \<Longrightarrow> finding_of_json (finding_json f) = Some f"
  by (auto simp: de_finding_def finding_of_json_def finding_json_def json_get_def as_str_def kind_of_str_idem split: option.splits list.splits)

lemma those_set: "those xs = Some ys \<Longrightarrow> y \<in> set ys \<Longrightarrow> Some y \<in> set xs"
  by (induction xs arbitrary: ys) (auto split: option.splits)

lemma findings_roundtrip: "de_list de_finding v = Some fs \<Longrightarrow> List.map_filter finding_of_json (map finding_json fs) = fs"
proof -
  assume "de_list de_finding v = Some fs"
  then have "\<forall>f\<in>set fs. finding_of_json (finding_json f) = Some f"
    using those_set finding_roundtrip by (fastforce simp: de_list_def split: json.splits)
  then show ?thesis by (induction fs) (simp_all add: List.map_filter_simps)
qed

lemma de_assessment_findings:
  assumes "de_assessment w v = Some a"
  shows "\<exists>u. de_list de_finding u = Some (findings a)"
proof -
  obtain xs where xs: "de_record [''risk_score'', ''findings'', ''coherence_score'', ''debate_rounds'', ''explicit_halt''] v = Some xs"
    using assms by (auto simp: de_assessment_def split: option.splits)
  then show ?thesis using assms by (auto simp: de_assessment_def split: list.splits option.splits)
qed

text \<open>What the orchestrator reads of the payload: a score that is not finite is replaced by the value for a missing one.\<close>

lemma orchestrator_reads:
  assumes "number_laws w jn" and "de_assessment w v = Some a"
  shows "from_decision_payload jn (auditor_output_json w a x) =
    a\<lparr>risk_score := if f32_finite (risk_score a) then risk_score a else 0,
      coherence_score := if f32_finite (coherence_score a) then coherence_score a else 0x3F800000\<rparr>"
proof -
  obtain u where "de_list de_finding u = Some (findings a)" using de_assessment_findings [OF assms(2)] ..
  then have f: "List.map_filter finding_of_json (map finding_json (findings a)) = findings a" by (rule findings_roundtrip)
  have n: "jn_u64 jn (num_u32 n) = Some (ucast n)" for n using assms(1) by (simp add: number_laws_def)
  have u: "(ucast (ucast k :: u64) :: u32) = k" for k :: u32 by (rule bit_word_eqI) (simp add: bit_simps)
  have r: "jn_f32 jn (gw_f32_json w y) = (if f32_finite y then Some y else None)" for y using assms(1) by (simp add: number_laws_def)
  show ?thesis
    by (simp add: from_decision_payload_def auditor_output_json_def assessment_json_def json_get_def json_as_array_def json_as_bool_def f n r u
      cong: option.case_cong)
qed

text \<open>Property C11: The gate of the orchestrator, which reads the scores again out of the payload of the fraud auditor, decides as the auditor did whenever
both scores are finite.\<close>

theorem gates_agree_on_finite_scores:
  assumes "number_laws w jn" and "fraud_auditor_process w llm ctx = Some (Inr d)"
  shows "\<exists>a. ad_payload d = auditor_output_json w a (baaar_check a) \<and>
    (f32_finite (risk_score a) \<and> f32_finite (coherence_score a) \<longrightarrow> baaar_check (from_decision_payload jn (ad_payload d)) = baaar_check a)"
proof -
  obtain a v where a: "ad_payload d = auditor_output_json w a (baaar_check a)" "de_assessment w v = Some a"
    using auditor_decision [OF assms(2)] by metis
  then show ?thesis using orchestrator_reads [OF assms(1) a(2), of "baaar_check a"] by (intro exI [of _ a]) simp
qed

definition toy_assessment :: "f32 \<Rightarrow> fraud_assessment" where
  "toy_assessment r = \<lparr>risk_score = r, findings = [], coherence_score = 0x3F800000, debate_rounds = 0, explicit_halt = False\<rparr>"

definition toy_assessment_json :: "f32 \<Rightarrow> json" where
  "toy_assessment_json r = JArray [num_u32 r, JArray [], num_u32 0x3F800000, num_u32 0, JBool False]"

lemma toy_de_assessment: "de_assessment (toy_agent_world v) (toy_assessment_json r) = Some (toy_assessment r)"
  by (simp add: de_assessment_def toy_assessment_json_def toy_assessment_def de_record_def de_list_def json_as_bool_def)
    (simp add: toy_agent_world_def toy_numbers_def num_u32_def)

lemma toy_auditor:
  "\<exists>d. fraud_auditor_process (toy_agent_world (toy_assessment_json r)) (\<lambda>_. Inr (toy_response ''j'')) ctx = Some (Inr d)"
  by (simp add: fraud_auditor_process_def toy_response_def toy_de_assessment Let_def)

theorem gates_agree_on_finite_scores_witness:
  "\<exists>d a. fraud_auditor_process (toy_agent_world (toy_assessment_json 0)) (\<lambda>_. Inr (toy_response ''j'')) (context_new ''t'' ''i'') = Some (Inr d) \<and>
    ad_payload d = auditor_output_json (toy_agent_world (toy_assessment_json 0)) a (baaar_check a)"
  using toy_auditor [of 0 "context_new ''t'' ''i''"] gates_agree_on_finite_scores [OF toy_number_laws] by blast

text \<open>A number is read as an \<^verbatim>\<open>f64\<close> and narrowed to an \<^verbatim>\<open>f32\<close>. The finite positive numbers that narrow to infinity are those from \<open>(2 - 2 ^ -24) * 2 ^ 127\<close>
on, half a unit in the last place above the largest \<^verbatim>\<open>f32\<close>; their patterns are an interval.\<close>

definition f32_overflows :: "64 word \<Rightarrow> bool" where
  "f32_overflows x \<longleftrightarrow> 0x47EFFFFFF0000000 \<le> x \<and> x < 0x7FF0000000000000"

definition narrows :: "agent_world \<Rightarrow> (json \<Rightarrow> 64 word option) \<Rightarrow> bool" where
  "narrows w f64_of \<longleftrightarrow> (\<forall>v x. f64_of v = Some x \<and> f32_overflows x \<longrightarrow> gw_f32 w v = Some 0x7F800000)"

lemma de_assessment_risk:
  assumes "de_record [''risk_score'', ''findings'', ''coherence_score'', ''debate_rounds'', ''explicit_halt''] v = Some [r, fs, c, n, h]"
    and "de_assessment w v = Some a"
  shows "gw_f32 w r = Some (risk_score a)"
  using assms by (auto simp: de_assessment_def split: option.splits)

text \<open>Property C12: A risk score that is a finite number in the text of the model but too large for an \<^verbatim>\<open>f32\<close> becomes infinity. When nothing else in the
assessment is a reason to halt, the auditor halts on it, and the payload of the same decision makes the gate of the orchestrator approve,
since the score is printed as null and null is read as no risk.\<close>

theorem overflowing_risk_approved:
  assumes "number_laws w jn" and "narrows w f64_of" and "llm (auditor_request ctx) = Inr resp"
    and "gw_parse w (strip_code_fences (lr_text resp)) = Inr v"
    and "de_record [''risk_score'', ''findings'', ''coherence_score'', ''debate_rounds'', ''explicit_halt''] v = Some [r, fs, c, n, h]"
    and "f64_of r = Some x" "f32_overflows x"
    and "de_assessment w v = Some a" "\<not> list_ex (\<lambda>f. f_kind f = SecretLeak) (findings a)"
    and "\<not> f32_lt (coherence_score a) COHERENCE_FLOOR" "debate_rounds a < MAX_DEBATE_ROUNDS" "\<not> explicit_halt a"
  shows "\<exists>d. fraud_auditor_process w llm ctx = Some (Inr d) \<and> json_get (ad_payload d) ''outcome'' = Some (JObject [(''halt'', JString ''risk_score_exceeded'')]) \<and>
    baaar_check (from_decision_payload jn (ad_payload d)) = Approve"
proof -
  have risk: "risk_score a = 0x7F800000"
    using de_assessment_risk [OF assms(5,8)] assms(2,6,7) unfolding narrows_def by fastforce
  have halt: "baaar_check a = HaltWith RiskScoreExceeded"
    by (simp add: baaar_check_def risk RISK_SCORE_HALT_def f32_lt_def is_nan_def f32_key_def Let_def)
  have inf: "\<not> f32_finite (0x7F800000)" by (simp add: f32_finite_def)
  have one: "\<not> f32_lt 0x3F800000 COHERENCE_FLOOR" by (simp add: COHERENCE_FLOOR_def f32_lt_def is_nan_def f32_key_def)
  have zero: "\<not> f32_lt RISK_SCORE_HALT 0" by (simp add: RISK_SCORE_HALT_def f32_lt_def is_nan_def f32_key_def Let_def)
  have "baaar_check (from_decision_payload jn (auditor_output_json w a (baaar_check a))) = Approve"
    using orchestrator_reads [OF assms(1,8)] assms(9-12) risk inf zero one by (simp add: baaar_check_def)
  moreover have "from_text w ''FraudAssessment'' (de_assessment w) (strip_code_fences (lr_text resp)) = Inr a"
    using assms(4,8) by (simp add: from_text_def)
  ultimately show ?thesis
    using assms(3) by (simp add: fraud_auditor_process_def Let_def halt auditor_output_json_def json_get_def outcome_json_def reason_tag_def)
qed

theorem overflowing_risk_approved_witness:
  "\<exists>d. fraud_auditor_process (toy_agent_world (toy_assessment_json 0x7F800000)) (\<lambda>_. Inr (toy_response ''j'')) (context_new ''t'' ''i'') = Some (Inr d) \<and>
    baaar_check (from_decision_payload toy_numbers (ad_payload d)) = Approve"
proof -
  let ?w = "toy_agent_world (toy_assessment_json 0x7F800000)"
  let ?f64 = "\<lambda>v. if v = num_u32 0x7F800000 then Some 0x7E37E43C8800759C else None"
  have n: "narrows ?w ?f64" by (simp add: narrows_def toy_agent_world_def toy_numbers_def num_u32_def)
  have floor: "\<not> f32_lt 0x3F800000 COHERENCE_FLOOR" "(0::u32) < MAX_DEBATE_ROUNDS"
    by (simp_all add: COHERENCE_FLOOR_def f32_lt_def is_nan_def f32_key_def MAX_DEBATE_ROUNDS_def)
  have p: "gw_parse ?w (strip_code_fences (lr_text (toy_response ''j''))) = Inr (toy_assessment_json 0x7F800000)"
    by (simp add: toy_response_def toy_agent_world_def)
  have r: "de_record [''risk_score'', ''findings'', ''coherence_score'', ''debate_rounds'', ''explicit_halt''] (toy_assessment_json 0x7F800000)
      = Some [num_u32 0x7F800000, JArray [], num_u32 0x3F800000, num_u32 0, JBool False]"
    by (simp add: toy_assessment_json_def de_record_def)
  show ?thesis
    using overflowing_risk_approved [OF toy_number_laws n _ p r, of "\<lambda>_. Inr (toy_response ''j'')" "context_new ''t'' ''i''" "0x7E37E43C8800759C"] floor
      toy_de_assessment [of "toy_assessment_json 0x7F800000" "0x7F800000"]
    by (simp add: f32_overflows_def toy_assessment_def) blast
qed

text \<open>Fact: The fraud auditor never sees the invoice. Its answer depends on the tenant, the identifier of the invoice and the number of upstream
decisions, and on nothing of the invoice, of the decisions before it or of the reason why the model stopped, although the prompt and the
description of the finish reason say otherwise.\<close>

theorem auditor_never_sees_invoice:
  assumes "ac_tenant_id ctx = ac_tenant_id ctx'" and "ac_invoice_id ctx = ac_invoice_id ctx'"
    and "length (ac_upstream_decisions ctx) = length (ac_upstream_decisions ctx')"
  shows "fraud_auditor_process w llm ctx = fraud_auditor_process w (\<lambda>req. map_sum id (\<lambda>r. r\<lparr>lr_finish_reason := f\<rparr>) (llm req)) ctx'"
proof -
  have "auditor_request ctx = auditor_request ctx'" using assms by (simp add: auditor_request_def)
  then show ?thesis using assms by (simp add: fraud_auditor_process_def malformed_with_text_def Let_def split: sum.split)
qed

theorem auditor_never_sees_invoice_witness:
  "fraud_auditor_process w llm ((context_new ''t'' ''i'')\<lparr>ac_raw_invoice := ''clean''\<rparr>)
     = fraud_auditor_process w (\<lambda>req. map_sum id (\<lambda>r. r\<lparr>lr_finish_reason := FinishLength\<rparr>) (llm req)) ((context_new ''t'' ''i'')\<lparr>ac_raw_invoice := ''AKIA-secret''\<rparr>)"
  by (rule auditor_never_sees_invoice) (simp_all add: context_new_def)

section \<open>Malformed answers\<close>

definition byte_200_inside :: "string \<Rightarrow> bool" where
  "byte_200_inside s \<longleftrightarrow> 200 < length s \<and> is_cont (s ! 200)"

lemma malformed_None: "malformed_with_text w m s = None \<longleftrightarrow> byte_200_inside s"
  by (auto simp: malformed_with_text_def Let_def is_char_boundary_def byte_200_inside_def min_def)

text \<open>Fact: An answer of the model that does not parse is an error value of the agent, unless byte 200 of it lies inside a character: then the
slice in the error message panics. Nothing else makes the extractor, the auditor or the classifier panic.\<close>

theorem llm_agents_panic_exact:
  "(extractor_process w llm ctx = None \<longleftrightarrow> ac_raw_invoice ctx \<noteq> [] \<and> (\<exists>resp. llm (extractor_request w ctx) = Inr resp \<and>
      isl (from_text w ''ExtractedInvoice'' (de_invoice w) (strip_code_fences (lr_text resp))) \<and> byte_200_inside (lr_text resp))) \<and>
   (fraud_auditor_process w llm ctx = None \<longleftrightarrow> (\<exists>resp. llm (auditor_request ctx) = Inr resp \<and>
      isl (from_text w ''FraudAssessment'' (de_assessment w) (strip_code_fences (lr_text resp))) \<and> byte_200_inside (lr_text resp))) \<and>
   (gaap_classifier_process w taxonomy llm ctx = None \<longleftrightarrow> (\<exists>d i resp. first_of Extracted ctx = Some d \<and> de_invoice w (ad_payload d) = Some i \<and>
      llm (classifier_request w taxonomy i) = Inr resp \<and> gaap_parse w taxonomy (strip_code_fences (lr_text resp)) = None \<and>
      byte_200_inside (lr_text resp)))"
proof (intro conjI)
  show "extractor_process w llm ctx = None \<longleftrightarrow> ac_raw_invoice ctx \<noteq> [] \<and> (\<exists>resp. llm (extractor_request w ctx) = Inr resp \<and>
      isl (from_text w ''ExtractedInvoice'' (de_invoice w) (strip_code_fences (lr_text resp))) \<and> byte_200_inside (lr_text resp))"
    by (auto simp: extractor_process_def malformed_None split: sum.split)
  show "fraud_auditor_process w llm ctx = None \<longleftrightarrow> (\<exists>resp. llm (auditor_request ctx) = Inr resp \<and>
      isl (from_text w ''FraudAssessment'' (de_assessment w) (strip_code_fences (lr_text resp))) \<and> byte_200_inside (lr_text resp))"
    by (auto simp: fraud_auditor_process_def malformed_None Let_def split: sum.split)
  show "gaap_classifier_process w taxonomy llm ctx = None \<longleftrightarrow> (\<exists>d i resp. first_of Extracted ctx = Some d \<and> de_invoice w (ad_payload d) = Some i \<and>
      llm (classifier_request w taxonomy i) = Inr resp \<and> gaap_parse w taxonomy (strip_code_fences (lr_text resp)) = None \<and>
      byte_200_inside (lr_text resp))"
    by (auto simp: gaap_classifier_process_def from_value_def malformed_None split: sum.split option.split)
qed

end
