(* ===== verification/ShadowAgents.thy ===== *)
theory ShadowAgents
  imports Agents
begin

text \<open>
  The agents at the end of the pipeline (\<^verbatim>\<open>crates/themis-agents/src\<close>): the provenance signer and the regression tester, which signs and checks the
  chain of decisions, the audit watchdog, the demo narrator, and the honesty auditor over texts. Ed25519, BLAKE3 and hex decoding are those of
  the record \<open>crypto\<close>; the regular-expression engine is a parameter.
\<close>

section \<open>Provenance signer\<close>

record ed_keypair =
  kp_tenant_id :: string
  kp_key_id :: string
  kp_seed :: string

definition keypair_generate :: "string \<Rightarrow> string \<Rightarrow> ed_keypair" where
  "keypair_generate random tenant_id =
     (let key_id = tenant_id @ ''-'' @ hex_encode (take 4 random)
      in \<lparr>kp_tenant_id = takeWhile (\<lambda>c. c \<noteq> CHR ''-'') key_id, kp_key_id = key_id, kp_seed = random\<rparr>)"

definition keypair_from_bytes :: "string \<Rightarrow> string \<Rightarrow> string \<Rightarrow> ed_keypair" where
  "keypair_from_bytes tenant_id key_id seed = \<lparr>kp_tenant_id = tenant_id, kp_key_id = key_id, kp_seed = seed\<rparr>"

definition keypair_public_hex :: "crypto \<Rightarrow> ed_keypair \<Rightarrow> string" where
  "keypair_public_hex cr kp = hex_encode (cr_public cr (kp_seed kp))"

definition keypair_sign :: "crypto \<Rightarrow> ed_keypair \<Rightarrow> string \<Rightarrow> string" where
  "keypair_sign cr kp message = hex_encode (cr_sign cr (kp_seed kp) message)"

definition keypair_verify :: "crypto \<Rightarrow> ed_keypair \<Rightarrow> string \<Rightarrow> string \<Rightarrow> bool" where
  "keypair_verify cr kp message signature_hex = (case cr_hex_decode cr signature_hex of
       Inl _ \<Rightarrow> False
     | Inr sig \<Rightarrow> length sig = 64 \<and> \<not> isl (cr_verify cr (cr_public cr (kp_seed kp)) message sig))"

record provenance_output =
  pr_blake3_hash_hex :: string
  pr_signature_hex :: string
  pr_public_key_hex :: string
  pr_key_id :: string
  pr_tenant_id :: string
  pr_canonical_payload_hex :: string

definition provenance_json :: "provenance_output \<Rightarrow> json" where
  "provenance_json p = JObject [(''blake3_hash_hex'', JString (pr_blake3_hash_hex p)), (''signature_hex'', JString (pr_signature_hex p)),
     (''public_key_hex'', JString (pr_public_key_hex p)), (''key_id'', JString (pr_key_id p)), (''tenant_id'', JString (pr_tenant_id p)),
     (''canonical_payload_hex'', JString (pr_canonical_payload_hex p))]"

definition de_provenance :: "json \<Rightarrow> provenance_output option" where
  "de_provenance v = (case de_record [''blake3_hash_hex'', ''signature_hex'', ''public_key_hex'', ''key_id'', ''tenant_id'', ''canonical_payload_hex''] v of
       Some [h, s, p, k, t, c] \<Rightarrow>
         (case (as_str h, as_str s, as_str p, as_str k, as_str t, as_str c) of
            (Some h, Some s, Some p, Some k, Some t, Some c) \<Rightarrow>
              Some \<lparr>pr_blake3_hash_hex = h, pr_signature_hex = s, pr_public_key_hex = p, pr_key_id = k, pr_tenant_id = t, pr_canonical_payload_hex = c\<rparr>
          | _ \<Rightarrow> None)
     | _ \<Rightarrow> None)"

definition provenance_of :: "crypto \<Rightarrow> ed_keypair \<Rightarrow> string \<Rightarrow> provenance_output" where
  "provenance_of cr kp canonical = \<lparr>pr_blake3_hash_hex = hex_encode (cr_blake3 cr canonical), pr_signature_hex = keypair_sign cr kp (cr_blake3 cr canonical),
     pr_public_key_hex = keypair_public_hex cr kp, pr_key_id = kp_key_id kp, pr_tenant_id = kp_tenant_id kp,
     pr_canonical_payload_hex = hex_encode canonical\<rparr>"

definition provenance_signer_process :: "agent_world \<Rightarrow> crypto \<Rightarrow> ed_keypair \<Rightarrow> agent_context \<Rightarrow> agent_result" where
  "provenance_signer_process w cr kp ctx = Some
     (if ac_upstream_decisions ctx = [] then Inl (agent_error.InvalidInput ''ProvenanceSigner: upstream_decisions is empty'')
      else (case gw_decisions_json w (ac_upstream_decisions ctx) of
          Inl e \<Rightarrow> Inl (InternalError (''ProvenanceSigner: serialize upstream: '' @ e))
        | Inr canonical \<Rightarrow> (let out = provenance_of cr kp canonical
            in Inr \<lparr>ad_agent_id = ''provenance_signer'', ad_tenant_id = ac_tenant_id ctx, ad_invoice_id = ac_invoice_id ctx,
                 ad_decision_type = ProvenanceSigned, ad_confidence = 0x3F800000,
                 ad_reasoning = ''Signed '' @ show_nat (length (ac_upstream_decisions ctx)) @ '' upstream decisions (BLAKE3='' @
                   take 16 (pr_blake3_hash_hex out) @ utf8 0x2026 @ show_nat (length (pr_blake3_hash_hex out)) @ '', sig='' @
                   take 16 (pr_signature_hex out) @ utf8 0x2026 @ '')'',
                 ad_timestamp_ms = gw_now w, ad_payload = provenance_json out\<rparr>)))"

section \<open>Regression tester\<close>

record regression_result =
  rr_verified :: bool
  rr_signature_valid :: bool
  rr_hash_chain_valid :: bool
  rr_reason :: string

definition regression_json :: "regression_result \<Rightarrow> json" where
  "regression_json r = JObject [(''verified'', JBool (rr_verified r)), (''signature_valid'', JBool (rr_signature_valid r)),
     (''hash_chain_valid'', JBool (rr_hash_chain_valid r)), (''reason'', JString (rr_reason r))]"

definition verify_ed25519 :: "crypto \<Rightarrow> string \<Rightarrow> string \<Rightarrow> string \<Rightarrow> bool" where
  "verify_ed25519 cr pk_hex message signature_hex = (case cr_hex_decode cr pk_hex of
       Inl _ \<Rightarrow> False
     | Inr pk \<Rightarrow> if length pk \<noteq> 32 then False else if isl (cr_parse_key cr pk) then False
         else (case cr_hex_decode cr signature_hex of
             Inl _ \<Rightarrow> False
           | Inr sig \<Rightarrow> if length sig \<noteq> 64 then False else \<not> isl (cr_verify cr pk message sig)))"

definition bool_text :: "bool \<Rightarrow> string" where "bool_text b = (if b then ''true'' else ''false'')"

definition regression_check :: "crypto \<Rightarrow> provenance_output \<Rightarrow> string \<Rightarrow> regression_result" where
  "regression_check cr prov canonical =
     (let hash_ok = (hex_encode (cr_blake3 cr canonical) = pr_blake3_hash_hex prov);
          sig_ok = (case cr_hex_decode cr (pr_blake3_hash_hex prov) of
              Inr raw_hash \<Rightarrow> verify_ed25519 cr (pr_public_key_hex prov) raw_hash (pr_signature_hex prov) | Inl _ \<Rightarrow> False);
          ok = hash_ok \<and> sig_ok
      in \<lparr>rr_verified = ok, rr_signature_valid = sig_ok, rr_hash_chain_valid = hash_ok,
          rr_reason = (if ok then ''Signature + hash chain both valid''
            else ''verification failed: hash_chain='' @ bool_text hash_ok @ '', signature='' @ bool_text sig_ok)\<rparr>)"

definition regression_tester_process :: "agent_world \<Rightarrow> crypto \<Rightarrow> agent_context \<Rightarrow> agent_result" where
  "regression_tester_process w cr ctx = Some (case first_of ProvenanceSigned ctx of
       None \<Rightarrow> Inl (agent_error.InvalidInput ''RegressionTester: no ProvenanceSigned in upstream_decisions'')
     | Some signed_decision \<Rightarrow> (case from_value w ''ProvenanceOutput'' de_provenance (ad_payload signed_decision) of
         Inl e \<Rightarrow> Inl (LlmMalformedPayload (''RegressionTester: upstream ProvenanceSigned payload is not ProvenanceOutput: '' @ e))
       | Inr prov \<Rightarrow> (case cr_hex_decode cr (pr_canonical_payload_hex prov) of
           Inl e \<Rightarrow> Inl (InternalError (''RegressionTester: hex decode canonical: '' @ e))
         | Inr canonical \<Rightarrow> (let result = regression_check cr prov canonical
             in Inr \<lparr>ad_agent_id = ''regression_tester'', ad_tenant_id = ac_tenant_id ctx, ad_invoice_id = ac_invoice_id ctx,
                  ad_decision_type = decision_type.RegressionResult, ad_confidence = 0x3F800000, ad_reasoning = rr_reason result,
                  ad_timestamp_ms = gw_now w, ad_payload = regression_json result\<rparr>))))"

section \<open>Audit watchdog\<close>

record watchdog_alert =
  wa_coherence_score :: f32
  wa_risk_elevated :: bool
  wa_reason :: string

definition watchdog_json :: "agent_world \<Rightarrow> watchdog_alert \<Rightarrow> json" where
  "watchdog_json w a = JObject [(''coherence_score'', gw_f32_json w (wa_coherence_score a)), (''risk_elevated'', JBool (wa_risk_elevated a)),
     (''reason'', JString (wa_reason a))]"

definition halt_outcome :: "json \<Rightarrow> bool" where
  "halt_outcome payload = (case json_get payload ''outcome'' of
       Some (JString s) \<Rightarrow> s \<in> {''halt_risk_score_exceeded'', ''halt_secret_leak_detected'', ''halt_coherence_too_low'',
         ''halt_max_debate_rounds_reached'', ''halt_explicit_halt_requested''}
     | _ \<Rightarrow> False)"

definition risk_elevated :: "agent_context \<Rightarrow> bool" where
  "risk_elevated ctx = list_ex (\<lambda>d. ad_decision_type d = FraudAssessed \<and> halt_outcome (ad_payload d)) (ac_upstream_decisions ctx)"

definition audit_watchdog_process :: "agent_world \<Rightarrow> agent_context \<Rightarrow> agent_result" where
  "audit_watchdog_process w ctx = Some
     (if ac_upstream_decisions ctx = [] then Inl (agent_error.InvalidInput ''AuditWatchdog: upstream_decisions is empty'')
      else (let m = gw_mean w (map ad_confidence (ac_upstream_decisions ctx));
                elevated = risk_elevated ctx;
                reason = (if elevated then ''BAAAR HALT detected in FraudAssessed upstream decision''
                  else if f32_lt m 0x3F000000 then ''Mean confidence '' @ gw_fixed_text w 2 m @ '' below 0.5 '' @ utf8 0x2014 @ '' review chain''
                  else ''Chain coherent (mean confidence '' @ gw_fixed_text w 2 m @ '')'')
            in Inr \<lparr>ad_agent_id = ''audit_watchdog'', ad_tenant_id = ac_tenant_id ctx, ad_invoice_id = ac_invoice_id ctx,
                 ad_decision_type = decision_type.WatchdogAlert, ad_confidence = m, ad_reasoning = reason, ad_timestamp_ms = gw_now w,
                 ad_payload = watchdog_json w \<lparr>wa_coherence_score = m, wa_risk_elevated = elevated, wa_reason = reason\<rparr>\<rparr>))"

section \<open>Demo narrator\<close>

definition NARRATOR_SYSTEM_PROMPT :: string where
  "NARRATOR_SYSTEM_PROMPT = ''You are the Demo Narrator in THEMIS. Given a chain of agent decisions for an invoice, produce a 1-2 sentence plain-language summary for a judge at a hackathon demo. Be concise, factual, and surface the final outcome (approved or halted) prominently. Respond with a JSON object: {\"summary\": \"<text>\"}.''"

definition narrator_request :: "agent_context \<Rightarrow> llm_request" where
  "narrator_request ctx = \<lparr>lq_system_prompt = NARRATOR_SYSTEM_PROMPT,
     lq_user_prompt = ''Narrate these '' @ show_nat (length (ac_upstream_decisions ctx)) @ '' decisions for invoice '' @ ac_invoice_id ctx @
       '' (tenant='' @ ac_tenant_id ctx @ ''):'' @ [newline] @
       join_with [newline] (map (\<lambda>d. ''- '' @ decision_as_str (ad_decision_type d) @ '': '' @ ad_reasoning d) (ac_upstream_decisions ctx)),
     lq_max_tokens = 256, lq_temperature = 0x3E99999A, lq_seed = None, lq_response_schema = None, lq_response_schema_name = None\<rparr>"

definition narration_summary :: "agent_world \<Rightarrow> string \<Rightarrow> string" where
  "narration_summary w cleaned = (case gw_parse w cleaned of
       Inr env \<Rightarrow> or_else cleaned (Option.bind (json_get env ''summary'') as_str)
     | Inl _ \<Rightarrow> cleaned)"

definition demo_narrator_process :: "agent_world \<Rightarrow> llm \<Rightarrow> agent_context \<Rightarrow> agent_result" where
  "demo_narrator_process w llm ctx = Some
     (if ac_upstream_decisions ctx = [] then Inl (agent_error.InvalidInput ''DemoNarrator: upstream_decisions is empty'')
      else (case llm (narrator_request ctx) of
          Inl e \<Rightarrow> Inl e
        | Inr resp \<Rightarrow> (let summary = narration_summary w (strip_code_fences (lr_text resp))
            in if summary = [] then Inl (LlmMalformedPayload ''DemoNarrator: LLM returned empty summary'')
               else Inr \<lparr>ad_agent_id = ''demo_narrator'', ad_tenant_id = ac_tenant_id ctx, ad_invoice_id = ac_invoice_id ctx,
                 ad_decision_type = Narrated, ad_confidence = 0x3F666666, ad_reasoning = summary, ad_timestamp_ms = gw_now w,
                 ad_payload = JObject [(''summary'', JString summary),
                   (''decisions_count'', JNumber (show_nat (length (ac_upstream_decisions ctx))))]\<rparr>)))"

section \<open>Honesty auditor\<close>

definition DEFAULT_OVER_CLAIM_PATTERNS :: "string list" where
  "DEFAULT_OVER_CLAIM_PATTERNS =
     [[backslash] @ ''b100'' @ [backslash] @ ''s*%'', [backslash] @ ''balways'' @ [backslash] @ ''b'', [backslash] @ ''bnever'' @ [backslash] @ ''b'',
      [backslash] @ ''bguarantee(?:s|d)?'' @ [backslash] @ ''b'', [backslash] @ ''bdefinitely'' @ [backslash] @ ''b'',
      [backslash] @ ''bcertainly'' @ [backslash] @ ''b'', [backslash] @ ''bno chance'' @ [backslash] @ ''b'', [backslash] @ ''bperfectly'' @ [backslash] @ ''b'']"

datatype honesty_verdict = HonestyPass | HonestyFlag string | HonestyFail string

definition honesty_as_str :: "honesty_verdict \<Rightarrow> string" where
  "honesty_as_str v = (case v of HonestyPass \<Rightarrow> ''pass'' | HonestyFlag _ \<Rightarrow> ''flag'' | HonestyFail _ \<Rightarrow> ''fail'')"

text \<open>An auditor is the list of its patterns, compiled without case; \<open>m p s\<close> is a match of \<open>(?i)p\<close> in \<open>s\<close>.\<close>

definition honesty_new :: "string list" where "honesty_new = DEFAULT_OVER_CLAIM_PATTERNS"

definition flag_count :: "(string \<Rightarrow> string \<Rightarrow> bool) \<Rightarrow> string list \<Rightarrow> string \<Rightarrow> nat" where
  "flag_count m patterns s = length (filter (\<lambda>p. m p s) patterns)"

definition honesty_reasons :: "(string \<Rightarrow> string \<Rightarrow> bool) \<Rightarrow> string list \<Rightarrow> string \<Rightarrow> string list" where
  "honesty_reasons m patterns s = map snd (filter (\<lambda>(p, _). m p s) (zip patterns DEFAULT_OVER_CLAIM_PATTERNS))"

definition reason_string :: "(string \<Rightarrow> string \<Rightarrow> bool) \<Rightarrow> string list \<Rightarrow> string \<Rightarrow> string" where
  "reason_string m patterns s = ''over-claim patterns detected: ['' @ join_with '', '' (honesty_reasons m patterns s) @ '']''"

definition honesty_audit :: "(string \<Rightarrow> string \<Rightarrow> bool) \<Rightarrow> string list \<Rightarrow> string \<Rightarrow> honesty_verdict" where
  "honesty_audit m patterns s =
     (let count = flag_count m patterns s
      in if count = 0 then HonestyPass
         else if count \<le> 2 then HonestyFlag (reason_string m patterns s)
         else HonestyFail (reason_string m patterns s))"

section \<open>The contract of an agent\<close>

lemma find_behind: "\<forall>x\<in>set xs. \<not> P x \<Longrightarrow> find P (xs @ ys) = find P ys"
  by (induction xs) simp_all

text \<open>The trait \<^verbatim>\<open>Agent\<close>: a decision names its agent, carries the tenant and the invoice of the context and has the type of the agent.\<close>

locale decision_agent =
  fixes name :: string and dtype :: decision_type and process :: "agent_context \<Rightarrow> agent_result"
  assumes stamped: "process ctx = Some (Inr d) \<Longrightarrow>
    ad_agent_id d = name \<and> ad_decision_type d = dtype \<and> ad_tenant_id d = ac_tenant_id ctx \<and> ad_invoice_id d = ac_invoice_id ctx"
begin

text \<open>The decision is the first of its type when it is appended to a chain without one.\<close>

lemma first_appended:
  assumes "process ctx = Some (Inr d)" and "\<forall>e\<in>set (ac_upstream_decisions ctx). ad_decision_type e \<noteq> dtype"
  shows "first_of dtype (with_upstream ctx d) = Some d"
proof -
  have "find (\<lambda>e. ad_decision_type e = dtype) (ac_upstream_decisions ctx @ [d]) = Some d"
    using stamped [OF assms(1)] assms(2) by (simp add: find_behind)
  then show ?thesis by (simp add: first_of_def with_upstream_def)
qed

lemma tenant_kept: "process ctx = Some (Inr d) \<Longrightarrow> ad_tenant_id d = ac_tenant_id ctx"
  using stamped by blast

end

interpretation extractor: decision_agent "''extractor''" Extracted "extractor_process w llm" for w llm
  by unfold_locales (auto simp: extractor_process_def malformed_with_text_def Let_def split: sum.splits if_splits)

interpretation po_matcher: decision_agent "''po_matcher''" PoMatched "po_matcher_process w db" for w db
  by unfold_locales (auto simp: po_matcher_process_def Let_def split: sum.splits option.splits)

interpretation fraud_auditor: decision_agent "''fraud_auditor''" FraudAssessed "fraud_auditor_process w llm" for w llm
  by unfold_locales (auto simp: fraud_auditor_process_def malformed_with_text_def Let_def split: sum.splits if_splits)

interpretation gaap_classifier: decision_agent "''gaap_classifier''" GaapClassified "gaap_classifier_process w taxonomy llm" for w taxonomy llm
  by unfold_locales (auto simp: gaap_classifier_process_def malformed_with_text_def Let_def split: sum.splits option.splits if_splits)

interpretation provenance_signer: decision_agent "''provenance_signer''" ProvenanceSigned "provenance_signer_process w cr kp" for w cr kp
  by unfold_locales (auto simp: provenance_signer_process_def Let_def split: sum.splits if_splits)

interpretation regression_tester: decision_agent "''regression_tester''" decision_type.RegressionResult "regression_tester_process w cr" for w cr
  by unfold_locales (auto simp: regression_tester_process_def Let_def split: sum.splits option.splits)

interpretation audit_watchdog: decision_agent "''audit_watchdog''" decision_type.WatchdogAlert "audit_watchdog_process w" for w
  by unfold_locales (auto simp: audit_watchdog_process_def Let_def split: if_splits)

interpretation demo_narrator: decision_agent "''demo_narrator''" Narrated "demo_narrator_process w llm" for w llm
  by unfold_locales (auto simp: demo_narrator_process_def Let_def split: sum.splits if_splits)

section \<open>Signing and re-verifying\<close>

lemma provenance_roundtrip: "de_provenance (provenance_json p) = Some p"
  by (simp add: de_provenance_def provenance_json_def de_record_def as_str_def)

lemma regression_check_signed:
  assumes "crypto_laws cr"
  shows "regression_check cr (provenance_of cr kp canonical) canonical =
    \<lparr>rr_verified = True, rr_signature_valid = True, rr_hash_chain_valid = True, rr_reason = ''Signature + hash chain both valid''\<rparr>"
  using assms by (simp add: regression_check_def provenance_of_def verify_ed25519_def keypair_sign_def keypair_public_hex_def crypto_laws_def Let_def)

lemma regression_accepts:
  assumes "crypto_laws cr" and "first_of ProvenanceSigned ctx = Some d" and "ad_payload d = provenance_json (provenance_of cr kp canonical)"
  shows "\<exists>r. regression_tester_process w cr ctx = Some (Inr r) \<and> ad_reasoning r = ''Signature + hash chain both valid'' \<and>
    json_get (ad_payload r) ''verified'' = Some (JBool True)"
proof -
  have "cr_hex_decode cr (pr_canonical_payload_hex (provenance_of cr kp canonical)) = Inr canonical"
    using assms(1) by (simp add: provenance_of_def crypto_laws_def)
  then show ?thesis
    using assms(2,3) regression_check_signed [OF assms(1), of kp canonical]
    by (simp add: regression_tester_process_def from_value_def provenance_roundtrip Let_def regression_json_def json_get_def)
qed

text \<open>Property C31: The regression tester relates the signature to nothing but the payload that carries it. It reads the first decision of the kind
of the signer: when the payload of that one was made with any key over any text, it is reported as verified, whatever other decisions stand
before and behind it, so replaced decisions and a foreign signer go unnoticed. The module comment says that the tester catches tampering.\<close>

theorem regression_tester_self_contained:
  assumes "crypto_laws cr" and "ad_decision_type d = ProvenanceSigned" and "ad_payload d = provenance_json (provenance_of cr kp canonical)"
    and "\<forall>e\<in>set before. ad_decision_type e \<noteq> ProvenanceSigned"
  shows "\<exists>r. regression_tester_process w cr (ctx\<lparr>ac_upstream_decisions := before @ d # behind\<rparr>) = Some (Inr r) \<and>
    json_get (ad_payload r) ''verified'' = Some (JBool True)"
proof -
  have "first_of ProvenanceSigned (ctx\<lparr>ac_upstream_decisions := before @ d # behind\<rparr>) = Some d"
    using assms(2,4) by (induction before) (simp_all add: first_of_def)
  then show ?thesis using regression_accepts [OF assms(1) _ assms(3)] by blast
qed

definition toy_keypair :: ed_keypair where "toy_keypair = \<lparr>kp_tenant_id = ''mallory'', kp_key_id = ''k'', kp_seed = ''s''\<rparr>"

definition toy_signed :: agent_decision where
  "toy_signed = \<lparr>ad_agent_id = ''x'', ad_tenant_id = ''t'', ad_invoice_id = ''i'', ad_decision_type = ProvenanceSigned, ad_confidence = 0, ad_reasoning = [],
     ad_timestamp_ms = 0, ad_payload = provenance_json (provenance_of toy_crypto toy_keypair ''other text'')\<rparr>"

theorem regression_tester_self_contained_witness:
  "\<exists>r. regression_tester_process (toy_agent_world JNull) toy_crypto ((context_new ''t'' ''i'')\<lparr>ac_upstream_decisions := [toy_extracted, toy_signed]\<rparr>) = Some (Inr r) \<and>
    json_get (ad_payload r) ''verified'' = Some (JBool True)"
  using regression_tester_self_contained [OF toy_crypto_laws, where d = toy_signed and kp = toy_keypair and canonical = "''other text''" and before = "[toy_extracted]" and behind = "[]"]
  by (simp add: toy_extracted_def toy_signed_def)

text \<open>Fact: The chain that the provenance signer signs is accepted by the regression tester behind it.\<close>

theorem signed_chain_accepted:
  assumes "crypto_laws cr" and "provenance_signer_process w cr kp ctx = Some (Inr d)"
    and "\<forall>e\<in>set (ac_upstream_decisions ctx). ad_decision_type e \<noteq> ProvenanceSigned"
  shows "\<exists>r. regression_tester_process w cr (with_upstream ctx d) = Some (Inr r) \<and> ad_reasoning r = ''Signature + hash chain both valid'' \<and>
    ad_tenant_id r = ac_tenant_id ctx"
proof -
  obtain canonical where c: "ad_payload d = provenance_json (provenance_of cr kp canonical)"
    using assms(2) by (auto simp: provenance_signer_process_def Let_def split: sum.splits if_splits)
  have "first_of ProvenanceSigned (with_upstream ctx d) = Some d" by (rule provenance_signer.first_appended [OF assms(2,3)])
  then obtain r where r: "regression_tester_process w cr (with_upstream ctx d) = Some (Inr r)" "ad_reasoning r = ''Signature + hash chain both valid''"
    using regression_accepts [OF assms(1) _ c] by blast
  then show ?thesis using regression_tester.tenant_kept [OF r(1)] by (simp add: with_upstream_def)
qed

theorem signed_chain_accepted_witness:
  "\<exists>d r. regression_tester_process (toy_agent_world JNull) toy_crypto (with_upstream ((context_new ''t'' ''i'')\<lparr>ac_upstream_decisions := [toy_extracted]\<rparr>) d) = Some (Inr r) \<and>
    ad_reasoning r = ''Signature + hash chain both valid''"
proof -
  let ?ctx = "(context_new ''t'' ''i'')\<lparr>ac_upstream_decisions := [toy_extracted]\<rparr>"
  have "\<exists>d. provenance_signer_process (toy_agent_world JNull) toy_crypto toy_keypair ?ctx = Some (Inr d)"
    by (simp add: provenance_signer_process_def toy_agent_world_def Let_def)
  then obtain d where d: "provenance_signer_process (toy_agent_world JNull) toy_crypto toy_keypair ?ctx = Some (Inr d)" ..
  show ?thesis using signed_chain_accepted [OF toy_crypto_laws d] by (auto simp: toy_extracted_def)
qed

section \<open>The watchdog\<close>

text \<open>Property C30: The watchdog looks for the halt of the auditor under names the auditor never writes: behind decisions of the fraud auditor its alert
always says that no risk is elevated, however many of them are halts.\<close>

theorem watchdog_misses_halts:
  assumes "\<forall>d\<in>set (ac_upstream_decisions ctx). ad_decision_type d = FraudAssessed \<longrightarrow> (\<exists>w llm ctx'. fraud_auditor_process w llm ctx' = Some (Inr d))"
    and "audit_watchdog_process w ctx = Some (Inr r)"
  shows "json_get (ad_payload r) ''risk_elevated'' = Some (JBool False)"
proof -
  have "\<not> halt_outcome (auditor_output_json w' a x)" for w' a x
    by (cases x) (simp_all add: halt_outcome_def auditor_output_json_def json_get_def outcome_json_def)
  then have "\<not> risk_elevated ctx"
    using assms(1) auditor_decision by (metis (mono_tags, lifting) list_ex_iff risk_elevated_def)
  then show ?thesis using assms(2) by (auto simp: audit_watchdog_process_def Let_def watchdog_json_def json_get_def split: if_splits)
qed

theorem watchdog_misses_halts_witness:
  "\<exists>d r. json_get (ad_payload d) ''outcome'' = Some (JObject [(''halt'', JString ''risk_score_exceeded'')]) \<and>
    audit_watchdog_process (toy_agent_world JNull) ((context_new ''t'' ''i'')\<lparr>ac_upstream_decisions := [d]\<rparr>) = Some (Inr r) \<and>
    json_get (ad_payload r) ''risk_elevated'' = Some (JBool False)"
proof -
  let ?w = "toy_agent_world (toy_assessment_json 0x7F800000)"
  obtain d where d: "fraud_auditor_process ?w (\<lambda>_. Inr (toy_response ''j'')) (context_new ''t'' ''i'') = Some (Inr d)"
    using toy_auditor by blast
  have "baaar_check (toy_assessment 0x7F800000) = HaltWith RiskScoreExceeded"
    by (simp add: baaar_check_def toy_assessment_def RISK_SCORE_HALT_def f32_lt_def is_nan_def f32_key_def Let_def)
  then have o: "json_get (ad_payload d) ''outcome'' = Some (JObject [(''halt'', JString ''risk_score_exceeded'')])"
    using d by (auto simp: fraud_auditor_process_def toy_response_def toy_de_assessment Let_def auditor_output_json_def json_get_def outcome_json_def reason_tag_def)
  obtain r where r: "audit_watchdog_process (toy_agent_world JNull) ((context_new ''t'' ''i'')\<lparr>ac_upstream_decisions := [d]\<rparr>) = Some (Inr r)"
    by (simp add: audit_watchdog_process_def Let_def)
  show ?thesis using watchdog_misses_halts [OF _ r] d o r by auto
qed

section \<open>Texts and names\<close>

text \<open>Three or more matched patterns fail a text, one or two flag it.\<close>

lemma honesty_levels:
  "honesty_as_str (honesty_audit m patterns s) =
     (if flag_count m patterns s = 0 then ''pass'' else if flag_count m patterns s < 3 then ''flag'' else ''fail'')"
  by (simp add: honesty_audit_def honesty_as_str_def Let_def)

text \<open>With patterns of the caller the reasons are names of default patterns, which stand at the same places of the other list.\<close>

lemma honesty_reasons_foreign:
  "set (honesty_reasons m patterns s) \<subseteq> set DEFAULT_OVER_CLAIM_PATTERNS \<and> length (honesty_reasons m patterns s) \<le> 8"
proof
  show "set (honesty_reasons m patterns s) \<subseteq> set DEFAULT_OVER_CLAIM_PATTERNS"
    by (auto simp: honesty_reasons_def dest: set_zip_rightD)
  have "length (honesty_reasons m patterns s) \<le> length (zip patterns DEFAULT_OVER_CLAIM_PATTERNS)"
    unfolding honesty_reasons_def length_map by (rule length_filter_le)
  also have "\<dots> \<le> 8" by (simp add: DEFAULT_OVER_CLAIM_PATTERNS_def)
  finally show "length (honesty_reasons m patterns s) \<le> 8" .
qed

text \<open>A generated key belongs to the tenant only up to the first hyphen of its name.\<close>

lemma generated_tenant_truncated: "kp_tenant_id (keypair_generate random tenant) = takeWhile (\<lambda>c. c \<noteq> CHR ''-'') tenant"
  by (cases "CHR ''-'' \<in> set tenant") (simp_all add: keypair_generate_def Let_def takeWhile_append takeWhile_eq_all_conv [THEN iffD2])

end
