(* ===== verification/Server.thy ===== *)
theory Server
  imports ShadowAgents Orchestrator
begin

text \<open>
  The production server: the choice of a model in \<^verbatim>\<open>crates/themis-orchestrator/src/llm_backend.rs\<close>, the embedded invoices of
  \<^verbatim>\<open>fixtures.rs\<close> and the agents of \<^verbatim>\<open>bin/themis-orchestrator.rs\<close>. Lower- and upper-casing of Unicode text, base64 and the JSON form of an
  \<^verbatim>\<open>f32\<close> are parameters.
\<close>

section \<open>Choice of the model\<close>

definition AIML_API_MODEL :: string where "AIML_API_MODEL = ''anthropic/claude-sonnet-4.5''"
definition FEATHERLESS_MODEL :: string where "FEATHERLESS_MODEL = ''Qwen/Qwen3-Coder-30B-A3B-Instruct''"

definition select_provider :: "(string \<Rightarrow> string) \<Rightarrow> llm_world \<Rightarrow> string" where
  "select_provider lower w = (case lw_env w ''THEMIS_LLM_PROVIDER'' of
       None \<Rightarrow> ''auto''
     | Some s \<Rightarrow> (let v = lower (trim s)
         in if v = ''aimlapi'' \<or> v = ''ai-ml'' \<or> v = ''aiml'' then ''aimlapi''
            else if v = ''featherless'' then ''featherless'' else if v = ''mock'' then ''mock'' else ''auto''))"

definition resolve_model :: "llm_world \<Rightarrow> string \<Rightarrow> string" where
  "resolve_model w provider =
     (let dflt = (if provider = ''aimlapi'' then AIML_API_MODEL else if provider = ''featherless'' then FEATHERLESS_MODEL else ''mock-demo'')
      in case lw_env w ''THEMIS_LLM_MODEL'' of None \<Rightarrow> dflt | Some m \<Rightarrow> if trim m = [] then dflt else trim m)"

definition non_blank :: "string \<Rightarrow> string option" where
  "non_blank s = (if trim s = [] then None else Some (trim s))"

definition select_backend_with :: "(string \<Rightarrow> string) \<Rightarrow> llm_world \<Rightarrow> string option \<Rightarrow> string" where
  "select_backend_with lower w base_url =
     (let provider = select_provider lower w;
          aiml_url = (case Option.bind base_url non_blank of Some u \<Rightarrow> Some u | None \<Rightarrow> Option.bind (lw_env w ''AIMLAPI_BASE_URL'') non_blank);
          aiml_model = resolve_model w ''aimlapi''; featherless_model = resolve_model w ''featherless''
      in if provider = ''mock'' then ''mock-demo''
         else if provider = ''aimlapi'' then (if aimlapi_from_env_with_url w aiml_model aiml_url \<noteq> None then aiml_model else ''mock-demo'')
         else if provider = ''featherless'' then (if featherless_from_env w featherless_model \<noteq> None then featherless_model else ''mock-demo'')
         else if aimlapi_from_env_with_url w aiml_model aiml_url \<noteq> None then aiml_model
         else if featherless_from_env w featherless_model \<noteq> None then featherless_model
         else ''mock-demo'')"

definition select_backend :: "(string \<Rightarrow> string) \<Rightarrow> llm_world \<Rightarrow> string" where
  "select_backend lower w = select_backend_with lower w None"

section \<open>Embedded invoices\<close>

record raw_fixture =
  rf_invoice_id :: string
  rf_tenant_id :: string
  rf_expected_verdict :: string
  rf_expected_halt_reason :: string
  rf_halt_reason_human :: "string option"

record demo_fixture =
  df_tenant_id :: string
  df_invoice_id :: string
  df_label :: string
  df_expected_verdict :: string
  df_expected_halt_reason :: string
  df_halt_reason_human :: string
  df_raw_b64 :: string

definition FIXTURE_FILES :: "string list" where
  "FIXTURE_FILES = [''wayne-002.json'', ''stark-001.json'', ''stark-002.json'', ''stark-003.json'', ''wayne-001.json'']"

text \<open>What serde reads of each embedded file (\<^verbatim>\<open>fixtures/demo-invoices\<close>); a name that is not one of them panics.\<close>

definition raw_fixture_for :: "string \<Rightarrow> raw_fixture option" where
  "raw_fixture_for name =
     (if name = ''wayne-002.json'' then Some \<lparr>rf_invoice_id = ''wayne-002'', rf_tenant_id = ''wayne'', rf_expected_verdict = ''APPROVED'',
        rf_expected_halt_reason = [], rf_halt_reason_human = None\<rparr>
      else if name = ''stark-001.json'' then Some \<lparr>rf_invoice_id = ''stark-001'', rf_tenant_id = ''stark'', rf_expected_verdict = ''HALT'',
        rf_expected_halt_reason = ''risk_score_exceeded'', rf_halt_reason_human = Some (''Vendor '' @ [squote] @ ''Globex Industrial'' @ [squote] @
          '' (TAX-GLOBEX-001) has already been invoiced $50,000 by Wayne-002 within the last 7 days. Possible double-spend across trust domains. BAAAR risk_score = 0.92.'')\<rparr>
      else if name = ''stark-002.json'' then Some \<lparr>rf_invoice_id = ''stark-002'', rf_tenant_id = ''stark'', rf_expected_verdict = ''HALT'',
        rf_expected_halt_reason = ''risk_score_exceeded'', rf_halt_reason_human = Some
          ''No matching purchase order found. Invoice $125,000 from a new vendor with no PO reference is high-risk. BAAAR risk_score = 0.95.''\<rparr>
      else if name = ''stark-003.json'' then Some \<lparr>rf_invoice_id = ''stark-003'', rf_tenant_id = ''stark'', rf_expected_verdict = ''HALT'',
        rf_expected_halt_reason = ''secret_leak_detected'', rf_halt_reason_human = Some (''Vendor name '' @ [squote] @ ''ACME HOLDINGS LLC'' @ [squote] @
          '' matches the OFAC sanctions list (sanctioned entity ID OFAC-ACM-2024-1138). Security severity CRITICAL. BAAAR finding = SecretLeak.'')\<rparr>
      else if name = ''wayne-001.json'' then Some \<lparr>rf_invoice_id = ''wayne-001'', rf_tenant_id = ''wayne'', rf_expected_verdict = ''HALT'',
        rf_expected_halt_reason = ''coherence_too_low'', rf_halt_reason_human = Some
          ''Invoice date 2027-01-01 is in the future (impossible). Coherence between invoice_date, due_date, and ledger_period is broken. BAAAR coherence_score = 0.15.''\<rparr>
      else None)"

definition build_label :: "(string \<Rightarrow> string) \<Rightarrow> string \<Rightarrow> raw_fixture \<Rightarrow> string" where
  "build_label upper tenant raw =
     (let verdict = (if rf_expected_verdict raw = ''APPROVED'' then ''APPROVED''
            else ''HALT '' @ utf8 0xB7 @ '' '' @ upper (replace_str ''_'' '' '' (rf_expected_halt_reason raw)))
      in tenant @ '' '' @ utf8 0xB7 @ '' '' @ rf_invoice_id raw @ '' '' @ utf8 0xB7 @ '' '' @ verdict)"

definition demo_of :: "(string \<Rightarrow> string) \<Rightarrow> (string \<Rightarrow> string) \<Rightarrow> string \<Rightarrow> raw_fixture \<Rightarrow> demo_fixture" where
  "demo_of upper b64 name raw = \<lparr>df_tenant_id = rf_tenant_id raw, df_invoice_id = rf_invoice_id raw, df_label = build_label upper (rf_tenant_id raw) raw,
     df_expected_verdict = rf_expected_verdict raw, df_expected_halt_reason = rf_expected_halt_reason raw,
     df_halt_reason_human = (case rf_halt_reason_human raw of Some h \<Rightarrow> h | None \<Rightarrow> []), df_raw_b64 = b64 name\<rparr>"

definition load_all :: "(string \<Rightarrow> string) \<Rightarrow> (string \<Rightarrow> string) \<Rightarrow> demo_fixture list option" where
  "load_all upper b64 = those (map (\<lambda>name. map_option (demo_of upper b64 name) (raw_fixture_for name)) FIXTURE_FILES)"

section \<open>The agents of the server\<close>

type_synonym fixture_lookup = "string \<times> string \<rightharpoonup> demo_fixture"

definition build_fixture_lookup :: "demo_fixture list \<Rightarrow> fixture_lookup" where
  "build_fixture_lookup fs = foldl (\<lambda>m f. m((df_tenant_id f, df_invoice_id f) \<mapsto> f)) Map.empty fs"

definition fixture_lookup_hit :: "fixture_lookup \<Rightarrow> string \<Rightarrow> string \<Rightarrow> demo_fixture option" where
  "fixture_lookup_hit lookup tenant_id invoice_id = lookup (tenant_id, invoice_id)"

definition halt_reason_to_outcome_tag :: "string \<Rightarrow> string" where
  "halt_reason_to_outcome_tag reason =
     (if reason = ''risk_score_exceeded'' then ''halt_risk_score_exceeded''
      else if reason = ''secret_leak_detected'' then ''halt_secret_leak_detected''
      else if reason = ''coherence_too_low'' then ''halt_coherence_too_low''
      else if reason = ''max_debate_rounds_reached'' then ''halt_max_debate_rounds_reached''
      else if reason = ''explicit_halt_requested'' then ''halt_explicit_halt_requested''
      else ''halt_risk_score_exceeded'')"

definition halt_payload_for :: "demo_fixture \<Rightarrow> f32 \<times> json list \<times> f32 \<times> u32 \<times> bool" where
  "halt_payload_for f =
     (let reason = df_expected_halt_reason f
      in if reason = ''risk_score_exceeded'' then (0x3F733333, [], 0x3F4CCCCD, 1, False)
         else if reason = ''secret_leak_detected''
         then (0x3F000000, [JObject [(''kind'', JString ''secret_leak''), (''description'', JString (df_halt_reason_human f))]], 0x3F333333, 1, False)
         else if reason = ''coherence_too_low'' then (0x3F000000, [], 0x3DCCCCCD, 1, False)
         else if reason = ''max_debate_rounds_reached'' then (0x3F000000, [], 0x3F333333, 5, False)
         else if reason = ''explicit_halt_requested'' then (0x3F000000, [], 0x3F333333, 1, True)
         else (0x3F733333, [], 0x3F333333, 1, False))"

definition assessed_payload :: "(f32 \<Rightarrow> json) \<Rightarrow> string \<Rightarrow> f32 \<times> json list \<times> f32 \<times> u32 \<times> bool \<Rightarrow> json" where
  "assessed_payload fj outcome_tag a = (case a of (r, fs, c, n, h) \<Rightarrow> JObject
     [(''assessment'', JObject [(''risk_score'', fj r), (''findings'', JArray fs), (''coherence_score'', fj c), (''debate_rounds'', num_u32 n),
        (''explicit_halt'', JBool h)]),
      (''outcome'', JString outcome_tag)])"

definition fraud_auditor_payload_for :: "(f32 \<Rightarrow> json) \<Rightarrow> string \<Rightarrow> string \<Rightarrow> fixture_lookup \<Rightarrow> json" where
  "fraud_auditor_payload_for fj tenant_id invoice_id lookup = (case fixture_lookup_hit lookup tenant_id invoice_id of
       Some f \<Rightarrow> if df_expected_verdict f = ''HALT''
         then assessed_payload fj (halt_reason_to_outcome_tag (df_expected_halt_reason f)) (halt_payload_for f)
         else assessed_payload fj ''approve'' (0x3DCCCCCD, [], 0x3F666666, 1, False)
     | None \<Rightarrow> assessed_payload fj ''approve'' (0x3DCCCCCD, [], 0x3F666666, 1, False))"

text \<open>The names the server registers, with the type of each stub; another name is unreachable in the code.\<close>

definition stub_types :: "(string \<times> decision_type) list" where
  "stub_types = [(''extractor'', Extracted), (''po_matcher'', PoMatched), (''fraud_auditor'', FraudAssessed), (''gaap_classifier'', GaapClassified),
     (''provenance_signer'', ProvenanceSigned), (''demo_narrator'', Narrated), (''regression_tester'', decision_type.RegressionResult),
     (''audit_watchdog'', decision_type.WatchdogAlert)]"

definition stub_reasoning :: "string \<Rightarrow> fixture_lookup \<Rightarrow> agent_context \<Rightarrow> string" where
  "stub_reasoning name lookup ctx =
     (if name = ''fraud_auditor''
      then (case fixture_lookup_hit lookup (ac_tenant_id ctx) (ac_invoice_id ctx) of
          Some f \<Rightarrow> if df_expected_verdict f = ''HALT'' then ''HALT stub: '' @ df_expected_halt_reason f @ '' ('' @ df_halt_reason_human f @ '')''
            else ''fraud_auditor stub: ok''
        | None \<Rightarrow> ''fraud_auditor stub: ok'')
      else name @ '' stub: ok'')"

definition stub_decision :: "(f32 \<Rightarrow> json) \<Rightarrow> fixture_lookup \<Rightarrow> string \<Rightarrow> decision_type \<Rightarrow> agent_context \<Rightarrow> agent_decision" where
  "stub_decision fj lookup name dtype ctx = \<lparr>ad_agent_id = name, ad_tenant_id = ac_tenant_id ctx, ad_invoice_id = ac_invoice_id ctx,
     ad_decision_type = dtype, ad_confidence = 0x3F666666, ad_reasoning = stub_reasoning name lookup ctx, ad_timestamp_ms = 0,
     ad_payload = (if name = ''fraud_auditor'' then fraud_auditor_payload_for fj (ac_tenant_id ctx) (ac_invoice_id ctx) lookup
       else JObject [(''outcome'', JString ''approve'')])\<rparr>"

definition server_agents :: "(f32 \<Rightarrow> json) \<Rightarrow> fixture_lookup \<Rightarrow> string \<rightharpoonup> agent" where
  "server_agents fj lookup name = map_option (\<lambda>dtype ctx. Inr (stub_decision fj lookup name dtype ctx)) (map_of stub_types name)"

section \<open>What the server decides\<close>

definition halt_reason_of :: "string \<Rightarrow> baaar_reason" where
  "halt_reason_of reason = (if reason = ''secret_leak_detected'' then SecretLeakDetected else if reason = ''coherence_too_low'' then CoherenceTooLow
     else if reason = ''max_debate_rounds_reached'' then MaxDebateRoundsReached
     else if reason = ''explicit_halt_requested'' then ExplicitHaltRequested else RiskScoreExceeded)"

definition fixture_verdict :: "fixture_lookup \<Rightarrow> string \<Rightarrow> string \<Rightarrow> outcome" where
  "fixture_verdict lookup t i = (case lookup (t, i) of
       Some f \<Rightarrow> if df_expected_verdict f = ''HALT'' then HaltWith (halt_reason_of (df_expected_halt_reason f)) else Approve
     | None \<Rightarrow> Approve)"

definition score_laws :: "(f32 \<Rightarrow> json) \<Rightarrow> json_numbers \<Rightarrow> bool" where
  "score_laws fj jn \<longleftrightarrow> (\<forall>x. f32_finite x \<longrightarrow> jn_f32 jn (fj x) = Some x) \<and> (\<forall>n. jn_u64 jn (num_u32 n) = Some (ucast n))"

lemma read_assessed:
  assumes "score_laws fj jn" and "f32_finite r" "f32_finite c"
  shows "from_decision_payload jn (assessed_payload fj tag (r, fs, c, n, h)) =
    \<lparr>risk_score = r, findings = List.map_filter finding_of_json fs, coherence_score = c, debate_rounds = n, explicit_halt = h\<rparr>"
proof -
  have "(ucast (ucast k :: u64) :: u32) = k" for k :: u32 by (rule bit_word_eqI) (simp add: bit_simps)
  then show ?thesis
    using assms by (simp add: from_decision_payload_def assessed_payload_def json_get_def json_as_array_def json_as_bool_def score_laws_def)
qed

lemma stub_gate:
  assumes "score_laws fj jn"
  shows "baaar_check (from_decision_payload jn (fraud_auditor_payload_for fj t i lookup)) = fixture_verdict lookup t i"
proof -
  note f = f32_finite_def f32_lt_def is_nan_def f32_key_def RISK_SCORE_HALT_def COHERENCE_FLOOR_def MAX_DEBATE_ROUNDS_def Let_def
  have five: "\<not> (5 :: u32) \<le> 1" by (simp add: word_le_nat_alt)
  have halt: "baaar_check (from_decision_payload jn (assessed_payload fj tag (halt_payload_for x))) = HaltWith (halt_reason_of (df_expected_halt_reason x))" for tag x
    using assms
    by (simp add: halt_payload_for_def halt_reason_of_def read_assessed baaar_check_def f List.map_filter_simps finding_of_json_def json_get_def
        as_str_def kind_of_str_def five split: if_split)
  have ok: "baaar_check (from_decision_payload jn (assessed_payload fj tag (0x3DCCCCCD, [], 0x3F666666, 1, False))) = Approve" for tag
    using assms by (simp add: read_assessed baaar_check_def f List.map_filter_simps five)
  show ?thesis
    by (simp add: fraud_auditor_payload_for_def fixture_lookup_hit_def fixture_verdict_def halt ok split: option.split)
qed

text \<open>The run with the stubs: it stops behind the auditor when a fixture says so, and goes to the end otherwise. A stub looks at nothing but the tenant
  and the identifier of the invoice.\<close>

definition stub_of :: "(f32 \<Rightarrow> json) \<Rightarrow> fixture_lookup \<Rightarrow> string \<Rightarrow> string \<Rightarrow> string \<Rightarrow> agent_decision" where
  "stub_of fj lookup t i n = stub_decision fj lookup n (the (map_of stub_types n)) (context_new t i)"

lemma stub_stage:
  assumes "score_laws fj (w_numbers w)" and "w_agents w = server_agents fj lookup" and "n \<in> fst ` set stub_types"
  shows "\<exists>a. w_agents w n = Some a \<and> a (stage_context t i raw n ds) = Inr (stub_of fj lookup t i n) \<and>
    gate_on w n (stub_of fj lookup t i n) = (if n = ''fraud_auditor'' then fixture_verdict lookup t i else Approve)"
proof -
  obtain dt where dt: "map_of stub_types n = Some dt" using assms(3) by (metis domIff dom_map_of_conv_image_fst not_None_eq)
  have c: "ac_tenant_id (stage_context t i raw m ds) = t" "ac_invoice_id (stage_context t i raw m ds) = i" for m
    by (simp_all add: stage_context_def context_new_def with_raw_invoice_def Let_def)
  have n: "ac_tenant_id (context_new t i) = t" "ac_invoice_id (context_new t i) = i" by (simp_all add: context_new_def)
  show ?thesis
    using stub_gate [OF assms(1)] by (simp add: assms(2) server_agents_def dt gate_on_def stub_decision_def stub_of_def stub_reasoning_def c n)
qed

lemma stubs_complete:
  assumes "score_laws fj (w_numbers w)" and "w_agents w = server_agents fj lookup" and "set ns \<subseteq> fst ` set stub_types"
    and "''fraud_auditor'' \<notin> set ns \<or> fixture_verdict lookup t i = Approve"
  shows "pipeline_spec w t i raw (\<lambda>_. False) (ns @ ms) ds = pipeline_spec w t i raw (\<lambda>_. False) ms (ds @ map (stub_of fj lookup t i) ns)"
  using assms(3,4)
proof (induction ns arbitrary: ds)
  case (Cons n ns)
  have "gate_on w n (stub_of fj lookup t i n) = Approve" using stub_stage [OF assms(1,2), of n t i raw ds] Cons.prems by auto
  then show ?case using stub_stage [OF assms(1,2), of n t i raw ds] Cons.IH [of "ds @ [stub_of fj lookup t i n]"] Cons.prems by auto
qed simp

lemma server_pipeline:
  assumes "score_laws fj (w_numbers w)" and "w_agents w = server_agents fj lookup"
  shows "pipeline_spec w t i raw (\<lambda>_. False) (map fst stages) [] = (case fixture_verdict lookup t i of
      HaltWith r \<Rightarrow> GateHalted r (map (stub_of fj lookup t i) (take 3 (map fst stages)))
    | Approve \<Rightarrow> Completed (map (stub_of fj lookup t i) (map fst stages)))"
proof (cases "fixture_verdict lookup t i")
  case Approve
  have "set (map fst stages) \<subseteq> fst ` set stub_types" by (simp add: stages_def stub_types_def)
  then show ?thesis using Approve stubs_complete [OF assms, of "map fst stages" t i raw "[]" "[]"] by simp
next
  case (HaltWith r)
  have sub: "set [''extractor'', ''po_matcher''] \<subseteq> fst ` set stub_types" "''fraud_auditor'' \<in> fst ` set stub_types" by (simp_all add: stub_types_def)
  have no: "''fraud_auditor'' \<notin> set [''extractor'', ''po_matcher''] \<or> fixture_verdict lookup t i = Approve" by simp
  obtain tl where T: "map fst stages = [''extractor'', ''po_matcher''] @ ''fraud_auditor'' # tl" by (simp add: stages_def)
  have "pipeline_spec w t i raw (\<lambda>_. False) (map fst stages) [] =
      pipeline_spec w t i raw (\<lambda>_. False) (''fraud_auditor'' # tl) (map (stub_of fj lookup t i) [''extractor'', ''po_matcher''])"
    using stubs_complete [OF assms sub(1) no, of raw "''fraud_auditor'' # tl" "[]"] unfolding T append_Nil .
  moreover have "take 3 (map fst stages) = [''extractor'', ''po_matcher'', ''fraud_auditor'']" by (simp add: stages_def)
  ultimately show ?thesis
    using stub_stage [OF assms sub(2), of t i raw "map (stub_of fj lookup t i) [''extractor'', ''po_matcher'']"] HaltWith by auto
qed

text \<open>The fixtures as loaded, and what they decide.\<close>

lemma fixtures_loaded:
  "\<exists>fs. load_all upper b64 = Some fs \<and> (\<forall>t i. fixture_verdict (build_fixture_lookup fs) t i =
    (if (t, i) \<in> {(''stark'', ''stark-001''), (''stark'', ''stark-002'')} then HaltWith RiskScoreExceeded
     else if (t, i) = (''stark'', ''stark-003'') then HaltWith SecretLeakDetected
     else if (t, i) = (''wayne'', ''wayne-001'') then HaltWith CoherenceTooLow else Approve))"
  by (simp add: load_all_def FIXTURE_FILES_def raw_fixture_for_def demo_of_def build_fixture_lookup_def fixture_verdict_def halt_reason_of_def)

text \<open>Property C10: The served pipeline, which has no rogue monitor, halts exactly four invoices, by their names. An unregistered tenant and a
room that cannot be opened or written to are answered with their errors; every other run of a registered tenant is concluded with the outcome
\<open>Approve\<close>. In all cases the answer does not depend on the bytes of the invoice: the agents the server registers are stubs, and the agents
and models of the other crate take no part in it.\<close>

theorem server_verdict_exact:
  assumes "load_all upper b64 = Some fs" and "w_agents w = server_agents fj (build_fixture_lookup fs)" and "score_laws fj (w_numbers w)"
    and "o_rogue st = None"
  shows "\<exists>ds. \<forall>raw. fst (process_invoice w e t i raw st) =
    (if tenants (w_registry w) t = None then Some (Inl (TenantErr (UnknownTenant t)))
     else case w_open w (o_rooms st) t i of
       (Inl err, _) \<Rightarrow> Some (Inl (BandErr err))
     | (Inr room, rs) \<Rightarrow> (case w_post w rs room t ''orchestrator'' (''Processing invoice '' @ i) [] of
         (Inl err, _) \<Rightarrow> Some (Inl (BandErr err))
       | (Inr _, _) \<Rightarrow> conclude w e t i st
           (if (t, i) \<in> {(''stark'', ''stark-001''), (''stark'', ''stark-002'')} then HaltWith RiskScoreExceeded
            else if (t, i) = (''stark'', ''stark-003'') then HaltWith SecretLeakDetected
            else if (t, i) = (''wayne'', ''wayne-001'') then HaltWith CoherenceTooLow else Approve) ds))"
proof -
  let ?lk = "build_fixture_lookup fs"
  have v: "fixture_verdict ?lk t i = (if (t, i) \<in> {(''stark'', ''stark-001''), (''stark'', ''stark-002'')} then HaltWith RiskScoreExceeded
     else if (t, i) = (''stark'', ''stark-003'') then HaltWith SecretLeakDetected
     else if (t, i) = (''wayne'', ''wayne-001'') then HaltWith CoherenceTooLow else Approve)"
    using fixtures_loaded [of upper b64] assms(1) by auto
  have b: "rogue_blocks st = (\<lambda>_. False)" by (rule ext) (simp add: rogue_blocks_def assms(4))
  let ?ds = "case fixture_verdict ?lk t i of HaltWith _ \<Rightarrow> map (stub_of fj ?lk t i) (take 3 (map fst stages)) | Approve \<Rightarrow> map (stub_of fj ?lk t i) (map fst stages)"
  have run: "fst (process_invoice w e t i raw st) = conclude w e t i st (fixture_verdict ?lk t i) ?ds"
    if "tenants (w_registry w) t \<noteq> None" "w_open w (o_rooms st) t i = (Inr room, rs)"
      "w_post w rs room t ''orchestrator'' (''Processing invoice '' @ i) [] = (Inr (), rs')" for raw room rs rs'
    using process_invoice_result [OF that, of e raw] server_pipeline [OF assms(3,2), of t i raw]
    by (simp add: b split: outcome.split)
  have "fst (process_invoice w e t i raw st) = (if tenants (w_registry w) t = None then Some (Inl (TenantErr (UnknownTenant t)))
     else case w_open w (o_rooms st) t i of
       (Inl err, _) \<Rightarrow> Some (Inl (BandErr err))
     | (Inr room, rs) \<Rightarrow> (case w_post w rs room t ''orchestrator'' (''Processing invoice '' @ i) [] of
         (Inl err, _) \<Rightarrow> Some (Inl (BandErr err))
       | (Inr _, _) \<Rightarrow> conclude w e t i st (fixture_verdict ?lk t i) ?ds))" for raw
  proof (cases "tenants (w_registry w) t = None")
    case True
    then show ?thesis by (simp add: process_invoice_def)
  next
    case False
    obtain r rs where o: "w_open w (o_rooms st) t i = (r, rs)" by (cases "w_open w (o_rooms st) t i")
    show ?thesis
    proof (cases r)
      case (Inl err)
      then show ?thesis using False o by (simp add: process_invoice_def)
    next
      case (Inr room)
      obtain r' rs' where p: "w_post w rs room t ''orchestrator'' (''Processing invoice '' @ i) [] = (r', rs')"
        by (cases "w_post w rs room t ''orchestrator'' (''Processing invoice '' @ i) []")
      show ?thesis
      proof (cases r')
        case (Inl err)
        then show ?thesis using False o p \<open>r = Inr room\<close> by (simp add: process_invoice_def)
      next
        case (Inr u)
        then have "fst (process_invoice w e t i raw st) = conclude w e t i st (fixture_verdict ?lk t i) ?ds"
          using o p \<open>r = Inr room\<close> by (intro run [OF False]) simp_all
        then show ?thesis using o p by (simp add: False Inr \<open>r = Inr room\<close>)
      qed
    qed
  qed
  then show ?thesis unfolding v by blast
qed

definition toy_server :: "demo_fixture list \<Rightarrow> unit orch_world" where
  "toy_server fs = (toy_world [] JNull)\<lparr>w_agents := server_agents num_u32 (build_fixture_lookup fs), w_numbers := toy_numbers\<rparr>"

theorem server_verdict_exact_witness:
  "\<exists>fs ds. load_all id id = Some fs \<and> (\<forall>raw. fst (process_invoice (toy_server fs) toy_env ''stark'' ''i'' raw (toy_start None None)) =
     conclude (toy_server fs) toy_env ''stark'' ''i'' (toy_start None None) Approve ds)"
proof -
  obtain fs where fs: "load_all id id = Some fs" using fixtures_loaded by blast
  have laws: "score_laws num_u32 toy_numbers" by (simp add: score_laws_def toy_numbers_def num_u32_def)
  have "\<exists>ds. \<forall>raw. fst (process_invoice (toy_server fs) toy_env ''stark'' ''i'' raw (toy_start None None)) =
     conclude (toy_server fs) toy_env ''stark'' ''i'' (toy_start None None) Approve ds"
    using server_verdict_exact [OF fs, of "toy_server fs" num_u32 "toy_start None None" toy_env "''stark''" "''i''"] laws
    by (simp add: toy_server_def toy_defs)
  then show ?thesis using fs by blast
qed

end
