(* ===== verification/Metrics.thy ===== *)
theory Metrics
  imports LlmBackends "HOL-Library.Multiset"
begin

text \<open>
  \<^verbatim>\<open>crates/themis-compliance/src/featherless_metrics.rs\<close> and \<^verbatim>\<open>aiml_metrics.rs\<close>: the counters behind the metrics sink of the language-model
  backends, and their composition with it. The two files differ in the prices. An \<^verbatim>\<open>f64\<close> is its bit pattern with its operations as
  parameters; the index of the percentile, \<^verbatim>\<open>(len as f64 * 0.95).floor()\<close>, is computed in integers, with which it agrees up to the capacity.
\<close>

type_synonym f64 = "64 word"
type_synonym u128 = "128 word"

record f64_ops =
  fo_add :: "f64 \<Rightarrow> f64 \<Rightarrow> f64"
  fo_price :: "nat \<Rightarrow> nat \<Rightarrow> u32 \<Rightarrow> u32 \<Rightarrow> f64"
  fo_mean :: "u128 \<Rightarrow> nat \<Rightarrow> f64"
  fo_of_u64 :: "u64 \<Rightarrow> f64"

section \<open>State\<close>

definition LATENCY_RING_CAP :: nat where "LATENCY_RING_CAP = 1024"

record metrics_state =
  ms_calls :: u32
  ms_successes :: u32
  ms_latency_sum_ms :: u128
  ms_latency_ring :: "u64 list"
  ms_ring_idx :: nat
  ms_ring_filled :: bool
  ms_total_cost_usd :: f64
  ms_total_tokens_in :: u64
  ms_total_tokens_out :: u64
  ms_model :: string

record metrics_snapshot =
  sn_calls :: u32
  sn_successes :: u32
  sn_avg_latency_ms :: f64
  sn_p95_latency_ms :: f64
  sn_total_cost_usd :: f64
  sn_total_tokens_in :: u64
  sn_total_tokens_out :: u64
  sn_model :: string

definition metrics_default :: metrics_state where
  "metrics_default = \<lparr>ms_calls = 0, ms_successes = 0, ms_latency_sum_ms = 0, ms_latency_ring = replicate LATENCY_RING_CAP 0, ms_ring_idx = 0,
     ms_ring_filled = False, ms_total_cost_usd = 0, ms_total_tokens_in = 0, ms_total_tokens_out = 0, ms_model = []\<rparr>"

text \<open>Prices in cents per million tokens: 0.50 and 1.50 dollars, 3.15 and 15.75 dollars.\<close>

definition featherless_cost_usd :: "f64_ops \<Rightarrow> u32 \<Rightarrow> u32 \<Rightarrow> f64" where
  "featherless_cost_usd fo tokens_in tokens_out = fo_price fo 50 150 tokens_in tokens_out"

definition aiml_cost_usd :: "f64_ops \<Rightarrow> u32 \<Rightarrow> u32 \<Rightarrow> f64" where
  "aiml_cost_usd fo tokens_in tokens_out = fo_price fo 315 1575 tokens_in tokens_out"

definition record_outcome :: "f64_ops \<Rightarrow> (u32 \<Rightarrow> u32 \<Rightarrow> f64) \<Rightarrow> call_metrics \<Rightarrow> metrics_state \<Rightarrow> metrics_state" where
  "record_outcome fo cost m s =
     (let idx = (ms_ring_idx s + 1) mod LATENCY_RING_CAP
      in s\<lparr>ms_calls := saturating_add (ms_calls s) 1,
           ms_successes := (if cm_success m then saturating_add (ms_successes s) 1 else ms_successes s),
           ms_latency_sum_ms := saturating_add (ms_latency_sum_ms s) (ucast (cm_latency_ms m)),
           ms_latency_ring := (ms_latency_ring s)[ms_ring_idx s := cm_latency_ms m],
           ms_ring_idx := idx,
           ms_ring_filled := (idx = 0 \<or> ms_ring_filled s),
           ms_total_tokens_in := saturating_add (ms_total_tokens_in s) (ucast (cm_tokens_in m)),
           ms_total_tokens_out := saturating_add (ms_total_tokens_out s) (ucast (cm_tokens_out m)),
           ms_total_cost_usd := fo_add fo (ms_total_cost_usd s) (cost (cm_tokens_in m) (cm_tokens_out m)),
           ms_model := (if ms_model s = [] then cm_model m else ms_model s)\<rparr>)"

definition featherless_record_call :: "f64_ops \<Rightarrow> call_metrics \<Rightarrow> metrics_state \<Rightarrow> metrics_state" where
  "featherless_record_call fo = record_outcome fo (featherless_cost_usd fo)"

definition aiml_record_call :: "f64_ops \<Rightarrow> call_metrics \<Rightarrow> metrics_state \<Rightarrow> metrics_state" where
  "aiml_record_call fo = record_outcome fo (aiml_cost_usd fo)"

definition p95_index :: "nat \<Rightarrow> nat" where
  "p95_index n = min (95 * n div 100) (n - 1)"

definition metrics_snapshot_of :: "f64_ops \<Rightarrow> metrics_state \<Rightarrow> metrics_snapshot" where
  "metrics_snapshot_of fo s =
     (let ring_len = (if ms_ring_filled s then LATENCY_RING_CAP else ms_ring_idx s);
          (avg, p95) = (if ring_len = 0 then (0, 0)
            else let samples = sort (take ring_len (ms_latency_ring s))
                 in (fo_mean fo (ms_latency_sum_ms s) ring_len, fo_of_u64 fo (samples ! p95_index (length samples))))
      in \<lparr>sn_calls = ms_calls s, sn_successes = ms_successes s, sn_avg_latency_ms = avg, sn_p95_latency_ms = p95,
          sn_total_cost_usd = ms_total_cost_usd s, sn_total_tokens_in = ms_total_tokens_in s, sn_total_tokens_out = ms_total_tokens_out s,
          sn_model = ms_model s\<rparr>)"

text \<open>The two endpoints, \<^verbatim>\<open>get_featherless_metrics\<close> and \<^verbatim>\<open>get_aiml_metrics\<close>: without a sink the snapshot is all zero.\<close>

definition get_llm_metrics :: "f64_ops \<Rightarrow> metrics_state option \<Rightarrow> metrics_snapshot" where
  "get_llm_metrics fo sink = (case sink of
       Some s \<Rightarrow> metrics_snapshot_of fo s
     | None \<Rightarrow> \<lparr>sn_calls = 0, sn_successes = 0, sn_avg_latency_ms = 0, sn_p95_latency_ms = 0, sn_total_cost_usd = 0, sn_total_tokens_in = 0,
         sn_total_tokens_out = 0, sn_model = []\<rparr>)"

lemma no_sink_is_empty_sink: "get_llm_metrics fo None = get_llm_metrics fo (Some metrics_default)"
  by (simp add: get_llm_metrics_def metrics_snapshot_of_def metrics_default_def)

section \<open>The ring\<close>

definition recorded_state :: "f64_ops \<Rightarrow> (u32 \<Rightarrow> u32 \<Rightarrow> f64) \<Rightarrow> call_metrics list \<Rightarrow> metrics_state" where
  "recorded_state fo cost ms = foldl (\<lambda>s m. record_outcome fo cost m s) metrics_default ms"

lemma recorded_state_snoc [simp]: "recorded_state fo cost (ms @ [m]) = record_outcome fo cost m (recorded_state fo cost ms)"
  by (simp add: recorded_state_def)

lemma recorded_state_Nil [simp]: "recorded_state fo cost [] = metrics_default"
  by (simp add: recorded_state_def)

lemma cap_pos [simp]: "0 < LATENCY_RING_CAP"
  by (simp add: LATENCY_RING_CAP_def)

lemma ring_exact:
  "length (ms_latency_ring (recorded_state fo cost ms)) = LATENCY_RING_CAP \<and>
   ms_ring_idx (recorded_state fo cost ms) = length ms mod LATENCY_RING_CAP \<and>
   (ms_ring_filled (recorded_state fo cost ms) \<longleftrightarrow> LATENCY_RING_CAP \<le> length ms) \<and>
   (\<forall>j<length ms. length ms \<le> j + LATENCY_RING_CAP \<longrightarrow>
      ms_latency_ring (recorded_state fo cost ms) ! (j mod LATENCY_RING_CAP) = cm_latency_ms (ms ! j))"
proof (induction ms rule: rev_induct)
  case Nil
  then show ?case by (simp add: metrics_default_def)
next
  case (snoc m ms)
  let ?C = LATENCY_RING_CAP and ?s = "recorded_state fo cost ms" and ?n = "length ms"
  have idx: "Suc (?n mod ?C) mod ?C = 0 \<or> ?C \<le> ?n \<longleftrightarrow> ?C \<le> Suc ?n"
  proof -
    have "Suc (?n mod ?C) mod ?C = Suc ?n mod ?C" by (simp add: mod_Suc_eq)
    then show ?thesis by (metis Suc_leI dvd_imp_le le_SucI le_Suc_eq mod_0_imp_dvd mod_less mod_self nat.distinct(1) not_le zero_less_Suc)
  qed
  have nth: "(ms_latency_ring ?s)[?n mod ?C := cm_latency_ms m] ! (j mod ?C) = cm_latency_ms ((ms @ [m]) ! j)"
    if j: "j < Suc ?n" "Suc ?n \<le> j + ?C" for j
  proof (cases "j = ?n")
    case True
    then show ?thesis using snoc by simp
  next
    case False
    then have "j < ?n" using j by simp
    have "j mod ?C \<noteq> ?n mod ?C"
    proof
      assume "j mod ?C = ?n mod ?C"
      then have "?C dvd ?n - j" using \<open>j < ?n\<close> by (metis mod_eq_dvd_iff_nat less_imp_le)
      then have "?C \<le> ?n - j" using \<open>j < ?n\<close> by (simp add: dvd_imp_le)
      then show False using j by simp
    qed
    then show ?thesis using snoc \<open>j < ?n\<close> j by (simp add: nth_append)
  qed
  show ?case using snoc idx nth by (simp add: record_outcome_def Let_def mod_Suc_eq)
qed

lemma ring_samples:
  "sort (take (if ms_ring_filled (recorded_state fo cost ms) then LATENCY_RING_CAP else ms_ring_idx (recorded_state fo cost ms))
      (ms_latency_ring (recorded_state fo cost ms)))
   = sort (map cm_latency_ms (drop (length ms - LATENCY_RING_CAP) ms))"
proof -
  let ?C = LATENCY_RING_CAP and ?r = "ms_latency_ring (recorded_state fo cost ms)" and ?n = "length ms"
  note R = ring_exact [of fo cost ms]
  show ?thesis
  proof (cases "?C \<le> ?n")
    case False
    have "take ?n ?r = map cm_latency_ms ms"
      using R False by (intro nth_equalityI) (auto simp: nth_take)
    then show ?thesis using R False by simp
  next
    case True
    have "rotate ?n ?r = map cm_latency_ms (drop (?n - ?C) ms)"
    proof (rule nth_equalityI)
      show "length (rotate ?n ?r) = length (map cm_latency_ms (drop (?n - ?C) ms))" using R True by simp
      fix i assume "i < length (rotate ?n ?r)"
      then have i: "i < ?C" using R by simp
      have "?n - ?C + i < ?n" "?n \<le> ?n - ?C + i + ?C" using True i by simp_all
      moreover have "(?n + i) mod ?C = (?n - ?C + i) mod ?C"
        using True by (metis add.commute add.left_commute le_add_diff_inverse mod_add_self2)
      ultimately show "rotate ?n ?r ! i = map cm_latency_ms (drop (?n - ?C) ms) ! i"
        using R i True by (simp add: nth_rotate)
    qed
    moreover have "mset (rotate ?n ?r) = mset ?r"
      by (metis append_take_drop_id mset_append rotate_drop_take union_commute)
    ultimately have "mset ?r = mset (map cm_latency_ms (drop (?n - ?C) ms))" by (simp del: mset_map)
    then have "sort ?r = sort (map cm_latency_ms (drop (?n - ?C) ms))"
      by (intro properties_for_sort) (simp_all del: mset_map)
    moreover have "take ?C ?r = ?r" using R by simp
    ultimately show ?thesis using R True by simp
  qed
qed

lemma ring_len:
  "(if ms_ring_filled (recorded_state fo cost ms) then LATENCY_RING_CAP else ms_ring_idx (recorded_state fo cost ms))
   = min LATENCY_RING_CAP (length ms)"
  using ring_exact [of fo cost ms] by simp

lemma snapshot_latencies:
  fixes fo cost ms
  defines "s \<equiv> recorded_state fo cost ms" and "n \<equiv> min LATENCY_RING_CAP (length ms)"
  shows "sn_p95_latency_ms (metrics_snapshot_of fo s) =
      (if ms = [] then 0 else fo_of_u64 fo (sort (map cm_latency_ms (drop (length ms - n) ms)) ! p95_index n))"
    "sn_avg_latency_ms (metrics_snapshot_of fo s) = (if ms = [] then 0 else fo_mean fo (ms_latency_sum_ms s) n)"
proof -
  have e: "n = 0 \<longleftrightarrow> ms = []" using cap_pos by (cases ms) (simp_all add: n_def min_def)
  have d: "drop (length ms - LATENCY_RING_CAP) ms = drop (length ms - n) ms" by (simp add: n_def min_def)
  have l: "length (sort (take n (ms_latency_ring s))) = n" using ring_exact [of fo cost ms] by (simp add: n_def s_def)
  have r: "sort (take n (ms_latency_ring s)) = sort (map cm_latency_ms (drop (length ms - n) ms))"
    using ring_samples [of fo cost ms] unfolding ring_len d by (simp add: n_def s_def)
  note len = ring_len [of fo cost ms, folded s_def n_def]
  show "sn_p95_latency_ms (metrics_snapshot_of fo s) =
      (if ms = [] then 0 else fo_of_u64 fo (sort (map cm_latency_ms (drop (length ms - n) ms)) ! p95_index n))"
    unfolding metrics_snapshot_of_def Let_def len using e r l by simp
  show "sn_avg_latency_ms (metrics_snapshot_of fo s) = (if ms = [] then 0 else fo_mean fo (ms_latency_sum_ms s) n)"
    unfolding metrics_snapshot_of_def Let_def len using e by simp
qed

lemma snapshot_fields [simp]:
  "sn_calls (metrics_snapshot_of fo s) = ms_calls s" "sn_successes (metrics_snapshot_of fo s) = ms_successes s"
  "sn_total_tokens_in (metrics_snapshot_of fo s) = ms_total_tokens_in s" "sn_total_tokens_out (metrics_snapshot_of fo s) = ms_total_tokens_out s"
  by (simp_all add: metrics_snapshot_of_def Let_def split: prod.splits)

section \<open>The counters\<close>

lemma saturating_add_min':
  "unat (a :: 'a::len word) = min (2 ^ LENGTH('a) - 1) n \<Longrightarrow> unat (saturating_add a b) = min (2 ^ LENGTH('a) - 1) (n + unat b)"
  by (simp add: unat_saturating_add)

lemma unat_ucast_up: "LENGTH('a) \<le> LENGTH('b) \<Longrightarrow> unat (ucast (w :: 'a::len word) :: 'b::len word) = unat w"
  by (simp add: unsigned_ucast_eq take_bit_nat_eq_self order_less_le_trans [OF unsigned_less])

lemma counters_exact:
  fixes fo cost ms
  defines "s \<equiv> recorded_state fo cost ms"
  shows "unat (ms_calls s) = min (2 ^ 32 - 1) (length ms)"
    "unat (ms_successes s) = min (2 ^ 32 - 1) (length (filter cm_success ms))"
    "unat (ms_latency_sum_ms s) = min (2 ^ 128 - 1) (sum_list (map (unat \<circ> cm_latency_ms) ms))"
    "unat (ms_total_tokens_in s) = min (2 ^ 64 - 1) (sum_list (map (unat \<circ> cm_tokens_in) ms))"
    "unat (ms_total_tokens_out s) = min (2 ^ 64 - 1) (sum_list (map (unat \<circ> cm_tokens_out) ms))"
  unfolding s_def
proof (induction ms rule: rev_induct)
  case Nil
  {case 1 show ?case by (simp add: metrics_default_def)}
  {case 2 show ?case by (simp add: metrics_default_def)}
  {case 3 show ?case by (simp add: metrics_default_def)}
  {case 4 show ?case by (simp add: metrics_default_def)}
  {case 5 show ?case by (simp add: metrics_default_def)}
next
  case (snoc m ms)
  {case 1 show ?case using snoc(1) saturating_add_min' [where 'a=32, of _ _ 1] by (simp add: record_outcome_def Let_def)}
  {case 2 show ?case using snoc(2) saturating_add_min' [where 'a=32, of _ _ 1] by (simp add: record_outcome_def Let_def)}
  {case 3 show ?case using snoc(3) saturating_add_min' [where 'a=128, of _ _ "ucast (cm_latency_ms m)"]
      by (simp add: record_outcome_def Let_def unat_ucast_up)}
  {case 4 show ?case using snoc(4) saturating_add_min' [where 'a=64, of _ _ "ucast (cm_tokens_in m)"]
      by (simp add: record_outcome_def Let_def unat_ucast_up)}
  {case 5 show ?case using snoc(5) saturating_add_min' [where 'a=64, of _ _ "ucast (cm_tokens_out m)"]
      by (simp add: record_outcome_def Let_def unat_ucast_up)}
qed

text \<open>Property C34: After any sequence of calls recorded by the Featherless or by the AIML sink the snapshot counts the calls, the successes and
the tokens exactly (up to saturation), its p95 is the sample of rank floor(0.95 n) among the sorted latencies of the last n = min 1024
calls, and its average is the total latency of ALL calls, divided by n.\<close>

theorem metrics_snapshot_exact:
  fixes aiml ms fo
  defines "s \<equiv> foldl (\<lambda>s m. (if aiml then aiml_record_call fo else featherless_record_call fo) m s) metrics_default ms"
    and "n \<equiv> min LATENCY_RING_CAP (length ms)"
  shows "unat (sn_calls (metrics_snapshot_of fo s)) = min (2 ^ 32 - 1) (length ms)
    \<and> unat (sn_successes (metrics_snapshot_of fo s)) = min (2 ^ 32 - 1) (length (filter cm_success ms))
    \<and> unat (sn_total_tokens_in (metrics_snapshot_of fo s)) = min (2 ^ 64 - 1) (sum_list (map (unat \<circ> cm_tokens_in) ms))
    \<and> unat (sn_total_tokens_out (metrics_snapshot_of fo s)) = min (2 ^ 64 - 1) (sum_list (map (unat \<circ> cm_tokens_out) ms))
    \<and> sn_p95_latency_ms (metrics_snapshot_of fo s) =
        (if ms = [] then 0 else fo_of_u64 fo (sort (map cm_latency_ms (drop (length ms - n) ms)) ! p95_index n))
    \<and> sn_avg_latency_ms (metrics_snapshot_of fo s) = (if ms = [] then 0 else fo_mean fo (ms_latency_sum_ms s) n)
    \<and> unat (ms_latency_sum_ms s) = min (2 ^ 128 - 1) (sum_list (map (unat \<circ> cm_latency_ms) ms))"
proof -
  define cost where "cost = (if aiml then aiml_cost_usd fo else featherless_cost_usd fo)"
  have s: "s = recorded_state fo cost ms"
    by (simp add: s_def recorded_state_def featherless_record_call_def aiml_record_call_def cost_def)
  show ?thesis unfolding s n_def using counters_exact [of fo cost ms] snapshot_latencies [of fo cost ms]
    by simp
qed

text \<open>Fact: After 2048 calls of 100 milliseconds each the reported average is 200.\<close>

theorem average_overstates:
  "sn_avg_latency_ms (metrics_snapshot_of fo (foldl (\<lambda>s m. aiml_record_call fo m s) metrics_default
     (replicate 2048 \<lparr>cm_success = True, cm_latency_ms = 100, cm_tokens_in = 0, cm_tokens_out = 0, cm_model = ''m''\<rparr>)))
   = fo_mean fo (200 * 1024) 1024"
proof -
  let ?ms = "replicate 2048 \<lparr>cm_success = True, cm_latency_ms = 100, cm_tokens_in = 0, cm_tokens_out = 0, cm_model = ''m''\<rparr>"
  let ?s = "recorded_state fo (aiml_cost_usd fo) ?ms"
  have "unat (ms_latency_sum_ms ?s) = 204800"
    using counters_exact(3) [of fo "aiml_cost_usd fo" ?ms] by (simp add: map_replicate_const sum_list_replicate)
  moreover have "unat (200 * 1024 :: u128) = 204800" by simp
  ultimately have "ms_latency_sum_ms ?s = 200 * 1024" by (metis word_unat_eq_iff)
  then show ?thesis using snapshot_latencies(2) [of fo "aiml_cost_usd fo" ?ms]
    by (simp add: recorded_state_def aiml_record_call_def LATENCY_RING_CAP_def)
qed

section \<open>The sink of a backend\<close>

definition sink_after :: "(llm_world \<Rightarrow> llm_request \<Rightarrow> llm_result) \<Rightarrow> (call_metrics \<Rightarrow> metrics_state \<Rightarrow> metrics_state)
    \<Rightarrow> (llm_world \<times> llm_request) list \<Rightarrow> metrics_state" where
  "sink_after complete rc calls = foldl (\<lambda>s (w, req). foldl (\<lambda>s m. rc m s) s (recorded (snd (complete w req)))) metrics_default calls"

lemma sink_after_flat:
  "sink_after f (record_outcome fo cost) calls = recorded_state fo cost (concat (map (\<lambda>(w, req). recorded (snd (f w req))) calls))"
  by (induction calls rule: rev_induct) (simp_all add: sink_after_def recorded_state_def split: prod.splits)

context http_llm begin

lemma recorded_counts:
  assumes "hb_metrics b"
  shows "length (concat (map (\<lambda>(w, req). recorded (snd (complete w b req))) calls)) =
      length (filter (\<lambda>(w, req). \<not> unusable_body (fst (complete w b req))) calls)"
    and "length (filter cm_success (concat (map (\<lambda>(w, req). recorded (snd (complete w b req))) calls))) =
      length (filter (\<lambda>(w, req). \<not> isl (fst (complete w b req))) calls)"
proof -
  have one: "length (recorded (snd (complete w b req))) = (if unusable_body (fst (complete w b req)) then 0 else 1)"
    and ok: "length (filter cm_success (recorded (snd (complete w b req)))) = (if isl (fst (complete w b req)) then 0 else 1)" for w req
  proof -
    note R = complete_records [of w b req]
    show one: "length (recorded (snd (complete w b req))) = (if unusable_body (fst (complete w b req)) then 0 else 1)"
      using R assms by simp
    have "unusable_body (fst (complete w b req)) \<Longrightarrow> isl (fst (complete w b req))"
      by (cases "fst (complete w b req)") (simp_all add: unusable_body_def)
    then show "length (filter cm_success (recorded (snd (complete w b req)))) = (if isl (fst (complete w b req)) then 0 else 1)"
      using R one by (cases "recorded (snd (complete w b req))"; cases "unusable_body (fst (complete w b req))") simp_all
  qed
  show "length (concat (map (\<lambda>(w, req). recorded (snd (complete w b req))) calls)) =
      length (filter (\<lambda>(w, req). \<not> unusable_body (fst (complete w b req))) calls)"
  proof (induction calls)
    case (Cons c cs)
    then show ?case using one [of "fst c" "snd c"] by (cases c; cases "unusable_body (fst (complete (fst c) b (snd c)))") simp_all
  qed simp
  show "length (filter cm_success (concat (map (\<lambda>(w, req). recorded (snd (complete w b req))) calls))) =
      length (filter (\<lambda>(w, req). \<not> isl (fst (complete w b req))) calls)"
  proof (induction calls)
    case (Cons c cs)
    then show ?case using ok [of "fst c" "snd c"] by (cases c; cases "isl (fst (complete (fst c) b (snd c)))") simp_all
  qed simp
qed

end

text \<open>Fact: The call counter a metered Featherless backend reports is the number of its calls less those answered with an unusable body,
and the success counter the number of the calls that returned a response.\<close>

theorem sink_counts_calls:
  "unat (sn_calls (metrics_snapshot_of fo (sink_after (\<lambda>w. featherless_complete w (with_metrics b)) (featherless_record_call fo) calls)))
     = min (2 ^ 32 - 1) (length (filter (\<lambda>(w, req). \<not> unusable_body (fst (featherless_complete w (with_metrics b) req))) calls))
   \<and> unat (sn_successes (metrics_snapshot_of fo (sink_after (\<lambda>w. featherless_complete w (with_metrics b)) (featherless_record_call fo) calls)))
     = min (2 ^ 32 - 1) (length (filter (\<lambda>(w, req). \<not> isl (fst (featherless_complete w (with_metrics b) req))) calls))"
  using featherless.recorded_counts [of "with_metrics b" calls]
  by (simp add: featherless_record_call_def sink_after_flat counters_exact with_metrics_def)

end
