(* ===== verification/Routing.thy ===== *)
theory Routing
  imports Server Metrics
begin

text \<open>
  \<^verbatim>\<open>crates/themis-orchestrator/src/routing.rs\<close> and \<^verbatim>\<open>routing_config.rs\<close>: which backend each agent is given, the override of the model
  names by a file, and what the metrics of the shared Featherless sink say of the calls routed to it. The TOML parser is a parameter.
\<close>

section \<open>Model names\<close>

definition FRAUD_AUDITOR_FEATHERLESS_MODEL :: string where
  "FRAUD_AUDITOR_FEATHERLESS_MODEL = ''Qwen/Qwen3-Coder-30B-A3B-Instruct''"

definition GAAP_CLASSIFIER_FEATHERLESS_MODEL :: string where
  "GAAP_CLASSIFIER_FEATHERLESS_MODEL = ''meta-llama/Llama-3.3-70B-Instruct''"

definition ROUTED_AIML_MODEL :: string where "ROUTED_AIML_MODEL = ''anthropic/claude-sonnet-4.5''"

record routing_config =
  rg_fraud_auditor :: "string option"
  rg_gaap_classifier :: "string option"
  rg_aiml_api :: "string option"

definition routing_defaults :: routing_config where
  "routing_defaults = \<lparr>rg_fraud_auditor = Some FRAUD_AUDITOR_FEATHERLESS_MODEL, rg_gaap_classifier = Some GAAP_CLASSIFIER_FEATHERLESS_MODEL,
     rg_aiml_api = Some ROUTED_AIML_MODEL\<rparr>"

text \<open>Reading the file: its text, or whether the error is that it does not exist. Every error gives the compiled names.\<close>

definition routing_load_or_default :: "llm_world \<Rightarrow> string \<Rightarrow> (string \<Rightarrow> bool + string) \<Rightarrow> (string \<Rightarrow> string + routing_config) \<Rightarrow> routing_config" where
  "routing_load_or_default w crate_file read_to_string from_toml =
     (let path = (case lw_env w ''VOUCH_ROUTING_CONFIG'' of Some p \<Rightarrow> p | None \<Rightarrow> crate_file)
      in case read_to_string path of
           Inr content \<Rightarrow> (case from_toml content of Inr cfg \<Rightarrow> cfg | Inl _ \<Rightarrow> routing_defaults)
         | Inl not_found \<Rightarrow> routing_defaults)"

definition fraud_auditor_featherless_model :: "routing_config \<Rightarrow> string" where
  "fraud_auditor_featherless_model c = (case rg_fraud_auditor c of Some m \<Rightarrow> m | None \<Rightarrow> FRAUD_AUDITOR_FEATHERLESS_MODEL)"

definition gaap_classifier_featherless_model :: "routing_config \<Rightarrow> string" where
  "gaap_classifier_featherless_model c = (case rg_gaap_classifier c of Some m \<Rightarrow> m | None \<Rightarrow> GAAP_CLASSIFIER_FEATHERLESS_MODEL)"

definition aiml_api_model :: "routing_config \<Rightarrow> string" where
  "aiml_api_model c = (case rg_aiml_api c of Some m \<Rightarrow> m | None \<Rightarrow> ROUTED_AIML_MODEL)"

section \<open>Dispatch\<close>

datatype agent_backend = BackendAimlApi | BackendFeatherless | BackendFeatherlessLlama70b | BackendNone

definition backend_as_str :: "agent_backend \<Rightarrow> string" where
  "backend_as_str b = (case b of BackendAimlApi \<Rightarrow> ''aimlapi'' | BackendFeatherless \<Rightarrow> ''featherless''
     | BackendFeatherlessLlama70b \<Rightarrow> ''featherless-llama70b'' | BackendNone \<Rightarrow> ''deterministic'')"

definition backend_for_agent :: "string \<Rightarrow> agent_backend" where
  "backend_for_agent agent_name =
     (if agent_name = ''fraud_auditor'' then BackendFeatherless
      else if agent_name = ''gaap_classifier'' then BackendFeatherlessLlama70b
      else if agent_name \<in> {''po_matcher'', ''provenance_signer''} then BackendNone
      else BackendAimlApi)"

datatype routed_llm = RoutedFeatherless http_backend | RoutedAiml http_backend | RoutedMock mock_llm

definition routed_model_id :: "routed_llm \<Rightarrow> string" where
  "routed_model_id r = (case r of RoutedFeatherless b \<Rightarrow> hb_model b | RoutedAiml b \<Rightarrow> hb_model b | RoutedMock m \<Rightarrow> mk_model_id m)"

definition aiml_or_mock :: "llm_world \<Rightarrow> string \<Rightarrow> string \<Rightarrow> routed_llm" where
  "aiml_or_mock w aiml_model mock = (case aimlapi_from_env w aiml_model of Some b \<Rightarrow> RoutedAiml b | None \<Rightarrow> RoutedMock (mock_new mock))"

definition featherless_or :: "llm_world \<Rightarrow> string \<Rightarrow> string \<Rightarrow> string \<Rightarrow> routed_llm" where
  "featherless_or w model aiml_model mock =
     (case featherless_from_env w model of
        Some b \<Rightarrow> RoutedFeatherless (with_metrics b)
      | None \<Rightarrow> aiml_or_mock w aiml_model mock)"

definition build_routed_dispatch_with :: "llm_world \<Rightarrow> routing_config option \<Rightarrow> string \<rightharpoonup> routed_llm" where
  "build_routed_dispatch_with w cfg =
     (let fraud_model = (case cfg of Some c \<Rightarrow> fraud_auditor_featherless_model c | None \<Rightarrow> FRAUD_AUDITOR_FEATHERLESS_MODEL);
          gaap_model = (case cfg of Some c \<Rightarrow> gaap_classifier_featherless_model c | None \<Rightarrow> GAAP_CLASSIFIER_FEATHERLESS_MODEL);
          aiml_model = (case cfg of Some c \<Rightarrow> aiml_api_model c | None \<Rightarrow> ROUTED_AIML_MODEL);
          m = Map.empty(''fraud_auditor'' \<mapsto> featherless_or w fraud_model aiml_model ''mock-fraud-auditor-fallback'',
                        ''gaap_classifier'' \<mapsto> featherless_or w gaap_model aiml_model ''mock-gaap-classifier-fallback'');
          aiml = aiml_or_mock w aiml_model ''mock-aiml-fallback'';
          m = foldl (\<lambda>m n. m(n \<mapsto> aiml)) m [''extractor'', ''demo_narrator'', ''regression_tester'', ''audit_watchdog'']
      in foldl (\<lambda>m n. m(n \<mapsto> RoutedMock (mock_new (''deterministic-'' @ n)))) m [''po_matcher'', ''provenance_signer''])"

definition build_routed_dispatch :: "llm_world \<Rightarrow> string \<rightharpoonup> routed_llm" where
  "build_routed_dispatch w = build_routed_dispatch_with w None"

section \<open>Facts\<close>

definition env_key :: "llm_world \<Rightarrow> string \<Rightarrow> bool" where
  "env_key w v \<longleftrightarrow> (case lw_env w v of None \<Rightarrow> False | Some k \<Rightarrow> trim k \<noteq> [])"

lemma featherless_from_env_None: "featherless_from_env w m = None \<longleftrightarrow> \<not> env_key w ''FEATHERLESS_API_KEY''"
  by (simp add: featherless_from_env_def env_key_def Let_def split: option.split)

lemma aimlapi_from_env_None: "aimlapi_from_env w m = None \<longleftrightarrow> \<not> env_key w ''AIML_API_KEY''"
  by (simp add: aimlapi_from_env_def aimlapi_from_env_with_url_def env_key_def Let_def split: option.split)

lemma featherless_from_env_model: "featherless_from_env w m = Some b \<Longrightarrow> hb_model b = m"
  by (auto simp: featherless_from_env_def featherless_new_def Let_def split: option.splits if_splits bind_splits)

lemma aimlapi_from_env_model: "aimlapi_from_env w m = Some b \<Longrightarrow> hb_model b = m \<and> \<not> hb_metrics b"
  by (auto simp: aimlapi_from_env_def aimlapi_from_env_with_url_def aimlapi_new_def Let_def split: option.splits if_splits bind_splits)

text \<open>What an agent whose first choice is \<open>b\<close> is given, as the documentation states it: Featherless with its key, else the AIML gateway with
its key, else a mock; a deterministic agent gets a mock.\<close>

definition documented_model :: "llm_world \<Rightarrow> routing_config \<Rightarrow> string \<Rightarrow> string \<Rightarrow> string" where
  "documented_model w c mock a =
     (case backend_for_agent a of
        BackendFeatherless \<Rightarrow> if env_key w ''FEATHERLESS_API_KEY'' then fraud_auditor_featherless_model c
          else if env_key w ''AIML_API_KEY'' then aiml_api_model c else mock
      | BackendFeatherlessLlama70b \<Rightarrow> if env_key w ''FEATHERLESS_API_KEY'' then gaap_classifier_featherless_model c
          else if env_key w ''AIML_API_KEY'' then aiml_api_model c else mock
      | BackendAimlApi \<Rightarrow> if env_key w ''AIML_API_KEY'' then aiml_api_model c else mock
      | BackendNone \<Rightarrow> mock)"

definition mock_name :: "string \<Rightarrow> string" where
  "mock_name a = (if a = ''fraud_auditor'' then ''mock-fraud-auditor-fallback'' else if a = ''gaap_classifier'' then ''mock-gaap-classifier-fallback''
     else if backend_for_agent a = BackendNone then ''deterministic-'' @ a else ''mock-aiml-fallback'')"

definition routed_agents :: "string list" where
  "routed_agents = [''extractor'', ''po_matcher'', ''fraud_auditor'', ''gaap_classifier'', ''provenance_signer'', ''demo_narrator'',
     ''regression_tester'', ''audit_watchdog'']"

lemma aiml_or_mock_model: "routed_model_id (aiml_or_mock w m mock) = (if env_key w ''AIML_API_KEY'' then m else mock)"
  using aimlapi_from_env_None [of w m] aimlapi_from_env_model [of w m]
  by (auto simp: aiml_or_mock_def routed_model_id_def mock_new_def split: option.split)

lemma featherless_or_model:
  "routed_model_id (featherless_or w f m mock) = (if env_key w ''FEATHERLESS_API_KEY'' then f else if env_key w ''AIML_API_KEY'' then m else mock)"
  using featherless_from_env_None [of w f] featherless_from_env_model [of w f] aiml_or_mock_model [of w m mock]
  by (auto simp: featherless_or_def routed_model_id_def with_metrics_def split: option.split)

text \<open>Fact: The dispatch table has the eight agents, each on the model the documentation gives it for the keys that are set, also when the
names come from a file; without a file the names are the compiled ones.\<close>

theorem routing_exact:
  "map_option routed_model_id (build_routed_dispatch_with w (Some c) a) =
     (if a \<in> set routed_agents then Some (documented_model w c (mock_name a) a) else None)
   \<and> build_routed_dispatch w = build_routed_dispatch_with w (Some routing_defaults)"
proof
  show "map_option routed_model_id (build_routed_dispatch_with w (Some c) a) =
     (if a \<in> set routed_agents then Some (documented_model w c (mock_name a) a) else None)"
    by (auto simp: build_routed_dispatch_with_def Let_def routed_agents_def featherless_or_model aiml_or_mock_model
        documented_model_def mock_name_def backend_for_agent_def routed_model_id_def [of "RoutedMock _"] mock_new_def)
  show "build_routed_dispatch w = build_routed_dispatch_with w (Some routing_defaults)"
    by (simp add: build_routed_dispatch_def build_routed_dispatch_with_def routing_defaults_def fraud_auditor_featherless_model_def
        gaap_classifier_featherless_model_def aiml_api_model_def)
qed

text \<open>Fact: Every Featherless backend of the table reports to the sink; no AIML backend reports to any.\<close>

theorem routed_metering:
  "build_routed_dispatch_with w cfg a = Some (RoutedFeatherless b) \<Longrightarrow> hb_metrics b"
  "build_routed_dispatch_with w cfg a = Some (RoutedAiml b') \<Longrightarrow> \<not> hb_metrics b'"
  using aimlapi_from_env_model
  by (auto simp: build_routed_dispatch_with_def Let_def featherless_or_def aiml_or_mock_def with_metrics_def split: if_splits option.splits)

text \<open>Fact: With both keys set, the badge of the stream of events names the model the table routes to for the classifier only.\<close>

theorem badges_disagree:
  assumes "env_key w ''FEATHERLESS_API_KEY''" "env_key w ''AIML_API_KEY''" "a \<in> set routed_agents"
  shows "map_option routed_model_id (build_routed_dispatch w a) = Some (model_id_for_agent (role_of_name a)) \<longleftrightarrow> a = ''gaap_classifier''"
  unfolding routing_exact [of w routing_defaults, THEN conjunct2] routing_exact [THEN conjunct1]
  using assms
  by (auto simp: documented_model_def mock_name_def backend_for_agent_def routed_agents_def routing_defaults_def aiml_api_model_def
      fraud_auditor_featherless_model_def gaap_classifier_featherless_model_def FRAUD_AUDITOR_FEATHERLESS_MODEL_def
      GAAP_CLASSIFIER_FEATHERLESS_MODEL_def ROUTED_AIML_MODEL_def model_id_for_agent_def role_of_name_def)

text \<open>Fact: The sink names the model of the first call it records, and prices every call with the one tariff it has.\<close>

theorem sink_names_first_model:
  "cm_model m \<noteq> [] \<Longrightarrow> ms_model (recorded_state fo cost (m # ms)) = cm_model m"
  by (induction ms rule: rev_induct)
    (simp_all add: recorded_state_def record_outcome_def Let_def metrics_default_def)

theorem sink_prices_uniformly:
  "ms_total_cost_usd (recorded_state fo cost ms) = foldl (\<lambda>t m. fo_add fo t (cost (cm_tokens_in m) (cm_tokens_out m))) 0 ms"
  by (induction ms rule: rev_induct) (simp_all add: record_outcome_def Let_def metrics_default_def)

text \<open>Fact: A file may name the empty model, and it is passed on.\<close>

theorem empty_model_passes:
  "fraud_auditor_featherless_model (routing_load_or_default w f (\<lambda>_. Inr t) (\<lambda>_. Inr (routing_defaults\<lparr>rg_fraud_auditor := Some []\<rparr>))) = []"
  by (simp add: routing_load_or_default_def fraud_auditor_featherless_model_def routing_defaults_def)

end
