(* ===== verification/DualLlm.thy ===== *)
theory DualLlm
  imports Prelude
begin

text \<open>
  \<^verbatim>\<open>crates/themis-orchestrator/src/dual_llm.rs\<close>: the two language-model contexts, the redaction between them and the detector of
  redactable text in the quarantined prompt. The regular-expression engine is a parameter, the patterns are the source's.
\<close>

datatype dual_llm_error = CrossTaint | RedactionFailed string

record redactor =
  rd_compiles :: "string \<Rightarrow> bool"
  rd_is_match :: "string \<Rightarrow> string \<Rightarrow> bool"
  rd_replace_all :: "string \<Rightarrow> string \<Rightarrow> string \<Rightarrow> string"

definition default_redactions :: "string list" where
  "default_redactions =
     [''[A-Za-z0-9._%+-]+@[A-Za-z0-9.-]+'' @ [CHR 0x5C] @ ''.[A-Za-z]{2,}'',
      concat [''(?:'', [CHR 0x5C], ''+?'', [CHR 0x5C], ''d{1,3}['', [CHR 0x5C], ''s.-]?)?'', [CHR 0x5C], ''(?'', [CHR 0x5C], ''d{3}'', [CHR 0x5C],
        '')?['', [CHR 0x5C], ''s.-]?'', [CHR 0x5C], ''d{3}['', [CHR 0x5C], ''s.-]?'', [CHR 0x5C], ''d{4}''],
      concat [[CHR 0x5C], ''b(?:'', [CHR 0x5C], ''d[ -]?){13,19}'', [CHR 0x5C], ''b'']]"

definition redaction_with_defaults :: "redactor \<Rightarrow> string list" where
  "redaction_with_defaults rd = filter (rd_compiles rd) default_redactions"

definition redaction_apply :: "redactor \<Rightarrow> string list \<Rightarrow> string \<Rightarrow> string" where
  "redaction_apply rd pats body = foldl (\<lambda>out pat. rd_replace_all rd pat out ''[REDACTED]'') body pats"

text \<open>A backend answers a prompt and may change the state it keeps.\<close>

record 's dual_llm =
  dl_privileged :: "string \<Rightarrow> 's \<Rightarrow> (dual_llm_error + string) \<times> 's"
  dl_quarantined :: "string \<Rightarrow> 's \<Rightarrow> (dual_llm_error + string) \<times> 's"
  dl_redactions :: "string list"

definition dual_new :: "redactor \<Rightarrow> (string \<Rightarrow> 's \<Rightarrow> (dual_llm_error + string) \<times> 's) \<Rightarrow> (string \<Rightarrow> 's \<Rightarrow> (dual_llm_error + string) \<times> 's) \<Rightarrow> 's dual_llm" where
  "dual_new rd p q = \<lparr>dl_privileged = p, dl_quarantined = q, dl_redactions = redaction_with_defaults rd\<rparr>"

definition sanitize :: "redactor \<Rightarrow> 's dual_llm \<Rightarrow> string \<Rightarrow> string" where
  "sanitize rd d body = redaction_apply rd (dl_redactions d) body"

definition run_privileged :: "'s dual_llm \<Rightarrow> string \<Rightarrow> 's \<Rightarrow> (dual_llm_error + string) \<times> 's" where
  "run_privileged d prompt = dl_privileged d prompt"

definition run_quarantined :: "redactor \<Rightarrow> 's dual_llm \<Rightarrow> string \<Rightarrow> 's \<Rightarrow> (dual_llm_error + string) \<times> 's" where
  "run_quarantined rd d privileged_output = dl_quarantined d (sanitize rd d privileged_output)"

fun taint_loop :: "redactor \<Rightarrow> string list \<Rightarrow> string \<Rightarrow> string \<Rightarrow> dual_llm_error + unit" where
  "taint_loop rd [] q p = Inr ()"
| "taint_loop rd (pat # pats) q p =
     (if rd_is_match rd pat q \<and> \<not> rd_is_match rd pat p then Inl CrossTaint else taint_loop rd pats q p)"

definition check_cross_taint :: "redactor \<Rightarrow> 's dual_llm \<Rightarrow> string \<Rightarrow> string \<Rightarrow> dual_llm_error + unit" where
  "check_cross_taint rd d quarantined_prompt privileged_text = taint_loop rd (dl_redactions d) quarantined_prompt privileged_text"

section \<open>The detector\<close>

lemma taint_loop_exact: "taint_loop rd pats q p = Inl CrossTaint \<longleftrightarrow> (\<exists>pat\<in>set pats. rd_is_match rd pat q \<and> \<not> rd_is_match rd pat p)"
  by (induction pats) auto

text \<open>Fact: The detector reports a prompt with a pattern the privileged text lacks, and nothing else: in particular it accepts any privileged
text copied unredacted, with all the addresses and numbers it holds.\<close>

theorem raw_copy_untainted:
  "(check_cross_taint rd d q p = Inl CrossTaint \<longleftrightarrow> (\<exists>pat\<in>set (dl_redactions d). rd_is_match rd pat q \<and> \<not> rd_is_match rd pat p))
   \<and> check_cross_taint rd d p p = Inr ()"
proof -
  have "taint_loop rd pats p p = Inr ()" for pats by (induction pats) simp_all
  then show ?thesis by (simp add: check_cross_taint_def taint_loop_exact)
qed

section \<open>The redaction\<close>

text \<open>What the redaction needs of the engine: a replacement leaves no match of its pattern and creates none of another.\<close>

definition replaces_matches :: "redactor \<Rightarrow> string set \<Rightarrow> bool" where
  "replaces_matches rd P \<longleftrightarrow> (\<forall>pat\<in>P. \<forall>t. \<not> rd_is_match rd pat (rd_replace_all rd pat t ''[REDACTED]'') \<and>
     (\<forall>pat'\<in>P. rd_is_match rd pat' (rd_replace_all rd pat t ''[REDACTED]'') \<longrightarrow> rd_is_match rd pat' t))"

lemma replaces_matchesD:
  assumes "replaces_matches rd P"
  shows "p \<in> P \<Longrightarrow> \<not> rd_is_match rd p (rd_replace_all rd p t ''[REDACTED]'')"
    and "p \<in> P \<Longrightarrow> p' \<in> P \<Longrightarrow> rd_is_match rd p' (rd_replace_all rd p t ''[REDACTED]'') \<Longrightarrow> rd_is_match rd p' t"
  using assms unfolding replaces_matches_def by blast+

lemma redaction_keeps_clean:
  "replaces_matches rd P \<Longrightarrow> set pats \<subseteq> P \<Longrightarrow> pat \<in> P \<Longrightarrow> \<not> rd_is_match rd pat body \<Longrightarrow> \<not> rd_is_match rd pat (redaction_apply rd pats body)"
proof (induction pats arbitrary: body)
  case (Cons p ps)
  have "\<not> rd_is_match rd pat (rd_replace_all rd p body ''[REDACTED]'')"
    by (rule contrapos_nn [OF Cons.prems(4)], rule replaces_matchesD(2) [OF Cons.prems(1)]) (use Cons.prems(2,3) in auto)
  then have "\<not> rd_is_match rd pat (redaction_apply rd ps (rd_replace_all rd p body ''[REDACTED]''))"
    using Cons.IH [OF Cons.prems(1) _ Cons.prems(3)] Cons.prems(2) by simp
  then show ?case by (simp add: redaction_apply_def)
qed (simp add: redaction_apply_def)

lemma redaction_cleans:
  "replaces_matches rd P \<Longrightarrow> set pats \<subseteq> P \<Longrightarrow> pat \<in> set pats \<Longrightarrow> \<not> rd_is_match rd pat (redaction_apply rd pats body)"
proof (induction pats arbitrary: body)
  case (Cons p ps)
  have s: "redaction_apply rd (p # ps) body = redaction_apply rd ps (rd_replace_all rd p body ''[REDACTED]'')"
    by (simp add: redaction_apply_def)
  show ?case
  proof (cases "pat \<in> set ps")
    case True
    then show ?thesis using Cons s by simp
  next
    case False
    then have "pat = p" using Cons.prems by simp
    then have "\<not> rd_is_match rd pat (rd_replace_all rd p body ''[REDACTED]'')"
      by (simp, intro replaces_matchesD(1) [OF Cons.prems(1)]) (use Cons.prems(2) in simp)
    moreover have "set ps \<subseteq> P" "pat \<in> P" using Cons.prems(2) \<open>pat = p\<close> by simp_all
    ultimately show ?thesis unfolding s by (intro redaction_keeps_clean [OF Cons.prems(1)])
  qed
qed simp

text \<open>Fact: Over such an engine the quarantined model is called with a text no pattern matches, which the detector accepts.\<close>

theorem quarantine_sees_redacted:
  assumes "replaces_matches rd (set (dl_redactions d))"
  shows "\<exists>prompt. run_quarantined rd d out s = dl_quarantined d prompt s \<and> (\<forall>pat\<in>set (dl_redactions d). \<not> rd_is_match rd pat prompt)
    \<and> check_cross_taint rd d prompt out = Inr ()"
proof (intro exI conjI)
  show "run_quarantined rd d out s = dl_quarantined d (sanitize rd d out) s" by (simp add: run_quarantined_def)
  show clean: "\<forall>pat\<in>set (dl_redactions d). \<not> rd_is_match rd pat (sanitize rd d out)"
    using redaction_cleans [OF assms order_refl] by (simp add: sanitize_def)
  have "taint_loop rd pats q p = Inr ()" if "\<forall>pat\<in>set pats. \<not> rd_is_match rd pat q" for pats q p
    using that by (induction pats) simp_all
  then show "check_cross_taint rd d (sanitize rd d out) out = Inr ()" using clean by (simp add: check_cross_taint_def)
qed

definition toy_redactor :: redactor where
  "toy_redactor = \<lparr>rd_compiles = (\<lambda>_. True), rd_is_match = (\<lambda>p t. CHR ''@'' \<in> set t), rd_replace_all = (\<lambda>p t r. filter (\<lambda>c. c \<noteq> CHR ''@'') t)\<rparr>"

lemma toy_redactor_replaces: "replaces_matches toy_redactor P"
  by (auto simp: replaces_matches_def toy_redactor_def)

theorem quarantine_sees_redacted_witness:
  "\<exists>prompt. run_quarantined toy_redactor (dual_new toy_redactor (\<lambda>_ s. (Inr [], s)) (\<lambda>q s. (Inr q, s))) ''a@b'' () =
     dl_quarantined (dual_new toy_redactor (\<lambda>_ s. (Inr [], s)) (\<lambda>q s. (Inr q, s))) prompt ()"
  using quarantine_sees_redacted [OF toy_redactor_replaces, of "dual_new toy_redactor (\<lambda>_ s. (Inr [], s)) (\<lambda>q s. (Inr q, s))" "''a@b''" "()"]
  by blast

end
