(* ===== verification/Spec2Isabelle.thy ===== *)
theory Spec2Isabelle
  imports FrontEnds Chain ChainStore KeyRotation Breaker Orchestrator Scitt TsaClients Watermark McpServer A2a Routing DualLlm
begin

text \<open>
  A verification library of Apohara TrustLayer (Rust workspace under \<^verbatim>\<open>src/crates\<close>). Two programs carry the logic of the repository.

  \<^bold>\<open>The agent guard\<close> (\<^verbatim>\<open>crates/apohara-agentguard\<close>) is a hook of a coding agent. \<^verbatim>\<open>hook/mod.rs\<close> reads one JSON event and answers with an exit
  code and JSON: before a tool runs it combines the destructive-command gate (\<^verbatim>\<open>gate/\<close>), the path guard, the content firewall
  (\<^verbatim>\<open>firewall/\<close>), the user's tool rules and the policy engine (\<^verbatim>\<open>policy/\<close>) and keeps the strictest verdict; after a tool it scans the
  output and the canary token; every decision goes to the audit log. The same checks are served as MCP tools (\<^verbatim>\<open>mcp/\<close>) and subcommands
  (\<^verbatim>\<open>main.rs\<close>), and \<^verbatim>\<open>sandbox/\<close> runs a command under namespaces, Landlock and seccomp.

  \<^bold>\<open>The evidence pipeline\<close> (\<^verbatim>\<open>crates/themis-*\<close>, \<^verbatim>\<open>crates/tl-*\<close>) runs an invoice through eight agents, asks the BAAAR gate after the fraud
  auditor, signs the packet of decisions, anchors its hash and seals it into a hash chain per tenant.

  \<^bold>\<open>Theories of the agent guard\<close>, in the order of their imports:
  \<^item> \<open>Prelude\<close>: Rust strings as byte lists (\<^verbatim>\<open>trim\<close>, \<^verbatim>\<open>split_whitespace\<close>, \<^verbatim>\<open>find\<close>, UTF-8 boundaries), hex and integer encodings; the
    collections \<open>rust_str\<close> and \<open>ascii_text\<close>.
  \<^item> \<open>Verdicts\<close> (\<^verbatim>\<open>verdict.rs\<close>), \<open>Matching\<close> (\<^verbatim>\<open>policy/matcher.rs\<close>, \<^verbatim>\<open>glob_match\<close>), \<open>Config\<close> (\<^verbatim>\<open>config.rs\<close>).
  \<^item> \<open>Compound\<close>, \<open>Normalize\<close>, \<open>Resolve\<close>, \<open>Decode\<close>, \<open>Taxonomy\<close>, \<open>Gate\<close> (\<^verbatim>\<open>gate/*.rs\<close>): the splitter, the rewriting passes with their budget,
    variables, base64, the rule tables, and \<open>evaluate\<close>. Lemmas: the verdict of the gate is that of the worst hit in a set of hits
    described without the control flow; an injected leg, a live substitution and an encoded payload are found wherever they stand;
    round trips and bounds of the passes.
  \<^item> \<open>Contract\<close> (\<^verbatim>\<open>hook/contract.rs\<close>), \<open>Policy\<close> (\<^verbatim>\<open>policy/schema.rs\<close>, \<^verbatim>\<open>engine.rs\<close>), \<open>FirewallRules\<close> and \<open>Firewall\<close> (\<^verbatim>\<open>firewall/*.rs\<close>),
    \<open>Pathguard\<close>, \<open>Canary\<close>, \<open>AuditLog\<close> (\<^verbatim>\<open>hook/pathguard.rs\<close>, \<^verbatim>\<open>hook/canary.rs\<close>, \<^verbatim>\<open>audit.rs\<close>, \<^verbatim>\<open>secrets.rs\<close>). Lemmas: the answer format on every
    verdict, exact budgets over histories of calls, the worst rule wins, the forbidden IPv4 ranges, masked secrets.
  \<^item> \<open>Hook\<close> (\<^verbatim>\<open>hook/mod.rs\<close>): dispatch of the events. Lemmas: the hook always answers, the strictest check decides, an unreadable policy denies.
  \<^item> \<open>Pathsafe\<close> (\<^verbatim>\<open>sandbox/pathsafe.rs\<close>, \<^verbatim>\<open>permission.rs\<close>, \<^verbatim>\<open>error.rs\<close>), \<open>SeccompProfile\<close> (\<^verbatim>\<open>linux/syscalls.rs\<close>, \<^verbatim>\<open>profile.rs\<close>), \<open>LandlockRules\<close>
    (\<^verbatim>\<open>linux/landlock.rs\<close>), \<open>SandboxRun\<close> (\<^verbatim>\<open>linux/runner.rs\<close>, \<^verbatim>\<open>namespace.rs\<close>): the sandbox. Lemmas: path resolution computes the resolution
    relation of the file system with its forty links, the installed filter and rules permit exactly what the tier says, a command is
    executed only after the whole set-up and a failure of it is reported.
  \<^item> \<open>LineServer\<close>: the locale \<open>line_server\<close>, the contract of the two JSON-RPC loops over standard input, interpreted in \<open>FrontEnds\<close> and
    \<open>McpServer\<close>.
  \<^item> \<open>FrontEnds\<close> (\<^verbatim>\<open>mcp/mod.rs\<close>, \<^verbatim>\<open>main.rs\<close>): every request is answered, the subcommands agree with the checks they call.

  \<^bold>\<open>Theories of the evidence pipeline\<close>:
  \<^item> \<open>Chain\<close> (\<^verbatim>\<open>tl-chain\<close>): the locale \<open>hash_chain\<close> states what both chains share (an append that links to the last hash, a verifier)
    and proves once that the root commits to the history; it is interpreted on \<^verbatim>\<open>tl-chain\<close> here and on the evidence chain in
    \<open>EvidenceChain\<close> (\<^verbatim>\<open>themis-evidence/src/chain.rs\<close>, with retention, and the keyed root of \<^verbatim>\<open>tl-evidence/src/hmac_chain.rs\<close>).
  \<^item> \<open>KeyRotation\<close> (\<^verbatim>\<open>tl-evidence/src/key_rotation.rs\<close>): reachable key stores keep a linked rotation log, and acceptance of a key is
    exactly what the history of rotations and the grace period say.
  \<^item> \<open>Breaker\<close> (\<^verbatim>\<open>circuit_breaker.rs\<close>, \<^verbatim>\<open>retry.rs\<close>): the breaker as a sequence of calls and as interleaved steps of concurrent calls over
    the lock and the atomic counter; the retry loop with its termination.
  \<^item> \<open>Baaar\<close> (\<^verbatim>\<open>themis-agents/src/baaar.rs\<close>, \<^verbatim>\<open>baaar_z3.rs\<close>, \<^verbatim>\<open>tl-gate\<close>), \<open>InvoiceState\<close> (\<^verbatim>\<open>state.rs\<close>), \<open>Guards\<close> (\<^verbatim>\<open>human_guard.rs\<close>,
    \<^verbatim>\<open>rogue_monitor.rs\<close>): the gates agree on their first true condition, the history of a machine is a path, the guards answer as their
    specification over the history does.
  \<^item> \<open>Evidence\<close> (\<^verbatim>\<open>themis-evidence/src/packet.rs\<close>, \<^verbatim>\<open>signer.rs\<close>): what is sealed verifies then and after any later calls.
  \<^item> \<open>Tenants\<close> (\<^verbatim>\<open>tenants.rs\<close>, \<^verbatim>\<open>keyring.rs\<close>, \<^verbatim>\<open>room.rs\<close>): rooms of a tenant are its own; the locale \<open>band_room\<close> is the contract of a room,
    interpreted on the in-memory room.
  \<^item> \<open>Packets\<close> (\<^verbatim>\<open>decision.rs\<close>, \<^verbatim>\<open>traits.rs\<close>, \<^verbatim>\<open>packet.rs\<close>, \<^verbatim>\<open>events.rs\<close>) and \<open>Orchestrator\<close> (\<^verbatim>\<open>orchestrator.rs\<close>, \<^verbatim>\<open>evidence_sealing.rs\<close>,
    \<^verbatim>\<open>rekor_anchoring.rs\<close>): one run with all its early returns refines the plain pipeline of agents; its signature, its transcript and
    what the guards do to it over many runs.
  \<^item> \<open>Trust\<close> (\<^verbatim>\<open>themis-band-client/src/signed_message.rs\<close>, \<^verbatim>\<open>trust_gate.rs\<close>, \<^verbatim>\<open>tl-mcp-server/src/rule_of_two.rs\<close>, \<^verbatim>\<open>tl-argus/src/cordon.rs\<close>)
    and \<open>Scitt\<close> (\<^verbatim>\<open>tl-scitt\<close>): which messages, quorums, texts and receipts are accepted, each stated as an equivalence.
  \<^item> \<open>ChainStore\<close> (\<^verbatim>\<open>themis-evidence/src/persistence.rs\<close>): the chain on disk under failing and interrupted writes, as a step relation.
  \<^item> \<open>DerTlv\<close>, \<open>Timestamps\<close> (\<^verbatim>\<open>themis-evidence/src/timestamp.rs\<close>) and \<open>TsaClients\<close> (\<^verbatim>\<open>tl-evidence/src/tsa.rs\<close>, \<^verbatim>\<open>tsa/*.rs\<close>): the hand-written DER
    readers with their round trips, requesting and verifying RFC 3161 stamps (the trait as the locale \<open>timestamp_authority\<close>), the choice
    of a client and the trust list.
  \<^item> \<open>Watermark\<close> (\<^verbatim>\<open>tl-watermark\<close>): the providers of the trait as interpretations of the locale \<open>watermark_provider\<close>, what each detects of its
    own output, and the token test of the text watermark.
  \<^item> \<open>McpBackends\<close>, \<open>McpTools\<close>, \<open>McpServer\<close> (\<^verbatim>\<open>tl-mcp-server\<close>): the services, the 36 tools and the JSON-RPC server: which requests are
    answered and how, which end the process, and that untrusted text cannot leave its envelope.

  \<^item> \<open>Compliance\<close> (\<^verbatim>\<open>themis-compliance\<close>: \<^verbatim>\<open>service.rs\<close> and the five mappers, interpretations of the locale \<open>compliance_mapper\<close>): what a
    report counts. \<open>WireVerify\<close> (\<^verbatim>\<open>wire_format.rs\<close>, \<^verbatim>\<open>bin/tl-verify\<close>) and \<open>HttpApi\<close> (\<^verbatim>\<open>http.rs\<close>): what the orchestrator stores and serves over
    sequences of requests, that a downloaded packet passes the offline verifier, and what that verifier does not bind. \<open>A2a\<close>
    (\<^verbatim>\<open>a2a_handler.rs\<close>): the JSON-RPC endpoint for peers, its replies, tasks and verdicts.
  \<^item> \<open>Compressor\<close> (\<^verbatim>\<open>themis-compressor\<close>): what compression keeps of a text, and the choice of a strategy.
  \<^item> \<open>LlmBackends\<close>, \<open>Agents\<close>, \<open>ShadowAgents\<close> (\<^verbatim>\<open>themis-agents\<close>): the providers as interpretations of the locale \<open>http_llm\<close>, with their retries and
    records; the eight agents as interpretations of the locale \<open>decision_agent\<close>: what each reads of the decision of another, where the
    gate of the auditor and that of the orchestrator agree, what the watchdog and the regression tester cannot see. \<open>Server\<close>
    (\<^verbatim>\<open>bin/themis-orchestrator.rs\<close>, \<^verbatim>\<open>fixtures.rs\<close>, \<^verbatim>\<open>llm_backend.rs\<close>): the verdicts of the served pipeline.
  \<^item> \<open>Metrics\<close> (\<^verbatim>\<open>featherless_metrics.rs\<close>, \<^verbatim>\<open>aiml_metrics.rs\<close>): the counters as functions of the calls recorded, and of the calls made of a
    backend. \<open>Routing\<close> (\<^verbatim>\<open>routing.rs\<close>, \<^verbatim>\<open>routing_config.rs\<close>): the backend of each agent. \<open>DualLlm\<close> (\<^verbatim>\<open>dual_llm.rs\<close>): the redaction between
    the two contexts and what its detector misses.

  \<^bold>\<open>Correspondence.\<close> A struct is a record and an enum a datatype with the constructors of the source, a \<^verbatim>\<open>Result\<close> is a sum with the error
  on the left, mutable state is passed and returned, a panic is \<open>None\<close>. Machine integers are words of their width; \<^verbatim>\<open>f32\<close> scores are their
  bit patterns with the order of IEEE 754. Strings are UTF-8 byte lists. Locked operations are atomic; the breaker, which drops its
  lock within a call, has its steps interleaved.

  \<^bold>\<open>Parameters.\<close> Code outside the repository is an argument: the regular-expression engine (the patterns are the source's), the JSON and
  TOML codecs, the ASN.1 and certificate decoders, the kernel and its Landlock and seccomp interfaces, base64, BLAKE3, Ed25519, HMAC, HKDF, UUIDs, clocks, the file system, HTTP, the language models, the
  time-stamping authority and the transparency log. What a theorem needs of them is a hypothesis it names.

  \<^bold>\<open>Bounds.\<close> No fuel is used: loops are structural or have a measure (remaining input, remaining states of the machine, remaining
  attempts); the loop over a PEM file, which depends on the progress of the parser, is a partial function with a theorem that it returns. The caps of the source (rewrites, bytes, substitution and decoding depth) are its constants. Hypotheses such as a history of
  fewer than 2^28 or 2^64 calls keep machine counters from wrapping.

  \<^bold>\<open>Not modelled.\<close> The routing and static pages of the HTTP front ends, the clients of log services (gRPC), the subprocess room
  client, PDF output, the WebAssembly and C bindings, and the code in other languages: their effects lie outside the program or they only
  forward to the code above. The policy and receipt crates are not modelled.
\<close>

end
